(* ===== verification/Prelude.thy ===== *)
theory Prelude
  imports Main
begin

text \<open>
  Generic material shared by every component of the development.

  \<^item> Tables. A database table, and the hash maps and vectors of the in-memory store, are lists
    of rows in an unspecified physical order. \<open>update_rows\<close> is \<open>UPDATE ... WHERE\<close>,
    \<open>find_row\<close> is a lookup of at most one row, \<open>delete_rows\<close> is \<open>DELETE ... WHERE\<close>.
  \<^item> Signed 32-bit integers (\<open>i32\<close>) as \<open>int\<close> with the wrap-around of a release build
    written out by \<open>i32_wrap\<close>.
  \<^item> Decimal and hexadecimal rendering of numbers, as \<open>format!\<close> does it.
  The collection \<open>rows\<close> holds the simplification rules for tables.
\<close>

named_theorems rows \<open>simplification rules for tables\<close>

type_synonym uuid = nat
type_synonym instant = int
type_synonym i32 = int

section \<open>Tables as lists of rows\<close>

definition update_rows :: "('r \<Rightarrow> bool) \<Rightarrow> ('r \<Rightarrow> 'r) \<Rightarrow> 'r list \<Rightarrow> 'r list" where
  "update_rows P f rs = map (\<lambda>r. if P r then f r else r) rs"

definition delete_rows :: "('r \<Rightarrow> bool) \<Rightarrow> 'r list \<Rightarrow> 'r list" where
  "delete_rows P rs = filter (\<lambda>r. \<not> P r) rs"

definition find_row :: "('r \<Rightarrow> bool) \<Rightarrow> 'r list \<Rightarrow> 'r option" where
  "find_row P rs = find P rs"

definition unique_on :: "('r \<Rightarrow> 'k) \<Rightarrow> 'r list \<Rightarrow> bool" where
  "unique_on k rs = distinct (map k rs)"

lemma length_update_rows [simp, rows]: "length (update_rows P f rs) = length rs"
  by (simp add: update_rows_def)

lemma update_rows_Nil [simp, rows]: "update_rows P f [] = []"
  by (simp add: update_rows_def)

lemma update_rows_Cons [simp, rows]:
  "update_rows P f (r # rs) = (if P r then f r else r) # update_rows P f rs"
  by (simp add: update_rows_def)

lemma update_rows_append [rows]:
  "update_rows P f (rs @ ss) = update_rows P f rs @ update_rows P f ss"
  by (simp add: update_rows_def)

lemma in_update_rows:
  "x \<in> set (update_rows P f rs) \<longleftrightarrow> (\<exists>r \<in> set rs. x = (if P r then f r else r))"
  by (auto simp: update_rows_def image_iff)

lemma update_rows_cases:
  assumes "x \<in> set (update_rows P f rs)"
  obtains (updated) r where "r \<in> set rs" and "P r" and "x = f r"
    | (kept) "x \<in> set rs" and "\<not> P x"
  using assms by (auto simp: in_update_rows split: if_splits)

lemma map_update_rows_same [rows]:
  "(\<And>r. P r \<Longrightarrow> k (f r) = k r) \<Longrightarrow> map k (update_rows P f rs) = map k rs"
  by (simp add: update_rows_def)

lemma image_update_rows_same [rows]:
  "(\<And>r. P r \<Longrightarrow> k (f r) = k r) \<Longrightarrow> k ` set (update_rows P f rs) = k ` set rs"
  using map_update_rows_same[of P k f rs] by (metis set_map)

lemma unique_on_update_rows [rows]:
  "(\<And>r. P r \<Longrightarrow> k (f r) = k r) \<Longrightarrow> unique_on k (update_rows P f rs) = unique_on k rs"
  by (simp add: unique_on_def map_update_rows_same)

lemma update_rows_none [rows]: "\<forall>r \<in> set rs. \<not> P r \<Longrightarrow> update_rows P f rs = rs"
  by (induction rs) auto

lemma filter_update_rows_same:
  "(\<And>r. P r \<Longrightarrow> Q (f r) = Q r) \<Longrightarrow>
   filter Q (update_rows P f rs) = update_rows P f (filter Q rs)"
  by (induction rs) auto

lemma find_row_Nil [simp, rows]: "find_row P [] = None"
  by (simp add: find_row_def)

lemma find_row_Cons [simp, rows]: "find_row P (r # rs) = (if P r then Some r else find_row P rs)"
  by (simp add: find_row_def)

lemma find_row_SomeD: "find_row P rs = Some r \<Longrightarrow> r \<in> set rs \<and> P r"
  by (auto simp: find_row_def find_Some_iff)

lemma find_row_None_iff: "find_row P rs = None \<longleftrightarrow> (\<forall>r \<in> set rs. \<not> P r)"
  by (auto simp: find_row_def find_None_iff)

lemma find_row_append:
  "find_row P (rs @ ss) = (case find_row P rs of None \<Rightarrow> find_row P ss | Some r \<Rightarrow> Some r)"
  by (induction rs) auto

lemma find_row_cong: "(\<And>r. r \<in> set rs \<Longrightarrow> P r = Q r) \<Longrightarrow> find_row P rs = find_row Q rs"
  by (induction rs) auto

text \<open>A row updated in place is found again, updated, when the search key is not touched.\<close>

lemma find_row_update_rows:
  "(\<And>r. P r \<Longrightarrow> Q (f r) = Q r) \<Longrightarrow>
   find_row Q (update_rows P f rs) = map_option (\<lambda>r. if P r then f r else r) (find_row Q rs)"
  by (induction rs) auto

lemma find_row_uniqueI:
  assumes "unique_on k rs" and "r \<in> set rs"
  shows "find_row (\<lambda>x. k x = k r) rs = Some r"
  using assms by (induction rs) (auto simp: unique_on_def rev_image_eqI)

lemma unique_onD: "unique_on k rs \<Longrightarrow> r \<in> set rs \<Longrightarrow> s \<in> set rs \<Longrightarrow> k r = k s \<Longrightarrow> r = s"
  by (auto simp: unique_on_def distinct_map dest: inj_onD)

lemma unique_on_Nil [simp]: "unique_on k []"
  by (simp add: unique_on_def)

lemma unique_on_snoc [simp]: "unique_on k (rs @ [r]) \<longleftrightarrow> unique_on k rs \<and> k r \<notin> k ` set rs"
  by (auto simp: unique_on_def)

lemma unique_on_filter: "unique_on k rs \<Longrightarrow> unique_on k (filter P rs)"
  by (simp add: unique_on_def distinct_map_filter)

lemma set_delete_rows [simp, rows]: "set (delete_rows P rs) = {r \<in> set rs. \<not> P r}"
  by (auto simp: delete_rows_def)

lemma unique_on_delete_rows: "unique_on k rs \<Longrightarrow> unique_on k (delete_rows P rs)"
  by (simp add: delete_rows_def unique_on_filter)

lemma find_row_unique_on:
  assumes "unique_on f rs" "r \<in> set rs" "P r"
  shows "find_row (\<lambda>x. f x = f r \<and> P x) rs = Some r"
  using assms by (induction rs) (auto simp: unique_on_def rev_image_eqI)

lemma find_row_unique_and:
  assumes "unique_on k rs"
  shows "find_row (\<lambda>r. k r = i \<and> Q r) rs =
     (case find_row (\<lambda>r. k r = i) rs of None \<Rightarrow> None | Some r \<Rightarrow> if Q r then Some r else None)"
proof (cases "find_row (\<lambda>r. k r = i \<and> Q r) rs")
  case None
  then have "\<forall>r \<in> set rs. k r = i \<longrightarrow> \<not> Q r" by (simp add: find_row_None_iff)
  with None show ?thesis by (auto split: option.splits dest: find_row_SomeD)
next
  case (Some r)
  then have r: "r \<in> set rs" "k r = i" "Q r" by (auto dest: find_row_SomeD)
  from find_row_uniqueI[OF assms r(1)] r Some show ?thesis by simp
qed

lemma update_rows_unique_and:
  "unique_on k rs \<Longrightarrow> find_row (\<lambda>r. k r = i) rs = Some d \<Longrightarrow> Q d \<Longrightarrow>
   update_rows (\<lambda>r. k r = i \<and> Q r) f rs = update_rows (\<lambda>r. k r = i) f rs"
  by (auto simp: update_rows_def dest!: find_row_SomeD dest: unique_onD)

section \<open>Signed 32-bit integers\<close>

definition i32_min :: int where "i32_min = - 2147483648"
definition i32_max :: int where "i32_max = 2147483647"

definition is_i32 :: "int \<Rightarrow> bool" where
  "is_i32 x \<longleftrightarrow> i32_min \<le> x \<and> x \<le> i32_max"

definition i32_wrap :: "int \<Rightarrow> int" where
  "i32_wrap x = (x + 2147483648) mod 4294967296 - 2147483648"

lemma is_i32_wrap [simp]: "is_i32 (i32_wrap x)"
proof -
  have "0 \<le> (x + 2147483648) mod 4294967296" "(x + 2147483648) mod 4294967296 < 4294967296"
    by simp_all
  then show ?thesis
    by (simp add: is_i32_def i32_wrap_def i32_min_def i32_max_def)
qed

lemma i32_wrap_id: "is_i32 x \<Longrightarrow> i32_wrap x = x"
  by (simp add: is_i32_def i32_wrap_def i32_min_def i32_max_def)

section \<open>Rendering of numbers\<close>

definition digit_char :: "nat \<Rightarrow> char" where
  "digit_char d = char_of (48 + d)"

fun nat_dec :: "nat \<Rightarrow> string" where
  "nat_dec n = (if n < 10 then [digit_char n] else nat_dec (n div 10) @ [digit_char (n mod 10)])"

declare nat_dec.simps [simp del]

definition int_dec :: "int \<Rightarrow> string" where
  "int_dec i = (if i < 0 then CHR ''-'' # nat_dec (nat (- i)) else nat_dec (nat i))"

definition hex_char :: "nat \<Rightarrow> char" where
  "hex_char d = (if d < 10 then char_of (48 + d) else char_of (87 + d))"

text \<open>\<open>hex_digits k n\<close>: the \<open>k\<close> low hexadecimal digits of \<open>n\<close>, most significant first.\<close>

fun hex_digits :: "nat \<Rightarrow> nat \<Rightarrow> string" where
  "hex_digits 0 n = []"
| "hex_digits (Suc k) n = hex_digits k (n div 16) @ [hex_char (n mod 16)]"

text \<open>The hyphenated form in which a UUID is displayed.\<close>

definition uuid_string :: "uuid \<Rightarrow> string" where
  "uuid_string u =
     (let h = hex_digits 32 u
      in take 8 h @ ''-'' @ take 4 (drop 8 h) @ ''-'' @ take 4 (drop 12 h) @ ''-''
         @ take 4 (drop 16 h) @ ''-'' @ drop 20 h)"

lemma nat_dec_nonempty [simp]: "nat_dec n \<noteq> []"
  by (subst nat_dec.simps) simp

lemma length_hex_digits [simp]: "length (hex_digits k n) = k"
  by (induction k arbitrary: n) auto

lemma length_uuid_string: "length (uuid_string u) = 36"
  by (simp add: uuid_string_def Let_def)

section \<open>Options and results\<close>

definition ok_or :: "'e \<Rightarrow> 'a option \<Rightarrow> 'e + 'a" where
  "ok_or e x = (case x of None \<Rightarrow> Inl e | Some a \<Rightarrow> Inr a)"

definition map_err :: "('e \<Rightarrow> 'f) \<Rightarrow> 'e + 'a \<Rightarrow> 'f + 'a" where
  "map_err f r = (case r of Inl e \<Rightarrow> Inl (f e) | Inr a \<Rightarrow> Inr a)"

definition bind_ok :: "'e + 'a \<Rightarrow> ('a \<Rightarrow> 'e + 'b) \<Rightarrow> 'e + 'b" where
  "bind_ok r k = (case r of Inl e \<Rightarrow> Inl e | Inr a \<Rightarrow> k a)"

lemma ok_or_simps [simp]: "ok_or e None = Inl e" "ok_or e (Some a) = Inr a"
  by (simp_all add: ok_or_def)

lemma map_err_simps [simp]: "map_err f (Inl e) = Inl (f e)" "map_err f (Inr a) = Inr a"
  by (simp_all add: map_err_def)

lemma bind_ok_simps [simp]: "bind_ok (Inl e) k = Inl e" "bind_ok (Inr a) k = k a"
  by (simp_all add: bind_ok_def)

lemma bind_ok_Inr_iff: "bind_ok r k = Inr b \<longleftrightarrow> (\<exists>a. r = Inr a \<and> k a = Inr b)"
  by (cases r) auto

lemma bind_ok_Inl_iff: "bind_ok r k = Inl e \<longleftrightarrow> r = Inl e \<or> (\<exists>a. r = Inr a \<and> k a = Inl e)"
  by (cases r) auto

lemma ok_or_Inr_iff: "ok_or e x = Inr a \<longleftrightarrow> x = Some a"
  by (cases x) auto

lemma map_err_Inr_iff: "map_err f r = Inr a \<longleftrightarrow> r = Inr a"
  by (cases r) auto

end
