(* ===== verification/Models.thy ===== *)
theory Models
  imports Rust_Text
begin

text \<open>
  \<open>core-domain/src/models.rs\<close>: the enumerations with their text (the \<open>text_enum!\<close> macro) and the
  records of the domain. The locale \<open>text_enum\<close> is the contract the macro establishes for every
  enumeration (\<open>ALL\<close>, \<open>as_str\<close> and \<open>from_str\<close> agree); it is interpreted for each of the eight.
  JSON values (\<open>serde_json::Value\<close>) are a datatype; the payload columns only ever hold JSON
  objects, which are association lists in key order.
\<close>

section \<open>JSON values\<close>

text \<open>
  A finite \<open>f64\<close> is given by its shortest decimal expansion, the one \<open>to_string\<close> prints:
  sign, digits and a power of ten.
\<close>

datatype f64 = F_nan | F_inf bool | F_fin bool nat int

datatype json =
    J_null
  | J_bool bool
  | J_int int
  | J_float f64
  | J_str string
  | J_arr "json list"
  | J_obj "(string \<times> json) list"

type_synonym json_object = "(string \<times> json) list"

text \<open>\<open>Value::get\<close> and assignment through an index, on an object (a \<open>BTreeMap\<close>).\<close>

definition obj_get :: "string \<Rightarrow> json_object \<Rightarrow> json option" where
  "obj_get k m = map_of m k"

fun obj_insert :: "string \<Rightarrow> json \<Rightarrow> json_object \<Rightarrow> json_object" where
  "obj_insert k v [] = [(k, v)]"
| "obj_insert k v ((l, w) # m) =
     (if k = l then (k, v) # m
      else if k < l then (k, v) # (l, w) # m
      else (l, w) # obj_insert k v m)"

fun as_json_str :: "json \<Rightarrow> string option" where
  "as_json_str (J_str s) = Some s"
| "as_json_str _ = None"

fun as_json_bool :: "json \<Rightarrow> bool option" where
  "as_json_bool (J_bool b) = Some b"
| "as_json_bool _ = None"

definition obj_str :: "string \<Rightarrow> json_object \<Rightarrow> string option" where
  "obj_str k m = Option.bind (obj_get k m) as_json_str"

definition obj_bool :: "string \<Rightarrow> json_object \<Rightarrow> bool option" where
  "obj_bool k m = Option.bind (obj_get k m) as_json_bool"

definition opt_json_str :: "string option \<Rightarrow> json" where
  "opt_json_str s = (case s of None \<Rightarrow> J_null | Some t \<Rightarrow> J_str t)"

lemma obj_get_insert: "obj_get k (obj_insert l v m) = (if k = l then Some v else obj_get k m)"
  by (induction l v m rule: obj_insert.induct) (auto simp: obj_get_def)

section \<open>The enumerations and their text\<close>

record unknown_variant =
  type_name :: string
  value_text :: string

definition unknown :: "string \<Rightarrow> string \<Rightarrow> unknown_variant" where
  "unknown t v = \<lparr>type_name = t, value_text = v\<rparr>"

definition unknown_variant_display :: "unknown_variant \<Rightarrow> string" where
  "unknown_variant_display e = ''unknown '' @ type_name e @ '' '' @ [char_of (39 :: nat)] @ value_text e @ [char_of (39 :: nat)]"

text \<open>
  \<open>from_str\<close> compares the text with the literal of each variant in turn: a lookup of the first
  variant of \<open>ALL\<close> with that text.
\<close>

definition parse_variant :: "string \<Rightarrow> 'e list \<Rightarrow> ('e \<Rightarrow> string) \<Rightarrow> string \<Rightarrow> unknown_variant + 'e" where
  "parse_variant t vs as_str s = ok_or (unknown t s) (find (\<lambda>v. as_str v = s) vs)"

locale text_enum =
  fixes all_of :: "'e list"
    and as_str :: "'e \<Rightarrow> string"
    and from_str :: "string \<Rightarrow> unknown_variant + 'e"
  assumes every_variant: "v \<in> set all_of"
    and from_as: "from_str (as_str v) = Inr v"
    and only_text: "from_str s = Inr v \<Longrightarrow> s = as_str v"
begin

lemma from_str_iff: "from_str s = Inr v \<longleftrightarrow> s = as_str v"
  using from_as only_text by blast

lemma as_str_inject: "as_str v = as_str w \<longleftrightarrow> v = w"
  by (metis from_as sum.inject(2))

lemma from_str_error_iff: "(\<exists>e. from_str s = Inl e) \<longleftrightarrow> s \<notin> as_str ` set all_of"
proof (cases "from_str s")
  case (Inl e)
  then show ?thesis using from_as by force
next
  case (Inr v)
  then show ?thesis using only_text every_variant by force
qed

end

datatype certificate_status = C_Active | C_Expired | C_Revoked

definition certificate_status_all :: "certificate_status list" where
  "certificate_status_all = [C_Active, C_Expired, C_Revoked]"

fun certificate_status_as_str :: "certificate_status \<Rightarrow> string" where
  "certificate_status_as_str C_Active = ''active''"
| "certificate_status_as_str C_Expired = ''expired''"
| "certificate_status_as_str C_Revoked = ''revoked''"

definition certificate_status_from_str :: "string \<Rightarrow> unknown_variant + certificate_status" where
  "certificate_status_from_str =
     parse_variant ''CertificateStatus'' certificate_status_all certificate_status_as_str"

datatype document_type = Invoice | CreditNote | DebitNote | SupportDocument | Payroll

definition document_type_all :: "document_type list" where
  "document_type_all = [Invoice, CreditNote, DebitNote, SupportDocument, Payroll]"

fun document_type_as_str :: "document_type \<Rightarrow> string" where
  "document_type_as_str Invoice = ''invoice''"
| "document_type_as_str CreditNote = ''credit_note''"
| "document_type_as_str DebitNote = ''debit_note''"
| "document_type_as_str SupportDocument = ''support_document''"
| "document_type_as_str Payroll = ''payroll''"

definition document_type_from_str :: "string \<Rightarrow> unknown_variant + document_type" where
  "document_type_from_str = parse_variant ''DocumentType'' document_type_all document_type_as_str"

datatype document_status =
    Draft | Pending | SentDian | DianAccepted | DianRejected
  | ContingencyPending | ContingencySent | ProcessingFailed

definition document_status_all :: "document_status list" where
  "document_status_all =
     [Draft, Pending, SentDian, DianAccepted, DianRejected, ContingencyPending, ContingencySent,
      ProcessingFailed]"

fun document_status_as_str :: "document_status \<Rightarrow> string" where
  "document_status_as_str Draft = ''draft''"
| "document_status_as_str Pending = ''pending''"
| "document_status_as_str SentDian = ''sent_dian''"
| "document_status_as_str DianAccepted = ''dian_accepted''"
| "document_status_as_str DianRejected = ''dian_rejected''"
| "document_status_as_str ContingencyPending = ''contingency_pending''"
| "document_status_as_str ContingencySent = ''contingency_sent''"
| "document_status_as_str ProcessingFailed = ''processing_failed''"

definition document_status_from_str :: "string \<Rightarrow> unknown_variant + document_status" where
  "document_status_from_str = parse_variant ''DocumentStatus'' document_status_all document_status_as_str"

datatype event_status = E_Sent | E_Accepted | E_Rejected | E_Error

definition event_status_all :: "event_status list" where
  "event_status_all = [E_Sent, E_Accepted, E_Rejected, E_Error]"

fun event_status_as_str :: "event_status \<Rightarrow> string" where
  "event_status_as_str E_Sent = ''sent''"
| "event_status_as_str E_Accepted = ''accepted''"
| "event_status_as_str E_Rejected = ''rejected''"
| "event_status_as_str E_Error = ''error''"

definition event_status_from_str :: "string \<Rightarrow> unknown_variant + event_status" where
  "event_status_from_str = parse_variant ''EventStatus'' event_status_all event_status_as_str"

datatype subscription_status = Sub_Active | Sub_Inactive

definition subscription_status_all :: "subscription_status list" where
  "subscription_status_all = [Sub_Active, Sub_Inactive]"

fun subscription_status_as_str :: "subscription_status \<Rightarrow> string" where
  "subscription_status_as_str Sub_Active = ''active''"
| "subscription_status_as_str Sub_Inactive = ''inactive''"

definition subscription_status_from_str :: "string \<Rightarrow> unknown_variant + subscription_status" where
  "subscription_status_from_str =
     parse_variant ''WebhookSubscriptionStatus'' subscription_status_all subscription_status_as_str"

datatype direction = Outbound | Inbound

definition direction_all :: "direction list" where
  "direction_all = [Outbound, Inbound]"

fun direction_as_str :: "direction \<Rightarrow> string" where
  "direction_as_str Outbound = ''outbound''"
| "direction_as_str Inbound = ''inbound''"

definition direction_from_str :: "string \<Rightarrow> unknown_variant + direction" where
  "direction_from_str = parse_variant ''Direction'' direction_all direction_as_str"

datatype job_kind = Transmit | PollStatus

definition job_kind_all :: "job_kind list" where
  "job_kind_all = [Transmit, PollStatus]"

fun job_kind_as_str :: "job_kind \<Rightarrow> string" where
  "job_kind_as_str Transmit = ''transmit''"
| "job_kind_as_str PollStatus = ''poll_status''"

definition job_kind_from_str :: "string \<Rightarrow> unknown_variant + job_kind" where
  "job_kind_from_str = parse_variant ''JobKind'' job_kind_all job_kind_as_str"

datatype job_status = Queued | Running | Done | Dead

definition job_status_all :: "job_status list" where
  "job_status_all = [Queued, Running, Done, Dead]"

fun job_status_as_str :: "job_status \<Rightarrow> string" where
  "job_status_as_str Queued = ''queued''"
| "job_status_as_str Running = ''running''"
| "job_status_as_str Done = ''done''"
| "job_status_as_str Dead = ''dead''"

definition job_status_from_str :: "string \<Rightarrow> unknown_variant + job_status" where
  "job_status_from_str = parse_variant ''JobStatus'' job_status_all job_status_as_str"

lemma parse_variant_enum:
  assumes all: "\<And>v. v \<in> set vs" and inj: "\<And>v w. as_str v = as_str w \<Longrightarrow> v = w"
  shows "text_enum vs as_str (parse_variant t vs as_str)"
proof
  fix v :: 'a
  show "v \<in> set vs" by (rule all)
  have "find (\<lambda>w. as_str w = as_str v) vs \<noteq> None"
    using all[of v] by (auto simp: find_None_iff)
  moreover have "w = v" if "find (\<lambda>w. as_str w = as_str v) vs = Some w" for w
    using that inj by (auto simp: find_Some_iff)
  ultimately show "parse_variant t vs as_str (as_str v) = Inr v"
    by (auto simp: parse_variant_def)
next
  fix s v
  assume "parse_variant t vs as_str s = Inr v"
  then show "s = as_str v"
    by (auto simp: parse_variant_def ok_or_Inr_iff find_Some_iff)
qed

interpretation certificate_statuses:
  text_enum certificate_status_all certificate_status_as_str certificate_status_from_str
  unfolding certificate_status_from_str_def
proof (rule parse_variant_enum)
  show "v \<in> set certificate_status_all" for v by (cases v) (simp_all add: certificate_status_all_def)
  show "v = w" if "certificate_status_as_str v = certificate_status_as_str w" for v w
    using that by (cases v; cases w) simp_all
qed

interpretation document_types:
  text_enum document_type_all document_type_as_str document_type_from_str
  unfolding document_type_from_str_def
proof (rule parse_variant_enum)
  show "v \<in> set document_type_all" for v by (cases v) (simp_all add: document_type_all_def)
  show "v = w" if "document_type_as_str v = document_type_as_str w" for v w
    using that by (cases v; cases w) simp_all
qed

interpretation document_statuses:
  text_enum document_status_all document_status_as_str document_status_from_str
  unfolding document_status_from_str_def
proof (rule parse_variant_enum)
  show "v \<in> set document_status_all" for v by (cases v) (simp_all add: document_status_all_def)
  show "v = w" if "document_status_as_str v = document_status_as_str w" for v w
    using that by (cases v; cases w) simp_all
qed

interpretation event_statuses:
  text_enum event_status_all event_status_as_str event_status_from_str
  unfolding event_status_from_str_def
proof (rule parse_variant_enum)
  show "v \<in> set event_status_all" for v by (cases v) (simp_all add: event_status_all_def)
  show "v = w" if "event_status_as_str v = event_status_as_str w" for v w
    using that by (cases v; cases w) simp_all
qed

interpretation subscription_statuses:
  text_enum subscription_status_all subscription_status_as_str subscription_status_from_str
  unfolding subscription_status_from_str_def
proof (rule parse_variant_enum)
  show "v \<in> set subscription_status_all" for v by (cases v) (simp_all add: subscription_status_all_def)
  show "v = w" if "subscription_status_as_str v = subscription_status_as_str w" for v w
    using that by (cases v; cases w) simp_all
qed

interpretation directions: text_enum direction_all direction_as_str direction_from_str
  unfolding direction_from_str_def
proof (rule parse_variant_enum)
  show "v \<in> set direction_all" for v by (cases v) (simp_all add: direction_all_def)
  show "v = w" if "direction_as_str v = direction_as_str w" for v w
    using that by (cases v; cases w) simp_all
qed

interpretation job_kinds: text_enum job_kind_all job_kind_as_str job_kind_from_str
  unfolding job_kind_from_str_def
proof (rule parse_variant_enum)
  show "v \<in> set job_kind_all" for v by (cases v) (simp_all add: job_kind_all_def)
  show "v = w" if "job_kind_as_str v = job_kind_as_str w" for v w
    using that by (cases v; cases w) simp_all
qed

interpretation job_statuses: text_enum job_status_all job_status_as_str job_status_from_str
  unfolding job_status_from_str_def
proof (rule parse_variant_enum)
  show "v \<in> set job_status_all" for v by (cases v) (simp_all add: job_status_all_def)
  show "v = w" if "job_status_as_str v = job_status_as_str w" for v w
    using that by (cases v; cases w) simp_all
qed

text \<open>The document statuses are a finite enumeration: quantifiers over them compute.\<close>

instantiation document_status :: enum
begin

definition "enum_document_status = document_status_all"
definition "enum_all_document_status P \<longleftrightarrow> list_all P document_status_all" for P
definition "enum_ex_document_status P \<longleftrightarrow> list_ex P document_status_all" for P

instance
proof
  show "(UNIV :: document_status set) = set enum_class.enum"
    using document_statuses.every_variant by (auto simp: enum_document_status_def)
  show "distinct (enum_class.enum :: document_status list)"
    by (simp add: enum_document_status_def document_status_all_def)
  show "enum_class.enum_all P \<longleftrightarrow> Ball UNIV P" for P :: "document_status \<Rightarrow> bool"
    using document_statuses.every_variant by (auto simp: enum_all_document_status_def list_all_iff)
  show "enum_class.enum_ex P \<longleftrightarrow> Bex UNIV P" for P :: "document_status \<Rightarrow> bool"
    using document_statuses.every_variant by (auto simp: enum_ex_document_status_def list_ex_iff)
qed

end

section \<open>The records\<close>

record tenant =
  t_id :: uuid
  t_tax_id :: string
  t_registration_name :: string
  t_tax_regime :: string
  t_address_info :: json_object
  t_reception_email :: string
  t_api_keys :: json_object
  t_created_at :: instant
  t_updated_at :: instant

record certificate =
  c_id :: uuid
  c_tenant_id :: uuid
  c_vault_reference_path :: string
  c_thumbprint :: string
  c_expiration_date :: instant
  c_status :: certificate_status

record numbering_range =
  r_id :: uuid
  r_tenant_id :: uuid
  r_document_type :: document_type
  r_prefix :: string
  r_from_number :: i32
  r_to_number :: i32
  r_technical_key :: string
  r_valid_date_from :: instant
  r_valid_date_to :: instant
  r_current_counter :: i32

record document =
  d_id :: uuid
  d_tenant_id :: uuid
  d_direction :: direction
  d_issuer_nit :: string
  d_document_type :: document_type
  d_prefix :: string
  d_document_number :: i32
  d_numbering_range_id :: "uuid option"
  d_cufe_cude :: string
  d_payload :: json_object
  d_original_xml :: "string option"
  d_signed_xml :: "string option"
  d_pdf_url :: "string option"
  d_status :: document_status
  d_created_at :: instant

record dian_event =
  e_id :: uuid
  e_document_id :: uuid
  e_event_status :: event_status
  e_response_code :: "string option"
  e_response_message :: "string option"
  e_soap_trace_id :: "string option"
  e_xml_response :: "string option"
  e_created_at :: instant

text \<open>\<open>DianEvent::new\<close>; the fresh identifier and the current time are arguments.\<close>

definition dian_event_new :: "uuid \<Rightarrow> instant \<Rightarrow> uuid \<Rightarrow> event_status \<Rightarrow> string \<Rightarrow> string \<Rightarrow> dian_event" where
  "dian_event_new new_id now document_id status code message =
     \<lparr>e_id = new_id, e_document_id = document_id, e_event_status = status,
      e_response_code = Some code, e_response_message = Some message,
      e_soap_trace_id = None, e_xml_response = None, e_created_at = now\<rparr>"

record webhook =
  w_id :: uuid
  w_tenant_id :: uuid
  w_target_url :: string
  w_webhook_secret :: string
  w_event_type :: string
  w_subscription_status :: subscription_status

end
