(* ===== verification/Lifecycle.thy ===== *)
theory Lifecycle
  imports Models
begin

text \<open>
  \<open>core-domain/src/lifecycle.rs\<close>: the state machine of an electronic document. The step relation
  \<open>status_step\<close> is the abstract specification every store operation is measured against: a
  document may only move along it.
\<close>

fun allowed_predecessors :: "document_status \<Rightarrow> document_status list" where
  "allowed_predecessors Pending = [ContingencyPending]"
| "allowed_predecessors SentDian = [Pending, ContingencyPending]"
| "allowed_predecessors DianAccepted = [Pending, SentDian, ContingencyPending]"
| "allowed_predecessors DianRejected = [Pending, SentDian, ContingencyPending]"
| "allowed_predecessors ContingencyPending = [Pending]"
| "allowed_predecessors ProcessingFailed = [Pending, ContingencyPending]"
| "allowed_predecessors Draft = []"
| "allowed_predecessors ContingencySent = []"

definition can_transition_to :: "document_status \<Rightarrow> document_status \<Rightarrow> bool" where
  "can_transition_to s next \<longleftrightarrow> s \<in> set (allowed_predecessors next)"

fun is_terminal :: "document_status \<Rightarrow> bool" where
  "is_terminal DianAccepted = True"
| "is_terminal DianRejected = True"
| "is_terminal ProcessingFailed = True"
| "is_terminal _ = False"

inductive status_step :: "document_status \<Rightarrow> document_status \<Rightarrow> bool" where
  "can_transition_to s t \<Longrightarrow> status_step s t"

inductive_cases status_step_cases: "status_step s t"

definition status_path :: "document_status \<Rightarrow> document_status \<Rightarrow> bool" where
  "status_path = status_step\<^sup>*\<^sup>*"

text \<open>The states a document reaches from a given one, as a computable list.\<close>

fun status_successors :: "document_status \<Rightarrow> document_status list" where
  "status_successors Pending =
     [Pending, SentDian, DianAccepted, DianRejected, ContingencyPending, ProcessingFailed]"
| "status_successors ContingencyPending =
     [Pending, SentDian, DianAccepted, DianRejected, ContingencyPending, ProcessingFailed]"
| "status_successors SentDian = [SentDian, DianAccepted, DianRejected]"
| "status_successors s = [s]"

lemma can_transition_iff:
  "can_transition_to s t \<longleftrightarrow>
     (s, t) \<in> {(ContingencyPending, Pending), (Pending, SentDian), (ContingencyPending, SentDian),
               (Pending, DianAccepted), (SentDian, DianAccepted), (ContingencyPending, DianAccepted),
               (Pending, DianRejected), (SentDian, DianRejected), (ContingencyPending, DianRejected),
               (Pending, ContingencyPending), (Pending, ProcessingFailed),
               (ContingencyPending, ProcessingFailed)}"
  by (cases t) (auto simp: can_transition_to_def)

lemma status_path_refl [simp]: "status_path s s"
  by (simp add: status_path_def)

lemma status_path_step: "can_transition_to s t \<Longrightarrow> status_path s t"
  by (auto simp: status_path_def intro: status_step.intros)

lemma status_path_trans: "status_path s t \<Longrightarrow> status_path t u \<Longrightarrow> status_path s u"
  by (simp add: status_path_def)

lemma status_step_successor:
  assumes "t \<in> set (status_successors s)" and "status_step t u"
  shows "u \<in> set (status_successors s)"
  using assms by (cases s; cases t) (auto elim!: status_step_cases simp: can_transition_iff)

lemma successor_path: "t \<in> set (status_successors s) \<Longrightarrow> status_path s t"
proof (cases "t = s")
  case False
  assume "t \<in> set (status_successors s)"
  with False have "can_transition_to s t" by (cases s) (auto simp: can_transition_iff)
  then show ?thesis by (rule status_path_step)
qed simp

text \<open>The computed list is exactly what the step relation reaches.\<close>

lemma status_path_iff: "status_path s t \<longleftrightarrow> t \<in> set (status_successors s)"
proof
  assume "status_path s t"
  then have "status_step\<^sup>*\<^sup>* s t" by (simp add: status_path_def)
  then show "t \<in> set (status_successors s)"
  proof (induction rule: rtranclp_induct)
    case base
    show ?case by (cases s) simp_all
  next
    case (step y z)
    then show ?case by (blast intro: status_step_successor)
  qed
qed (rule successor_path)

lemma terminal_successors: "is_terminal s \<Longrightarrow> status_successors s = [s]"
  by (cases s) simp_all

lemma terminal_no_transition: "is_terminal s \<Longrightarrow> \<not> can_transition_to s t"
  by (cases s) (auto simp: can_transition_iff)

lemma terminal_path: "is_terminal s \<Longrightarrow> status_path s t \<Longrightarrow> t = s"
  by (simp add: status_path_iff terminal_successors)

lemma sent_path: "status_path SentDian t \<Longrightarrow> t \<in> {SentDian, DianAccepted, DianRejected}"
  by (auto simp: status_path_iff)

lemma no_self_transition: "\<not> can_transition_to s s"
  by (cases s) (auto simp: can_transition_iff)

end
