(* ===== verification/Ports.thy ===== *)
theory Ports
  imports Lifecycle
begin

text \<open>
  \<open>core-domain/src/ports.rs\<close>, \<open>jobs.rs\<close> and \<open>admin.rs\<close>: the error type, the records that travel
  through the ports, and the traits themselves. A trait object (\<open>Arc<dyn Trait>\<close>) is a record of
  functions over the state \<open>'w\<close>; an operation returns its result and the next state.
\<close>

section \<open>Errors\<close>

datatype domain_error =
    Database string
  | NotFound string
  | Conflict string
  | Validation string
  | Forbidden string
  | Crypto string
  | Soap string
  | Queue string
  | Internal string

fun domain_error_display :: "domain_error \<Rightarrow> string" where
  "domain_error_display (Database m) = ''Database error: '' @ m"
| "domain_error_display (NotFound m) = ''Entity not found: '' @ m"
| "domain_error_display (Conflict m) = ''Conflict error: '' @ m"
| "domain_error_display (Validation m) = ''Validation error: '' @ m"
| "domain_error_display (Forbidden m) = ''Forbidden: '' @ m"
| "domain_error_display (Crypto m) = ''Cryptographic signing error: '' @ m"
| "domain_error_display (Soap m) = ''SOAP communication error: '' @ m"
| "domain_error_display (Queue m) = ''Queue/Broker error: '' @ m"
| "domain_error_display (Internal m) = ''Internal/Unexpected error: '' @ m"

type_synonym 'a result = "domain_error + 'a"
type_synonym ('w, 'a) io = "'w \<Rightarrow> 'a result \<times> 'w"

text \<open>
  The \<open>?\<close> operator: an error ends the operation, the state reached so far stays. \<open>io_map_err\<close> is
  \<open>map_err\<close> on an operation, \<open>io_match\<close> is a \<open>match\<close> on its result.
\<close>

definition io_bind :: "('w \<Rightarrow> ('e + 'a) \<times> 'w) \<Rightarrow> ('a \<Rightarrow> 'w \<Rightarrow> ('e + 'b) \<times> 'w) \<Rightarrow> 'w \<Rightarrow> ('e + 'b) \<times> 'w" where
  "io_bind m k w = (case m w of (Inl e, v) \<Rightarrow> (Inl e, v) | (Inr a, v) \<Rightarrow> k a v)"

definition io_return :: "'a \<Rightarrow> 'w \<Rightarrow> ('e + 'a) \<times> 'w" where
  "io_return a w = (Inr a, w)"

definition io_fail :: "'e \<Rightarrow> 'w \<Rightarrow> ('e + 'a) \<times> 'w" where
  "io_fail e w = (Inl e, w)"

definition io_lift :: "'e + 'a \<Rightarrow> 'w \<Rightarrow> ('e + 'a) \<times> 'w" where
  "io_lift r w = (r, w)"

definition io_map_err :: "('e \<Rightarrow> 'f) \<Rightarrow> ('w \<Rightarrow> ('e + 'a) \<times> 'w) \<Rightarrow> 'w \<Rightarrow> ('f + 'a) \<times> 'w" where
  "io_map_err f m w = (case m w of (r, v) \<Rightarrow> (map_err f r, v))"

definition io_match ::
  "('w \<Rightarrow> ('e + 'a) \<times> 'w) \<Rightarrow> ('e \<Rightarrow> 'w \<Rightarrow> 'r \<times> 'w) \<Rightarrow> ('a \<Rightarrow> 'w \<Rightarrow> 'r \<times> 'w) \<Rightarrow> 'w \<Rightarrow> 'r \<times> 'w" where
  "io_match m err ok w = (case m w of (Inl e, v) \<Rightarrow> err e v | (Inr a, v) \<Rightarrow> ok a v)"

section \<open>Jobs of the queue\<close>

record job =
  job_id :: uuid
  job_kind_of :: job_kind
  job_document_id :: uuid
  job_payload :: json_object
  job_attempts :: i32
  job_max_attempts :: i32

definition is_last_attempt :: "job \<Rightarrow> bool" where
  "is_last_attempt j \<longleftrightarrow> job_attempts j \<ge> job_max_attempts j"

definition zip_key :: "job \<Rightarrow> string option" where
  "zip_key j = obj_str ''zip_key'' (job_payload j)"

record queue_depth =
  q_ready :: int
  q_scheduled :: int
  q_running :: int
  q_dead :: int

record new_job =
  n_id :: uuid
  n_kind :: job_kind
  n_document_id :: uuid
  n_payload :: json_object
  n_max_attempts :: i32
  n_run_at :: instant

text \<open>\<open>NewJob::transmit\<close> and \<open>NewJob::poll_status\<close>; the fresh identifier is an argument.\<close>

definition transmit_job :: "uuid \<Rightarrow> instant \<Rightarrow> uuid \<Rightarrow> i32 \<Rightarrow> new_job" where
  "transmit_job new_id now document_id max_attempts =
     \<lparr>n_id = new_id, n_kind = Transmit, n_document_id = document_id, n_payload = [],
      n_max_attempts = max_attempts, n_run_at = now\<rparr>"

definition poll_status_job :: "uuid \<Rightarrow> uuid \<Rightarrow> string \<Rightarrow> i32 \<Rightarrow> instant \<Rightarrow> new_job" where
  "poll_status_job new_id document_id key max_attempts run_at =
     \<lparr>n_id = new_id, n_kind = PollStatus, n_document_id = document_id,
      n_payload = [(''zip_key'', J_str key)], n_max_attempts = max_attempts, n_run_at = run_at\<rparr>"

lemma poll_job_zip_key:
  "zip_key \<lparr>job_id = i, job_kind_of = k, job_document_id = d,
            job_payload = n_payload (poll_status_job a d key m t), job_attempts = n,
            job_max_attempts = m\<rparr> = Some key"
  by (simp add: zip_key_def poll_status_job_def obj_str_def obj_get_def)

section \<open>Administration records\<close>

record new_tenant =
  nt_id :: uuid
  nt_tax_id :: string
  nt_registration_name :: string
  nt_tax_regime :: string
  nt_reception_email :: string

record api_key_record =
  k_id :: uuid
  k_tenant_id :: uuid
  k_name :: string
  k_prefix :: string
  k_key_hash :: string
  k_created_at :: instant
  k_revoked_at :: "instant option"

record dead_job =
  dj_id :: uuid
  dj_kind :: job_kind
  dj_document_id :: uuid
  dj_tenant_id :: uuid
  dj_attempts :: i32
  dj_last_error :: "string option"
  dj_failed_at :: instant

record dead_delivery =
  dd_id :: uuid
  dd_tenant_id :: uuid
  dd_webhook_id :: uuid
  dd_event_type :: string
  dd_attempts :: i32
  dd_last_error :: "string option"
  dd_last_status_code :: "int option"
  dd_failed_at :: instant

record audit_entry =
  a_action :: string
  a_tenant_id :: "uuid option"
  a_subject_id :: "uuid option"
  a_details :: json_object

section \<open>What travels through the ports\<close>

record dian_response =
  status_code :: string
  message :: string
  xml_response :: "string option"
  soap_trace_id :: "string option"

record idempotency_key =
  ik_key :: string
  ik_request_hash :: string

record new_outbound_document =
  no_id :: uuid
  no_tenant_id :: uuid
  no_document_type :: document_type
  no_prefix :: string
  no_requested_number :: "i32 option"
  no_payload :: json_object
  no_idempotency :: "idempotency_key option"

record issued_document =
  is_document_id :: uuid
  is_document_number :: i32

datatype issue_outcome = Created issued_document | Replayed issued_document

record new_inbound_document =
  ni_id :: uuid
  ni_tenant_id :: uuid
  ni_issuer_nit :: string
  ni_document_type :: document_type
  ni_prefix :: string
  ni_document_number :: i32
  ni_cufe :: string
  ni_payload :: json_object
  ni_signed_xml :: string
  ni_status :: document_status

datatype job_outcome = Complete uuid | Bury uuid string

record transition =
  tr_document_id :: uuid
  tr_to :: document_status
  tr_event :: "dian_event option"
  tr_job :: "job_outcome option"
  tr_follow_up :: "new_job option"

definition transition_new :: "uuid \<Rightarrow> document_status \<Rightarrow> transition" where
  "transition_new document_id to =
     \<lparr>tr_document_id = document_id, tr_to = to, tr_event = None, tr_job = None, tr_follow_up = None\<rparr>"

definition with_event :: "dian_event \<Rightarrow> transition \<Rightarrow> transition" where
  "with_event e t = t\<lparr>tr_event := Some e\<rparr>"

definition with_job :: "job_outcome \<Rightarrow> transition \<Rightarrow> transition" where
  "with_job j t = t\<lparr>tr_job := Some j\<rparr>"

definition with_follow_up :: "new_job \<Rightarrow> transition \<Rightarrow> transition" where
  "with_follow_up n t = t\<lparr>tr_follow_up := Some n\<rparr>"

lemma transition_fields [simp]:
  "tr_document_id (transition_new d s) = d" "tr_to (transition_new d s) = s"
  "tr_document_id (with_event e t) = tr_document_id t" "tr_to (with_event e t) = tr_to t"
  "tr_document_id (with_job j t) = tr_document_id t" "tr_to (with_job j t) = tr_to t"
  "tr_document_id (with_follow_up n t) = tr_document_id t" "tr_to (with_follow_up n t) = tr_to t"
  "tr_event (with_event e t) = Some e" "tr_event (with_job j t) = tr_event t"
  "tr_event (with_follow_up n t) = tr_event t"
  "tr_job (with_job j t) = Some j" "tr_job (with_follow_up n t) = tr_job t"
  "tr_job (with_event e t) = tr_job t"
  "tr_follow_up (with_follow_up n t) = Some n" "tr_follow_up (with_job j t) = tr_follow_up t"
  "tr_follow_up (with_event e t) = tr_follow_up t"
  "tr_follow_up (transition_new d s) = None" "tr_job (transition_new d s) = None"
  "tr_event (transition_new d s) = None"
  by (simp_all add: transition_new_def with_event_def with_job_def with_follow_up_def)

record webhook_delivery =
  wd_id :: uuid
  wd_tenant_id :: uuid
  wd_event_type :: string
  wd_data :: json_object
  wd_attempts :: i32
  wd_max_attempts :: i32
  wd_created_at :: instant
  wd_target_url :: string
  wd_secret :: string
  wd_active :: bool

record verified_signature =
  signer_subject :: string

section \<open>The traits\<close>

record 'w tenant_repository =
  find_by_api_key_hash :: "string \<Rightarrow> ('w, tenant option) io"

record 'w certificate_repository =
  find_active_certificate :: "uuid \<Rightarrow> ('w, certificate option) io"

record 'w document_repository =
  issue_outbound :: "new_outbound_document \<Rightarrow> new_job \<Rightarrow> ('w, issue_outcome) io"
  insert_inbound :: "new_inbound_document \<Rightarrow> ('w, bool) io"
  find_document :: "uuid \<Rightarrow> ('w, document option) io"
  find_tenant_document :: "uuid \<Rightarrow> uuid \<Rightarrow> ('w, document option) io"
  find_numbering_range :: "uuid \<Rightarrow> ('w, numbering_range option) io"
  store_artifacts :: "uuid \<Rightarrow> string \<Rightarrow> string \<Rightarrow> string \<Rightarrow> ('w, unit) io"
  record_event :: "dian_event \<Rightarrow> ('w, unit) io"
  find_events :: "uuid \<Rightarrow> ('w, dian_event list) io"
  apply_transition :: "transition \<Rightarrow> ('w, bool) io"

record 'w job_repository =
  claim :: "string \<Rightarrow> int \<Rightarrow> int \<Rightarrow> ('w, job list) io"
  complete :: "uuid \<Rightarrow> ('w, unit) io"
  retry :: "uuid \<Rightarrow> instant \<Rightarrow> string \<Rightarrow> ('w, unit) io"
  release :: "uuid \<Rightarrow> instant \<Rightarrow> ('w, unit) io"
  bury :: "uuid \<Rightarrow> string \<Rightarrow> ('w, unit) io"
  requeue_contingency :: "int \<Rightarrow> i32 \<Rightarrow> ('w, nat) io"
  queue_depth_of :: "('w, queue_depth) io"

record 'w webhook_repository =
  create_webhook :: "webhook \<Rightarrow> ('w, unit) io"
  list_webhooks :: "uuid \<Rightarrow> ('w, webhook list) io"
  delete_webhook :: "uuid \<Rightarrow> uuid \<Rightarrow> ('w, bool) io"
  claim_deliveries :: "int \<Rightarrow> int \<Rightarrow> ('w, webhook_delivery list) io"
  complete_delivery :: "uuid \<Rightarrow> int \<Rightarrow> ('w, unit) io"
  retry_delivery :: "uuid \<Rightarrow> instant \<Rightarrow> string \<Rightarrow> int option \<Rightarrow> ('w, unit) io"
  bury_delivery :: "uuid \<Rightarrow> string \<Rightarrow> int option \<Rightarrow> ('w, unit) io"

record 'w admin_repository =
  create_tenant :: "new_tenant \<Rightarrow> audit_entry \<Rightarrow> ('w, tenant) io"
  find_tenant :: "uuid \<Rightarrow> ('w, tenant option) io"
  create_api_key :: "api_key_record \<Rightarrow> audit_entry \<Rightarrow> ('w, unit) io"
  list_api_keys :: "uuid \<Rightarrow> ('w, api_key_record list) io"
  revoke_api_key :: "uuid \<Rightarrow> uuid \<Rightarrow> audit_entry \<Rightarrow> ('w, bool) io"
  activate_certificate :: "certificate \<Rightarrow> audit_entry \<Rightarrow> ('w, unit) io"
  add_numbering_range :: "numbering_range \<Rightarrow> audit_entry \<Rightarrow> ('w, unit) io"
  list_dead_jobs :: "int \<Rightarrow> ('w, dead_job list) io"
  retry_dead_job :: "uuid \<Rightarrow> audit_entry \<Rightarrow> ('w, bool) io"
  list_dead_deliveries :: "int \<Rightarrow> ('w, dead_delivery list) io"
  retry_dead_delivery :: "uuid \<Rightarrow> audit_entry \<Rightarrow> ('w, bool) io"

text \<open>The ports to the outside: signing and the DIAN web service. XML and ZIP archives are bytes.\<close>

record 'w crypto_signer =
  sign_for_tenant :: "uuid \<Rightarrow> string \<Rightarrow> ('w, string) io"
  sign_soap_for_tenant :: "uuid \<Rightarrow> string \<Rightarrow> ('w, string) io"

record 'w dian_soap_client =
  send_bill_sync :: "uuid \<Rightarrow> string \<Rightarrow> bool \<Rightarrow> ('w, dian_response) io"
  send_bill_async :: "uuid \<Rightarrow> string \<Rightarrow> bool \<Rightarrow> ('w, string) io"
  send_test_set_async :: "uuid \<Rightarrow> string \<Rightarrow> string \<Rightarrow> bool \<Rightarrow> ('w, string) io"
  get_status :: "uuid \<Rightarrow> string \<Rightarrow> bool \<Rightarrow> ('w, dian_response) io"
  get_status_zip :: "uuid \<Rightarrow> string \<Rightarrow> bool \<Rightarrow> ('w, dian_response) io"
  send_event_update_status :: "uuid \<Rightarrow> string \<Rightarrow> bool \<Rightarrow> ('w, dian_response) io"

section \<open>Rules for the operations\<close>

lemma io_return_apply [simp]: "io_return a w = (Inr a, w)"
  by (simp add: io_return_def)

lemma io_fail_apply [simp]: "io_fail e w = (Inl e, w)"
  by (simp add: io_fail_def)

lemma io_lift_apply [simp]: "io_lift r w = (r, w)"
  by (simp add: io_lift_def)

lemma io_bind_ok: "m w = (Inr a, v) \<Longrightarrow> io_bind m k w = k a v"
  by (simp add: io_bind_def)

lemma io_bind_err: "m w = (Inl e, v) \<Longrightarrow> io_bind m k w = (Inl e, v)"
  by (simp add: io_bind_def)

lemma io_bind_cases:
  assumes "io_bind m k w = (r, v)"
  obtains (err) e where "m w = (Inl e, v)" and "r = Inl e"
    | (ok) a u where "m w = (Inr a, u)" and "k a u = (r, v)"
  using assms by (auto simp: io_bind_def split: prod.splits sum.splits)

text \<open>A property of states that two operations keep is kept by their sequence.\<close>

lemma io_bind_keeps:
  assumes "\<And>w. I w \<Longrightarrow> I (snd (m w))" and "\<And>a w. I w \<Longrightarrow> I (snd (k a w))" and "I w"
  shows "I (snd (io_bind m k w))"
  using assms by (auto simp: io_bind_def split: prod.splits sum.splits) (metis snd_conv)+

lemma io_match_ok: "m w = (Inr a, v) \<Longrightarrow> io_match m f g w = g a v"
  by (simp add: io_match_def)

lemma io_match_err: "m w = (Inl e, v) \<Longrightarrow> io_match m f g w = f e v"
  by (simp add: io_match_def)

end
