(* ===== verification/Resilience.thy ===== *)
theory Resilience
  imports Prelude
begin

text \<open>
  \<open>application/src/resilience.rs\<close>: the circuit breaker of each DIAN environment and the backoff.
  Time is in nanoseconds. \<open>Instant::now()\<close> is the argument \<open>now\<close>; \<open>rand\<close>'s \<open>gen_range\<close> draws from a
  stream of naturals that the caller passes. The abstract specification of a breaker is the
  predicate \<open>breaker_admits\<close>; \<open>breaker_inv\<close> says how the state and the count of failures agree.
\<close>

section \<open>The circuit breaker\<close>

datatype breaker_state = Closed | Open instant | HalfOpen instant

record circuit_breaker =
  cb_state :: breaker_state
  cb_failures :: nat
  cb_failure_threshold :: nat
  cb_cooldown :: nat

definition breaker_new :: "nat \<Rightarrow> nat \<Rightarrow> circuit_breaker" where
  "breaker_new threshold cooldown =
     \<lparr>cb_state = Closed, cb_failures = 0, cb_failure_threshold = threshold, cb_cooldown = cooldown\<rparr>"

text \<open>\<open>Instant::elapsed\<close> saturates at zero.\<close>

definition elapsed :: "instant \<Rightarrow> instant \<Rightarrow> nat" where
  "elapsed since now = nat (now - since)"

definition can_execute :: "instant \<Rightarrow> circuit_breaker \<Rightarrow> bool \<times> circuit_breaker" where
  "can_execute now b =
     (case cb_state b of
        Closed \<Rightarrow> (True, b)
      | Open t \<Rightarrow> if elapsed t now \<ge> cb_cooldown b then (True, b\<lparr>cb_state := HalfOpen now\<rparr>) else (False, b)
      | HalfOpen t \<Rightarrow> if elapsed t now \<ge> cb_cooldown b then (True, b\<lparr>cb_state := HalfOpen now\<rparr>) else (False, b))"

definition record_success :: "circuit_breaker \<Rightarrow> circuit_breaker" where
  "record_success b = b\<lparr>cb_state := Closed, cb_failures := 0\<rparr>"

fun is_half_open :: "breaker_state \<Rightarrow> bool" where
  "is_half_open (HalfOpen _) = True"
| "is_half_open _ = False"

definition record_failure :: "instant \<Rightarrow> circuit_breaker \<Rightarrow> circuit_breaker" where
  "record_failure now b =
     (let n = (cb_failures b + 1) mod 2 ^ 32
      in if is_half_open (cb_state b) \<or> n \<ge> cb_failure_threshold b
         then b\<lparr>cb_failures := n, cb_state := Open now\<rparr>
         else b\<lparr>cb_failures := n\<rparr>)"

record breakers =
  br_habilitacion :: circuit_breaker
  br_produccion :: circuit_breaker

definition breakers_new :: "nat \<Rightarrow> nat \<Rightarrow> breakers" where
  "breakers_new threshold cooldown =
     \<lparr>br_habilitacion = breaker_new threshold cooldown, br_produccion = breaker_new threshold cooldown\<rparr>"

definition for_environment :: "bool \<Rightarrow> breakers \<Rightarrow> circuit_breaker" where
  "for_environment is_hab bs = (if is_hab then br_habilitacion bs else br_produccion bs)"

text \<open>\<open>for_environment\<close> returns a reference; an update through it is a write of that field.\<close>

definition update_environment :: "bool \<Rightarrow> (circuit_breaker \<Rightarrow> circuit_breaker) \<Rightarrow> breakers \<Rightarrow> breakers" where
  "update_environment is_hab f bs =
     (if is_hab then bs\<lparr>br_habilitacion := f (br_habilitacion bs)\<rparr>
      else bs\<lparr>br_produccion := f (br_produccion bs)\<rparr>)"

text \<open>
  The specification: a closed breaker admits every request; an open or half-open one admits none
  before the cooldown is over.
\<close>

definition breaker_admits :: "instant \<Rightarrow> circuit_breaker \<Rightarrow> bool" where
  "breaker_admits now b = fst (can_execute now b)"

definition breaker_inv :: "circuit_breaker \<Rightarrow> bool" where
  "breaker_inv b \<longleftrightarrow>
     cb_failures b < 2 ^ 32 \<and> (cb_state b = Closed \<longrightarrow> cb_failures b < cb_failure_threshold b)"

datatype breaker_event = Ask | Success | Failure

text \<open>A run: requests and reported results, each with the time at which it happens.\<close>

fun breaker_step :: "instant \<times> breaker_event \<Rightarrow> circuit_breaker \<Rightarrow> circuit_breaker" where
  "breaker_step (now, Ask) b = snd (can_execute now b)"
| "breaker_step (now, Success) b = record_success b"
| "breaker_step (now, Failure) b = record_failure now b"

fun breaker_run :: "(instant \<times> breaker_event) list \<Rightarrow> circuit_breaker \<Rightarrow> circuit_breaker" where
  "breaker_run [] b = b"
| "breaker_run (e # es) b = breaker_run es (breaker_step e b)"

lemma breaker_new_inv: "0 < t \<Longrightarrow> breaker_inv (breaker_new t c)"
  by (simp add: breaker_inv_def breaker_new_def)

lemma breaker_step_config [simp]:
  "cb_failure_threshold (breaker_step e b) = cb_failure_threshold b"
  "cb_cooldown (breaker_step e b) = cb_cooldown b"
  by (induction e b rule: breaker_step.induct)
    (auto simp: can_execute_def record_success_def record_failure_def Let_def split: breaker_state.splits)

lemma breaker_step_inv:
  "breaker_inv b \<Longrightarrow> 0 < cb_failure_threshold b \<Longrightarrow> breaker_inv (breaker_step e b)"
  by (induction e b rule: breaker_step.induct)
    (auto simp: breaker_inv_def can_execute_def record_success_def record_failure_def Let_def
      split: breaker_state.splits)

lemma breaker_run_inv:
  "breaker_inv b \<Longrightarrow> 0 < cb_failure_threshold b \<Longrightarrow> breaker_inv (breaker_run es b)"
  by (induction es arbitrary: b) (simp_all add: breaker_step_inv)

lemma breaker_run_config [simp]:
  "cb_failure_threshold (breaker_run es b) = cb_failure_threshold b"
  "cb_cooldown (breaker_run es b) = cb_cooldown b"
  by (induction es arbitrary: b) auto

lemma failures_open:
  "cb_state b = Closed \<Longrightarrow> cb_failures b + length ts = cb_failure_threshold b \<Longrightarrow> ts \<noteq> [] \<Longrightarrow>
   cb_failure_threshold b < 2 ^ 32 \<Longrightarrow>
   cb_state (breaker_run (map (\<lambda>t. (t, Failure)) ts) b) = Open (last ts)"
proof (induction ts arbitrary: b)
  case (Cons t ts)
  have n: "(cb_failures b + 1) mod 2 ^ 32 = cb_failures b + 1"
    using Cons.prems by simp
  show ?case
  proof (cases "ts = []")
    case True
    with Cons.prems n show ?thesis by (simp add: record_failure_def Let_def)
  next
    case False
    have "record_failure t b = b\<lparr>cb_failures := cb_failures b + 1\<rparr>"
      using Cons.prems False n by (cases ts) (simp_all add: record_failure_def Let_def)
    with Cons.IH[of "b\<lparr>cb_failures := cb_failures b + 1\<rparr>"] Cons.prems False
    show ?thesis by simp
  qed
qed simp

text \<open>Between the moment a breaker opens (or lets a probe through) and the cooldown, nothing passes.\<close>

lemma not_admitted_before_cooldown:
  assumes "cb_state b = Open t \<or> cb_state b = HalfOpen t" and "t \<le> now" "now < t + int (cb_cooldown b)"
  shows "can_execute now b = (False, b)"
  using assms by (auto simp: can_execute_def elapsed_def)

lemma probe_after_cooldown:
  assumes "cb_state b = Open t \<or> cb_state b = HalfOpen t" and "t + int (cb_cooldown b) \<le> now"
  shows "can_execute now b = (True, b\<lparr>cb_state := HalfOpen now\<rparr>)"
  using assms by (auto simp: can_execute_def elapsed_def)

lemma environments_isolated:
  "for_environment (\<not> h) (update_environment h f bs) = for_environment (\<not> h) bs"
  "for_environment h (update_environment h f bs) = f (for_environment h bs)"
  by (simp_all add: for_environment_def update_environment_def)

section \<open>Backoff\<close>

definition duration_max :: nat where
  "duration_max = (2 ^ 64 - 1) * 1000000000 + 999999999"

definition half_second :: nat where "half_second = 500000000"
definition millisecond :: nat where "millisecond = 1000000"

definition saturating_mul :: "nat \<Rightarrow> nat \<Rightarrow> nat" where
  "saturating_mul d k = min (d * k) duration_max"

text \<open>\<open>gen_range(lo..=hi)\<close> on a draw \<open>e\<close> of the random source.\<close>

definition gen_range :: "nat \<Rightarrow> nat \<Rightarrow> nat \<Rightarrow> nat" where
  "gen_range e lo hi = lo + e mod (hi - lo + 1)"

definition backoff_ceiling :: "int \<Rightarrow> nat \<Rightarrow> nat \<Rightarrow> nat" where
  "backoff_ceiling attempt base mx =
     max (min (saturating_mul base (2 ^ nat (min (max attempt 0) 16))) mx) half_second"

definition backoff_with_jitter :: "nat \<Rightarrow> int \<Rightarrow> nat \<Rightarrow> nat \<Rightarrow> nat" where
  "backoff_with_jitter e attempt base mx =
     gen_range e 500 ((backoff_ceiling attempt base mx div millisecond) mod 2 ^ 64) * millisecond"

lemma backoff_ceiling_bounds:
  "half_second \<le> backoff_ceiling a b m" "backoff_ceiling a b m \<le> max m half_second"
  by (simp_all add: backoff_ceiling_def)

lemma backoff_bounds:
  assumes "max mx half_second div millisecond < 2 ^ 64"
  shows "half_second \<le> backoff_with_jitter e a b mx"
    and "backoff_with_jitter e a b mx \<le> backoff_ceiling a b mx"
proof -
  let ?c = "backoff_ceiling a b mx div millisecond"
  have "?c \<le> max mx half_second div millisecond"
    by (intro div_le_mono backoff_ceiling_bounds)
  then have c: "?c mod 2 ^ 64 = ?c" using assms by simp
  have "half_second div millisecond \<le> ?c"
    by (intro div_le_mono backoff_ceiling_bounds)
  then have lo: "500 \<le> ?c" by (simp add: half_second_def millisecond_def)
  have hi: "gen_range e 500 ?c \<le> ?c"
  proof -
    have "e mod (?c - 500 + 1) < ?c - 500 + 1" by (rule mod_less_divisor) simp
    with lo show ?thesis unfolding gen_range_def by linarith
  qed
  show "half_second \<le> backoff_with_jitter e a b mx"
    by (simp add: backoff_with_jitter_def gen_range_def half_second_def millisecond_def)
  have "gen_range e 500 ?c * millisecond \<le> ?c * millisecond"
    using hi by (rule mult_le_mono1)
  also have "\<dots> \<le> backoff_ceiling a b mx"
    by simp
  finally show "backoff_with_jitter e a b mx \<le> backoff_ceiling a b mx"
    by (simp only: backoff_with_jitter_def c)
qed

text \<open>The delay can grow with the attempt, never shrink its ceiling.\<close>

lemma backoff_ceiling_mono: "a \<le> a' \<Longrightarrow> backoff_ceiling a b m \<le> backoff_ceiling a' b m"
proof -
  assume "a \<le> a'"
  then have "(2::nat) ^ nat (min (max a 0) 16) \<le> 2 ^ nat (min (max a' 0) 16)"
    by (intro power_increasing nat_mono) auto
  then have "b * 2 ^ nat (min (max a 0) 16) \<le> b * 2 ^ nat (min (max a' 0) 16)"
    by (rule mult_le_mono2)
  then show ?thesis
    unfolding backoff_ceiling_def saturating_mul_def by linarith
qed

end
