(* ===== verification/Numbering.thy ===== *)
theory Numbering
  imports Ports
begin

text \<open>
  \<open>core-domain/src/numbering.rs\<close>: the next number of a numbering resolution. The arithmetic is on
  \<open>i32\<close> and wraps as a release build does. \<open>date_naive\<close> (the date text of an instant, a function
  of the \<open>chrono\<close> package) is a parameter: it only occurs in an error message.
\<close>

definition not_current_error :: "(instant \<Rightarrow> string) \<Rightarrow> numbering_range \<Rightarrow> domain_error" where
  "not_current_error date_naive r =
     Validation (''La resolucion de numeracion del prefijo '' @ [char_of (39 :: nat)] @ r_prefix r @
       [char_of (39 :: nat)] @ '' no esta vigente (vigencia '' @ date_naive (r_valid_date_from r) @
       '' a '' @ date_naive (r_valid_date_to r) @ '')'')"

definition exhausted_error :: "numbering_range \<Rightarrow> domain_error" where
  "exhausted_error r =
     Validation (''El rango de numeracion del prefijo '' @ [char_of (39 :: nat)] @ r_prefix r @
       [char_of (39 :: nat)] @ '' esta agotado (limite '' @ int_dec (r_to_number r) @ '')'')"

definition not_next_error :: "numbering_range \<Rightarrow> i32 \<Rightarrow> i32 \<Rightarrow> domain_error" where
  "not_next_error r number next =
     Validation (''El numero '' @ int_dec number @ '' no es el siguiente consecutivo del prefijo '' @
       [char_of (39 :: nat)] @ r_prefix r @ [char_of (39 :: nat)] @ ''; se esperaba '' @ int_dec next)"

definition next_consecutive :: "numbering_range \<Rightarrow> i32" where
  "next_consecutive r = i32_wrap (max (r_current_counter r) (i32_wrap (r_from_number r - 1)) + 1)"

definition next_number ::
  "(instant \<Rightarrow> string) \<Rightarrow> numbering_range \<Rightarrow> i32 option \<Rightarrow> instant \<Rightarrow> i32 result" where
  "next_number date_naive r requested now =
     (if now < r_valid_date_from r \<or> now > r_valid_date_to r then Inl (not_current_error date_naive r)
      else
        let next = next_consecutive r
        in if next > r_to_number r then Inl (exhausted_error r)
           else case requested of
                  Some number \<Rightarrow>
                    if number \<noteq> next then Inl (not_next_error r number next) else Inr next
                | None \<Rightarrow> Inr next)"

text \<open>What \<open>AdminService::register_numbering_range\<close> and the table's checks guarantee of a range.\<close>

definition range_ok :: "numbering_range \<Rightarrow> bool" where
  "range_ok r \<longleftrightarrow>
     1 \<le> r_from_number r \<and> r_from_number r \<le> r_to_number r \<and> r_to_number r \<le> i32_max \<and>
     0 \<le> r_current_counter r \<and> r_current_counter r \<le> r_to_number r"

lemma next_number_Inr:
  "next_number dn r req now = Inr n \<longleftrightarrow>
     r_valid_date_from r \<le> now \<and> now \<le> r_valid_date_to r \<and> n = next_consecutive r \<and>
     n \<le> r_to_number r \<and> (\<forall>m. req = Some m \<longrightarrow> m = n)"
  by (auto simp: next_number_def Let_def split: option.splits)

text \<open>Away from the upper end of \<open>i32\<close> the arithmetic is the arithmetic of the documentation.\<close>

lemma next_consecutive_exact:
  assumes "1 \<le> r_from_number r" "r_from_number r \<le> i32_max" "0 \<le> r_current_counter r"
    and "r_current_counter r < i32_max"
  shows "next_consecutive r = max (r_current_counter r) (r_from_number r - 1) + 1"
proof -
  have "i32_wrap (r_from_number r - 1) = r_from_number r - 1"
    using assms by (intro i32_wrap_id) (simp add: is_i32_def i32_min_def i32_max_def)
  moreover have "i32_wrap (max (r_current_counter r) (r_from_number r - 1) + 1)
      = max (r_current_counter r) (r_from_number r - 1) + 1"
    using assms by (intro i32_wrap_id) (auto simp: is_i32_def i32_min_def i32_max_def)
  ultimately show ?thesis by (simp add: next_consecutive_def)
qed

text \<open>At the upper end it wraps to the least \<open>i32\<close>, which is below every limit.\<close>

lemma next_consecutive_wraps:
  assumes "r_current_counter r = i32_max" "1 \<le> r_from_number r" "r_from_number r \<le> i32_max"
  shows "next_consecutive r = i32_min"
proof -
  have "i32_wrap (r_from_number r - 1) = r_from_number r - 1"
    using assms by (intro i32_wrap_id) (simp add: is_i32_def i32_min_def i32_max_def)
  then have "next_consecutive r = i32_wrap (i32_max + 1)"
    using assms by (simp add: next_consecutive_def max_def)
  then show ?thesis by (simp add: i32_wrap_def i32_max_def i32_min_def)
qed

lemma next_number_bounds:
  assumes "range_ok r" "r_current_counter r < i32_max" "next_number dn r req now = Inr n"
  shows "r_from_number r \<le> n" "r_current_counter r < n" "n \<le> r_to_number r"
  using assms next_consecutive_exact[of r] by (auto simp: next_number_Inr range_ok_def)

text \<open>
  A number that is not negative was not produced by the wrap, so the range moves strictly forward.
\<close>

lemma next_number_nonneg:
  assumes "range_ok r" "next_number dn r req now = Inr n" "0 \<le> n"
  shows "r_current_counter r < i32_max"
    and "n = max (r_current_counter r) (r_from_number r - 1) + 1"
proof -
  have *: "r_current_counter r \<le> i32_max" "1 \<le> r_from_number r" "r_from_number r \<le> i32_max"
    "0 \<le> r_current_counter r"
    using assms(1) by (auto simp: range_ok_def)
  have n: "n = next_consecutive r" using assms(2) by (simp add: next_number_Inr)
  show lt: "r_current_counter r < i32_max"
  proof (rule ccontr)
    assume "\<not> ?thesis"
    with * have "r_current_counter r = i32_max" by simp
    with * have "next_consecutive r = i32_min" by (intro next_consecutive_wraps) auto
    with n assms(3) show False by (simp add: i32_min_def)
  qed
  show "n = max (r_current_counter r) (r_from_number r - 1) + 1"
    using n lt * by (simp add: next_consecutive_exact)
qed

lemma range_ok_advance:
  assumes "range_ok r" "next_number dn r req now = Inr n" "0 \<le> n"
  shows "range_ok (r\<lparr>r_current_counter := n\<rparr>)"
  using assms by (auto simp: range_ok_def next_number_Inr)

end
