(* ===== verification/World.thy ===== *)
theory World
  imports Ports Resilience Numbering
begin

text \<open>
  The state in which the use cases run: the clock, the supply of random (v4) identifiers, the random
  source, the fate of the coming database calls, what other processes do between them, the circuit
  breakers, the exchange with the DIAN so far, and the contents \<open>db\<close> of a store. An operation runs
  at one instant: every \<open>Utc::now()\<close>, \<open>Instant::now()\<close> and SQL \<open>now()\<close> in it reads \<open>clock\<close>.

  Other workers and API processes use the same store: \<open>peers\<close> lists what they commit just before
  each coming transaction (nothing, once the list is used up). A database call can also fail
  (\<open>fault\<close>): it is rolled back, or it is committed and the acknowledgement is lost. \<open>transact\<close> runs
  one transaction after the next peer step and under the next fault; \<open>seen\<close> is the store it finds.
\<close>

datatype fault = Rolled_back | Ack_lost

text \<open>A call to the DIAN: the operation with the tenant, what is sent, and the environment.\<close>

datatype soap_call =
    Send_bill_sync uuid string bool
  | Send_bill_async uuid string bool
  | Send_test_set_async uuid string string bool
  | Get_status uuid string bool
  | Get_status_zip uuid string bool
  | Send_event_update_status uuid string bool

record 'db world =
  clock :: instant
  next_uuid :: nat
  entropy :: "nat list"
  faults :: "fault option list"
  peers :: "('db \<Rightarrow> 'db) list"
  circuit :: breakers
  dian_log :: "soap_call list"
  db :: 'db

text \<open>\<open>Uuid::new_v4()\<close> and \<open>gen_random_uuid()\<close>: identifiers are never drawn twice.\<close>

definition new_uuid :: "'db world \<Rightarrow> uuid \<times> 'db world" where
  "new_uuid w = (next_uuid w, w\<lparr>next_uuid := next_uuid w + 1\<rparr>)"

definition new_uuids :: "nat \<Rightarrow> 'db world \<Rightarrow> uuid list \<times> 'db world" where
  "new_uuids n w = ([next_uuid w..<next_uuid w + n], w\<lparr>next_uuid := next_uuid w + n\<rparr>)"

text \<open>A draw from the random source (zero once the given stream is used up).\<close>

definition draw :: "'db world \<Rightarrow> nat \<times> 'db world" where
  "draw w = (case entropy w of [] \<Rightarrow> (0, w) | e # es \<Rightarrow> (e, w\<lparr>entropy := es\<rparr>))"

fun draws :: "nat \<Rightarrow> 'db world \<Rightarrow> nat list \<times> 'db world" where
  "draws 0 w = ([], w)"
| "draws (Suc n) w = (let (e, v) = draw w; (es, u) = draws n v in (e # es, u))"

definition db_unavailable :: domain_error where
  "db_unavailable = Database ''connection lost''"

definition seen :: "'db world \<Rightarrow> 'db" where
  "seen w = (case peers w of [] \<Rightarrow> db w | p # _ \<Rightarrow> p (db w))"

definition begin_tx :: "'db world \<Rightarrow> fault option \<times> 'db world" where
  "begin_tx w =
     (case faults w of [] \<Rightarrow> None | f # _ \<Rightarrow> f,
      w\<lparr>faults := tl (faults w), peers := tl (peers w), db := seen w\<rparr>)"

text \<open>One transaction: an error undoes every change to the store.\<close>

definition transact :: "('db world, 'a) io \<Rightarrow> ('db world, 'a) io" where
  "transact body w =
     (case begin_tx w of (f, v) \<Rightarrow>
        if f = Some Rolled_back then (Inl db_unavailable, v)
        else case body v of
               (Inl e, u) \<Rightarrow> (Inl e, u\<lparr>db := db v\<rparr>)
             | (Inr a, u) \<Rightarrow> (if f = Some Ack_lost then Inl db_unavailable else Inr a, u))"

lemma new_uuid_simps [simp]:
  "fst (new_uuid w) = next_uuid w" "snd (new_uuid w) = w\<lparr>next_uuid := next_uuid w + 1\<rparr>"
  by (simp_all add: new_uuid_def)

lemma draw_db [simp]: "db (snd (draw w)) = db w"
  by (simp add: draw_def split: list.split)

lemma draw_fields [simp]:
  "clock (snd (draw w)) = clock w" "next_uuid (snd (draw w)) = next_uuid w"
  "circuit (snd (draw w)) = circuit w" "dian_log (snd (draw w)) = dian_log w"
  "faults (snd (draw w)) = faults w"
  by (simp_all add: draw_def split: list.split)

lemma begin_tx_fields [simp]:
  "db (snd (begin_tx w)) = seen w" "clock (snd (begin_tx w)) = clock w"
  "next_uuid (snd (begin_tx w)) = next_uuid w" "circuit (snd (begin_tx w)) = circuit w"
  "dian_log (snd (begin_tx w)) = dian_log w" "entropy (snd (begin_tx w)) = entropy w"
  "peers (snd (begin_tx w)) = tl (peers w)" "faults (snd (begin_tx w)) = tl (faults w)"
  by (simp_all add: begin_tx_def)

text \<open>Nothing fails and nobody interferes.\<close>

definition alone :: "'db world \<Rightarrow> bool" where
  "alone w \<longleftrightarrow> faults w = [] \<and> peers w = []"

lemma begin_tx_alone [simp]: "alone w \<Longrightarrow> begin_tx w = (None, w)"
  by (simp add: begin_tx_def alone_def seen_def)

lemma seen_alone [simp]: "alone w \<Longrightarrow> seen w = db w"
  by (simp add: seen_def alone_def)

text \<open>
  What a transaction can do: leave the store as it was, or apply the body. A success is always an
  applied body.
\<close>

lemma transact_cases:
  assumes "transact body w = (r, w')"
  obtains (unchanged) e where "r = Inl e" and "db w' = seen w"
    | (applied) v a where "v = snd (begin_tx w)" and "body v = (Inr a, w')"
        and "r = Inr a \<or> r = Inl db_unavailable"
proof -
  obtain f v where fv: "begin_tx w = (f, v)" by force
  note v = begin_tx_fields[of w, unfolded fv snd_conv]
  show thesis
  proof (cases "f = Some Rolled_back")
    case True
    with assms v show ?thesis
      by (intro unchanged[of db_unavailable]) (auto simp: transact_def fv)
  next
    case False
    show ?thesis
    proof (cases "body v")
      case (Pair x u)
      with assms v False show ?thesis
        by (cases x) (auto simp: transact_def fv split: if_splits intro: unchanged applied)
    qed
  qed
qed

lemma transact_Inr:
  assumes "transact body w = (Inr a, w')"
  shows "body (snd (begin_tx w)) = (Inr a, w')"
  using assms by (auto simp: transact_def split: prod.splits sum.splits if_splits)

lemma transact_alone:
  assumes "alone w"
  shows "transact body w =
    (case body w of (Inl e, u) \<Rightarrow> (Inl e, u\<lparr>db := db w\<rparr>) | (Inr a, u) \<Rightarrow> (Inr a, u))"
  using assms by (simp add: transact_def split: prod.splits sum.splits)

text \<open>A predicate on the store that a successful body keeps is kept by the transaction.\<close>

lemma transact_db_keeps:
  assumes "\<And>v a u. db v = seen w \<Longrightarrow> clock v = clock w \<Longrightarrow> next_uuid v = next_uuid w \<Longrightarrow>
      body v = (Inr a, u) \<Longrightarrow> I (db u)"
    and "I (seen w)"
  shows "I (db (snd (transact body w)))"
proof -
  obtain r w' where t: "transact body w = (r, w')" by force
  from t show ?thesis
  proof (cases rule: transact_cases)
    case (unchanged e)
    with t assms(2) show ?thesis by simp
  next
    case (applied v a)
    then show ?thesis using t assms(1)[of v a w'] by simp
  qed
qed

text \<open>
  A transaction whose effect is a function of the store, the clock and the next identifier. \<open>tx\<close> lifts a
  body on the store to the world.
\<close>

definition tx :: "(instant \<Rightarrow> 'db \<Rightarrow> ('a \<times> 'db) result) \<Rightarrow> ('db world, 'a) io" where
  "tx body = transact (\<lambda>w. case body (clock w) (db w) of
                          Inl e \<Rightarrow> (Inl e, w)
                        | Inr (a, s) \<Rightarrow> (Inr a, w\<lparr>db := s\<rparr>))"

text \<open>The same for a body that draws \<open>n\<close> identifiers, given the first of them.\<close>

definition tx_ids :: "(instant \<Rightarrow> uuid \<Rightarrow> 'db \<Rightarrow> ('a \<times> nat \<times> 'db) result) \<Rightarrow> ('db world, 'a) io" where
  "tx_ids body = transact (\<lambda>w. case body (clock w) (next_uuid w) (db w) of
                              Inl e \<Rightarrow> (Inl e, w)
                            | Inr (a, n, s) \<Rightarrow> (Inr a, w\<lparr>next_uuid := next_uuid w + n, db := s\<rparr>))"

lemma tx_cases:
  assumes "tx body w = (r, w')"
  obtains (unchanged) e where "r = Inl e" and "db w' = seen w" and "next_uuid w' = next_uuid w"
    | (applied) a where "body (clock w) (seen w) = Inr (a, db w')" and "next_uuid w' = next_uuid w"
        and "r = Inr a \<or> r = Inl db_unavailable"
proof -
  obtain f v where fv: "begin_tx w = (f, v)" by force
  note v = begin_tx_fields[of w, unfolded fv snd_conv]
  show thesis
  proof (cases "f = Some Rolled_back")
    case True
    with assms v show ?thesis
      by (intro unchanged[of db_unavailable]) (auto simp: tx_def transact_def fv)
  next
    case False
    show ?thesis
    proof (cases "body (clock w) (seen w)")
      case (Inl e)
      with assms v False show ?thesis
        by (intro unchanged[of e]) (auto simp: tx_def transact_def fv)
    next
      case (Inr p)
      then obtain a s where p: "body (clock w) (seen w) = Inr (a, s)" by (cases p) auto
      with assms v False show ?thesis
        by (intro applied[of a]) (auto simp: tx_def transact_def fv split: if_splits)
    qed
  qed
qed

lemma tx_ids_cases:
  assumes "tx_ids body w = (r, w')"
  obtains (unchanged) e where "r = Inl e" and "db w' = seen w" and "next_uuid w' = next_uuid w"
    | (applied) a n where "body (clock w) (next_uuid w) (seen w) = Inr (a, n, db w')"
        and "next_uuid w' = next_uuid w + n" and "r = Inr a \<or> r = Inl db_unavailable"
proof -
  obtain f v where fv: "begin_tx w = (f, v)" by force
  note v = begin_tx_fields[of w, unfolded fv snd_conv]
  show thesis
  proof (cases "f = Some Rolled_back")
    case True
    with assms v show ?thesis
      by (intro unchanged[of db_unavailable]) (auto simp: tx_ids_def transact_def fv)
  next
    case False
    show ?thesis
    proof (cases "body (clock w) (next_uuid w) (seen w)")
      case (Inl e)
      with assms v False show ?thesis
        by (intro unchanged[of e]) (auto simp: tx_ids_def transact_def fv)
    next
      case (Inr p)
      then obtain a n s where p: "body (clock w) (next_uuid w) (seen w) = Inr (a, n, s)" by (cases p) auto
      with assms v False show ?thesis
        by (intro applied[of a n]) (auto simp: tx_ids_def transact_def fv split: if_splits)
    qed
  qed
qed

lemma tx_alone:
  assumes "alone w"
  shows "tx body w =
    (case body (clock w) (db w) of Inl e \<Rightarrow> (Inl e, w) | Inr (a, s) \<Rightarrow> (Inr a, w\<lparr>db := s\<rparr>))"
  using assms by (simp add: tx_def transact_alone split: sum.splits prod.splits)

lemma tx_ids_alone:
  assumes "alone w"
  shows "tx_ids body w =
    (case body (clock w) (next_uuid w) (db w) of
       Inl e \<Rightarrow> (Inl e, w) | Inr (a, n, s) \<Rightarrow> (Inr a, w\<lparr>next_uuid := next_uuid w + n, db := s\<rparr>))"
  using assms by (simp add: tx_ids_def transact_alone split: sum.splits prod.splits)

lemma tx_frame [simp]:
  "clock (snd (tx body w)) = clock w" "circuit (snd (tx body w)) = circuit w"
  "dian_log (snd (tx body w)) = dian_log w" "next_uuid (snd (tx body w)) = next_uuid w"
  "entropy (snd (tx body w)) = entropy w"
proof -
  obtain f v where fv: "begin_tx w = (f, v)" by force
  have "clock v = clock w \<and> circuit v = circuit w \<and> dian_log v = dian_log w \<and>
      next_uuid v = next_uuid w \<and> entropy v = entropy w"
    using begin_tx_fields[of w] by (simp add: fv)
  then show "clock (snd (tx body w)) = clock w" "circuit (snd (tx body w)) = circuit w"
    "dian_log (snd (tx body w)) = dian_log w" "next_uuid (snd (tx body w)) = next_uuid w"
    "entropy (snd (tx body w)) = entropy w"
    by (auto simp: tx_def transact_def fv split: sum.splits prod.splits)
qed

lemma tx_ids_frame [simp]:
  "clock (snd (tx_ids body w)) = clock w" "circuit (snd (tx_ids body w)) = circuit w"
  "dian_log (snd (tx_ids body w)) = dian_log w" "entropy (snd (tx_ids body w)) = entropy w"
proof -
  obtain f v where fv: "begin_tx w = (f, v)" by force
  have "clock v = clock w \<and> circuit v = circuit w \<and> dian_log v = dian_log w \<and> entropy v = entropy w"
    using begin_tx_fields[of w] by (simp add: fv)
  then show "clock (snd (tx_ids body w)) = clock w" "circuit (snd (tx_ids body w)) = circuit w"
    "dian_log (snd (tx_ids body w)) = dian_log w" "entropy (snd (tx_ids body w)) = entropy w"
    by (auto simp: tx_ids_def transact_def fv split: sum.splits prod.splits)
qed

text \<open>A read: no change, and no result when the connection fails.\<close>

definition query :: "(instant \<Rightarrow> 'db \<Rightarrow> 'a) \<Rightarrow> ('db world, 'a) io" where
  "query f = tx (\<lambda>now s. Inr (f now s, s))"

lemma query_cases:
  assumes "query f w = (r, w')"
  obtains "db w' = seen w" and "next_uuid w' = next_uuid w"
    and "r = Inr (f (clock w) (seen w)) \<or> (\<exists>e. r = Inl e)"
  using assms unfolding query_def by (cases rule: tx_cases) auto

lemma query_db [simp]: "db (snd (query f w)) = seen w"
  by (cases "query f w") (auto elim: query_cases)

lemma query_frame [simp]:
  "clock (snd (query f w)) = clock w" "circuit (snd (query f w)) = circuit w"
  "dian_log (snd (query f w)) = dian_log w" "next_uuid (snd (query f w)) = next_uuid w"
  by (simp_all add: query_def)

lemma query_alone: "alone w \<Longrightarrow> query f w = (Inr (f (clock w) (db w)), w)"
  by (simp add: query_def tx_alone)

section \<open>Operations among peers\<close>

text \<open>
  \<open>within A G m\<close>: while \<open>m\<close> runs among peers that all satisfy \<open>A\<close>, everything that happens to the store
  (the peers' steps and its own) is a step of \<open>G\<close>. The locale \<open>guarantee\<close> is the contract \<open>A\<close> and \<open>G\<close>
  need for operations to compose. \<open>obeys G\<close> are the peers that do steps of \<open>G\<close> only, \<open>nobody\<close> is the
  absence of peers.
\<close>

definition peers_in :: "(('db \<Rightarrow> 'db) \<Rightarrow> bool) \<Rightarrow> 'db world \<Rightarrow> bool" where
  "peers_in A w \<longleftrightarrow> (\<forall>p \<in> set (peers w). A p)"

definition obeys :: "('db \<Rightarrow> 'db \<Rightarrow> bool) \<Rightarrow> ('db \<Rightarrow> 'db) \<Rightarrow> bool" where
  "obeys G p \<longleftrightarrow> (\<forall>s. G s (p s))"

definition nobody :: "('db \<Rightarrow> 'db) \<Rightarrow> bool" where
  "nobody p \<longleftrightarrow> False"

definition within ::
  "(('db \<Rightarrow> 'db) \<Rightarrow> bool) \<Rightarrow> ('db \<Rightarrow> 'db \<Rightarrow> bool) \<Rightarrow> ('db world \<Rightarrow> 'r \<times> 'db world) \<Rightarrow> bool" where
  "within A G m \<longleftrightarrow>
     (\<forall>w. peers_in A w \<longrightarrow> G (db w) (db (snd (m w))) \<and> peers_in A (snd (m w)))"

lemma withinD:
  assumes "within A G m" "peers_in A w" "m w = (r, v)"
  shows "G (db w) (db v)" "peers_in A v"
  using assms unfolding within_def by force+

lemma peers_in_alone [simp]: "alone w \<Longrightarrow> peers_in A w"
  by (simp add: peers_in_def alone_def)

lemma peers_in_nobody [simp]: "peers_in nobody w \<longleftrightarrow> peers w = []"
  by (simp add: peers_in_def nobody_def)

lemma transact_peers:
  "(\<And>v. peers (snd (body v)) = peers v) \<Longrightarrow> peers (snd (transact body w)) = tl (peers w)"
proof -
  assume same: "\<And>v. peers (snd (body v)) = peers v"
  obtain f v where fv: "begin_tx w = (f, v)" by force
  have v: "peers v = tl (peers w)" using begin_tx_fields[of w] by (simp add: fv)
  obtain x u where u: "body v = (x, u)" by force
  then have "peers u = peers v" using same[of v] by simp
  with v u show ?thesis by (simp add: transact_def fv split: sum.split)
qed

lemma tx_peers [simp]: "peers (snd (tx body w)) = tl (peers w)"
  unfolding tx_def by (rule transact_peers) (auto split: sum.splits prod.splits)

lemma tx_ids_peers [simp]: "peers (snd (tx_ids body w)) = tl (peers w)"
  unfolding tx_ids_def by (rule transact_peers) (auto split: sum.splits prod.splits)

lemma peers_in_tl: "peers_in A w \<Longrightarrow> peers v = tl (peers w) \<Longrightarrow> peers_in A v"
  by (cases "peers w") (auto simp: peers_in_def)

lemma new_uuid_frame [simp]:
  "db (snd (new_uuid w)) = db w" "peers (snd (new_uuid w)) = peers w"
  "clock (snd (new_uuid w)) = clock w"
  by (simp_all add: new_uuid_def)

lemma draw_peers [simp]: "peers (snd (draw w)) = peers w"
  by (simp add: draw_def split: list.split)

locale guarantee =
  fixes A :: "('db \<Rightarrow> 'db) \<Rightarrow> bool" and G :: "'db \<Rightarrow> 'db \<Rightarrow> bool"
  assumes refl: "G s s" and trans: "G s t \<Longrightarrow> G t u \<Longrightarrow> G s u" and peer: "A p \<Longrightarrow> G s (p s)"
begin

lemma seen_in: "peers_in A w \<Longrightarrow> G (db w) (seen w)"
  by (cases "peers w") (auto simp: peers_in_def seen_def refl intro: peer)

lemma local: "(\<And>w. db (snd (m w)) = db w) \<Longrightarrow> (\<And>w. peers (snd (m w)) = peers w) \<Longrightarrow> within A G m"
  by (simp add: within_def peers_in_def refl)

lemma after:
  assumes "\<And>w. db (f w) = db w" "\<And>w. peers (f w) = peers w" and m: "within A G m"
  shows "within A G (\<lambda>w. m (f w))"
  using m assms(1,2) unfolding within_def peers_in_def by metis

lemma reading: "(\<And>x. within A G (m x)) \<Longrightarrow> within A G (\<lambda>w. m (f w) w)"
  unfolding within_def by blast

lemma then_with:
  assumes "\<And>w. db (snd (g w)) = db w" "\<And>w. peers (snd (g w)) = peers w"
    and k: "\<And>w x. within A G (k w x)"
  shows "within A G (\<lambda>w. case g w of (x, v) \<Rightarrow> k w x v)"
  unfolding within_def
proof (intro allI impI)
  fix w assume w: "peers_in A w"
  obtain x v where g: "g w = (x, v)" by force
  with assms(1,2)[of w] have "db v = db w" "peers v = peers w" by simp_all
  moreover from this w have "peers_in A v" by (simp add: peers_in_def)
  ultimately show "G (db w) (db (snd (case g w of (x, v) \<Rightarrow> k w x v))) \<and>
      peers_in A (snd (case g w of (x, v) \<Rightarrow> k w x v))"
    using k[of w x] by (auto simp: within_def g)
qed

lemma return: "within A G (io_return a)" and fail: "within A G (io_fail e)" and lift: "within A G (io_lift r)"
  by (auto intro: local)

lemma bind_result:
  assumes m: "within A G m" and k: "\<And>w a v. m w = (Inr a, v) \<Longrightarrow> within A G (k a)"
  shows "within A G (io_bind m k)"
  unfolding within_def
proof (intro allI impI)
  fix w assume w: "peers_in A w"
  obtain r v where mv: "m w = (r, v)" by force
  note v = withinD[OF m w mv]
  show "G (db w) (db (snd (io_bind m k w))) \<and> peers_in A (snd (io_bind m k w))"
  proof (cases r)
    case (Inl e)
    with mv v show ?thesis by (simp add: io_bind_def)
  next
    case (Inr a)
    obtain q u where ku: "k a v = (q, u)" by force
    note u = withinD[OF k[OF mv[unfolded Inr]] v(2) ku]
    have "G (db w) (db u)" by (rule trans[OF v(1) u(1)])
    with u(2) mv ku Inr show ?thesis by (simp add: io_bind_def)
  qed
qed

lemma bind: "within A G m \<Longrightarrow> (\<And>a. within A G (k a)) \<Longrightarrow> within A G (io_bind m k)"
  by (rule bind_result)

lemma map_err: "within A G m \<Longrightarrow> within A G (io_map_err f m)"
  unfolding within_def io_map_err_def by (auto split: prod.splits)

lemma match:
  assumes m: "within A G m" and f: "\<And>e. within A G (f e)" and g: "\<And>a. within A G (g a)"
  shows "within A G (io_match m f g)"
  unfolding within_def
proof (intro allI impI)
  fix w assume w: "peers_in A w"
  obtain r v where mv: "m w = (r, v)" by force
  note v = withinD[OF m w mv]
  define k where "k = (case r of Inl e \<Rightarrow> f e | Inr a \<Rightarrow> g a)"
  have k: "within A G k" by (simp add: k_def f g split: sum.split)
  obtain q u where ku: "k v = (q, u)" by force
  note u = withinD[OF k v(2) ku]
  have "io_match m f g w = (q, u)"
    using mv ku by (simp add: io_match_def k_def split: sum.splits)
  with trans[OF v(1) u(1)] u(2)
  show "G (db w) (db (snd (io_match m f g w))) \<and> peers_in A (snd (io_match m f g w))"
    by simp
qed

lemma transaction:
  assumes "\<And>now s a t. body now s = Inr (a, t) \<Longrightarrow> G s t"
  shows "within A G (tx body)"
  unfolding within_def
proof (intro allI impI conjI)
  fix w assume w: "peers_in A w"
  then have s: "G (db w) (seen w)" by (rule seen_in)
  obtain r v where rv: "tx body w = (r, v)" by force
  then have "G (seen w) (db v)"
    by (cases rule: tx_cases) (auto intro: refl assms)
  with s rv show "G (db w) (db (snd (tx body w)))" by (auto intro: trans)
  show "peers_in A (snd (tx body w))" using w by (rule peers_in_tl) simp
qed

lemma transaction_ids:
  assumes "\<And>now i s a n t. body now i s = Inr (a, n, t) \<Longrightarrow> G s t"
  shows "within A G (tx_ids body)"
  unfolding within_def
proof (intro allI impI conjI)
  fix w assume w: "peers_in A w"
  then have s: "G (db w) (seen w)" by (rule seen_in)
  obtain r v where rv: "tx_ids body w = (r, v)" by force
  then have "G (seen w) (db v)"
    by (cases rule: tx_ids_cases) (auto intro: refl assms)
  with s rv show "G (db w) (db (snd (tx_ids body w)))" by (auto intro: trans)
  show "peers_in A (snd (tx_ids body w))" using w by (rule peers_in_tl) simp
qed

lemma read: "within A G (query f)"
  unfolding query_def by (rule transaction) (simp add: refl)

end

lemma obeys_guarantee:
  "(\<And>s. G s s) \<Longrightarrow> (\<And>s t u. G s t \<Longrightarrow> G t u \<Longrightarrow> G s u) \<Longrightarrow> guarantee (obeys G) G"
  by unfold_locales (auto simp: obeys_def)

text \<open>Keeping an invariant is such a relation.\<close>

definition keeps :: "('db \<Rightarrow> bool) \<Rightarrow> 'db \<Rightarrow> 'db \<Rightarrow> bool" where
  "keeps I s t \<longleftrightarrow> (I s \<longrightarrow> I t)"

interpretation keeping: guarantee nobody "keeps I" for I :: "'db \<Rightarrow> bool"
  by unfold_locales (auto simp: keeps_def nobody_def)

lemma keeps_within: "within A (keeps I) m \<Longrightarrow> peers_in A w \<Longrightarrow> I (db w) \<Longrightarrow> I (db (snd (m w)))"
  by (auto simp: within_def keeps_def)

section \<open>Running without peers\<close>

lemma tx_solo:
  assumes "peers w = []" "tx body w = (r, v)"
  shows "peers v = []" "clock v = clock w"
    and "(\<exists>e. r = Inl e \<and> db v = db w) \<or>
      (\<exists>a. body (clock w) (db w) = Inr (a, db v) \<and> (r = Inr a \<or> r = Inl db_unavailable))"
proof -
  have s: "seen w = db w" using assms(1) by (simp add: seen_def)
  show "peers v = []" using assms tx_peers[of body w] by simp
  show "clock v = clock w" using tx_frame(1)[of body w] assms(2) by simp
  show "(\<exists>e. r = Inl e \<and> db v = db w) \<or>
      (\<exists>a. body (clock w) (db w) = Inr (a, db v) \<and> (r = Inr a \<or> r = Inl db_unavailable))"
    using assms(2) by (cases rule: tx_cases) (auto simp: s)
qed

lemma tx_ids_solo:
  assumes "peers w = []" "tx_ids body w = (r, v)"
  shows "peers v = []" "clock v = clock w"
    and "(\<exists>e. r = Inl e \<and> db v = db w) \<or>
      (\<exists>a n. body (clock w) (next_uuid w) (db w) = Inr (a, n, db v) \<and> (r = Inr a \<or> r = Inl db_unavailable))"
proof -
  have s: "seen w = db w" using assms(1) by (simp add: seen_def)
  show "peers v = []" using assms tx_ids_peers[of body w] by simp
  show "clock v = clock w" using tx_ids_frame(1)[of body w] assms(2) by simp
  show "(\<exists>e. r = Inl e \<and> db v = db w) \<or>
      (\<exists>a n. body (clock w) (next_uuid w) (db w) = Inr (a, n, db v) \<and> (r = Inr a \<or> r = Inl db_unavailable))"
    using assms(2) by (cases rule: tx_ids_cases) (auto simp: s)
qed

lemma query_solo:
  assumes "peers w = []" "query f w = (r, v)"
  shows "db v = db w" "peers v = []" "clock v = clock w" "r = Inr (f (clock w) (db w)) \<or> (\<exists>e. r = Inl e)"
proof -
  have s: "seen w = db w" using assms(1) by (simp add: seen_def)
  show "db v = db w" using query_db[of f w] assms(2) s by simp
  show "clock v = clock w" using query_frame(1)[of f w] assms(2) by simp
  show "peers v = []" using assms tx_peers[of "\<lambda>now s. Inr (f now s, s)" w] by (simp add: query_def)
  show "r = Inr (f (clock w) (db w)) \<or> (\<exists>e. r = Inl e)"
    using assms(2) s by (cases rule: query_cases) auto
qed

section \<open>What an operation leaves alone\<close>

definition preserves :: "('w \<Rightarrow> 'o) \<Rightarrow> ('w \<Rightarrow> 'r \<times> 'w) \<Rightarrow> bool" where
  "preserves obs m \<longleftrightarrow> (\<forall>w. obs (snd (m w)) = obs w)"

named_theorems preserved \<open>operations that leave an observation alone\<close>

lemma preservesI: "(\<And>w. obs (snd (m w)) = obs w) \<Longrightarrow> preserves obs m"
  by (simp add: preserves_def)

lemma preservesD: "preserves obs m \<Longrightarrow> m w = (r, v) \<Longrightarrow> obs v = obs w"
  unfolding preserves_def by (metis snd_conv)

lemma preserves_pure [preserved]:
  "preserves obs (io_return a)" "preserves obs (io_fail e)" "preserves obs (io_lift r)"
  by (simp_all add: preserves_def)

lemma preserves_bind [preserved]:
  "preserves obs m \<Longrightarrow> (\<And>a. preserves obs (k a)) \<Longrightarrow> preserves obs (io_bind m k)"
  by (auto simp: preserves_def io_bind_def split: prod.splits sum.splits) (metis snd_conv)+

lemma preserves_match [preserved]:
  "preserves obs m \<Longrightarrow> (\<And>e. preserves obs (f e)) \<Longrightarrow> (\<And>a. preserves obs (g a)) \<Longrightarrow>
   preserves obs (io_match m f g)"
  by (auto simp: preserves_def io_match_def split: prod.splits sum.splits) (metis snd_conv)+

lemma preserves_map_err [preserved]: "preserves obs m \<Longrightarrow> preserves obs (io_map_err f m)"
  by (auto simp: preserves_def io_map_err_def split: prod.splits) (metis snd_conv)

lemma preserves_transactions [preserved]:
  "preserves dian_log (tx body)" "preserves dian_log (tx_ids body_ids)" "preserves dian_log (query f)"
  "preserves clock (tx body)" "preserves clock (tx_ids body_ids)" "preserves clock (query f)"
  by (simp_all add: preserves_def)

end
