(* ===== verification/Webhook_Rules.thy ===== *)
theory Webhook_Rules
  imports Ports "HOL-Library.Word"
begin

unbundle bit_operations_syntax

text \<open>
  \<open>core-domain/src/webhooks.rs\<close>: which status changes are notified, with which data, and which IP
  addresses a delivery may go to. An IPv4 address is its 32 bits, an IPv6 address its eight 16-bit
  segments. The specification of \<open>is_public_v4\<close> is a list of CIDR blocks (\<open>special_blocks\<close>).
\<close>

section \<open>Events\<close>

definition event_all :: string where "event_all = ''*''"

definition event_types :: "string list" where
  "event_types = [''document.accepted'', ''document.rejected'', ''document.contingency'', ''document.failed'']"

definition max_delivery_attempts :: i32 where "max_delivery_attempts = 10"

fun event_for :: "document_status \<Rightarrow> string option" where
  "event_for DianAccepted = Some ''document.accepted''"
| "event_for DianRejected = Some ''document.rejected''"
| "event_for ContingencyPending = Some ''document.contingency''"
| "event_for ProcessingFailed = Some ''document.failed''"
| "event_for _ = None"

definition is_valid_subscription :: "string \<Rightarrow> bool" where
  "is_valid_subscription event_type \<longleftrightarrow> event_type = event_all \<or> event_type \<in> set event_types"

record notified_document =
  nd_document_id :: uuid
  nd_document_type :: string
  nd_prefix :: string
  nd_number :: i32
  nd_status :: document_status
  nd_cufe :: "string option"

definition notification_data :: "notified_document \<Rightarrow> json_object" where
  "notification_data d =
     [(''cufe'', opt_json_str (case nd_cufe d of Some c \<Rightarrow> if c \<noteq> [] then Some c else None | None \<Rightarrow> None)),
      (''document_id'', J_str (uuid_string (nd_document_id d))),
      (''document_type'', J_str (nd_document_type d)),
      (''number'', J_int (nd_number d)),
      (''prefix'', J_str (nd_prefix d)),
      (''status'', J_str (document_status_as_str (nd_status d)))]"

lemma event_for_valid: "event_for s = Some e \<Longrightarrow> is_valid_subscription e"
  by (cases s) (auto simp: is_valid_subscription_def event_types_def)

lemma event_for_Some_iff:
  "event_for s \<noteq> None \<longleftrightarrow> is_terminal s \<or> s = ContingencyPending"
  by (cases s) auto

lemma event_for_inject:
  "event_for s = Some e \<Longrightarrow> event_for t = Some e \<Longrightarrow> s = t"
  by (cases s; cases t) auto

section \<open>Addresses\<close>

type_synonym ipv4 = "32 word"

datatype ipv6 = V6 "16 word" "16 word" "16 word" "16 word" "16 word" "16 word" "16 word" "16 word"

datatype ip_addr = Ip_v4 ipv4 | Ip_v6 ipv6

definition octet :: "nat \<Rightarrow> ipv4 \<Rightarrow> nat" where
  "octet i ip = unat (drop_bit (24 - 8 * i) ip) mod 256"

text \<open>The predicates of \<open>std::net::Ipv4Addr\<close>, on the octets.\<close>

definition is_unspecified_v4 :: "ipv4 \<Rightarrow> bool" where "is_unspecified_v4 ip \<longleftrightarrow> ip = 0"
definition is_loopback_v4 :: "ipv4 \<Rightarrow> bool" where "is_loopback_v4 ip \<longleftrightarrow> octet 0 ip = 127"
definition is_private_v4 :: "ipv4 \<Rightarrow> bool" where
  "is_private_v4 ip \<longleftrightarrow>
     octet 0 ip = 10 \<or> (octet 0 ip = 172 \<and> 16 \<le> octet 1 ip \<and> octet 1 ip \<le> 31) \<or>
     (octet 0 ip = 192 \<and> octet 1 ip = 168)"
definition is_link_local_v4 :: "ipv4 \<Rightarrow> bool" where
  "is_link_local_v4 ip \<longleftrightarrow> octet 0 ip = 169 \<and> octet 1 ip = 254"
definition is_broadcast_v4 :: "ipv4 \<Rightarrow> bool" where "is_broadcast_v4 ip \<longleftrightarrow> ip = 0xFFFFFFFF"
definition is_multicast_v4 :: "ipv4 \<Rightarrow> bool" where
  "is_multicast_v4 ip \<longleftrightarrow> 224 \<le> octet 0 ip \<and> octet 0 ip \<le> 239"
definition is_documentation_v4 :: "ipv4 \<Rightarrow> bool" where
  "is_documentation_v4 ip \<longleftrightarrow>
     (octet 0 ip = 192 \<and> octet 1 ip = 0 \<and> octet 2 ip = 2) \<or>
     (octet 0 ip = 198 \<and> octet 1 ip = 51 \<and> octet 2 ip = 100) \<or>
     (octet 0 ip = 203 \<and> octet 1 ip = 0 \<and> octet 2 ip = 113)"

definition is_public_v4 :: "ipv4 \<Rightarrow> bool" where
  "is_public_v4 ip \<longleftrightarrow>
     (let a = octet 0 ip; b = octet 1 ip; c = octet 2 ip
      in \<not> (is_unspecified_v4 ip \<or> is_loopback_v4 ip \<or> is_private_v4 ip \<or> is_link_local_v4 ip \<or>
            is_broadcast_v4 ip \<or> is_multicast_v4 ip \<or> is_documentation_v4 ip \<or>
            a = 0 \<or> (a = 100 \<and> 64 \<le> b \<and> b < 128) \<or> (a = 192 \<and> b = 0 \<and> c = 0) \<or>
            (a = 198 \<and> (b = 18 \<or> b = 19)) \<or> a \<ge> 240))"

definition is_unspecified_v6 :: "ipv6 \<Rightarrow> bool" where "is_unspecified_v6 ip \<longleftrightarrow> ip = V6 0 0 0 0 0 0 0 0"
definition is_loopback_v6 :: "ipv6 \<Rightarrow> bool" where "is_loopback_v6 ip \<longleftrightarrow> ip = V6 0 0 0 0 0 0 0 1"

fun first_segment :: "ipv6 \<Rightarrow> 16 word" where "first_segment (V6 s0 s1 s2 s3 s4 s5 s6 s7) = s0"
fun second_segment :: "ipv6 \<Rightarrow> 16 word" where "second_segment (V6 s0 s1 s2 s3 s4 s5 s6 s7) = s1"

definition is_multicast_v6 :: "ipv6 \<Rightarrow> bool" where
  "is_multicast_v6 ip \<longleftrightarrow> first_segment ip AND 0xFF00 = 0xFF00"

fun to_ipv4_mapped :: "ipv6 \<Rightarrow> ipv4 option" where
  "to_ipv4_mapped (V6 s0 s1 s2 s3 s4 s5 s6 s7) =
     (if s0 = 0 \<and> s1 = 0 \<and> s2 = 0 \<and> s3 = 0 \<and> s4 = 0 \<and> s5 = 0xFFFF
      then Some (push_bit 16 (ucast s6) OR ucast s7) else None)"

definition is_public_v6 :: "ipv6 \<Rightarrow> bool" where
  "is_public_v6 ip \<longleftrightarrow>
     (let first = first_segment ip
      in \<not> (is_unspecified_v6 ip \<or> is_loopback_v6 ip \<or> is_multicast_v6 ip \<or>
            first AND 0xFE00 = 0xFC00 \<or> first AND 0xFFC0 = 0xFE80 \<or>
            (first = 0x2001 \<and> second_segment ip = 0x0DB8) \<or>
            (first = 0x0064 \<and> second_segment ip = 0xFF9B)))"

fun is_public_ip :: "ip_addr \<Rightarrow> bool" where
  "is_public_ip (Ip_v4 v4) = is_public_v4 v4"
| "is_public_ip (Ip_v6 v6) =
     (case to_ipv4_mapped v6 of Some v4 \<Rightarrow> is_public_v4 v4 | None \<Rightarrow> is_public_v6 v6)"

text \<open>
  The specification: an address is public when it lies in none of these blocks, each a base address
  and a prefix length.
\<close>

definition special_blocks :: "(nat \<times> nat \<times> nat \<times> nat \<times> nat) list" where
  "special_blocks =
     [(0, 0, 0, 0, 8), (10, 0, 0, 0, 8), (100, 64, 0, 0, 10), (127, 0, 0, 0, 8), (169, 254, 0, 0, 16),
      (172, 16, 0, 0, 12), (192, 0, 0, 0, 24), (192, 0, 2, 0, 24), (192, 168, 0, 0, 16),
      (198, 18, 0, 0, 15), (198, 51, 100, 0, 24), (203, 0, 113, 0, 24), (224, 0, 0, 0, 4),
      (240, 0, 0, 0, 4)]"

definition in_block :: "ipv4 \<Rightarrow> nat \<times> nat \<times> nat \<times> nat \<times> nat \<Rightarrow> bool" where
  "in_block ip blk \<longleftrightarrow>
     (case blk of (a, b, c, d, len) \<Rightarrow>
        unat ip div 2 ^ (32 - len) = (((a * 256 + b) * 256 + c) * 256 + d) div 2 ^ (32 - len))"

lemma unat_ip_bound: "unat (ip :: ipv4) < 4294967296"
  using unsigned_less[of ip, where ?'a = nat] by simp

lemma octet_div:
  "octet 0 ip = unat ip div 16777216" "octet 1 ip = unat ip div 65536 mod 256"
  "octet 2 ip = unat ip div 256 mod 256"
proof -
  have "unat ip div 16777216 < 256"
    using unat_ip_bound[of ip] by (simp add: less_mult_imp_div_less)
  then show "octet 0 ip = unat ip div 16777216"
    by (simp add: octet_def unat_drop_bit_eq drop_bit_eq_div[where 'a = nat])
qed (simp_all add: octet_def unat_drop_bit_eq drop_bit_eq_div[where 'a = nat])

text \<open>
  A block that ends inside the second octet, in terms of the two octets: \<open>m\<close> is the size of the
  block in that octet and \<open>k\<close> the number of such blocks.
\<close>

lemma second_octet_block:
  fixes q :: nat
  assumes "m * k = 256" "c < k"
  shows "q div m = k * a + c \<longleftrightarrow> q div 256 = a \<and> q mod 256 div m = c"
proof -
  have q: "q div m div k = q div 256"
    using assms(1) by (simp add: div_mult2_eq[symmetric])
  have "m * (q div m mod k) + q mod m = q mod 256"
    using mod_mult2_eq[of q m k] assms(1) by simp
  moreover have "0 < m" using assms(1) by (auto intro: Nat.gr0I)
  ultimately have r: "q div m mod k = q mod 256 div m"
    by (metis div_mult_self4 add.commute less_not_refl mod_less_divisor div_less add_0 mult.commute)
  have "q div m = k * a + c \<longleftrightarrow> q div m div k = a \<and> q div m mod k = c"
    using assms(2) by (auto simp: div_mult_self4)
  with q r show ?thesis by simp
qed

lemma octet_pair: "(q :: nat) = 256 * a + b \<longleftrightarrow> q div 256 = a \<and> q mod 256 = b" if "b < 256"
  using that by auto

lemma in_block_octets:
  fixes ip :: ipv4
  defines "q \<equiv> unat ip div 65536"
  shows "in_block ip (a, 0, 0, 0, 8) \<longleftrightarrow> q div 256 = a"
    and "b < 256 \<Longrightarrow> in_block ip (a, b, 0, 0, 16) \<longleftrightarrow> q div 256 = a \<and> q mod 256 = b"
    and "b < 256 \<Longrightarrow> c < 256 \<Longrightarrow>
      in_block ip (a, b, c, 0, 24) \<longleftrightarrow>
        q div 256 = a \<and> q mod 256 = b \<and> unat ip div 256 mod 256 = c"
    and "in_block ip (100, 64, 0, 0, 10) \<longleftrightarrow> q div 256 = 100 \<and> q mod 256 div 64 = 1"
    and "in_block ip (172, 16, 0, 0, 12) \<longleftrightarrow> q div 256 = 172 \<and> q mod 256 div 16 = 1"
    and "in_block ip (198, 18, 0, 0, 15) \<longleftrightarrow> q div 256 = 198 \<and> q mod 256 div 2 = 9"
    and "in_block ip (224, 0, 0, 0, 4) \<longleftrightarrow> q div 4096 = 14"
    and "in_block ip (240, 0, 0, 0, 4) \<longleftrightarrow> q div 4096 = 15"
proof -
  have n: "unat ip div 16777216 = q div 256" "unat ip div 4194304 = q div 64"
    "unat ip div 1048576 = q div 16" "unat ip div 131072 = q div 2"
    "unat ip div 268435456 = q div 4096" "unat ip div 256 div 256 = q"
    by (simp_all add: q_def div_mult2_eq[symmetric])
  show "in_block ip (a, 0, 0, 0, 8) \<longleftrightarrow> q div 256 = a"
    by (simp add: in_block_def n)
  show "in_block ip (a, b, 0, 0, 16) \<longleftrightarrow> q div 256 = a \<and> q mod 256 = b" if "b < 256"
    using that octet_pair[of b q a] by (simp add: in_block_def q_def ac_simps)
  show "in_block ip (a, b, c, 0, 24) \<longleftrightarrow>
      q div 256 = a \<and> q mod 256 = b \<and> unat ip div 256 mod 256 = c" if "b < 256" "c < 256"
  proof -
    have "in_block ip (a, b, c, 0, 24) \<longleftrightarrow> unat ip div 256 = 256 * (256 * a + b) + c"
      by (simp add: in_block_def ac_simps)
    also have "\<dots> \<longleftrightarrow> q = 256 * a + b \<and> unat ip div 256 mod 256 = c"
      using that(2) n(6) octet_pair[of c "unat ip div 256" "256 * a + b"] by simp
    finally show ?thesis using that(1) octet_pair[of b q a] by simp
  qed
  show "in_block ip (100, 64, 0, 0, 10) \<longleftrightarrow> q div 256 = 100 \<and> q mod 256 div 64 = 1"
    using second_octet_block[of 64 4 1 q 100] by (simp add: in_block_def n)
  show "in_block ip (172, 16, 0, 0, 12) \<longleftrightarrow> q div 256 = 172 \<and> q mod 256 div 16 = 1"
    using second_octet_block[of 16 16 1 q 172] by (simp add: in_block_def n)
  show "in_block ip (198, 18, 0, 0, 15) \<longleftrightarrow> q div 256 = 198 \<and> q mod 256 div 2 = 9"
    using second_octet_block[of 2 128 9 q 198] by (simp add: in_block_def n)
  show "in_block ip (224, 0, 0, 0, 4) \<longleftrightarrow> q div 4096 = 14"
    "in_block ip (240, 0, 0, 0, 4) \<longleftrightarrow> q div 4096 = 15"
    by (simp_all add: in_block_def n)
qed

text \<open>The octets of an address, and the parts of the second octet the code compares.\<close>

lemma octet_parts:
  fixes b :: nat
  shows "b div 64 = Suc 0 \<longleftrightarrow> 64 \<le> b \<and> b < 128" "b div 16 = Suc 0 \<longleftrightarrow> 16 \<le> b \<and> b \<le> 31"
    "b div 2 = 9 \<longleftrightarrow> b = 18 \<or> b = 19"
  by arith+

lemma high_blocks:
  fixes q :: nat
  assumes "q < 65536"
  shows "q div 4096 = 14 \<longleftrightarrow> 224 \<le> q div 256 \<and> q div 256 \<le> 239"
    and "q div 4096 = 15 \<longleftrightarrow> 240 \<le> q div 256"
proof -
  have q: "q div 4096 = q div 256 div 16" by (simp add: div_mult2_eq[symmetric])
  have "q div 256 < 256" using assms by (simp add: less_mult_imp_div_less)
  then show "q div 4096 = 14 \<longleftrightarrow> 224 \<le> q div 256 \<and> q div 256 \<le> 239"
    "q div 4096 = 15 \<longleftrightarrow> 240 \<le> q div 256"
    unfolding q by arith+
qed

lemma special_octets:
  fixes a b c :: nat
  assumes "unspecified \<Longrightarrow> a = 0" and "broadcast \<Longrightarrow> 240 \<le> a"
  shows "\<not> (unspecified \<or> a = 127 \<or>
      (a = 10 \<or> (a = 172 \<and> 16 \<le> b \<and> b \<le> 31) \<or> (a = 192 \<and> b = 168)) \<or>
      (a = 169 \<and> b = 254) \<or> broadcast \<or> (224 \<le> a \<and> a \<le> 239) \<or>
      ((a = 192 \<and> b = 0 \<and> c = 2) \<or> (a = 198 \<and> b = 51 \<and> c = 100) \<or> (a = 203 \<and> b = 0 \<and> c = 113)) \<or>
      a = 0 \<or> (a = 100 \<and> 64 \<le> b \<and> b < 128) \<or> (a = 192 \<and> b = 0 \<and> c = 0) \<or>
      (a = 198 \<and> (b = 18 \<or> b = 19)) \<or> a \<ge> 240) \<longleftrightarrow>
    \<not> (a = 0 \<or> a = 10 \<or> (a = 100 \<and> 64 \<le> b \<and> b < 128) \<or> a = 127 \<or> (a = 169 \<and> b = 254) \<or>
      (a = 172 \<and> 16 \<le> b \<and> b \<le> 31) \<or> (a = 192 \<and> b = 0 \<and> c = 0) \<or> (a = 192 \<and> b = 0 \<and> c = 2) \<or>
      (a = 192 \<and> b = 168) \<or> (a = 198 \<and> (b = 18 \<or> b = 19)) \<or> (a = 198 \<and> b = 51 \<and> c = 100) \<or>
      (a = 203 \<and> b = 0 \<and> c = 113) \<or> (224 \<le> a \<and> a \<le> 239) \<or> 240 \<le> a)"
proof -
  have "unspecified \<or> a = 0 \<longleftrightarrow> a = 0" and "broadcast \<or> 240 \<le> a \<longleftrightarrow> 240 \<le> a"
    using assms by blast+
  then show ?thesis by argo
qed

text \<open>
  C38. Server-side request forgery: an IPv4 address counts as public exactly when it lies in none
  of the special-purpose CIDR blocks (this network, private, CGNAT, loopback, link local and cloud
  metadata, IETF, documentation, benchmarking, multicast, reserved and broadcast).
\<close>

theorem public_v4_blocks:
  "is_public_v4 ip \<longleftrightarrow> \<not> list_ex (in_block ip) special_blocks"
proof -
  let ?q = "unat ip div 65536"
  have q: "?q < 65536" using unat_ip_bound[of ip] by (simp add: less_mult_imp_div_less)
  have o0: "unat ip div 16777216 = ?q div 256" by (simp add: div_mult2_eq[symmetric])
  have unspecified: "ip = 0 \<Longrightarrow> ?q div 256 = 0" by simp
  have broadcast: "ip = 0xFFFFFFFF \<Longrightarrow> 240 \<le> ?q div 256" by simp
  have "is_public_v4 ip \<longleftrightarrow>
      \<not> (?q div 256 = 0 \<or> ?q div 256 = 10 \<or>
         (?q div 256 = 100 \<and> 64 \<le> ?q mod 256 \<and> ?q mod 256 < 128) \<or> ?q div 256 = 127 \<or>
         (?q div 256 = 169 \<and> ?q mod 256 = 254) \<or>
         (?q div 256 = 172 \<and> 16 \<le> ?q mod 256 \<and> ?q mod 256 \<le> 31) \<or>
         (?q div 256 = 192 \<and> ?q mod 256 = 0 \<and> unat ip div 256 mod 256 = 0) \<or>
         (?q div 256 = 192 \<and> ?q mod 256 = 0 \<and> unat ip div 256 mod 256 = 2) \<or>
         (?q div 256 = 192 \<and> ?q mod 256 = 168) \<or>
         (?q div 256 = 198 \<and> (?q mod 256 = 18 \<or> ?q mod 256 = 19)) \<or>
         (?q div 256 = 198 \<and> ?q mod 256 = 51 \<and> unat ip div 256 mod 256 = 100) \<or>
         (?q div 256 = 203 \<and> ?q mod 256 = 0 \<and> unat ip div 256 mod 256 = 113) \<or>
         (224 \<le> ?q div 256 \<and> ?q div 256 \<le> 239) \<or> 240 \<le> ?q div 256)"
    unfolding is_public_v4_def Let_def octet_div o0 is_unspecified_v4_def is_loopback_v4_def
      is_private_v4_def is_link_local_v4_def is_broadcast_v4_def is_multicast_v4_def
      is_documentation_v4_def
    by (rule special_octets[OF unspecified broadcast])
  also have "\<dots> \<longleftrightarrow> \<not> list_ex (in_block ip) special_blocks"
    unfolding special_blocks_def
    by (simp add: in_block_octets octet_parts high_blocks[OF q])
  finally show ?thesis .
qed

end
