(* ===== verification/Pg_Tables.thy ===== *)
theory Pg_Tables
  imports World Webhook_Rules
begin

text \<open>
  The PostgreSQL database: the tables of \<open>migrations/\<close> with their constraints, and the conversion of
  SQL errors in \<open>infra-postgres/src/lib.rs\<close>. A table is a list of rows; an \<open>INSERT\<close> appends, an
  \<open>UPDATE\<close> changes rows in place. A statement puts the new contents of a table and fails when a
  constraint does not hold of them, so the constraints hold of every table a statement has written.
  Column lengths (\<open>VARCHAR(n)\<close>) are not modelled; timestamps keep their nanoseconds.
\<close>

section \<open>SQL errors\<close>

datatype sql_error = Unique_violation | Check_violation | Foreign_key_violation | Bad_argument

fun sql_error_text :: "sql_error \<Rightarrow> string" where
  "sql_error_text Unique_violation = ''error returned from database: duplicate key value''"
| "sql_error_text Check_violation = ''error returned from database: violates check constraint''"
| "sql_error_text Foreign_key_violation = ''error returned from database: violates foreign key constraint''"
| "sql_error_text Bad_argument = ''error returned from database: LIMIT must not be negative''"

definition db_error :: "sql_error \<Rightarrow> domain_error" where
  "db_error e = Database (sql_error_text e)"

definition is_unique_violation :: "sql_error \<Rightarrow> bool" where
  "is_unique_violation e \<longleftrightarrow> e = Unique_violation"

definition conflict_on_unique :: "string \<Rightarrow> sql_error \<Rightarrow> domain_error" where
  "conflict_on_unique m e = (if is_unique_violation e then Conflict m else db_error e)"

section \<open>Rows\<close>

record job_row =
  jr_id :: uuid
  jr_kind :: job_kind
  jr_document_id :: uuid
  jr_payload :: json_object
  jr_status :: job_status
  jr_attempts :: i32
  jr_max_attempts :: i32
  jr_run_at :: instant
  jr_locked_until :: "instant option"
  jr_locked_by :: "string option"
  jr_last_error :: "string option"
  jr_created_at :: instant
  jr_updated_at :: instant

datatype delivery_status = Del_Queued | Del_Running | Del_Delivered | Del_Dead

record delivery_row =
  dl_id :: uuid
  dl_webhook_id :: uuid
  dl_document_id :: uuid
  dl_event_type :: string
  dl_data :: json_object
  dl_status :: delivery_status
  dl_attempts :: i32
  dl_max_attempts :: i32
  dl_run_at :: instant
  dl_locked_until :: "instant option"
  dl_last_error :: "string option"
  dl_last_status_code :: "int option"
  dl_created_at :: instant
  dl_updated_at :: instant

record idempotency_row =
  ir_tenant_id :: uuid
  ir_key :: string
  ir_request_hash :: string
  ir_document_id :: uuid
  ir_document_number :: i32

record audit_row =
  ar_id :: uuid
  ar_entry :: audit_entry
  ar_created_at :: instant

record pg =
  tenants :: "tenant list"
  certificates :: "certificate list"
  ranges :: "numbering_range list"
  documents :: "document list"
  events :: "dian_event list"
  jobs :: "job_row list"
  idempotency :: "idempotency_row list"
  webhooks :: "webhook list"
  deliveries :: "delivery_row list"
  api_keys :: "api_key_record list"
  audit_log :: "audit_row list"

definition pg_empty :: pg where
  "pg_empty = \<lparr>tenants = [], certificates = [], ranges = [], documents = [], events = [], jobs = [],
     idempotency = [], webhooks = [], deliveries = [], api_keys = [], audit_log = []\<rparr>"

section \<open>Constraints\<close>

definition references :: "'k \<Rightarrow> ('r \<Rightarrow> 'k) \<Rightarrow> 'r list \<Rightarrow> bool" where
  "references k key rs \<longleftrightarrow> k \<in> key ` set rs"

fun is_active_job_status :: "job_status \<Rightarrow> bool" where
  "is_active_job_status Queued = True"
| "is_active_job_status Running = True"
| "is_active_job_status _ = False"

text \<open>The partial unique index \<open>uq_jobs_active_per_document\<close>.\<close>

definition active_jobs :: "job_row list \<Rightarrow> job_row list" where
  "active_jobs js = filter (\<lambda>j. is_active_job_status (jr_status j)) js"

definition one_active_job :: "job_row list \<Rightarrow> bool" where
  "one_active_job js \<longleftrightarrow> unique_on (\<lambda>j. (jr_document_id j, jr_kind j)) (active_jobs js)"

text \<open>The unique key \<open>uq_tenant_document\<close>.\<close>

definition document_key :: "document \<Rightarrow> uuid \<times> direction \<times> string \<times> document_type \<times> string \<times> i32" where
  "document_key d = (d_tenant_id d, d_direction d, d_issuer_nit d, d_document_type d, d_prefix d,
     d_document_number d)"

definition active_certificates :: "certificate list \<Rightarrow> certificate list" where
  "active_certificates cs = filter (\<lambda>c. c_status c = C_Active) cs"

definition constrained :: "bool \<Rightarrow> bool \<Rightarrow> bool \<Rightarrow> pg \<Rightarrow> sql_error + pg" where
  "constrained check uniq refs s =
     (if \<not> check then Inl Check_violation
      else if \<not> uniq then Inl Unique_violation
      else if \<not> refs then Inl Foreign_key_violation
      else Inr s)"

definition tenants_ok :: "tenant list \<Rightarrow> bool" where
  "tenants_ok ts \<longleftrightarrow> unique_on t_id ts \<and> unique_on t_tax_id ts"

definition put_tenants :: "tenant list \<Rightarrow> pg \<Rightarrow> sql_error + pg" where
  "put_tenants ts s = constrained True (tenants_ok ts) True (s\<lparr>tenants := ts\<rparr>)"

definition certificates_ok :: "certificate list \<Rightarrow> bool" where
  "certificates_ok cs \<longleftrightarrow> unique_on c_id cs \<and> unique_on c_tenant_id (active_certificates cs)"

definition put_certificates :: "certificate list \<Rightarrow> pg \<Rightarrow> sql_error + pg" where
  "put_certificates cs s = constrained True (certificates_ok cs)
     (list_all (\<lambda>c. references (c_tenant_id c) t_id (tenants s)) cs) (s\<lparr>certificates := cs\<rparr>)"

definition range_check :: "numbering_range \<Rightarrow> bool" where
  "range_check r \<longleftrightarrow> r_from_number r \<le> r_to_number r \<and> 0 \<le> r_current_counter r"

definition put_ranges :: "numbering_range list \<Rightarrow> pg \<Rightarrow> sql_error + pg" where
  "put_ranges rs s = constrained (list_all range_check rs) (unique_on r_id rs)
     (list_all (\<lambda>r. references (r_tenant_id r) t_id (tenants s)) rs) (s\<lparr>ranges := rs\<rparr>)"

definition documents_ok :: "document list \<Rightarrow> bool" where
  "documents_ok ds \<longleftrightarrow> unique_on d_id ds \<and> unique_on document_key ds"

definition document_refs :: "pg \<Rightarrow> document \<Rightarrow> bool" where
  "document_refs s d \<longleftrightarrow> references (d_tenant_id d) t_id (tenants s) \<and>
     (case d_numbering_range_id d of None \<Rightarrow> True | Some r \<Rightarrow> references r r_id (ranges s))"

definition put_documents :: "document list \<Rightarrow> pg \<Rightarrow> sql_error + pg" where
  "put_documents ds s = constrained True (documents_ok ds) (list_all (document_refs s) ds)
     (s\<lparr>documents := ds\<rparr>)"

definition put_events :: "dian_event list \<Rightarrow> pg \<Rightarrow> sql_error + pg" where
  "put_events es s = constrained True (unique_on e_id es)
     (list_all (\<lambda>e. references (e_document_id e) d_id (documents s)) es) (s\<lparr>events := es\<rparr>)"

definition job_check :: "job_row \<Rightarrow> bool" where
  "job_check j \<longleftrightarrow> 0 \<le> jr_attempts j \<and> jr_attempts j \<le> i32_max \<and> 0 < jr_max_attempts j"

definition jobs_ok :: "job_row list \<Rightarrow> bool" where
  "jobs_ok js \<longleftrightarrow> unique_on jr_id js \<and> one_active_job js"

definition put_jobs :: "job_row list \<Rightarrow> pg \<Rightarrow> sql_error + pg" where
  "put_jobs js s = constrained (list_all job_check js) (jobs_ok js)
     (list_all (\<lambda>j. references (jr_document_id j) d_id (documents s)) js) (s\<lparr>jobs := js\<rparr>)"

definition put_idempotency :: "idempotency_row list \<Rightarrow> pg \<Rightarrow> sql_error + pg" where
  "put_idempotency is s = constrained True (unique_on (\<lambda>i. (ir_tenant_id i, ir_key i)) is)
     (list_all (\<lambda>i. references (ir_tenant_id i) t_id (tenants s) \<and>
                    references (ir_document_id i) d_id (documents s)) is) (s\<lparr>idempotency := is\<rparr>)"

definition put_webhooks :: "webhook list \<Rightarrow> pg \<Rightarrow> sql_error + pg" where
  "put_webhooks ws s = constrained (list_all (\<lambda>w. is_valid_subscription (w_event_type w)) ws)
     (unique_on w_id ws) (list_all (\<lambda>w. references (w_tenant_id w) t_id (tenants s)) ws)
     (s\<lparr>webhooks := ws\<rparr>)"

definition delivery_check :: "delivery_row \<Rightarrow> bool" where
  "delivery_check d \<longleftrightarrow> 0 \<le> dl_attempts d \<and> dl_attempts d \<le> i32_max \<and> 0 < dl_max_attempts d"

definition put_deliveries :: "delivery_row list \<Rightarrow> pg \<Rightarrow> sql_error + pg" where
  "put_deliveries ds s = constrained (list_all delivery_check ds) (unique_on dl_id ds)
     (list_all (\<lambda>d. references (dl_webhook_id d) w_id (webhooks s) \<and>
                    references (dl_document_id d) d_id (documents s)) ds) (s\<lparr>deliveries := ds\<rparr>)"

definition put_api_keys :: "api_key_record list \<Rightarrow> pg \<Rightarrow> sql_error + pg" where
  "put_api_keys ks s = constrained True (unique_on k_id ks \<and> unique_on k_key_hash ks)
     (list_all (\<lambda>k. references (k_tenant_id k) t_id (tenants s)) ks) (s\<lparr>api_keys := ks\<rparr>)"

definition put_audit_log :: "audit_row list \<Rightarrow> pg \<Rightarrow> sql_error + pg" where
  "put_audit_log as s = constrained True (unique_on ar_id as) True (s\<lparr>audit_log := as\<rparr>)"

text \<open>\<open>ORDER BY\<close> a numeric key, and \<open>LIMIT\<close>, which refuses a negative bound.\<close>

definition order_by :: "('r \<Rightarrow> int) \<Rightarrow> 'r list \<Rightarrow> 'r list" where
  "order_by k rs = sort_key k rs"

definition limit_rows :: "int \<Rightarrow> 'r list \<Rightarrow> sql_error + 'r list" where
  "limit_rows n rs = (if n < 0 then Inl Bad_argument else Inr (take (nat n) rs))"

section \<open>Rules\<close>

lemma constrained_Inr [simp]: "constrained c u r s = Inr t \<longleftrightarrow> c \<and> u \<and> r \<and> t = s"
  by (auto simp: constrained_def)

lemma constrained_true [simp]: "constrained True True True s = Inr s"
  by (simp add: constrained_def)

lemma set_order_by [simp]: "set (order_by k rs) = set rs"
  by (simp add: order_by_def)

lemma mset_order_by [simp]: "length (order_by k rs) = length rs"
  by (simp add: order_by_def)

lemma sorted_order_by: "sorted (map k (order_by k rs))"
  by (simp add: order_by_def)

lemma limit_rows_Inr [simp]: "limit_rows n rs = Inr qs \<longleftrightarrow> 0 \<le> n \<and> qs = take (nat n) rs"
  by (auto simp: limit_rows_def)

lemmas put_defs =
  put_tenants_def put_certificates_def put_ranges_def put_documents_def put_events_def put_jobs_def
  put_idempotency_def put_webhooks_def put_deliveries_def put_api_keys_def put_audit_log_def

lemma put_Inr:
  "put_tenants ts s = Inr s' \<longleftrightarrow> s' = s\<lparr>tenants := ts\<rparr> \<and> tenants_ok ts"
  "put_certificates cs s = Inr s' \<longleftrightarrow> s' = s\<lparr>certificates := cs\<rparr> \<and> certificates_ok cs \<and>
     list_all (\<lambda>c. references (c_tenant_id c) t_id (tenants s)) cs"
  "put_ranges rs s = Inr s' \<longleftrightarrow> s' = s\<lparr>ranges := rs\<rparr> \<and> list_all range_check rs \<and> unique_on r_id rs \<and>
     list_all (\<lambda>r. references (r_tenant_id r) t_id (tenants s)) rs"
  "put_documents ds s = Inr s' \<longleftrightarrow> s' = s\<lparr>documents := ds\<rparr> \<and> documents_ok ds \<and>
     list_all (document_refs s) ds"
  "put_events es s = Inr s' \<longleftrightarrow> s' = s\<lparr>events := es\<rparr> \<and> unique_on e_id es \<and>
     list_all (\<lambda>e. references (e_document_id e) d_id (documents s)) es"
  "put_jobs js s = Inr s' \<longleftrightarrow> s' = s\<lparr>jobs := js\<rparr> \<and> list_all job_check js \<and> jobs_ok js \<and>
     list_all (\<lambda>j. references (jr_document_id j) d_id (documents s)) js"
  "put_idempotency is s = Inr s' \<longleftrightarrow> s' = s\<lparr>idempotency := is\<rparr> \<and>
     unique_on (\<lambda>i. (ir_tenant_id i, ir_key i)) is \<and>
     list_all (\<lambda>i. references (ir_tenant_id i) t_id (tenants s) \<and>
                    references (ir_document_id i) d_id (documents s)) is"
  "put_webhooks ws s = Inr s' \<longleftrightarrow> s' = s\<lparr>webhooks := ws\<rparr> \<and>
     list_all (\<lambda>w. is_valid_subscription (w_event_type w)) ws \<and> unique_on w_id ws \<and>
     list_all (\<lambda>w. references (w_tenant_id w) t_id (tenants s)) ws"
  "put_deliveries dl s = Inr s' \<longleftrightarrow> s' = s\<lparr>deliveries := dl\<rparr> \<and> list_all delivery_check dl \<and>
     unique_on dl_id dl \<and>
     list_all (\<lambda>d. references (dl_webhook_id d) w_id (webhooks s) \<and>
                    references (dl_document_id d) d_id (documents s)) dl"
  "put_api_keys ks s = Inr s' \<longleftrightarrow> s' = s\<lparr>api_keys := ks\<rparr> \<and> unique_on k_id ks \<and>
     unique_on k_key_hash ks \<and> list_all (\<lambda>k. references (k_tenant_id k) t_id (tenants s)) ks"
  "put_audit_log as s = Inr s' \<longleftrightarrow> s' = s\<lparr>audit_log := as\<rparr> \<and> unique_on ar_id as"
  by (auto simp: put_defs)

lemma document_refs_frame [simp]:
  "document_refs (s\<lparr>certificates := x\<rparr>) = document_refs s"
  "document_refs (s\<lparr>documents := y\<rparr>) = document_refs s"
  "document_refs (s\<lparr>events := z\<rparr>) = document_refs s"
  "document_refs (s\<lparr>jobs := u\<rparr>) = document_refs s"
  "document_refs (s\<lparr>idempotency := v\<rparr>) = document_refs s"
  "document_refs (s\<lparr>webhooks := w\<rparr>) = document_refs s"
  "document_refs (s\<lparr>deliveries := a\<rparr>) = document_refs s"
  "document_refs (s\<lparr>api_keys := b\<rparr>) = document_refs s"
  "document_refs (s\<lparr>audit_log := c\<rparr>) = document_refs s"
  by (simp_all add: document_refs_def fun_eq_iff split: option.splits)

section \<open>The database invariant\<close>

text \<open>Every constraint of every table.\<close>

definition pg_constraints :: "pg \<Rightarrow> bool" where
  "pg_constraints s \<longleftrightarrow>
     tenants_ok (tenants s) \<and>
     certificates_ok (certificates s) \<and>
     list_all (\<lambda>c. references (c_tenant_id c) t_id (tenants s)) (certificates s) \<and>
     list_all range_check (ranges s) \<and> unique_on r_id (ranges s) \<and>
     list_all (\<lambda>r. references (r_tenant_id r) t_id (tenants s)) (ranges s) \<and>
     documents_ok (documents s) \<and> list_all (document_refs s) (documents s) \<and>
     unique_on e_id (events s) \<and>
     list_all (\<lambda>e. references (e_document_id e) d_id (documents s)) (events s) \<and>
     list_all job_check (jobs s) \<and> jobs_ok (jobs s) \<and>
     list_all (\<lambda>j. references (jr_document_id j) d_id (documents s)) (jobs s) \<and>
     unique_on (\<lambda>i. (ir_tenant_id i, ir_key i)) (idempotency s) \<and>
     list_all (\<lambda>i. references (ir_tenant_id i) t_id (tenants s) \<and>
                    references (ir_document_id i) d_id (documents s)) (idempotency s) \<and>
     list_all (\<lambda>w. is_valid_subscription (w_event_type w)) (webhooks s) \<and> unique_on w_id (webhooks s) \<and>
     list_all (\<lambda>w. references (w_tenant_id w) t_id (tenants s)) (webhooks s) \<and>
     list_all delivery_check (deliveries s) \<and> unique_on dl_id (deliveries s) \<and>
     list_all (\<lambda>d. references (dl_webhook_id d) w_id (webhooks s) \<and>
                    references (dl_document_id d) d_id (documents s)) (deliveries s) \<and>
     unique_on k_id (api_keys s) \<and> unique_on k_key_hash (api_keys s) \<and>
     list_all (\<lambda>k. references (k_tenant_id k) t_id (tenants s)) (api_keys s) \<and>
     unique_on ar_id (audit_log s)"

lemma pg_empty_constraints: "pg_constraints pg_empty"
  by (simp add: pg_constraints_def pg_empty_def tenants_ok_def certificates_ok_def documents_ok_def
      jobs_ok_def one_active_job_def active_jobs_def active_certificates_def)

lemma references_mono: "references k key rs \<Longrightarrow> key ` set rs \<subseteq> key ` set qs \<Longrightarrow> references k key qs"
  by (auto simp: references_def)

lemma list_all_mono: "list_all P xs \<Longrightarrow> (\<And>x. x \<in> set xs \<Longrightarrow> P x \<Longrightarrow> Q x) \<Longrightarrow> list_all Q xs"
  by (simp add: list_all_iff)

text \<open>
  A table that nothing refers to keeps the constraints; a table that others refer to does so when
  no key disappears.
\<close>

lemma put_constraints:
  "put_certificates cs s = Inr s' \<Longrightarrow> pg_constraints s \<Longrightarrow> pg_constraints s'"
  "put_events es s = Inr s' \<Longrightarrow> pg_constraints s \<Longrightarrow> pg_constraints s'"
  "put_jobs js s = Inr s' \<Longrightarrow> pg_constraints s \<Longrightarrow> pg_constraints s'"
  "put_idempotency is s = Inr s' \<Longrightarrow> pg_constraints s \<Longrightarrow> pg_constraints s'"
  "put_deliveries dl s = Inr s' \<Longrightarrow> pg_constraints s \<Longrightarrow> pg_constraints s'"
  "put_api_keys ks s = Inr s' \<Longrightarrow> pg_constraints s \<Longrightarrow> pg_constraints s'"
  "put_audit_log as s = Inr s' \<Longrightarrow> pg_constraints s \<Longrightarrow> pg_constraints s'"
  by (auto simp: put_Inr pg_constraints_def)

lemma put_documents_constraints:
  assumes "put_documents ds s = Inr s'" "pg_constraints s" "d_id ` set (documents s) \<subseteq> d_id ` set ds"
  shows "pg_constraints s'"
proof -
  have r: "references k d_id (documents s) \<Longrightarrow> references k d_id ds" for k
    using assms(3) by (rule references_mono[rotated])
  show ?thesis
    using assms(1,2) by (auto simp: put_Inr pg_constraints_def elim: list_all_mono intro: r)
qed

lemma put_ranges_constraints:
  assumes "put_ranges rs s = Inr s'" "pg_constraints s" "r_id ` set (ranges s) \<subseteq> r_id ` set rs"
  shows "pg_constraints s'"
proof -
  have r: "references k r_id (ranges s) \<Longrightarrow> references k r_id rs" for k
    using assms(3) by (rule references_mono[rotated])
  have d: "document_refs s d \<Longrightarrow> document_refs (s\<lparr>ranges := rs\<rparr>) d" for d
    by (auto simp: document_refs_def intro: r split: option.splits)
  show ?thesis
    using assms(1,2) by (auto simp: put_Inr pg_constraints_def elim: list_all_mono intro: d)
qed

lemma put_webhooks_constraints:
  assumes "put_webhooks ws s = Inr s'" "pg_constraints s" "w_id ` set (webhooks s) \<subseteq> w_id ` set ws"
  shows "pg_constraints s'"
proof -
  have r: "references k w_id (webhooks s) \<Longrightarrow> references k w_id ws" for k
    using assms(3) by (rule references_mono[rotated])
  show ?thesis
    using assms(1,2) by (auto simp: put_Inr pg_constraints_def elim: list_all_mono intro: r)
qed

lemma put_tenants_constraints:
  assumes "put_tenants ts s = Inr s'" "pg_constraints s" "t_id ` set (tenants s) \<subseteq> t_id ` set ts"
  shows "pg_constraints s'"
proof -
  have r: "references k t_id (tenants s) \<Longrightarrow> references k t_id ts" for k
    using assms(3) by (rule references_mono[rotated])
  have d: "document_refs s d \<Longrightarrow> document_refs (s\<lparr>tenants := ts\<rparr>) d" for d
    by (auto simp: document_refs_def intro: r split: option.splits)
  show ?thesis
    using assms(1,2) by (auto simp: put_Inr pg_constraints_def elim: list_all_mono intro: d r)
qed

end
