(* ===== verification/Pg_Documents.thy ===== *)
theory Pg_Documents
  imports Pg_Tables
begin

text \<open>
  The document repository of \<open>infra-postgres/src/lib.rs\<close> (\<open>impl DocumentRepository for PgStore\<close>, and
  the lookups of tenants and certificates). A transaction is a function of the time and the
  database; \<open>tx\<close> runs it. Row locks make the transactions that touch the same rows run one after the
  other, so a transaction is one step; between the steps of an operation other processes may act.
\<close>

section \<open>Statements shared by the operations\<close>

definition active_job_conflict :: "new_job \<Rightarrow> string" where
  "active_job_conflict j =
     ''document '' @ uuid_string (n_document_id j) @ '' already has an active '' @
     job_kind_as_str (n_kind j) @ '' job''"

definition new_job_row :: "instant \<Rightarrow> new_job \<Rightarrow> job_row" where
  "new_job_row now j =
     \<lparr>jr_id = n_id j, jr_kind = n_kind j, jr_document_id = n_document_id j, jr_payload = n_payload j,
      jr_status = Queued, jr_attempts = 0, jr_max_attempts = n_max_attempts j, jr_run_at = n_run_at j,
      jr_locked_until = None, jr_locked_by = None, jr_last_error = None, jr_created_at = now,
      jr_updated_at = now\<rparr>"

definition insert_job :: "instant \<Rightarrow> new_job \<Rightarrow> pg \<Rightarrow> pg result" where
  "insert_job now j s =
     map_err (conflict_on_unique (active_job_conflict j)) (put_jobs (jobs s @ [new_job_row now j]) s)"

definition insert_event :: "dian_event \<Rightarrow> pg \<Rightarrow> pg result" where
  "insert_event e s = map_err db_error (put_events (events s @ [e]) s)"

text \<open>An \<open>UPDATE jobs\<close>; the trigger sets \<open>updated_at\<close>.\<close>

definition update_jobs ::
  "instant \<Rightarrow> (job_row \<Rightarrow> bool) \<Rightarrow> (job_row \<Rightarrow> job_row) \<Rightarrow> pg \<Rightarrow> sql_error + pg" where
  "update_jobs now P f s = put_jobs (update_rows P (\<lambda>j. (f j)\<lparr>jr_updated_at := now\<rparr>) (jobs s)) s"

definition job_done :: "job_row \<Rightarrow> job_row" where
  "job_done j = j\<lparr>jr_status := Done, jr_locked_until := None\<rparr>"

definition job_buried :: "string \<Rightarrow> job_row \<Rightarrow> job_row" where
  "job_buried error j = j\<lparr>jr_status := Dead, jr_locked_until := None, jr_last_error := Some error\<rparr>"

section \<open>Idempotency\<close>

definition key_reused_error :: domain_error where
  "key_reused_error = Validation ''La clave de idempotencia ya se uso con un cuerpo distinto''"

definition replay :: "string \<Rightarrow> issued_document \<Rightarrow> idempotency_key \<Rightarrow> issue_outcome result" where
  "replay stored_hash issued key =
     (if trim stored_hash \<noteq> ik_request_hash key then Inl key_reused_error else Inr (Replayed issued))"

definition idempotency_lookup :: "uuid \<Rightarrow> idempotency_key \<Rightarrow> pg \<Rightarrow> idempotency_row option" where
  "idempotency_lookup tenant key s =
     find_row (\<lambda>i. ir_tenant_id i = tenant \<and> ir_key i = ik_key key) (idempotency s)"

definition issued_of :: "idempotency_row \<Rightarrow> issued_document" where
  "issued_of i = \<lparr>is_document_id = ir_document_id i, is_document_number = ir_document_number i\<rparr>"

definition find_idempotency ::
  "uuid \<Rightarrow> idempotency_key \<Rightarrow> (pg world, issue_outcome option) io" where
  "find_idempotency tenant key =
     io_bind (query (\<lambda>now s. idempotency_lookup tenant key s)) (\<lambda>row.
       case row of
         None \<Rightarrow> io_return None
       | Some i \<Rightarrow> io_bind (io_lift (replay (ir_request_hash i) (issued_of i) key)) (\<lambda>outcome. io_return (Some outcome)))"

section \<open>Issuing\<close>

definition no_range_error :: "new_outbound_document \<Rightarrow> domain_error" where
  "no_range_error d =
     Validation (''No hay una resolucion de numeracion vigente para el prefijo '' @ [char_of (39 :: nat)] @
       no_prefix d @ [char_of (39 :: nat)] @ '' y tipo '' @ [char_of (39 :: nat)] @
       document_type_as_str (no_document_type d) @ [char_of (39 :: nat)])"

definition exists_conflict :: "new_outbound_document \<Rightarrow> i32 \<Rightarrow> string" where
  "exists_conflict d number = ''El documento '' @ no_prefix d @ int_dec number @ '' ya existe''"

definition key_vanished :: domain_error where
  "key_vanished = Internal ''idempotency key vanished''"

definition select_range :: "new_outbound_document \<Rightarrow> instant \<Rightarrow> pg \<Rightarrow> numbering_range option" where
  "select_range d now s =
     (case order_by (\<lambda>r. - r_valid_date_from r)
             (filter (\<lambda>r. r_tenant_id r = no_tenant_id d \<and> r_document_type r = no_document_type d \<and>
                          r_prefix r = no_prefix d \<and> r_valid_date_from r \<le> now \<and>
                          now \<le> r_valid_date_to r) (ranges s))
      of [] \<Rightarrow> None | r # _ \<Rightarrow> Some r)"

definition outbound_row :: "new_outbound_document \<Rightarrow> i32 \<Rightarrow> uuid \<Rightarrow> instant \<Rightarrow> document" where
  "outbound_row d number range_id now =
     \<lparr>d_id = no_id d, d_tenant_id = no_tenant_id d, d_direction = Outbound, d_issuer_nit = [],
      d_document_type = no_document_type d, d_prefix = no_prefix d, d_document_number = number,
      d_numbering_range_id = Some range_id, d_cufe_cude = [], d_payload = no_payload d,
      d_original_xml = None, d_signed_xml = None, d_pdf_url = None, d_status = Pending,
      d_created_at = now\<rparr>"

definition idempotency_row_of :: "new_outbound_document \<Rightarrow> idempotency_key \<Rightarrow> i32 \<Rightarrow> idempotency_row" where
  "idempotency_row_of d key number =
     \<lparr>ir_tenant_id = no_tenant_id d, ir_key = ik_key key, ir_request_hash = ik_request_hash key,
      ir_document_id = no_id d, ir_document_number = number\<rparr>"

datatype issue_step = Issued issued_document | Key_taken

text \<open>The transaction. When the key was taken meanwhile it is rolled back.\<close>

definition issue_tx ::
  "(instant \<Rightarrow> string) \<Rightarrow> new_outbound_document \<Rightarrow> new_job \<Rightarrow> instant \<Rightarrow> pg \<Rightarrow> (issue_step \<times> pg) result" where
  "issue_tx date_naive d job now s =
     bind_ok (ok_or (no_range_error d) (select_range d now s)) (\<lambda>range.
     bind_ok (next_number date_naive range (no_requested_number d) now) (\<lambda>number.
     bind_ok (map_err db_error (put_ranges
       (update_rows (\<lambda>r. r_id r = r_id range) (\<lambda>r. r\<lparr>r_current_counter := number\<rparr>) (ranges s)) s)) (\<lambda>s1.
     bind_ok (map_err (conflict_on_unique (exists_conflict d number)) (put_documents
       (documents s1 @ [outbound_row d number (r_id range) now]) s1)) (\<lambda>s2.
     bind_ok (insert_job now job s2) (\<lambda>s3.
       let issued = \<lparr>is_document_id = no_id d, is_document_number = number\<rparr>
       in case no_idempotency d of
            None \<Rightarrow> Inr (Issued issued, s3)
          | Some key \<Rightarrow>
              (case idempotency_lookup (no_tenant_id d) key s3 of
                 Some _ \<Rightarrow> Inr (Key_taken, s)
               | None \<Rightarrow>
                   bind_ok (map_err db_error (put_idempotency
                     (idempotency s3 @ [idempotency_row_of d key number]) s3)) (\<lambda>s4.
                   Inr (Issued issued, s4))))))))"

definition pg_issue_outbound ::
  "(instant \<Rightarrow> string) \<Rightarrow> new_outbound_document \<Rightarrow> new_job \<Rightarrow> (pg world, issue_outcome) io" where
  "pg_issue_outbound date_naive d job =
     io_bind (case no_idempotency d of
                None \<Rightarrow> io_return None
              | Some key \<Rightarrow> find_idempotency (no_tenant_id d) key) (\<lambda>found.
     case found of
       Some outcome \<Rightarrow> io_return outcome
     | None \<Rightarrow>
         io_bind (tx (issue_tx date_naive d job)) (\<lambda>step.
         case step of
           Issued issued \<Rightarrow> io_return (Created issued)
         | Key_taken \<Rightarrow>
             io_bind (case no_idempotency d of
                        None \<Rightarrow> io_return None
                      | Some key \<Rightarrow> find_idempotency (no_tenant_id d) key) (\<lambda>again.
             io_lift (ok_or key_vanished again))))"

section \<open>Received documents\<close>

definition inbound_row :: "new_inbound_document \<Rightarrow> instant \<Rightarrow> document" where
  "inbound_row d now =
     \<lparr>d_id = ni_id d, d_tenant_id = ni_tenant_id d, d_direction = Inbound,
      d_issuer_nit = ni_issuer_nit d, d_document_type = ni_document_type d, d_prefix = ni_prefix d,
      d_document_number = ni_document_number d, d_numbering_range_id = None, d_cufe_cude = ni_cufe d,
      d_payload = ni_payload d, d_original_xml = None, d_signed_xml = Some (ni_signed_xml d),
      d_pdf_url = None, d_status = ni_status d, d_created_at = now\<rparr>"

definition inbound_tx :: "new_inbound_document \<Rightarrow> instant \<Rightarrow> pg \<Rightarrow> (bool \<times> pg) result" where
  "inbound_tx d now s =
     (if document_key (inbound_row d now) \<in> document_key ` set (documents s) then Inr (False, s)
      else map_err db_error (bind_ok (put_documents (documents s @ [inbound_row d now]) s)
             (\<lambda>s1. Inr (True, s1))))"

definition pg_insert_inbound :: "new_inbound_document \<Rightarrow> (pg world, bool) io" where
  "pg_insert_inbound d = tx (inbound_tx d)"

section \<open>Lookups and artefacts\<close>

definition pg_find_document :: "uuid \<Rightarrow> (pg world, document option) io" where
  "pg_find_document i = query (\<lambda>now s. find_row (\<lambda>d. d_id d = i) (documents s))"

definition pg_find_tenant_document :: "uuid \<Rightarrow> uuid \<Rightarrow> (pg world, document option) io" where
  "pg_find_tenant_document tenant i =
     query (\<lambda>now s. find_row (\<lambda>d. d_id d = i \<and> d_tenant_id d = tenant) (documents s))"

definition pg_find_numbering_range :: "uuid \<Rightarrow> (pg world, numbering_range option) io" where
  "pg_find_numbering_range i = query (\<lambda>now s. find_row (\<lambda>r. r_id r = i) (ranges s))"

definition pg_find_events :: "uuid \<Rightarrow> (pg world, dian_event list) io" where
  "pg_find_events document =
     query (\<lambda>now s. order_by e_created_at (filter (\<lambda>e. e_document_id e = document) (events s)))"

definition no_document_error :: "uuid \<Rightarrow> domain_error" where
  "no_document_error i = NotFound (''document '' @ uuid_string i)"

definition artifacts_tx :: "uuid \<Rightarrow> string \<Rightarrow> string \<Rightarrow> string \<Rightarrow> instant \<Rightarrow> pg \<Rightarrow> (unit \<times> pg) result" where
  "artifacts_tx i cufe original_xml signed_xml now s =
     bind_ok (map_err db_error (put_documents
       (update_rows (\<lambda>d. d_id d = i)
          (\<lambda>d. d\<lparr>d_cufe_cude := cufe, d_original_xml := Some original_xml, d_signed_xml := Some signed_xml\<rparr>)
          (documents s)) s)) (\<lambda>s1.
     if find_row (\<lambda>d. d_id d = i) (documents s) = None then Inl (no_document_error i)
     else Inr ((), s1))"

definition pg_store_artifacts :: "uuid \<Rightarrow> string \<Rightarrow> string \<Rightarrow> string \<Rightarrow> (pg world, unit) io" where
  "pg_store_artifacts i cufe original_xml signed_xml = tx (artifacts_tx i cufe original_xml signed_xml)"

definition pg_record_event :: "dian_event \<Rightarrow> (pg world, unit) io" where
  "pg_record_event e = tx (\<lambda>now s. bind_ok (insert_event e s) (\<lambda>s1. Inr ((), s1)))"

text \<open>Authentication by the hash of an API key, and the certificate a tenant signs with.\<close>

definition pg_find_by_api_key_hash :: "string \<Rightarrow> (pg world, tenant option) io" where
  "pg_find_by_api_key_hash hash =
     query (\<lambda>now s.
       Option.bind (find_row (\<lambda>k. k_key_hash k = hash \<and> k_revoked_at k = None) (api_keys s))
         (\<lambda>k. find_row (\<lambda>t. t_id t = k_tenant_id k) (tenants s)))"

definition pg_find_active_certificate :: "uuid \<Rightarrow> (pg world, certificate option) io" where
  "pg_find_active_certificate tenant =
     query (\<lambda>now s.
       case order_by (\<lambda>c. - c_expiration_date c)
              (filter (\<lambda>c. c_tenant_id c = tenant \<and> c_status c = C_Active) (certificates s))
       of [] \<Rightarrow> None | c # _ \<Rightarrow> Some c)"

section \<open>Status changes and the outbox\<close>

definition delivery_row_of ::
  "uuid \<Rightarrow> uuid \<Rightarrow> uuid \<Rightarrow> string \<Rightarrow> json_object \<Rightarrow> instant \<Rightarrow> delivery_row" where
  "delivery_row_of i webhook document event_type data now =
     \<lparr>dl_id = i, dl_webhook_id = webhook, dl_document_id = document, dl_event_type = event_type,
      dl_data = data, dl_status = Del_Queued, dl_attempts = 0,
      dl_max_attempts = max_delivery_attempts, dl_run_at = now, dl_locked_until = None,
      dl_last_error = None, dl_last_status_code = None, dl_created_at = now, dl_updated_at = now\<rparr>"

definition subscribed :: "uuid \<Rightarrow> string \<Rightarrow> webhook list \<Rightarrow> webhook list" where
  "subscribed tenant event_type ws =
     filter (\<lambda>w. w_tenant_id w = tenant \<and> w_subscription_status w = Sub_Active \<and>
                 (w_event_type w = event_type \<or> w_event_type w = event_all)) ws"

definition document_data :: "document \<Rightarrow> document_status \<Rightarrow> json_object" where
  "document_data d to = notification_data
     \<lparr>nd_document_id = d_id d, nd_document_type = document_type_as_str (d_document_type d),
      nd_prefix = d_prefix d, nd_number = d_document_number d, nd_status = to,
      nd_cufe = Some (d_cufe_cude d)\<rparr>"

text \<open>The rows the outbox \<open>INSERT\<close> adds, with identifiers from \<open>i\<close> on.\<close>

definition outbox_rows :: "uuid \<Rightarrow> instant \<Rightarrow> document \<Rightarrow> document_status \<Rightarrow> pg \<Rightarrow> delivery_row list" where
  "outbox_rows i now d to s =
     (case event_for to of
        None \<Rightarrow> []
      | Some event_type \<Rightarrow>
          let ws = subscribed (d_tenant_id d) event_type (webhooks s)
          in map2 (\<lambda>k w. delivery_row_of k (w_id w) (d_id d) event_type (document_data d to) now)
               [i..<i + length ws] ws)"

definition close_job :: "instant \<Rightarrow> job_outcome option \<Rightarrow> pg \<Rightarrow> pg result" where
  "close_job now outcome s =
     (case outcome of
        None \<Rightarrow> Inr s
      | Some (Complete i) \<Rightarrow> map_err db_error (update_jobs now (\<lambda>j. jr_id j = i) job_done s)
      | Some (Bury i error) \<Rightarrow> map_err db_error (update_jobs now (\<lambda>j. jr_id j = i) (job_buried error) s))"

definition transition_tx ::
  "transition \<Rightarrow> instant \<Rightarrow> uuid \<Rightarrow> pg \<Rightarrow> (bool \<times> nat \<times> pg) result" where
  "transition_tx t now i s =
     (case find_row (\<lambda>d. d_id d = tr_document_id t \<and>
                         d_status d \<in> set (allowed_predecessors (tr_to t))) (documents s) of
        None \<Rightarrow> Inr (False, 0, s)
      | Some d \<Rightarrow>
          bind_ok (map_err db_error (put_documents
            (update_rows (\<lambda>d. d_id d = tr_document_id t \<and>
                              d_status d \<in> set (allowed_predecessors (tr_to t)))
               (\<lambda>d. d\<lparr>d_status := tr_to t\<rparr>) (documents s)) s)) (\<lambda>s1.
          let rows = outbox_rows i now d (tr_to t) s1
          in bind_ok (map_err db_error (put_deliveries (deliveries s1 @ rows) s1)) (\<lambda>s2.
             bind_ok (case tr_event t of None \<Rightarrow> Inr s2 | Some e \<Rightarrow> insert_event e s2) (\<lambda>s3.
             bind_ok (close_job now (tr_job t) s3) (\<lambda>s4.
             bind_ok (case tr_follow_up t of None \<Rightarrow> Inr s4 | Some j \<Rightarrow> insert_job now j s4) (\<lambda>s5.
             Inr (True, length rows, s5)))))))"

definition pg_apply_transition :: "transition \<Rightarrow> (pg world, bool) io" where
  "pg_apply_transition t = tx_ids (transition_tx t)"

definition pg_documents :: "(instant \<Rightarrow> string) \<Rightarrow> pg world document_repository" where
  "pg_documents date_naive =
     \<lparr>issue_outbound = pg_issue_outbound date_naive, insert_inbound = pg_insert_inbound,
      find_document = pg_find_document, find_tenant_document = pg_find_tenant_document,
      find_numbering_range = pg_find_numbering_range, store_artifacts = pg_store_artifacts,
      record_event = pg_record_event, find_events = pg_find_events,
      apply_transition = pg_apply_transition\<rparr>"

definition pg_tenants :: "pg world tenant_repository" where
  "pg_tenants = \<lparr>find_by_api_key_hash = pg_find_by_api_key_hash\<rparr>"

definition pg_certificates :: "pg world certificate_repository" where
  "pg_certificates = \<lparr>find_active_certificate = pg_find_active_certificate\<rparr>"

end
