(* ===== verification/Pg_Jobs.thy ===== *)
theory Pg_Jobs
  imports Pg_Documents
begin

text \<open>
  The job queue of \<open>infra-postgres/src/lib.rs\<close> (\<open>impl JobRepository for PgStore\<close>). \<open>SKIP LOCKED\<close>
  leaves out the rows that other transactions hold; which ones is the parameter \<open>locked\<close>, a function
  of the time and the database. A lease is a number of nanoseconds.
\<close>

type_synonym row_locks = "instant \<Rightarrow> pg \<Rightarrow> uuid \<Rightarrow> bool"

section \<open>Claiming\<close>

definition lease_expired :: "instant \<Rightarrow> job_row \<Rightarrow> bool" where
  "lease_expired now j \<longleftrightarrow>
     jr_status j = Running \<and> (case jr_locked_until j of None \<Rightarrow> False | Some t \<Rightarrow> t < now)"

definition expired_on_final :: string where
  "expired_on_final = ''lease expired on final attempt''"

definition append_error :: "string option \<Rightarrow> string" where
  "append_error previous =
     (case previous of None \<Rightarrow> [] | Some e \<Rightarrow> e @ '' | '') @ expired_on_final"

definition bury_expired_tx :: "instant \<Rightarrow> pg \<Rightarrow> (unit \<times> pg) result" where
  "bury_expired_tx now s =
     bind_ok (map_err db_error (update_jobs now
       (\<lambda>j. lease_expired now j \<and> jr_attempts j \<ge> jr_max_attempts j)
       (\<lambda>j. j\<lparr>jr_status := Dead, jr_locked_until := None,
              jr_last_error := Some (append_error (jr_last_error j))\<rparr>) s)) (\<lambda>s1.
     Inr ((), s1))"

definition claimable :: "instant \<Rightarrow> job_row \<Rightarrow> bool" where
  "claimable now j \<longleftrightarrow>
     ((jr_status j = Queued \<and> jr_run_at j \<le> now) \<or> lease_expired now j) \<and>
     jr_attempts j < jr_max_attempts j"

definition job_of_row :: "job_row \<Rightarrow> job" where
  "job_of_row j =
     \<lparr>job_id = jr_id j, job_kind_of = jr_kind j, job_document_id = jr_document_id j,
      job_payload = jr_payload j, job_attempts = jr_attempts j, job_max_attempts = jr_max_attempts j\<rparr>"

definition leased :: "string \<Rightarrow> instant \<Rightarrow> job_row \<Rightarrow> job_row" where
  "leased worker until j =
     j\<lparr>jr_status := Running, jr_attempts := jr_attempts j + 1, jr_locked_until := Some until,
       jr_locked_by := Some worker\<rparr>"

definition claim_tx ::
  "row_locks \<Rightarrow> string \<Rightarrow> int \<Rightarrow> int \<Rightarrow> instant \<Rightarrow> pg \<Rightarrow> (job list \<times> pg) result" where
  "claim_tx locked worker limit lease now s =
     map_err db_error
       (bind_ok (limit_rows limit (order_by jr_run_at
          (filter (\<lambda>j. claimable now j \<and> \<not> locked now s (jr_id j)) (jobs s)))) (\<lambda>ready.
        let chosen = (\<lambda>j. jr_id j \<in> jr_id ` set ready)
        in bind_ok (update_jobs now chosen (leased worker (now + lease)) s) (\<lambda>s1.
           Inr (map job_of_row (filter chosen (jobs s1)), s1))))"

definition pg_claim :: "row_locks \<Rightarrow> string \<Rightarrow> int \<Rightarrow> int \<Rightarrow> (pg world, job list) io" where
  "pg_claim locked worker limit lease =
     io_bind (tx bury_expired_tx) (\<lambda>_. tx (claim_tx locked worker limit lease))"

section \<open>Closing and rescheduling\<close>

definition job_requeued :: "instant \<Rightarrow> job_row \<Rightarrow> job_row" where
  "job_requeued run_at j =
     j\<lparr>jr_status := Queued, jr_run_at := run_at, jr_locked_until := None, jr_locked_by := None\<rparr>"

definition update_job_tx ::
  "uuid \<Rightarrow> (job_row \<Rightarrow> job_row) \<Rightarrow> instant \<Rightarrow> pg \<Rightarrow> (unit \<times> pg) result" where
  "update_job_tx i f now s =
     bind_ok (map_err db_error (update_jobs now (\<lambda>j. jr_id j = i) f s)) (\<lambda>s1. Inr ((), s1))"

definition pg_complete :: "uuid \<Rightarrow> (pg world, unit) io" where
  "pg_complete i = tx (update_job_tx i job_done)"

definition pg_retry :: "uuid \<Rightarrow> instant \<Rightarrow> string \<Rightarrow> (pg world, unit) io" where
  "pg_retry i run_at error =
     tx (update_job_tx i (\<lambda>j. (job_requeued run_at j)\<lparr>jr_last_error := Some error\<rparr>))"

definition pg_release :: "uuid \<Rightarrow> instant \<Rightarrow> (pg world, unit) io" where
  "pg_release i run_at =
     tx (update_job_tx i (\<lambda>j. (job_requeued run_at j)\<lparr>jr_attempts := max (jr_attempts j - 1) 0\<rparr>))"

definition pg_bury :: "uuid \<Rightarrow> string \<Rightarrow> (pg world, unit) io" where
  "pg_bury i error = tx (update_job_tx i (job_buried error))"

section \<open>Contingency\<close>

definition has_active_transmit :: "pg \<Rightarrow> uuid \<Rightarrow> bool" where
  "has_active_transmit s document \<longleftrightarrow>
     list_ex (\<lambda>j. jr_document_id j = document \<and> jr_kind j = Transmit) (active_jobs (jobs s))"

definition requeue_tx ::
  "row_locks \<Rightarrow> int \<Rightarrow> i32 \<Rightarrow> instant \<Rightarrow> uuid \<Rightarrow> pg \<Rightarrow> (nat \<times> nat \<times> pg) result" where
  "requeue_tx locked limit max_attempts now i s =
     map_err db_error
       (bind_ok (limit_rows limit (order_by d_created_at
          (filter (\<lambda>d. d_status d = ContingencyPending \<and> \<not> has_active_transmit s (d_id d) \<and>
                       \<not> locked now s (d_id d)) (documents s)))) (\<lambda>candidates.
        let moved = (\<lambda>d. d_id d \<in> d_id ` set candidates);
            ids = map d_id (filter moved (documents s));
            new = map2 (\<lambda>k d. new_job_row now (transmit_job k now d max_attempts)) [i..<i + length ids] ids
        in bind_ok (put_documents (update_rows moved (\<lambda>d. d\<lparr>d_status := Pending\<rparr>) (documents s)) s) (\<lambda>s1.
           bind_ok (put_jobs (jobs s1 @ new) s1) (\<lambda>s2.
           Inr (length ids, length ids, s2)))))"

definition pg_requeue_contingency :: "row_locks \<Rightarrow> int \<Rightarrow> i32 \<Rightarrow> (pg world, nat) io" where
  "pg_requeue_contingency locked limit max_attempts = tx_ids (requeue_tx locked limit max_attempts)"

definition count_jobs :: "(job_row \<Rightarrow> bool) \<Rightarrow> pg \<Rightarrow> int" where
  "count_jobs P s = int (length (filter P (jobs s)))"

definition pg_queue_depth :: "(pg world, queue_depth) io" where
  "pg_queue_depth = query (\<lambda>now s.
     \<lparr>q_ready = count_jobs (\<lambda>j. jr_status j = Queued \<and> jr_run_at j \<le> now) s,
      q_scheduled = count_jobs (\<lambda>j. jr_status j = Queued \<and> jr_run_at j > now) s,
      q_running = count_jobs (\<lambda>j. jr_status j = Running) s,
      q_dead = count_jobs (\<lambda>j. jr_status j = Dead) s\<rparr>)"

definition pg_jobs :: "row_locks \<Rightarrow> pg world job_repository" where
  "pg_jobs locked =
     \<lparr>claim = pg_claim locked, complete = pg_complete, retry = pg_retry, release = pg_release,
      bury = pg_bury, requeue_contingency = pg_requeue_contingency locked,
      queue_depth_of = pg_queue_depth\<rparr>"

end
