(* ===== verification/Pg_Webhooks.thy ===== *)
theory Pg_Webhooks
  imports Pg_Jobs
begin

text \<open>
  Subscriptions and deliveries in \<open>infra-postgres/src/lib.rs\<close> (\<open>impl WebhookRepository for PgStore\<close>).
  Deleting a webhook deletes its deliveries (\<open>ON DELETE CASCADE\<close>).
\<close>

definition create_webhook_tx :: "webhook \<Rightarrow> instant \<Rightarrow> pg \<Rightarrow> (unit \<times> pg) result" where
  "create_webhook_tx w now s =
     bind_ok (map_err db_error (put_webhooks (webhooks s @ [w]) s)) (\<lambda>s1. Inr ((), s1))"

definition pg_create_webhook :: "webhook \<Rightarrow> (pg world, unit) io" where
  "pg_create_webhook w = tx (create_webhook_tx w)"

definition pg_list_webhooks :: "uuid \<Rightarrow> (pg world, webhook list) io" where
  "pg_list_webhooks tenant =
     query (\<lambda>now s. order_by (\<lambda>w. int (w_id w)) (filter (\<lambda>w. w_tenant_id w = tenant) (webhooks s)))"

definition delete_webhook_tx :: "uuid \<Rightarrow> uuid \<Rightarrow> instant \<Rightarrow> pg \<Rightarrow> (bool \<times> pg) result" where
  "delete_webhook_tx tenant i now s =
     (let gone = (\<lambda>w. w_id w = i \<and> w_tenant_id w = tenant);
          deleted = filter gone (webhooks s)
      in Inr (length deleted = 1,
              s\<lparr>webhooks := delete_rows gone (webhooks s),
                deliveries := delete_rows (\<lambda>d. dl_webhook_id d \<in> w_id ` set deleted) (deliveries s)\<rparr>))"

definition pg_delete_webhook :: "uuid \<Rightarrow> uuid \<Rightarrow> (pg world, bool) io" where
  "pg_delete_webhook tenant i = tx (delete_webhook_tx tenant i)"

section \<open>Deliveries\<close>

definition update_deliveries ::
  "instant \<Rightarrow> (delivery_row \<Rightarrow> bool) \<Rightarrow> (delivery_row \<Rightarrow> delivery_row) \<Rightarrow> pg \<Rightarrow> sql_error + pg" where
  "update_deliveries now P f s =
     put_deliveries (update_rows P (\<lambda>d. (f d)\<lparr>dl_updated_at := now\<rparr>) (deliveries s)) s"

definition delivery_claimable :: "instant \<Rightarrow> delivery_row \<Rightarrow> bool" where
  "delivery_claimable now d \<longleftrightarrow>
     (dl_status d = Del_Queued \<and> dl_run_at d \<le> now) \<or>
     (dl_status d = Del_Running \<and> (case dl_locked_until d of None \<Rightarrow> False | Some t \<Rightarrow> t < now))"

definition webhook_delivery_of :: "webhook \<Rightarrow> delivery_row \<Rightarrow> webhook_delivery" where
  "webhook_delivery_of w d =
     \<lparr>wd_id = dl_id d, wd_tenant_id = w_tenant_id w, wd_event_type = dl_event_type d,
      wd_data = dl_data d, wd_attempts = dl_attempts d, wd_max_attempts = dl_max_attempts d,
      wd_created_at = dl_created_at d, wd_target_url = w_target_url w,
      wd_secret = w_webhook_secret w, wd_active = (w_subscription_status w = Sub_Active)\<rparr>"

definition joined_deliveries :: "pg \<Rightarrow> delivery_row list \<Rightarrow> webhook_delivery list" where
  "joined_deliveries s ds =
     List.map_filter (\<lambda>d. map_option (\<lambda>w. webhook_delivery_of w d)
                            (find_row (\<lambda>w. w_id w = dl_webhook_id d) (webhooks s))) ds"

definition claim_deliveries_tx ::
  "row_locks \<Rightarrow> int \<Rightarrow> int \<Rightarrow> instant \<Rightarrow> pg \<Rightarrow> (webhook_delivery list \<times> pg) result" where
  "claim_deliveries_tx locked limit lease now s =
     map_err db_error
       (bind_ok (limit_rows limit (order_by dl_run_at
          (filter (\<lambda>d. delivery_claimable now d \<and> \<not> locked now s (dl_id d)) (deliveries s)))) (\<lambda>ready.
        let chosen = (\<lambda>d. dl_id d \<in> dl_id ` set ready \<and> references (dl_webhook_id d) w_id (webhooks s))
        in bind_ok (update_deliveries now chosen
             (\<lambda>d. d\<lparr>dl_status := Del_Running, dl_attempts := dl_attempts d + 1,
                    dl_locked_until := Some (now + lease)\<rparr>) s) (\<lambda>s1.
           Inr (joined_deliveries s1 (filter chosen (deliveries s1)), s1))))"

definition pg_claim_deliveries :: "row_locks \<Rightarrow> int \<Rightarrow> int \<Rightarrow> (pg world, webhook_delivery list) io" where
  "pg_claim_deliveries locked limit lease = tx (claim_deliveries_tx locked limit lease)"

definition update_delivery_tx ::
  "uuid \<Rightarrow> (delivery_row \<Rightarrow> delivery_row) \<Rightarrow> instant \<Rightarrow> pg \<Rightarrow> (unit \<times> pg) result" where
  "update_delivery_tx i f now s =
     bind_ok (map_err db_error (update_deliveries now (\<lambda>d. dl_id d = i) f s)) (\<lambda>s1. Inr ((), s1))"

definition pg_complete_delivery :: "uuid \<Rightarrow> int \<Rightarrow> (pg world, unit) io" where
  "pg_complete_delivery i code = tx (update_delivery_tx i
     (\<lambda>d. d\<lparr>dl_status := Del_Delivered, dl_locked_until := None, dl_last_status_code := Some code\<rparr>))"

definition pg_retry_delivery :: "uuid \<Rightarrow> instant \<Rightarrow> string \<Rightarrow> int option \<Rightarrow> (pg world, unit) io" where
  "pg_retry_delivery i run_at error code = tx (update_delivery_tx i
     (\<lambda>d. d\<lparr>dl_status := Del_Queued, dl_run_at := run_at, dl_locked_until := None,
            dl_last_error := Some error, dl_last_status_code := code\<rparr>))"

definition pg_bury_delivery :: "uuid \<Rightarrow> string \<Rightarrow> int option \<Rightarrow> (pg world, unit) io" where
  "pg_bury_delivery i error code = tx (update_delivery_tx i
     (\<lambda>d. d\<lparr>dl_status := Del_Dead, dl_locked_until := None, dl_last_error := Some error,
            dl_last_status_code := code\<rparr>))"

definition pg_webhooks :: "row_locks \<Rightarrow> pg world webhook_repository" where
  "pg_webhooks locked =
     \<lparr>create_webhook = pg_create_webhook, list_webhooks = pg_list_webhooks,
      delete_webhook = pg_delete_webhook, claim_deliveries = pg_claim_deliveries locked,
      complete_delivery = pg_complete_delivery, retry_delivery = pg_retry_delivery,
      bury_delivery = pg_bury_delivery\<rparr>"

end
