(* ===== verification/Pg_Admin.thy ===== *)
theory Pg_Admin
  imports Pg_Webhooks
begin

text \<open>
  The administration of \<open>infra-postgres/src/lib.rs\<close> (\<open>impl AdminRepository for PgStore\<close>): every change
  is written together with its entry in the audit log.
\<close>

definition insert_audit :: "instant \<Rightarrow> uuid \<Rightarrow> audit_entry \<Rightarrow> pg \<Rightarrow> pg result" where
  "insert_audit now i entry s =
     map_err db_error (put_audit_log
       (audit_log s @ [\<lparr>ar_id = i, ar_entry = entry, ar_created_at = now\<rparr>]) s)"

definition tenant_row :: "new_tenant \<Rightarrow> instant \<Rightarrow> tenant" where
  "tenant_row t now =
     \<lparr>t_id = nt_id t, t_tax_id = nt_tax_id t, t_registration_name = nt_registration_name t,
      t_tax_regime = nt_tax_regime t, t_address_info = [], t_reception_email = nt_reception_email t,
      t_api_keys = [], t_created_at = now, t_updated_at = now\<rparr>"

definition tenant_conflict :: "new_tenant \<Rightarrow> string" where
  "tenant_conflict t = ''Ya existe un tenant con NIT '' @ nt_tax_id t"

definition create_tenant_tx ::
  "new_tenant \<Rightarrow> audit_entry \<Rightarrow> instant \<Rightarrow> uuid \<Rightarrow> pg \<Rightarrow> (tenant \<times> nat \<times> pg) result" where
  "create_tenant_tx t entry now i s =
     bind_ok (map_err (conflict_on_unique (tenant_conflict t))
       (put_tenants (tenants s @ [tenant_row t now]) s)) (\<lambda>s1.
     bind_ok (insert_audit now i entry s1) (\<lambda>s2.
     Inr (tenant_row t now, 1, s2)))"

definition pg_create_tenant :: "new_tenant \<Rightarrow> audit_entry \<Rightarrow> (pg world, tenant) io" where
  "pg_create_tenant t entry = tx_ids (create_tenant_tx t entry)"

definition pg_find_tenant :: "uuid \<Rightarrow> (pg world, tenant option) io" where
  "pg_find_tenant i = query (\<lambda>now s. find_row (\<lambda>t. t_id t = i) (tenants s))"

section \<open>API keys and certificates\<close>

definition create_api_key_tx ::
  "api_key_record \<Rightarrow> audit_entry \<Rightarrow> instant \<Rightarrow> uuid \<Rightarrow> pg \<Rightarrow> (unit \<times> nat \<times> pg) result" where
  "create_api_key_tx k entry now i s =
     bind_ok (map_err db_error (put_api_keys (api_keys s @ [k\<lparr>k_revoked_at := None\<rparr>]) s)) (\<lambda>s1.
     bind_ok (insert_audit now i entry s1) (\<lambda>s2.
     Inr ((), 1, s2)))"

definition pg_create_api_key :: "api_key_record \<Rightarrow> audit_entry \<Rightarrow> (pg world, unit) io" where
  "pg_create_api_key k entry = tx_ids (create_api_key_tx k entry)"

definition pg_list_api_keys :: "uuid \<Rightarrow> (pg world, api_key_record list) io" where
  "pg_list_api_keys tenant =
     query (\<lambda>now s. order_by k_created_at (filter (\<lambda>k. k_tenant_id k = tenant) (api_keys s)))"

definition revoke_api_key_tx ::
  "uuid \<Rightarrow> uuid \<Rightarrow> audit_entry \<Rightarrow> instant \<Rightarrow> uuid \<Rightarrow> pg \<Rightarrow> (bool \<times> nat \<times> pg) result" where
  "revoke_api_key_tx tenant key entry now i s =
     (let hit = (\<lambda>k. k_id k = key \<and> k_tenant_id k = tenant \<and> k_revoked_at k = None)
      in bind_ok (map_err db_error
           (put_api_keys (update_rows hit (\<lambda>k. k\<lparr>k_revoked_at := Some now\<rparr>) (api_keys s)) s)) (\<lambda>s1.
         if length (filter hit (api_keys s)) = 1
         then bind_ok (insert_audit now i entry s1) (\<lambda>s2. Inr (True, 1, s2))
         else Inr (False, 0, s1)))"

definition pg_revoke_api_key :: "uuid \<Rightarrow> uuid \<Rightarrow> audit_entry \<Rightarrow> (pg world, bool) io" where
  "pg_revoke_api_key tenant key entry = tx_ids (revoke_api_key_tx tenant key entry)"

definition certificate_conflict :: string where
  "certificate_conflict = ''El tenant ya tiene otro certificado activo''"

definition activate_certificate_tx ::
  "certificate \<Rightarrow> audit_entry \<Rightarrow> instant \<Rightarrow> uuid \<Rightarrow> pg \<Rightarrow> (unit \<times> nat \<times> pg) result" where
  "activate_certificate_tx c entry now i s =
     bind_ok (map_err db_error (put_certificates
       (update_rows (\<lambda>x. c_tenant_id x = c_tenant_id c \<and> c_status x = C_Active)
          (\<lambda>x. x\<lparr>c_status := C_Revoked\<rparr>) (certificates s)) s)) (\<lambda>s1.
     bind_ok (map_err (conflict_on_unique certificate_conflict)
       (put_certificates (certificates s1 @ [c]) s1)) (\<lambda>s2.
     bind_ok (insert_audit now i entry s2) (\<lambda>s3.
     Inr ((), 1, s3))))"

definition pg_activate_certificate :: "certificate \<Rightarrow> audit_entry \<Rightarrow> (pg world, unit) io" where
  "pg_activate_certificate c entry = tx_ids (activate_certificate_tx c entry)"

section \<open>Numbering ranges\<close>

definition no_tenant_error :: "uuid \<Rightarrow> domain_error" where
  "no_tenant_error i = NotFound (''Tenant '' @ uuid_string i @ '' no encontrado'')"

definition overlap_error :: domain_error where
  "overlap_error = Conflict ''El rango se solapa en vigencia con otro del mismo tipo y prefijo''"

definition overlaps :: "numbering_range \<Rightarrow> numbering_range \<Rightarrow> bool" where
  "overlaps r q \<longleftrightarrow>
     r_tenant_id q = r_tenant_id r \<and> r_document_type q = r_document_type r \<and>
     r_prefix q = r_prefix r \<and> r_valid_date_from q < r_valid_date_to r \<and>
     r_valid_date_from r < r_valid_date_to q"

definition add_range_tx ::
  "numbering_range \<Rightarrow> audit_entry \<Rightarrow> instant \<Rightarrow> uuid \<Rightarrow> pg \<Rightarrow> (unit \<times> nat \<times> pg) result" where
  "add_range_tx r entry now i s =
     bind_ok (ok_or (no_tenant_error (r_tenant_id r))
       (find_row (\<lambda>t. t_id t = r_tenant_id r) (tenants s))) (\<lambda>_.
     if list_ex (overlaps r) (ranges s) then Inl overlap_error
     else bind_ok (map_err db_error (put_ranges (ranges s @ [r]) s)) (\<lambda>s1.
          bind_ok (insert_audit now i entry s1) (\<lambda>s2.
          Inr ((), 1, s2))))"

definition pg_add_numbering_range :: "numbering_range \<Rightarrow> audit_entry \<Rightarrow> (pg world, unit) io" where
  "pg_add_numbering_range r entry = tx_ids (add_range_tx r entry)"

section \<open>Dead jobs and deliveries\<close>

definition dead_job_of :: "document \<Rightarrow> job_row \<Rightarrow> dead_job" where
  "dead_job_of d j =
     \<lparr>dj_id = jr_id j, dj_kind = jr_kind j, dj_document_id = jr_document_id j,
      dj_tenant_id = d_tenant_id d, dj_attempts = jr_attempts j, dj_last_error = jr_last_error j,
      dj_failed_at = jr_updated_at j\<rparr>"

definition list_dead_jobs_tx :: "int \<Rightarrow> instant \<Rightarrow> pg \<Rightarrow> (dead_job list \<times> pg) result" where
  "list_dead_jobs_tx limit now s =
     map_err db_error (bind_ok (limit_rows limit (order_by (\<lambda>j. - dj_failed_at j)
       (List.map_filter (\<lambda>j. map_option (\<lambda>d. dead_job_of d j)
                               (find_row (\<lambda>d. d_id d = jr_document_id j) (documents s)))
          (filter (\<lambda>j. jr_status j = Dead) (jobs s))))) (\<lambda>js. Inr (js, s)))"

definition pg_list_dead_jobs :: "int \<Rightarrow> (pg world, dead_job list) io" where
  "pg_list_dead_jobs limit = tx (list_dead_jobs_tx limit)"

definition not_applicable_error :: "document_status \<Rightarrow> job_kind \<Rightarrow> domain_error" where
  "not_applicable_error status kind =
     Conflict (''El documento esta en estado '' @ document_status_as_str status @ '': el trabajo '' @
       job_kind_as_str kind @ '' ya no aplica'')"

definition active_job_message :: string where
  "active_job_message = ''El documento ya tiene un trabajo activo''"

fun retry_allowed :: "job_kind \<Rightarrow> document_status \<Rightarrow> bool" where
  "retry_allowed Transmit status = (status \<in> {Pending, ContingencyPending})"
| "retry_allowed PollStatus status = (status = SentDian)"

definition retry_dead_job_tx ::
  "uuid \<Rightarrow> audit_entry \<Rightarrow> instant \<Rightarrow> uuid \<Rightarrow> pg \<Rightarrow> (bool \<times> nat \<times> pg) result" where
  "retry_dead_job_tx job entry now i s =
     (case find_row (\<lambda>j. jr_id j = job \<and> jr_status j = Dead) (jobs s) of
        None \<Rightarrow> Inr (False, 0, s)
      | Some j \<Rightarrow>
          (case find_row (\<lambda>d. d_id d = jr_document_id j) (documents s) of
             None \<Rightarrow> Inr (False, 0, s)
           | Some d \<Rightarrow>
               if \<not> retry_allowed (jr_kind j) (d_status d)
               then Inl (not_applicable_error (d_status d) (jr_kind j))
               else
                 bind_ok (if jr_kind j = Transmit \<and> d_status d = ContingencyPending
                          then map_err db_error (put_documents
                            (update_rows (\<lambda>x. d_id x = d_id d) (\<lambda>x. x\<lparr>d_status := Pending\<rparr>) (documents s)) s)
                          else Inr s) (\<lambda>s1.
                 bind_ok (map_err (conflict_on_unique active_job_message)
                   (update_jobs now (\<lambda>x. jr_id x = job)
                      (\<lambda>x. (job_requeued now x)\<lparr>jr_attempts := 0\<rparr>) s1)) (\<lambda>s2.
                 bind_ok (insert_audit now i entry s2) (\<lambda>s3.
                 Inr (True, 1, s3))))))"

definition pg_retry_dead_job :: "uuid \<Rightarrow> audit_entry \<Rightarrow> (pg world, bool) io" where
  "pg_retry_dead_job job entry = tx_ids (retry_dead_job_tx job entry)"

definition dead_delivery_of :: "webhook \<Rightarrow> delivery_row \<Rightarrow> dead_delivery" where
  "dead_delivery_of w d =
     \<lparr>dd_id = dl_id d, dd_tenant_id = w_tenant_id w, dd_webhook_id = dl_webhook_id d,
      dd_event_type = dl_event_type d, dd_attempts = dl_attempts d, dd_last_error = dl_last_error d,
      dd_last_status_code = dl_last_status_code d, dd_failed_at = dl_updated_at d\<rparr>"

definition list_dead_deliveries_tx :: "int \<Rightarrow> instant \<Rightarrow> pg \<Rightarrow> (dead_delivery list \<times> pg) result" where
  "list_dead_deliveries_tx limit now s =
     map_err db_error (bind_ok (limit_rows limit (order_by (\<lambda>d. - dd_failed_at d)
       (List.map_filter (\<lambda>d. map_option (\<lambda>w. dead_delivery_of w d)
                               (find_row (\<lambda>w. w_id w = dl_webhook_id d) (webhooks s)))
          (filter (\<lambda>d. dl_status d = Del_Dead) (deliveries s))))) (\<lambda>ds. Inr (ds, s)))"

definition pg_list_dead_deliveries :: "int \<Rightarrow> (pg world, dead_delivery list) io" where
  "pg_list_dead_deliveries limit = tx (list_dead_deliveries_tx limit)"

definition retry_dead_delivery_tx ::
  "uuid \<Rightarrow> audit_entry \<Rightarrow> instant \<Rightarrow> uuid \<Rightarrow> pg \<Rightarrow> (bool \<times> nat \<times> pg) result" where
  "retry_dead_delivery_tx delivery entry now i s =
     (let hit = (\<lambda>d. dl_id d = delivery \<and> dl_status d = Del_Dead)
      in bind_ok (map_err db_error (update_deliveries now hit
           (\<lambda>d. d\<lparr>dl_status := Del_Queued, dl_attempts := 0, dl_run_at := now, dl_locked_until := None\<rparr>) s)) (\<lambda>s1.
         if length (filter hit (deliveries s)) = 1
         then bind_ok (insert_audit now i entry s1) (\<lambda>s2. Inr (True, 1, s2))
         else Inr (False, 0, s1)))"

definition pg_retry_dead_delivery :: "uuid \<Rightarrow> audit_entry \<Rightarrow> (pg world, bool) io" where
  "pg_retry_dead_delivery delivery entry = tx_ids (retry_dead_delivery_tx delivery entry)"

definition pg_admin :: "pg world admin_repository" where
  "pg_admin =
     \<lparr>create_tenant = pg_create_tenant, find_tenant = pg_find_tenant,
      create_api_key = pg_create_api_key, list_api_keys = pg_list_api_keys,
      revoke_api_key = pg_revoke_api_key, activate_certificate = pg_activate_certificate,
      add_numbering_range = pg_add_numbering_range, list_dead_jobs = pg_list_dead_jobs,
      retry_dead_job = pg_retry_dead_job, list_dead_deliveries = pg_list_dead_deliveries,
      retry_dead_delivery = pg_retry_dead_delivery\<rparr>"

end
