(* ===== verification/Port_Laws.thy ===== *)
theory Port_Laws
  imports World
begin

text \<open>
  The laws the use cases may rely on when they call a port of \<open>core-domain/src/ports.rs\<close>: whatever
  an operation of a repository does to the store is a step of the store's guarantee \<open>G\<close>. One locale
  per port; the use cases are proved against the locales and hold for every store that
  interprets them.
\<close>

locale document_port = guarantee A G
  for A :: "('db \<Rightarrow> 'db) \<Rightarrow> bool" and G :: "'db \<Rightarrow> 'db \<Rightarrow> bool" +
  fixes docs :: "'db world document_repository"
  assumes issue_within: "within A G (issue_outbound docs nd j)"
    and inbound_within: "within A G (insert_inbound docs ni)"
    and find_document_within: "within A G (find_document docs i)"
    and find_document_id: "find_document docs i w = (Inr (Some d), v) \<Longrightarrow> d_id d = i"
    and find_tenant_document_within: "within A G (find_tenant_document docs t i)"
    and find_range_within: "within A G (find_numbering_range docs i)"
    and artifacts_within: "within A G (store_artifacts docs i c x y)"
    and record_event_within: "within A G (record_event docs e)"
    and find_events_within: "within A G (find_events docs i)"
    and transition_within: "within A G (apply_transition docs tr)"

locale job_port = guarantee A G
  for A :: "('db \<Rightarrow> 'db) \<Rightarrow> bool" and G :: "'db \<Rightarrow> 'db \<Rightarrow> bool" +
  fixes queue :: "'db world job_repository"
  assumes claim_within: "within A G (claim queue worker limit lease)"
    and complete_within: "within A G (complete queue i)"
    and retry_within: "within A G (retry queue i at err)"
    and release_within: "within A G (release queue i at)"
    and bury_within: "within A G (bury queue i err)"
    and requeue_within: "within A G (requeue_contingency queue limit n)"
    and depth_within: "within A G (queue_depth_of queue)"

locale webhook_port = guarantee A G
  for A :: "('db \<Rightarrow> 'db) \<Rightarrow> bool" and G :: "'db \<Rightarrow> 'db \<Rightarrow> bool" +
  fixes hooks :: "'db world webhook_repository"
  assumes create_webhook_within: "within A G (create_webhook hooks w)"
    and list_webhooks_within: "within A G (list_webhooks hooks t)"
    and delete_webhook_within: "within A G (delete_webhook hooks t i)"
    and claim_deliveries_within: "within A G (claim_deliveries hooks limit lease)"
    and complete_delivery_within: "within A G (complete_delivery hooks i code)"
    and retry_delivery_within: "within A G (retry_delivery hooks i at err c)"
    and bury_delivery_within: "within A G (bury_delivery hooks i err c)"

text \<open>The administration may only add resolutions that \<open>acceptable\<close> admits.\<close>

locale admin_port = guarantee A G
  for A :: "('db \<Rightarrow> 'db) \<Rightarrow> bool" and G :: "'db \<Rightarrow> 'db \<Rightarrow> bool" +
  fixes admin :: "'db world admin_repository" and acceptable :: "numbering_range \<Rightarrow> bool"
  assumes create_tenant_within: "within A G (create_tenant admin t a)"
    and find_tenant_within: "within A G (find_tenant admin i)"
    and create_key_within: "within A G (create_api_key admin k a)"
    and list_keys_within: "within A G (list_api_keys admin i)"
    and revoke_key_within: "within A G (revoke_api_key admin i j a)"
    and certificate_within: "within A G (activate_certificate admin c a)"
    and range_within: "acceptable r \<Longrightarrow> within A G (add_numbering_range admin r a)"
    and dead_jobs_within: "within A G (list_dead_jobs admin limit)"
    and retry_job_within: "within A G (retry_dead_job admin i a)"
    and dead_deliveries_within: "within A G (list_dead_deliveries admin limit)"
    and retry_dead_delivery_within: "within A G (retry_dead_delivery admin i a)"

section \<open>The outside\<close>

text \<open>
  Signing and the DIAN are outside the store. \<open>dian_client\<close> is the DIAN as the code sees it: a call
  is added to the log, and the answer is an arbitrary function of the time, the calls before it and
  the call. \<open>signer\<close> signs with an arbitrary function of the time, the tenant and the text.
\<close>

definition soap_exchange ::
  "(instant \<Rightarrow> soap_call list \<Rightarrow> soap_call \<Rightarrow> 'a result) \<Rightarrow> soap_call \<Rightarrow> ('db world, 'a) io" where
  "soap_exchange answer call w =
     (answer (clock w) (dian_log w) call, w\<lparr>dian_log := dian_log w @ [call]\<rparr>)"

record dian =
  answers :: "instant \<Rightarrow> soap_call list \<Rightarrow> soap_call \<Rightarrow> dian_response result"
  answer_keys :: "instant \<Rightarrow> soap_call list \<Rightarrow> soap_call \<Rightarrow> string result"

definition dian_client :: "dian \<Rightarrow> 'db world dian_soap_client" where
  "dian_client d =
     \<lparr>send_bill_sync = (\<lambda>t z h. soap_exchange (answers d) (Send_bill_sync t z h)),
      send_bill_async = (\<lambda>t z h. soap_exchange (answer_keys d) (Send_bill_async t z h)),
      send_test_set_async = (\<lambda>t z s h. soap_exchange (answer_keys d) (Send_test_set_async t z s h)),
      get_status = (\<lambda>t k h. soap_exchange (answers d) (Get_status t k h)),
      get_status_zip = (\<lambda>t k h. soap_exchange (answers d) (Get_status_zip t k h)),
      send_event_update_status = (\<lambda>t z h. soap_exchange (answers d) (Send_event_update_status t z h))\<rparr>"

definition signer :: "(instant \<Rightarrow> uuid \<Rightarrow> string \<Rightarrow> string result) \<Rightarrow> 'db world crypto_signer" where
  "signer f =
     \<lparr>sign_for_tenant = (\<lambda>t x w. (f (clock w) t x, w)),
      sign_soap_for_tenant = (\<lambda>t x w. (f (clock w) t x, w))\<rparr>"

locale signer_port = guarantee A G
  for A :: "('db \<Rightarrow> 'db) \<Rightarrow> bool" and G :: "'db \<Rightarrow> 'db \<Rightarrow> bool" +
  fixes sign :: "'db world crypto_signer"
  assumes sign_within: "within A G (sign_for_tenant sign t x)"
    and sign_soap_within: "within A G (sign_soap_for_tenant sign t x)"

locale dian_port = guarantee A G
  for A :: "('db \<Rightarrow> 'db) \<Rightarrow> bool" and G :: "'db \<Rightarrow> 'db \<Rightarrow> bool" +
  fixes soap :: "'db world dian_soap_client"
  assumes bill_within: "within A G (send_bill_sync soap t z h)"
    and bill_async_within: "within A G (send_bill_async soap t z h)"
    and test_set_within: "within A G (send_test_set_async soap t z i h)"
    and status_within: "within A G (get_status soap t k h)"
    and status_zip_within: "within A G (get_status_zip soap t k h)"
    and event_within: "within A G (send_event_update_status soap t z h)"

context guarantee
begin

lemma exchange_within: "within A G (soap_exchange f c)"
  by (auto simp: soap_exchange_def intro: local)

lemma client_port: "dian_port A G (dian_client d)"
  by unfold_locales (simp_all add: dian_client_def exchange_within)

lemma signing_port: "signer_port A G (signer f)"
  by unfold_locales (auto simp: signer_def intro: local)

end

end
