(* ===== verification/Pg_Invariants.thy ===== *)
theory Pg_Invariants
  imports Pg_Admin Port_Laws
begin

text \<open>
  What every operation of the PostgreSQL store guarantees: the constraints of the schema, the
  numbering of each resolution without gaps, and the evolution of documents along the lifecycle.
  \<open>pg_guarantee\<close> is that contract as a relation of two databases; it is a \<open>guarantee\<close>, so
  sequences of operations among peers that keep it keep it too.
\<close>

section \<open>Evolution of documents\<close>

text \<open>The fields a document keeps for ever, and its status moving along the lifecycle.\<close>

definition document_follows :: "document \<Rightarrow> document \<Rightarrow> bool" where
  "document_follows d e \<longleftrightarrow>
     d_id e = d_id d \<and> document_key e = document_key d \<and>
     d_numbering_range_id e = d_numbering_range_id d \<and> d_payload e = d_payload d \<and>
     d_created_at e = d_created_at d \<and> status_path (d_status d) (d_status e)"

text \<open>Documents are added at the end and never removed.\<close>

definition evolves :: "document list \<Rightarrow> document list \<Rightarrow> bool" where
  "evolves ds es \<longleftrightarrow> (\<exists>us ns. es = us @ ns \<and> list_all2 document_follows ds us)"

lemma document_follows_refl [simp]: "document_follows d d"
  by (simp add: document_follows_def)

lemma document_follows_trans: "document_follows d e \<Longrightarrow> document_follows e f \<Longrightarrow> document_follows d f"
  by (auto simp: document_follows_def intro: status_path_trans)

lemma evolves_refl [simp]: "evolves ds ds"
  unfolding evolves_def by (intro exI[of _ ds] exI[of _ "[]"]) (simp add: list_all2_refl)

lemma evolves_append: "evolves ds (ds @ ns)"
  unfolding evolves_def by (intro exI[of _ ds] exI[of _ ns]) (simp add: list_all2_refl)

lemma evolves_update:
  "(\<And>d. d \<in> set ds \<Longrightarrow> P d \<Longrightarrow> document_follows d (f d)) \<Longrightarrow> evolves ds (update_rows P f ds)"
  unfolding evolves_def
  by (intro exI[of _ "update_rows P f ds"] exI[of _ "[]"])
    (auto simp: update_rows_def list_all2_map2 list_all2_same)

lemma evolves_trans: "evolves ds es \<Longrightarrow> evolves es fs \<Longrightarrow> evolves ds fs"
proof -
  assume "evolves ds es" "evolves es fs"
  then obtain us ns vs ms where
    1: "es = us @ ns" "list_all2 document_follows ds us" and
    2: "fs = vs @ ms" "list_all2 document_follows (us @ ns) vs"
    unfolding evolves_def by auto
  from 2(2) obtain vs1 vs2 where
    3: "vs = vs1 @ vs2" "list_all2 document_follows us vs1"
    by (auto simp: list_all2_append1)
  have "list_all2 document_follows ds vs1"
    using 1(2) 3(2) by (rule list_all2_trans[rotated]) (rule document_follows_trans)
  with 2(1) 3(1) show "evolves ds fs"
    unfolding evolves_def by (intro exI[of _ vs1] exI[of _ "vs2 @ ms"]) simp
qed

lemma evolves_member:
  "evolves ds es \<Longrightarrow> d \<in> set ds \<Longrightarrow> \<exists>e \<in> set es. document_follows d e"
proof -
  assume "evolves ds es" "d \<in> set ds"
  then obtain us ns i where "es = us @ ns" "list_all2 document_follows ds us" "i < length ds" "d = ds ! i"
    unfolding evolves_def in_set_conv_nth by blast
  then have "document_follows d (us ! i)" "us ! i \<in> set es"
    by (auto simp: list_all2_conv_all_nth)
  then show ?thesis by blast
qed

lemma evolves_ids: "evolves ds es \<Longrightarrow> d_id ` set ds \<subseteq> d_id ` set es"
proof
  fix i assume "evolves ds es" "i \<in> d_id ` set ds"
  then obtain d where "d \<in> set ds" "i = d_id d" by auto
  moreover from this obtain e where "e \<in> set es" "document_follows d e"
    using \<open>evolves ds es\<close> evolves_member by blast
  ultimately show "i \<in> d_id ` set es" by (simp add: document_follows_def rev_image_eqI)
qed

text \<open>A document found by its identifier is found again later.\<close>

lemma evolves_find:
  assumes "evolves ds es" "unique_on d_id es" "find_row (\<lambda>d. d_id d = i) ds = Some d"
  obtains e where "find_row (\<lambda>d. d_id d = i) es = Some e" and "document_follows d e"
proof -
  have d: "d \<in> set ds" "d_id d = i" using assms(3) by (auto dest: find_row_SomeD)
  then obtain e where e: "e \<in> set es" "document_follows d e"
    using assms(1) evolves_member by blast
  then have "d_id e = i" using d by (simp add: document_follows_def)
  with find_row_uniqueI[OF assms(2) e(1)] e(2) that show thesis by simp
qed

section \<open>Numbering\<close>

definition numbers_of :: "uuid \<Rightarrow> document list \<Rightarrow> i32 list" where
  "numbers_of r ds = map d_document_number (filter (\<lambda>d. d_numbering_range_id d = Some r) ds)"

text \<open>The numbers a resolution has given out, in order: an interval that ends at its counter.\<close>

definition gapless :: "numbering_range \<Rightarrow> document list \<Rightarrow> bool" where
  "gapless r ds \<longleftrightarrow>
     numbers_of (r_id r) ds = [] \<or>
     (\<exists>a. r_from_number r \<le> a \<and> a \<le> r_current_counter r \<and>
          numbers_of (r_id r) ds = [a..r_current_counter r])"

definition numbering_inv :: "pg \<Rightarrow> bool" where
  "numbering_inv s \<longleftrightarrow> (\<forall>r \<in> set (ranges s). range_ok r \<and> gapless r (documents s))"

definition pg_inv :: "pg \<Rightarrow> bool" where
  "pg_inv s \<longleftrightarrow> pg_constraints s \<and> numbering_inv s"

definition pg_guarantee :: "pg \<Rightarrow> pg \<Rightarrow> bool" where
  "pg_guarantee s t \<longleftrightarrow> (pg_inv s \<longrightarrow> pg_inv t \<and> evolves (documents s) (documents t))"

interpretation store: guarantee "obeys pg_guarantee" pg_guarantee
  by (rule obeys_guarantee) (auto simp: pg_guarantee_def intro: evolves_trans)

lemma pg_empty_inv: "pg_inv pg_empty"
  by (simp add: pg_inv_def pg_empty_constraints numbering_inv_def) (simp add: pg_empty_def)

lemma numbers_of_append [simp]: "numbers_of r (ds @ es) = numbers_of r ds @ numbers_of r es"
  by (simp add: numbers_of_def)

lemma numbers_of_Nil [simp]: "numbers_of r [] = []"
  by (simp add: numbers_of_def)

lemma numbers_of_Cons [simp]:
  "numbers_of r (d # ds) =
     (if d_numbering_range_id d = Some r then d_document_number d # numbers_of r ds else numbers_of r ds)"
  by (simp add: numbers_of_def)

lemma numbers_of_follows: "list_all2 document_follows ds us \<Longrightarrow> numbers_of r us = numbers_of r ds"
  by (induction rule: list_all2_induct) (simp_all add: document_follows_def document_key_def)

text \<open>An update of documents that follows the lifecycle leaves the numbering alone.\<close>

lemma numbers_of_update:
  "(\<And>d. d \<in> set ds \<Longrightarrow> P d \<Longrightarrow> document_follows d (f d)) \<Longrightarrow>
   numbers_of r (update_rows P f ds) = numbers_of r ds"
  by (rule numbers_of_follows) (auto simp: update_rows_def list_all2_map2 list_all2_same)

lemma gapless_cong: "numbers_of (r_id r) ds = numbers_of (r_id r) es \<Longrightarrow> gapless r ds = gapless r es"
  by (simp add: gapless_def)

text \<open>Steps that keep documents and ranges.\<close>

lemma guarantee_frame:
  assumes "pg_constraints s \<Longrightarrow> pg_constraints t" "documents t = documents s" "ranges t = ranges s"
  shows "pg_guarantee s t"
  using assms by (simp add: pg_guarantee_def pg_inv_def numbering_inv_def)

text \<open>Steps that update documents along the lifecycle.\<close>

lemma guarantee_update:
  assumes "pg_constraints s \<Longrightarrow> pg_constraints t" "ranges t = ranges s"
    and "documents t = update_rows P f (documents s)"
    and "\<And>d. d \<in> set (documents s) \<Longrightarrow> P d \<Longrightarrow> document_follows d (f d)"
  shows "pg_guarantee s t"
proof -
  have "gapless r (documents t) = gapless r (documents s)" for r
    unfolding assms(3) by (rule gapless_cong) (rule numbers_of_update[OF assms(4)])
  moreover have "evolves (documents s) (documents t)"
    unfolding assms(3) by (rule evolves_update) (rule assms(4))
  ultimately show ?thesis
    using assms(1,2) by (simp add: pg_guarantee_def pg_inv_def numbering_inv_def)
qed

section \<open>Statements that leave documents and ranges alone\<close>

definition quiet :: "pg \<Rightarrow> pg \<Rightarrow> bool" where
  "quiet s t \<longleftrightarrow>
     (pg_constraints s \<longrightarrow> pg_constraints t) \<and> documents t = documents s \<and> ranges t = ranges s"

named_theorems quiets \<open>statements that leave documents and ranges alone\<close>

lemma quiet_refl [simp, quiets]: "quiet s s"
  by (simp add: quiet_def)

lemma quiet_trans: "quiet s t \<Longrightarrow> quiet t u \<Longrightarrow> quiet s u"
  by (simp add: quiet_def)

lemma quiet_guarantee: "quiet s t \<Longrightarrow> pg_guarantee s t"
  by (rule guarantee_frame) (simp_all add: quiet_def)

lemma put_quiet [quiets]:
  "put_certificates cs s = Inr t \<Longrightarrow> quiet s t"
  "put_events es s = Inr t \<Longrightarrow> quiet s t"
  "put_jobs js s = Inr t \<Longrightarrow> quiet s t"
  "put_idempotency is s = Inr t \<Longrightarrow> quiet s t"
  "put_deliveries dl s = Inr t \<Longrightarrow> quiet s t"
  "put_api_keys ks s = Inr t \<Longrightarrow> quiet s t"
  "put_audit_log as s = Inr t \<Longrightarrow> quiet s t"
  using put_constraints[of _ s t] by (auto simp: quiet_def put_Inr)

lemma put_tenants_quiet:
  "put_tenants ts s = Inr t \<Longrightarrow> t_id ` set (tenants s) \<subseteq> t_id ` set ts \<Longrightarrow> quiet s t"
  using put_tenants_constraints[of ts s t] by (auto simp: quiet_def put_Inr)

lemma put_webhooks_quiet:
  "put_webhooks ws s = Inr t \<Longrightarrow> w_id ` set (webhooks s) \<subseteq> w_id ` set ws \<Longrightarrow> quiet s t"
  using put_webhooks_constraints[of ws s t] by (auto simp: quiet_def put_Inr)

lemma update_quiet [quiets]:
  "update_jobs now P f s = Inr t \<Longrightarrow> quiet s t"
  "update_deliveries now Q g s = Inr t \<Longrightarrow> quiet s t"
  unfolding update_jobs_def update_deliveries_def by (rule put_quiet, assumption)+

lemma insert_quiet [quiets]:
  "insert_job now j s = Inr t \<Longrightarrow> quiet s t"
  "insert_event e s = Inr t \<Longrightarrow> quiet s t"
  "insert_audit now i a s = Inr t \<Longrightarrow> quiet s t"
  by (auto simp: insert_job_def insert_event_def insert_audit_def map_err_Inr_iff intro: put_quiet)

lemma close_job_quiet [quiets]: "close_job now outcome s = Inr t \<Longrightarrow> quiet s t"
  by (auto simp: close_job_def map_err_Inr_iff intro: update_quiet split: option.splits job_outcome.splits)

lemma guard_Inr_iff: "(if c then Inl e else x) = Inr y \<longleftrightarrow> \<not> c \<and> x = Inr y"
  by simp

lemmas bind_simps = bind_ok_Inr_iff map_err_Inr_iff ok_or_Inr_iff guard_Inr_iff

section \<open>The operations of the document repository\<close>

lemma put_documents_update_guarantee:
  assumes "put_documents (update_rows P f (documents s)) s = Inr t"
    and f: "\<And>d. d \<in> set (documents s) \<Longrightarrow> P d \<Longrightarrow> document_follows d (f d)"
  shows "pg_guarantee s t"
proof (rule guarantee_update[OF _ _ _ f])
  have ids: "d_id ` set (documents s) \<subseteq> d_id ` set (update_rows P f (documents s))"
    by (rule evolves_ids) (rule evolves_update[OF f])
  show "pg_constraints s \<Longrightarrow> pg_constraints t"
    using assms(1) ids by (blast intro: put_documents_constraints)
  show "ranges t = ranges s" "documents t = update_rows P f (documents s)"
    using assms(1) by (auto simp: put_Inr)
qed

lemma put_documents_append_guarantee:
  assumes t: "put_documents (documents s @ [d]) s = Inr t" and "d_numbering_range_id d = None"
  shows "pg_guarantee s t"
proof -
  have "pg_constraints s \<Longrightarrow> pg_constraints t"
    using t by (rule put_documents_constraints) auto
  moreover have "ranges t = ranges s" "documents t = documents s @ [d]"
    using t by (auto simp: put_Inr)
  moreover from this assms(2) have "gapless r (documents t) = gapless r (documents s)" for r
    by (simp add: gapless_def)
  ultimately show ?thesis
    by (simp add: pg_guarantee_def pg_inv_def numbering_inv_def evolves_append)
qed

lemma inbound_tx_guarantee: "inbound_tx d now s = Inr (b, t) \<Longrightarrow> pg_guarantee s t"
  by (auto simp: inbound_tx_def bind_simps inbound_row_def store.refl split: if_splits
      intro!: put_documents_append_guarantee)

lemma artifacts_tx_guarantee: "artifacts_tx i c x y now s = Inr (u, t) \<Longrightarrow> pg_guarantee s t"
  by (auto simp: artifacts_tx_def bind_simps split: if_splits
      intro!: put_documents_update_guarantee)
    (auto simp: document_follows_def document_key_def)

lemma transition_tx_guarantee:
  assumes "transition_tx t now i s = Inr (b, n, s')"
  shows "pg_guarantee s s'"
proof -
  let ?P = "\<lambda>d. d_id d = tr_document_id t \<and> d_status d \<in> set (allowed_predecessors (tr_to t))"
  show ?thesis
  proof (cases "find_row ?P (documents s)")
    case None
    with assms show ?thesis by (simp add: transition_tx_def store.refl)
  next
    case (Some d)
    with assms obtain s1 s2 s3 s4 where
      1: "put_documents (update_rows ?P (\<lambda>d. d\<lparr>d_status := tr_to t\<rparr>) (documents s)) s = Inr s1" and
      2: "put_deliveries (deliveries s1 @ outbox_rows i now d (tr_to t) s1) s1 = Inr s2" and
      3: "(case tr_event t of None \<Rightarrow> Inr s2 | Some e \<Rightarrow> insert_event e s2) = Inr s3" and
      4: "close_job now (tr_job t) s3 = Inr s4" and
      5: "(case tr_follow_up t of None \<Rightarrow> Inr s4 | Some j \<Rightarrow> insert_job now j s4) = Inr s'"
      by (auto simp: transition_tx_def bind_simps Let_def)
    have "pg_guarantee s s1"
      using 1 by (rule put_documents_update_guarantee)
        (auto simp: document_follows_def document_key_def can_transition_to_def intro!: status_path_step)
    moreover have "quiet s1 s2" using 2 by (rule put_quiet)
    moreover have "quiet s2 s3" using 3 by (auto intro: quiets split: option.splits)
    moreover have "quiet s3 s4" using 4 by (rule close_job_quiet)
    moreover have "quiet s4 s'" using 5 by (auto intro: quiets split: option.splits)
    ultimately show ?thesis
      by (meson quiet_trans quiet_guarantee store.trans)
  qed
qed

section \<open>Issuing\<close>

lemma select_range_member:
  assumes "select_range d now s = Some r"
  shows "r \<in> set (ranges s)" "r_tenant_id r = no_tenant_id d" "r_document_type r = no_document_type d"
    "r_prefix r = no_prefix d"
proof -
  define rs where "rs = filter (\<lambda>r. r_tenant_id r = no_tenant_id d \<and>
    r_document_type r = no_document_type d \<and> r_prefix r = no_prefix d \<and>
    r_valid_date_from r \<le> now \<and> now \<le> r_valid_date_to r) (ranges s)"
  from assms obtain rest where "order_by (\<lambda>r. - r_valid_date_from r) rs = r # rest"
    unfolding select_range_def rs_def[symmetric] by (auto split: list.splits)
  from arg_cong[OF this, of set] have "r \<in> set rs" by auto
  then show "r \<in> set (ranges s)" "r_tenant_id r = no_tenant_id d"
    "r_document_type r = no_document_type d" "r_prefix r = no_prefix d"
    by (auto simp: rs_def)
qed

text \<open>What a successful transaction has done.\<close>

lemma issue_tx_effect:
  assumes "issue_tx dn d job now s = Inr (Issued iss, t)"
  obtains r number where "select_range d now s = Some r"
    and "next_number dn r (no_requested_number d) now = Inr number" and "0 \<le> number"
    and "iss = \<lparr>is_document_id = no_id d, is_document_number = number\<rparr>"
    and "ranges t = update_rows (\<lambda>q. r_id q = r_id r) (\<lambda>q. q\<lparr>r_current_counter := number\<rparr>) (ranges s)"
    and "documents t = documents s @ [outbound_row d number (r_id r) now]"
    and "jobs t = jobs s @ [new_job_row now job]"
    and "pg_constraints s \<longrightarrow> pg_constraints t"
    and "idempotency t = idempotency s @
      (case no_idempotency d of None \<Rightarrow> [] | Some key \<Rightarrow> [idempotency_row_of d key number])"
    and "\<forall>key. no_idempotency d = Some key \<longrightarrow> idempotency_lookup (no_tenant_id d) key s = None"
proof -
  from assms obtain r number s1 s2 s3 where
    r: "select_range d now s = Some r" and n: "next_number dn r (no_requested_number d) now = Inr number" and
    1: "put_ranges (update_rows (\<lambda>q. r_id q = r_id r) (\<lambda>q. q\<lparr>r_current_counter := number\<rparr>) (ranges s)) s = Inr s1" and
    2: "put_documents (documents s1 @ [outbound_row d number (r_id r) now]) s1 = Inr s2" and
    3: "put_jobs (jobs s2 @ [new_job_row now job]) s2 = Inr s3" and
    last: "(case no_idempotency d of
        None \<Rightarrow> Inr (Issued \<lparr>is_document_id = no_id d, is_document_number = number\<rparr>, s3)
      | Some key \<Rightarrow>
          (case idempotency_lookup (no_tenant_id d) key s3 of
             Some _ \<Rightarrow> Inr (Key_taken, s)
           | None \<Rightarrow>
               bind_ok (map_err db_error (put_idempotency
                 (idempotency s3 @ [idempotency_row_of d key number]) s3)) (\<lambda>s4.
               Inr (Issued \<lparr>is_document_id = no_id d, is_document_number = number\<rparr>, s4))))
      = Inr (Issued iss, t)"
    unfolding issue_tx_def insert_job_def bind_simps Let_def by blast
  have iss: "iss = \<lparr>is_document_id = no_id d, is_document_number = number\<rparr>"
    and rest: "case no_idempotency d of None \<Rightarrow> t = s3
      | Some key \<Rightarrow> idempotency_lookup (no_tenant_id d) key s3 = None \<and>
          put_idempotency (idempotency s3 @ [idempotency_row_of d key number]) s3 = Inr t"
    using last by (auto simp: bind_simps split: option.splits)
  have f1: "s1 = s\<lparr>ranges := update_rows (\<lambda>q. r_id q = r_id r) (\<lambda>q. q\<lparr>r_current_counter := number\<rparr>) (ranges s)\<rparr>"
    using 1 by (simp add: put_Inr)
  have f2: "s2 = s1\<lparr>documents := documents s1 @ [outbound_row d number (r_id r) now]\<rparr>"
    using 2 by (simp add: put_Inr)
  have f3: "s3 = s2\<lparr>jobs := jobs s2 @ [new_job_row now job]\<rparr>" using 3 by (simp add: put_Inr)
  have nn: "0 \<le> number"
  proof -
    have "r\<lparr>r_current_counter := number\<rparr> \<in> set (ranges s1)"
      using select_range_member(1)[OF r] unfolding f1 by (auto simp: in_update_rows intro!: bexI[of _ r])
    moreover have "list_all range_check (ranges s1)" using 1 by (auto simp: put_Inr)
    ultimately show ?thesis by (auto simp: list_all_iff range_check_def)
  qed
  have c3: "pg_constraints s3" if "pg_constraints s"
  proof -
    have "pg_constraints s1"
      using 1 that by (rule put_ranges_constraints) (simp add: image_update_rows_same)
    with 2 have "pg_constraints s2" by (rule put_documents_constraints) auto
    with 3 show ?thesis by (rule put_constraints)
  qed
  have c: "pg_constraints t" if "pg_constraints s"
    using rest c3[OF that] by (auto split: option.splits intro: put_constraints)
  have fields: "ranges t = ranges s3" "documents t = documents s3" "jobs t = jobs s3"
    "idempotency t = idempotency s3 @
      (case no_idempotency d of None \<Rightarrow> [] | Some key \<Rightarrow> [idempotency_row_of d key number])"
    using rest by (auto simp: put_Inr split: option.splits)
  have same: "idempotency s3 = idempotency s" by (simp add: f1 f2 f3)
  show thesis
  proof (rule that[OF r n nn iss])
    show "pg_constraints s \<longrightarrow> pg_constraints t" using c by blast
  next
    show "\<forall>key. no_idempotency d = Some key \<longrightarrow> idempotency_lookup (no_tenant_id d) key s = None"
      using rest by (auto simp: idempotency_lookup_def same)
  qed (use fields in \<open>simp_all add: f1 f2 f3\<close>)
qed

lemma issue_tx_Key_taken: "issue_tx dn d job now s = Inr (Key_taken, t) \<Longrightarrow> t = s"
  by (auto simp: issue_tx_def bind_simps Let_def split: option.splits)

lemma upto_snoc: "a \<le> b + 1 \<Longrightarrow> [a..b] @ [b + 1] = [a..b + 1]" for a b :: int
  by (simp add: upto_rec2)

lemma issue_numbering:
  assumes inv: "pg_inv s" and r: "select_range d now s = Some r"
    and n: "next_number dn r req now = Inr number" "0 \<le> number"
    and rs: "ranges t = update_rows (\<lambda>q. r_id q = r_id r) (\<lambda>q. q\<lparr>r_current_counter := number\<rparr>) (ranges s)"
    and ds: "documents t = documents s @ [outbound_row d number (r_id r) now]"
  shows "numbering_inv t"
  unfolding numbering_inv_def
proof
  fix q assume "q \<in> set (ranges t)"
  then show "range_ok q \<and> gapless q (documents t)"
    unfolding rs
  proof (cases rule: update_rows_cases)
    case (updated p)
    have "unique_on r_id (ranges s)" using inv by (simp add: pg_inv_def pg_constraints_def)
    with updated(1,2) select_range_member(1)[OF r] have p: "p = r" by (auto dest: unique_onD)
    with inv updated(1) have ok: "range_ok r" "gapless r (documents s)"
      by (auto simp: pg_inv_def numbering_inv_def)
    have num: "number = max (r_current_counter r) (r_from_number r - 1) + 1"
      using next_number_nonneg[OF ok(1) n] by simp
    have "gapless q (documents t)"
    proof (cases "numbers_of (r_id r) (documents s) = []")
      case True
      then show ?thesis
        using num by (auto simp: gapless_def updated(3) p ds outbound_row_def intro!: exI[of _ number])
    next
      case False
      with ok(2) obtain a where a: "r_from_number r \<le> a" "a \<le> r_current_counter r"
        "numbers_of (r_id r) (documents s) = [a..r_current_counter r]"
        by (auto simp: gapless_def)
      then have "number = r_current_counter r + 1" using num by simp
      with a upto_snoc[of a "r_current_counter r"] show ?thesis
        by (auto simp: gapless_def updated(3) p ds outbound_row_def intro!: exI[of _ a])
    qed
    with range_ok_advance[OF ok(1) n] show ?thesis by (simp add: updated(3) p)
  next
    case kept
    then have "numbers_of (r_id q) (documents t) = numbers_of (r_id q) (documents s)"
      by (auto simp: ds outbound_row_def)
    with kept inv show ?thesis
      by (auto simp: pg_inv_def numbering_inv_def gapless_def)
  qed
qed

lemma issue_tx_guarantee:
  assumes "issue_tx dn d job now s = Inr (step, t)"
  shows "pg_guarantee s t"
proof (cases step)
  case Key_taken
  with assms show ?thesis by (auto dest: issue_tx_Key_taken simp: store.refl)
next
  case (Issued iss)
  with assms have i: "issue_tx dn d job now s = Inr (Issued iss, t)" by simp
  obtain r number where *: "select_range d now s = Some r"
    "next_number dn r (no_requested_number d) now = Inr number" "0 \<le> number"
    "ranges t = update_rows (\<lambda>q. r_id q = r_id r) (\<lambda>q. q\<lparr>r_current_counter := number\<rparr>) (ranges s)"
    "documents t = documents s @ [outbound_row d number (r_id r) now]"
    and c: "pg_constraints s \<longrightarrow> pg_constraints t"
    by (rule issue_tx_effect[OF i])
  show ?thesis
    using issue_numbering[OF _ *] c *(5) by (auto simp: pg_guarantee_def pg_inv_def evolves_append)
qed

section \<open>The job queue\<close>

lemma job_tx_quiet:
  "bury_expired_tx now s = Inr (u, t) \<Longrightarrow> quiet s t"
  "claim_tx locked worker limit lease now s = Inr (js, t) \<Longrightarrow> quiet s t"
  "update_job_tx i f now s = Inr (u, t) \<Longrightarrow> quiet s t"
  by (auto simp: bury_expired_tx_def claim_tx_def update_job_tx_def bind_simps Let_def intro: quiets)

text \<open>With unique identifiers, a row whose identifier was selected is the selected row.\<close>

lemma selected_row:
  assumes "unique_on k rs" "set qs \<subseteq> set rs" "r \<in> set rs" "k r \<in> k ` set qs"
  shows "r \<in> set qs"
  using assms by (auto dest: unique_onD)

lemma requeue_tx_guarantee:
  assumes "requeue_tx locked limit m now i s = Inr (n, k, t)"
  shows "pg_guarantee s t"
proof (cases "pg_inv s")
  case True
  define cs where "cs = order_by d_created_at
          (filter (\<lambda>d. d_status d = ContingencyPending \<and> \<not> has_active_transmit s (d_id d) \<and>
                       \<not> locked now s (d_id d)) (documents s))"
  define moved where "moved = (\<lambda>d :: document. d_id d \<in> d_id ` set (take (nat limit) cs))"
  from assms obtain s1 new where
    1: "put_documents (update_rows moved (\<lambda>d. d\<lparr>d_status := Pending\<rparr>) (documents s)) s = Inr s1" and
    2: "put_jobs (jobs s1 @ new) s1 = Inr t"
    unfolding requeue_tx_def cs_def[symmetric] by (auto simp: bind_simps Let_def moved_def)
  have "d_status d = ContingencyPending" if d: "d \<in> set (documents s)" "moved d" for d
  proof -
    have sub: "set cs \<subseteq> set (documents s)" by (auto simp: cs_def)
    have u: "unique_on d_id (documents s)"
      using True by (simp add: pg_inv_def pg_constraints_def documents_ok_def)
    have "d \<in> set cs"
      using d(2) by (intro selected_row[OF u sub d(1)]) (auto simp: moved_def dest: in_set_takeD)
    then show ?thesis by (simp add: cs_def)
  qed
  note contingency = this
  from 1 have "pg_guarantee s s1"
    by (rule put_documents_update_guarantee)
      (auto simp: document_follows_def document_key_def can_transition_iff contingency
        intro!: status_path_step)
  with 2 show ?thesis by (meson quiets quiet_guarantee store.trans)
qed (simp add: pg_guarantee_def)

section \<open>Webhooks\<close>

lemma delivery_tx_quiet:
  "claim_deliveries_tx locked limit lease now s = Inr (ds, t) \<Longrightarrow> quiet s t"
  "update_delivery_tx i f now s = Inr (u, t) \<Longrightarrow> quiet s t"
  by (auto simp: claim_deliveries_tx_def update_delivery_tx_def bind_simps Let_def intro: quiets)

lemma create_webhook_tx_quiet: "create_webhook_tx w now s = Inr (u, t) \<Longrightarrow> quiet s t"
  by (auto simp: create_webhook_tx_def bind_simps intro!: put_webhooks_quiet)

lemma delete_webhook_tx_quiet: "delete_webhook_tx tenant i now s = Inr (b, t) \<Longrightarrow> quiet s t"
proof -
  assume *: "delete_webhook_tx tenant i now s = Inr (b, t)"
  define gone where "gone = (\<lambda>w :: webhook. w_id w = i \<and> w_tenant_id w = tenant)"
  have t: "t = s\<lparr>webhooks := delete_rows gone (webhooks s),
      deliveries := delete_rows (\<lambda>d. dl_webhook_id d \<in> w_id ` set (filter gone (webhooks s))) (deliveries s)\<rparr>"
    using * by (simp add: delete_webhook_tx_def gone_def Let_def)
  have r: "references (dl_webhook_id d) w_id (delete_rows gone (webhooks s))"
    if "references (dl_webhook_id d) w_id (webhooks s)"
      "\<forall>w \<in> set (webhooks s). gone w \<longrightarrow> dl_webhook_id d \<noteq> w_id w" for d
    using that by (auto simp: references_def)
  have "pg_constraints t" if "pg_constraints s"
    using that unfolding pg_constraints_def t
    by (auto simp: list_all_iff unique_on_delete_rows intro!: r)
  then show ?thesis by (simp add: quiet_def t)
qed

section \<open>Administration\<close>

lemma admin_tx_quiet:
  "create_tenant_tx nt a now i s = Inr (x, n, t) \<Longrightarrow> quiet s t"
  "create_api_key_tx k a now i s = Inr (u, n, t) \<Longrightarrow> quiet s t"
  "revoke_api_key_tx tenant key a now i s = Inr (b, n, t) \<Longrightarrow> quiet s t"
  "retry_dead_delivery_tx d a now i s = Inr (b, n, t) \<Longrightarrow> quiet s t"
  by (auto simp: create_tenant_tx_def create_api_key_tx_def revoke_api_key_tx_def
      retry_dead_delivery_tx_def bind_simps Let_def split: if_splits
      intro: quiets quiet_trans dest!: put_tenants_quiet)

lemma activate_certificate_tx_quiet:
  "activate_certificate_tx c a now i s = Inr (u, n, t) \<Longrightarrow> quiet s t"
  by (auto simp: activate_certificate_tx_def bind_simps)
    (meson put_quiet(1) insert_quiet(3) quiet_trans)

lemma add_range_tx_guarantee:
  assumes t: "add_range_tx r a now i s = Inr (u, n, t)" and r: "range_ok r"
  shows "pg_guarantee s t"
proof -
  from t obtain s1 where 1: "put_ranges (ranges s @ [r]) s = Inr s1" and 2: "insert_audit now i a s1 = Inr t"
    by (auto simp: add_range_tx_def bind_simps split: if_splits)
  have "pg_guarantee s s1"
    unfolding pg_guarantee_def
  proof
    assume inv: "pg_inv s"
    have s1: "s1 = s\<lparr>ranges := ranges s @ [r]\<rparr>" "unique_on r_id (ranges s @ [r])"
      using 1 by (auto simp: put_Inr)
    have "d_numbering_range_id d \<noteq> Some (r_id r)" if "d \<in> set (documents s)" for d
      using that inv s1(2)
      by (auto simp: pg_inv_def pg_constraints_def list_all_iff document_refs_def references_def
          dest!: bspec[of _ _ d])
    then have "numbers_of (r_id r) (documents s) = []"
      by (auto simp: numbers_of_def filter_empty_conv)
    with inv r have "numbering_inv s1"
      by (auto simp: pg_inv_def numbering_inv_def s1(1) gapless_def)
    moreover have "pg_constraints s1"
      using 1 by (rule put_ranges_constraints) (use inv in \<open>auto simp: pg_inv_def\<close>)
    ultimately show "pg_inv s1 \<and> evolves (documents s) (documents s1)"
      by (simp add: pg_inv_def s1(1))
  qed
  with 2 show ?thesis by (meson quiets quiet_guarantee store.trans)
qed

lemma retry_dead_job_tx_guarantee:
  assumes t: "retry_dead_job_tx job a now i s = Inr (b, n, t)"
  shows "pg_guarantee s t"
proof (cases "pg_inv s \<and> b")
  case True
  then have "b" by simp
  with t obtain j d where
    j: "find_row (\<lambda>j. jr_id j = job \<and> jr_status j = Dead) (jobs s) = Some j" and
    d: "find_row (\<lambda>d. d_id d = jr_document_id j) (documents s) = Some d"
    by (auto simp: retry_dead_job_tx_def split: option.splits)
  from t obtain s1 s2 where
    1: "(if jr_kind j = Transmit \<and> d_status d = ContingencyPending
         then map_err db_error (put_documents
           (update_rows (\<lambda>x. d_id x = d_id d) (\<lambda>x. x\<lparr>d_status := Pending\<rparr>) (documents s)) s)
         else Inr s) = Inr s1" and
    2: "update_jobs now (\<lambda>x. jr_id x = job) (\<lambda>x. (job_requeued now x)\<lparr>jr_attempts := 0\<rparr>) s1 = Inr s2" and
    3: "insert_audit now i a s2 = Inr t"
    unfolding retry_dead_job_tx_def j d option.case bind_simps sum.inject prod.inject by blast
  have u: "unique_on d_id (documents s)"
    using True by (simp add: pg_inv_def pg_constraints_def documents_ok_def)
  have only: "d_status x = d_status d" if "x \<in> set (documents s)" "d_id x = d_id d" for x
    using find_row_SomeD[OF d] that unique_onD[OF u] by metis
  have "pg_guarantee s s1"
    using 1 only by (auto simp: bind_simps store.refl split: if_splits
        intro!: put_documents_update_guarantee)
      (auto simp: document_follows_def document_key_def can_transition_iff intro!: status_path_step)
  with 2 3 show ?thesis by (meson quiets quiet_guarantee store.trans)
next
  case False
  have "t = s" if "\<not> b"
    using t that by (auto simp: retry_dead_job_tx_def bind_simps split: option.splits if_splits)
  with False show ?thesis by (auto simp: pg_guarantee_def)
qed

section \<open>The store keeps the laws of the ports\<close>

lemma find_idempotency_within: "within (obeys pg_guarantee) pg_guarantee (find_idempotency tenant key)"
  unfolding find_idempotency_def
  by (intro store.bind store.read) (auto intro: store.return store.bind store.lift split: option.split)

lemma pg_issue_within: "within (obeys pg_guarantee) pg_guarantee (pg_issue_outbound dn d job)"
  unfolding pg_issue_outbound_def
  by (intro store.bind)
    (auto intro!: store.bind store.return store.lift find_idempotency_within store.transaction
      issue_tx_guarantee split: option.split issue_step.split)

interpretation pg_document_port: document_port "obeys pg_guarantee" pg_guarantee "pg_documents dn" for dn
proof unfold_locales
  show "within (obeys pg_guarantee) pg_guarantee (issue_outbound (pg_documents dn) d j)" for d j
    by (simp add: pg_documents_def pg_issue_within)
  show "within (obeys pg_guarantee) pg_guarantee (insert_inbound (pg_documents dn) ni)" for ni
    by (auto simp: pg_documents_def pg_insert_inbound_def intro: store.transaction inbound_tx_guarantee)
  show "within (obeys pg_guarantee) pg_guarantee (store_artifacts (pg_documents dn) i c x y)" for i c x y
    by (auto simp: pg_documents_def pg_store_artifacts_def intro: store.transaction artifacts_tx_guarantee)
  show "within (obeys pg_guarantee) pg_guarantee (record_event (pg_documents dn) e)" for e
    by (auto simp: pg_documents_def pg_record_event_def bind_simps
        intro!: store.transaction quiet_guarantee[OF insert_quiet(2)])
  show "within (obeys pg_guarantee) pg_guarantee (apply_transition (pg_documents dn) tr)" for tr
    by (auto simp: pg_documents_def pg_apply_transition_def
        intro: store.transaction_ids transition_tx_guarantee)
  show "d_id d = i" if "find_document (pg_documents dn) i w = (Inr (Some d), v)" for i w d v
    using that unfolding pg_documents_def pg_find_document_def document_repository.simps
    by (cases rule: query_cases) (auto dest!: find_row_SomeD sym[of "Some _"])
qed (simp_all add: pg_documents_def pg_find_document_def pg_find_tenant_document_def
    pg_find_numbering_range_def pg_find_events_def store.read)

interpretation pg_job_port: job_port "obeys pg_guarantee" pg_guarantee "pg_jobs locked" for locked
proof unfold_locales
  show "within (obeys pg_guarantee) pg_guarantee (claim (pg_jobs locked) worker limit lease)" for worker limit lease
    by (auto simp: pg_jobs_def pg_claim_def
        intro!: store.bind store.transaction intro: quiet_guarantee job_tx_quiet)
  show "within (obeys pg_guarantee) pg_guarantee (requeue_contingency (pg_jobs locked) limit n)" for limit n
    by (auto simp: pg_jobs_def pg_requeue_contingency_def
        intro: store.transaction_ids requeue_tx_guarantee)
qed (auto simp: pg_jobs_def pg_complete_def pg_retry_def pg_release_def pg_bury_def
    pg_queue_depth_def intro: store.read store.transaction quiet_guarantee job_tx_quiet)

interpretation pg_webhook_port: webhook_port "obeys pg_guarantee" pg_guarantee "pg_webhooks locked" for locked
  by unfold_locales
    (auto simp: pg_webhooks_def pg_create_webhook_def pg_list_webhooks_def pg_delete_webhook_def
      pg_claim_deliveries_def pg_complete_delivery_def pg_retry_delivery_def pg_bury_delivery_def
      intro: store.read store.transaction quiet_guarantee delivery_tx_quiet create_webhook_tx_quiet
        delete_webhook_tx_quiet)

lemma read_tx_same:
  "list_dead_jobs_tx limit now s = Inr (js, t) \<Longrightarrow> t = s"
  "list_dead_deliveries_tx limit now s = Inr (ds, t) \<Longrightarrow> t = s"
  by (auto simp: list_dead_jobs_tx_def list_dead_deliveries_tx_def bind_simps)

interpretation pg_admin_port: admin_port "obeys pg_guarantee" pg_guarantee pg_admin range_ok
proof unfold_locales
  show "within (obeys pg_guarantee) pg_guarantee (list_dead_jobs pg_admin limit)" for limit
    by (auto simp: pg_admin_def pg_list_dead_jobs_def store.refl intro!: store.transaction
        dest!: read_tx_same)
  show "within (obeys pg_guarantee) pg_guarantee (list_dead_deliveries pg_admin limit)" for limit
    by (auto simp: pg_admin_def pg_list_dead_deliveries_def store.refl intro!: store.transaction
        dest!: read_tx_same)
qed (auto simp: pg_admin_def pg_create_tenant_def pg_find_tenant_def pg_create_api_key_def
    pg_list_api_keys_def pg_revoke_api_key_def pg_activate_certificate_def
    pg_add_numbering_range_def pg_retry_dead_job_def pg_retry_dead_delivery_def
    intro: store.read store.transaction_ids quiet_guarantee admin_tx_quiet
      activate_certificate_tx_quiet add_range_tx_guarantee retry_dead_job_tx_guarantee)

end
