(* ===== verification/Ubl_Payload.thy ===== *)
theory Ubl_Payload
  imports Ports
begin

text \<open>\<open>ubl-engine/src/payload.rs\<close>: the bodies from which the XML documents are generated.\<close>

record line_payload =
  lp_description :: string
  lp_quantity :: f64
  lp_unit_price :: f64
  lp_tax_percent :: f64
  lp_unit_code :: "string option"

record billing_reference_payload =
  bp_number :: string
  bp_cufe :: string
  bp_issue_date :: string

record discrepancy_payload =
  dp_code :: string
  dp_description :: string

record invoice_payload =
  iv_prefix :: string
  iv_number :: i32
  iv_issue_date :: string
  iv_issue_time :: string
  iv_company_nit :: string
  iv_company_name :: string
  iv_customer_id_type :: string
  iv_customer_id :: string
  iv_customer_name :: string
  iv_customer_email :: string
  iv_net_amount :: f64
  iv_tax_amount :: f64
  iv_total_amount :: f64
  iv_environment :: string
  iv_technical_key :: "string option"
  iv_document_type :: string
  iv_test_set_id :: "string option"
  iv_lines :: "line_payload list option"
  iv_billing_reference :: "billing_reference_payload option"
  iv_discrepancy :: "discrepancy_payload option"
  iv_software_pin :: "string option"

record payroll_payload =
  pr_prefix :: string
  pr_number :: i32
  pr_issue_date :: string
  pr_issue_time :: string
  pr_employer_nit :: string
  pr_employer_name :: string
  pr_employee_id_type :: string
  pr_employee_id :: string
  pr_employee_name :: string
  pr_devengado :: f64
  pr_deducido :: f64
  pr_total :: f64
  pr_software_pin :: string
  pr_environment :: string

record support_document_payload =
  sd_prefix :: string
  sd_number :: i32
  sd_issue_date :: string
  sd_issue_time :: string
  sd_seller_nit :: string
  sd_seller_name :: string
  sd_buyer_nit :: string
  sd_buyer_name :: string
  sd_net_amount :: f64
  sd_tax_amount :: f64
  sd_total_amount :: f64
  sd_software_pin :: string
  sd_environment :: string
  sd_lines :: "line_payload list option"

end
