(* ===== verification/Processing.thy ===== *)
theory Processing
  imports Port_Laws Ubl_Payload
begin

text \<open>
  \<open>application/src/processing.rs\<close>: the processing of the jobs of the queue. The processor runs over
  the traits of \<open>Ports\<close>; its breakers are the field \<open>circuit\<close> of the world. Log messages leave no
  trace in the model.

  \<open>engine\<close> collects what the processor calls outside this file: the deserialisation \<open>serde\<close> derives
  for the payloads, the generators of \<open>ubl-engine\<close>, the ZIP archive and the local date text. Their
  errors are the error texts.
\<close>

record engine =
  decode_invoice :: "json_object \<Rightarrow> string + invoice_payload"
  decode_payroll :: "json_object \<Rightarrow> string + payroll_payload"
  decode_support_document :: "json_object \<Rightarrow> string + support_document_payload"
  generate_invoice_xml :: "invoice_payload \<Rightarrow> string \<Rightarrow> string + string \<times> string"
  generate_payroll_xml :: "payroll_payload \<Rightarrow> string + string \<times> string"
  generate_support_document_xml :: "support_document_payload \<Rightarrow> string + string \<times> string"
  generate_attached_document_xml ::
    "invoice_payload \<Rightarrow> string \<Rightarrow> string \<times> string \<Rightarrow> string \<Rightarrow> string \<Rightarrow> string \<Rightarrow> string + string"
  compress_xml_to_zip :: "string \<Rightarrow> string \<Rightarrow> string \<Rightarrow> i32 \<Rightarrow> string + string"
  colombia_date_time :: "instant \<Rightarrow> string \<times> string"

record processor_config =
  transmit_max_attempts :: i32
  poll_max_attempts :: i32
  poll_initial_delay :: nat
  backoff_base :: nat
  backoff_max :: nat

record 'w processor =
  p_documents :: "'w document_repository"
  p_jobs :: "'w job_repository"
  p_signer :: "'w crypto_signer"
  p_soap :: "'w dian_soap_client"
  p_engine :: engine
  p_config :: processor_config

definition default_config :: processor_config where
  "default_config =
     \<lparr>transmit_max_attempts = 5, poll_max_attempts = 30, poll_initial_delay = 10 * 1000000000,
      backoff_base = 2 * 1000000000, backoff_max = 600 * 1000000000\<rparr>"

definition accepted_codes :: "string list" where "accepted_codes = [''00'', ''1'']"
definition rejected_code :: string where "rejected_code = ''99''"

record artifacts =
  ar_signed_xml :: string
  ar_cufe :: string
  ar_issuer_nit :: string

section \<open>Helpers\<close>

definition is_habilitacion :: "document \<Rightarrow> bool" where
  "is_habilitacion d \<longleftrightarrow> obj_str ''environment'' (d_payload d) = Some ''2''"

definition test_set_id :: "document \<Rightarrow> string option" where
  "test_set_id d = obj_str ''test_set_id'' (d_payload d)"

definition response_event :: "uuid \<Rightarrow> instant \<Rightarrow> uuid \<Rightarrow> event_status \<Rightarrow> dian_response \<Rightarrow> dian_event" where
  "response_event new_id now document status response =
     (dian_event_new new_id now document status (status_code response) (message response))
       \<lparr>e_soap_trace_id := soap_trace_id response, e_xml_response := xml_response response\<rparr>"

definition payload_with_number :: "(json_object \<Rightarrow> string + 'p) \<Rightarrow> document \<Rightarrow> string + 'p" where
  "payload_with_number from_value d =
     map_err (\<lambda>e. ''Invalid '' @ document_type_as_str (d_document_type d) @ '' payload JSON: '' @ e)
       (from_value (obj_insert ''number'' (J_int (d_document_number d))
          (obj_insert ''prefix'' (J_str (d_prefix d)) (d_payload d))))"

text \<open>\<open>chrono::Duration::from_std\<close>: at most \<open>i64::MAX\<close> milliseconds.\<close>

definition from_std :: "nat \<Rightarrow> int option" where
  "from_std d = (if d \<le> (2 ^ 63 - 1) * millisecond then Some (int d) else None)"

definition from_std_or :: "int \<Rightarrow> nat \<Rightarrow> int" where
  "from_std_or fallback d = (case from_std d of None \<Rightarrow> fallback | Some x \<Rightarrow> x)"

definition retry_delay :: "processor_config \<Rightarrow> i32 \<Rightarrow> 'db world \<Rightarrow> int \<times> 'db world" where
  "retry_delay c attempt w =
     (case draw w of (e, v) \<Rightarrow>
        (from_std_or 60000000000 (backoff_with_jitter e attempt (backoff_base c) (backoff_max c)), v))"

text \<open>The breaker of an environment, as operations on the world.\<close>

definition breaker_can_execute :: "bool \<Rightarrow> 'db world \<Rightarrow> bool \<times> 'db world" where
  "breaker_can_execute is_hab w =
     (case can_execute (clock w) (for_environment is_hab (circuit w)) of
        (admitted, b) \<Rightarrow> (admitted, w\<lparr>circuit := update_environment is_hab (\<lambda>_. b) (circuit w)\<rparr>))"

definition breaker_success :: "bool \<Rightarrow> 'db world \<Rightarrow> 'db world" where
  "breaker_success is_hab w = w\<lparr>circuit := update_environment is_hab record_success (circuit w)\<rparr>"

definition breaker_failure :: "bool \<Rightarrow> 'db world \<Rightarrow> 'db world" where
  "breaker_failure is_hab w =
     w\<lparr>circuit := update_environment is_hab (record_failure (clock w)) (circuit w)\<rparr>"

definition cooldown_end :: "bool \<Rightarrow> 'db world \<Rightarrow> instant" where
  "cooldown_end is_hab w = clock w + from_std_or 0 (cb_cooldown (for_environment is_hab (circuit w)))"

text \<open>An event with a fresh identifier at the current time.\<close>

definition with_new_event ::
  "(uuid \<Rightarrow> instant \<Rightarrow> dian_event) \<Rightarrow> (dian_event \<Rightarrow> 'db world \<Rightarrow> 'r \<times> 'db world) \<Rightarrow> 'db world \<Rightarrow> 'r \<times> 'db world" where
  "with_new_event build k w = (case new_uuid w of (i, v) \<Rightarrow> k (build i (clock w)) v)"

section \<open>Closing a job with a transition\<close>

definition document_not_found :: string where "document_not_found = ''document not found''"

definition transition :: "'db world processor \<Rightarrow> job \<Rightarrow> transition \<Rightarrow> ('db world, unit) io" where
  "transition p j t =
     io_bind (apply_transition (p_documents p) t) (\<lambda>applied.
     if \<not> applied then complete (p_jobs p) (job_id j) else io_return ())"

definition fail :: "'db world processor \<Rightarrow> job \<Rightarrow> document \<Rightarrow> string \<Rightarrow> ('db world, unit) io" where
  "fail p j d reason =
     with_new_event (\<lambda>i now. dian_event_new i now (d_id d) E_Error ''PROCESSING_FAILED'' reason) (\<lambda>e.
     transition p j (with_job (Complete (job_id j)) (with_event e
       (transition_new (d_id d) ProcessingFailed))))"

definition transmission_failed ::
  "'db world processor \<Rightarrow> job \<Rightarrow> document \<Rightarrow> domain_error \<Rightarrow> ('db world, unit) io" where
  "transmission_failed p j d error w =
     (let failure = domain_error_display error
      in with_new_event (\<lambda>i now. dian_event_new i now (d_id d) E_Error ''HTTP_ERROR'' failure) (\<lambda>e.
           if is_last_attempt j then
             transition p j (with_job (Bury (job_id j) failure) (with_event e
               (transition_new (d_id d) ContingencyPending)))
           else
             io_bind (record_event (p_documents p) e) (\<lambda>_ v.
               case retry_delay (p_config p) (job_attempts j) v of
                 (delay, u) \<Rightarrow> retry (p_jobs p) (job_id j) (clock u + delay) failure u))
         (breaker_failure (is_habilitacion d) w))"

section \<open>The signed XML\<close>

definition technical_key ::
  "'db world processor \<Rightarrow> document \<Rightarrow> invoice_payload \<Rightarrow> 'db world \<Rightarrow> (string + string) \<times> 'db world" where
  "technical_key p d payload =
     (case d_numbering_range_id d of
        Some range_id \<Rightarrow>
          io_bind (io_map_err (\<lambda>e. ''Could not load numbering range: '' @ domain_error_display e)
                     (find_numbering_range (p_documents p) range_id)) (\<lambda>range.
          io_lift (ok_or (''Numbering range '' @ uuid_string range_id @ '' not found'')
                     (map_option r_technical_key range)))
      | None \<Rightarrow>
          io_lift (ok_or ''Document has no numbering range nor legacy technical_key''
                     (iv_technical_key payload)))"

definition generate ::
  "'db world processor \<Rightarrow> document \<Rightarrow> 'db world \<Rightarrow> (string + string \<times> string) \<times> 'db world" where
  "generate p d =
     (case d_document_type d of
        Invoice \<Rightarrow>
          io_bind (io_lift (payload_with_number (decode_invoice (p_engine p)) d)) (\<lambda>payload.
          io_bind (technical_key p d payload) (\<lambda>key.
          io_lift (map_err (\<lambda>e. ''Invoice generation failed: '' @ e)
            (generate_invoice_xml (p_engine p) payload key))))
      | Payroll \<Rightarrow>
          io_lift (bind_ok (payload_with_number (decode_payroll (p_engine p)) d) (\<lambda>payload.
            map_err (\<lambda>e. ''Payroll generation failed: '' @ e) (generate_payroll_xml (p_engine p) payload)))
      | SupportDocument \<Rightarrow>
          io_lift (bind_ok (payload_with_number (decode_support_document (p_engine p)) d) (\<lambda>payload.
            map_err (\<lambda>e. ''Support document generation failed: '' @ e)
              (generate_support_document_xml (p_engine p) payload)))
      | _ \<Rightarrow>
          io_lift (bind_ok (payload_with_number (decode_invoice (p_engine p)) d) (\<lambda>payload.
            map_err (\<lambda>e. ''Note generation failed: '' @ e)
              (generate_invoice_xml (p_engine p) payload []))))"

definition issuer_nit :: "'db world processor \<Rightarrow> document \<Rightarrow> string + string" where
  "issuer_nit p d =
     (case d_document_type d of
        Payroll \<Rightarrow> bind_ok (payload_with_number (decode_payroll (p_engine p)) d) (\<lambda>x. Inr (pr_employer_nit x))
      | SupportDocument \<Rightarrow>
          bind_ok (payload_with_number (decode_support_document (p_engine p)) d) (\<lambda>x. Inr (sd_buyer_nit x))
      | _ \<Rightarrow> bind_ok (payload_with_number (decode_invoice (p_engine p)) d) (\<lambda>x. Inr (iv_company_nit x)))"

definition stored_xml :: "document \<Rightarrow> string option" where
  "stored_xml d = (if d_cufe_cude d \<noteq> [] then d_signed_xml d else None)"

definition artifacts_of ::
  "'db world processor \<Rightarrow> document \<Rightarrow> 'db world \<Rightarrow> (string + artifacts) \<times> 'db world" where
  "artifacts_of p d =
     io_bind (io_lift (issuer_nit p d)) (\<lambda>nit.
     case stored_xml d of
       Some xml \<Rightarrow> io_return \<lparr>ar_signed_xml = xml, ar_cufe = d_cufe_cude d, ar_issuer_nit = nit\<rparr>
     | None \<Rightarrow>
         io_bind (generate p d) (\<lambda>(unsigned_xml, cufe).
         io_bind (io_map_err (\<lambda>e. ''Cryptographic signature failed: '' @ domain_error_display e)
           (sign_for_tenant (p_signer p) (d_tenant_id d) unsigned_xml)) (\<lambda>xml.
         io_bind (io_map_err (\<lambda>e. ''Could not store signed XML: '' @ domain_error_display e)
           (store_artifacts (p_documents p) (d_id d) cufe unsigned_xml xml)) (\<lambda>_.
         io_return \<lparr>ar_signed_xml = xml, ar_cufe = cufe, ar_issuer_nit = nit\<rparr>))))"

definition attached_document ::
  "'db world processor \<Rightarrow> document \<Rightarrow> artifacts \<Rightarrow> string \<Rightarrow> ('db world, unit) io" where
  "attached_document p d art response_xml =
     io_match
       (io_bind (io_lift (payload_with_number (decode_invoice (p_engine p)) d)) (\<lambda>payload w.
          case new_uuid w of (i, v) \<Rightarrow>
            io_bind (io_lift (generate_attached_document_xml (p_engine p) payload (''ATT-'' @ uuid_string i)
                       (colombia_date_time (p_engine p) (clock w)) (ar_cufe art) (ar_signed_xml art)
                       response_xml)) (\<lambda>xml.
            io_map_err domain_error_display (sign_for_tenant (p_signer p) (d_tenant_id d) xml)) v))
       (\<lambda>_. io_return ()) (\<lambda>_. io_return ())"

section \<open>Transmission\<close>

text \<open>Before sending again: the DIAN may already have accepted the document.\<close>

definition already_accepted ::
  "'db world processor \<Rightarrow> job \<Rightarrow> document \<Rightarrow> artifacts \<Rightarrow> ('db world, dian_response option) io" where
  "already_accepted p j d art =
     (if job_attempts j > 1 \<and> test_set_id d = None then
        io_match (get_status (p_soap p) (d_tenant_id d) (ar_cufe art) (is_habilitacion d))
          (\<lambda>_. io_return None)
          (\<lambda>status. io_return (if status_code status \<in> set accepted_codes then Some status else None))
      else io_return None)"

definition close_accepted ::
  "'db world processor \<Rightarrow> job \<Rightarrow> document \<Rightarrow> dian_response \<Rightarrow> ('db world, unit) io" where
  "close_accepted p j d response =
     with_new_event (\<lambda>i now. response_event i now (d_id d) E_Accepted response) (\<lambda>e.
     transition p j (with_job (Complete (job_id j)) (with_event e
       (transition_new (d_id d) DianAccepted))))"

definition close_rejected ::
  "'db world processor \<Rightarrow> job \<Rightarrow> document \<Rightarrow> dian_response \<Rightarrow> ('db world, unit) io" where
  "close_rejected p j d response =
     with_new_event (\<lambda>i now. response_event i now (d_id d) E_Rejected response) (\<lambda>e.
     transition p j (with_job (Complete (job_id j)) (with_event e
       (transition_new (d_id d) DianRejected))))"

definition sent_async_message :: string where
  "sent_async_message = ''Enviado asincronamente para habilitacion''"

definition send_test_set ::
  "'db world processor \<Rightarrow> job \<Rightarrow> document \<Rightarrow> string \<Rightarrow> string \<Rightarrow> ('db world, unit) io" where
  "send_test_set p j d archive set_id =
     io_match (send_test_set_async (p_soap p) (d_tenant_id d) archive set_id (is_habilitacion d))
       (\<lambda>error. transmission_failed p j d error)
       (\<lambda>key w.
         with_new_event (\<lambda>i now.
           (dian_event_new i now (d_id d) E_Sent ''SENT_ASYNC'' sent_async_message)
             \<lparr>e_soap_trace_id := Some key\<rparr>) (\<lambda>e v.
         case new_uuid v of (i, u) \<Rightarrow>
           transition p j (with_follow_up (poll_status_job i (d_id d) key (poll_max_attempts (p_config p))
               (clock v + from_std_or 0 (poll_initial_delay (p_config p))))
             (with_job (Complete (job_id j)) (with_event e (transition_new (d_id d) SentDian)))) u)
         (breaker_success (is_habilitacion d) w))"

definition send_bill ::
  "'db world processor \<Rightarrow> job \<Rightarrow> document \<Rightarrow> artifacts \<Rightarrow> string \<Rightarrow> ('db world, unit) io" where
  "send_bill p j d art archive =
     io_match (send_bill_sync (p_soap p) (d_tenant_id d) archive (is_habilitacion d))
       (\<lambda>error. transmission_failed p j d error)
       (\<lambda>response w.
         let accepted = status_code response \<in> set accepted_codes
         in io_bind ((if accepted then close_accepted else close_rejected) p j d response) (\<lambda>_.
              if accepted \<and> d_document_type d = Invoice
              then attached_document p d art (case xml_response response of None \<Rightarrow> [] | Some x \<Rightarrow> x)
              else io_return ())
            (breaker_success (is_habilitacion d) w))"

definition send ::
  "'db world processor \<Rightarrow> job \<Rightarrow> document \<Rightarrow> artifacts \<Rightarrow> ('db world, unit) io" where
  "send p j d art =
     (case compress_xml_to_zip (p_engine p) (ar_signed_xml art) (ar_issuer_nit art) (d_prefix d)
             (d_document_number d) of
        Inl e \<Rightarrow> fail p j d (''ZIP compression failed: '' @ e)
      | Inr archive \<Rightarrow>
          (case test_set_id d of
             Some set_id \<Rightarrow> send_test_set p j d archive set_id
           | None \<Rightarrow> send_bill p j d art archive))"

definition transmit_admitted :: "'db world processor \<Rightarrow> job \<Rightarrow> document \<Rightarrow> ('db world, unit) io" where
  "transmit_admitted p j d =
     io_match (artifacts_of p d)
       (\<lambda>reason. fail p j d reason)
       (\<lambda>art. io_bind (already_accepted p j d art) (\<lambda>status w.
          case status of
            Some response \<Rightarrow> close_accepted p j d response (breaker_success (is_habilitacion d) w)
          | None \<Rightarrow> send p j d art w))"

definition transmit :: "'db world processor \<Rightarrow> job \<Rightarrow> ('db world, unit) io" where
  "transmit p j =
     io_bind (find_document (p_documents p) (job_document_id j)) (\<lambda>found.
     case found of
       None \<Rightarrow> bury (p_jobs p) (job_id j) document_not_found
     | Some d \<Rightarrow>
         if d_status d \<noteq> Pending then complete (p_jobs p) (job_id j)
         else (\<lambda>w.
           case breaker_can_execute (is_habilitacion d) w of (admitted, v) \<Rightarrow>
             if \<not> admitted then release (p_jobs p) (job_id j) (cooldown_end (is_habilitacion d) v) v
             else transmit_admitted p j d v))"

section \<open>Polling\<close>

definition no_zip_key :: string where "no_zip_key = ''poll job without zip_key''"

definition still_waiting :: "dian_response \<Rightarrow> string" where
  "still_waiting r = ''DIAN reports status '' @ status_code r @ '' ('' @ message r @ '')''"

definition polling_exhausted :: "job \<Rightarrow> string \<Rightarrow> string" where
  "polling_exhausted j outcome =
     ''Status polling exhausted after '' @ int_dec (job_attempts j) @ '' attempts: '' @ outcome"

definition poll_again :: "'db world processor \<Rightarrow> job \<Rightarrow> document \<Rightarrow> string \<Rightarrow> ('db world, unit) io" where
  "poll_again p j d outcome =
     (if is_last_attempt j then
        (let reason = polling_exhausted j outcome
         in with_new_event (\<lambda>i now. dian_event_new i now (d_id d) E_Error ''POLLING_EXHAUSTED'' reason) (\<lambda>e.
              io_bind (record_event (p_documents p) e) (\<lambda>_.
              bury (p_jobs p) (job_id j) reason)))
      else
        (\<lambda>w. case retry_delay (p_config p) (job_attempts j) w of
               (delay, v) \<Rightarrow> retry (p_jobs p) (job_id j) (clock v + delay) outcome v))"

definition poll :: "'db world processor \<Rightarrow> job \<Rightarrow> ('db world, unit) io" where
  "poll p j =
     io_bind (find_document (p_documents p) (job_document_id j)) (\<lambda>found.
     case found of
       None \<Rightarrow> bury (p_jobs p) (job_id j) document_not_found
     | Some d \<Rightarrow>
         if d_status d \<noteq> SentDian then complete (p_jobs p) (job_id j)
         else case zip_key j of
           None \<Rightarrow> bury (p_jobs p) (job_id j) no_zip_key
         | Some key \<Rightarrow> (\<lambda>w.
             case breaker_can_execute (is_habilitacion d) w of (admitted, v) \<Rightarrow>
               if \<not> admitted then release (p_jobs p) (job_id j) (cooldown_end (is_habilitacion d) v) v
               else
                 io_match (get_status_zip (p_soap p) (d_tenant_id d) key (is_habilitacion d))
                   (\<lambda>error u. poll_again p j d (domain_error_display error)
                                (breaker_failure (is_habilitacion d) u))
                   (\<lambda>response u.
                     let u = breaker_success (is_habilitacion d) u
                     in if status_code response \<in> set accepted_codes then close_accepted p j d response u
                        else if status_code response = rejected_code then close_rejected p j d response u
                        else poll_again p j d (still_waiting response) u) v))"

definition process :: "'db world processor \<Rightarrow> job \<Rightarrow> ('db world, unit) io" where
  "process p j = (case job_kind_of j of Transmit \<Rightarrow> transmit p j | PollStatus \<Rightarrow> poll p j)"

definition processor_requeue_contingency :: "'db world processor \<Rightarrow> int \<Rightarrow> ('db world, nat) io" where
  "processor_requeue_contingency p limit =
     requeue_contingency (p_jobs p) limit (transmit_max_attempts (p_config p))"

section \<open>The processor stays within the guarantee of its ports\<close>

lemma breaker_can_execute_frame [simp]:
  "db (snd (breaker_can_execute h w)) = db w" "peers (snd (breaker_can_execute h w)) = peers w"
  "clock (snd (breaker_can_execute h w)) = clock w" "dian_log (snd (breaker_can_execute h w)) = dian_log w"
  "faults (snd (breaker_can_execute h w)) = faults w"
  by (simp_all add: breaker_can_execute_def split: prod.split)

lemma breaker_report_frame [simp]:
  "db (breaker_success h w) = db w" "peers (breaker_success h w) = peers w"
  "db (breaker_failure h w) = db w" "peers (breaker_failure h w) = peers w"
  by (simp_all add: breaker_success_def breaker_failure_def)

lemma retry_delay_frame [simp]:
  "db (snd (retry_delay c n w)) = db w" "peers (snd (retry_delay c n w)) = peers w"
  "clock (snd (retry_delay c n w)) = clock w"
proof -
  obtain e v where d: "draw w = (e, v)" by force
  show "db (snd (retry_delay c n w)) = db w" "peers (snd (retry_delay c n w)) = peers w"
    "clock (snd (retry_delay c n w)) = clock w"
    using draw_db[of w] draw_peers[of w] draw_fields(1)[of w] by (simp_all add: retry_delay_def d)
qed

text \<open>
  What the processing of a job \<open>j\<close> needs of the ports, first for the sending of a document. Closing a
  job is only asked for the transitions that \<open>suits\<close> admits, and completing it outright only after
  the document was found in another status than the job's (\<open>dismissal\<close>).
\<close>

fun job_subject :: "job_kind \<Rightarrow> document_status" where
  "job_subject Transmit = Pending"
| "job_subject PollStatus = SentDian"

definition suits :: "job \<Rightarrow> transition \<Rightarrow> bool" where
  "suits j t \<longleftrightarrow>
     tr_document_id t = job_document_id j \<and>
     (case tr_job t of
        None \<Rightarrow> False | Some (Complete i) \<Rightarrow> i = job_id j | Some (Bury i _) \<Rightarrow> i = job_id j) \<and>
     job_subject (job_kind_of j) \<in> set (allowed_predecessors (tr_to t)) \<and> tr_to t \<noteq> Pending \<and>
     (tr_to t = SentDian \<longrightarrow> (\<exists>n. tr_follow_up t = Some n \<and> n_kind n = PollStatus \<and>
        n_document_id n = tr_document_id t))"

locale job_sending = guarantee A G + signer_port A G "p_signer p" + dian_port A G "p_soap p"
  for A :: "('db \<Rightarrow> 'db) \<Rightarrow> bool" and G :: "'db \<Rightarrow> 'db \<Rightarrow> bool"
    and p :: "'db world processor" and j :: job +
  assumes note_within: "within A G (record_event (p_documents p) e)"
    and retry_within: "within A G (retry (p_jobs p) (job_id j) at msg)"
    and settle_within: "suits j t \<Longrightarrow> within A G (transition p j t)"
begin

lemma new_event_within: "(\<And>e. within A G (k e)) \<Longrightarrow> within A G (with_new_event build k)"
  unfolding with_new_event_def by (rule then_with) simp_all

lemma closing_within:
  assumes "d_id d = job_document_id j"
  shows "job_kind_of j = Transmit \<Longrightarrow> within A G (fail p j d reason)"
    and "within A G (close_accepted p j d r)"
    and "within A G (close_rejected p j d r)"
proof -
  have ok: "job_subject (job_kind_of j) \<in> {Pending, SentDian}" by (cases "job_kind_of j") simp_all
  show "within A G (close_accepted p j d r)" "within A G (close_rejected p j d r)"
    unfolding close_accepted_def close_rejected_def
    using assms ok by (auto intro!: new_event_within settle_within simp: suits_def)
  show "within A G (fail p j d reason)" if "job_kind_of j = Transmit"
    unfolding fail_def using assms that by (auto intro!: new_event_within settle_within simp: suits_def)
qed

lemma retry_after_within:
  "within A G (\<lambda>w. case retry_delay (p_config p) n w of
     (delay, v) \<Rightarrow> retry (p_jobs p) (job_id j) (clock v + delay) m v)"
proof (rule then_with[where k = "\<lambda>w delay v. retry (p_jobs p) (job_id j) (clock v + delay) m v"])
  show "within A G (\<lambda>v. retry (p_jobs p) (job_id j) (clock v + delay) m v)" for delay
    by (rule reading[where m = "\<lambda>at. retry (p_jobs p) (job_id j) at m"]) (rule retry_within)
qed simp_all

lemma transmission_failed_within:
  assumes "d_id d = job_document_id j" "job_kind_of j = Transmit"
  shows "within A G (transmission_failed p j d error)"
proof -
  let ?m = "domain_error_display error"
  have "within A G (with_new_event (\<lambda>i now. dian_event_new i now (d_id d) E_Error ''HTTP_ERROR'' ?m) (\<lambda>e.
      if is_last_attempt j then
        transition p j (with_job (Bury (job_id j) ?m) (with_event e
          (transition_new (d_id d) ContingencyPending)))
      else
        io_bind (record_event (p_documents p) e) (\<lambda>_ v.
          case retry_delay (p_config p) (job_attempts j) v of
            (delay, u) \<Rightarrow> retry (p_jobs p) (job_id j) (clock u + delay) ?m u)))"
    using assms
    by (auto intro!: new_event_within settle_within bind note_within retry_after_within simp: suits_def)
  then show ?thesis
    unfolding transmission_failed_def Let_def
    by (rule after[where f = "breaker_failure (is_habilitacion d)", rotated 2]) simp_all
qed

lemma attached_document_within: "within A G (attached_document p d art xml)"
proof -
  have "within A G (\<lambda>w. case new_uuid w of (i, v) \<Rightarrow> io_bind (io_lift (f i (clock w))) (\<lambda>xml.
      io_map_err domain_error_display (sign_for_tenant (p_signer p) (d_tenant_id d) xml)) v)" for f
    by (rule then_with[where k = "\<lambda>w i. io_bind (io_lift (f i (clock w))) (\<lambda>xml.
        io_map_err domain_error_display (sign_for_tenant (p_signer p) (d_tenant_id d) xml))"])
      (simp_all add: bind lift map_err sign_within)
  then show ?thesis
    unfolding attached_document_def by (intro match bind lift return)
qed

lemma send_bill_within:
  assumes "d_id d = job_document_id j" "job_kind_of j = Transmit"
  shows "within A G (send_bill p j d art archive)"
proof -
  have "within A G (\<lambda>w. io_bind ((if a then close_accepted else close_rejected) p j d r) (\<lambda>_.
      if b then attached_document p d art xml else io_return ()) (breaker_success h w))" for a b r xml h
    by (rule after) (simp_all add: bind closing_within assms attached_document_within return)
  then show ?thesis
    unfolding send_bill_def Let_def by (intro match bill_within transmission_failed_within assms)
qed

lemma send_test_set_within:
  assumes "d_id d = job_document_id j" "job_kind_of j = Transmit"
  shows "within A G (send_test_set p j d archive s)"
  unfolding send_test_set_def
proof (intro match test_set_within transmission_failed_within assms
    after[where f = "breaker_success (is_habilitacion d)"] new_event_within)
  fix key e
  let ?t = "\<lambda>i now. with_follow_up (poll_status_job i (d_id d) key (poll_max_attempts (p_config p))
      (now + from_std_or 0 (poll_initial_delay (p_config p))))
    (with_job (Complete (job_id j)) (with_event e (transition_new (d_id d) SentDian)))"
  show "within A G (\<lambda>v. case new_uuid v of (i, u) \<Rightarrow> transition p j (?t i (clock v)) u)"
  proof (rule then_with[where k = "\<lambda>v i. transition p j (?t i (clock v))"])
    show "within A G (transition p j (?t i now))" for i now
      using assms by (intro settle_within) (simp add: suits_def poll_status_job_def)
  qed simp_all
qed simp_all

lemma send_within:
  assumes "d_id d = job_document_id j" "job_kind_of j = Transmit"
  shows "within A G (send p j d art)"
  unfolding send_def
  by (simp add: closing_within assms send_bill_within send_test_set_within split: sum.split option.split)

end

text \<open>
  The whole processing also loads the document and its resolution, stores the signed XML, and buries
  and releases jobs.
\<close>

locale job_processing = job_sending A G p j
  for A :: "('db \<Rightarrow> 'db) \<Rightarrow> bool" and G :: "'db \<Rightarrow> 'db \<Rightarrow> bool"
    and p :: "'db world processor" and j :: job +
  assumes range_within: "within A G (find_numbering_range (p_documents p) i)"
    and artifacts_within: "within A G (store_artifacts (p_documents p) i c x y)"
    and bury_within: "within A G (bury (p_jobs p) (job_id j) msg)"
    and release_within: "within A G (release (p_jobs p) (job_id j) at)"
    and dismissal: "(\<And>d. d_id d = job_document_id j \<Longrightarrow> within A G (m d)) \<Longrightarrow>
      within A G (io_bind (find_document (p_documents p) (job_document_id j)) (\<lambda>found.
        case found of
          None \<Rightarrow> bury (p_jobs p) (job_id j) document_not_found
        | Some d \<Rightarrow>
            if d_status d \<noteq> job_subject (job_kind_of j) then complete (p_jobs p) (job_id j) else m d))"
begin

lemma artifacts_of_within: "within A G (artifacts_of p d)"
proof -
  have key: "within A G (technical_key p d payload)" for payload
    unfolding technical_key_def by (auto intro!: bind map_err range_within lift split: option.split)
  have "within A G (generate p d)"
    unfolding generate_def by (auto intro!: bind lift key split: document_type.split)
  then show ?thesis
    unfolding artifacts_of_def
    by (auto intro!: bind lift map_err return sign_within artifacts_within split: option.split)
qed

lemma transmit_admitted_within:
  assumes "d_id d = job_document_id j" "job_kind_of j = Transmit"
  shows "within A G (transmit_admitted p j d)"
proof -
  have already: "within A G (already_accepted p j d art)" for art
    unfolding already_accepted_def by (auto intro!: match return status_within)
  have "within A G (\<lambda>w. case status of
      Some response \<Rightarrow> close_accepted p j d response (breaker_success (is_habilitacion d) w)
    | None \<Rightarrow> send p j d art w)" for status art
  proof (cases status)
    case (Some r)
    have "within A G (\<lambda>w. close_accepted p j d r (breaker_success (is_habilitacion d) w))"
      by (rule after[where f = "breaker_success (is_habilitacion d)"]) (simp_all add: closing_within assms)
    with Some show ?thesis by simp
  qed (simp add: send_within assms)
  then show ?thesis
    unfolding transmit_admitted_def
    by (intro match artifacts_of_within closing_within bind already assms)
qed

text \<open>A breaker is asked, and the job released or worked on.\<close>

lemma admission_within:
  assumes "within A G m"
  shows "within A G (\<lambda>w. case breaker_can_execute h w of (admitted, v) \<Rightarrow>
    if \<not> admitted then release (p_jobs p) (job_id j) (cooldown_end h v) v else m v)"
proof (rule then_with[where k = "\<lambda>w admitted v.
    if \<not> admitted then release (p_jobs p) (job_id j) (cooldown_end h v) v else m v"])
  show "within A G (\<lambda>v. if \<not> admitted then release (p_jobs p) (job_id j) (cooldown_end h v) v else m v)"
    for admitted
    using assms reading[where m = "\<lambda>at. release (p_jobs p) (job_id j) at" and f = "cooldown_end h"]
    by (cases admitted) (simp_all add: release_within)
qed simp_all

lemma transmit_within: "job_kind_of j = Transmit \<Longrightarrow> within A G (transmit p j)"
  using dismissal[where m = "\<lambda>d w. case breaker_can_execute (is_habilitacion d) w of (admitted, v) \<Rightarrow>
      if \<not> admitted then release (p_jobs p) (job_id j) (cooldown_end (is_habilitacion d) v) v
      else transmit_admitted p j d v"]
  by (simp add: transmit_def admission_within transmit_admitted_within)

lemma poll_again_within: "within A G (poll_again p j d m)"
  unfolding poll_again_def Let_def
  by (auto intro!: new_event_within bind note_within bury_within retry_after_within)

lemma answer_within:
  assumes "d_id d = job_document_id j"
  shows "within A G (\<lambda>u. let u = breaker_success (is_habilitacion d) u
       in if status_code r \<in> set accepted_codes then close_accepted p j d r u
          else if status_code r = rejected_code then close_rejected p j d r u
          else poll_again p j d (still_waiting r) u)"
  unfolding Let_def
proof (rule after[where f = "breaker_success (is_habilitacion d)"])
  show "within A G (\<lambda>u. if status_code r \<in> set accepted_codes then close_accepted p j d r u
        else if status_code r = rejected_code then close_rejected p j d r u
        else poll_again p j d (still_waiting r) u)"
    by (cases "status_code r \<in> set accepted_codes"; cases "status_code r = rejected_code")
      (simp_all add: closing_within assms poll_again_within)
qed simp_all

lemma poll_within:
  assumes k: "job_kind_of j = PollStatus"
  shows "within A G (poll p j)"
proof -
  define ask where "ask = (\<lambda>d key. io_match (get_status_zip (p_soap p) (d_tenant_id d) key (is_habilitacion d))
      (\<lambda>error u. poll_again p j d (domain_error_display error) (breaker_failure (is_habilitacion d) u))
      (\<lambda>response u.
        let u = breaker_success (is_habilitacion d) u
        in if status_code response \<in> set accepted_codes then close_accepted p j d response u
           else if status_code response = rejected_code then close_rejected p j d response u
           else poll_again p j d (still_waiting response) u))"
  have error: "within A G (\<lambda>u. poll_again p j d m (breaker_failure (is_habilitacion d) u))" for d m
    by (rule after[where f = "breaker_failure (is_habilitacion d)"]) (simp_all add: poll_again_within)
  have "within A G (ask d key)" if "d_id d = job_document_id j" for d key
    unfolding ask_def by (intro match status_zip_within error answer_within that)
  then have *: "within A G (case zip_key j of
        None \<Rightarrow> bury (p_jobs p) (job_id j) no_zip_key
      | Some key \<Rightarrow> (\<lambda>w. case breaker_can_execute (is_habilitacion d) w of (admitted, v) \<Rightarrow>
          if \<not> admitted then release (p_jobs p) (job_id j) (cooldown_end (is_habilitacion d) v) v
          else ask d key v))" if "d_id d = job_document_id j" for d
    using that by (cases "zip_key j") (simp_all add: bury_within admission_within)
  have "within A G (io_bind (find_document (p_documents p) (job_document_id j)) (\<lambda>found.
        case found of
          None \<Rightarrow> bury (p_jobs p) (job_id j) document_not_found
        | Some d \<Rightarrow>
            if d_status d \<noteq> job_subject (job_kind_of j) then complete (p_jobs p) (job_id j)
            else case zip_key j of
              None \<Rightarrow> bury (p_jobs p) (job_id j) no_zip_key
            | Some key \<Rightarrow> (\<lambda>w. case breaker_can_execute (is_habilitacion d) w of (admitted, v) \<Rightarrow>
                if \<not> admitted then release (p_jobs p) (job_id j) (cooldown_end (is_habilitacion d) v) v
                else ask d key v)))"
    by (rule dismissal) (rule *)
  then show ?thesis unfolding poll_def k ask_def job_subject.simps .
qed

theorem process_within: "within A G (process p j)"
  by (simp add: process_def transmit_within poll_within split: job_kind.split)

end

text \<open>Any processor over lawful ports.\<close>

locale processor_ports =
  document_port A G "p_documents p" + job_port A G "p_jobs p" + signer_port A G "p_signer p" +
  dian_port A G "p_soap p"
  for A :: "('db \<Rightarrow> 'db) \<Rightarrow> bool" and G :: "'db \<Rightarrow> 'db \<Rightarrow> bool" and p :: "'db world processor"

sublocale processor_ports \<subseteq> processing: job_processing A G p j for j
proof
  show "within A G (transition p j t)" for t
    unfolding transition_def by (auto intro!: bind return transition_within complete_within)
next
  fix m :: "document \<Rightarrow> ('db world, unit) io"
  assume m: "\<And>d. d_id d = job_document_id j \<Longrightarrow> within A G (m d)"
  show "within A G (io_bind (find_document (p_documents p) (job_document_id j)) (\<lambda>found.
        case found of
          None \<Rightarrow> bury (p_jobs p) (job_id j) document_not_found
        | Some d \<Rightarrow>
            if d_status d \<noteq> job_subject (job_kind_of j) then complete (p_jobs p) (job_id j) else m d))"
    by (rule bind_result[OF find_document_within])
      (auto intro!: bury_within complete_within m dest: find_document_id split: option.split)
qed (simp_all add: find_range_within artifacts_within record_event_within bury_within retry_within
    release_within)

end
