(* ===== verification/Pg_Work.thy ===== *)
theory Pg_Work
  imports Pg_Invariants Processing
begin

text \<open>
  No document is lost: as long as a document waits for the DIAN, the queue holds a job for it that is
  not done (a dead one is listed for the administrator). \<open>work_inv\<close> states it of a database;
  \<open>work_step\<close> is the relation the processing of one job keeps.
\<close>

section \<open>The invariant\<close>

definition needs :: "document \<Rightarrow> job_kind \<Rightarrow> bool" where
  "needs d k \<longleftrightarrow> d_direction d = Outbound \<and> d_status d = job_subject k"

definition open_job :: "job_row \<Rightarrow> uuid \<Rightarrow> job_kind \<Rightarrow> bool" where
  "open_job r document k \<longleftrightarrow> jr_document_id r = document \<and> jr_kind r = k \<and> jr_status r \<noteq> Done"

definition work_inv :: "pg \<Rightarrow> bool" where
  "work_inv s \<longleftrightarrow>
     (\<forall>d \<in> set (documents s). \<forall>k. needs d k \<longrightarrow> (\<exists>r \<in> set (jobs s). open_job r (d_id d) k))"

text \<open>A claimed job and its row.\<close>

definition held :: "job \<Rightarrow> pg \<Rightarrow> bool" where
  "held j s \<longleftrightarrow> (\<exists>r \<in> set (jobs s). jr_id r = job_id j \<and> jr_document_id r = job_document_id j \<and>
     jr_kind r = job_kind_of j)"

definition work_step :: "job \<Rightarrow> pg \<Rightarrow> pg \<Rightarrow> bool" where
  "work_step j s t \<longleftrightarrow>
     (pg_inv s \<and> work_inv s \<and> held j s \<longrightarrow>
        pg_inv t \<and> work_inv t \<and> (\<forall>k. held k s \<longrightarrow> held k t))"

interpretation work: guarantee nobody "work_step j" for j
  by unfold_locales (auto simp: work_step_def nobody_def)

definition same_job :: "job_row \<Rightarrow> job_row \<Rightarrow> bool" where
  "same_job r q \<longleftrightarrow> jr_id q = jr_id r \<and> jr_document_id q = jr_document_id r \<and> jr_kind q = jr_kind r"

text \<open>Every row stays, and only rows of \<open>Q\<close> become done.\<close>

definition jobs_stay :: "(uuid \<Rightarrow> bool) \<Rightarrow> job_row list \<Rightarrow> job_row list \<Rightarrow> bool" where
  "jobs_stay Q js ks \<longleftrightarrow>
     (\<forall>r \<in> set js. \<exists>q \<in> set ks. same_job r q \<and>
        (jr_status r \<noteq> Done \<longrightarrow> \<not> Q (jr_id r) \<longrightarrow> jr_status q \<noteq> Done))"

lemma jobs_stay_refl [simp]: "jobs_stay Q js js"
  by (auto simp: jobs_stay_def same_job_def)

lemma jobs_stay_append: "jobs_stay Q js ks \<Longrightarrow> jobs_stay Q js (ks @ ns)"
  unfolding jobs_stay_def by fastforce

lemma jobs_stay_trans:
  assumes "jobs_stay Q js ks" "jobs_stay Q ks ls"
  shows "jobs_stay Q js ls"
  unfolding jobs_stay_def
proof
  fix r assume "r \<in> set js"
  with assms(1) obtain q where q: "q \<in> set ks" "same_job r q"
    "jr_status r \<noteq> Done \<longrightarrow> \<not> Q (jr_id r) \<longrightarrow> jr_status q \<noteq> Done"
    unfolding jobs_stay_def by blast
  with assms(2) obtain u where "u \<in> set ls" "same_job q u"
    "jr_status q \<noteq> Done \<longrightarrow> \<not> Q (jr_id q) \<longrightarrow> jr_status u \<noteq> Done"
    unfolding jobs_stay_def by blast
  with q show "\<exists>u \<in> set ls. same_job r u \<and> (jr_status r \<noteq> Done \<longrightarrow> \<not> Q (jr_id r) \<longrightarrow> jr_status u \<noteq> Done)"
    by (intro bexI[of _ u]) (auto simp: same_job_def)
qed

lemma jobs_stay_update:
  assumes "\<And>r. P r \<Longrightarrow> same_job r (f r) \<and> (jr_status r \<noteq> Done \<longrightarrow> \<not> Q (jr_id r) \<longrightarrow> jr_status (f r) \<noteq> Done)"
  shows "jobs_stay Q js (update_rows P f js)"
  unfolding jobs_stay_def
proof
  fix r assume "r \<in> set js"
  then have "(if P r then f r else r) \<in> set (update_rows P f js)"
    by (auto simp: in_update_rows)
  with assms[of r] show "\<exists>q \<in> set (update_rows P f js). same_job r q \<and>
      (jr_status r \<noteq> Done \<longrightarrow> \<not> Q (jr_id r) \<longrightarrow> jr_status q \<noteq> Done)"
    by (intro bexI[of _ "if P r then f r else r"]) (auto simp: same_job_def)
qed

lemma jobs_stay_held: "jobs_stay Q (jobs s) (jobs t) \<Longrightarrow> held j s \<Longrightarrow> held j t"
  unfolding jobs_stay_def held_def same_job_def by fastforce

text \<open>
  The invariant is kept when every document that needs a job afterwards needed it before, and no job
  it may have relied on was completed; or when it has a new one.
\<close>

lemma work_inv_step:
  assumes s: "work_inv s" and stay: "jobs_stay Q (jobs s) (jobs t)"
    and need: "\<And>e k. e \<in> set (documents t) \<Longrightarrow> needs e k \<Longrightarrow>
      (\<exists>d \<in> set (documents s). d_id d = d_id e \<and> needs d k \<and>
         (\<forall>r \<in> set (jobs s). open_job r (d_id d) k \<longrightarrow> \<not> Q (jr_id r))) \<or>
      (\<exists>r \<in> set (jobs t). open_job r (d_id e) k)"
  shows "work_inv t"
  unfolding work_inv_def
proof (intro ballI allI impI)
  fix e k assume e: "e \<in> set (documents t)" "needs e k"
  from need[OF e] show "\<exists>r \<in> set (jobs t). open_job r (d_id e) k"
  proof
    assume "\<exists>d \<in> set (documents s). d_id d = d_id e \<and> needs d k \<and>
         (\<forall>r \<in> set (jobs s). open_job r (d_id d) k \<longrightarrow> \<not> Q (jr_id r))"
    then obtain d where d: "d \<in> set (documents s)" "d_id d = d_id e" "needs d k"
      "\<forall>r \<in> set (jobs s). open_job r (d_id d) k \<longrightarrow> \<not> Q (jr_id r)" by blast
    with s obtain r where "r \<in> set (jobs s)" "open_job r (d_id d) k"
      unfolding work_inv_def by blast
    moreover with d have "\<not> Q (jr_id r)" by blast
    ultimately show ?thesis
      using stay d(2) unfolding jobs_stay_def open_job_def same_job_def by fastforce
  qed
qed

lemma work_inv_same_documents:
  "work_inv s \<Longrightarrow> jobs_stay (\<lambda>_. False) (jobs s) (jobs t) \<Longrightarrow> documents t = documents s \<Longrightarrow> work_inv t"
  by (erule work_inv_step[where Q = "\<lambda>_. False"]) auto

text \<open>Steps that keep the documents and complete no job.\<close>

lemma work_step_quiet:
  assumes "pg_guarantee s t" "documents t = documents s" "jobs_stay (\<lambda>_. False) (jobs s) (jobs t)"
  shows "work_step j s t"
  unfolding work_step_def
proof (intro impI conjI allI)
  assume *: "pg_inv s \<and> work_inv s \<and> held j s"
  show "pg_inv t" using assms(1) * by (simp add: pg_guarantee_def)
  show "work_inv t" using assms * by (blast intro: work_inv_same_documents)
  show "held k t" if "held k s" for k using assms(3) that by (rule jobs_stay_held)
qed

section \<open>Transactions on jobs\<close>

lemma update_jobs_stay:
  assumes "update_jobs now P f s = Inr t"
    and "\<And>r. P r \<Longrightarrow> same_job r (f r) \<and> (jr_status r \<noteq> Done \<longrightarrow> \<not> Q (jr_id r) \<longrightarrow> jr_status (f r) \<noteq> Done)"
  shows "jobs_stay Q (jobs s) (jobs t)" "documents t = documents s"
proof -
  show "documents t = documents s" using assms(1) by (auto simp: update_jobs_def put_Inr)
  have "jobs t = update_rows P (\<lambda>j. (f j)\<lparr>jr_updated_at := now\<rparr>) (jobs s)"
    using assms(1) by (auto simp: update_jobs_def put_Inr)
  moreover have "jobs_stay Q (jobs s) (update_rows P (\<lambda>j. (f j)\<lparr>jr_updated_at := now\<rparr>) (jobs s))"
    by (rule jobs_stay_update) (use assms(2) in \<open>auto simp: same_job_def\<close>)
  ultimately show "jobs_stay Q (jobs s) (jobs t)" by simp
qed

lemma update_job_work_step:
  assumes t: "update_job_tx i f now s = Inr (u, t)"
    and f: "\<And>r. same_job r (f r) \<and> jr_status (f r) \<noteq> Done"
  shows "work_step j s t"
proof -
  have u: "update_jobs now (\<lambda>j. jr_id j = i) f s = Inr t"
    using t by (auto simp: update_job_tx_def bind_simps)
  show ?thesis
    by (rule work_step_quiet)
      (use update_jobs_stay[OF u, of "\<lambda>_. False"] f job_tx_quiet(3)[OF t] in \<open>auto intro: quiet_guarantee\<close>)
qed

text \<open>Completing a job whose document does not need it.\<close>

lemma complete_work_step:
  assumes t: "update_job_tx (job_id j) job_done now s = Inr (u, t)"
    and free: "\<And>d. d \<in> set (documents s) \<Longrightarrow> d_id d = job_document_id j \<Longrightarrow> \<not> needs d (job_kind_of j)"
  shows "work_step j s t"
  unfolding work_step_def
proof (intro impI conjI allI)
  have u: "update_jobs now (\<lambda>r. jr_id r = job_id j) job_done s = Inr t"
    using t by (auto simp: update_job_tx_def bind_simps)
  have stay: "jobs_stay (\<lambda>i. i = job_id j) (jobs s) (jobs t)" "documents t = documents s"
    using update_jobs_stay[OF u, of "\<lambda>i. i = job_id j"] by (auto simp: job_done_def same_job_def)
  assume *: "pg_inv s \<and> work_inv s \<and> held j s"
  show "pg_inv t"
    using job_tx_quiet(3)[OF t] * by (auto dest: quiet_guarantee simp: pg_guarantee_def)
  show "held k t" if "held k s" for k using stay(1) that by (rule jobs_stay_held)
  have uniq: "unique_on jr_id (jobs s)" using * by (simp add: pg_inv_def pg_constraints_def jobs_ok_def)
  from * obtain r0 where r0: "r0 \<in> set (jobs s)" "jr_id r0 = job_id j"
    "jr_document_id r0 = job_document_id j" "jr_kind r0 = job_kind_of j" by (auto simp: held_def)
  have "\<not> (jr_id r = job_id j)" if "r \<in> set (jobs s)" "open_job r (d_id d) k" "d \<in> set (documents s)" "needs d k"
    for r d k
  proof
    assume "jr_id r = job_id j"
    with r0 that(1) uniq have "r = r0" by (auto dest: unique_onD)
    with that(2) r0 have "d_id d = job_document_id j" "k = job_kind_of j" by (auto simp: open_job_def)
    with free[OF that(3)] that(4) show False by simp
  qed
  with stay * show "work_inv t" by (intro work_inv_step[OF _ stay(1)]) auto
qed

section \<open>Status changes\<close>

definition transition_target :: "transition \<Rightarrow> document \<Rightarrow> bool" where
  "transition_target t d \<longleftrightarrow> d_id d = tr_document_id t \<and> d_status d \<in> set (allowed_predecessors (tr_to t))"

text \<open>What an applied transition has done.\<close>

lemma transition_tx_effect:
  assumes "transition_tx t now i s = Inr (True, n, s')"
  obtains d and s4 :: pg where "find_row (transition_target t) (documents s) = Some d"
    and "documents s' = update_rows (transition_target t) (\<lambda>d. d\<lparr>d_status := tr_to t\<rparr>) (documents s)"
    and "deliveries s' = deliveries s @ outbox_rows i now d (tr_to t) s"
    and "events s' = events s @ (case tr_event t of None \<Rightarrow> [] | Some e \<Rightarrow> [e])"
    and "jobs s' = jobs s4 @ (case tr_follow_up t of None \<Rightarrow> [] | Some j \<Rightarrow> [new_job_row now j])"
    and "jobs s4 = (case tr_job t of
        None \<Rightarrow> jobs s
      | Some (Complete c) \<Rightarrow>
          update_rows (\<lambda>j. jr_id j = c) (\<lambda>j. (job_done j)\<lparr>jr_updated_at := now\<rparr>) (jobs s)
      | Some (Bury c m) \<Rightarrow>
          update_rows (\<lambda>j. jr_id j = c) (\<lambda>j. (job_buried m j)\<lparr>jr_updated_at := now\<rparr>) (jobs s))"
    and "n = length (outbox_rows i now d (tr_to t) s)"
proof -
  let ?P = "\<lambda>d. d_id d = tr_document_id t \<and> d_status d \<in> set (allowed_predecessors (tr_to t))"
  have P: "transition_target t = ?P" by (simp add: transition_target_def fun_eq_iff)
  from assms obtain d where d: "find_row ?P (documents s) = Some d"
    by (auto simp: transition_tx_def split: option.splits)
  from assms obtain s1 s2 s3 s4 where
    1: "put_documents (update_rows ?P (\<lambda>d. d\<lparr>d_status := tr_to t\<rparr>) (documents s)) s = Inr s1" and
    2: "put_deliveries (deliveries s1 @ outbox_rows i now d (tr_to t) s1) s1 = Inr s2" and
    3: "(case tr_event t of None \<Rightarrow> Inr s2 | Some e \<Rightarrow> insert_event e s2) = Inr s3" and
    4: "close_job now (tr_job t) s3 = Inr s4" and
    5: "(case tr_follow_up t of None \<Rightarrow> Inr s4 | Some j \<Rightarrow> insert_job now j s4) = Inr s'" and
    n: "n = length (outbox_rows i now d (tr_to t) s1)"
    unfolding transition_tx_def d option.case Let_def bind_simps sum.inject prod.inject by blast
  have out: "outbox_rows i now d (tr_to t) s1 = outbox_rows i now d (tr_to t) s"
    using 1 by (auto simp: put_Inr outbox_rows_def split: option.split)
  show thesis
  proof (rule that[of d s4])
    show "documents s' = update_rows (transition_target t) (\<lambda>d. d\<lparr>d_status := tr_to t\<rparr>) (documents s)"
      unfolding P using 1 2 3 4 5
      by (auto simp: put_Inr insert_event_def insert_job_def close_job_def update_jobs_def bind_simps
          split: option.splits job_outcome.splits)
    show "deliveries s' = deliveries s @ outbox_rows i now d (tr_to t) s"
      using 1 2 3 4 5 out
      by (auto simp: put_Inr insert_event_def insert_job_def close_job_def update_jobs_def bind_simps
          split: option.splits job_outcome.splits)
    show "events s' = events s @ (case tr_event t of None \<Rightarrow> [] | Some e \<Rightarrow> [e])"
      using 1 2 3 4 5
      by (auto simp: put_Inr insert_event_def insert_job_def close_job_def update_jobs_def bind_simps
          split: option.splits job_outcome.splits)
    show "jobs s' = jobs s4 @ (case tr_follow_up t of None \<Rightarrow> [] | Some j \<Rightarrow> [new_job_row now j])"
      using 5 by (auto simp: put_Inr insert_job_def bind_simps split: option.splits)
    have "jobs s3 = jobs s"
      using 1 2 3 by (auto simp: put_Inr insert_event_def bind_simps split: option.splits)
    then show "jobs s4 = (case tr_job t of
        None \<Rightarrow> jobs s
      | Some (Complete c) \<Rightarrow>
          update_rows (\<lambda>j. jr_id j = c) (\<lambda>j. (job_done j)\<lparr>jr_updated_at := now\<rparr>) (jobs s)
      | Some (Bury c m) \<Rightarrow>
          update_rows (\<lambda>j. jr_id j = c) (\<lambda>j. (job_buried m j)\<lparr>jr_updated_at := now\<rparr>) (jobs s))"
      using 4 by (auto simp: put_Inr close_job_def update_jobs_def bind_simps
          split: option.splits job_outcome.splits)
  qed (use d n P out in auto)
qed

lemma transition_tx_False: "transition_tx t now i s = Inr (False, n, s') \<Longrightarrow>
    s' = s \<and> n = 0 \<and> find_row (transition_target t) (documents s) = None"
  by (auto simp: transition_tx_def transition_target_def[abs_def] bind_simps Let_def split: option.splits)

lemma job_kind_predecessors:
  "job_subject k \<in> set (allowed_predecessors s) \<Longrightarrow> s \<noteq> Pending \<Longrightarrow> s \<noteq> job_subject k"
  by (cases k; cases s) auto

text \<open>A transition that suits the job keeps every document served.\<close>

lemma suited_transition_work_step:
  assumes t: "transition_tx t now i s = Inr (True, n, s')" and suits: "suits j t"
  shows "work_step j s s'"
  unfolding work_step_def
proof (intro impI conjI allI)
  assume *: "pg_inv s \<and> work_inv s \<and> held j s"
  show "pg_inv s'" using transition_tx_guarantee[OF t] * by (simp add: pg_guarantee_def)
  from t obtain d and s4 :: pg where
    docs: "documents s' = update_rows (transition_target t) (\<lambda>d. d\<lparr>d_status := tr_to t\<rparr>) (documents s)" and
    js: "jobs s' = jobs s4 @ (case tr_follow_up t of None \<Rightarrow> [] | Some j \<Rightarrow> [new_job_row now j])" and
    js4: "jobs s4 = (case tr_job t of
        None \<Rightarrow> jobs s
      | Some (Complete c) \<Rightarrow>
          update_rows (\<lambda>j. jr_id j = c) (\<lambda>j. (job_done j)\<lparr>jr_updated_at := now\<rparr>) (jobs s)
      | Some (Bury c m) \<Rightarrow>
          update_rows (\<lambda>j. jr_id j = c) (\<lambda>j. (job_buried m j)\<lparr>jr_updated_at := now\<rparr>) (jobs s))"
    by (rule transition_tx_effect)
  have "jobs_stay (\<lambda>i. i = job_id j) (jobs s) (jobs s4)"
    unfolding js4 using suits
    by (auto simp: suits_def job_done_def job_buried_def same_job_def
        split: option.splits job_outcome.splits intro!: jobs_stay_update)
  then have stay: "jobs_stay (\<lambda>i. i = job_id j) (jobs s) (jobs s')"
    unfolding js by (rule jobs_stay_append)
  then show "held k s'" if "held k s" for k using that by (rule jobs_stay_held)
  have uniq: "unique_on jr_id (jobs s)" using * by (simp add: pg_inv_def pg_constraints_def jobs_ok_def)
  from * obtain r0 where r0: "r0 \<in> set (jobs s)" "jr_id r0 = job_id j"
    "jr_document_id r0 = job_document_id j" "jr_kind r0 = job_kind_of j" by (auto simp: held_def)
  have only: "d_id x = job_document_id j \<and> k = job_kind_of j"
    if "r \<in> set (jobs s)" "open_job r (d_id x) k" "jr_id r = job_id j" for r x k
    using that r0 uniq by (auto dest!: unique_onD[of jr_id _ r r0] simp: open_job_def)
  have subject: "job_subject (job_kind_of j) \<in> set (allowed_predecessors (tr_to t))" "tr_to t \<noteq> Pending"
    "tr_document_id t = job_document_id j"
    using suits by (auto simp: suits_def)
  show "work_inv s'"
  proof (rule work_inv_step[OF _ stay])
    show "work_inv s" using * by simp
    fix e k assume e: "e \<in> set (documents s')" and need: "needs e k"
    from e show "(\<exists>d \<in> set (documents s). d_id d = d_id e \<and> needs d k \<and>
         (\<forall>r \<in> set (jobs s). open_job r (d_id d) k \<longrightarrow> jr_id r \<noteq> job_id j)) \<or>
      (\<exists>r \<in> set (jobs s'). open_job r (d_id e) k)"
      unfolding docs
    proof (cases rule: update_rows_cases)
      case (updated x)
      have "k = PollStatus" "tr_to t = SentDian"
        using need updated subject(2) by (cases k; simp add: needs_def)+
      with suits obtain f where "tr_follow_up t = Some f" "n_kind f = PollStatus"
        "n_document_id f = tr_document_id t" by (auto simp: suits_def)
      with updated \<open>k = PollStatus\<close> show ?thesis
        by (auto simp: js open_job_def new_job_row_def transition_target_def)
    next
      case kept
      have "jr_id r \<noteq> job_id j" if "r \<in> set (jobs s)" "open_job r (d_id e) k" for r
      proof
        assume "jr_id r = job_id j"
        with only[OF that] have "d_id e = tr_document_id t" "k = job_kind_of j" using subject(3) by auto
        with kept(2) need subject(1) show False by (simp add: transition_target_def needs_def)
      qed
      with kept(1) need show ?thesis by blast
    qed
  qed
qed

section \<open>The processor over PostgreSQL\<close>

definition pg_processor ::
  "(instant \<Rightarrow> string) \<Rightarrow> row_locks \<Rightarrow> (instant \<Rightarrow> uuid \<Rightarrow> string \<Rightarrow> string result) \<Rightarrow> dian \<Rightarrow> engine \<Rightarrow>
   processor_config \<Rightarrow> pg world processor" where
  "pg_processor date_naive locked sign d eng cfg =
     \<lparr>p_documents = pg_documents date_naive, p_jobs = pg_jobs locked, p_signer = signer sign,
      p_soap = dian_client d, p_engine = eng, p_config = cfg\<rparr>"

lemma pg_processor_simps [simp]:
  "p_documents (pg_processor dn locked f d eng cfg) = pg_documents dn"
  "p_jobs (pg_processor dn locked f d eng cfg) = pg_jobs locked"
  "p_signer (pg_processor dn locked f d eng cfg) = signer f"
  "p_soap (pg_processor dn locked f d eng cfg) = dian_client d"
  "p_engine (pg_processor dn locked f d eng cfg) = eng"
  "p_config (pg_processor dn locked f d eng cfg) = cfg"
  by (simp_all add: pg_processor_def)

interpretation pg_processing: processor_ports "obeys pg_guarantee" pg_guarantee
  "pg_processor dn locked f d eng cfg" for dn locked f d eng cfg
  by (simp add: processor_ports_def pg_document_port.document_port_axioms pg_job_port.job_port_axioms
      store.signing_port store.client_port)

lemma settle_work: "suits j t \<Longrightarrow> within nobody (work_step j) (transition (pg_processor dn locked f d eng cfg) j t)"
  unfolding within_def
proof (intro allI impI)
  fix w :: "pg world"
  assume suits: "suits j t" and w: "peers_in nobody w"
  let ?p = "pg_processor dn locked f d eng cfg"
  from w have seen: "seen w = db w" by (simp add: seen_def)
  obtain r v where rv: "pg_apply_transition t w = (r, v)" by force
  then have "tx_ids (transition_tx t) w = (r, v)" by (simp add: pg_apply_transition_def)
  then have pv: "peers v = []" using tx_ids_peers[of "transition_tx t" w] w by simp
  obtain q u where qu: "transition ?p j t w = (q, u)" by force
  have "work_step j (db w) (db u) \<and> peers u = []"
    using \<open>tx_ids (transition_tx t) w = (r, v)\<close>
  proof (cases rule: tx_ids_cases)
    case (unchanged e)
    then have "u = v" using qu rv
      by (simp add: transition_def io_bind_def pg_documents_def split: sum.splits if_splits)
    with unchanged pv seen show ?thesis by (simp add: work.refl)
  next
    case (applied b n)
    show ?thesis
    proof (cases b)
      case True
      with applied suits seen have step: "work_step j (db w) (db v)"
        by (auto intro: suited_transition_work_step)
      have "u = v" using qu rv True applied(3)
        by (auto simp: transition_def io_bind_def pg_documents_def split: sum.splits if_splits)
      with step pv show ?thesis by simp
    next
      case False
      with applied(1) seen have same: "db v = db w"
        and none: "find_row (transition_target t) (documents (db w)) = None"
        by (auto dest!: transition_tx_False)
      have free: "\<not> needs x (job_kind_of j)" if "x \<in> set (documents (db v))" "d_id x = job_document_id j" for x
      proof
        assume "needs x (job_kind_of j)"
        with that suits have "transition_target t x"
          by (simp add: transition_target_def needs_def suits_def)
        with none that same show False by (auto simp: find_row_None_iff)
      qed
      show ?thesis
      proof (cases "r = Inr b")
        case True
        with qu rv False have c: "tx (update_job_tx (job_id j) job_done) v = (q, u)"
          by (simp add: transition_def io_bind_def pg_documents_def pg_jobs_def pg_complete_def)
        then have pu: "peers u = []" using tx_peers[of "update_job_tx (job_id j) job_done" v] pv by simp
        have seen_v: "seen v = db v" using pv by (simp add: seen_def)
        from c have "work_step j (db v) (db u)"
          by (cases rule: tx_cases) (auto simp: seen_v work.refl intro!: complete_work_step dest: free)
        with pu same show ?thesis by simp
      next
        case False
        with applied(3) have "u = v" using qu rv
          by (auto simp: transition_def io_bind_def pg_documents_def split: sum.splits if_splits)
        with same pv show ?thesis by (simp add: work.refl)
      qed
    qed
  qed
  with qu show "work_step j (db w) (db (snd (transition ?p j t w))) \<and>
      peers_in nobody (snd (transition ?p j t w))" by simp
qed

lemma bury_release_retry_work:
  "within nobody (work_step j) (bury (pg_jobs locked) i m)"
  "within nobody (work_step j) (retry (pg_jobs locked) i at m)"
  "within nobody (work_step j) (release (pg_jobs locked) i at)"
  by (auto simp: pg_jobs_def pg_bury_def pg_retry_def pg_release_def same_job_def job_buried_def
      job_requeued_def intro!: work.transaction elim!: update_job_work_step)

text \<open>A document read in another status than the job's needs no such job.\<close>

lemma dismissal_work:
  assumes m: "\<And>d. d_id d = job_document_id j \<Longrightarrow> within nobody (work_step j) (m d)"
  shows "within nobody (work_step j) (io_bind (find_document (pg_documents dn) (job_document_id j)) (\<lambda>found.
        case found of
          None \<Rightarrow> bury (pg_jobs locked) (job_id j) document_not_found
        | Some d \<Rightarrow>
            if d_status d \<noteq> job_subject (job_kind_of j) then complete (pg_jobs locked) (job_id j) else m d))"
    (is "within _ _ ?run")
  unfolding within_def
proof (intro allI impI)
  fix w :: "pg world"
  assume w: "peers_in nobody w"
  from w have seen: "seen w = db w" by (simp add: seen_def)
  let ?find = "\<lambda>now s. find_row (\<lambda>d. d_id d = job_document_id j) (documents s)"
  obtain r v where q: "query ?find w = (r, v)" by force
  then have find: "find_document (pg_documents dn) (job_document_id j) w = (r, v)"
    by (simp add: pg_documents_def pg_find_document_def)
  from q have v: "db v = db w" "peers v = []"
    using query_db[of ?find w] w tx_peers[of "\<lambda>now s. Inr (?find now s, s)" w] seen
    by (auto simp: query_def)
  obtain x u where xu: "?run w = (x, u)" by force
  have "work_step j (db v) (db u) \<and> peers_in nobody u"
  proof (cases r)
    case (Inl e)
    with xu find have "u = v" by (simp add: io_bind_def)
    with v show ?thesis by (simp add: work.refl)
  next
    case (Inr found)
    from q Inr have fd: "found = find_row (\<lambda>d. d_id d = job_document_id j) (documents (db w))"
      by (cases rule: query_cases) (auto simp: seen)
    show ?thesis
    proof (cases found)
      case None
      with xu find Inr have "bury (pg_jobs locked) (job_id j) document_not_found v = (x, u)"
        by (simp add: io_bind_def)
      with withinD[OF bury_release_retry_work(1) _ this] v show ?thesis by simp
    next
      case (Some d)
      with fd have d: "d \<in> set (documents (db w))" "d_id d = job_document_id j"
        by (auto dest!: find_row_SomeD sym[of "Some _"])
      show ?thesis
      proof (cases "d_status d = job_subject (job_kind_of j)")
        case True
        with xu find Inr Some have "m d v = (x, u)" by (simp add: io_bind_def)
        with withinD[OF m[OF d(2)] _ this] v show ?thesis by simp
      next
        case False
        with xu find Inr Some have c: "tx (update_job_tx (job_id j) job_done) v = (x, u)"
          by (simp add: io_bind_def pg_jobs_def pg_complete_def)
        then have pu: "peers u = []" using tx_peers[of "update_job_tx (job_id j) job_done" v] v by simp
        have "work_step j (db v) (db u)"
        proof (cases "pg_inv (db v)")
          case True
          have "unique_on d_id (documents (db v))"
            using True by (simp add: pg_inv_def pg_constraints_def documents_ok_def)
          then have only: "y = d" if "y \<in> set (documents (db v))" "d_id y = job_document_id j" for y
            using that d v(1) by (auto dest: unique_onD)
          have seen_v: "seen v = db v" using v by (simp add: seen_def)
          from c show ?thesis
            by (cases rule: tx_cases)
              (use only False in \<open>auto simp: seen_v work.refl needs_def intro!: complete_work_step\<close>)
        qed (simp add: work_step_def)
        with pu show ?thesis by simp
      qed
    qed
  qed
  with v(1) xu show "work_step j (db w) (db (snd (?run w))) \<and> peers_in nobody (snd (?run w))" by simp
qed

lemma artifacts_tx_work_step: "artifacts_tx i c x y now s = Inr (u, t) \<Longrightarrow> work_step j s t"
proof -
  assume a: "artifacts_tx i c x y now s = Inr (u, t)"
  then have docs: "documents t = update_rows (\<lambda>d. d_id d = i)
      (\<lambda>d. d\<lparr>d_cufe_cude := c, d_original_xml := Some x, d_signed_xml := Some y\<rparr>) (documents s)"
    and js: "jobs t = jobs s"
    by (auto simp: artifacts_tx_def bind_simps put_Inr split: if_splits)
  have "work_inv t" if "work_inv s"
    using that unfolding work_inv_def docs js
    by (auto simp: in_update_rows needs_def split: if_splits)
  with artifacts_tx_guarantee[OF a] show ?thesis
    by (auto simp: work_step_def pg_guarantee_def held_def js)
qed

lemma insert_event_work_step:
  assumes e: "insert_event e s = Inr t"
  shows "work_step j s t"
proof (rule work_step_quiet[OF quiet_guarantee[OF insert_quiet(2)[OF e]]])
  have "t = s\<lparr>events := events s @ [e]\<rparr>"
    using e by (simp add: insert_event_def bind_simps put_Inr)
  then show "documents t = documents s" "jobs_stay (\<lambda>_. False) (jobs s) (jobs t)" by simp_all
qed

interpretation pg_work: job_processing nobody "work_step j" "pg_processor dn locked f d eng cfg" j
  for dn locked f d eng cfg j
proof (unfold job_processing_def job_processing_axioms_def job_sending_def job_sending_axioms_def
    pg_processor_simps, intro conjI allI impI)
  show "within nobody (work_step j) (find_numbering_range (pg_documents dn) i)" for i
    by (simp add: pg_documents_def pg_find_numbering_range_def work.read)
  show "within nobody (work_step j) (store_artifacts (pg_documents dn) i c x y)" for i c x y
    by (auto simp: pg_documents_def pg_store_artifacts_def intro: work.transaction artifacts_tx_work_step)
  show "within nobody (work_step j) (record_event (pg_documents dn) e)" for e
    by (auto simp: pg_documents_def pg_record_event_def bind_simps
        intro!: work.transaction insert_event_work_step)
qed (simp_all add: work.guarantee_axioms work.signing_port work.client_port settle_work
    bury_release_retry_work dismissal_work)

section \<open>The other operations\<close>

definition work_kept :: "pg \<Rightarrow> pg \<Rightarrow> bool" where
  "work_kept s t \<longleftrightarrow>
     (pg_inv s \<and> work_inv s \<longrightarrow> pg_inv t \<and> work_inv t \<and> (\<forall>k. held k s \<longrightarrow> held k t))"

interpretation kept: guarantee "obeys work_kept" work_kept
  by (rule obeys_guarantee) (auto simp: work_kept_def)

lemma work_kept_quiet:
  assumes "pg_guarantee s t" "documents t = documents s" "jobs_stay (\<lambda>_. False) (jobs s) (jobs t)"
  shows "work_kept s t"
  using work_step_quiet[OF assms] jobs_stay_held[OF assms(3)] assms
    work_inv_same_documents[OF _ assms(3,2)]
  by (auto simp: work_kept_def pg_guarantee_def)

lemma work_keptI:
  assumes "pg_guarantee s t" "jobs_stay (\<lambda>_. False) (jobs s) (jobs t)"
    and "\<And>e k. pg_inv s \<Longrightarrow> e \<in> set (documents t) \<Longrightarrow> needs e k \<Longrightarrow>
      (\<exists>d \<in> set (documents s). d_id d = d_id e \<and> needs d k) \<or> (\<exists>r \<in> set (jobs t). open_job r (d_id e) k)"
  shows "work_kept s t"
  unfolding work_kept_def
proof (intro impI conjI allI)
  assume *: "pg_inv s \<and> work_inv s"
  show "pg_inv t" using assms(1) * by (simp add: pg_guarantee_def)
  show "work_inv t" using * assms(3) by (intro work_inv_step[OF _ assms(2)]) auto
  show "held k t" if "held k s" for k using assms(2) that by (rule jobs_stay_held)
qed

lemma issue_tx_work:
  assumes t: "issue_tx dn d job now s = Inr (step, t)"
    and job: "n_kind job = Transmit" "n_document_id job = no_id d"
  shows "work_kept s t"
proof (cases step)
  case Key_taken
  with t show ?thesis by (auto dest: issue_tx_Key_taken simp: kept.refl)
next
  case (Issued iss)
  with t have i: "issue_tx dn d job now s = Inr (Issued iss, t)" by simp
  obtain r :: numbering_range and number where docs: "documents t = documents s @ [outbound_row d number (r_id r) now]"
    and js: "jobs t = jobs s @ [new_job_row now job]"
    by (rule issue_tx_effect[OF i])
  show ?thesis
  proof (rule work_keptI[OF issue_tx_guarantee[OF t]])
    show "jobs_stay (\<lambda>_. False) (jobs s) (jobs t)" unfolding js by (simp add: jobs_stay_append)
    fix e k assume "e \<in> set (documents t)" and need: "needs e k"
    then consider "e \<in> set (documents s)" | "e = outbound_row d number (r_id r) now"
      unfolding docs by auto
    then show "(\<exists>d \<in> set (documents s). d_id d = d_id e \<and> needs d k) \<or>
        (\<exists>r \<in> set (jobs t). open_job r (d_id e) k)"
    proof cases
      case 2
      then have "k = Transmit" using need by (cases k) (auto simp: needs_def outbound_row_def)
      with 2 job show ?thesis by (auto simp: js open_job_def new_job_row_def outbound_row_def)
    qed (use need in blast)
  qed
qed

lemma inbound_tx_work: "inbound_tx d now s = Inr (b, t) \<Longrightarrow> work_kept s t"
proof (rule work_keptI[OF inbound_tx_guarantee], assumption)
  assume "inbound_tx d now s = Inr (b, t)"
  then have *: "jobs t = jobs s" "documents t = documents s \<or> documents t = documents s @ [inbound_row d now]"
    by (auto simp: inbound_tx_def bind_simps put_Inr split: if_splits)
  show "jobs_stay (\<lambda>_. False) (jobs s) (jobs t)" by (simp add: *)
  fix e k assume "e \<in> set (documents t)" "needs e k"
  with *(2) have "e \<in> set (documents s)" by (auto simp: needs_def inbound_row_def)
  with \<open>needs e k\<close> show "(\<exists>d \<in> set (documents s). d_id d = d_id e \<and> needs d k) \<or>
      (\<exists>r \<in> set (jobs t). open_job r (d_id e) k)" by blast
qed

lemma claim_work:
  "bury_expired_tx now s = Inr (u, t) \<Longrightarrow> work_kept s t"
  "claim_tx locked worker limit lease now s = Inr (js, t) \<Longrightarrow> work_kept s t"
proof -
  assume b: "bury_expired_tx now s = Inr (u, t)"
  then obtain P f where u: "update_jobs now P f s = Inr t" and f: "\<And>r. same_job r (f r) \<and> jr_status (f r) = Dead"
    unfolding bury_expired_tx_def bind_simps by (auto simp: same_job_def)
  show "work_kept s t"
    by (rule work_kept_quiet[OF quiet_guarantee[OF job_tx_quiet(1)[OF b]]])
      (use update_jobs_stay[OF u, of "\<lambda>_. False"] f in auto)
next
  assume c: "claim_tx locked worker limit lease now s = Inr (js, t)"
  then obtain P where u: "update_jobs now P (leased worker (now + lease)) s = Inr t"
    by (auto simp: claim_tx_def bind_simps Let_def)
  show "work_kept s t"
    by (rule work_kept_quiet[OF quiet_guarantee[OF job_tx_quiet(2)[OF c]]])
      (use update_jobs_stay[OF u, of "\<lambda>_. False"] in \<open>auto simp: leased_def same_job_def\<close>)
qed

lemma claimed_held:
  assumes c: "claim_tx locked worker limit lease now s = Inr (js, t)" and j: "j \<in> set js"
  shows "held j t"
proof -
  from c obtain P where "js = map job_of_row (filter P (jobs t))"
    by (auto simp: claim_tx_def bind_simps Let_def)
  with j obtain r where "r \<in> set (jobs t)" "j = job_of_row r" by auto
  then show ?thesis by (auto simp: held_def job_of_row_def)
qed

lemma requeue_tx_work:
  assumes t: "requeue_tx locked limit m now i s = Inr (n, k, t)"
  shows "work_kept s t"
proof -
  from t obtain moved s1 where
    1: "put_documents (update_rows moved (\<lambda>d. d\<lparr>d_status := Pending\<rparr>) (documents s)) s = Inr s1" and
    2: "put_jobs (jobs s1 @ map2 (\<lambda>k d. new_job_row now (transmit_job k now d m))
          [i..<i + length (filter moved (documents s))] (map d_id (filter moved (documents s)))) s1 = Inr t"
    unfolding requeue_tx_def by (auto simp: bind_simps Let_def)
  let ?new = "map2 (\<lambda>k d. new_job_row now (transmit_job k now d m))
          [i..<i + length (filter moved (documents s))] (map d_id (filter moved (documents s)))"
  have js: "jobs t = jobs s @ ?new" and docs: "documents t = update_rows moved (\<lambda>d. d\<lparr>d_status := Pending\<rparr>) (documents s)"
    using 1 2 by (auto simp: put_Inr)
  have new: "\<exists>r \<in> set ?new. open_job r (d_id d) Transmit" if "d \<in> set (documents s)" "moved d" for d
  proof -
    from that have "d \<in> set (filter moved (documents s))" by simp
    then obtain n where n: "n < length (filter moved (documents s))" "d = filter moved (documents s) ! n"
      unfolding in_set_conv_nth by blast
    then have "?new ! n = new_job_row now (transmit_job (i + n) now (d_id d) m)" by simp
    moreover have "?new ! n \<in> set ?new" by (rule nth_mem) (use n in simp)
    ultimately show ?thesis
      by (intro bexI[of _ "?new ! n"]) (simp_all add: open_job_def new_job_row_def transmit_job_def)
  qed
  show ?thesis
  proof (rule work_keptI[OF requeue_tx_guarantee[OF t]])
    show "jobs_stay (\<lambda>_. False) (jobs s) (jobs t)" unfolding js by (simp add: jobs_stay_append)
    fix e k assume e: "e \<in> set (documents t)" and need: "needs e k"
    from e show "(\<exists>d \<in> set (documents s). d_id d = d_id e \<and> needs d k) \<or>
        (\<exists>r \<in> set (jobs t). open_job r (d_id e) k)"
      unfolding docs
    proof (cases rule: update_rows_cases)
      case (updated d)
      then have "k = Transmit" using need by (cases k) (auto simp: needs_def)
      with new[OF updated(1,2)] updated(3) show ?thesis by (auto simp: js)
    qed (use need in blast)
  qed
qed

lemma retry_dead_job_tx_work:
  assumes t: "retry_dead_job_tx job a now i s = Inr (b, n, t)"
  shows "work_kept s t"
proof (cases b)
  case False
  then have "t = s"
    using t by (auto simp: retry_dead_job_tx_def bind_simps split: option.splits if_splits)
  then show ?thesis by (simp add: kept.refl)
next
  case True
  with t obtain j d where
    j: "find_row (\<lambda>j. jr_id j = job \<and> jr_status j = Dead) (jobs s) = Some j" and
    d: "find_row (\<lambda>d. d_id d = jr_document_id j) (documents s) = Some d"
    by (auto simp: retry_dead_job_tx_def split: option.splits)
  let ?change = "jr_kind j = Transmit \<and> d_status d = ContingencyPending"
  from t obtain s1 s2 where
    1: "(if ?change
         then map_err db_error (put_documents
           (update_rows (\<lambda>x. d_id x = d_id d) (\<lambda>x. x\<lparr>d_status := Pending\<rparr>) (documents s)) s)
         else Inr s) = Inr s1" and
    2: "update_jobs now (\<lambda>x. jr_id x = job) (\<lambda>x. (job_requeued now x)\<lparr>jr_attempts := 0\<rparr>) s1 = Inr s2" and
    3: "insert_audit now i a s2 = Inr t"
    unfolding retry_dead_job_tx_def j d option.case bind_simps sum.inject prod.inject by blast
  have j': "j \<in> set (jobs s)" "jr_id j = job" and d': "d \<in> set (documents s)" "d_id d = jr_document_id j"
    using find_row_SomeD[OF j] find_row_SomeD[OF d] by auto
  have s1: "jobs s1 = jobs s" "documents s1 =
      (if ?change then update_rows (\<lambda>x. d_id x = d_id d) (\<lambda>x. x\<lparr>d_status := Pending\<rparr>) (documents s)
       else documents s)"
    using 1 by (auto simp: bind_simps put_Inr split: if_splits)
  have t2: "jobs t = jobs s2" "documents t = documents s2"
    using 3 by (auto simp: insert_audit_def bind_simps put_Inr)
  have s2: "jobs s2 = update_rows (\<lambda>x. jr_id x = job)
      (\<lambda>x. (job_requeued now x)\<lparr>jr_attempts := 0, jr_updated_at := now\<rparr>) (jobs s1)" "documents s2 = documents s1"
    using 2 by (auto simp: update_jobs_def put_Inr)
  show ?thesis
  proof (rule work_keptI[OF retry_dead_job_tx_guarantee[OF t]])
    show "jobs_stay (\<lambda>_. False) (jobs s) (jobs t)"
      unfolding t2 s2 s1 by (rule jobs_stay_update) (simp add: same_job_def job_requeued_def)
    fix e k assume e: "e \<in> set (documents t)" and need: "needs e k"
    show "(\<exists>d \<in> set (documents s). d_id d = d_id e \<and> needs d k) \<or>
        (\<exists>r \<in> set (jobs t). open_job r (d_id e) k)"
    proof (cases "?change \<and> d_id e = d_id d")
      case True
      with e have "e \<in> set (update_rows (\<lambda>x. d_id x = d_id d) (\<lambda>x. x\<lparr>d_status := Pending\<rparr>) (documents s))"
        by (simp add: t2 s2 s1)
      then have "d_status e = Pending"
        by (cases rule: update_rows_cases) (use True in auto)
      with need have "k = Transmit" by (cases k) (auto simp: needs_def)
      let ?r = "(job_requeued now j)\<lparr>jr_attempts := 0, jr_updated_at := now\<rparr>"
      have "?r \<in> set (jobs t)"
        unfolding t2 s2 s1 in_update_rows using j' by (intro bexI[of _ j]) auto
      moreover have "open_job ?r (d_id e) k"
        using True \<open>k = Transmit\<close> d' by (simp add: open_job_def job_requeued_def)
      ultimately show ?thesis by blast
    next
      case False
      with e have "e \<in> set (documents s)"
        by (auto simp: t2 s2 s1 in_update_rows split: if_splits)
      with need show ?thesis by blast
    qed
  qed
qed

end
