(* ===== verification/System.thy ===== *)
theory System
  imports Pg_Work
begin

text \<open>
  The running system: API processes, workers and administrators over one database, as a state
  machine. A system is a world and the jobs that workers have claimed; a claimed job stays in the
  hands of its worker for ever, so late and repeated processing (after the lease has expired) are
  runs of the machine. Every operation runs to its end before the next one starts, but it can fail
  between and inside its transactions (\<open>faults\<close>).
\<close>

record deployment =
  dp_date_naive :: "instant \<Rightarrow> string"
  dp_locked :: row_locks
  dp_sign :: "instant \<Rightarrow> uuid \<Rightarrow> string \<Rightarrow> string result"
  dp_dian :: dian
  dp_engine :: engine
  dp_config :: processor_config

record system =
  sys_world :: "pg world"
  in_flight :: "job list"

datatype action =
    Tick nat
  | Break "fault option list"
  | Issue new_outbound_document new_job
  | Receive new_inbound_document
  | Claim string int int
  | Work job
  | Reconcile int
  | Retry_job uuid audit_entry
  | Retry_delivery uuid audit_entry
  | Add_tenant new_tenant audit_entry
  | Add_key api_key_record audit_entry
  | Revoke_key uuid uuid audit_entry
  | Activate certificate audit_entry
  | Add_range numbering_range audit_entry
  | Subscribe webhook
  | Unsubscribe uuid uuid
  | Claim_deliveries int int
  | Deliver uuid int
  | Redeliver uuid instant string "int option"
  | Drop_delivery uuid string "int option"

definition system_processor :: "deployment \<Rightarrow> pg world processor" where
  "system_processor D = pg_processor (dp_date_naive D) (dp_locked D) (dp_sign D) (dp_dian D)
     (dp_engine D) (dp_config D)"

definition on_world :: "(pg world \<Rightarrow> 'r \<times> pg world) \<Rightarrow> system \<Rightarrow> system" where
  "on_world m \<sigma> = \<sigma>\<lparr>sys_world := snd (m (sys_world \<sigma>))\<rparr>"

definition claim_into :: "deployment \<Rightarrow> string \<Rightarrow> int \<Rightarrow> int \<Rightarrow> system \<Rightarrow> system" where
  "claim_into D worker limit lease \<sigma> =
     (case claim (pg_jobs (dp_locked D)) worker limit lease (sys_world \<sigma>) of
        (Inl _, w) \<Rightarrow> \<sigma>\<lparr>sys_world := w\<rparr>
      | (Inr js, w) \<Rightarrow> \<sigma>\<lparr>sys_world := w, in_flight := in_flight \<sigma> @ js\<rparr>)"

fun perform :: "deployment \<Rightarrow> action \<Rightarrow> system \<Rightarrow> system" where
  "perform D (Tick t) \<sigma> = on_world (\<lambda>w. ((), w\<lparr>clock := clock w + int t\<rparr>)) \<sigma>"
| "perform D (Break fs) \<sigma> = on_world (\<lambda>w. ((), w\<lparr>faults := fs\<rparr>)) \<sigma>"
| "perform D (Issue d j) \<sigma> = on_world (issue_outbound (pg_documents (dp_date_naive D)) d j) \<sigma>"
| "perform D (Receive d) \<sigma> = on_world (insert_inbound (pg_documents (dp_date_naive D)) d) \<sigma>"
| "perform D (Claim worker limit lease) \<sigma> = claim_into D worker limit lease \<sigma>"
| "perform D (Work j) \<sigma> = on_world (process (system_processor D) j) \<sigma>"
| "perform D (Reconcile limit) \<sigma> = on_world (processor_requeue_contingency (system_processor D) limit) \<sigma>"
| "perform D (Retry_job i a) \<sigma> = on_world (retry_dead_job pg_admin i a) \<sigma>"
| "perform D (Retry_delivery i a) \<sigma> = on_world (retry_dead_delivery pg_admin i a) \<sigma>"
| "perform D (Add_tenant t a) \<sigma> = on_world (create_tenant pg_admin t a) \<sigma>"
| "perform D (Add_key k a) \<sigma> = on_world (create_api_key pg_admin k a) \<sigma>"
| "perform D (Revoke_key t k a) \<sigma> = on_world (revoke_api_key pg_admin t k a) \<sigma>"
| "perform D (Activate c a) \<sigma> = on_world (activate_certificate pg_admin c a) \<sigma>"
| "perform D (Add_range r a) \<sigma> = on_world (add_numbering_range pg_admin r a) \<sigma>"
| "perform D (Subscribe h) \<sigma> = on_world (create_webhook (pg_webhooks (dp_locked D)) h) \<sigma>"
| "perform D (Unsubscribe t i) \<sigma> = on_world (delete_webhook (pg_webhooks (dp_locked D)) t i) \<sigma>"
| "perform D (Claim_deliveries limit lease) \<sigma> = on_world (claim_deliveries (pg_webhooks (dp_locked D)) limit lease) \<sigma>"
| "perform D (Deliver i c) \<sigma> = on_world (complete_delivery (pg_webhooks (dp_locked D)) i c) \<sigma>"
| "perform D (Redeliver i at e c) \<sigma> = on_world (retry_delivery (pg_webhooks (dp_locked D)) i at e c) \<sigma>"
| "perform D (Drop_delivery i e c) \<sigma> = on_world (bury_delivery (pg_webhooks (dp_locked D)) i e c) \<sigma>"

text \<open>
  What the callers guarantee: a document is issued with a transmission job of its own, a worker
  processes only jobs it has claimed, and a resolution is one that the administration accepts.
\<close>

fun admissible :: "action \<Rightarrow> system \<Rightarrow> bool" where
  "admissible (Issue d j) \<sigma> \<longleftrightarrow> n_kind j = Transmit \<and> n_document_id j = no_id d"
| "admissible (Work j) \<sigma> \<longleftrightarrow> j \<in> set (in_flight \<sigma>)"
| "admissible (Add_range r a) \<sigma> \<longleftrightarrow> range_ok r"
| "admissible _ \<sigma> \<longleftrightarrow> True"

inductive sys_step :: "deployment \<Rightarrow> system \<Rightarrow> system \<Rightarrow> bool" for D where
  act: "admissible a \<sigma> \<Longrightarrow> sys_step D \<sigma> (perform D a \<sigma>)"

inductive_cases sys_step_cases: "sys_step D \<sigma> \<tau>"

definition sys_reachable :: "deployment \<Rightarrow> system \<Rightarrow> system \<Rightarrow> bool" where
  "sys_reachable D = (sys_step D)\<^sup>*\<^sup>*"

definition sys_start :: "system \<Rightarrow> bool" where
  "sys_start \<sigma> \<longleftrightarrow> db (sys_world \<sigma>) = pg_empty \<and> peers (sys_world \<sigma>) = [] \<and> in_flight \<sigma> = []"

definition sys_inv :: "system \<Rightarrow> bool" where
  "sys_inv \<sigma> \<longleftrightarrow>
     pg_inv (db (sys_world \<sigma>)) \<and> work_inv (db (sys_world \<sigma>)) \<and> peers (sys_world \<sigma>) = [] \<and>
     (\<forall>j \<in> set (in_flight \<sigma>). held j (db (sys_world \<sigma>)))"

section \<open>Operations that touch neither documents nor jobs\<close>

definition idle :: "pg \<Rightarrow> pg \<Rightarrow> bool" where
  "idle s t \<longleftrightarrow> documents t = documents s \<and> jobs t = jobs s"

lemma idle_tx:
  "create_tenant_tx nt a now i s = Inr (x, n, t) \<Longrightarrow> idle s t"
  "create_api_key_tx k a now i s = Inr (u, n, t) \<Longrightarrow> idle s t"
  "revoke_api_key_tx tenant key a now i s = Inr (b, n, t) \<Longrightarrow> idle s t"
  "activate_certificate_tx c a now i s = Inr (u, n, t) \<Longrightarrow> idle s t"
  "retry_dead_delivery_tx d a now i s = Inr (b, n, t) \<Longrightarrow> idle s t"
  "add_range_tx r a now i s = Inr (u, n, t) \<Longrightarrow> idle s t"
  by (auto simp: idle_def create_tenant_tx_def create_api_key_tx_def revoke_api_key_tx_def
      activate_certificate_tx_def retry_dead_delivery_tx_def add_range_tx_def insert_audit_def
      update_deliveries_def bind_simps put_Inr Let_def split: if_splits)

lemma idle_webhook_tx:
  "create_webhook_tx h now s = Inr (u, t) \<Longrightarrow> idle s t"
  "delete_webhook_tx tenant i now s = Inr (b, t) \<Longrightarrow> idle s t"
  "claim_deliveries_tx locked limit lease now s = Inr (ds, t) \<Longrightarrow> idle s t"
  "update_delivery_tx i f now s = Inr (u, t) \<Longrightarrow> idle s t"
  by (auto simp: idle_def create_webhook_tx_def delete_webhook_tx_def claim_deliveries_tx_def
      update_delivery_tx_def update_deliveries_def bind_simps put_Inr Let_def)

lemma idle_work: "pg_guarantee s t \<Longrightarrow> idle s t \<Longrightarrow> work_kept s t"
  by (rule work_kept_quiet) (simp_all add: idle_def)

section \<open>Every step keeps the invariant\<close>

text \<open>Among nobody, an operation whose transactions keep the work keeps it.\<close>

interpretation kept_alone: guarantee nobody work_kept
  by unfold_locales (auto simp: work_kept_def nobody_def)

lemma kept_ops:
  "n_kind j = Transmit \<Longrightarrow> n_document_id j = no_id d \<Longrightarrow> within nobody work_kept (pg_issue_outbound dn d j)"
  "within nobody work_kept (pg_insert_inbound ni)"
  "within nobody work_kept (pg_requeue_contingency locked limit n)"
  "within nobody work_kept (pg_retry_dead_job i a)"
proof -
  have find: "within nobody work_kept (find_idempotency tenant key)" for tenant key
    unfolding find_idempotency_def
    by (intro kept_alone.bind kept_alone.read)
      (auto intro: kept_alone.return kept_alone.bind kept_alone.lift split: option.split)
  show "within nobody work_kept (pg_issue_outbound dn d j)"
    if "n_kind j = Transmit" "n_document_id j = no_id d"
    unfolding pg_issue_outbound_def using that
    by (intro kept_alone.bind)
      (auto intro!: kept_alone.bind kept_alone.return kept_alone.lift find kept_alone.transaction
        elim: issue_tx_work split: option.split issue_step.split)
qed (auto simp: pg_insert_inbound_def pg_requeue_contingency_def pg_retry_dead_job_def
    intro: kept_alone.transaction kept_alone.transaction_ids inbound_tx_work requeue_tx_work
      retry_dead_job_tx_work)

lemma kept_admin_ops:
  "within nobody work_kept (pg_create_tenant nt a)"
  "within nobody work_kept (pg_create_api_key k a)"
  "within nobody work_kept (pg_revoke_api_key t i a)"
  "within nobody work_kept (pg_activate_certificate c a)"
  "range_ok r \<Longrightarrow> within nobody work_kept (pg_add_numbering_range r a)"
  "within nobody work_kept (pg_retry_dead_delivery i a)"
  unfolding pg_create_tenant_def pg_create_api_key_def pg_revoke_api_key_def
    pg_activate_certificate_def pg_add_numbering_range_def pg_retry_dead_delivery_def
  by (blast intro: kept_alone.transaction_ids idle_work idle_tx quiet_guarantee admin_tx_quiet
      activate_certificate_tx_quiet add_range_tx_guarantee)+

lemma kept_webhook_ops:
  "within nobody work_kept (pg_create_webhook h)"
  "within nobody work_kept (pg_delete_webhook t i)"
  "within nobody work_kept (pg_claim_deliveries locked limit lease)"
  "within nobody work_kept (pg_complete_delivery i c)"
  "within nobody work_kept (pg_retry_delivery i at e x)"
  "within nobody work_kept (pg_bury_delivery i e x)"
  unfolding pg_create_webhook_def pg_delete_webhook_def pg_claim_deliveries_def
    pg_complete_delivery_def pg_retry_delivery_def pg_bury_delivery_def
  by (blast intro: kept_alone.transaction idle_work idle_webhook_tx quiet_guarantee delivery_tx_quiet
      create_webhook_tx_quiet delete_webhook_tx_quiet)+

lemma on_world_inv:
  assumes m: "within nobody work_kept m" and inv: "sys_inv \<sigma>"
  shows "sys_inv (on_world m \<sigma>)"
proof -
  obtain r w where w: "m (sys_world \<sigma>) = (r, w)" by force
  from withinD[OF m _ w] inv have "work_kept (db (sys_world \<sigma>)) (db w)" "peers w = []"
    by (auto simp: sys_inv_def)
  with inv w show ?thesis by (auto simp: sys_inv_def on_world_def work_kept_def)
qed

lemma work_inv_step_process:
  assumes inv: "sys_inv \<sigma>" and j: "j \<in> set (in_flight \<sigma>)"
  shows "sys_inv (on_world (process (system_processor D) j) \<sigma>)"
proof -
  have m: "within nobody (work_step j) (process (system_processor D) j)"
    unfolding system_processor_def by (rule pg_work.process_within)
  obtain r w where w: "process (system_processor D) j (sys_world \<sigma>) = (r, w)" by force
  from withinD[OF m _ w] inv have "work_step j (db (sys_world \<sigma>)) (db w)" "peers w = []"
    by (auto simp: sys_inv_def)
  with inv w j show ?thesis by (auto simp: sys_inv_def on_world_def work_step_def)
qed

lemma claim_into_inv:
  assumes inv: "sys_inv \<sigma>"
  shows "sys_inv (claim_into D worker limit lease \<sigma>)"
proof -
  let ?w = "sys_world \<sigma>"
  obtain r1 w1 where 1: "tx bury_expired_tx ?w = (r1, w1)" by force
  have p1: "peers w1 = []" using inv 1 tx_peers[of bury_expired_tx ?w] by (simp add: sys_inv_def)
  have s: "seen ?w = db ?w" "seen w1 = db w1" using inv p1 by (simp_all add: seen_def sys_inv_def)
  from 1 have k1: "work_kept (db ?w) (db w1)"
    by (cases rule: tx_cases) (auto simp: s kept.refl intro: claim_work)
  show ?thesis
  proof (cases r1)
    case (Inl e)
    with 1 inv k1 p1 show ?thesis
      by (auto simp: claim_into_def pg_jobs_def pg_claim_def io_bind_def sys_inv_def work_kept_def)
  next
    case (Inr a)
    obtain r2 w2 where 2: "tx (claim_tx (dp_locked D) worker limit lease) w1 = (r2, w2)" by force
    have p2: "peers w2 = []" using p1 2 tx_peers[of "claim_tx (dp_locked D) worker limit lease" w1] by simp
    from 2 have k2: "work_kept (db w1) (db w2)" and h: "\<And>js j. r2 = Inr js \<Longrightarrow> j \<in> set js \<Longrightarrow> held j (db w2)"
      by (cases rule: tx_cases; auto simp: s kept.refl intro: claim_work claimed_held)+
    have "claim (pg_jobs (dp_locked D)) worker limit lease ?w = (r2, w2)"
      using 1 2 Inr by (simp add: pg_jobs_def pg_claim_def io_bind_def)
    with inv k1 k2 p2 h show ?thesis
      by (auto simp: claim_into_def sys_inv_def work_kept_def split: sum.split)
  qed
qed

lemma perform_inv: "sys_inv \<sigma> \<Longrightarrow> admissible a \<sigma> \<Longrightarrow> sys_inv (perform D a \<sigma>)"
proof (induction D a \<sigma> rule: perform.induct)
  case (5 D worker limit lease \<sigma>)
  then show ?case by (simp add: claim_into_inv)
next
  case (6 D j \<sigma>)
  then show ?case by (simp add: work_inv_step_process)
qed (simp_all add: on_world_inv kept_ops kept_admin_ops kept_webhook_ops pg_documents_def pg_admin_def
    pg_webhooks_def processor_requeue_contingency_def system_processor_def pg_jobs_def
    kept_alone.local)

lemma start_inv: "sys_start \<sigma> \<Longrightarrow> sys_inv \<sigma>"
  by (auto simp: sys_start_def sys_inv_def pg_empty_inv work_inv_def) (simp add: pg_empty_def)

lemma reachable_inv: "sys_reachable D \<sigma> \<tau> \<Longrightarrow> sys_inv \<sigma> \<Longrightarrow> sys_inv \<tau>"
  unfolding sys_reachable_def
  by (induction rule: rtranclp_induct) (auto elim!: sys_step_cases intro: perform_inv)

section \<open>Every step keeps the guarantee of the store\<close>

lemma on_world_guarantee:
  assumes m: "within (obeys pg_guarantee) pg_guarantee m" and p: "peers (sys_world \<sigma>) = []"
  shows "pg_guarantee (db (sys_world \<sigma>)) (db (sys_world (on_world m \<sigma>)))"
  using withinD(1)[OF m, of "sys_world \<sigma>"] p
  by (cases "m (sys_world \<sigma>)") (simp add: on_world_def peers_in_def)

lemma claim_into_guarantee:
  assumes "peers (sys_world \<sigma>) = []"
  shows "pg_guarantee (db (sys_world \<sigma>)) (db (sys_world (claim_into D worker limit lease \<sigma>)))"
  using withinD(1)[OF pg_job_port.claim_within, of "sys_world \<sigma>" "dp_locked D" worker limit lease] assms
  by (cases "claim (pg_jobs (dp_locked D)) worker limit lease (sys_world \<sigma>)")
    (auto simp: claim_into_def peers_in_def split: sum.split)

lemma perform_guarantee:
  "admissible a \<sigma> \<Longrightarrow> peers (sys_world \<sigma>) = [] \<Longrightarrow>
   pg_guarantee (db (sys_world \<sigma>)) (db (sys_world (perform D a \<sigma>)))"
proof (induction D a \<sigma> rule: perform.induct)
  case (5 D worker limit lease \<sigma>)
  then show ?case by (simp add: claim_into_guarantee)
qed (auto intro!: on_world_guarantee store.local pg_document_port.issue_within
    pg_document_port.inbound_within pg_processing.processing.process_within pg_job_port.requeue_within
    pg_admin_port.retry_job_within pg_admin_port.retry_dead_delivery_within
    pg_admin_port.create_tenant_within pg_admin_port.create_key_within pg_admin_port.revoke_key_within
    pg_admin_port.certificate_within pg_admin_port.range_within pg_webhook_port.create_webhook_within
    pg_webhook_port.delete_webhook_within pg_webhook_port.claim_deliveries_within
    pg_webhook_port.complete_delivery_within pg_webhook_port.retry_delivery_within
    pg_webhook_port.bury_delivery_within
    simp: system_processor_def processor_requeue_contingency_def)

lemma reachable_guarantee:
  "sys_reachable D \<sigma> \<tau> \<Longrightarrow> sys_inv \<sigma> \<Longrightarrow>
   sys_inv \<tau> \<and> pg_guarantee (db (sys_world \<sigma>)) (db (sys_world \<tau>))"
  unfolding sys_reachable_def
proof (induction rule: rtranclp_induct)
  case base
  then show ?case by (simp add: store.refl)
next
  case (step \<tau> \<upsilon>)
  then have inv: "sys_inv \<tau>" and g: "pg_guarantee (db (sys_world \<sigma>)) (db (sys_world \<tau>))" by auto
  from \<open>sys_step D \<tau> \<upsilon>\<close> obtain a where a: "admissible a \<tau>" "\<upsilon> = perform D a \<tau>"
    by (auto elim: sys_step_cases)
  have "pg_guarantee (db (sys_world \<tau>)) (db (sys_world \<upsilon>))"
    unfolding a(2) using a(1) inv by (intro perform_guarantee) (auto simp: sys_inv_def)
  with g have "pg_guarantee (db (sys_world \<sigma>)) (db (sys_world \<upsilon>))" by (rule store.trans)
  moreover have "sys_inv \<upsilon>" unfolding a(2) using inv a(1) by (rule perform_inv)
  ultimately show ?case by simp
qed

lemma reachable_evolves:
  assumes "sys_reachable D \<sigma> \<tau>" "sys_inv \<sigma>"
  shows "evolves (documents (db (sys_world \<sigma>))) (documents (db (sys_world \<tau>)))"
  using reachable_guarantee[OF assms] assms(2) by (auto simp: pg_guarantee_def sys_inv_def)

section \<open>Runs\<close>

fun sys_run :: "deployment \<Rightarrow> action list \<Rightarrow> system \<Rightarrow> system" where
  "sys_run D [] \<sigma> = \<sigma>"
| "sys_run D (a # as) \<sigma> = sys_run D as (perform D a \<sigma>)"

fun run_admissible :: "deployment \<Rightarrow> action list \<Rightarrow> system \<Rightarrow> bool" where
  "run_admissible D [] \<sigma> = True"
| "run_admissible D (a # as) \<sigma> = (admissible a \<sigma> \<and> run_admissible D as (perform D a \<sigma>))"

lemma reachable_refl [simp]: "sys_reachable D \<sigma> \<sigma>"
  by (simp add: sys_reachable_def)

lemma run_reachable: "run_admissible D as \<sigma> \<Longrightarrow> sys_reachable D \<sigma> (sys_run D as \<sigma>)"
proof (induction as arbitrary: \<sigma>)
  case (Cons a as)
  then have "sys_step D \<sigma> (perform D a \<sigma>)" by (auto intro: act)
  with Cons show ?case
    by (auto simp: sys_reachable_def intro: converse_rtranclp_into_rtranclp)
qed simp

end
