(* ===== verification/Examples.thy ===== *)
theory Examples
  imports System
begin

text \<open>
  A small concrete system on which the theorems are exercised: one tenant with one resolution, a
  signer and a generator with fixed results, and a DIAN whose answers are a parameter.
\<close>

definition ex_now :: instant where "ex_now = 1000"

definition ex_invoice :: invoice_payload where
  "ex_invoice =
     \<lparr>iv_prefix = ''FE'', iv_number = 1, iv_issue_date = ''2026-05-23'', iv_issue_time = ''10:42:00-05:00'',
      iv_company_nit = ''900'', iv_company_name = ''A'', iv_customer_id_type = ''31'',
      iv_customer_id = ''1'', iv_customer_name = ''B'', iv_customer_email = ''b@b'',
      iv_net_amount = F_fin False 1 0, iv_tax_amount = F_fin False 0 0, iv_total_amount = F_fin False 1 0,
      iv_environment = ''2'', iv_technical_key = None, iv_document_type = ''invoice'',
      iv_test_set_id = None, iv_lines = None, iv_billing_reference = None, iv_discrepancy = None,
      iv_software_pin = None\<rparr>"

definition ex_engine :: engine where
  "ex_engine =
     \<lparr>decode_invoice = (\<lambda>_. Inr ex_invoice), decode_payroll = (\<lambda>_. Inl ''none''),
      decode_support_document = (\<lambda>_. Inl ''none''),
      generate_invoice_xml = (\<lambda>_ _. Inr (''<i/>'', ''cufe'')), generate_payroll_xml = (\<lambda>_. Inl ''none''),
      generate_support_document_xml = (\<lambda>_. Inl ''none''),
      generate_attached_document_xml = (\<lambda>_ _ _ _ _ _. Inr ''<a/>''),
      compress_xml_to_zip = (\<lambda>x _ _ _. Inr x), colombia_date_time = (\<lambda>_. (''d'', ''t''))\<rparr>"

definition ex_response :: "string \<Rightarrow> dian_response" where
  "ex_response code = \<lparr>status_code = code, message = ''m'', xml_response = None, soap_trace_id = None\<rparr>"

definition ex_dian :: "dian_response result \<Rightarrow> dian" where
  "ex_dian answer = \<lparr>answers = (\<lambda>_ _ _. answer), answer_keys = (\<lambda>_ _ _. Inr ''key'')\<rparr>"

definition ex_config :: processor_config where
  "ex_config = \<lparr>transmit_max_attempts = 5, poll_max_attempts = 3, poll_initial_delay = 10,
     backoff_base = 2, backoff_max = 600\<rparr>"

definition ex_deployment :: "dian_response result \<Rightarrow> deployment" where
  "ex_deployment answer =
     \<lparr>dp_date_naive = (\<lambda>_. ''date''), dp_locked = (\<lambda>_ _ _. False), dp_sign = (\<lambda>_ _ x. Inr x),
      dp_dian = ex_dian answer, dp_engine = ex_engine, dp_config = ex_config\<rparr>"

definition accepting :: deployment where "accepting = ex_deployment (Inr (ex_response ''00''))"
definition unreachable :: deployment where "unreachable = ex_deployment (Inl (Soap ''timeout''))"

definition ex_start :: system where
  "ex_start =
     \<lparr>sys_world = \<lparr>clock = ex_now, next_uuid = 20, entropy = [], faults = [], peers = [],
        circuit = breakers_new 5 60, dian_log = [], db = pg_empty\<rparr>,
      in_flight = []\<rparr>"

definition ex_audit :: audit_entry where
  "ex_audit = \<lparr>a_action = ''setup'', a_tenant_id = Some 1, a_subject_id = None, a_details = []\<rparr>"

definition ex_tenant :: new_tenant where
  "ex_tenant = \<lparr>nt_id = 1, nt_tax_id = ''900'', nt_registration_name = ''A'', nt_tax_regime = ''48'',
     nt_reception_email = ''a@a''\<rparr>"

definition ex_range :: numbering_range where
  "ex_range = \<lparr>r_id = 2, r_tenant_id = 1, r_document_type = Invoice, r_prefix = ''FE'', r_from_number = 1,
     r_to_number = 10, r_technical_key = ''tk'', r_valid_date_from = 0, r_valid_date_to = 2000,
     r_current_counter = 0\<rparr>"

definition ex_document :: "uuid \<Rightarrow> idempotency_key option \<Rightarrow> new_outbound_document" where
  "ex_document i key = \<lparr>no_id = i, no_tenant_id = 1, no_document_type = Invoice, no_prefix = ''FE'',
     no_requested_number = None, no_payload = [(''environment'', J_str ''2'')], no_idempotency = key\<rparr>"

definition ex_job :: "uuid \<Rightarrow> uuid \<Rightarrow> new_job" where
  "ex_job i document = transmit_job i ex_now document 5"

definition ex_claimed :: "uuid \<Rightarrow> uuid \<Rightarrow> i32 \<Rightarrow> job" where
  "ex_claimed i document attempts =
     \<lparr>job_id = i, job_kind_of = Transmit, job_document_id = document, job_payload = [],
      job_attempts = attempts, job_max_attempts = 5\<rparr>"

definition ex_setup :: "action list" where
  "ex_setup = [Add_tenant ex_tenant ex_audit, Add_range ex_range ex_audit]"

definition ex_issue :: "uuid \<Rightarrow> uuid \<Rightarrow> action" where
  "ex_issue document job = Issue (ex_document document None) (ex_job job document)"

text \<open>The state after setting up and issuing one document, and after a worker has claimed its job.\<close>

definition ex_tenant_row :: tenant where "ex_tenant_row = tenant_row ex_tenant ex_now"

definition ex_range_row :: numbering_range where "ex_range_row = ex_range\<lparr>r_current_counter := 1\<rparr>"

definition ex_document_row :: document where
  "ex_document_row = outbound_row (ex_document 10 None) 1 2 ex_now"

definition ex_job_row :: job_row where "ex_job_row = new_job_row ex_now (ex_job 11 10)"

definition ex_db :: "document list \<Rightarrow> job_row list \<Rightarrow> pg" where
  "ex_db ds js = pg_empty
     \<lparr>tenants := [ex_tenant_row], ranges := [ex_range_row], documents := ds, jobs := js,
      audit_log := [\<lparr>ar_id = 20, ar_entry = ex_audit, ar_created_at = ex_now\<rparr>,
                    \<lparr>ar_id = 21, ar_entry = ex_audit, ar_created_at = ex_now\<rparr>]\<rparr>"

definition ex_world :: "pg \<Rightarrow> pg world" where
  "ex_world s = (sys_world ex_start)\<lparr>next_uuid := 22, db := s\<rparr>"

definition ex_pending :: system where
  "ex_pending = \<lparr>sys_world = ex_world (ex_db [ex_document_row] [ex_job_row]), in_flight = []\<rparr>"

definition ex_running :: system where
  "ex_running =
     \<lparr>sys_world = ex_world (ex_db [ex_document_row] [leased ''w'' 1600 ex_job_row]),
      in_flight = [ex_claimed 11 10 1]\<rparr>"

text \<open>A world without peers is determined by its snapshot.\<close>

definition snapshot :: "system \<Rightarrow>
    bool \<times> instant \<times> uuid \<times> nat list \<times> fault option list \<times> breakers \<times> soap_call list \<times> pg \<times> job list" where
  "snapshot \<sigma> = (let w = sys_world \<sigma> in
     (List.null (peers w), clock w, next_uuid w, entropy w, faults w, circuit w, dian_log w, db w,
      in_flight \<sigma>))"

lemma snapshot_inject: "snapshot \<sigma> = snapshot \<tau> \<Longrightarrow> peers (sys_world \<tau>) = [] \<Longrightarrow> \<sigma> = \<tau>"
  by (rule system.equality)
    (auto simp: snapshot_def Let_def intro!: world.equality)

lemma ex_start_start: "sys_start ex_start"
  by (simp add: sys_start_def ex_start_def)

lemma ex_pending_reachable: "sys_reachable accepting ex_start ex_pending"
proof -
  let ?as = "ex_setup @ [ex_issue 10 11]"
  have "run_admissible accepting ?as ex_start" by code_simp
  moreover have "snapshot (sys_run accepting ?as ex_start) = snapshot ex_pending" by code_simp
  then have "sys_run accepting ?as ex_start = ex_pending"
    by (rule snapshot_inject) (simp add: ex_pending_def ex_world_def ex_start_def)
  ultimately show ?thesis using run_reachable by metis
qed

lemma ex_running_reachable: "sys_reachable accepting ex_pending ex_running"
proof -
  have "snapshot (sys_run accepting [Claim ''w'' 5 600] ex_pending) = snapshot ex_running" by code_simp
  then have "sys_run accepting [Claim ''w'' 5 600] ex_pending = ex_running"
    by (rule snapshot_inject) (simp add: ex_running_def ex_world_def ex_start_def)
  then show ?thesis using run_reachable[of accepting "[Claim ''w'' 5 600]" ex_pending] by simp
qed

lemma ex_inv: "sys_inv ex_pending" "sys_inv ex_running"
  using ex_pending_reachable ex_running_reachable ex_start_start
  by (blast intro: reachable_inv start_inv)+

section \<open>Evaluation of the processor\<close>

lemmas processor_eval =
  process_def transmit_def transmit_admitted_def artifacts_of_def already_accepted_def send_def
  send_bill_def close_accepted_def close_rejected_def transition_def with_new_event_def generate_def
  technical_key_def issuer_nit_def stored_xml_def payload_with_number_def attached_document_def
  response_event_def dian_event_new_def breaker_can_execute_def breaker_success_def
  for_environment_def update_environment_def can_execute_def record_success_def io_bind_def
  io_match_def io_map_err_def new_uuid_def is_habilitacion_def test_set_id_def obj_str_def obj_get_def
  query_def tx_def tx_ids_def transact_def begin_tx_def seen_def Let_def

lemmas store_eval =
  pg_documents_def pg_jobs_def pg_find_document_def pg_find_numbering_range_def
  pg_store_artifacts_def artifacts_tx_def pg_apply_transition_def transition_tx_def close_job_def
  update_jobs_def insert_event_def put_defs constrained_def outbox_rows_def subscribed_def
  documents_ok_def unique_on_def document_key_def document_refs_def references_def job_done_def
  jobs_ok_def one_active_job_def active_jobs_def job_check_def i32_max_def delivery_check_def

lemmas example_eval =
  ex_running_def ex_world_def ex_start_def ex_db_def ex_document_row_def ex_job_row_def
  outbound_row_def ex_document_def leased_def new_job_row_def ex_job_def transmit_job_def
  pg_empty_def ex_claimed_def accepting_def unreachable_def ex_deployment_def system_processor_def
  ex_engine_def ex_dian_def ex_response_def dian_client_def signer_def soap_exchange_def
  ex_config_def breakers_new_def breaker_new_def accepted_codes_def ex_invoice_def ex_now_def
  ex_range_row_def ex_range_def ex_tenant_row_def tenant_row_def ex_tenant_def

text \<open>The claimed job is processed, and the DIAN accepts.\<close>

definition ex_accepted :: system where
  "ex_accepted = sys_run accepting [Work (ex_claimed 11 10 1)] ex_running"

lemma ex_accepted_reachable: "sys_reachable accepting ex_running ex_accepted"
  unfolding ex_accepted_def
  by (rule run_reachable) (simp add: ex_running_def)

lemma ex_accepted_state:
  "map d_status (documents (db (sys_world ex_accepted))) = [DianAccepted] \<and>
   map jr_status (jobs (db (sys_world ex_accepted))) = [Done] \<and>
   dian_log (sys_world ex_accepted) = [Send_bill_sync 1 ''<i/>'' True]"
  unfolding ex_accepted_def sys_run.simps perform.simps on_world_def
  by (simp add: processor_eval store_eval example_eval)

end
