(* ===== verification/Store_Properties.thy ===== *)
theory Store_Properties
  imports Examples
begin

text \<open>
  What the operations of the PostgreSQL store promise to their callers, one operation at a time: the
  issuing of documents and its idempotency keys, status changes with their outbox, the leases of the
  queue, and the administration.
\<close>

section \<open>Issuing\<close>

lemma find_idempotency_solo:
  assumes "peers w = []" "find_idempotency tenant key w = (r, v)"
  shows "db v = db w" "peers v = []" "clock v = clock w"
    "r = Inr None \<longrightarrow> idempotency_lookup tenant key (db w) = None"
    "\<forall>x. r = Inr (Some x) \<longrightarrow> (\<exists>i. idempotency_lookup tenant key (db w) = Some i \<and> x = Replayed (issued_of i))"
proof -
  obtain q u where q: "query (\<lambda>now s. idempotency_lookup tenant key s) w = (q, u)" by force
  note u = query_solo[OF assms(1) q]
  have "v = u" using assms(2) q
    by (auto simp: find_idempotency_def io_bind_def split: sum.splits option.splits)
  with u show "db v = db w" "peers v = []" "clock v = clock w" by simp_all
  show "r = Inr None \<longrightarrow> idempotency_lookup tenant key (db w) = None"
    using assms(2) q u(4)
    by (auto simp: find_idempotency_def io_bind_def split: sum.splits option.splits)
  show "\<forall>x. r = Inr (Some x) \<longrightarrow> (\<exists>i. idempotency_lookup tenant key (db w) = Some i \<and> x = Replayed (issued_of i))"
    using assms(2) q u(4)
    by (auto simp: find_idempotency_def io_bind_def replay_def split: sum.splits option.splits if_splits)
qed

lemma pg_issue_effect:
  assumes "peers w = []" "pg_issue_outbound dn d job w = (r, w')"
  shows "db w' = db w \<and> (\<forall>iss. r \<noteq> Inr (Created iss)) \<or>
    (\<exists>rng n. select_range d (clock w) (db w) = Some rng \<and>
       next_number dn rng (no_requested_number d) (clock w) = Inr n \<and>
       documents (db w') = documents (db w) @ [outbound_row d n (r_id rng) (clock w)] \<and>
       jobs (db w') = jobs (db w) @ [new_job_row (clock w) job] \<and>
       ranges (db w') = update_rows (\<lambda>q. r_id q = r_id rng) (\<lambda>q. q\<lparr>r_current_counter := n\<rparr>) (ranges (db w)) \<and>
       idempotency (db w') = idempotency (db w) @
         (case no_idempotency d of None \<Rightarrow> [] | Some key \<Rightarrow> [idempotency_row_of d key n]) \<and>
       (r = Inr (Created \<lparr>is_document_id = no_id d, is_document_number = n\<rparr>) \<or> r = Inl db_unavailable))"
proof -
  define look where "look = (case no_idempotency d of
      None \<Rightarrow> io_return None | Some key \<Rightarrow> find_idempotency (no_tenant_id d) key)"
  have look_solo: "db v = db u \<and> peers v = [] \<and> clock v = clock u"
    if "peers u = []" "look u = (q, v)" for u q and v :: "pg world"
    using that find_idempotency_solo(1-3)[of u "no_tenant_id d" _ q v]
    by (auto simp: look_def split: option.splits)
  have look_some: "\<forall>x. q = Inr (Some x) \<longrightarrow> (\<exists>i. x = Replayed (issued_of i))"
    if "peers u = []" "look u = (q, v)" for u q and v :: "pg world"
  proof (cases "no_idempotency d")
    case None
    with that show ?thesis by (auto simp: look_def)
  next
    case (Some key)
    with that find_idempotency_solo(5)[of u "no_tenant_id d" key q v] show ?thesis
      by (auto simp: look_def)
  qed
  obtain q1 w1 where 1: "look w = (q1, w1)" by force
  note s1 = look_solo[OF assms(1) 1] and o1 = look_some[OF assms(1) 1]
  have run: "(case q1 of Inl e \<Rightarrow> (Inl e, w1) | Inr (Some out) \<Rightarrow> (Inr out, w1)
    | Inr None \<Rightarrow> io_bind (tx (issue_tx dn d job)) (\<lambda>step. case step of
           Issued issued \<Rightarrow> io_return (Created issued)
         | Key_taken \<Rightarrow> io_bind look (\<lambda>again. io_lift (ok_or key_vanished again))) w1) = (r, w')"
    using assms(2) 1 unfolding pg_issue_outbound_def look_def[symmetric]
    by (auto simp: io_bind_def split: sum.splits option.splits)
  show ?thesis
  proof (cases "q1 = Inr None")
    case False
    with run o1 s1 show ?thesis by (auto split: sum.splits option.splits)
  next
    case True
    obtain q2 w2 where 2: "tx (issue_tx dn d job) w1 = (q2, w2)" by force
    from s1 have p1: "peers w1 = []" by simp
    note s2 = tx_solo[OF p1 2]
    from s2(3) consider (undone) e where "q2 = Inl e" "db w2 = db w1"
      | (taken) "issue_tx dn d job (clock w1) (db w1) = Inr (Key_taken, db w2)"
          "q2 = Inr Key_taken \<or> q2 = Inl db_unavailable"
      | (issued) iss where "issue_tx dn d job (clock w1) (db w1) = Inr (Issued iss, db w2)"
          "q2 = Inr (Issued iss) \<or> q2 = Inl db_unavailable"
      by (metis issue_step.exhaust)
    then show ?thesis
    proof cases
      case undone
      with run True 2 s1 show ?thesis by (auto simp: io_bind_def)
    next
      case taken
      then have same: "db w2 = db w" using s1 by (auto dest: issue_tx_Key_taken)
      obtain q3 w3 where 3: "look w2 = (q3, w3)" by force
      note s3 = look_solo[OF s2(1) 3] and o3 = look_some[OF s2(1) 3]
      show ?thesis
        using run True 2 3 taken(2) same s3 o3
        by (auto simp: io_bind_def ok_or_def split: sum.splits option.splits)
    next
      case issued
      obtain rng :: numbering_range and n where *: "select_range d (clock w) (db w) = Some rng"
        "next_number dn rng (no_requested_number d) (clock w) = Inr n"
        "iss = \<lparr>is_document_id = no_id d, is_document_number = n\<rparr>"
        "ranges (db w2) = update_rows (\<lambda>q. r_id q = r_id rng) (\<lambda>q. q\<lparr>r_current_counter := n\<rparr>) (ranges (db w))"
        "documents (db w2) = documents (db w) @ [outbound_row d n (r_id rng) (clock w)]"
        "jobs (db w2) = jobs (db w) @ [new_job_row (clock w) job]"
        "idempotency (db w2) = idempotency (db w) @
          (case no_idempotency d of None \<Rightarrow> [] | Some key \<Rightarrow> [idempotency_row_of d key n])"
        by (rule issue_tx_effect[OF issued(1)[unfolded conjunct1[OF s1] conjunct2[OF conjunct2[OF s1]]]])
      have "w' = w2" "r = Inr (Created iss) \<or> r = Inl db_unavailable"
        using run True 2 issued(2) by (auto simp: io_bind_def)
      with * show ?thesis by auto
    qed
  qed
qed

text \<open>
  C7. Issuing is all or nothing. Whatever fails, a call that issues a document either leaves the
  database as it was, or has written the document as pending with the next number of the resolution
  in force, the advanced counter, the transmission job and the idempotency key together. A caller
  that gets the document gets the number that was written; a caller that gets an error after a write
  has only lost the acknowledgement.
\<close>

theorem issue_all_or_nothing:
  assumes "peers w = []" "pg_issue_outbound dn d job w = (r, w')"
  shows "db w' = db w \<and> (\<forall>iss. r \<noteq> Inr (Created iss)) \<or>
    (\<exists>rng n. select_range d (clock w) (db w) = Some rng \<and>
       next_number dn rng (no_requested_number d) (clock w) = Inr n \<and>
       documents (db w') = documents (db w) @ [outbound_row d n (r_id rng) (clock w)] \<and>
       jobs (db w') = jobs (db w) @ [new_job_row (clock w) job] \<and>
       ranges (db w') = update_rows (\<lambda>q. r_id q = r_id rng) (\<lambda>q. q\<lparr>r_current_counter := n\<rparr>) (ranges (db w)) \<and>
       idempotency (db w') = idempotency (db w) @
         (case no_idempotency d of None \<Rightarrow> [] | Some key \<Rightarrow> [idempotency_row_of d key n]) \<and>
       (r = Inr (Created \<lparr>is_document_id = no_id d, is_document_number = n\<rparr>) \<or> r = Inl db_unavailable))"
  using assms by (rule pg_issue_effect)

definition ex_key :: "string \<Rightarrow> idempotency_key" where
  "ex_key h = \<lparr>ik_key = ''k'', ik_request_hash = h\<rparr>"

definition ex_issuing :: "pg world" where
  "ex_issuing = ex_world (ex_db [] []\<lparr>ranges := [ex_range]\<rparr>)"

theorem issue_all_or_nothing_witness:
  "map d_document_number (documents (db (snd (pg_issue_outbound (\<lambda>_. []) (ex_document 10 None) (ex_job 11 10)
     (ex_issuing\<lparr>faults := [Some Ack_lost]\<rparr>))))) = [1]"
proof -
  let ?w = "ex_issuing\<lparr>faults := [Some Ack_lost]\<rparr>"
  let ?run = "pg_issue_outbound (\<lambda>_. []) (ex_document 10 None) (ex_job 11 10) ?w"
  have "peers ?w = []" by (simp add: ex_issuing_def ex_world_def ex_start_def)
  moreover have "?run = (fst ?run, snd ?run)" by simp
  ultimately have "db (snd ?run) = db ?w \<or>
      (\<exists>rng n. select_range (ex_document 10 None) (clock ?w) (db ?w) = Some rng \<and>
        next_number (\<lambda>_. []) rng None (clock ?w) = Inr n \<and>
        documents (db (snd ?run)) = documents (db ?w) @ [outbound_row (ex_document 10 None) n (r_id rng) (clock ?w)])"
    using issue_all_or_nothing[of ?w "\<lambda>_. []" "ex_document 10 None" "ex_job 11 10" "fst ?run" "snd ?run"]
    by (auto simp: ex_document_def)
  moreover have "documents (db (snd ?run)) \<noteq> []" "documents (db ?w) = []"
    "select_range (ex_document 10 None) (clock ?w) (db ?w) = Some ex_range"
    by code_simp+
  moreover have "next_number (\<lambda>_. []) ex_range None (clock ?w) = Inr 1" by code_simp
  ultimately show ?thesis by (auto simp: outbound_row_def)
qed

lemma pg_replay:
  assumes "issue_tx dn d job now s = Inr (Issued iss, t)" "no_idempotency d = Some key"
    and "set (idempotency t) \<subseteq> set (idempotency (db w))" "pg_constraints (db w)" "alone w"
    and "no_tenant_id d' = no_tenant_id d" "no_idempotency d' = Some key'" "ik_key key' = ik_key key"
  shows "pg_issue_outbound dn' d' job' w =
    (if trim (ik_request_hash key) = ik_request_hash key' then Inr (Replayed iss)
     else Inl key_reused_error, w)"
proof -
  obtain n where iss: "iss = \<lparr>is_document_id = no_id d, is_document_number = n\<rparr>"
    and t: "idempotency t = idempotency s @
      (case no_idempotency d of None \<Rightarrow> [] | Some key \<Rightarrow> [idempotency_row_of d key n])"
    by (rule issue_tx_effect[OF assms(1)])
  let ?row = "idempotency_row_of d key n"
  have row: "?row \<in> set (idempotency (db w))" using assms(2,3) by (simp add: t)
  have "unique_on (\<lambda>i. (ir_tenant_id i, ir_key i)) (idempotency (db w))"
    using assms(4) by (simp add: pg_constraints_def)
  from find_row_uniqueI[OF this row] assms(6,8)
  have "idempotency_lookup (no_tenant_id d') key' (db w) = Some ?row"
    by (simp add: idempotency_lookup_def idempotency_row_of_def)
  then have "find_idempotency (no_tenant_id d') key' w =
      (if trim (ik_request_hash key) = ik_request_hash key' then Inr (Some (Replayed iss))
       else Inl key_reused_error, w)"
    using assms(5) by (simp add: find_idempotency_def io_bind_def query_alone replay_def iss
        idempotency_row_of_def issued_of_def)
  then show ?thesis
    using assms(7) by (simp add: pg_issue_outbound_def io_bind_def)
qed

text \<open>
  Idempotency. Once a document has been issued under an idempotency key, every later call of the
  same tenant with that key changes nothing: with the same body it returns the document already
  issued, with another body it is refused.
\<close>

theorem idempotent_replay:
  assumes "issue_tx dn d job now s = Inr (Issued iss, t)" "no_idempotency d = Some key"
    and "set (idempotency t) \<subseteq> set (idempotency (db w))" "pg_constraints (db w)" "alone w"
    and "no_tenant_id d' = no_tenant_id d" "no_idempotency d' = Some key'" "ik_key key' = ik_key key"
  shows "pg_issue_outbound dn' d' job' w =
    (if trim (ik_request_hash key) = ik_request_hash key' then Inr (Replayed iss)
     else Inl key_reused_error, w)"
  using assms by (rule pg_replay)

theorem idempotent_replay_witness:
  "fst (pg_issue_outbound (\<lambda>_. []) (ex_document 12 (Some (ex_key ''h''))) (ex_job 13 12)
     (ex_issuing\<lparr>db := (case issue_tx (\<lambda>_. []) (ex_document 10 (Some (ex_key ''h''))) (ex_job 11 10)
        ex_now (db ex_issuing) of Inr (_, t) \<Rightarrow> t | _ \<Rightarrow> pg_empty)\<rparr>))
   = Inr (Replayed \<lparr>is_document_id = 10, is_document_number = 1\<rparr>)"
proof -
  let ?d = "ex_document 10 (Some (ex_key ''h''))" and ?iss = "\<lparr>is_document_id = 10, is_document_number = 1\<rparr>"
  let ?i = "issue_tx (\<lambda>_. []) ?d (ex_job 11 10) ex_now (db ex_issuing)"
  let ?t = "case ?i of Inr (_, t) \<Rightarrow> t | _ \<Rightarrow> pg_empty"
  have c: "(case ?i of Inr (Issued iss, t) \<Rightarrow> iss = ?iss \<and> pg_constraints t | _ \<Rightarrow> False)" by code_simp
  then have i: "?i = Inr (Issued ?iss, ?t)" "pg_constraints ?t"
    by (auto split: sum.splits prod.splits issue_step.splits)
  have h: "trim ''h'' = ''h''" by code_simp
  show ?thesis
    using idempotent_replay[OF i(1), of "ex_key ''h''" "ex_issuing\<lparr>db := ?t\<rparr>"
        "ex_document 12 (Some (ex_key ''h''))" "ex_key ''h''" "\<lambda>_. []" "ex_job 13 12"] i(2) h
    by (simp add: ex_document_def ex_key_def alone_def ex_issuing_def ex_world_def ex_start_def)
qed

end
