(* ===== verification/Queue_Properties.thy ===== *)
theory Queue_Properties
  imports Examples
begin

text \<open>
  Status changes with their outbox, and the leases of the job queue, as the callers of the PostgreSQL
  store see them.
\<close>

section \<open>Status changes and notifications\<close>

lemma map2_map_snd: "length xs = length ys \<Longrightarrow> (\<And>x y. g (f x y) = h y) \<Longrightarrow> map g (map2 f xs ys) = map h ys"
  by (induction xs ys rule: list_induct2) auto

lemma outbox_rows_webhooks:
  "map dl_webhook_id (outbox_rows i now d to s) =
     (case event_for to of None \<Rightarrow> [] | Some e \<Rightarrow> map w_id (subscribed (d_tenant_id d) e (webhooks s)))"
  unfolding outbox_rows_def Let_def
  by (cases "event_for to") (simp, simp only: option.case, rule map2_map_snd, simp_all add: delivery_row_of_def)

lemma outbox_rows_content:
  "n \<in> set (outbox_rows i now d to s) \<Longrightarrow>
     event_for to = Some (dl_event_type n) \<and> dl_document_id n = d_id d \<and> dl_data n = document_data d to \<and>
     dl_status n = Del_Queued \<and> dl_attempts n = 0 \<and> dl_max_attempts n = max_delivery_attempts \<and>
     dl_run_at n = now"
  by (auto simp: outbox_rows_def Let_def delivery_row_of_def split: option.splits elim: in_set_zipE)

text \<open>
  C8. A status change and its notifications are one step. A call that applies a transition either
  changes nothing, or changes the status of the one document from an allowed status, and then adds
  exactly one queued delivery for every active subscription of the document's tenant to that event (or
  to all events), each with the notification data of the document; no event, no delivery.
\<close>

theorem transition_with_outbox:
  assumes "peers w = []" "pg_inv (db w)" "pg_apply_transition t w = (r, w')"
  shows "db w' = db w \<and> r \<noteq> Inr True \<or>
    (\<exists>d new. find_row (\<lambda>d. d_id d = tr_document_id t) (documents (db w)) = Some d \<and>
       can_transition_to (d_status d) (tr_to t) \<and>
       find_row (\<lambda>d. d_id d = tr_document_id t) (documents (db w')) = Some (d\<lparr>d_status := tr_to t\<rparr>) \<and>
       deliveries (db w') = deliveries (db w) @ new \<and>
       map dl_webhook_id new =
         (case event_for (tr_to t) of
            None \<Rightarrow> []
          | Some e \<Rightarrow> map w_id (filter (\<lambda>h. w_tenant_id h = d_tenant_id d \<and>
              w_subscription_status h = Sub_Active \<and> w_event_type h \<in> {e, ''*''}) (webhooks (db w)))) \<and>
       (\<forall>n \<in> set new. event_for (tr_to t) = Some (dl_event_type n) \<and> dl_status n = Del_Queued \<and>
          dl_document_id n = d_id d \<and> dl_data n = document_data d (tr_to t)))"
proof -
  from assms(3) have "tx_ids (transition_tx t) w = (r, w')" by (simp add: pg_apply_transition_def)
  from tx_ids_solo(3)[OF assms(1) this] consider (undone) e where "r = Inl e" "db w' = db w"
    | (applied) b n where "transition_tx t (clock w) (next_uuid w) (db w) = Inr (b, n, db w')"
        "r = Inr b \<or> r = Inl db_unavailable"
    by blast
  then show ?thesis
  proof cases
    case (applied b n)
    note b = applied(1) and r = applied(2)
    show ?thesis
    proof (cases b)
      case False
      with b r show ?thesis by (auto dest!: transition_tx_False)
    next
      case True
      with b obtain d where
        d: "find_row (transition_target t) (documents (db w)) = Some d" and
        docs: "documents (db w') = update_rows (transition_target t) (\<lambda>d. d\<lparr>d_status := tr_to t\<rparr>) (documents (db w))" and
        dels: "deliveries (db w') = deliveries (db w) @ outbox_rows (next_uuid w) (clock w) d (tr_to t) (db w)"
        by (auto elim!: transition_tx_effect)
      have u: "unique_on d_id (documents (db w))"
        using assms(2) by (simp add: pg_inv_def pg_constraints_def documents_ok_def)
      have d': "d \<in> set (documents (db w))" "d_id d = tr_document_id t" "can_transition_to (d_status d) (tr_to t)"
        using find_row_SomeD[OF d] by (auto simp: transition_target_def can_transition_to_def)
      have here: "find_row (\<lambda>d. d_id d = tr_document_id t) (documents (db w)) = Some d"
        using find_row_uniqueI[OF u d'(1)] d'(2) by simp
      have "find_row (\<lambda>d. d_id d = tr_document_id t) (documents (db w')) =
          map_option (\<lambda>x. if transition_target t x then x\<lparr>d_status := tr_to t\<rparr> else x) (Some d)"
        unfolding docs here[symmetric] by (rule find_row_update_rows) (simp add: transition_target_def)
      moreover have "transition_target t d" using find_row_SomeD[OF d] by simp
      ultimately show ?thesis
        using here d' dels outbox_rows_webhooks[of "next_uuid w" "clock w" d "tr_to t" "db w"]
          outbox_rows_content[of _ "next_uuid w" "clock w" d "tr_to t" "db w"]
        by (intro disjI2 exI[of _ d] exI[of _ "outbox_rows (next_uuid w) (clock w) d (tr_to t) (db w)"])
          (auto simp: subscribed_def event_all_def split: option.splits)
    qed
  qed auto
qed

definition ex_hook :: "uuid \<Rightarrow> string \<Rightarrow> webhook" where
  "ex_hook i e = \<lparr>w_id = i, w_tenant_id = 1, w_target_url = ''u'', w_webhook_secret = ''s'',
     w_event_type = e, w_subscription_status = Sub_Active\<rparr>"

definition ex_hooked :: "pg world" where
  "ex_hooked = (sys_world ex_running)\<lparr>db := (db (sys_world ex_running))\<lparr>webhooks :=
     [ex_hook 30 ''*'', ex_hook 31 ''document.failed'']\<rparr>\<rparr>"

theorem transition_with_outbox_witness:
  "map dl_webhook_id (deliveries (db (snd (pg_apply_transition (transition_new 10 DianAccepted) ex_hooked)))) = [30]"
proof -
  let ?t = "transition_new 10 DianAccepted"
  let ?run = "pg_apply_transition ?t ex_hooked"
  have p: "peers ex_hooked = []"
    by (simp add: ex_hooked_def ex_running_def ex_world_def ex_start_def)
  have inv: "pg_inv (db ex_hooked)"
  proof -
    have "pg_constraints (db ex_hooked)" by code_simp
    moreover have "numbering_inv (db ex_hooked)"
      using ex_inv(2) by (simp add: sys_inv_def pg_inv_def numbering_inv_def ex_hooked_def)
    ultimately show ?thesis by (simp add: pg_inv_def)
  qed
  have ok: "fst ?run = Inr True" by code_simp
  have w: "deliveries (db ex_hooked) = []" "webhooks (db ex_hooked) = [ex_hook 30 ''*'', ex_hook 31 ''document.failed'']"
    by code_simp+
  have d: "find_row (\<lambda>d. d_id d = 10) (documents (db ex_hooked)) = Some ex_document_row" "d_tenant_id ex_document_row = 1"
    by code_simp+
  have "?run = (fst ?run, snd ?run)" by simp
  from transition_with_outbox[OF p inv this] ok d show ?thesis
    by (simp add: w) (simp add: ex_hook_def)
qed

section \<open>Leases\<close>

lemma claim_tx_effect:
  assumes "claim_tx locked worker limit lease now s = Inr (js, t)"
  obtains cs where "set cs \<subseteq> set (jobs s)" "int (length cs) \<le> limit" "\<forall>c \<in> set cs. claimable now c"
    and "jobs t = update_rows (\<lambda>j. jr_id j \<in> jr_id ` set cs)
      (\<lambda>j. (leased worker (now + lease) j)\<lparr>jr_updated_at := now\<rparr>) (jobs s)"
    and "js = map job_of_row (filter (\<lambda>j. jr_id j \<in> jr_id ` set cs) (jobs t))"
proof -
  define ready where "ready = order_by jr_run_at (filter (\<lambda>j. claimable now j \<and> \<not> locked now s (jr_id j)) (jobs s))"
  let ?cs = "take (nat limit) ready"
  from assms have l: "0 \<le> limit"
    and u: "update_jobs now (\<lambda>j. jr_id j \<in> jr_id ` set ?cs) (leased worker (now + lease)) s = Inr t"
    and js: "js = map job_of_row (filter (\<lambda>j. jr_id j \<in> jr_id ` set ?cs) (jobs t))"
    unfolding claim_tx_def ready_def[symmetric] by (auto simp: bind_simps Let_def)
  have ready: "set ready \<subseteq> set (jobs s)" "\<forall>c \<in> set ready. claimable now c" by (auto simp: ready_def)
  show thesis
  proof (rule that[of ?cs])
    show "set ?cs \<subseteq> set (jobs s)" "\<forall>c \<in> set ?cs. claimable now c"
      using ready by (auto dest: in_set_takeD)
    show "int (length ?cs) \<le> limit" using l by simp
    show "jobs t = update_rows (\<lambda>j. jr_id j \<in> jr_id ` set ?cs)
      (\<lambda>j. (leased worker (now + lease) j)\<lparr>jr_updated_at := now\<rparr>) (jobs s)"
      using u by (auto simp: update_jobs_def put_Inr)
    show "js = map job_of_row (filter (\<lambda>j. jr_id j \<in> jr_id ` set ?cs) (jobs t))" by (rule js)
  qed
qed

lemma filter_ids_length:
  assumes "unique_on k rs"
  shows "length (filter (\<lambda>r. k r \<in> k ` set qs) rs) \<le> length qs"
proof -
  have "distinct (map k (filter (\<lambda>r. k r \<in> k ` set qs) rs))"
    using unique_on_filter[OF assms] by (simp add: unique_on_def)
  then have "length (filter (\<lambda>r. k r \<in> k ` set qs) rs) = card (k ` set (filter (\<lambda>r. k r \<in> k ` set qs) rs))"
    by (metis distinct_card length_map list.set_map)
  also have "\<dots> \<le> card (k ` set qs)" by (intro card_mono) auto
  also have "\<dots> \<le> length qs" by (metis card_length card_image_le finite_set le_trans)
  finally show ?thesis .
qed

text \<open>The two statements of a claim.\<close>

lemma pg_claim_cases:
  assumes "peers w = []" "pg_inv (db w)" "pg_claim locked worker limit lease w = (Inr js, w')"
  obtains s where "pg_inv s" "claim_tx locked worker limit lease (clock w) s = Inr (js, db w')"
    and "bury_expired_tx (clock w) (db w) = Inr ((), s)" "peers w' = []" "clock w' = clock w"
proof -
  obtain q u where 1: "tx bury_expired_tx w = (q, u)" by force
  note s1 = tx_solo[OF assms(1) 1]
  from assms(3) 1 obtain a where q: "q = Inr a" and 2: "tx (claim_tx locked worker limit lease) u = (Inr js, w')"
    by (auto simp: pg_claim_def io_bind_def split: sum.splits)
  note s2 = tx_solo[OF s1(1) 2]
  have b: "bury_expired_tx (clock w) (db w) = Inr ((), db u)" using s1(3) q by auto
  moreover have "pg_inv (db u)"
    using job_tx_quiet(1)[OF b] assms(2) by (auto dest!: quiet_guarantee simp: pg_guarantee_def)
  moreover have "claim_tx locked worker limit lease (clock w) (db u) = Inr (js, db w')"
    using s2(3) s1(2) by auto
  ultimately show thesis using that s2 s1 by auto
qed

lemma pg_claim_leases:
  assumes "peers w = []" "pg_inv (db w)" "pg_claim locked worker limit lease w = (Inr js, w')"
  shows "int (length js) \<le> limit"
    and "\<forall>j \<in> set js. \<exists>r \<in> set (jobs (db w')). job_of_row r = j \<and> jr_status r = Running \<and>
      jr_locked_by r = Some worker \<and> jr_locked_until r = Some (clock w + lease) \<and>
      1 \<le> job_attempts j \<and> job_attempts j \<le> job_max_attempts j"
proof -
  from pg_claim_cases[OF assms] obtain s where s: "pg_inv s"
    and c: "claim_tx locked worker limit lease (clock w) s = Inr (js, db w')" by metis
  from c obtain cs where cs: "set cs \<subseteq> set (jobs s)" "int (length cs) \<le> limit" "\<forall>c \<in> set cs. claimable (clock w) c"
    and t: "jobs (db w') = update_rows (\<lambda>j. jr_id j \<in> jr_id ` set cs)
      (\<lambda>j. (leased worker (clock w + lease) j)\<lparr>jr_updated_at := clock w\<rparr>) (jobs s)"
    and js: "js = map job_of_row (filter (\<lambda>j. jr_id j \<in> jr_id ` set cs) (jobs (db w')))"
    by (rule claim_tx_effect)
  have u: "unique_on jr_id (jobs s)" using s by (simp add: pg_inv_def pg_constraints_def jobs_ok_def)
  then have "unique_on jr_id (jobs (db w'))"
    unfolding t by (subst unique_on_update_rows) (simp_all add: leased_def)
  from filter_ids_length[OF this, of cs] cs(2) show "int (length js) \<le> limit" by (simp add: js)
  show "\<forall>j \<in> set js. \<exists>r \<in> set (jobs (db w')). job_of_row r = j \<and> jr_status r = Running \<and>
      jr_locked_by r = Some worker \<and> jr_locked_until r = Some (clock w + lease) \<and>
      1 \<le> job_attempts j \<and> job_attempts j \<le> job_max_attempts j"
  proof
    fix j assume "j \<in> set js"
    then obtain r where r: "r \<in> set (jobs (db w'))" "jr_id r \<in> jr_id ` set cs" "job_of_row r = j"
      by (auto simp: js)
    from r(1) obtain x where x: "x \<in> set (jobs s)" "jr_id x \<in> jr_id ` set cs"
      "r = (leased worker (clock w + lease) x)\<lparr>jr_updated_at := clock w\<rparr>"
      unfolding t by (cases rule: update_rows_cases) (use r(2) in auto)
    from selected_row[OF u cs(1) x(1,2)] cs(3) have "claimable (clock w) x" by simp
    moreover have "0 \<le> jr_attempts x"
      using s x(1) by (auto simp: pg_inv_def pg_constraints_def list_all_iff job_check_def)
    ultimately show "\<exists>r \<in> set (jobs (db w')). job_of_row r = j \<and> jr_status r = Running \<and>
      jr_locked_by r = Some worker \<and> jr_locked_until r = Some (clock w + lease) \<and>
      1 \<le> job_attempts j \<and> job_attempts j \<le> job_max_attempts j"
      using r x(3) by (intro bexI[of _ r]) (auto simp: leased_def job_of_row_def claimable_def)
  qed
qed

text \<open>
  C9. What a claim gives. A worker that claims jobs gets at most as many as it asked for, and each of
  them now runs under its name with a lease of the length it asked for, on an attempt that does not
  exceed the job's maximum.
\<close>

theorem claim_gives_leases:
  assumes "peers w = []" "pg_inv (db w)" "pg_claim locked worker limit lease w = (Inr js, w')"
  shows "int (length js) \<le> limit \<and>
    (\<forall>j \<in> set js. \<exists>r \<in> set (jobs (db w')). job_of_row r = j \<and> jr_status r = Running \<and>
      jr_locked_by r = Some worker \<and> jr_locked_until r = Some (clock w + lease) \<and>
      1 \<le> job_attempts j \<and> job_attempts j \<le> job_max_attempts j)"
  using pg_claim_leases[OF assms] by simp

theorem claim_gives_leases_witness:
  "\<exists>r \<in> set (jobs (db (snd (pg_claim (\<lambda>_ _ _. False) ''w'' 5 600 (sys_world ex_pending))))).
     job_of_row r = ex_claimed 11 10 1 \<and> jr_locked_until r = Some 1600"
proof -
  let ?run = "pg_claim (\<lambda>_ _ _. False) ''w'' 5 600 (sys_world ex_pending)"
  have "?run = (Inr [ex_claimed 11 10 1], snd ?run)"
    by (rule prod_eqI) (code_simp, simp)
  from conjunct2[OF claim_gives_leases[OF _ _ this]] ex_inv(1)
  have "\<exists>r \<in> set (jobs (db (snd ?run))). job_of_row r = ex_claimed 11 10 1 \<and>
      jr_locked_until r = Some (clock (sys_world ex_pending) + 600)"
    by (auto simp: sys_inv_def)
  moreover have "clock (sys_world ex_pending) = 1000" by code_simp
  ultimately show ?thesis by simp
qed



end
