(* ===== verification/Processing_Properties.thy ===== *)
theory Processing_Properties
  imports Examples
begin

text \<open>
  What one processing of a job does: which calls to the DIAN it makes, that the XML it sends is the one
  the database keeps, and how each outcome closes, reschedules or buries the job.
\<close>

section \<open>Operations that make no call to the DIAN\<close>

lemma preserves_Pair [preserved]: "preserves obs (Pair x)"
  by (simp add: preserves_def)

lemma preserves_reading: "(\<And>x. preserves obs (m x)) \<Longrightarrow> preserves obs (\<lambda>w. m (f w) w)"
  by (simp add: preserves_def)

lemma preserves_after:
  "(\<And>w. obs (f w) = obs w) \<Longrightarrow> preserves obs m \<Longrightarrow> preserves obs (\<lambda>w. m (f w))"
  by (simp add: preserves_def)

lemma preserves_then:
  "(\<And>w. obs (snd (g w)) = obs w) \<Longrightarrow> (\<And>w x. preserves obs (k w x)) \<Longrightarrow>
   preserves obs (\<lambda>w. case g w of (x, v) \<Rightarrow> k w x v)"
  unfolding preserves_def by (metis (no_types, lifting) case_prod_beta)

lemma new_uuid_log [simp]: "dian_log (snd (new_uuid w)) = dian_log w" "clock (snd (new_uuid w)) = clock w"
  by (simp_all add: new_uuid_def)

lemma breaker_log [simp]:
  "dian_log (breaker_success h w) = dian_log w" "dian_log (breaker_failure h w) = dian_log w"
  "dian_log (snd (retry_delay c n w)) = dian_log w"
  by (simp_all add: breaker_success_def breaker_failure_def retry_delay_def draw_def split: list.split)

lemma log_new_event [preserved]:
  "(\<And>e. preserves dian_log (k e)) \<Longrightarrow> preserves dian_log (with_new_event build k)"
  unfolding with_new_event_def by (rule preserves_then) simp_all

lemma pg_documents_log [preserved]:
  "preserves dian_log (find_document (pg_documents dn) i)"
  "preserves dian_log (find_numbering_range (pg_documents dn) i)"
  "preserves dian_log (store_artifacts (pg_documents dn) i c x y)"
  "preserves dian_log (record_event (pg_documents dn) e)"
  "preserves dian_log (apply_transition (pg_documents dn) t)"
  by (simp_all add: pg_documents_def pg_find_document_def pg_find_numbering_range_def
      pg_store_artifacts_def pg_record_event_def pg_apply_transition_def preserved)

lemma pg_jobs_log [preserved]:
  "preserves dian_log (complete (pg_jobs lk) i)" "preserves dian_log (bury (pg_jobs lk) i m)"
  "preserves dian_log (release (pg_jobs lk) i at)" "preserves dian_log (retry (pg_jobs lk) i at m)"
  by (simp_all add: pg_jobs_def pg_complete_def pg_bury_def pg_release_def pg_retry_def preserved)

lemma signer_log [preserved]: "preserves dian_log (sign_for_tenant (signer f) t x)"
  by (simp add: preserves_def signer_def)

lemma transition_log [preserved]:
  "preserves dian_log (transition (pg_processor dn lk f dian eng cfg) j t)"
  by (auto simp: transition_def intro!: preserved)

lemma closing_log [preserved]:
  "preserves dian_log (fail (pg_processor dn lk f dian eng cfg) j d reason)"
  "preserves dian_log (close_accepted (pg_processor dn lk f dian eng cfg) j d r)"
  "preserves dian_log (close_rejected (pg_processor dn lk f dian eng cfg) j d r)"
  by (simp_all add: fail_def close_accepted_def close_rejected_def preserved)

lemma retry_after_log [preserved]:
  "preserves dian_log (\<lambda>w. case retry_delay cfg n w of (delay, v) \<Rightarrow>
     retry (pg_jobs lk) i (clock v + delay) m v)"
proof (rule preserves_then[where k = "\<lambda>_ delay v. retry (pg_jobs lk) i (clock v + delay) m v"])
  show "preserves dian_log (\<lambda>v. retry (pg_jobs lk) i (clock v + delay) m v)" for delay
    by (rule preserves_reading[where m = "\<lambda>at. retry (pg_jobs lk) i at m"]) (rule pg_jobs_log)
qed simp

lemma transmission_failed_log [preserved]:
  "preserves dian_log (transmission_failed (pg_processor dn lk f dian eng cfg) j d e)"
  unfolding transmission_failed_def Let_def
  by (rule preserves_after[where f = "breaker_failure (is_habilitacion d)"])
    (auto intro!: preserved)

lemma artifacts_of_preserves:
  assumes "\<And>i. preserves obs (find_numbering_range (p_documents p) i)"
    and "\<And>c x y. preserves obs (store_artifacts (p_documents p) (d_id d) c x y)"
    and "\<And>x. preserves obs (sign_for_tenant (p_signer p) (d_tenant_id d) x)"
  shows "preserves obs (artifacts_of p d)"
proof -
  have "preserves obs (generate p d)"
    by (auto simp: generate_def technical_key_def intro!: preserved assms
        split: document_type.split option.split)
  then show ?thesis
    by (auto simp: artifacts_of_def intro!: preserved assms split: option.split)
qed

lemma artifacts_of_log [preserved]:
  "preserves dian_log (artifacts_of (pg_processor dn lk f dian eng cfg) d)"
  by (rule artifacts_of_preserves) (simp_all add: preserved)

lemma artifacts_of_clock [preserved]:
  "preserves clock (artifacts_of (pg_processor dn lk f dian eng cfg) d)"
  by (rule artifacts_of_preserves)
    (simp_all add: pg_documents_def pg_find_numbering_range_def pg_store_artifacts_def preserved,
     simp add: preserves_def signer_def)

lemma attached_document_log [preserved]:
  "preserves dian_log (attached_document (pg_processor dn lk f dian eng cfg) d art x)"
proof -
  have "preserves dian_log (\<lambda>w. case new_uuid w of (i, v) \<Rightarrow> io_bind (io_lift (g i (clock w))) (\<lambda>xml.
      io_map_err domain_error_display (sign_for_tenant (signer f) (d_tenant_id d) xml)) v)" for g
    by (rule preserves_then[where k = "\<lambda>w i. io_bind (io_lift (g i (clock w))) (\<lambda>xml.
        io_map_err domain_error_display (sign_for_tenant (signer f) (d_tenant_id d) xml))"])
      (auto intro!: preserved)
  then show ?thesis
    unfolding attached_document_def pg_processor_simps
    by (intro preserves_match preserves_bind preserves_pure)
qed

lemma poll_again_log [preserved]:
  "preserves dian_log (poll_again (pg_processor dn lk f dian eng cfg) j d m)"
  by (auto simp: poll_again_def Let_def intro!: preserved)

section \<open>The calls of one processing\<close>

lemma match_exchange:
  "io_match (soap_exchange ans call) f g w =
     (case ans (clock w) (dian_log w) call of Inl e \<Rightarrow> f e | Inr a \<Rightarrow> g a)
       (w\<lparr>dian_log := dian_log w @ [call]\<rparr>)"
  by (simp add: io_match_def soap_exchange_def split: sum.split)

lemma match_exchange_log:
  assumes "io_match (soap_exchange ans call) f g w = (r, v)"
    and "\<And>e. preserves dian_log (f e)" "\<And>a. preserves dian_log (g a)"
  shows "dian_log v = dian_log w @ [call]"
proof -
  have "preserves dian_log (case ans (clock w) (dian_log w) call of Inl e \<Rightarrow> f e | Inr a \<Rightarrow> g a)"
    using assms(2,3) by (simp split: sum.split)
  from preservesD[OF this assms(1)[unfolded match_exchange]] show ?thesis by simp
qed

text \<open>The archive a call transmits.\<close>

fun sent_archive :: "soap_call \<Rightarrow> string option" where
  "sent_archive (Send_bill_sync t z h) = Some z"
| "sent_archive (Send_bill_async t z h) = Some z"
| "sent_archive (Send_test_set_async t z s h) = Some z"
| "sent_archive (Send_event_update_status t z h) = Some z"
| "sent_archive (Get_status t k h) = None"
| "sent_archive (Get_status_zip t k h) = None"

lemma send_test_set_calls:
  assumes "send_test_set (pg_processor dn lk f dian eng cfg) j d z s w = (r, v)"
  shows "dian_log v = dian_log w @ [Send_test_set_async (d_tenant_id d) z s (is_habilitacion d)]"
proof (rule match_exchange_log[OF assms[unfolded send_test_set_def dian_client_def pg_processor_simps
      dian_soap_client.simps]])
  let ?P = "pg_processor dn lk f dian eng cfg"
  have "preserves dian_log (\<lambda>v. case new_uuid v of (i, u) \<Rightarrow> transition ?P j (t i (clock v)) u)" for t
    by (rule preserves_then[where k = "\<lambda>v i. transition ?P j (t i (clock v))"]) (simp_all add: preserved)
  then show "preserves dian_log (\<lambda>w. with_new_event b (\<lambda>e v. case new_uuid v of (i, u) \<Rightarrow>
      transition ?P j (t e i (clock v)) u) (breaker_success h w))" for b t h
    by (intro preserves_after[where f = "breaker_success h"] log_new_event) simp_all
qed (rule transmission_failed_log)

lemma send_bill_calls:
  assumes "send_bill (pg_processor dn lk f dian eng cfg) j d art z w = (r, v)"
  shows "dian_log v = dian_log w @ [Send_bill_sync (d_tenant_id d) z (is_habilitacion d)]"
proof (rule match_exchange_log[OF assms[unfolded send_bill_def dian_client_def pg_processor_simps
      dian_soap_client.simps Let_def]])
  let ?P = "pg_processor dn lk f dian eng cfg"
  show "preserves dian_log (\<lambda>w. io_bind ((if a x then close_accepted else close_rejected) ?P j d x) (\<lambda>_.
      if b x then attached_document ?P d art (y x) else io_return ()) (breaker_success h w))" for a x b y h
    by (rule preserves_after[where f = "breaker_success h"]) (auto intro!: preserved)
qed (rule transmission_failed_log)

lemma send_calls:
  assumes "send (pg_processor dn lk f dian eng cfg) j d art w = (r, v)"
  shows "dian_log v = dian_log w \<or>
    (\<exists>c z. dian_log v = dian_log w @ [c] \<and> sent_archive c = Some z \<and>
       (c = Send_bill_sync (d_tenant_id d) z (is_habilitacion d) \<and> test_set_id d = None \<or>
        (\<exists>s. c = Send_test_set_async (d_tenant_id d) z s (is_habilitacion d))) \<and>
       compress_xml_to_zip eng (ar_signed_xml art) (ar_issuer_nit art) (d_prefix d) (d_document_number d) = Inr z)"
proof (cases "compress_xml_to_zip eng (ar_signed_xml art) (ar_issuer_nit art) (d_prefix d) (d_document_number d)")
  case (Inl e)
  with assms preservesD[OF closing_log(1)] show ?thesis by (auto simp: send_def)
next
  case (Inr z)
  show ?thesis
  proof (cases "test_set_id d")
    case (Some set_id)
    with assms Inr send_test_set_calls[of dn lk f dian eng cfg j d z set_id w r v] show ?thesis
      by (auto simp: send_def)
  next
    case None
    with assms Inr send_bill_calls[of dn lk f dian eng cfg j d art z w r v] show ?thesis
      by (auto simp: send_def)
  qed
qed

section \<open>The XML that is sent is the XML that is stored\<close>

definition stored_artifacts :: "pg \<Rightarrow> (uuid \<times> string option \<times> string \<times> string \<times> i32) list" where
  "stored_artifacts s =
     map (\<lambda>d. (d_id d, d_signed_xml d, d_cufe_cude d, d_prefix d, d_document_number d)) (documents s)"

abbreviation (input) artifacts_stay :: "pg \<Rightarrow> pg \<Rightarrow> bool" where
  "artifacts_stay \<equiv> \<lambda>s t. stored_artifacts t = stored_artifacts s"

interpretation artifacts_kept: guarantee nobody artifacts_stay
  by unfold_locales (auto simp: nobody_def)

lemma transition_tx_artifacts: "transition_tx t now i s = Inr (b, n, s') \<Longrightarrow> artifacts_stay s s'"
proof (cases b)
  case True
  assume t: "transition_tx t now i s = Inr (b, n, s')"
  show ?thesis
    by (rule transition_tx_effect[OF t[unfolded eqTrueI[OF True]]])
      (simp add: stored_artifacts_def update_rows_def)
qed (auto dest: transition_tx_False)

lemma update_job_tx_artifacts: "update_job_tx i g now s = Inr (u, t) \<Longrightarrow> artifacts_stay s t"
  by (auto simp: update_job_tx_def update_jobs_def bind_simps put_Inr stored_artifacts_def)

lemma insert_event_artifacts: "insert_event e s = Inr t \<Longrightarrow> artifacts_stay s t"
  by (auto simp: insert_event_def bind_simps put_Inr stored_artifacts_def)

lemma pg_jobs_artifacts:
  "within nobody artifacts_stay (complete (pg_jobs lk) i)" "within nobody artifacts_stay (bury (pg_jobs lk) i m)"
  "within nobody artifacts_stay (retry (pg_jobs lk) i at m)"
  by (auto simp: pg_jobs_def pg_complete_def pg_bury_def pg_retry_def intro!: artifacts_kept.transaction
      dest: update_job_tx_artifacts)

lemma pg_apply_artifacts: "within nobody artifacts_stay (apply_transition (pg_documents dn) t)"
  by (auto simp: pg_documents_def pg_apply_transition_def intro!: artifacts_kept.transaction_ids
      dest: transition_tx_artifacts)

interpretation artifacts_kept: job_sending nobody artifacts_stay "pg_processor dn lk f dian eng cfg" j
  for dn lk f dian eng cfg j
proof (unfold job_sending_def job_sending_axioms_def pg_processor_simps, intro conjI allI impI)
  show "within nobody artifacts_stay (record_event (pg_documents dn) e)" for e
    by (auto simp: pg_documents_def pg_record_event_def bind_simps
        intro!: artifacts_kept.transaction dest: insert_event_artifacts)
  show "within nobody artifacts_stay (transition (pg_processor dn lk f dian eng cfg) j t)" for t
    by (auto simp: transition_def intro!: artifacts_kept.bind artifacts_kept.return pg_apply_artifacts
        pg_jobs_artifacts)
qed (simp_all add: artifacts_kept.guarantee_axioms artifacts_kept.signing_port artifacts_kept.client_port
    pg_jobs_artifacts)

abbreviation (input) unchanged :: "pg \<Rightarrow> pg \<Rightarrow> bool" where
  "unchanged \<equiv> \<lambda>s t. t = s"

interpretation reading: guarantee nobody unchanged
  by unfold_locales (auto simp: nobody_def)

lemma generate_unchanged: "within nobody unchanged (generate (pg_processor dn lk f dian eng cfg) d)"
proof -
  have "within nobody unchanged (technical_key (pg_processor dn lk f dian eng cfg) d x)" for x
    by (auto simp: technical_key_def pg_documents_def pg_find_numbering_range_def
        intro!: reading.bind reading.map_err reading.read reading.lift split: option.split)
  then show ?thesis
    by (auto simp: generate_def intro!: reading.bind reading.lift split: document_type.split)
qed

lemma artifacts_tx_documents: "artifacts_tx i c x y now s = Inr (u, t) \<Longrightarrow>
    documents t = update_rows (\<lambda>d. d_id d = i)
      (\<lambda>d. d\<lparr>d_cufe_cude := c, d_original_xml := Some x, d_signed_xml := Some y\<rparr>) (documents s)"
  by (auto simp: artifacts_tx_def bind_simps put_Inr split: if_splits)

lemma store_artifacts_solo:
  assumes w: "peers w = []" "d \<in> set (documents (db w))"
    and run: "store_artifacts (pg_documents dn) (d_id d) c x y w = (Inr (), v)"
  shows "(d_id d, Some y, c, d_prefix d, d_document_number d) \<in> set (stored_artifacts (db v))"
proof -
  from run have "tx (artifacts_tx (d_id d) c x y) w = (Inr (), v)"
    by (simp add: pg_documents_def pg_store_artifacts_def)
  from tx_solo(3)[OF w(1) this] obtain u where "artifacts_tx (d_id d) c x y (clock w) (db w) = Inr (u, db v)"
    by auto
  then have "documents (db v) = update_rows (\<lambda>e. d_id e = d_id d)
      (\<lambda>e. e\<lparr>d_cufe_cude := c, d_original_xml := Some x, d_signed_xml := Some y\<rparr>) (documents (db w))"
    by (rule artifacts_tx_documents)
  with w(2) show ?thesis by (force simp: stored_artifacts_def update_rows_def)
qed

lemma artifacts_of_solo:
  assumes w: "peers w = []" "d \<in> set (documents (db w))"
    and run: "artifacts_of (pg_processor dn lk f dian eng cfg) d w = (r, v)"
  shows "peers v = []"
    and "r = Inr art \<Longrightarrow> issuer_nit (pg_processor dn lk f dian eng cfg) d = Inr (ar_issuer_nit art) \<and>
      (d_id d, Some (ar_signed_xml art), ar_cufe art, d_prefix d, d_document_number d)
        \<in> set (stored_artifacts (db v))"
proof -
  let ?P = "pg_processor dn lk f dian eng cfg"
  show "peers v = []" using withinD(2)[OF pg_work.artifacts_of_within _ run] w by simp
  assume r: "r = Inr art"
  with run obtain nit where nit: "issuer_nit ?P d = Inr nit"
    by (cases "issuer_nit ?P d") (auto simp: artifacts_of_def io_bind_def)
  show "issuer_nit ?P d = Inr (ar_issuer_nit art) \<and>
      (d_id d, Some (ar_signed_xml art), ar_cufe art, d_prefix d, d_document_number d)
        \<in> set (stored_artifacts (db v))"
  proof (cases "stored_xml d")
    case (Some xml)
    with run r nit have "v = w" "art = \<lparr>ar_signed_xml = xml, ar_cufe = d_cufe_cude d, ar_issuer_nit = nit\<rparr>"
      by (simp_all add: artifacts_of_def io_bind_def)
    with Some nit w(2) show ?thesis
      by (force simp: stored_xml_def stored_artifacts_def split: if_splits)
  next
    case None
    obtain q u where g: "generate ?P d w = (q, u)" by force
    have u: "db u = db w" "peers u = []"
      using withinD[OF generate_unchanged _ g] w(1) by simp_all
    from run r nit None g obtain x c y where
      q: "q = Inr (x, c)" and y: "f (clock u) (d_tenant_id d) x = Inr y" and
      s: "store_artifacts (pg_documents dn) (d_id d) c x y u = (Inr (), v)" and
      art: "art = \<lparr>ar_signed_xml = y, ar_cufe = c, ar_issuer_nit = nit\<rparr>"
      by (auto simp: artifacts_of_def io_bind_def io_map_err_def signer_def map_err_def
          split: prod.splits sum.splits)
    from store_artifacts_solo[OF u(2) _ s] u(1) w(2) nit art show ?thesis by simp
  qed
qed

lemma already_accepted_calls:
  assumes "already_accepted (pg_processor dn lk f dian eng cfg) j d art w = (r, v)"
  shows "db v = db w \<and> peers v = peers w \<and>
    (\<not> (job_attempts j > 1 \<and> test_set_id d = None) \<and> v = w \<and> r = Inr None \<or>
     (let c = Get_status (d_tenant_id d) (ar_cufe art) (is_habilitacion d) in
        dian_log v = dian_log w @ [c] \<and>
        r = Inr (case answers dian (clock w) (dian_log w) c of
          Inl _ \<Rightarrow> None | Inr s \<Rightarrow> if status_code s \<in> set accepted_codes then Some s else None)))"
  using assms
  by (auto simp: already_accepted_def dian_client_def match_exchange Let_def split: if_splits sum.splits)

text \<open>
  The calls of an admitted transmission: at most a status query, then at most one sending, of an
  archive of the stored XML.
\<close>

definition sends :: "engine \<Rightarrow> pg \<Rightarrow> document \<Rightarrow> soap_call \<Rightarrow> bool" where
  "sends eng s d c \<longleftrightarrow>
     (\<exists>x k nit z. (d_id d, Some x, k, d_prefix d, d_document_number d) \<in> set (stored_artifacts s) \<and>
        compress_xml_to_zip eng x nit (d_prefix d) (d_document_number d) = Inr z \<and>
        sent_archive c = Some z \<and>
        (c = Send_bill_sync (d_tenant_id d) z (is_habilitacion d) \<and> test_set_id d = None \<or>
        (\<exists>s. c = Send_test_set_async (d_tenant_id d) z s (is_habilitacion d))))"

definition not_accepted :: "dian \<Rightarrow> instant \<Rightarrow> soap_call list \<Rightarrow> soap_call \<Rightarrow> bool" where
  "not_accepted dian now log c \<longleftrightarrow>
     (case answers dian now log c of Inl _ \<Rightarrow> True | Inr s \<Rightarrow> status_code s \<notin> set accepted_codes)"

lemma transmit_admitted_calls:
  assumes w: "peers w = []" "d \<in> set (documents (db w))" "d_id d = job_document_id j"
    and k: "job_kind_of j = Transmit"
    and run: "transmit_admitted (pg_processor dn lk f dian eng cfg) j d w = (r, v)"
  obtains asks sent where "dian_log v = dian_log w @ asks @ sent"
    and "asks = [] \<or> (\<exists>key. asks = [Get_status (d_tenant_id d) key (is_habilitacion d)])"
    and "sent \<noteq> [] \<Longrightarrow> job_attempts j > 1 \<Longrightarrow> test_set_id d = None \<Longrightarrow>
      (\<exists>c. asks = [c] \<and> not_accepted dian (clock w) (dian_log w) c)"
    and "sent = [] \<or> (\<exists>c. sent = [c] \<and> sends eng (db v) d c)"
proof -
  let ?P = "pg_processor dn lk f dian eng cfg"
  obtain q u where a: "artifacts_of ?P d w = (q, u)" by force
  have u: "peers u = []" "dian_log u = dian_log w" "clock u = clock w"
    using artifacts_of_solo(1)[OF w(1,2) a] preservesD[OF artifacts_of_log a]
      preservesD[OF artifacts_of_clock a] by simp_all
  show thesis
  proof (cases q)
    case (Inl reason)
    with run a have "fail ?P j d reason u = (r, v)" by (simp add: transmit_admitted_def io_match_def)
    from preservesD[OF closing_log(1) this] u show ?thesis by (intro that[of "[]" "[]"]) simp_all
  next
    case (Inr art)
    note stored = artifacts_of_solo(2)[OF w(1,2) a Inr]
    obtain q' t where b: "already_accepted ?P j d art u = (q', t)" by force
    define c where "c = Get_status (d_tenant_id d) (ar_cufe art) (is_habilitacion d)"
    have t: "peers t = []" "db t = db u" using already_accepted_calls[OF b] u by auto
    obtain asks where asks: "dian_log t = dian_log w @ asks" "asks = [] \<or> asks = [c]"
      "q' = Inr None \<Longrightarrow> job_attempts j > 1 \<Longrightarrow> test_set_id d = None \<Longrightarrow>
        asks = [c] \<and> not_accepted dian (clock w) (dian_log w) c"
      using already_accepted_calls[OF b] u
      by (force simp: c_def Let_def not_accepted_def split: sum.splits if_splits)
    from already_accepted_calls[OF b] obtain status where q': "q' = Inr status"
      by (auto simp: Let_def)
    show ?thesis
    proof (cases status)
      case (Some response)
      with run a b Inr q' have "close_accepted ?P j d response (breaker_success (is_habilitacion d) t) = (r, v)"
        by (simp add: transmit_admitted_def io_match_def io_bind_def)
      from preservesD[OF closing_log(2) this] asks show ?thesis
        by (intro that[of asks "[]"]) (auto simp: c_def)
    next
      case None
      with run a b Inr q' have s: "send ?P j d art t = (r, v)"
        by (simp add: transmit_admitted_def io_match_def io_bind_def)
      have "artifacts_stay (db t) (db v)"
        using withinD(1)[OF artifacts_kept.send_within[OF w(3) k] _ s] t by simp
      with stored t(2) have kept: "(d_id d, Some (ar_signed_xml art), ar_cufe art, d_prefix d, d_document_number d)
          \<in> set (stored_artifacts (db v))" by simp
      from send_calls[OF s] consider (nothing) "dian_log v = dian_log t"
        | (sent) e z where "dian_log v = dian_log t @ [e]" "sent_archive e = Some z"
          "e = Send_bill_sync (d_tenant_id d) z (is_habilitacion d) \<and> test_set_id d = None \<or>
           (\<exists>s. e = Send_test_set_async (d_tenant_id d) z s (is_habilitacion d))"
          "compress_xml_to_zip eng (ar_signed_xml art) (ar_issuer_nit art) (d_prefix d) (d_document_number d) = Inr z"
        by blast
      then show ?thesis
      proof cases
        case nothing
        with asks show ?thesis by (intro that[of asks "[]"]) (auto simp: c_def)
      next
        case e: (sent e z)
        with kept have "sends eng (db v) d e" unfolding sends_def by blast
        with asks e(1) q' None show ?thesis by (intro that[of asks "[e]"]) (auto simp: c_def)
      qed
    qed
  qed
qed

lemma breaker_can_execute_same:
  assumes "breaker_can_execute h w = (b, v)"
  shows "db v = db w" "peers v = peers w" "clock v = clock w" "dian_log v = dian_log w" "faults v = faults w"
  using breaker_can_execute_frame[of h w] assms by simp_all

lemma find_document_solo:
  assumes "peers w = []" "find_document (pg_documents dn) i w = (r, v)"
  shows "db v = db w \<and> peers v = [] \<and> clock v = clock w \<and> dian_log v = dian_log w \<and>
    (r = Inr (find_row (\<lambda>d. d_id d = i) (documents (db w))) \<or> (\<exists>e. r = Inl e))"
proof -
  from assms(2) have q: "query (\<lambda>now s. find_row (\<lambda>d. d_id d = i) (documents s)) w = (r, v)"
    by (simp add: pg_documents_def pg_find_document_def)
  from query_solo[OF assms(1) q] preservesD[OF pg_documents_log(1) assms(2)] show ?thesis by simp
qed

lemma transmit_cases:
  assumes w: "peers w = []" and run: "transmit (pg_processor dn lk f dian eng cfg) j w = (r, v)"
  obtains (idle) "dian_log v = dian_log w"
    | (admitted) d u where "find_row (\<lambda>d. d_id d = job_document_id j) (documents (db w)) = Some d"
        "d_status d = Pending" "db u = db w" "peers u = []" "clock u = clock w" "dian_log u = dian_log w"
        "transmit_admitted (pg_processor dn lk f dian eng cfg) j d u = (r, v)"
proof -
  let ?P = "pg_processor dn lk f dian eng cfg"
  obtain q t where q: "find_document (pg_documents dn) (job_document_id j) w = (q, t)" by force
  note t = find_document_solo[OF w q]
  show thesis
  proof (cases "\<exists>d. q = Inr (Some d) \<and> d_status d = Pending")
    case False
    with run q have "dian_log v = dian_log t"
      by (auto simp: transmit_def io_bind_def split: sum.splits option.splits if_splits
          dest!: preservesD[OF pg_jobs_log(1)] preservesD[OF pg_jobs_log(2)])
    with t idle show ?thesis by simp
  next
    case True
    then obtain d where d: "q = Inr (Some d)" "d_status d = Pending" by blast
    obtain b u where b: "breaker_can_execute (is_habilitacion d) t = (b, u)" by force
    note u = breaker_can_execute_same[OF b]
    show ?thesis
    proof (cases b)
      case True
      with run q d b have "transmit_admitted ?P j d u = (r, v)"
        by (simp add: transmit_def io_bind_def)
      moreover have "find_row (\<lambda>d. d_id d = job_document_id j) (documents (db w)) = Some d"
        using t d(1) by auto
      ultimately show ?thesis using t u d(2) by (intro admitted) simp_all
    next
      case False
      with run q d b have "release (pg_jobs lk) (job_id j) (cooldown_end (is_habilitacion d) u) u = (r, v)"
        by (simp add: transmit_def io_bind_def)
      from preservesD[OF pg_jobs_log(3) this] t u idle show ?thesis by simp
    qed
  qed
qed

lemma poll_calls:
  assumes "poll (pg_processor dn lk f dian eng cfg) j w = (r, v)"
  shows "\<exists>asks. dian_log v = dian_log w @ asks \<and> (\<forall>c \<in> set asks. sent_archive c = None) \<and> length asks \<le> 1"
proof -
  let ?P = "pg_processor dn lk f dian eng cfg"
  obtain q t where q: "find_document (pg_documents dn) (job_document_id j) w = (q, t)" by force
  note t = preservesD[OF pg_documents_log(1) q]
  show ?thesis
  proof (cases "\<exists>d key. q = Inr (Some d) \<and> d_status d = SentDian \<and> zip_key j = Some key")
    case False
    with assms q have "dian_log v = dian_log t"
      by (auto simp: poll_def io_bind_def split: sum.splits option.splits if_splits
          dest!: preservesD[OF pg_jobs_log(1)] preservesD[OF pg_jobs_log(2)])
    with t show ?thesis by simp
  next
    case True
    then obtain d key where d: "q = Inr (Some d)" "d_status d = SentDian" "zip_key j = Some key" by blast
    obtain b u where b: "breaker_can_execute (is_habilitacion d) t = (b, u)" by force
    note u = breaker_can_execute_same[OF b]
    show ?thesis
    proof (cases b)
      case False
      with assms q d b have "release (pg_jobs lk) (job_id j) (cooldown_end (is_habilitacion d) u) u = (r, v)"
        by (simp add: poll_def io_bind_def)
      from preservesD[OF pg_jobs_log(3) this] t u show ?thesis by simp
    next
      case True
      have "dian_log v = dian_log u @ [Get_status_zip (d_tenant_id d) key (is_habilitacion d)]"
      proof (rule match_exchange_log)
        show "io_match (soap_exchange (answers dian) (Get_status_zip (d_tenant_id d) key (is_habilitacion d)))
          (\<lambda>error u. poll_again ?P j d (domain_error_display error) (breaker_failure (is_habilitacion d) u))
          (\<lambda>response u. let u = breaker_success (is_habilitacion d) u
             in if status_code response \<in> set accepted_codes then close_accepted ?P j d response u
                else if status_code response = rejected_code then close_rejected ?P j d response u
                else poll_again ?P j d (still_waiting response) u) u = (r, v)"
          using assms q d b True by (simp add: poll_def io_bind_def dian_client_def)
        show "preserves dian_log (\<lambda>u. poll_again ?P j d (domain_error_display e) (breaker_failure (is_habilitacion d) u))" for e
          by (rule preserves_after[where f = "breaker_failure (is_habilitacion d)"]) (simp_all add: preserved)
        show "preserves dian_log (\<lambda>u. let u = breaker_success (is_habilitacion d) u
             in if status_code a \<in> set accepted_codes then close_accepted ?P j d a u
                else if status_code a = rejected_code then close_rejected ?P j d a u
                else poll_again ?P j d (still_waiting a) u)" for a
          unfolding Let_def
        proof (rule preserves_after[where f = "breaker_success (is_habilitacion d)"])
          show "preserves dian_log (\<lambda>u. if status_code a \<in> set accepted_codes then close_accepted ?P j d a u
                else if status_code a = rejected_code then close_rejected ?P j d a u
                else poll_again ?P j d (still_waiting a) u)"
            by (cases "status_code a \<in> set accepted_codes"; cases "status_code a = rejected_code")
              (simp_all add: preserved)
        qed simp
      qed
      with t u show ?thesis by simp
    qed
  qed
qed

text \<open>
  C11. What is sent is what is stored. Every archive that the processing of a job sends to the DIAN is
  the ZIP of the signed XML that the database holds for the document of the job when the processing
  is over, whatever calls fail: a later attempt sends the same XML under the same identifier.
\<close>

theorem sent_is_stored:
  assumes "peers w = []" "process (pg_processor dn lk sign dian eng cfg) j w = (r, w')"
    and "dian_log w' = dian_log w @ new" "c \<in> set new" "sent_archive c = Some z"
  shows "\<exists>d \<in> set (documents (db w')). \<exists>x nit. d_id d = job_document_id j \<and> d_signed_xml d = Some x \<and>
    compress_xml_to_zip eng x nit (d_prefix d) (d_document_number d) = Inr z"
proof (cases "job_kind_of j")
  case PollStatus
  with assms(2-5) poll_calls[of dn lk sign dian eng cfg j w r w'] show ?thesis
    by (auto simp: process_def)
next
  case Transmit
  with assms(2) have "transmit (pg_processor dn lk sign dian eng cfg) j w = (r, w')" by (simp add: process_def)
  with assms(1) show ?thesis
  proof (cases rule: transmit_cases)
    case idle
    with assms(3,4) show ?thesis by simp
  next
    case (admitted d u)
    then have d: "d \<in> set (documents (db u))" "d_id d = job_document_id j"
      by (auto dest: find_row_SomeD)
    obtain asks sent where log: "dian_log w' = dian_log u @ asks @ sent"
      "asks = [] \<or> (\<exists>key. asks = [Get_status (d_tenant_id d) key (is_habilitacion d)])"
      "sent = [] \<or> (\<exists>c. sent = [c] \<and> sends eng (db w') d c)"
      using transmit_admitted_calls[OF admitted(4) d Transmit admitted(7)] by metis
    with assms(3-5) admitted(6) have "sends eng (db w') d c" by auto
    then obtain x k nit z' where s: "(d_id d, Some x, k, d_prefix d, d_document_number d) \<in> set (stored_artifacts (db w'))"
      "compress_xml_to_zip eng x nit (d_prefix d) (d_document_number d) = Inr z'" "sent_archive c = Some z'"
      unfolding sends_def by blast
    from s(1) obtain e where "e \<in> set (documents (db w'))" "d_id e = d_id d" "d_signed_xml e = Some x"
      "d_prefix e = d_prefix d" "d_document_number e = d_document_number d"
      by (auto simp: stored_artifacts_def)
    moreover from this s(2,3) assms(5) have "compress_xml_to_zip eng x nit (d_prefix e) (d_document_number e) = Inr z"
      by simp
    ultimately show ?thesis using d(2) by (intro bexI[of _ e] exI[of _ x] exI[of _ nit]) simp_all
  qed
qed

theorem sent_is_stored_witness:
  "\<exists>d \<in> set (documents (db (sys_world ex_accepted))). d_id d = 10 \<and> d_signed_xml d = Some ''<i/>''"
proof -
  have run: "process (pg_processor (dp_date_naive accepting) (dp_locked accepting) (dp_sign accepting)
      (dp_dian accepting) (dp_engine accepting) (dp_config accepting)) (ex_claimed 11 10 1) (sys_world ex_running)
      = (fst (process (system_processor accepting) (ex_claimed 11 10 1) (sys_world ex_running)),
         sys_world ex_accepted)"
    by (simp add: ex_accepted_def on_world_def system_processor_def)
  have "peers (sys_world ex_running) = []" "dian_log (sys_world ex_running) = []"
    by (simp_all add: ex_running_def ex_world_def ex_start_def)
  from sent_is_stored[OF this(1) run, of "[Send_bill_sync 1 ''<i/>'' True]"] this(2) ex_accepted_state
  show ?thesis
    by (simp add: accepting_def ex_deployment_def ex_engine_def ex_claimed_def)
qed


lemmas failure_eval =
  transmission_failed_def breaker_failure_def record_failure_def retry_delay_def draw_def pg_retry_def
  update_job_tx_def job_requeued_def pg_record_event_def is_last_attempt_def from_std_or_def


end
