(* ===== verification/Processing_Outcomes.thy ===== *)
theory Processing_Outcomes
  imports Processing_Properties
begin

text \<open>
  How the processor closes a job when no call to the database fails and no other process interferes:
  the transitions it asks for are applied, and each answer of the DIAN has its outcome. Identifiers
  are fresh: those of the stored events and deliveries were drawn before.
\<close>

section \<open>Transitions succeed\<close>

definition fresh_ids :: "pg world \<Rightarrow> bool" where
  "fresh_ids w \<longleftrightarrow> (\<forall>e \<in> set (events (db w)). e_id e < next_uuid w) \<and>
     (\<forall>d \<in> set (deliveries (db w)). dl_id d < next_uuid w)"

lemma active_keys_update:
  fixes key :: "job_row \<Rightarrow> 'k"
  assumes "\<And>r. r \<in> set js \<Longrightarrow> P r \<Longrightarrow> key (f r) = key r"
    and "\<And>r. r \<in> set js \<Longrightarrow> P r \<Longrightarrow> is_active_job_status (jr_status (f r)) \<Longrightarrow>
      is_active_job_status (jr_status r)"
  shows "key ` set (active_jobs (update_rows P f js)) \<subseteq> key ` set (active_jobs js) \<and>
    (unique_on key (active_jobs js) \<longrightarrow> unique_on key (active_jobs (update_rows P f js)))"
  using assms
proof (induction js)
  case (Cons r js)
  then have "key ` set (active_jobs (update_rows P f js)) \<subseteq> key ` set (active_jobs js) \<and>
    (unique_on key (active_jobs js) \<longrightarrow> unique_on key (active_jobs (update_rows P f js)))"
    by (metis list.set_intros(2))
  with Cons.prems[of r] show ?case
    by (auto simp: active_jobs_def unique_on_def split: if_splits)
qed (simp add: active_jobs_def)

lemma update_jobs_succeeds:
  assumes "pg_constraints s"
    and "\<And>r. r \<in> set (jobs s) \<Longrightarrow> P r \<Longrightarrow>
      jr_id (f r) = jr_id r \<and> jr_document_id (f r) = jr_document_id r \<and> jr_kind (f r) = jr_kind r"
    and "\<And>r. r \<in> set (jobs s) \<Longrightarrow> P r \<Longrightarrow> is_active_job_status (jr_status (f r)) \<Longrightarrow>
      is_active_job_status (jr_status r)"
    and "\<And>r. r \<in> set (jobs s) \<Longrightarrow> P r \<Longrightarrow> job_check r \<Longrightarrow> job_check (f r)"
  shows "update_jobs now P f s =
    Inr (s\<lparr>jobs := update_rows P (\<lambda>j. (f j)\<lparr>jr_updated_at := now\<rparr>) (jobs s)\<rparr>)"
proof -
  let ?js = "update_rows P (\<lambda>j. (f j)\<lparr>jr_updated_at := now\<rparr>) (jobs s)"
  have "map jr_id ?js = map jr_id (jobs s)"
    using assms(2) by (simp add: update_rows_def)
  then have "unique_on jr_id ?js"
    using assms(1) by (simp add: pg_constraints_def jobs_ok_def unique_on_def)
  moreover have "one_active_job ?js"
    using assms(1-3) active_keys_update[of "jobs s" P "\<lambda>j. (jr_document_id j, jr_kind j)"
        "\<lambda>j. (f j)\<lparr>jr_updated_at := now\<rparr>"]
    by (simp add: pg_constraints_def jobs_ok_def one_active_job_def)
  moreover have "list_all job_check ?js"
    using assms(1,4) by (auto simp: pg_constraints_def list_all_iff in_update_rows job_check_def)
  moreover have "list_all (\<lambda>j. references (jr_document_id j) d_id (documents s)) ?js"
    using assms(1,2) by (auto simp: pg_constraints_def list_all_iff in_update_rows)
  ultimately show ?thesis by (simp add: update_jobs_def put_Inr jobs_ok_def)
qed

lemma delivery_rows_ok:
  assumes "pg_constraints s" "d_id d \<in> d_id ` set (documents s)" "\<And>x. x \<in> set (deliveries s) \<Longrightarrow> dl_id x < i"
  shows "put_deliveries (deliveries s @ outbox_rows i now d to s) s =
    Inr (s\<lparr>deliveries := deliveries s @ outbox_rows i now d to s\<rparr>)"
proof -
  let ?rows = "outbox_rows i now d to s"
  have row: "\<exists>k e. k \<in> {i..<i + length (subscribed (d_tenant_id d) e (webhooks s))} \<and>
      (\<exists>h \<in> set (webhooks s). x = delivery_row_of k (w_id h) (d_id d) e (document_data d to) now)"
    if "x \<in> set ?rows" for x
    using that by (force simp: outbox_rows_def Let_def subscribed_def split: option.splits
        elim!: in_set_zipE)
  have ids: "map dl_id ?rows = (case event_for to of None \<Rightarrow> []
      | Some e \<Rightarrow> [i..<i + length (subscribed (d_tenant_id d) e (webhooks s))])"
    by (cases "event_for to")
      (auto simp: outbox_rows_def Let_def delivery_row_of_def intro!: nth_equalityI)
  then have "distinct (map dl_id ?rows)" by (simp split: option.split)
  moreover have "i \<le> dl_id x" if "x \<in> set ?rows" for x
  proof -
    from that have "dl_id x \<in> set (map dl_id ?rows)" by simp
    then show ?thesis unfolding ids by (auto split: option.splits)
  qed
  moreover have "distinct (map dl_id (deliveries s))"
    using assms(1) by (simp add: pg_constraints_def unique_on_def)
  ultimately have "unique_on dl_id (deliveries s @ ?rows)"
    using assms(3) by (fastforce simp: unique_on_def)
  moreover have "list_all delivery_check (deliveries s @ ?rows)"
    using assms(1) row by (fastforce simp: pg_constraints_def list_all_iff delivery_check_def
        delivery_row_of_def max_delivery_attempts_def i32_max_def)
  moreover have "list_all (\<lambda>x. references (dl_webhook_id x) w_id (webhooks s) \<and>
      references (dl_document_id x) d_id (documents s)) (deliveries s @ ?rows)"
    using assms(1,2) row
    by (fastforce simp: pg_constraints_def list_all_iff references_def delivery_row_of_def)
  ultimately show ?thesis by (simp add: put_Inr)
qed

lemma close_job_succeeds:
  assumes "pg_constraints s"
  shows "\<exists>t. close_job now outcome s = Inr t"
proof -
  have "\<exists>t. update_jobs now (\<lambda>j. jr_id j = i) job_done s = Inr t" for i
    using update_jobs_succeeds[OF assms, of "\<lambda>j. jr_id j = i" job_done now]
    by (simp add: job_done_def job_check_def)
  moreover have "\<exists>t. update_jobs now (\<lambda>j. jr_id j = i) (job_buried m) s = Inr t" for i m
    using update_jobs_succeeds[OF assms, of "\<lambda>j. jr_id j = i" "job_buried m" now]
    by (simp add: job_buried_def job_check_def)
  ultimately show ?thesis
    by (auto simp: close_job_def map_err_Inr_iff split: option.split job_outcome.split)
qed

lemma transition_tx_succeeds:
  assumes inv: "pg_constraints s" and d: "find_row (transition_target t) (documents s) = Some d"
    and e: "tr_event t = Some e" "e_document_id e = d_id d" "e_id e \<notin> e_id ` set (events s)"
    and i: "\<And>x. x \<in> set (deliveries s) \<Longrightarrow> dl_id x < i" and "tr_follow_up t = None"
  shows "\<exists>n s'. transition_tx t now i s = Inr (True, n, s')"
proof -
  let ?ds = "update_rows (transition_target t) (\<lambda>d. d\<lparr>d_status := tr_to t\<rparr>) (documents s)"
  define s1 where "s1 = s\<lparr>documents := ?ds\<rparr>"
  have same: "d_id ` set ?ds = d_id ` set (documents s)"
    by (rule image_update_rows_same) simp
  have 1: "put_documents ?ds s = Inr s1"
  proof -
    have "documents_ok ?ds"
      using inv by (simp add: pg_constraints_def documents_ok_def document_key_def unique_on_update_rows)
    moreover have "list_all (document_refs s) ?ds"
      using inv by (auto simp: pg_constraints_def list_all_iff in_update_rows document_refs_def)
    ultimately show ?thesis by (simp add: put_Inr s1_def)
  qed
  have inv1: "pg_constraints s1" using 1 inv same by (blast intro: put_documents_constraints)
  have ids: "d_id d \<in> d_id ` set (documents s1)" using find_row_SomeD[OF d] same by (auto simp: s1_def)
  define s2 where "s2 = s1\<lparr>deliveries := deliveries s1 @ outbox_rows i now d (tr_to t) s1\<rparr>"
  have 2: "put_deliveries (deliveries s1 @ outbox_rows i now d (tr_to t) s1) s1 = Inr s2"
    unfolding s2_def by (rule delivery_rows_ok[OF inv1 ids]) (use i in \<open>simp add: s1_def\<close>)
  have inv2: "pg_constraints s2" using put_quiet(5)[OF 2] inv1 by (simp add: quiet_def)
  define s3 where "s3 = s2\<lparr>events := events s2 @ [e]\<rparr>"
  have 3: "insert_event e s2 = Inr s3"
    using inv2 e ids
    by (auto simp: insert_event_def put_Inr pg_constraints_def references_def s3_def s2_def s1_def map_err_Inr_iff)
  have "pg_constraints s3" using insert_quiet(2)[OF 3] inv2 by (simp add: quiet_def)
  from close_job_succeeds[OF this] obtain s4 where 4: "close_job now (tr_job t) s3 = Inr s4" by blast
  show ?thesis
    using d 1 2 3 4 e(1) assms(7)
    unfolding transition_tx_def transition_target_def[abs_def] by (simp add: Let_def)
qed

section \<open>What is left of a document and a job\<close>

definition status_of :: "pg \<Rightarrow> uuid \<Rightarrow> document_status option" where
  "status_of s i = map_option d_status (find_row (\<lambda>d. d_id d = i) (documents s))"

definition job_row_of :: "pg \<Rightarrow> uuid \<Rightarrow> job_row option" where
  "job_row_of s i = find_row (\<lambda>r. jr_id r = i) (jobs s)"

lemma status_of_member: "status_of s i = Some st \<Longrightarrow> i \<in> d_id ` set (documents s)"
  by (auto simp: status_of_def dest!: find_row_SomeD)

lemma status_of_update:
  assumes "documents t = update_rows (transition_target tr) (\<lambda>d. d\<lparr>d_status := st\<rparr>) (documents s)"
    and "status_of s (tr_document_id tr) = Some st'" "st' \<in> set (allowed_predecessors (tr_to tr))"
  shows "status_of t (tr_document_id tr) = Some st"
proof -
  from assms(2) obtain z where z: "find_row (\<lambda>d. d_id d = tr_document_id tr) (documents s) = Some z"
    "d_status z = st'" by (auto simp: status_of_def)
  with assms(3) have "transition_target tr z" by (auto simp: transition_target_def dest: find_row_SomeD)
  with z assms(1) show ?thesis
    by (simp add: status_of_def find_row_update_rows transition_target_def)
qed

lemma job_row_of_update:
  "jobs t = update_rows (\<lambda>j. jr_id j = i) f (jobs s) \<Longrightarrow> (\<And>r. jr_id (f r) = jr_id r) \<Longrightarrow>
   job_row_of t i = map_option f (job_row_of s i)"
  by (auto simp: job_row_of_def find_row_update_rows option.map_comp dest: find_row_SomeD
      intro!: map_option_cong)

lemma transition_settles:
  assumes w: "alone w" "pg_constraints (db w)" "\<And>x. x \<in> set (deliveries (db w)) \<Longrightarrow> dl_id x < next_uuid w"
    and d: "status_of (db w) (tr_document_id t) = Some st" "st \<in> set (allowed_predecessors (tr_to t))"
    and e: "tr_event t = Some e" "e_document_id e = tr_document_id t" "e_id e \<notin> e_id ` set (events (db w))"
    and t: "tr_follow_up t = None" "tr_job t = Some out"
      "out = Complete i \<or> (\<exists>m. out = Bury i m)" "job_row_of (db w) i = Some r"
    and run: "transition (pg_processor dn lk f dian eng cfg) j t w = (q, v)"
  shows "q = Inr () \<and> status_of (db v) (tr_document_id t) = Some (tr_to t) \<and>
    map_option jr_status (job_row_of (db v) i) = Some (case out of Complete _ \<Rightarrow> Done | Bury _ _ \<Rightarrow> Dead) \<and>
    events (db v) = events (db w) @ [e]"
proof -
  from d(1) obtain x where x: "find_row (\<lambda>d. d_id d = tr_document_id t) (documents (db w)) = Some x"
    "d_status x = st" by (auto simp: status_of_def)
  then have "transition_target t x" "x \<in> set (documents (db w))"
    using d(2) by (auto simp: transition_target_def dest: find_row_SomeD)
  then obtain y where y: "find_row (transition_target t) (documents (db w)) = Some y"
    by (cases "find_row (transition_target t) (documents (db w))") (auto simp: find_row_None_iff)
  then have "d_id y = tr_document_id t" by (auto simp: transition_target_def dest: find_row_SomeD)
  with transition_tx_succeeds[OF w(2) y e(1) _ e(3), where i = "next_uuid w" and now = "clock w"] e(2) w(3) t(1)
  obtain n s' where run': "transition_tx t (clock w) (next_uuid w) (db w) = Inr (True, n, s')" by auto
  with run w(1) have q: "q = Inr ()" "db v = s'"
    by (auto simp: transition_def pg_documents_def pg_apply_transition_def io_bind_def tx_ids_alone)
  from run' obtain z and s4 :: pg where
    docs: "documents s' = update_rows (transition_target t) (\<lambda>d. d\<lparr>d_status := tr_to t\<rparr>) (documents (db w))" and
    evs: "events s' = events (db w) @ (case tr_event t of None \<Rightarrow> [] | Some e \<Rightarrow> [e])" and
    js: "jobs s' = jobs s4 @ (case tr_follow_up t of None \<Rightarrow> [] | Some j \<Rightarrow> [new_job_row (clock w) j])" and
    js4: "jobs s4 = (case tr_job t of
        None \<Rightarrow> jobs (db w)
      | Some (Complete c) \<Rightarrow>
          update_rows (\<lambda>j. jr_id j = c) (\<lambda>j. (job_done j)\<lparr>jr_updated_at := clock w\<rparr>) (jobs (db w))
      | Some (Bury c m) \<Rightarrow>
          update_rows (\<lambda>j. jr_id j = c) (\<lambda>j. (job_buried m j)\<lparr>jr_updated_at := clock w\<rparr>) (jobs (db w)))"
    by (rule transition_tx_effect)
  have "map_option jr_status (job_row_of s' i) = Some (case out of Complete _ \<Rightarrow> Done | Bury _ _ \<Rightarrow> Dead)"
    using t(3)
  proof
    assume "out = Complete i"
    then have "jobs s' = update_rows (\<lambda>j. jr_id j = i) (\<lambda>j. (job_done j)\<lparr>jr_updated_at := clock w\<rparr>) (jobs (db w))"
      using js js4 t by simp
    from job_row_of_update[OF this] t(4) \<open>out = Complete i\<close> show ?thesis by (simp add: job_done_def)
  next
    assume "\<exists>m. out = Bury i m"
    then obtain m where "out = Bury i m" by blast
    then have "jobs s' = update_rows (\<lambda>j. jr_id j = i) (\<lambda>j. (job_buried m j)\<lparr>jr_updated_at := clock w\<rparr>) (jobs (db w))"
      using js js4 t by simp
    from job_row_of_update[OF this] t(4) \<open>out = Bury i m\<close> show ?thesis by (simp add: job_buried_def)
  qed
  moreover have "status_of s' (tr_document_id t) = Some (tr_to t)"
    using docs d by (rule status_of_update)
  ultimately show ?thesis using q evs e(1) by simp
qed

lemma job_row_unique:
  assumes "pg_constraints s" "job_row_of s i = Some r" "x \<in> set (jobs s)" "jr_id x = i"
  shows "x = r"
proof -
  have "unique_on jr_id (jobs s)" using assms(1) by (simp add: pg_constraints_def jobs_ok_def)
  from unique_onD[OF this assms(3)] find_row_SomeD[OF assms(2)[unfolded job_row_of_def]] assms(4)
  show ?thesis by simp
qed

text \<open>Putting a leased job back into the queue.\<close>

lemma requeue_alone:
  assumes "alone w" "pg_constraints (db w)" "job_row_of (db w) i = Some r" "is_active_job_status (jr_status r)"
    and f: "\<And>x. jr_id (f x) = jr_id x \<and> jr_document_id (f x) = jr_document_id x \<and> jr_kind (f x) = jr_kind x"
      "\<And>x. job_check x \<Longrightarrow> job_check (f x)"
    and run: "tx (update_job_tx i f) w = (q, v)"
  shows "q = Inr () \<and> documents (db v) = documents (db w) \<and> events (db v) = events (db w) \<and>
    job_row_of (db v) i = Some ((f r)\<lparr>jr_updated_at := clock w\<rparr>)"
proof -
  have "update_jobs (clock w) (\<lambda>j. jr_id j = i) f (db w) = Inr ((db w)\<lparr>jobs :=
      update_rows (\<lambda>j. jr_id j = i) (\<lambda>j. (f j)\<lparr>jr_updated_at := clock w\<rparr>) (jobs (db w))\<rparr>)"
    using f assms(4) job_row_unique[OF assms(2,3)] by (intro update_jobs_succeeds[OF assms(2)]) auto
  with run assms(1) have q: "q = Inr ()" "db v = (db w)\<lparr>jobs :=
      update_rows (\<lambda>j. jr_id j = i) (\<lambda>j. (f j)\<lparr>jr_updated_at := clock w\<rparr>) (jobs (db w))\<rparr>"
    by (auto simp: tx_alone update_job_tx_def)
  then have "jobs (db v) = update_rows (\<lambda>j. jr_id j = i) (\<lambda>j. (f j)\<lparr>jr_updated_at := clock w\<rparr>) (jobs (db w))"
    by simp
  from job_row_of_update[OF this] f(1) assms(3) q show ?thesis by simp
qed

lemma insert_event_succeeds:
  "pg_constraints s \<Longrightarrow> e_id e \<notin> e_id ` set (events s) \<Longrightarrow> e_document_id e \<in> d_id ` set (documents s) \<Longrightarrow>
   insert_event e s = Inr (s\<lparr>events := events s @ [e]\<rparr>)"
  by (simp add: insert_event_def put_Inr pg_constraints_def references_def map_err_Inr_iff)

lemma retry_delay_least:
  assumes "retry_delay c n w = (delay, v)"
  shows "500000000 \<le> delay"
proof -
  have "half_second \<le> backoff_with_jitter e a b mx" for e a b mx
    by (simp add: backoff_with_jitter_def gen_range_def half_second_def millisecond_def)
  then show ?thesis
    using assms by (auto simp: retry_delay_def from_std_or_def from_std_def half_second_def split: prod.splits
        if_splits)
qed

text \<open>A failed attempt, before and at the limit of attempts.\<close>

lemma transmission_failed_outcome:
  assumes w: "alone w" "pg_constraints (db w)" "fresh_ids w"
    and d: "status_of (db w) (d_id d) = Some Pending"
    and r: "job_row_of (db w) (job_id j) = Some r" "jr_status r = Running"
    and run: "transmission_failed (pg_processor dn lk f dian eng cfg) j d error w = (q, v)"
  shows "q = Inr () \<and> (if is_last_attempt j
    then status_of (db v) (d_id d) = Some ContingencyPending \<and>
      map_option jr_status (job_row_of (db v) (job_id j)) = Some Dead
    else status_of (db v) (d_id d) = Some Pending \<and>
      (\<exists>delay \<ge> 500000000. map_option (\<lambda>x. (jr_status x, jr_attempts x, jr_run_at x)) (job_row_of (db v) (job_id j)) =
          Some (Queued, jr_attempts r, clock w + delay)))"
proof -
  define e where "e = dian_event_new (next_uuid w) (clock w) (d_id d) E_Error ''HTTP_ERROR'' (domain_error_display error)"
  define u where "u = (breaker_failure (is_habilitacion d) w)\<lparr>next_uuid := Suc (next_uuid w)\<rparr>"
  have u: "alone u" "db u = db w" "clock u = clock w" "next_uuid u = next_uuid w + 1"
    using w(1) by (simp_all add: u_def breaker_failure_def alone_def)
  have e: "e_document_id e = d_id d" "e_id e \<notin> e_id ` set (events (db u))"
    using w(3) u(2) by (auto simp: e_def dian_event_new_def fresh_ids_def)
  have same: "next_uuid (breaker_failure (is_habilitacion d) w) = next_uuid w"
    "clock (breaker_failure (is_habilitacion d) w) = clock w" by (simp_all add: breaker_failure_def)
  show ?thesis
  proof (cases "is_last_attempt j")
    case True
    let ?t = "with_job (Bury (job_id j) (domain_error_display error)) (with_event e
      (transition_new (d_id d) ContingencyPending))"
    from run True have t: "transition (pg_processor dn lk f dian eng cfg) j ?t u = (q, v)"
      by (simp add: transmission_failed_def Let_def with_new_event_def new_uuid_def e_def u_def same)
    have "q = Inr () \<and> status_of (db v) (tr_document_id ?t) = Some (tr_to ?t) \<and>
        map_option jr_status (job_row_of (db v) (job_id j)) =
          Some (case Bury (job_id j) (domain_error_display error) of Complete _ \<Rightarrow> Done | Bury _ _ \<Rightarrow> Dead) \<and>
        events (db v) = events (db u) @ [e]"
      by (rule transition_settles[OF u(1) _ _ _ _ _ _ _ _ _ _ _ t])
        (use w u d e r in \<open>auto simp: fresh_ids_def less_Suc_eq\<close>)
    with True show ?thesis by simp
  next
    case False
    have doc: "e_document_id e \<in> d_id ` set (documents (db u))"
      using status_of_member[OF d] u(2) e(1) by simp
    define u1 where "u1 = u\<lparr>db := (db u)\<lparr>events := events (db u) @ [e]\<rparr>\<rparr>"
    have ins: "insert_event e (db u) = Inr (db u1)"
      unfolding u1_def using insert_event_succeeds[of "db u" e] w u e doc by simp
    then have rec: "record_event (pg_documents dn) e u = (Inr (), u1)"
      using u(1) by (simp add: pg_documents_def pg_record_event_def tx_alone u1_def)
    obtain delay u2 where del: "retry_delay cfg (job_attempts j) u1 = (delay, u2)" by force
    have u2: "db u2 = db u1" "clock u2 = clock w" "peers u2 = []" "faults u2 = []"
      using retry_delay_frame[of cfg "job_attempts j" u1] del u(1,3)
      by (auto simp: u1_def alone_def retry_delay_def draw_def split: list.splits)
    from insert_quiet(2)[OF ins] w(2) u(2) have inv: "pg_constraints (db u2)"
      by (simp add: quiet_def u2)
    let ?f = "\<lambda>x. (job_requeued (clock w + delay) x)\<lparr>jr_last_error := Some (domain_error_display error)\<rparr>"
    from run False rec del have upd: "tx (update_job_tx (job_id j) ?f) u2 = (q, v)"
      by (simp add: transmission_failed_def Let_def with_new_event_def new_uuid_def e_def[symmetric]
          u_def[symmetric] same io_bind_def pg_jobs_def pg_retry_def u2)
    have row: "job_row_of (db u2) (job_id j) = Some r"
      using r by (simp add: job_row_of_def u2 u1_def u)
    have "q = Inr () \<and> documents (db v) = documents (db u2) \<and> events (db v) = events (db u2) \<and>
      job_row_of (db v) (job_id j) = Some ((?f r)\<lparr>jr_updated_at := clock u2\<rparr>)"
      by (rule requeue_alone[OF _ inv row _ _ _ upd])
        (simp_all add: u2 alone_def r job_requeued_def job_check_def)
    moreover have "500000000 \<le> delay" using del by (rule retry_delay_least)
    moreover have "documents (db u2) = documents (db w)" by (simp add: u2 u1_def u)
    ultimately show ?thesis
      using False d by (auto simp: status_of_def job_requeued_def u2)
  qed
qed

lemma attached_document_outcome:
  "attached_document (pg_processor dn lk f dian eng cfg) d art x w = (q, v) \<Longrightarrow> q = Inr () \<and> db v = db w"
  by (auto simp: attached_document_def io_match_def io_bind_def io_map_err_def signer_def new_uuid_def
      split: prod.splits sum.splits)

text \<open>
  C13. The outcome of a synchronous transmission. When the database does not fail, the answer of the
  DIAN decides: an accepted or rejected document reaches that status and its job is done. Without an
  answer the document stays pending and the job goes back to the queue, with its attempt counted and
  at least half a second later; if it was the last attempt, the document goes to contingency and the
  job is dead. In every case the processor itself reports success.
\<close>

theorem send_bill_outcome:
  assumes "alone w" "pg_inv (db w)" "fresh_ids w"
    and "status_of (db w) (d_id d) = Some Pending"
    and "job_row_of (db w) (job_id j) = Some r" "jr_status r = Running"
    and "send_bill (pg_processor dn lk sign dian eng cfg) j d art z w = (q, w')"
  shows "q = Inr () \<and>
    (case answers dian (clock w) (dian_log w) (Send_bill_sync (d_tenant_id d) z (is_habilitacion d)) of
       Inr response \<Rightarrow>
         status_of (db w') (d_id d) =
           Some (if status_code response \<in> {''00'', ''1''} then DianAccepted else DianRejected) \<and>
         map_option jr_status (job_row_of (db w') (job_id j)) = Some Done
     | Inl e \<Rightarrow>
         if job_attempts j \<ge> job_max_attempts j then
           status_of (db w') (d_id d) = Some ContingencyPending \<and>
           map_option jr_status (job_row_of (db w') (job_id j)) = Some Dead
         else
           status_of (db w') (d_id d) = Some Pending \<and>
           (\<exists>delay \<ge> 500000000. map_option (\<lambda>x. (jr_status x, jr_attempts x, jr_run_at x)) (job_row_of (db w') (job_id j)) =
                Some (Queued, jr_attempts r, clock w + delay)))"
proof -
  let ?P = "pg_processor dn lk sign dian eng cfg"
  let ?c = "Send_bill_sync (d_tenant_id d) z (is_habilitacion d)"
  define u where "u = w\<lparr>dian_log := dian_log w @ [?c]\<rparr>"
  have u: "alone u" "db u = db w" "clock u = clock w" "next_uuid u = next_uuid w" "fresh_ids u"
    using assms(1,3) by (simp_all add: u_def alone_def fresh_ids_def)
  have c: "pg_constraints (db w)" using assms(2) by (simp add: pg_inv_def)
  show ?thesis
  proof (cases "answers dian (clock w) (dian_log w) ?c")
    case (Inl e)
    with assms(7) have run: "transmission_failed ?P j d e u = (q, w')"
      by (simp add: send_bill_def dian_client_def match_exchange u_def)
    have "pg_constraints (db u)" "status_of (db u) (d_id d) = Some Pending"
      "job_row_of (db u) (job_id j) = Some r" using c assms(4,5) u by simp_all
    from transmission_failed_outcome[OF u(1) this(1) u(5) this(2,3) assms(6) run] show ?thesis
      unfolding is_last_attempt_def u(3) Inl sum.case .
  next
    case (Inr response)
    define acc where "acc = (status_code response \<in> set accepted_codes)"
    define u' where "u' = (breaker_success (is_habilitacion d) u)\<lparr>next_uuid := next_uuid w + 1\<rparr>"
    define e where "e = response_event (next_uuid w) (clock w) (d_id d) (if acc then E_Accepted else E_Rejected) response"
    define t where "t = with_job (Complete (job_id j)) (with_event e
      (transition_new (d_id d) (if acc then DianAccepted else DianRejected)))"
    have u': "alone u'" "db u' = db w" "clock u' = clock w" "next_uuid u' = next_uuid w + 1"
      using u by (simp_all add: u'_def breaker_success_def alone_def)
    have close: "(if acc then close_accepted else close_rejected) ?P j d response (breaker_success (is_habilitacion d) u)
        = transition ?P j t u'"
      by (cases acc) (simp_all add: close_accepted_def close_rejected_def with_new_event_def new_uuid_def
          t_def e_def u'_def breaker_success_def u_def)
    obtain q1 v where v: "transition ?P j t u' = (q1, v)" by force
    have "q1 = Inr () \<and> status_of (db v) (tr_document_id t) = Some (tr_to t) \<and>
        map_option jr_status (job_row_of (db v) (job_id j)) =
          Some (case Complete (job_id j) of Complete _ \<Rightarrow> Done | Bury _ _ \<Rightarrow> Dead) \<and>
        events (db v) = events (db u') @ [e]"
      by (rule transition_settles[OF u'(1) _ _ _ _ _ _ _ _ _ _ _ v])
        (use c assms(3-5) u' in \<open>auto simp: fresh_ids_def less_Suc_eq t_def e_def response_event_def
          dian_event_new_def\<close>)
    then have closed: "q1 = Inr ()" "status_of (db v) (d_id d) = Some (if acc then DianAccepted else DianRejected)"
      "map_option jr_status (job_row_of (db v) (job_id j)) = Some Done"
      by (simp_all add: t_def)
    have codes: "(status_code response \<in> {''00'', ''1''}) = acc"
      by (simp add: acc_def accepted_codes_def)
    have run: "(if acc \<and> d_document_type d = Invoice
        then attached_document ?P d art (case xml_response response of None \<Rightarrow> [] | Some x \<Rightarrow> x)
        else io_return ()) v = (q, w')"
      using assms(7) Inr close v closed(1)
      by (simp add: send_bill_def dian_client_def match_exchange u_def[symmetric] Let_def acc_def[symmetric] io_bind_def)
    then have "q = Inr () \<and> db w' = db v"
      by (auto split: if_splits dest: attached_document_outcome)
    with closed codes Inr show ?thesis by simp
  qed
qed

theorem send_bill_outcome_witness:
  "\<exists>w'. send_bill (system_processor unreachable) (ex_claimed 11 10 5) ex_document_row
      \<lparr>ar_signed_xml = ''<i/>'', ar_cufe = ''cufe'', ar_issuer_nit = ''900''\<rparr> ''zip'' (sys_world ex_running) = (Inr (), w') \<and>
    status_of (db w') 10 = Some ContingencyPending \<and> map_option jr_status (job_row_of (db w') 11) = Some Dead"
proof -
  let ?art = "\<lparr>ar_signed_xml = ''<i/>'', ar_cufe = ''cufe'', ar_issuer_nit = ''900''\<rparr>"
  let ?w = "sys_world ex_running"
  obtain q w' where run: "send_bill (system_processor unreachable) (ex_claimed 11 10 5) ex_document_row ?art ''zip'' ?w = (q, w')"
    by force
  have "alone ?w" "pg_inv (db ?w)" "fresh_ids ?w" "status_of (db ?w) (d_id ex_document_row) = Some Pending"
    "job_row_of (db ?w) (job_id (ex_claimed 11 10 5)) = Some (leased ''w'' 1600 ex_job_row)"
    "jr_status (leased ''w'' 1600 ex_job_row) = Running"
    using ex_inv(2)
    by (simp_all add: sys_inv_def alone_def fresh_ids_def status_of_def job_row_of_def example_eval)
  note facts = send_bill_outcome[OF this run[unfolded system_processor_def]]
  have "answers (dp_dian unreachable) t l c = Inl (Soap ''timeout'')" for t l c
    by (simp add: unreachable_def ex_deployment_def ex_dian_def)
  with facts run show ?thesis
    by (simp add: ex_claimed_def ex_document_row_def outbound_row_def ex_document_def)
qed

section \<open>Jobs that are put back or closed without a call\<close>

lemma find_document_alone:
  "alone w \<Longrightarrow> find_document (pg_documents dn) i w = (Inr (find_row (\<lambda>d. d_id d = i) (documents (db w))), w)"
  by (simp add: pg_documents_def pg_find_document_def query_alone)

text \<open>
  An open breaker costs no attempt. While the breaker of the environment of the document is open,
  the job goes back to the queue until the cooldown has passed, its attempt given back, without any
  call to the DIAN and without a change of the document.
\<close>

theorem open_breaker_keeps_attempt:
  assumes "alone w" "pg_inv (db w)"
    and "find_row (\<lambda>d. d_id d = job_document_id j) (documents (db w)) = Some d"
    and "d_status d = job_subject (job_kind_of j)" "job_kind_of j = PollStatus \<Longrightarrow> zip_key j \<noteq> None"
    and "\<not> fst (can_execute (clock w) (for_environment (is_habilitacion d) (circuit w)))"
    and "job_row_of (db w) (job_id j) = Some r" "jr_status r = Running"
    and "process (pg_processor dn lk sign dian eng cfg) j w = (q, w')"
  shows "q = Inr () \<and> dian_log w' = dian_log w \<and> documents (db w') = documents (db w) \<and>
    job_row_of (db w') (job_id j) = Some (r\<lparr>jr_status := Queued, jr_attempts := max (jr_attempts r - 1) 0,
      jr_run_at := cooldown_end (is_habilitacion d) w, jr_locked_until := None, jr_locked_by := None,
      jr_updated_at := clock w\<rparr>)"
proof -
  let ?h = "is_habilitacion d"
  obtain b u where b: "breaker_can_execute ?h w = (b, u)" by force
  have closed: "\<not> b" "cooldown_end ?h u = cooldown_end ?h w"
    using assms(6) b by (auto simp: breaker_can_execute_def cooldown_end_def can_execute_def
        for_environment_def update_environment_def split: prod.splits breaker_state.splits if_splits)
  note u = breaker_can_execute_same[OF b]
  have alone: "alone u" using assms(1) u by (simp add: alone_def)
  have run: "release (pg_jobs lk) (job_id j) (cooldown_end ?h w) u = (q, w')"
    using assms(4,5,9) closed b find_document_alone[OF assms(1)] assms(3)
    by (cases "job_kind_of j") (auto simp: process_def transmit_def poll_def io_bind_def)
  let ?f = "\<lambda>j. (job_requeued (cooldown_end ?h w) j)\<lparr>jr_attempts := max (jr_attempts j - 1) 0\<rparr>"
  have "q = Inr () \<and> documents (db w') = documents (db u) \<and> events (db w') = events (db u) \<and>
      job_row_of (db w') (job_id j) = Some ((?f r)\<lparr>jr_updated_at := clock u\<rparr>)"
    by (rule requeue_alone[where f = ?f and w = u and q = q])
      (use alone assms(2,7,8) u run in \<open>auto simp: pg_inv_def job_requeued_def job_check_def pg_jobs_def pg_release_def\<close>)
  with u preservesD[OF pg_jobs_log(3) run] show ?thesis by (simp add: job_requeued_def)
qed

definition ex_breaker_open :: "pg world" where
  "ex_breaker_open = (sys_world ex_running)
     \<lparr>circuit := (breakers_new 5 60)\<lparr>br_habilitacion := (breaker_new 5 60)\<lparr>cb_state := Open 1000\<rparr>\<rparr>\<rparr>"

theorem open_breaker_keeps_attempt_witness:
  "\<exists>w. process (system_processor accepting) (ex_claimed 11 10 1) ex_breaker_open = (Inr (), w) \<and>
    dian_log w = [] \<and> map_option (\<lambda>x. (jr_status x, jr_attempts x)) (job_row_of (db w) 11) = Some (Queued, 0)"
proof -
  obtain q w where run: "process (system_processor accepting) (ex_claimed 11 10 1) ex_breaker_open = (q, w)"
    by force
  have "alone ex_breaker_open" "pg_inv (db ex_breaker_open)"
    "find_row (\<lambda>d. d_id d = job_document_id (ex_claimed 11 10 1)) (documents (db ex_breaker_open)) = Some ex_document_row"
    "d_status ex_document_row = job_subject (job_kind_of (ex_claimed 11 10 1))"
    "job_kind_of (ex_claimed 11 10 1) = PollStatus \<Longrightarrow> zip_key (ex_claimed 11 10 1) \<noteq> None"
    "\<not> fst (can_execute (clock ex_breaker_open)
      (for_environment (is_habilitacion ex_document_row) (circuit ex_breaker_open)))"
    "job_row_of (db ex_breaker_open) (job_id (ex_claimed 11 10 1)) = Some (leased ''w'' 1600 ex_job_row)"
    "jr_status (leased ''w'' 1600 ex_job_row) = Running"
    using ex_inv(2)
    by (simp_all add: ex_breaker_open_def sys_inv_def alone_def job_row_of_def example_eval can_execute_def
        for_environment_def is_habilitacion_def obj_str_def obj_get_def elapsed_def)
  note facts = open_breaker_keeps_attempt[OF this run[unfolded system_processor_def]]
  moreover have "dian_log ex_breaker_open = []" by (simp add: ex_breaker_open_def example_eval)
  moreover have "jr_attempts (leased ''w'' 1600 ex_job_row) = 1" by (simp add: example_eval)
  ultimately show ?thesis using run by (simp add: ex_claimed_def)
qed

text \<open>
  A job that is no longer needed is closed quietly. If the document of the job is not in the
  status the job is for, processing it makes no call to the DIAN, changes no document, and the job is
  done.
\<close>

theorem stale_job_is_closed:
  assumes "alone w" "pg_inv (db w)"
    and "find_row (\<lambda>d. d_id d = job_document_id j) (documents (db w)) = Some d"
    and "d_status d \<noteq> job_subject (job_kind_of j)" "job_row_of (db w) (job_id j) = Some r"
    and "process (pg_processor dn lk sign dian eng cfg) j w = (q, w')"
  shows "q = Inr () \<and> dian_log w' = dian_log w \<and> documents (db w') = documents (db w) \<and>
    map_option jr_status (job_row_of (db w') (job_id j)) = Some Done"
proof -
  have run: "tx (update_job_tx (job_id j) job_done) w = (q, w')"
    using assms(4,6) find_document_alone[OF assms(1)] assms(3)
    by (cases "job_kind_of j")
      (auto simp: process_def transmit_def poll_def io_bind_def pg_jobs_def pg_complete_def)
  have "update_jobs (clock w) (\<lambda>j'. jr_id j' = job_id j) job_done (db w) = Inr ((db w)\<lparr>jobs :=
      update_rows (\<lambda>j'. jr_id j' = job_id j) (\<lambda>j'. (job_done j')\<lparr>jr_updated_at := clock w\<rparr>) (jobs (db w))\<rparr>)"
    using assms(2) by (intro update_jobs_succeeds) (auto simp: pg_inv_def job_done_def job_check_def)
  with run assms(1) have q: "q = Inr ()" "db w' = (db w)\<lparr>jobs :=
      update_rows (\<lambda>j'. jr_id j' = job_id j) (\<lambda>j'. (job_done j')\<lparr>jr_updated_at := clock w\<rparr>) (jobs (db w))\<rparr>"
    "dian_log w' = dian_log w"
    by (auto simp: tx_alone update_job_tx_def)
  then have "jobs (db w') = update_rows (\<lambda>j'. jr_id j' = job_id j)
      (\<lambda>j'. (job_done j')\<lparr>jr_updated_at := clock w\<rparr>) (jobs (db w))" by simp
  from job_row_of_update[OF this] assms(5) q show ?thesis by (simp add: job_done_def)
qed

theorem stale_job_is_closed_witness:
  "\<exists>w. process (system_processor unreachable) (ex_claimed 11 10 1) (sys_world ex_accepted) = (Inr (), w) \<and>
    dian_log w = dian_log (sys_world ex_accepted) \<and> map_option jr_status (job_row_of (db w) 11) = Some Done"
proof -
  let ?w = "sys_world ex_accepted"
  have inv: "sys_inv ex_accepted" using reachable_inv ex_accepted_reachable ex_inv(2) by blast
  obtain d where d: "documents (db ?w) = [d]" "d_status d = DianAccepted" using ex_accepted_state by auto
  obtain r where r: "jobs (db ?w) = [r]" using ex_accepted_state by auto
  have ids: "map d_id (documents (db ?w)) = [10]" "map jr_id (jobs (db ?w)) = [11]" "alone ?w"
    unfolding ex_accepted_def sys_run.simps perform.simps on_world_def alone_def
    by (simp_all add: processor_eval store_eval example_eval)
  obtain q w where run: "process (system_processor unreachable) (ex_claimed 11 10 1) ?w = (q, w)" by force
  have "pg_inv (db ?w)"
    "find_row (\<lambda>d. d_id d = job_document_id (ex_claimed 11 10 1)) (documents (db ?w)) = Some d"
    "d_status d \<noteq> job_subject (job_kind_of (ex_claimed 11 10 1))"
    "job_row_of (db ?w) (job_id (ex_claimed 11 10 1)) = Some r"
    using inv d r ids by (simp_all add: sys_inv_def ex_claimed_def job_row_of_def)
  from stale_job_is_closed[OF ids(3) this run[unfolded system_processor_def]] run show ?thesis
    by (simp add: ex_claimed_def)
qed

text \<open>A job that is retried later, after its event was recorded.\<close>

lemma retry_later_outcome:
  assumes "alone w" "pg_constraints (db w)" "job_row_of (db w) i = Some r" "jr_status r = Running"
    and "(case retry_delay cfg n w of (delay, v) \<Rightarrow> retry (pg_jobs lk) i (clock v + delay) m v) = (q, v')"
  shows "q = Inr () \<and> documents (db v') = documents (db w) \<and> (\<exists>delay \<ge> 500000000.
    map_option (\<lambda>x. (jr_status x, jr_attempts x, jr_run_at x)) (job_row_of (db v') i) =
      Some (Queued, jr_attempts r, clock w + delay))"
proof -
  obtain delay u where del: "retry_delay cfg n w = (delay, u)" by force
  have u: "db u = db w" "clock u = clock w" "alone u"
    using retry_delay_frame[of cfg n w] del assms(1)
    by (auto simp: alone_def retry_delay_def draw_def split: list.splits)
  let ?f = "\<lambda>x. (job_requeued (clock w + delay) x)\<lparr>jr_last_error := Some m\<rparr>"
  from assms(5) del have run: "tx (update_job_tx i ?f) u = (q, v')"
    by (simp add: pg_jobs_def pg_retry_def u)
  have "q = Inr () \<and> documents (db v') = documents (db u) \<and> events (db v') = events (db u) \<and>
      job_row_of (db v') i = Some ((?f r)\<lparr>jr_updated_at := clock u\<rparr>)"
    by (rule requeue_alone[OF u(3) _ _ _ _ _ run]) (use assms(2-4) u in \<open>simp_all add: job_requeued_def job_check_def\<close>)
  with retry_delay_least[OF del] u show ?thesis by (auto simp: job_requeued_def)
qed

lemma bury_alone:
  assumes "alone w" "pg_constraints (db w)" "job_row_of (db w) i = Some r"
    and run: "bury (pg_jobs lk) i m w = (q, v)"
  shows "q = Inr () \<and> documents (db v) = documents (db w) \<and> map_option jr_status (job_row_of (db v) i) = Some Dead"
proof -
  have "update_jobs (clock w) (\<lambda>j. jr_id j = i) (job_buried m) (db w) = Inr ((db w)\<lparr>jobs :=
      update_rows (\<lambda>j. jr_id j = i) (\<lambda>j. (job_buried m j)\<lparr>jr_updated_at := clock w\<rparr>) (jobs (db w))\<rparr>)"
    by (intro update_jobs_succeeds[OF assms(2)]) (simp_all add: job_buried_def job_check_def)
  with run assms(1) have q: "q = Inr ()" "db v = (db w)\<lparr>jobs :=
      update_rows (\<lambda>j. jr_id j = i) (\<lambda>j. (job_buried m j)\<lparr>jr_updated_at := clock w\<rparr>) (jobs (db w))\<rparr>"
    by (auto simp: tx_alone update_job_tx_def pg_jobs_def pg_bury_def)
  then have "jobs (db v) = update_rows (\<lambda>j. jr_id j = i)
      (\<lambda>j. (job_buried m j)\<lparr>jr_updated_at := clock w\<rparr>) (jobs (db w))" by simp
  from job_row_of_update[OF this] assms(3) q show ?thesis by (simp add: job_buried_def)
qed

lemma poll_again_outcome:
  assumes w: "alone w" "pg_constraints (db w)" "fresh_ids w"
    and d: "status_of (db w) (d_id d) = Some SentDian"
    and r: "job_row_of (db w) (job_id j) = Some r" "jr_status r = Running"
    and run: "poll_again (pg_processor dn lk f dian eng cfg) j d m w = (q, v)"
  shows "q = Inr () \<and> status_of (db v) (d_id d) = Some SentDian \<and>
    (if is_last_attempt j then map_option jr_status (job_row_of (db v) (job_id j)) = Some Dead
     else (\<exists>delay \<ge> 500000000. map_option (\<lambda>x. (jr_status x, jr_attempts x, jr_run_at x))
        (job_row_of (db v) (job_id j)) = Some (Queued, jr_attempts r, clock w + delay)))"
proof (cases "is_last_attempt j")
  case True
  define e where "e = dian_event_new (next_uuid w) (clock w) (d_id d) E_Error ''POLLING_EXHAUSTED'' (polling_exhausted j m)"
  define u where "u = w\<lparr>next_uuid := Suc (next_uuid w), db := (db w)\<lparr>events := events (db w) @ [e]\<rparr>\<rparr>"
  have "e_id e \<notin> e_id ` set (events (db w))" "e_document_id e \<in> d_id ` set (documents (db w))"
    using w(3) status_of_member[OF d] by (auto simp: e_def dian_event_new_def fresh_ids_def)
  then have "insert_event e (db w) = Inr (db u)"
    using insert_event_succeeds[OF w(2), of e] by (simp add: u_def)
  note ins = this
  then have rec: "record_event (pg_documents dn) e (w\<lparr>next_uuid := Suc (next_uuid w)\<rparr>) = (Inr (), u)"
    using w(1) by (simp add: pg_documents_def pg_record_event_def tx_alone u_def alone_def)
  with run True have bury: "bury (pg_jobs lk) (job_id j) (polling_exhausted j m) u = (q, v)"
    by (simp add: poll_again_def Let_def with_new_event_def new_uuid_def e_def[symmetric] io_bind_def)
  have u: "alone u" "pg_constraints (db u)" "job_row_of (db u) (job_id j) = Some r"
    using w(1,2) r(1) insert_quiet(2)[OF ins] by (simp_all add: alone_def u_def quiet_def job_row_of_def)
  from bury_alone[OF u bury] True d show ?thesis by (simp add: status_of_def u_def)
next
  case False
  with run have "(case retry_delay cfg (job_attempts j) w of (delay, v) \<Rightarrow>
      retry (pg_jobs lk) (job_id j) (clock v + delay) m v) = (q, v)"
    by (simp add: poll_again_def)
  from retry_later_outcome[OF w(1,2) r this] False d show ?thesis by (simp add: status_of_def)
qed

text \<open>
  C14. The outcome of a status query. An answer that accepts or rejects the document closes the job
  with that status. Any other answer, and a call without answer, leaves the document sent: the job is
  queued again, at least half a second later, and after its last attempt it is dead, so that the
  document waits for the administrator.
\<close>

theorem poll_outcome:
  assumes "alone w" "pg_inv (db w)" "fresh_ids w" "job_kind_of j = PollStatus"
    and "find_row (\<lambda>d. d_id d = job_document_id j) (documents (db w)) = Some d"
    and "d_status d = SentDian" "zip_key j = Some key"
    and "fst (can_execute (clock w) (for_environment (is_habilitacion d) (circuit w)))"
    and "job_row_of (db w) (job_id j) = Some r" "jr_status r = Running"
    and "process (pg_processor dn lk sign dian eng cfg) j w = (q, w')"
    and "answer = answers dian (clock w) (dian_log w) (Get_status_zip (d_tenant_id d) key (is_habilitacion d))"
  shows "q = Inr () \<and>
    (if \<exists>response. answer = Inr response \<and> status_code response \<in> {''00'', ''1''} then
       status_of (db w') (d_id d) = Some DianAccepted \<and>
       map_option jr_status (job_row_of (db w') (job_id j)) = Some Done
     else if \<exists>response. answer = Inr response \<and> status_code response = ''99'' then
       status_of (db w') (d_id d) = Some DianRejected \<and>
       map_option jr_status (job_row_of (db w') (job_id j)) = Some Done
     else status_of (db w') (d_id d) = Some SentDian \<and>
       (if job_attempts j \<ge> job_max_attempts j
        then map_option jr_status (job_row_of (db w') (job_id j)) = Some Dead
        else \<exists>delay \<ge> 500000000. map_option (\<lambda>x. (jr_status x, jr_attempts x, jr_run_at x))
          (job_row_of (db w') (job_id j)) = Some (Queued, jr_attempts r, clock w + delay)))"
proof -
  let ?P = "pg_processor dn lk sign dian eng cfg"
  let ?h = "is_habilitacion d"
  let ?c = "Get_status_zip (d_tenant_id d) key ?h"
  obtain b u0 where b: "breaker_can_execute ?h w = (b, u0)" by force
  have admitted: "b" "next_uuid u0 = next_uuid w"
    using assms(8) b by (auto simp: breaker_can_execute_def split: prod.splits)
  note u0 = breaker_can_execute_same[OF b]
  define u where "u = u0\<lparr>dian_log := dian_log w @ [?c]\<rparr>"
  have u: "alone u" "db u = db w" "clock u = clock w" "next_uuid u = next_uuid w"
    using assms(1) u0 admitted by (simp_all add: u_def alone_def)
  have run: "(case answer of
      Inl e \<Rightarrow> (\<lambda>u. poll_again ?P j d (domain_error_display e) (breaker_failure ?h u))
    | Inr response \<Rightarrow> (\<lambda>u. let u = breaker_success ?h u
        in if status_code response \<in> set accepted_codes then close_accepted ?P j d response u
           else if status_code response = rejected_code then close_rejected ?P j d response u
           else poll_again ?P j d (still_waiting response) u)) u = (q, w')"
    using assms(4-7,11) find_document_alone[OF assms(1)] b admitted(1)
    by (simp add: process_def poll_def io_bind_def dian_client_def match_exchange assms(12) u0 u_def)
  have d: "d_id d = job_document_id j" "status_of (db w) (d_id d) = Some SentDian"
    using find_row_SomeD[OF assms(5)] assms(5,6) by (simp_all add: status_of_def)
  have c: "pg_constraints (db w)" using assms(2) by (simp add: pg_inv_def)
  have again: "q = Inr () \<and> status_of (db w') (d_id d) = Some SentDian \<and>
    (if is_last_attempt j then map_option jr_status (job_row_of (db w') (job_id j)) = Some Dead
     else (\<exists>delay \<ge> 500000000. map_option (\<lambda>x. (jr_status x, jr_attempts x, jr_run_at x))
        (job_row_of (db w') (job_id j)) = Some (Queued, jr_attempts r, clock w + delay)))"
    if "poll_again ?P j d m (v\<lparr>circuit := x\<rparr>) = (q, w')" "v = u" for m v x
  proof -
    let ?v = "u\<lparr>circuit := x\<rparr>"
    have "alone ?v" "pg_constraints (db ?v)" "fresh_ids ?v" "status_of (db ?v) (d_id d) = Some SentDian"
      "job_row_of (db ?v) (job_id j) = Some r" "clock ?v = clock w"
      using u c assms(3,9) d by (simp_all add: alone_def fresh_ids_def)
    from poll_again_outcome[OF this(1-5) assms(10) that(1)[unfolded that(2)]]
    show ?thesis unfolding \<open>clock ?v = clock w\<close> .
  qed
  have closed: "q = Inr () \<and> status_of (db w') (d_id d) = Some st \<and>
      map_option jr_status (job_row_of (db w') (job_id j)) = Some Done"
    if "transition ?P j t v = (q, w')"
      "t = with_job (Complete (job_id j)) (with_event (response_event (next_uuid w) (clock w) (d_id d) es response)
         (transition_new (d_id d) st))"
      "v = (breaker_success ?h u)\<lparr>next_uuid := Suc (next_uuid w)\<rparr>" "SentDian \<in> set (allowed_predecessors st)"
    for t v es st response
  proof -
    have "q = Inr () \<and> status_of (db w') (tr_document_id t) = Some (tr_to t) \<and>
        map_option jr_status (job_row_of (db w') (job_id j)) =
          Some (case Complete (job_id j) of Complete _ \<Rightarrow> Done | Bury _ _ \<Rightarrow> Dead) \<and>
        events (db w') = events (db v) @ [response_event (next_uuid w) (clock w) (d_id d) es response]"
      by (rule transition_settles[OF _ _ _ _ _ _ _ _ _ _ _ _ that(1)])
        (use c assms(3,9) d u that(2-4) in \<open>auto simp: fresh_ids_def less_Suc_eq response_event_def alone_def
          dian_event_new_def breaker_success_def\<close>)
    then show ?thesis by (simp add: that(2))
  qed
  show ?thesis
  proof (cases answer)
    case (Inl e)
    with run have "poll_again ?P j d (domain_error_display e) (breaker_failure ?h u) = (q, w')" by simp
    from again[OF this[unfolded breaker_failure_def] refl] Inl show ?thesis
      unfolding is_last_attempt_def by (simp del: map_option_eq_Some)
  next
    case (Inr response)
    have codes: "set accepted_codes = {''00'', ''1''}" "rejected_code = ''99''"
      by (simp_all add: accepted_codes_def rejected_code_def)
    consider "status_code response \<in> {''00'', ''1''}"
      | "status_code response = ''99''" "status_code response \<notin> {''00'', ''1''}"
      | "status_code response \<noteq> ''99''" "status_code response \<notin> {''00'', ''1''}" by blast
    then show ?thesis
    proof cases
      case 1
      with run Inr closed[of _ _ E_Accepted response DianAccepted] show ?thesis
        by (simp add: codes Let_def close_accepted_def with_new_event_def new_uuid_def breaker_success_def u)
    next
      case 2
      with run Inr closed[of _ _ E_Rejected response DianRejected] show ?thesis
        by (simp add: codes Let_def close_rejected_def with_new_event_def new_uuid_def breaker_success_def u)
    next
      case 3
      with run Inr have "poll_again ?P j d (still_waiting response) (breaker_success ?h u) = (q, w')"
        by (simp add: codes Let_def)
      from again[OF this[unfolded breaker_success_def] refl] 3 Inr show ?thesis
        unfolding is_last_attempt_def by (simp del: map_option_eq_Some)
    qed
  qed
qed

definition ex_polled_document :: document where
  "ex_polled_document = ex_document_row\<lparr>d_status := SentDian\<rparr>"

definition ex_poll_row :: job_row where
  "ex_poll_row = leased ''w'' 1600 (new_job_row ex_now (poll_status_job 12 10 ''key'' 3 ex_now))"

definition ex_polling :: "pg world" where
  "ex_polling = ex_world (ex_db [ex_polled_document] [ex_poll_row])"

definition ex_poll_job :: job where
  "ex_poll_job = \<lparr>job_id = 12, job_kind_of = PollStatus, job_document_id = 10,
     job_payload = [(''zip_key'', J_str ''key'')], job_attempts = 1, job_max_attempts = 3\<rparr>"

theorem poll_outcome_witness:
  "\<exists>w. process (system_processor accepting) ex_poll_job ex_polling = (Inr (), w) \<and>
    status_of (db w) 10 = Some DianAccepted \<and> map_option jr_status (job_row_of (db w) 12) = Some Done"
proof -
  obtain q w where run: "process (system_processor accepting) ex_poll_job ex_polling = (q, w)" by force
  have "pg_constraints (db ex_polling)" by code_simp
  moreover have "numbering_inv (db ex_polling) = numbering_inv (db (sys_world ex_running))"
    by (simp add: numbering_inv_def gapless_def numbers_of_def ex_polling_def ex_polled_document_def example_eval)
  ultimately have inv: "pg_inv (db ex_polling)" using ex_inv(2) by (simp add: sys_inv_def pg_inv_def)
  have "alone ex_polling" "fresh_ids ex_polling" "job_kind_of ex_poll_job = PollStatus"
    "find_row (\<lambda>d. d_id d = job_document_id ex_poll_job) (documents (db ex_polling)) = Some ex_polled_document"
    "d_status ex_polled_document = SentDian" "zip_key ex_poll_job = Some ''key''"
    "fst (can_execute (clock ex_polling) (for_environment (is_habilitacion ex_polled_document) (circuit ex_polling)))"
    "job_row_of (db ex_polling) (job_id ex_poll_job) = Some ex_poll_row" "jr_status ex_poll_row = Running"
    by (simp_all add: ex_polling_def ex_polled_document_def ex_poll_row_def ex_poll_job_def poll_status_job_def
        alone_def fresh_ids_def job_row_of_def example_eval can_execute_def for_environment_def zip_key_def
        is_habilitacion_def obj_str_def obj_get_def)
  note facts = poll_outcome[OF this(1) inv this(2-9) run[unfolded system_processor_def] refl]
  have "answers (dp_dian accepting) t l c = Inr (ex_response ''00'')" for t l c
    by (simp add: accepting_def ex_deployment_def ex_dian_def)
  with facts run show ?thesis
    by (simp add: ex_poll_job_def ex_polled_document_def example_eval)
qed

end
