(* ===== verification/Money.thy ===== *)
theory Money
  imports Complex_Main Ports
begin

text \<open>
  \<open>core-domain/src/money.rs\<close>: amounts of money. The API receives \<open>f64\<close>; all arithmetic is done in
  \<open>rust_decimal::Decimal\<close>, which is the parameter \<open>decimals\<close>: the operations the code calls, with
  \<open>None\<close> for the panic of an overflow. The locale \<open>decimal_arithmetic\<close> states the documented laws of
  that library in terms of the value of a decimal; only theorems that speak of values assume it, and
  \<open>exact_decimals\<close> (integer mantissa of 96 bits, scale at most 28) satisfies it.
\<close>

section \<open>Panics\<close>

datatype 'e failure = Panicked | Failed 'e

section \<open>The text of a float\<close>

text \<open>\<open>f64::to_string\<close> writes all digits, without an exponent.\<close>

definition point_digits :: "nat \<Rightarrow> nat \<Rightarrow> string" where
  "point_digits k m =
     (let ds = nat_dec m; padded = replicate (Suc k - length ds) CHR ''0'' @ ds; n = length padded - k
      in take n padded @ ''.'' @ drop n padded)"

fun f64_to_string :: "f64 \<Rightarrow> string" where
  "f64_to_string F_nan = ''NaN''"
| "f64_to_string (F_inf neg) = (if neg then ''-inf'' else ''inf'')"
| "f64_to_string (F_fin neg m e) =
     (if neg then ''-'' else '''') @
     (if 0 \<le> e then nat_dec (m * 10 ^ nat e) else point_digits (nat (- e)) m)"

fun is_finite :: "f64 \<Rightarrow> bool" where
  "is_finite (F_fin _ _ _) = True"
| "is_finite _ = False"

section \<open>Decimals\<close>

record 'd decimals =
  dec_parse :: "string \<Rightarrow> 'd option"
  dec_of_nat :: "nat \<Rightarrow> 'd"
  dec_normalize :: "'d \<Rightarrow> 'd"
  dec_negative :: "'d \<Rightarrow> bool"
  dec_is_zero :: "'d \<Rightarrow> bool"
  dec_scale :: "'d \<Rightarrow> nat"
  dec_eq :: "'d \<Rightarrow> 'd \<Rightarrow> bool"
  dec_less :: "'d \<Rightarrow> 'd \<Rightarrow> bool"
  dec_add :: "'d \<Rightarrow> 'd \<Rightarrow> 'd option"
  dec_sub :: "'d \<Rightarrow> 'd \<Rightarrow> 'd option"
  dec_mul :: "'d \<Rightarrow> 'd \<Rightarrow> 'd option"
  dec_div :: "'d \<Rightarrow> 'd \<Rightarrow> 'd option"
  dec_round_dp :: "nat \<Rightarrow> 'd \<Rightarrow> 'd"
  dec_round_away :: "nat \<Rightarrow> 'd \<Rightarrow> 'd"
  dec_text :: "'d \<Rightarrow> string"
  dec_fixed :: "nat \<Rightarrow> 'd \<Rightarrow> string"

definition max_scale :: nat where "max_scale = 2"

definition quoted :: "string \<Rightarrow> string" where
  "quoted s = CHR 0x27 # s @ [CHR 0x27]"

definition not_a_number :: "string \<Rightarrow> string" where
  "not_a_number field = ''El monto '' @ quoted field @ '' no es un numero valido''"

definition not_representable :: "string \<Rightarrow> string" where
  "not_representable field = ''El monto '' @ quoted field @ '' no es representable''"

definition negative_amount :: "string \<Rightarrow> string" where
  "negative_amount field = ''El monto '' @ quoted field @ '' no puede ser negativo''"

definition too_many_decimals :: "string \<Rightarrow> string" where
  "too_many_decimals field =
     ''El monto '' @ quoted field @ '' admite como maximo '' @ nat_dec max_scale @ '' decimales''"

definition to_amount :: "'d decimals \<Rightarrow> string \<Rightarrow> f64 \<Rightarrow> 'd result" where
  "to_amount L field v =
     (if \<not> is_finite v then Inl (Validation (not_a_number field))
      else case dec_parse L (f64_to_string v) of
        None \<Rightarrow> Inl (Validation (not_representable field))
      | Some parsed \<Rightarrow>
          (let amount = dec_normalize L parsed
           in if dec_negative L amount then Inl (Validation (negative_amount field))
              else if dec_scale L amount > max_scale then Inl (Validation (too_many_decimals field))
              else Inr amount))"

definition format_amount :: "'d decimals \<Rightarrow> 'd \<Rightarrow> string" where
  "format_amount L d = dec_fixed L 2 (dec_round_dp L max_scale d)"

definition mismatch :: "'d decimals \<Rightarrow> string \<Rightarrow> 'd \<Rightarrow> 'd \<Rightarrow> string" where
  "mismatch L description expected actual =
     description @ '': se esperaba '' @ format_amount L expected @ '' pero se recibio '' @ format_amount L actual"

definition require_equal :: "'d decimals \<Rightarrow> string \<Rightarrow> 'd \<Rightarrow> 'd \<Rightarrow> unit result" where
  "require_equal L description expected actual =
     (if \<not> dec_eq L expected actual then Inl (Validation (mismatch L description expected actual)) else Inr ())"

text \<open>An operator of \<open>Decimal\<close>: an overflow panics.\<close>

definition or_panic :: "'a option \<Rightarrow> 'e failure + 'a" where
  "or_panic x = ok_or Panicked x"

section \<open>The documented laws\<close>

locale decimal_arithmetic =
  fixes L :: "'d decimals"
    and dec_value :: "'d \<Rightarrow> rat"
  assumes add_value: "dec_add L x y = Some z \<Longrightarrow> dec_value z = dec_value x + dec_value y"
    and sub_value: "dec_sub L x y = Some z \<Longrightarrow> dec_value z = dec_value x - dec_value y"
    and eq_value: "dec_eq L x y \<longleftrightarrow> dec_value x = dec_value y"
    and less_value: "dec_less L x y \<longleftrightarrow> dec_value x < dec_value y"
    and nat_value: "dec_value (dec_of_nat L n) = of_nat n"
    and sign_value: "\<not> dec_negative L x \<Longrightarrow> 0 \<le> dec_value x"
    and normalize_value: "dec_value (dec_normalize L x) = dec_value x"
    and scale_value: "\<exists>k :: int. dec_value x = of_int k / 10 ^ dec_scale L x"
begin

text \<open>A validated amount is a whole number of cents, and not negative.\<close>

lemma amount_cents:
  assumes "to_amount L field v = Inr d"
  shows "\<exists>c :: nat. dec_value d = of_nat c / 100"
proof -
  from assms have d: "\<not> dec_negative L d" "dec_scale L d \<le> 2"
    by (auto simp: to_amount_def Let_def max_scale_def split: if_splits option.splits)
  obtain k :: int where k: "dec_value d = of_int k / 10 ^ dec_scale L d" using scale_value by blast
  define n where "n = 2 - dec_scale L d"
  have hundred: "(100 :: rat) = 10 ^ dec_scale L d * 10 ^ n"
    using d(2) by (simp flip: power_add add: n_def)
  have v: "dec_value d = of_int (k * 10 ^ n) / 100"
    unfolding k hundred by simp
  have "0 \<le> (of_int (k * 10 ^ n) :: rat)" using sign_value[OF d(1)] unfolding v by linarith
  then have "0 \<le> k * 10 ^ n" by (simp only: of_int_0_le_iff)
  then have "of_int (k * 10 ^ n) = (of_nat (nat (k * 10 ^ n)) :: rat)" by (metis of_int_of_nat_eq nat_0_le)
  with v show ?thesis by metis
qed

lemma equal_value: "require_equal L t x y = Inr u \<Longrightarrow> dec_value x = dec_value y"
  by (simp add: require_equal_def eq_value split: if_splits)

end

section \<open>An instance of the parameter\<close>

text \<open>A decimal as its mantissa and scale; a result that does not fit into 96 bits is an overflow.\<close>

type_synonym exact = "int \<times> nat"

definition exact_value :: "exact \<Rightarrow> rat" where
  "exact_value d = of_int (fst d) / 10 ^ snd d"

definition exact_make :: "int \<Rightarrow> nat \<Rightarrow> exact option" where
  "exact_make m k = (if \<bar>m\<bar> < 2 ^ 96 \<and> k \<le> 28 then Some (m, k) else None)"

definition exact_at :: "nat \<Rightarrow> exact \<Rightarrow> int" where
  "exact_at k d = fst d * 10 ^ (k - snd d)"

definition exact_combine :: "(int \<Rightarrow> int \<Rightarrow> int) \<Rightarrow> exact \<Rightarrow> exact \<Rightarrow> exact option" where
  "exact_combine f x y = (let k = max (snd x) (snd y) in exact_make (f (exact_at k x) (exact_at k y)) k)"

definition exact_compare :: "(int \<Rightarrow> int \<Rightarrow> bool) \<Rightarrow> exact \<Rightarrow> exact \<Rightarrow> bool" where
  "exact_compare R x y = (let k = max (snd x) (snd y) in R (exact_at k x) (exact_at k y))"

fun exact_normalize :: "int \<Rightarrow> nat \<Rightarrow> exact" where
  "exact_normalize m 0 = (m, 0)"
| "exact_normalize m (Suc k) = (if m mod 10 = 0 then exact_normalize (m div 10) k else (m, Suc k))"

text \<open>Division of the mantissa, with the half away from zero or to the even, and to at most 28 places.\<close>

definition half_away :: "int \<Rightarrow> int \<Rightarrow> int" where
  "half_away m q = sgn m * ((2 * \<bar>m\<bar> + q) div (2 * q))"

definition half_even :: "int \<Rightarrow> int \<Rightarrow> int" where
  "half_even m q = (let d = m div q; r = 2 * (m mod q) in if r < q \<or> (r = q \<and> even d) then d else d + 1)"

fun exact_quotient :: "nat \<Rightarrow> int \<Rightarrow> int \<Rightarrow> nat \<Rightarrow> exact" where
  "exact_quotient 0 m q k = (half_even m q, k)"
| "exact_quotient (Suc n) m q k = (if m mod q = 0 then (m div q, k) else exact_quotient n (10 * m) q (Suc k))"

definition exact_round :: "(int \<Rightarrow> int \<Rightarrow> int) \<Rightarrow> nat \<Rightarrow> exact \<Rightarrow> exact" where
  "exact_round f n d = (if snd d \<le> n then d else (f (fst d) (10 ^ (snd d - n)), n))"

definition exact_text :: "exact \<Rightarrow> string" where
  "exact_text d = (if fst d < 0 then ''-'' else []) @
     (if snd d = 0 then nat_dec (nat \<bar>fst d\<bar>) else point_digits (snd d) (nat \<bar>fst d\<bar>))"

definition exact_fixed :: "nat \<Rightarrow> exact \<Rightarrow> string" where
  "exact_fixed n d = (let r = exact_round half_even n d in exact_text (exact_at (max n (snd r)) r, max n (snd r)))"

definition exact_parse :: "string \<Rightarrow> exact option" where
  "exact_parse s =
     (let neg = starts_with ''-'' s; t = (if neg then tl s else s);
          whole = takeWhile is_ascii_digit t; rest = drop (Suc (length whole)) t;
          m = int (digits_value (whole @ rest))
      in if whole \<noteq> [] \<and> all_digits rest \<and> (whole = t \<or> (t ! length whole = CHR ''.'' \<and> rest \<noteq> []))
         then exact_make (if neg then - m else m) (length rest) else None)"

definition exact_decimals :: "exact decimals" where
  "exact_decimals =
     \<lparr>dec_parse = exact_parse, dec_of_nat = (\<lambda>n. (int n, 0)),
      dec_normalize = (\<lambda>d. exact_normalize (fst d) (snd d)),
      dec_negative = (\<lambda>d. fst d < 0), dec_is_zero = (\<lambda>d. fst d = 0), dec_scale = snd,
      dec_eq = exact_compare (=), dec_less = exact_compare (<),
      dec_add = exact_combine (+), dec_sub = exact_combine (-),
      dec_mul = (\<lambda>x y. exact_make (fst x * fst y) (snd x + snd y)),
      dec_div = (\<lambda>x y. if fst y = 0 then None
         else case exact_quotient (28 - snd x) (fst x * 10 ^ snd y * sgn (fst y)) \<bar>fst y\<bar> (snd x) of
           (m, k) \<Rightarrow> exact_make m k),
      dec_round_dp = exact_round half_even, dec_round_away = exact_round half_away,
      dec_text = exact_text, dec_fixed = exact_fixed\<rparr>"

lemma exact_at_value: "snd d \<le> k \<Longrightarrow> of_int (exact_at k d) / 10 ^ k = exact_value d"
  by (simp add: exact_at_def exact_value_def field_simps flip: power_add)

lemma exact_combine_value:
  assumes "exact_combine f x y = Some z" "\<And>a b. (of_int (f a b) :: rat) = g (of_int a) (of_int b)"
    and "\<And>a b c. g a b / c = g (a / c) (b / c :: rat)"
  shows "exact_value z = g (exact_value x) (exact_value y)"
proof -
  let ?k = "max (snd x) (snd y)"
  from assms(1) have "z = (f (exact_at ?k x) (exact_at ?k y), ?k)"
    by (auto simp: exact_combine_def exact_make_def Let_def split: if_splits)
  then have "exact_value z = g (of_int (exact_at ?k x) / 10 ^ ?k) (of_int (exact_at ?k y) / 10 ^ ?k)"
    by (simp add: exact_value_def assms(2,3))
  then show ?thesis by (simp add: exact_at_value)
qed

lemma exact_compare_value:
  assumes "\<And>a b c. 0 < c \<Longrightarrow> R a b \<longleftrightarrow> S (of_int a / c) (of_int b / c :: rat)"
  shows "exact_compare R x y \<longleftrightarrow> S (exact_value x) (exact_value y)"
proof -
  let ?k = "max (snd x) (snd y)"
  have "exact_compare R x y \<longleftrightarrow> S (of_int (exact_at ?k x) / 10 ^ ?k) (of_int (exact_at ?k y) / 10 ^ ?k)"
    unfolding exact_compare_def Let_def by (rule assms) simp
  then show ?thesis by (simp add: exact_at_value)
qed

lemma exact_normalize_value: "exact_value (exact_normalize m k) = exact_value (m, k)"
proof (induction m k rule: exact_normalize.induct)
  case (2 m k)
  show ?case
  proof (cases "m mod 10 = 0")
    case True
    then have "m = 10 * (m div 10)" by presburger
    then have "(of_int m :: rat) = 10 * of_int (m div 10)" by (metis of_int_mult of_int_numeral)
    with 2 True show ?thesis by (simp add: exact_value_def)
  qed simp
qed simp

interpretation exact: decimal_arithmetic exact_decimals exact_value
proof
  show "dec_add exact_decimals x y = Some z \<Longrightarrow> exact_value z = exact_value x + exact_value y" for x y z
    by (rule exact_combine_value[of "(+)"]) (simp_all add: exact_decimals_def add_divide_distrib)
  show "dec_sub exact_decimals x y = Some z \<Longrightarrow> exact_value z = exact_value x - exact_value y" for x y z
    by (rule exact_combine_value[of "(-)"]) (simp_all add: exact_decimals_def diff_divide_distrib)
  show "dec_eq exact_decimals x y \<longleftrightarrow> exact_value x = exact_value y" for x y
    by (simp add: exact_decimals_def exact_compare_value[of "(=)" "(=)"])
  show "dec_less exact_decimals x y \<longleftrightarrow> exact_value x < exact_value y" for x y
    by (simp add: exact_decimals_def exact_compare_value[of "(<)" "(<)"] divide_less_cancel)
  show "\<exists>k :: int. exact_value x = of_int k / 10 ^ dec_scale exact_decimals x" for x
    by (auto simp: exact_decimals_def exact_value_def)
  show "exact_value (dec_normalize exact_decimals x) = exact_value x" for x
    by (simp add: exact_decimals_def exact_normalize_value)
qed (simp_all add: exact_decimals_def exact_value_def)

end
