(* ===== verification/Nit.thy ===== *)
theory Nit
  imports Rust_Text
begin

text \<open>
  \<open>core-domain/src/nit.rs\<close>: the check digit of a Colombian tax number, modulo 11 with a weight per
  position from the right. The lemmas show which typing errors it reveals.
\<close>

definition weights :: "nat list" where
  "weights = [3, 7, 13, 17, 19, 23, 29, 37, 41, 43, 47, 53, 59, 67, 71]"

text \<open>The \<open>zip\<close> of the reversed digits with the weights, summed up.\<close>

fun weighted_sum :: "string \<Rightarrow> nat list \<Rightarrow> nat" where
  "weighted_sum (c # cs) (w # ws) = digit_value c * w + weighted_sum cs ws"
| "weighted_sum _ _ = 0"

definition check_digit :: "string \<Rightarrow> nat option" where
  "check_digit nit =
     (if nit = [] \<or> length nit > length weights \<or> \<not> all_digits nit then None
      else let remainder = weighted_sum (rev nit) weights mod 11
           in Some (if remainder \<ge> 2 then 11 - remainder else remainder))"

lemma digit_value_bound: "is_ascii_digit c \<Longrightarrow> digit_value c \<le> 9"
  by (simp add: is_ascii_digit_def digit_value_def le_diff_conv)

lemma digit_value_inject: "is_ascii_digit c \<Longrightarrow> is_ascii_digit d \<Longrightarrow> digit_value c = digit_value d \<Longrightarrow> c = d"
  unfolding is_ascii_digit_def digit_value_def byte_def
  by (metis diff_diff_cancel diff_is_0_eq eq_diff_iff of_char_eq_iff)

text \<open>The \<open>u32\<close> sum does not overflow.\<close>

lemma weighted_sum_le: "list_all is_ascii_digit s \<Longrightarrow> weighted_sum s ws \<le> 9 * sum_list ws"
proof (induction s ws rule: weighted_sum.induct)
  case (1 c cs w ws)
  then have "digit_value c * w \<le> 9 * w" "weighted_sum cs ws \<le> 9 * sum_list ws"
    by (simp_all add: digit_value_bound)
  then show ?case unfolding weighted_sum.simps sum_list.Cons distrib_left by (rule add_mono)
qed auto

lemma weighted_sum_u32: "all_digits nit \<Longrightarrow> weighted_sum (rev nit) weights < 2 ^ 32"
  using weighted_sum_le[of "rev nit" weights] by (simp add: all_digits_def weights_def)

lemma weighted_sum_update:
  "k < length s \<Longrightarrow> k < length ws \<Longrightarrow>
   weighted_sum (s[k := c]) ws + digit_value (s ! k) * ws ! k = weighted_sum s ws + digit_value c * ws ! k"
proof (induction s ws arbitrary: k rule: weighted_sum.induct)
  case (1 x cs w ws)
  then show ?case by (cases k) auto
qed auto

lemma check_digit_Some_iff:
  "check_digit nit = Some d \<longleftrightarrow> nit \<noteq> [] \<and> length nit \<le> length weights \<and> all_digits nit \<and>
     (let r = weighted_sum (rev nit) weights mod 11 in d = (if r \<ge> 2 then 11 - r else r))"
  by (auto simp: check_digit_def Let_def)

text \<open>Equal check digits come from equal remainders, except for the check digit one.\<close>

lemma remainder_of_check_digit:
  fixes q r :: nat
  assumes "q < 11" "r < 11" "(if q \<ge> 2 then 11 - q else q) = (if r \<ge> 2 then 11 - r else r)"
  shows "q = r \<or> (if q \<ge> 2 then 11 - q else q) = 1"
  using assms by (auto split: if_splits)

lemma weight_invertible: "w \<in> set weights \<Longrightarrow> \<exists>v < 11. w * v mod 11 = 1"
proof -
  have "list_all (\<lambda>w. list_ex (\<lambda>v. w * v mod 11 = 1) [0..<11]) weights" by code_simp
  then show "w \<in> set weights \<Longrightarrow> \<exists>v < 11. w * v mod 11 = 1"
    by (force simp: list_all_iff list_ex_iff)
qed

lemma weight_cancel:
  fixes a b w :: nat
  assumes "a \<le> 9" "b \<le> 9" "w \<in> set weights" "(a * w) mod 11 = (b * w) mod 11"
  shows "a = b"
proof -
  from weight_invertible[OF assms(3)] obtain v where v: "w * v mod 11 = 1" by blast
  have "x mod 11 = ((x * w) mod 11 * v) mod 11" for x
  proof -
    have "((x * w) mod 11 * v) mod 11 = (x * (w * v mod 11)) mod 11"
      by (simp add: mod_mult_left_eq mod_mult_right_eq mult.assoc)
    then show ?thesis by (simp add: v)
  qed
  with assms(4) have "a mod 11 = b mod 11" by metis
  with assms(1,2) show ?thesis by simp
qed

lemma cancel_mod:
  fixes a b s t :: nat
  assumes "s mod 11 = t mod 11" "t + a = s + b"
  shows "a mod 11 = b mod 11"
proof -
  have "(s + a + 10 * s) mod 11 = (s + b + 10 * s) mod 11"
    using assms by (metis mod_add_cong)
  moreover have "s + x + 10 * s = x + s * 11" for x by simp
  ultimately show ?thesis by simp
qed

text \<open>
  A wrong digit is noticed. Replacing one digit of a tax number by another changes its check digit,
  unless the check digit is one (the only value that two remainders share).
\<close>

theorem check_digit_detects:
  assumes "check_digit nit = Some d" "i < length nit" "is_ascii_digit c" "c \<noteq> nit ! i"
    and "check_digit (nit[i := c]) = Some e" "d \<noteq> 1"
  shows "e \<noteq> d"
proof
  assume "e = d"
  let ?k = "length nit - Suc i"
  let ?r = "rev nit"
  from assms(1) have n: "length nit \<le> length weights" "all_digits nit"
    by (auto simp: check_digit_Some_iff)
  have k: "?k < length ?r" "?k < length weights" "?r ! ?k = nit ! i" using assms(2) n(1)
    by (auto simp: rev_nth)
  have upd: "rev (nit[i := c]) = ?r[?k := c]" using assms(2) by (simp add: rev_update)
  let ?S = "weighted_sum ?r weights" and ?T = "weighted_sum (?r[?k := c]) weights"
  have "?S mod 11 = ?T mod 11"
    using remainder_of_check_digit[of "?S mod 11" "?T mod 11"] assms(1,5,6) \<open>e = d\<close> upd
    by (auto simp: check_digit_Some_iff Let_def split: if_splits)
  moreover have "?T + digit_value (nit ! i) * weights ! ?k = ?S + digit_value c * weights ! ?k"
    using weighted_sum_update[OF k(1,2), of c] k(3) by simp
  ultimately have eq: "(digit_value (nit ! i) * weights ! ?k) mod 11 = (digit_value c * weights ! ?k) mod 11"
    by (rule cancel_mod)
  have digit: "is_ascii_digit (nit ! i)" using n(2) assms(2) by (simp add: all_digits_def list_all_length)
  have "digit_value (nit ! i) = digit_value c"
    by (rule weight_cancel[OF digit_value_bound[OF digit] digit_value_bound[OF assms(3)] nth_mem[OF k(2)] eq])
  then show False
    using digit_value_inject[OF digit assms(3)] assms(4) by simp
qed

theorem check_digit_detects_witness:
  "check_digit ''890903938'' = Some 8 \<and> check_digit ''890903939'' \<noteq> Some 8"
proof -
  have d: "check_digit ''890903938'' = Some 8" by code_simp
  moreover have e: "check_digit (''890903938''[8 := CHR ''9'']) = Some 5" by code_simp
  ultimately show ?thesis
    using check_digit_detects[OF d, of 8 "CHR ''9''" 5] by (simp add: is_ascii_digit_def byte_def)
qed

end
