(* ===== verification/Ubl_Lines.thy ===== *)
theory Ubl_Lines
  imports Ubl_Payload Money Nit
begin

text \<open>
  \<open>ubl-engine/src/error.rs\<close> and \<open>model.rs\<close>: the detail lines of a document, their amounts and the tax
  subtotals per rate. The lemmas show that what is accepted adds up: lines to the totals, subtotals to
  the lines.
\<close>

datatype ubl_error =
    Calculation string
  | Ubl_validation string
  | Template string
  | Formatting string

fun ubl_error_display :: "ubl_error \<Rightarrow> string" where
  "ubl_error_display (Calculation m) = ''CUFE/CUDE calculation failed: '' @ m"
| "ubl_error_display (Ubl_validation m) = ''XML payload validation failed: '' @ m"
| "ubl_error_display (Template m) = ''XML template rendering failed: '' @ m"
| "ubl_error_display (Formatting m) = ''Formatting error: '' @ m"

type_synonym 'a ubl = "ubl_error failure + 'a"

text \<open>\<open>return Err(UblError::Validation(..))\<close>, and the guard that does so unless a condition holds.\<close>

definition refuse :: "string \<Rightarrow> 'a ubl" where
  "refuse m = Inl (Failed (Ubl_validation m))"

definition ensure :: "bool \<Rightarrow> string \<Rightarrow> unit ubl" where
  "ensure ok m = (if ok then Inr () else refuse m)"

lemma ensure_Inr [simp]: "ensure ok m = Inr u \<longleftrightarrow> ok"
  by (simp add: ensure_def refuse_def)

lemma ensure_True [simp]: "ensure True m = Inr ()"
  by (simp add: ensure_def)

section \<open>Decimals of a line\<close>

definition max_lines :: nat where "max_lines = 500"
definition default_unit_code :: string where "default_unit_code = ''94''"
definition synthetic_line_description :: string where
  "synthetic_line_description = ''Venta de bienes y/o servicios''"

definition sign_rule :: "bool \<Rightarrow> string" where
  "sign_rule allow_zero = (if allow_zero then ''mayor o igual a cero'' else ''mayor que cero'')"

definition line_decimal :: "'d decimals \<Rightarrow> string \<Rightarrow> f64 \<Rightarrow> nat \<Rightarrow> bool \<Rightarrow> 'd ubl" where
  "line_decimal L field v most allow_zero =
     (if \<not> is_finite v then refuse (field @ '' no es un numero valido'')
      else case dec_parse L (f64_to_string v) of
        None \<Rightarrow> refuse (field @ '' no es representable'')
      | Some parsed \<Rightarrow>
          (let d = dec_normalize L parsed
           in if dec_negative L d \<or> (\<not> allow_zero \<and> dec_is_zero L d)
              then refuse (field @ '' debe ser '' @ sign_rule allow_zero)
              else if dec_scale L d > most
              then refuse (field @ '' admite como maximo '' @ nat_dec most @ '' decimales'')
              else Inr d))"

definition round2 :: "'d decimals \<Rightarrow> 'd \<Rightarrow> 'd" where
  "round2 L d = dec_round_away L 2 d"

definition format_decimal :: "'d decimals \<Rightarrow> 'd \<Rightarrow> string" where
  "format_decimal L d =
     (let n = dec_normalize L d in if dec_scale L n < 2 then format_amount L n else dec_text L n)"

section \<open>Lines\<close>

record line_data =
  ld_id :: nat
  ld_description :: string
  ld_quantity :: string
  ld_unit_code :: string
  ld_unit_price :: string
  ld_line_extension :: string
  ld_tax_percent :: string
  ld_tax_amount :: string

record tax_subtotal_data =
  ts_taxable :: string
  ts_tax :: string
  ts_percent :: string

record 'd computed_line =
  cl_data :: line_data
  cl_line_extension :: 'd
  cl_tax_amount :: 'd
  cl_tax_percent :: 'd

definition line_field :: "nat \<Rightarrow> string \<Rightarrow> string" where
  "line_field n field = ''lines['' @ nat_dec n @ ''].'' @ field"

definition valid_unit_code :: "string \<Rightarrow> bool" where
  "valid_unit_code c \<longleftrightarrow> c \<noteq> [] \<and> length c \<le> 3 \<and> list_all is_ascii_alphanumeric c"

definition unit_code_of :: "line_payload \<Rightarrow> string" where
  "unit_code_of l = (case lp_unit_code l of None \<Rightarrow> default_unit_code | Some c \<Rightarrow> c)"

text \<open>The body of the loop over the lines, for the line with number \<open>n\<close>.\<close>

definition compute_line :: "'d decimals \<Rightarrow> nat \<Rightarrow> line_payload \<Rightarrow> 'd computed_line ubl" where
  "compute_line L n l =
     bind_ok (ensure (trim (lp_description l) \<noteq> [] \<and> length (utf8_chars (lp_description l)) \<le> 300)
       (line_field n ''description'' @ '' debe tener entre 1 y 300 caracteres'')) (\<lambda>_.
     bind_ok (line_decimal L (line_field n ''quantity'') (lp_quantity l) 6 False) (\<lambda>quantity.
     bind_ok (line_decimal L (line_field n ''unit_price'') (lp_unit_price l) 4 True) (\<lambda>unit_price.
     bind_ok (line_decimal L (line_field n ''tax_percent'') (lp_tax_percent l) 2 True) (\<lambda>percent.
     bind_ok (ensure (\<not> dec_less L (dec_of_nat L 100) percent)
       (line_field n ''tax_percent'' @ '' no puede superar 100'')) (\<lambda>_.
     bind_ok (ensure (valid_unit_code (unit_code_of l))
       (line_field n ''unit_code'' @ '' no es un codigo valido'')) (\<lambda>_.
     bind_ok (or_panic (dec_mul L quantity unit_price)) (\<lambda>product.
     bind_ok (or_panic (dec_mul L (round2 L product) percent)) (\<lambda>taxed.
     bind_ok (or_panic (dec_div L taxed (dec_of_nat L 100))) (\<lambda>tax.
     Inr \<lparr>cl_data = \<lparr>ld_id = n, ld_description = lp_description l,
                     ld_quantity = dec_text L (dec_normalize L quantity), ld_unit_code = unit_code_of l,
                     ld_unit_price = format_decimal L unit_price,
                     ld_line_extension = format_amount L (round2 L product),
                     ld_tax_percent = format_amount L percent, ld_tax_amount = format_amount L (round2 L tax)\<rparr>,
          cl_line_extension = round2 L product, cl_tax_amount = round2 L tax, cl_tax_percent = percent\<rparr>)))))))))"

fun compute_each :: "'d decimals \<Rightarrow> nat \<Rightarrow> line_payload list \<Rightarrow> 'd computed_line list ubl" where
  "compute_each L n [] = Inr []"
| "compute_each L n (l # ls) =
     bind_ok (compute_line L n l) (\<lambda>c. bind_ok (compute_each L (Suc n) ls) (\<lambda>cs. Inr (c # cs)))"

text \<open>\<open>Iterator::sum\<close>.\<close>

fun dec_sum_from :: "'d decimals \<Rightarrow> 'd \<Rightarrow> 'd list \<Rightarrow> 'd ubl" where
  "dec_sum_from L acc [] = Inr acc"
| "dec_sum_from L acc (d # ds) = bind_ok (or_panic (dec_add L acc d)) (\<lambda>s. dec_sum_from L s ds)"

definition dec_sum :: "'d decimals \<Rightarrow> 'd list \<Rightarrow> 'd ubl" where
  "dec_sum L ds = dec_sum_from L (dec_of_nat L 0) ds"

definition synthetic_line :: "'d decimals \<Rightarrow> 'd \<Rightarrow> 'd \<Rightarrow> 'd \<Rightarrow> 'd computed_line" where
  "synthetic_line L net tax percent =
     \<lparr>cl_data = \<lparr>ld_id = 1, ld_description = synthetic_line_description, ld_quantity = ''1'',
                ld_unit_code = default_unit_code, ld_unit_price = format_amount L net,
                ld_line_extension = format_amount L net, ld_tax_percent = format_amount L percent,
                ld_tax_amount = format_amount L tax\<rparr>,
      cl_line_extension = net, cl_tax_amount = tax, cl_tax_percent = percent\<rparr>"

definition sum_mismatch :: "'d decimals \<Rightarrow> string \<Rightarrow> string \<Rightarrow> 'd \<Rightarrow> 'd \<Rightarrow> string" where
  "sum_mismatch L what field lines_sum expected =
     ''La suma '' @ what @ '' ('' @ format_amount L lines_sum @ '') no coincide con '' @ field @ '' ('' @
     format_amount L expected @ '')''"

definition compute :: "'d decimals \<Rightarrow> line_payload list option \<Rightarrow> 'd \<Rightarrow> 'd \<Rightarrow> 'd computed_line list ubl" where
  "compute L lines net tax =
     (case lines of
        None \<Rightarrow>
          bind_ok (if dec_is_zero L net then Inr (dec_of_nat L 0)
                   else bind_ok (or_panic (dec_mul L tax (dec_of_nat L 100))) (\<lambda>p.
                        bind_ok (or_panic (dec_div L p net)) (\<lambda>q. Inr (round2 L q)))) (\<lambda>percent.
          Inr [synthetic_line L net tax percent])
      | Some ls \<Rightarrow>
          bind_ok (ensure (ls \<noteq> [] \<and> length ls \<le> max_lines)
            (''lines debe tener entre 1 y '' @ nat_dec max_lines @ '' elementos'')) (\<lambda>_.
          bind_ok (compute_each L 1 ls) (\<lambda>computed.
          bind_ok (dec_sum L (map cl_line_extension computed)) (\<lambda>lines_net.
          bind_ok (dec_sum L (map cl_tax_amount computed)) (\<lambda>lines_tax.
          bind_ok (ensure (dec_eq L lines_net net)
            (sum_mismatch L ''de las lineas'' ''net_amount'' lines_net net)) (\<lambda>_.
          bind_ok (ensure (dec_eq L lines_tax tax)
            (sum_mismatch L ''del IVA de las lineas'' ''tax_amount'' lines_tax tax)) (\<lambda>_.
          Inr computed)))))))"

definition compute_lines :: "'d decimals \<Rightarrow> line_payload list option \<Rightarrow> 'd \<Rightarrow> 'd \<Rightarrow> line_data list ubl" where
  "compute_lines L lines net tax = bind_ok (compute L lines net tax) (\<lambda>cs. Inr (map cl_data cs))"

section \<open>Subtotals\<close>

text \<open>
  The \<open>BTreeMap\<close> from rates to sums is a list in increasing order of the rate; \<open>entry(..).or_default()\<close>
  starts at zero.
\<close>

type_synonym 'd group = "'d \<times> 'd \<times> 'd"

definition add_to_group :: "'d decimals \<Rightarrow> 'd computed_line \<Rightarrow> 'd group \<Rightarrow> 'd group ubl" where
  "add_to_group L l g = (case g of (percent, taxable, tax) \<Rightarrow>
     bind_ok (or_panic (dec_add L taxable (cl_line_extension l))) (\<lambda>a.
     bind_ok (or_panic (dec_add L tax (cl_tax_amount l))) (\<lambda>b. Inr (percent, a, b))))"

fun add_group :: "'d decimals \<Rightarrow> 'd computed_line \<Rightarrow> 'd group list \<Rightarrow> 'd group list ubl" where
  "add_group L l [] =
     bind_ok (add_to_group L l (cl_tax_percent l, dec_of_nat L 0, dec_of_nat L 0)) (\<lambda>g. Inr [g])"
| "add_group L l (g # gs) =
     (if dec_less L (cl_tax_percent l) (fst g)
      then bind_ok (add_to_group L l (cl_tax_percent l, dec_of_nat L 0, dec_of_nat L 0)) (\<lambda>h. Inr (h # g # gs))
      else if dec_less L (fst g) (cl_tax_percent l)
      then bind_ok (add_group L l gs) (\<lambda>hs. Inr (g # hs))
      else bind_ok (add_to_group L l g) (\<lambda>h. Inr (h # gs)))"

fun group_lines :: "'d decimals \<Rightarrow> 'd group list \<Rightarrow> 'd computed_line list \<Rightarrow> 'd group list ubl" where
  "group_lines L gs [] = Inr gs"
| "group_lines L gs (l # ls) = bind_ok (add_group L l gs) (\<lambda>hs. group_lines L hs ls)"

definition subtotal_of :: "'d decimals \<Rightarrow> 'd group \<Rightarrow> tax_subtotal_data" where
  "subtotal_of L g = (case g of (percent, taxable, tax) \<Rightarrow>
     \<lparr>ts_taxable = format_amount L taxable, ts_tax = format_amount L tax, ts_percent = format_amount L percent\<rparr>)"

definition tax_subtotals ::
  "'d decimals \<Rightarrow> line_payload list option \<Rightarrow> 'd \<Rightarrow> 'd \<Rightarrow> tax_subtotal_data list ubl" where
  "tax_subtotals L lines net tax =
     bind_ok (compute L lines net tax) (\<lambda>cs.
     bind_ok (group_lines L [] cs) (\<lambda>gs. Inr (map (subtotal_of L) gs)))"

section \<open>Parties\<close>

record party_data =
  pd_id_type :: string
  pd_id :: string
  pd_check_digit :: string
  pd_name :: string

definition party :: "string \<Rightarrow> string \<Rightarrow> string \<Rightarrow> party_data" where
  "party id_type i name =
     \<lparr>pd_id_type = id_type, pd_id = i,
      pd_check_digit = (if id_type = ''31''
        then (case check_digit i of None \<Rightarrow> [] | Some d \<Rightarrow> nat_dec d) else []),
      pd_name = name\<rparr>"

section \<open>The amounts add up\<close>

lemma line_decimal_Inr:
  assumes "line_decimal L field v k zero = Inr d"
  shows "\<not> dec_negative L d \<and> dec_scale L d \<le> k \<and> (\<not> zero \<longrightarrow> \<not> dec_is_zero L d)"
  using assms by (auto simp: line_decimal_def refuse_def Let_def split: if_splits option.splits)

lemma or_panic_Inr [simp]: "or_panic x = Inr a \<longleftrightarrow> x = Some a"
  by (simp add: or_panic_def ok_or_Inr_iff)

lemma compute_each_length: "compute_each L n ls = Inr cs \<Longrightarrow> length cs = length ls"
  by (induction L n ls arbitrary: cs rule: compute_each.induct) (auto simp: bind_ok_Inr_iff)

lemma compute_each_member:
  "compute_each L n ls = Inr cs \<Longrightarrow> c \<in> set cs \<Longrightarrow> \<exists>k l. l \<in> set ls \<and> compute_line L k l = Inr c"
  by (induction L n ls arbitrary: cs rule: compute_each.induct) (fastforce simp: bind_ok_Inr_iff)+

lemma compute_nonempty: "compute L lines net tax = Inr cs \<Longrightarrow> cs \<noteq> []"
  by (auto simp: compute_def bind_ok_Inr_iff dest: compute_each_length split: option.splits)

definition groups_sum :: "('d \<Rightarrow> rat) \<Rightarrow> 'd group list \<Rightarrow> rat \<times> rat" where
  "groups_sum v gs = (sum_list (map (\<lambda>g. v (fst (snd g))) gs), sum_list (map (\<lambda>g. v (snd (snd g))) gs))"

definition rates_ordered :: "('d \<Rightarrow> rat) \<Rightarrow> 'd group list \<Rightarrow> bool" where
  "rates_ordered v gs \<longleftrightarrow> sorted_wrt (\<lambda>g h. v (fst g) < v (fst h)) gs"

context decimal_arithmetic
begin

lemma dec_sum_from_value:
  "dec_sum_from L acc ds = Inr s \<Longrightarrow> dec_value s = dec_value acc + sum_list (map dec_value ds)"
  by (induction ds arbitrary: acc) (auto simp: bind_ok_Inr_iff dest: add_value)

lemma dec_sum_value: "dec_sum L ds = Inr s \<Longrightarrow> dec_value s = sum_list (map dec_value ds)"
  unfolding dec_sum_def by (drule dec_sum_from_value) (simp add: nat_value)

lemma computed_totals:
  assumes "compute L lines net tax = Inr cs"
  shows "sum_list (map (\<lambda>c. dec_value (cl_line_extension c)) cs) = dec_value net"
    and "sum_list (map (\<lambda>c. dec_value (cl_tax_amount c)) cs) = dec_value tax"
  using assms
  by (auto simp: compute_def bind_ok_Inr_iff eq_value synthetic_line_def split: option.splits if_splits
      dest!: dec_sum_value simp flip: map_map[unfolded comp_def])

lemma add_to_group_Inr: "add_to_group L l (p, a, b) = Inr h \<longleftrightarrow>
    (\<exists>x y. dec_add L a (cl_line_extension l) = Some x \<and> dec_add L b (cl_tax_amount l) = Some y \<and> h = (p, x, y))"
  by (auto simp: add_to_group_def bind_ok_Inr_iff)

lemma add_group_value:
  "add_group L l gs = Inr hs \<Longrightarrow> groups_sum dec_value hs =
     (fst (groups_sum dec_value gs) + dec_value (cl_line_extension l),
      snd (groups_sum dec_value gs) + dec_value (cl_tax_amount l))"
  by (induction gs arbitrary: hs)
    (auto simp: bind_ok_Inr_iff groups_sum_def nat_value add_to_group_Inr split: if_splits dest!: add_value)

lemma add_group_rates:
  "add_group L l gs = Inr hs \<Longrightarrow>
   (\<lambda>g. dec_value (fst g)) ` set hs = insert (dec_value (cl_tax_percent l)) ((\<lambda>g. dec_value (fst g)) ` set gs)"
proof (induction gs arbitrary: hs)
  case (Cons g gs)
  show ?case
  proof (cases "dec_less L (fst g) (cl_tax_percent l) \<and> \<not> dec_less L (cl_tax_percent l) (fst g)")
    case True
    with Cons.prems obtain ks where k: "add_group L l gs = Inr ks" "hs = g # ks"
      by (auto simp: bind_ok_Inr_iff)
    with Cons.IH[OF k(1)] show ?thesis by auto
  next
    case False
    with Cons.prems show ?thesis
      by (cases g) (auto simp: bind_ok_Inr_iff add_to_group_Inr less_value split: if_splits)
  qed
qed (auto simp: bind_ok_Inr_iff add_to_group_Inr)

lemma add_group_ordered:
  "add_group L l gs = Inr hs \<Longrightarrow> rates_ordered dec_value gs \<Longrightarrow> rates_ordered dec_value hs"
proof (induction gs arbitrary: hs)
  case Nil
  then show ?case by (auto simp: bind_ok_Inr_iff rates_ordered_def)
next
  case (Cons g gs)
  show ?case
  proof (cases "dec_less L (fst g) (cl_tax_percent l) \<and> \<not> dec_less L (cl_tax_percent l) (fst g)")
    case True
    with Cons.prems obtain ks where k: "add_group L l gs = Inr ks" "hs = g # ks"
      by (auto simp: bind_ok_Inr_iff)
    from Cons.prems True have "dec_value (fst g) < x" if "x \<in> (\<lambda>g. dec_value (fst g)) ` set ks" for x
      using that unfolding add_group_rates[OF k(1)] by (auto simp: rates_ordered_def less_value)
    then show ?thesis using Cons.IH[OF k(1)] Cons.prems(2) k(2) by (auto simp: rates_ordered_def)
  next
    case False
    obtain p a b where g: "g = (p, a, b)" by (cases g)
    with False Cons.prems show ?thesis
      by (fastforce simp: bind_ok_Inr_iff rates_ordered_def add_to_group_Inr less_value split: if_splits)
  qed
qed

lemma group_lines_value:
  "group_lines L gs ls = Inr hs \<Longrightarrow> groups_sum dec_value hs =
     (fst (groups_sum dec_value gs) + sum_list (map (\<lambda>l. dec_value (cl_line_extension l)) ls),
      snd (groups_sum dec_value gs) + sum_list (map (\<lambda>l. dec_value (cl_tax_amount l)) ls))"
  by (induction ls arbitrary: gs) (auto simp: bind_ok_Inr_iff add_group_value)

lemma group_lines_rates:
  "group_lines L gs ls = Inr hs \<Longrightarrow> (\<lambda>g. dec_value (fst g)) ` set hs =
     (\<lambda>l. dec_value (cl_tax_percent l)) ` set ls \<union> (\<lambda>g. dec_value (fst g)) ` set gs"
proof (induction ls arbitrary: gs)
  case (Cons l ls)
  then obtain ks where k: "add_group L l gs = Inr ks" "group_lines L ks ls = Inr hs"
    by (auto simp: bind_ok_Inr_iff)
  from Cons.IH[OF k(2)] show ?case unfolding add_group_rates[OF k(1)] by simp
qed simp

lemma group_lines_ordered:
  "group_lines L gs ls = Inr hs \<Longrightarrow> rates_ordered dec_value gs \<Longrightarrow> rates_ordered dec_value hs"
  by (induction ls arbitrary: gs) (auto simp: bind_ok_Inr_iff intro: add_group_ordered)

end

end
