(* ===== verification/Ubl_Validation.thy ===== *)
theory Ubl_Validation
  imports Ubl_Lines
begin

text \<open>
  \<open>ubl-engine/src/payload.rs\<close>: the validation of the bodies of invoices, notes, payroll and support
  documents, in the order of the code. A panic of the decimal arithmetic is \<open>Panicked\<close>.
\<close>

section \<open>Text\<close>

text \<open>Letters outside ASCII of the messages, as UTF-8.\<close>

definition a_acute :: string where "a_acute = [CHR 0xC3, CHR 0xA1]"
definition e_acute :: string where "e_acute = [CHR 0xC3, CHR 0xA9]"
definition i_acute :: string where "i_acute = [CHR 0xC3, CHR 0xAD]"
definition o_acute :: string where "o_acute = [CHR 0xC3, CHR 0xB3]"
definition u_acute :: string where "u_acute = [CHR 0xC3, CHR 0xBA]"

text \<open>\<open>chars().nth(i)\<close> is the ASCII character \<open>c\<close>.\<close>

definition char_at :: "nat \<Rightarrow> char \<Rightarrow> string \<Rightarrow> bool" where
  "char_at i c s \<longleftrightarrow> (let cs = utf8_chars s in i < length cs \<and> cs ! i = [c])"

definition dashed_date :: "string \<Rightarrow> bool" where
  "dashed_date s \<longleftrightarrow> length s = 10 \<and> char_at 4 CHR ''-'' s \<and> char_at 7 CHR ''-'' s"

definition zoned_time :: "string \<Rightarrow> bool" where
  "zoned_time s \<longleftrightarrow>
     length s = 14 \<and> char_at 2 CHR '':'' s \<and> char_at 5 CHR '':'' s \<and> char_at 8 CHR ''-'' s"

definition digits_only :: "string \<Rightarrow> bool" where
  "digits_only s \<longleftrightarrow> s \<noteq> [] \<and> all_digits s"

definition valid_date :: "string \<Rightarrow> bool" where
  "valid_date s \<longleftrightarrow> length s = 10 \<and>
     list_all (\<lambda>(i, ch). if i = 4 \<or> i = 7 then ch = ''-'' else length ch = 1 \<and> is_ascii_digit (hd ch))
       (enumerate 0 (utf8_chars s))"

text \<open>\<open>str::parse::<u8>\<close>: an optional plus sign and digits up to 255.\<close>

definition parse_u8 :: "string \<Rightarrow> nat option" where
  "parse_u8 s =
     (let t = (if starts_with ''+'' s then tl s else s)
      in if digits_only t \<and> digits_value t \<le> 255 then Some (digits_value t) else None)"

section \<open>Amounts\<close>

definition ubl_amount :: "'d decimals \<Rightarrow> string \<Rightarrow> f64 \<Rightarrow> 'd ubl" where
  "ubl_amount L field v = map_err (\<lambda>e. Failed (Ubl_validation (domain_error_display e))) (to_amount L field v)"

definition ubl_equal :: "'d decimals \<Rightarrow> string \<Rightarrow> 'd \<Rightarrow> 'd \<Rightarrow> unit ubl" where
  "ubl_equal L t expected actual =
     map_err (\<lambda>e. Failed (Ubl_validation (domain_error_display e))) (require_equal L t expected actual)"

section \<open>Invoices and notes\<close>

definition is_note :: "invoice_payload \<Rightarrow> bool" where
  "is_note p \<longleftrightarrow> iv_document_type p = ''credit_note'' \<or> iv_document_type p = ''debit_note''"

definition concept_message :: "nat \<Rightarrow> string" where
  "concept_message n =
     ''discrepancy.code debe ser un concepto de correcci'' @ o_acute @ ''n entre 1 y '' @ nat_dec n"

definition max_concept :: "invoice_payload \<Rightarrow> nat" where
  "max_concept p = (if iv_document_type p = ''credit_note'' then 6 else 4)"

definition valid_concept :: "invoice_payload \<Rightarrow> string \<Rightarrow> bool" where
  "valid_concept p code \<longleftrightarrow>
     (case parse_u8 code of None \<Rightarrow> False | Some n \<Rightarrow> 1 \<le> n \<and> n \<le> max_concept p) \<and> length code = 1"

definition validate_note_fields :: "invoice_payload \<Rightarrow> unit ubl" where
  "validate_note_fields p =
     bind_ok (ok_or (Failed (Ubl_validation ''Las notas requieren billing_reference (factura que corrigen)''))
       (iv_billing_reference p)) (\<lambda>reference.
     bind_ok (ensure (trim (bp_number reference) \<noteq> []) ''billing_reference.number es obligatorio'') (\<lambda>_.
     bind_ok (ensure (length (bp_cufe reference) = 96 \<and> list_all is_ascii_hexdigit (bp_cufe reference))
       ''billing_reference.cufe debe ser el CUFE de 96 caracteres hexadecimales'') (\<lambda>_.
     bind_ok (ensure (valid_date (bp_issue_date reference))
       ''billing_reference.issue_date debe tener formato YYYY-MM-DD'') (\<lambda>_.
     bind_ok (ensure (\<not> iv_issue_date p < bp_issue_date reference)
       ''La factura referenciada no puede ser posterior a la nota'') (\<lambda>_.
     bind_ok (ok_or (Failed (Ubl_validation
         (''Las notas requieren discrepancy (concepto de correcci'' @ o_acute @ ''n)'')))
       (iv_discrepancy p)) (\<lambda>discrepancy.
     bind_ok (ensure (valid_concept p (dp_code discrepancy)) (concept_message (max_concept p))) (\<lambda>_.
     bind_ok (ensure (trim (dp_description discrepancy) \<noteq> []) ''discrepancy.description es obligatoria'') (\<lambda>_.
     ensure (case iv_software_pin p of None \<Rightarrow> False | Some pin \<Rightarrow> trim pin \<noteq> [])
       ''Las notas requieren software_pin para calcular el CUDE''))))))))"

definition document_type_message :: string where
  "document_type_message =
     ''Tipo de documento inv'' @ a_acute @ ''lido. Debe ser '' @ quoted ''invoice'' @ '', '' @
     quoted ''credit_note'' @ '' o '' @ quoted ''debit_note''"

definition environment_message :: string where
  "environment_message =
     ''El ambiente debe ser '' @ quoted ''1'' @ '' (producci'' @ o_acute @ ''n) o '' @ quoted ''2'' @
     '' (habilitaci'' @ o_acute @ ''n)''"

definition valid_test_set_id :: "string \<Rightarrow> bool" where
  "valid_test_set_id s \<longleftrightarrow>
     s \<noteq> [] \<and> length s \<le> 64 \<and> list_all (\<lambda>c. is_ascii_alphanumeric c \<or> c = CHR ''-'') s"

definition valid_environment :: "string \<Rightarrow> bool" where
  "valid_environment e \<longleftrightarrow> e = ''1'' \<or> e = ''2''"

definition validate_invoice :: "'d decimals \<Rightarrow> invoice_payload \<Rightarrow> unit ubl" where
  "validate_invoice L p =
     bind_ok (ensure (dashed_date (iv_issue_date p)) ''La fecha debe tener el formato YYYY-MM-DD'') (\<lambda>_.
     bind_ok (ensure (zoned_time (iv_issue_time p)) ''La hora debe tener el formato HH:MM:SS-05:00'') (\<lambda>_.
     bind_ok (ensure (digits_only (iv_company_nit p))
       (''El NIT de la empresa debe ser '' @ u_acute @ ''nicamente num'' @ e_acute @
        ''rico (sin puntos ni d'' @ i_acute @ ''gito de verificaci'' @ o_acute @ ''n)'')) (\<lambda>_.
     bind_ok (ensure (iv_customer_id p \<noteq> [])
       (''La identificaci'' @ o_acute @ ''n del adquiriente no puede estar vac'' @ i_acute @ ''a'')) (\<lambda>_.
     bind_ok (ensure (CHR ''@'' \<in> set (iv_customer_email p))
       (''El correo del adquiriente debe ser v'' @ a_acute @ ''lido'')) (\<lambda>_.
     bind_ok (ubl_amount L ''net_amount'' (iv_net_amount p)) (\<lambda>net.
     bind_ok (ubl_amount L ''tax_amount'' (iv_tax_amount p)) (\<lambda>tax.
     bind_ok (ubl_amount L ''total_amount'' (iv_total_amount p)) (\<lambda>total.
     bind_ok (or_panic (dec_add L net tax)) (\<lambda>sum_of.
     bind_ok (ubl_equal L ''total_amount debe ser net_amount + tax_amount'' sum_of total) (\<lambda>_.
     bind_ok (if iv_document_type p = ''invoice'' then Inr ()
              else if is_note p then validate_note_fields p
              else refuse document_type_message) (\<lambda>_.
     bind_ok (compute_lines L (iv_lines p) net tax) (\<lambda>_.
     bind_ok (case iv_test_set_id p of None \<Rightarrow> Inr ()
              | Some i \<Rightarrow> ensure (valid_test_set_id i)
                  (''El test_set_id solo puede contener letras, n'' @ u_acute @ ''meros y guiones (m'' @ a_acute @
                   ''ximo 64)'')) (\<lambda>_.
     ensure (valid_environment (iv_environment p)) environment_message)))))))))))))"

section \<open>Payroll and support documents\<close>

definition plain_environment_message :: string where
  "plain_environment_message =
     ''El ambiente debe ser '' @ quoted ''1'' @ '' (produccion) o '' @ quoted ''2'' @ '' (habilitacion)''"

definition validate_payroll :: "'d decimals \<Rightarrow> payroll_payload \<Rightarrow> unit ubl" where
  "validate_payroll L p =
     bind_ok (ensure (dashed_date (pr_issue_date p))
       ''La fecha de nomina debe tener el formato YYYY-MM-DD'') (\<lambda>_.
     bind_ok (ensure (pr_issue_time p \<noteq> []) ''La hora de nomina no puede estar vacia'') (\<lambda>_.
     bind_ok (ensure (digits_only (pr_employer_nit p)) ''El NIT del empleador debe ser numerico'') (\<lambda>_.
     bind_ok (ensure (pr_employee_id p \<noteq> []) ''La identificacion del empleado no puede estar vacia'') (\<lambda>_.
     bind_ok (ubl_amount L ''devengado'' (pr_devengado p)) (\<lambda>devengado.
     bind_ok (ubl_amount L ''deducido'' (pr_deducido p)) (\<lambda>deducido.
     bind_ok (ubl_amount L ''total'' (pr_total p)) (\<lambda>total.
     bind_ok (or_panic (dec_sub L devengado deducido)) (\<lambda>difference.
     bind_ok (ubl_equal L ''total debe ser devengado - deducido'' difference total) (\<lambda>_.
     ensure (valid_environment (pr_environment p)) plain_environment_message)))))))))"

definition validate_support_document :: "'d decimals \<Rightarrow> support_document_payload \<Rightarrow> unit ubl" where
  "validate_support_document L p =
     bind_ok (ensure (dashed_date (sd_issue_date p))
       ''La fecha del documento soporte debe tener el formato YYYY-MM-DD'') (\<lambda>_.
     bind_ok (ensure (zoned_time (sd_issue_time p))
       ''La hora del documento soporte debe tener el formato HH:MM:SS-05:00'') (\<lambda>_.
     bind_ok (ensure (digits_only (sd_seller_nit p)) ''La identificacion del vendedor debe ser numerica'') (\<lambda>_.
     bind_ok (ensure (digits_only (sd_buyer_nit p)) ''El NIT del comprador debe ser numerico'') (\<lambda>_.
     bind_ok (ubl_amount L ''net_amount'' (sd_net_amount p)) (\<lambda>net.
     bind_ok (ubl_amount L ''tax_amount'' (sd_tax_amount p)) (\<lambda>tax.
     bind_ok (ubl_amount L ''total_amount'' (sd_total_amount p)) (\<lambda>total.
     bind_ok (or_panic (dec_add L net tax)) (\<lambda>sum_of.
     bind_ok (ubl_equal L ''total_amount debe ser net_amount + tax_amount'' sum_of total) (\<lambda>_.
     bind_ok (compute_lines L (sd_lines p) net tax) (\<lambda>_.
     ensure (valid_environment (sd_environment p)) plain_environment_message))))))))))"

section \<open>What an accepted body promises\<close>

lemma ubl_amount_Inr [simp]: "ubl_amount L field v = Inr d \<longleftrightarrow> to_amount L field v = Inr d"
  by (simp add: ubl_amount_def map_err_Inr_iff)

lemma ubl_equal_Inr [simp]: "ubl_equal L t x y = Inr u \<longleftrightarrow> dec_eq L x y"
  by (simp add: ubl_equal_def map_err_Inr_iff require_equal_def)

text \<open>The amounts of an accepted invoice are given by its three fields.\<close>

definition invoice_amounts :: "'d decimals \<Rightarrow> invoice_payload \<Rightarrow> ('d \<times> 'd \<times> 'd) option" where
  "invoice_amounts L p =
     (case (to_amount L ''net_amount'' (iv_net_amount p), to_amount L ''tax_amount'' (iv_tax_amount p),
            to_amount L ''total_amount'' (iv_total_amount p)) of
        (Inr net, Inr tax, Inr gross) \<Rightarrow> Some (net, tax, gross)
      | _ \<Rightarrow> None)"

lemma validate_invoice_cases:
  assumes "validate_invoice L p = Inr u"
  obtains net tax gross s data where "invoice_amounts L p = Some (net, tax, gross)"
    and "dec_add L net tax = Some s" "dec_eq L s gross"
    and "iv_document_type p = ''invoice'' \<or> is_note p" "is_note p \<Longrightarrow> validate_note_fields p = Inr ()"
    and "compute_lines L (iv_lines p) net tax = Inr data" "valid_environment (iv_environment p)"
    and "digits_only (iv_company_nit p)" "dashed_date (iv_issue_date p)" "zoned_time (iv_issue_time p)"
    and "\<And>i. iv_test_set_id p = Some i \<Longrightarrow> valid_test_set_id i" "iv_customer_id p \<noteq> []"
  using assms
  by (auto simp: validate_invoice_def bind_ok_Inr_iff invoice_amounts_def refuse_def is_note_def
      split: if_splits option.splits)

lemma validate_note_cases:
  assumes "validate_note_fields p = Inr u"
  obtains r c pin where "iv_billing_reference p = Some r" "iv_discrepancy p = Some c"
    and "iv_software_pin p = Some pin" "trim pin \<noteq> []"
    and "length (bp_cufe r) = 96" "list_all is_ascii_hexdigit (bp_cufe r)" "valid_date (bp_issue_date r)"
    and "bp_issue_date r \<le> iv_issue_date p" "valid_concept p (dp_code c)"
  using assms
  by (auto simp: validate_note_fields_def bind_ok_Inr_iff ok_or_Inr_iff split: option.splits)

lemma validate_support_cases:
  assumes "validate_support_document L p = Inr u"
  obtains net tax gross s data where "to_amount L ''net_amount'' (sd_net_amount p) = Inr net"
    and "to_amount L ''tax_amount'' (sd_tax_amount p) = Inr tax"
    and "to_amount L ''total_amount'' (sd_total_amount p) = Inr gross"
    and "dec_add L net tax = Some s" "dec_eq L s gross"
    and "compute_lines L (sd_lines p) net tax = Inr data"
  using assms by (auto simp: validate_support_document_def bind_ok_Inr_iff)

lemma validate_payroll_cases:
  assumes "validate_payroll L p = Inr u"
  obtains devengado deducido gross s where "to_amount L ''devengado'' (pr_devengado p) = Inr devengado"
    and "to_amount L ''deducido'' (pr_deducido p) = Inr deducido"
    and "to_amount L ''total'' (pr_total p) = Inr gross"
    and "dec_sub L devengado deducido = Some s" "dec_eq L s gross"
  using assms by (auto simp: validate_payroll_def bind_ok_Inr_iff)

text \<open>The one-digit concepts: the code is the digit of its number.\<close>

lemma concept_digit:
  assumes "valid_concept p code"
  shows "\<exists>n. 1 \<le> n \<and> n \<le> max_concept p \<and> code = nat_dec n"
proof -
  from assms obtain n where n: "parse_u8 code = Some n" "1 \<le> n" "n \<le> max_concept p" and "length code = 1"
    by (auto simp: valid_concept_def split: option.splits)
  then obtain c where c: "code = [c]" by (cases code) auto
  with n(1) have d: "is_ascii_digit c" "n = digit_value c"
    by (auto simp: parse_u8_def Let_def digits_only_def all_digits_def digits_value_def split: if_splits)
  then have "c = digit_char n"
    by (auto simp: is_ascii_digit_def digit_value_def digit_char_def byte_def)
  moreover have "n < 10" using n(3) by (simp add: max_concept_def split: if_splits)
  ultimately have "code = nat_dec n" using c by (subst nat_dec.simps) simp
  with n show ?thesis by blast
qed

end
