(* ===== verification/Api_Keys.thy ===== *)
theory Api_Keys
  imports Rust_Text "HOL-Library.Word"
begin

unbundle bit_operations_syntax

text \<open>
  \<open>core-domain/src/api_keys.rs\<close>: the fingerprint of an API key and the comparison of secrets in
  constant time. SHA-256 is the parameter \<open>sha256\<close>, from bytes to bytes.
\<close>

type_synonym digest = "string \<Rightarrow> 8 word list"

definition key_prefix :: string where "key_prefix = ''dsk_''"
definition visible_prefix_len :: nat where "visible_prefix_len = 12"

text \<open>\<open>format!("{:02x}")\<close> of every byte.\<close>

definition hex_bytes :: "8 word list \<Rightarrow> string" where
  "hex_bytes bs = concat (map (\<lambda>b. hex_digits 2 (unat b)) bs)"

definition key_hash :: "digest \<Rightarrow> string \<Rightarrow> string" where
  "key_hash sha256 api_key = hex_bytes (sha256 api_key)"

definition constant_time_eq :: "8 word list \<Rightarrow> 8 word list \<Rightarrow> bool" where
  "constant_time_eq a b \<longleftrightarrow>
     length a = length b \<and> foldl (\<lambda>acc (x, y). acc OR (x XOR y)) (0 :: 8 word) (zip a b) = 0"

lemma or_zero_iff: "(x :: 'a :: len word) OR y = 0 \<longleftrightarrow> x = 0 \<and> y = 0"
  by (auto simp: bit_eq_iff bit_or_iff)

lemma xor_zero_iff: "(x :: 'a :: len word) XOR y = 0 \<longleftrightarrow> x = y"
  by (metis xor.left_neutral xor.right_neutral xor_self_eq xor.assoc)

lemma fold_differences:
  "foldl (\<lambda>acc (x, y). acc OR (x XOR y)) acc ps = (0 :: 8 word) \<longleftrightarrow> acc = 0 \<and> (\<forall>(x, y) \<in> set ps. x = y)"
  by (induction ps arbitrary: acc) (auto simp: or_zero_iff xor_zero_iff)

text \<open>
  Comparison of secrets. The comparison that always looks at every byte is equality.
\<close>

theorem constant_time_eq_is_equality: "constant_time_eq a b \<longleftrightarrow> a = b"
proof -
  have "length a = length b \<Longrightarrow> (\<forall>(x, y) \<in> set (zip a b). x = y) \<longleftrightarrow> a = b"
    by (induction a b rule: list_induct2) auto
  then show ?thesis by (auto simp: constant_time_eq_def fold_differences)
qed

lemma hex_bytes_simps [simp]:
  "hex_bytes [] = []" "hex_bytes (b # bs) = hex_digits 2 (unat b) @ hex_bytes bs"
  by (simp_all add: hex_bytes_def)

lemma length_hex_bytes [simp]: "length (hex_bytes bs) = 2 * length bs"
  by (induction bs) simp_all

lemma hex_char_inject: "a < 16 \<Longrightarrow> b < 16 \<Longrightarrow> hex_char a = hex_char b \<Longrightarrow> a = b"
proof -
  assume "a < 16" "b < 16" "hex_char a = hex_char b"
  then have "of_char (hex_char a) = (of_char (hex_char b) :: nat)" by simp
  with \<open>a < 16\<close> \<open>b < 16\<close> show "a = b"
    by (auto simp: hex_char_def of_char_of take_bit_eq_mod split: if_splits)
qed

lemma hex_digits_inject: "m < 16 ^ k \<Longrightarrow> n < 16 ^ k \<Longrightarrow> hex_digits k m = hex_digits k n \<Longrightarrow> m = n"
proof (induction k arbitrary: m n)
  case (Suc k)
  from Suc.prems have "hex_digits k (m div 16) = hex_digits k (n div 16)" "hex_char (m mod 16) = hex_char (n mod 16)"
    by simp_all
  moreover have "m div 16 < 16 ^ k" "n div 16 < 16 ^ k" using Suc.prems by (simp_all add: less_mult_imp_div_less)
  ultimately have "m div 16 = n div 16" "m mod 16 = n mod 16"
    using Suc.IH hex_char_inject[of "m mod 16" "n mod 16"] by auto
  then show ?case by (metis div_mult_mod_eq)
qed simp

text \<open>Two keys have the same fingerprint exactly when their digests are equal.\<close>

lemma hex_bytes_inject: "hex_bytes a = hex_bytes b \<Longrightarrow> a = b"
proof (induction a arbitrary: b)
  case Nil
  then show ?case by (cases b) (simp_all add: numeral_2_eq_2)
next
  case (Cons x a)
  then obtain y c where b: "b = y # c" by (cases b) (simp_all add: numeral_2_eq_2)
  with Cons.prems have "hex_digits 2 (unat x) = hex_digits 2 (unat y)" "hex_bytes a = hex_bytes c" by auto
  moreover have "unat x < 16 ^ 2" "unat y < 16 ^ 2" using unsigned_less[of x] unsigned_less[of y] by simp_all
  ultimately show ?case using hex_digits_inject[of "unat x" 2 "unat y"] Cons.IH b by (simp add: word_unat_eq_iff)
qed

end
