(* ===== verification/Issue_Service.thy ===== *)
theory Issue_Service
  imports Ubl_Validation Api_Keys World
begin

text \<open>
  \<open>application/src/issue.rs\<close>: the use case that issues documents. The decimal library, SHA-256 and the
  text of a JSON value (\<open>serde_json\<close>) are parameters; the JSON form of a body follows the \<open>Serialize\<close>
  attributes of \<open>ubl-engine/src/payload.rs\<close>, with the keys in the order of a \<open>BTreeMap\<close>. An operation
  fails with \<open>Failed\<close> of a domain error, or panics.
\<close>

record 'd issue_libs =
  i_decimals :: "'d decimals"
  i_sha256 :: digest
  i_json_text :: "json_object \<Rightarrow> string"

type_synonym ('w, 'a) service = "'w \<Rightarrow> (domain_error failure + 'a) \<times> 'w"

section \<open>Bodies as JSON\<close>

definition f64_json :: "f64 \<Rightarrow> json" where
  "f64_json v = (if is_finite v then J_float v else J_null)"

text \<open>\<open>skip_serializing_if = "Option::is_none"\<close>.\<close>

definition json_field :: "string \<Rightarrow> ('a \<Rightarrow> json) \<Rightarrow> 'a option \<Rightarrow> json_object" where
  "json_field k f v = (case v of None \<Rightarrow> [] | Some a \<Rightarrow> [(k, f a)])"

definition line_json :: "line_payload \<Rightarrow> json" where
  "line_json l = J_obj
     ([(''description'', J_str (lp_description l)), (''quantity'', f64_json (lp_quantity l)),
       (''tax_percent'', f64_json (lp_tax_percent l))] @
      json_field ''unit_code'' J_str (lp_unit_code l) @
      [(''unit_price'', f64_json (lp_unit_price l))])"

definition lines_json :: "line_payload list \<Rightarrow> json" where
  "lines_json ls = J_arr (map line_json ls)"

definition billing_reference_json :: "billing_reference_payload \<Rightarrow> json" where
  "billing_reference_json r = J_obj
     [(''cufe'', J_str (bp_cufe r)), (''issue_date'', J_str (bp_issue_date r)), (''number'', J_str (bp_number r))]"

definition discrepancy_json :: "discrepancy_payload \<Rightarrow> json" where
  "discrepancy_json d = J_obj
     [(''code'', J_str (dp_code d)), (''description'', J_str (dp_description d))]"

definition invoice_json :: "invoice_payload \<Rightarrow> json_object" where
  "invoice_json p =
     json_field ''billing_reference'' billing_reference_json (iv_billing_reference p) @
     [(''company_name'', J_str (iv_company_name p)), (''company_nit'', J_str (iv_company_nit p)),
      (''customer_email'', J_str (iv_customer_email p)), (''customer_id'', J_str (iv_customer_id p)),
      (''customer_id_type'', J_str (iv_customer_id_type p)), (''customer_name'', J_str (iv_customer_name p))] @
     json_field ''discrepancy'' discrepancy_json (iv_discrepancy p) @
     [(''document_type'', J_str (iv_document_type p)), (''environment'', J_str (iv_environment p)),
      (''issue_date'', J_str (iv_issue_date p)), (''issue_time'', J_str (iv_issue_time p))] @
     json_field ''lines'' lines_json (iv_lines p) @
     [(''net_amount'', f64_json (iv_net_amount p)), (''number'', J_int (iv_number p)),
      (''prefix'', J_str (iv_prefix p))] @
     json_field ''software_pin'' J_str (iv_software_pin p) @
     [(''tax_amount'', f64_json (iv_tax_amount p)), (''test_set_id'', opt_json_str (iv_test_set_id p)),
      (''total_amount'', f64_json (iv_total_amount p))]"

definition payroll_json :: "payroll_payload \<Rightarrow> json_object" where
  "payroll_json p =
     [(''deducido'', f64_json (pr_deducido p)), (''devengado'', f64_json (pr_devengado p)),
      (''employee_id'', J_str (pr_employee_id p)), (''employee_id_type'', J_str (pr_employee_id_type p)),
      (''employee_name'', J_str (pr_employee_name p)), (''employer_name'', J_str (pr_employer_name p)),
      (''employer_nit'', J_str (pr_employer_nit p)), (''environment'', J_str (pr_environment p)),
      (''issue_date'', J_str (pr_issue_date p)), (''issue_time'', J_str (pr_issue_time p)),
      (''number'', J_int (pr_number p)), (''prefix'', J_str (pr_prefix p)),
      (''software_pin'', J_str (pr_software_pin p)), (''total'', f64_json (pr_total p))]"

definition support_document_json :: "support_document_payload \<Rightarrow> json_object" where
  "support_document_json p =
     [(''buyer_name'', J_str (sd_buyer_name p)), (''buyer_nit'', J_str (sd_buyer_nit p)),
      (''environment'', J_str (sd_environment p)), (''issue_date'', J_str (sd_issue_date p)),
      (''issue_time'', J_str (sd_issue_time p))] @
     json_field ''lines'' lines_json (sd_lines p) @
     [(''net_amount'', f64_json (sd_net_amount p)), (''number'', J_int (sd_number p)),
      (''prefix'', J_str (sd_prefix p)), (''seller_name'', J_str (sd_seller_name p)),
      (''seller_nit'', J_str (sd_seller_nit p)), (''software_pin'', J_str (sd_software_pin p)),
      (''tax_amount'', f64_json (sd_tax_amount p)), (''total_amount'', f64_json (sd_total_amount p))]"

section \<open>The service\<close>

definition max_idempotency_key_len :: nat where "max_idempotency_key_len = 255"

text \<open>\<open>fn validation\<close>, on a result: a panic passes through.\<close>

definition validation :: "ubl_error \<Rightarrow> domain_error" where
  "validation e = Validation (ubl_error_display e)"

definition foreign_issuer :: "string \<Rightarrow> string" where
  "foreign_issuer role = ''El NIT del '' @ role @ '' no coincide con el del tenant autenticado''"

definition require_issuer :: "tenant \<Rightarrow> string \<Rightarrow> string \<Rightarrow> unit result" where
  "require_issuer tenant nit role =
     (if nit \<noteq> t_tax_id tenant then Inl (Forbidden (foreign_issuer role)) else Inr ())"

definition request_hash :: "'d issue_libs \<Rightarrow> document_type \<Rightarrow> json_object \<Rightarrow> string" where
  "request_hash I ty payload =
     hex_bytes (i_sha256 I (document_type_as_str ty @ [CHR 0x0A] @ i_json_text I payload))"

definition idempotency_message :: string where
  "idempotency_message =
     ''Idempotency-Key debe tener entre 1 y '' @ nat_dec max_idempotency_key_len @ '' caracteres ASCII''"

definition idempotency_of ::
  "'d issue_libs \<Rightarrow> string option \<Rightarrow> document_type \<Rightarrow> json_object \<Rightarrow> idempotency_key option result" where
  "idempotency_of I key ty payload =
     (case key of
        None \<Rightarrow> Inr None
      | Some raw \<Rightarrow>
          (let k = trim raw
           in if k = [] \<or> length k > max_idempotency_key_len \<or> \<not> is_ascii k
              then Inl (Validation idempotency_message)
              else Inr (Some \<lparr>ik_key = k, ik_request_hash = request_hash I ty payload\<rparr>)))"

text \<open>
  \<open>IssueService::issue\<close>. The identifier of the document is drawn before the one of the job
  (\<open>NewJob::transmit\<close>).
\<close>

definition issue ::
  "'d issue_libs \<Rightarrow> 'db world document_repository \<Rightarrow> i32 \<Rightarrow> tenant \<Rightarrow> document_type \<Rightarrow> string \<Rightarrow> i32 option \<Rightarrow>
   json_object \<Rightarrow> string option \<Rightarrow> ('db world, issue_outcome) service" where
  "issue I D max_attempts tenant ty prefix requested payload key =
     io_bind (io_lift (map_err Failed (idempotency_of I key ty payload))) (\<lambda>idempotency w.
       case new_uuid w of (i, w1) \<Rightarrow> case new_uuid w1 of (j, w2) \<Rightarrow>
         io_map_err Failed (issue_outbound D
           \<lparr>no_id = i, no_tenant_id = t_id tenant, no_document_type = ty, no_prefix = prefix,
            no_requested_number = requested, no_payload = payload, no_idempotency = idempotency\<rparr>
           (transmit_job j (clock w2) i max_attempts)) w2)"

definition invoice_type :: "invoice_payload \<Rightarrow> document_type" where
  "invoice_type p =
     (if iv_document_type p = ''credit_note'' then CreditNote
      else if iv_document_type p = ''debit_note'' then DebitNote else Invoice)"

definition issue_invoice ::
  "'d issue_libs \<Rightarrow> 'db world document_repository \<Rightarrow> i32 \<Rightarrow> tenant \<Rightarrow> invoice_payload \<Rightarrow> string option \<Rightarrow>
   ('db world, issue_outcome) service" where
  "issue_invoice I D max_attempts tenant p key =
     io_bind (io_lift (map_err (map_failure validation) (validate_invoice (i_decimals I) p))) (\<lambda>_.
     io_bind (io_lift (map_err Failed (require_issuer tenant (iv_company_nit p) ''emisor''))) (\<lambda>_.
     issue I D max_attempts tenant (invoice_type p) (iv_prefix p) (Some (iv_number p)) (invoice_json p) key))"

definition issue_payroll ::
  "'d issue_libs \<Rightarrow> 'db world document_repository \<Rightarrow> i32 \<Rightarrow> tenant \<Rightarrow> payroll_payload \<Rightarrow> string option \<Rightarrow>
   ('db world, issue_outcome) service" where
  "issue_payroll I D max_attempts tenant p key =
     io_bind (io_lift (map_err (map_failure validation) (validate_payroll (i_decimals I) p))) (\<lambda>_.
     io_bind (io_lift (map_err Failed (require_issuer tenant (pr_employer_nit p) ''empleador''))) (\<lambda>_.
     issue I D max_attempts tenant Payroll (pr_prefix p) (Some (pr_number p)) (payroll_json p) key))"

text \<open>The number in the body of a support document is ignored.\<close>

definition issue_support_document ::
  "'d issue_libs \<Rightarrow> 'db world document_repository \<Rightarrow> i32 \<Rightarrow> tenant \<Rightarrow> support_document_payload \<Rightarrow>
   string option \<Rightarrow> ('db world, issue_outcome) service" where
  "issue_support_document I D max_attempts tenant p key =
     io_bind (io_lift (map_err (map_failure validation) (validate_support_document (i_decimals I) p))) (\<lambda>_.
     io_bind (io_lift (map_err Failed (require_issuer tenant (sd_buyer_nit p) ''comprador''))) (\<lambda>_.
     issue I D max_attempts tenant SupportDocument (sd_prefix p) None (support_document_json p) key))"

section \<open>Facts about the JSON of a body\<close>

lemma f64_json_inject: "is_finite x \<Longrightarrow> is_finite y \<Longrightarrow> f64_json x = f64_json y \<longleftrightarrow> x = y"
  by (simp add: f64_json_def)

lemma opt_json_str_inject: "opt_json_str x = opt_json_str y \<longleftrightarrow> x = y"
  by (auto simp: opt_json_str_def split: option.splits)

lemma obj_get_Cons: "obj_get k ((l, v) # m) = (if l = k then Some v else obj_get k m)"
  by (simp add: obj_get_def)

lemma obj_get_Nil: "obj_get k [] = None"
  by (simp add: obj_get_def)

lemma obj_get_append: "obj_get k (m @ n) = (case obj_get k m of None \<Rightarrow> obj_get k n | Some v \<Rightarrow> Some v)"
  by (simp add: obj_get_def map_add_def split: option.split)

lemma obj_get_field: "obj_get k (json_field l f v) = (if k = l then map_option f v else None)"
  by (cases v) (auto simp: json_field_def obj_get_def)

lemmas obj_get_simps = obj_get_Cons obj_get_Nil obj_get_append obj_get_field

lemma invoice_json_secret: "obj_get ''technical_key'' (invoice_json p) = None"
  by (simp add: invoice_json_def obj_get_simps)

lemma amounts_finite: "to_amount L field v = Inr d \<Longrightarrow> is_finite v"
  by (simp add: to_amount_def split: if_splits)

section \<open>How an operation of the service can end\<close>

lemma issue_cases:
  assumes "issue I D m tenant ty prefix req payload key w = (r, w')"
  obtains (refused) "r = Inl (Failed (Validation idempotency_message))" and "w' = w"
    | (asked) idem q where "idempotency_of I key ty payload = Inr idem"
        and "issue_outbound D
          \<lparr>no_id = next_uuid w, no_tenant_id = t_id tenant, no_document_type = ty, no_prefix = prefix,
           no_requested_number = req, no_payload = payload, no_idempotency = idem\<rparr>
          (transmit_job (Suc (next_uuid w)) (clock w) (next_uuid w) m)
          (w\<lparr>next_uuid := next_uuid w + 2\<rparr>) = (q, w')"
        and "r = map_err Failed q"
proof (cases "idempotency_of I key ty payload")
  case (Inl e)
  then have "e = Validation idempotency_message"
    by (auto simp: idempotency_of_def Let_def split: option.splits if_splits)
  with Inl assms show ?thesis by (intro refused) (auto simp: issue_def io_bind_def)
next
  case (Inr idem)
  with assms show ?thesis
    by (auto simp: issue_def io_bind_def io_map_err_def new_uuid_def split: prod.splits intro!: asked)
qed

text \<open>The checks before the store is called do not touch anything.\<close>

lemma guarded_cases:
  assumes "io_bind (io_lift (map_err (map_failure validation) v)) (\<lambda>_ :: unit.
      io_bind (io_lift (map_err Failed (require_issuer tenant nit role))) (\<lambda>_. k)) w = (r, w')"
  obtains (panic) "v = Inl Panicked" and "r = Inl Panicked" and "w' = w"
    | (invalid) e where "v = Inl (Failed e)" and "r = Inl (Failed (validation e))" and "w' = w"
    | (foreign) "v = Inr ()" and "nit \<noteq> t_tax_id tenant" and "r = Inl (Failed (Forbidden (foreign_issuer role)))" and "w' = w"
    | (checked) "v = Inr ()" and "nit = t_tax_id tenant" and "k w = (r, w')"
proof (cases v)
  case (Inl e)
  with assms show ?thesis by (cases e) (auto simp: io_bind_def intro: panic invalid)
next
  case (Inr u)
  with assms show ?thesis
    by (auto simp: io_bind_def require_issuer_def split: if_splits intro: foreign checked)
qed

end
