(* ===== verification/Ubl_Xml.thy ===== *)
theory Ubl_Xml
  imports Ubl_Validation Api_Keys
begin

text \<open>
  \<open>ubl-engine/src/cufe.rs\<close>, \<open>lib.rs\<close>, \<open>packaging.rs\<close> and \<open>templates.rs\<close>: the unique code of a document,
  the data given to the templates, and the archive. The libraries behind them are the parameter
  \<open>ubl_libs\<close>: decimals, SHA-384, the text \<open>{:.2}\<close> of a float, MiniJinja with the templates of the
  repository, and the ZIP writer.
\<close>

section \<open>The data of the templates\<close>

record commercial_document =
  cd_customization_id :: string
  cd_profile_execution_id :: string
  cd_id :: string
  cd_uuid :: string
  cd_uuid_scheme :: string
  cd_issue_date :: string
  cd_issue_time :: string
  cd_type_code :: string
  cd_supplier :: party_data
  cd_customer :: party_data
  cd_lines :: "line_data list"
  cd_tax_subtotals :: "tax_subtotal_data list"
  cd_net :: string
  cd_tax :: string
  cd_total :: string
  cd_billing_reference :: "billing_reference_payload option"
  cd_discrepancy :: "discrepancy_payload option"

record attached_context =
  at_unique_id :: string
  at_issue_date :: string
  at_issue_time :: string
  at_parent_document_id :: string
  at_parent_document_uuid :: string
  at_parent_document_issue_date :: string
  at_sender :: party_data
  at_receiver :: party_data
  at_signed_invoice_xml :: string
  at_dian_response_xml :: string

record response_context =
  rc_id :: string
  rc_cude :: string
  rc_issue_date :: string
  rc_issue_time :: string
  rc_environment :: string
  rc_sender :: party_data
  rc_receiver :: party_data
  rc_event_code :: string
  rc_event_description :: string
  rc_parent_document_id :: string
  rc_parent_document_uuid :: string

record payroll_context =
  pc_prefix :: string
  pc_number :: i32
  pc_cune :: string
  pc_issue_date :: string
  pc_issue_time :: string
  pc_employer_nit :: string
  pc_employer_name :: string
  pc_employee_id :: string
  pc_employee_name :: string
  pc_devengado :: string
  pc_deducido :: string
  pc_total :: string

datatype template_context =
    Commercial commercial_document
  | Attached attached_context
  | Application_response response_context
  | Payroll_context payroll_context

datatype zip_step = Start_file | Write_xml | Finish_archive

record 'd ubl_libs =
  u_decimals :: "'d decimals"
  u_sha384 :: digest
  u_fixed2 :: "f64 \<Rightarrow> string"
  u_render :: "string \<Rightarrow> template_context \<Rightarrow> string + string"
  u_zip :: "string \<Rightarrow> string \<Rightarrow> (zip_step \<times> string) + string"

definition render :: "'d ubl_libs \<Rightarrow> string \<Rightarrow> template_context \<Rightarrow> string ubl" where
  "render U name ctx = map_err (\<lambda>m. Failed (Template m)) (u_render U name ctx)"

section \<open>Amounts and codes\<close>

definition ubl_format_amount :: "'d ubl_libs \<Rightarrow> f64 \<Rightarrow> string" where
  "ubl_format_amount U amount =
     (case to_amount (u_decimals U) ''amount'' amount of
        Inr d \<Rightarrow> format_amount (u_decimals U) d
      | Inl _ \<Rightarrow> u_fixed2 U amount)"

definition code_of :: "'d ubl_libs \<Rightarrow> string \<Rightarrow> string" where
  "code_of U input = hex_bytes (u_sha384 U input)"

definition calculate_cufe_cude ::
  "'d ubl_libs \<Rightarrow> string \<Rightarrow> string \<Rightarrow> string \<Rightarrow> f64 \<Rightarrow> string \<Rightarrow> f64 \<Rightarrow> string \<Rightarrow> f64 \<Rightarrow> string \<Rightarrow> f64 \<Rightarrow>
   f64 \<Rightarrow> string \<Rightarrow> string \<Rightarrow> string \<Rightarrow> string \<Rightarrow> string" where
  "calculate_cufe_cude U num_fac fec_fac hor_fac val_fac cod_imp1 val_imp1 cod_imp2 val_imp2 cod_imp3
     val_imp3 val_tol_fac nit_ofe num_adq key tipo_ambiente =
     code_of U (num_fac @ fec_fac @ hor_fac @ ubl_format_amount U val_fac @ cod_imp1 @
       ubl_format_amount U val_imp1 @ cod_imp2 @ ubl_format_amount U val_imp2 @ cod_imp3 @
       ubl_format_amount U val_imp3 @ ubl_format_amount U val_tol_fac @ nit_ofe @ num_adq @ key @ tipo_ambiente)"

definition calculate_cude_event ::
  "'d ubl_libs \<Rightarrow> string \<Rightarrow> string \<Rightarrow> string \<Rightarrow> string \<Rightarrow> string \<Rightarrow> string \<Rightarrow> string \<Rightarrow> string" where
  "calculate_cude_event U num_documento fec hor nit_emisor num_receptor software_pin tipo_ambiente =
     code_of U (num_documento @ fec @ hor @ ''0.00010.000.00'' @ nit_emisor @ num_receptor @ software_pin @
       tipo_ambiente)"

definition calculate_cune ::
  "'d ubl_libs \<Rightarrow> string \<Rightarrow> string \<Rightarrow> string \<Rightarrow> f64 \<Rightarrow> f64 \<Rightarrow> f64 \<Rightarrow> string \<Rightarrow> string \<Rightarrow> string \<Rightarrow> string \<Rightarrow>
   string \<Rightarrow> string" where
  "calculate_cune U num_ne fec_ne hor_ne val_dev val_ded val_tol_ne nit_ne doc_emp tipo_xml software_pin
     tipo_ambiente =
     code_of U (num_ne @ fec_ne @ hor_ne @ ubl_format_amount U val_dev @ ubl_format_amount U val_ded @
       ubl_format_amount U val_tol_ne @ nit_ne @ doc_emp @ tipo_xml @ software_pin @ tipo_ambiente)"

definition calculate_cuds ::
  "'d ubl_libs \<Rightarrow> string \<Rightarrow> string \<Rightarrow> string \<Rightarrow> f64 \<Rightarrow> string \<Rightarrow> f64 \<Rightarrow> f64 \<Rightarrow> string \<Rightarrow> string \<Rightarrow> string \<Rightarrow>
   string \<Rightarrow> string" where
  "calculate_cuds U num_ds fec_ds hor_ds val_ds cod_imp val_imp val_tot nit_ofe num_adq software_pin
     tipo_ambiente =
     code_of U (num_ds @ fec_ds @ hor_ds @ ubl_format_amount U val_ds @ cod_imp @ ubl_format_amount U val_imp @
       ubl_format_amount U val_tot @ nit_ofe @ num_adq @ software_pin @ tipo_ambiente)"

section \<open>Documents\<close>

record commercial_input =
  ci_customization_id :: string
  ci_type_code :: string
  ci_uuid :: string
  ci_uuid_scheme :: string
  ci_id :: string
  ci_issue_date :: string
  ci_issue_time :: string
  ci_environment :: string
  ci_supplier :: party_data
  ci_customer :: party_data
  ci_lines :: "line_payload list option"
  ci_net_amount :: f64
  ci_tax_amount :: f64
  ci_total_amount :: f64
  ci_billing_reference :: "billing_reference_payload option"
  ci_discrepancy :: "discrepancy_payload option"

definition commercial_document_of :: "'d decimals \<Rightarrow> commercial_input \<Rightarrow> commercial_document ubl" where
  "commercial_document_of L i =
     bind_ok (ubl_amount L ''net_amount'' (ci_net_amount i)) (\<lambda>net.
     bind_ok (ubl_amount L ''tax_amount'' (ci_tax_amount i)) (\<lambda>tax.
     bind_ok (ubl_amount L ''total_amount'' (ci_total_amount i)) (\<lambda>gross.
     bind_ok (compute_lines L (ci_lines i) net tax) (\<lambda>lines.
     bind_ok (tax_subtotals L (ci_lines i) net tax) (\<lambda>subtotals.
     Inr \<lparr>cd_customization_id = ci_customization_id i, cd_profile_execution_id = ci_environment i,
          cd_id = ci_id i, cd_uuid = ci_uuid i, cd_uuid_scheme = ci_uuid_scheme i,
          cd_issue_date = ci_issue_date i, cd_issue_time = ci_issue_time i, cd_type_code = ci_type_code i,
          cd_supplier = ci_supplier i, cd_customer = ci_customer i, cd_lines = lines,
          cd_tax_subtotals = subtotals, cd_net = format_amount L net, cd_tax = format_amount L tax,
          cd_total = format_amount L gross, cd_billing_reference = ci_billing_reference i,
          cd_discrepancy = ci_discrepancy i\<rparr>)))))"

definition pin_of :: "invoice_payload \<Rightarrow> string" where
  "pin_of p = (case iv_software_pin p of None \<Rightarrow> [] | Some pin \<Rightarrow> pin)"

text \<open>Template, customization, type code, scheme of the code and its key, by the type of the document.\<close>

definition invoice_scheme ::
  "invoice_payload \<Rightarrow> string \<Rightarrow> (string \<times> string \<times> string \<times> string \<times> string) ubl" where
  "invoice_scheme p technical_key =
     (if iv_document_type p = ''invoice'' then Inr (''invoice.xml'', ''10'', ''01'', ''CUFE-SHA384'', technical_key)
      else if iv_document_type p = ''credit_note''
      then Inr (''credit_note.xml'', ''20'', ''91'', ''CUDE-SHA384'', pin_of p)
      else if iv_document_type p = ''debit_note''
      then Inr (''debit_note.xml'', ''30'', ''92'', ''CUDE-SHA384'', pin_of p)
      else refuse (''Tipo de documento no soportado: '' @ iv_document_type p))"

definition f64_zero :: f64 where "f64_zero = F_fin False 0 0"

definition invoice_code :: "'d ubl_libs \<Rightarrow> invoice_payload \<Rightarrow> string \<Rightarrow> string" where
  "invoice_code U p key =
     calculate_cufe_cude U (iv_prefix p @ int_dec (iv_number p)) (iv_issue_date p) (iv_issue_time p)
       (iv_net_amount p) ''01'' (iv_tax_amount p) ''04'' f64_zero ''03'' f64_zero (iv_total_amount p)
       (iv_company_nit p) (iv_customer_id p) key (iv_environment p)"

definition invoice_input :: "invoice_payload \<Rightarrow> string \<Rightarrow> string \<Rightarrow> string \<Rightarrow> string \<Rightarrow> commercial_input" where
  "invoice_input p customization type_code scheme code =
     \<lparr>ci_customization_id = customization, ci_type_code = type_code, ci_uuid = code, ci_uuid_scheme = scheme,
      ci_id = iv_prefix p @ int_dec (iv_number p), ci_issue_date = iv_issue_date p,
      ci_issue_time = iv_issue_time p, ci_environment = iv_environment p,
      ci_supplier = party ''31'' (iv_company_nit p) (iv_company_name p),
      ci_customer = party (iv_customer_id_type p) (iv_customer_id p) (iv_customer_name p),
      ci_lines = iv_lines p, ci_net_amount = iv_net_amount p, ci_tax_amount = iv_tax_amount p,
      ci_total_amount = iv_total_amount p, ci_billing_reference = iv_billing_reference p,
      ci_discrepancy = iv_discrepancy p\<rparr>"

definition ubl_invoice_xml :: "'d ubl_libs \<Rightarrow> invoice_payload \<Rightarrow> string \<Rightarrow> (string \<times> string) ubl" where
  "ubl_invoice_xml U p technical_key =
     bind_ok (validate_invoice (u_decimals U) p) (\<lambda>_.
     bind_ok (invoice_scheme p technical_key) (\<lambda>(template, customization, type_code, scheme, key).
     let code = invoice_code U p key
     in bind_ok (commercial_document_of (u_decimals U) (invoice_input p customization type_code scheme code)) (\<lambda>doc.
        bind_ok (render U template (Commercial doc)) (\<lambda>xml. Inr (xml, code)))))"

definition ubl_attached_xml ::
  "'d ubl_libs \<Rightarrow> invoice_payload \<Rightarrow> string \<Rightarrow> string \<Rightarrow> string \<Rightarrow> string \<Rightarrow> string \<Rightarrow> string \<Rightarrow> string ubl" where
  "ubl_attached_xml U p unique_id issue_date issue_time cufe signed_xml response_xml =
     render U ''attached_document.xml'' (Attached
       \<lparr>at_unique_id = unique_id, at_issue_date = issue_date, at_issue_time = issue_time,
        at_parent_document_id = iv_prefix p @ int_dec (iv_number p), at_parent_document_uuid = cufe,
        at_parent_document_issue_date = iv_issue_date p,
        at_sender = party ''31'' (iv_company_nit p) (iv_company_name p),
        at_receiver = party (iv_customer_id_type p) (iv_customer_id p) (iv_customer_name p),
        at_signed_invoice_xml = signed_xml, at_dian_response_xml = response_xml\<rparr>)"

text \<open>The arguments of \<open>generate_application_response_xml\<close>.\<close>

record response_input =
  ri_id :: string
  ri_issue_date :: string
  ri_issue_time :: string
  ri_sender_nit :: string
  ri_sender_name :: string
  ri_sender_id_type :: string
  ri_receiver_nit :: string
  ri_receiver_name :: string
  ri_receiver_id_type :: string
  ri_event_code :: string
  ri_event_description :: string
  ri_parent_document_id :: string
  ri_parent_document_uuid :: string
  ri_software_pin :: string
  ri_environment :: string

definition ubl_response_xml :: "'d ubl_libs \<Rightarrow> response_input \<Rightarrow> (string \<times> string) ubl" where
  "ubl_response_xml U i =
     (let cude = calculate_cude_event U (ri_id i) (ri_issue_date i) (ri_issue_time i) (ri_sender_nit i)
            (ri_receiver_nit i) (ri_software_pin i) (ri_environment i)
      in bind_ok (render U ''application_response.xml'' (Application_response
           \<lparr>rc_id = ri_id i, rc_cude = cude, rc_issue_date = ri_issue_date i, rc_issue_time = ri_issue_time i,
            rc_environment = ri_environment i,
            rc_sender = party (ri_sender_id_type i) (ri_sender_nit i) (ri_sender_name i),
            rc_receiver = party (ri_receiver_id_type i) (ri_receiver_nit i) (ri_receiver_name i),
            rc_event_code = ri_event_code i, rc_event_description = ri_event_description i,
            rc_parent_document_id = ri_parent_document_id i,
            rc_parent_document_uuid = ri_parent_document_uuid i\<rparr>)) (\<lambda>xml. Inr (xml, cude)))"

definition ubl_payroll_xml :: "'d ubl_libs \<Rightarrow> payroll_payload \<Rightarrow> (string \<times> string) ubl" where
  "ubl_payroll_xml U p =
     bind_ok (validate_payroll (u_decimals U) p) (\<lambda>_.
     let cune = calculate_cune U (pr_prefix p @ int_dec (pr_number p)) (pr_issue_date p) (pr_issue_time p)
            (pr_devengado p) (pr_deducido p) (pr_total p) (pr_employer_nit p) (pr_employee_id p) ''102''
            (pr_software_pin p) (pr_environment p)
     in bind_ok (render U ''payroll.xml'' (Payroll_context
          \<lparr>pc_prefix = pr_prefix p, pc_number = pr_number p, pc_cune = cune, pc_issue_date = pr_issue_date p,
           pc_issue_time = pr_issue_time p, pc_employer_nit = pr_employer_nit p,
           pc_employer_name = pr_employer_name p, pc_employee_id = pr_employee_id p,
           pc_employee_name = pr_employee_name p, pc_devengado = ubl_format_amount U (pr_devengado p),
           pc_deducido = ubl_format_amount U (pr_deducido p), pc_total = ubl_format_amount U (pr_total p)\<rparr>))
        (\<lambda>xml. Inr (xml, cune)))"

fun f64_positive :: "f64 \<Rightarrow> bool" where
  "f64_positive (F_fin neg m e) = (\<not> neg \<and> m \<noteq> 0)"
| "f64_positive (F_inf neg) = (\<not> neg)"
| "f64_positive F_nan = False"

definition support_code :: "'d ubl_libs \<Rightarrow> support_document_payload \<Rightarrow> string" where
  "support_code U p =
     calculate_cuds U (sd_prefix p @ int_dec (sd_number p)) (sd_issue_date p) (sd_issue_time p)
       (sd_net_amount p) (if f64_positive (sd_tax_amount p) then ''01'' else ''00'') (sd_tax_amount p)
       (sd_total_amount p) (sd_seller_nit p) (sd_buyer_nit p) (sd_software_pin p) (sd_environment p)"

definition ubl_support_xml :: "'d ubl_libs \<Rightarrow> support_document_payload \<Rightarrow> (string \<times> string) ubl" where
  "ubl_support_xml U p =
     bind_ok (validate_support_document (u_decimals U) p) (\<lambda>_.
     let code = support_code U p
     in bind_ok (commercial_document_of (u_decimals U)
          \<lparr>ci_customization_id = ''10'', ci_type_code = ''05'', ci_uuid = code, ci_uuid_scheme = ''CUDS-SHA384'',
           ci_id = sd_prefix p @ int_dec (sd_number p), ci_issue_date = sd_issue_date p,
           ci_issue_time = sd_issue_time p, ci_environment = sd_environment p,
           ci_supplier = party ''31'' (sd_seller_nit p) (sd_seller_name p),
           ci_customer = party ''31'' (sd_buyer_nit p) (sd_buyer_name p),
           ci_lines = sd_lines p, ci_net_amount = sd_net_amount p, ci_tax_amount = sd_tax_amount p,
           ci_total_amount = sd_total_amount p, ci_billing_reference = None, ci_discrepancy = None\<rparr>) (\<lambda>doc.
        bind_ok (render U ''invoice.xml'' (Commercial doc)) (\<lambda>xml. Inr (xml, code))))"

section \<open>The archive\<close>

text \<open>\<open>{:010}\<close>: ten places filled with zeros after the sign.\<close>

definition padded_10 :: "i32 \<Rightarrow> string" where
  "padded_10 n =
     (let ds = nat_dec (nat \<bar>n\<bar>)
      in if n < 0 then ''-'' @ replicate (9 - length ds) CHR ''0'' @ ds
         else replicate (10 - length ds) CHR ''0'' @ ds)"

fun zip_step_message :: "zip_step \<Rightarrow> string" where
  "zip_step_message Start_file = ''Failed to start ZIP file element: ''"
| "zip_step_message Write_xml = ''Failed to write XML into ZIP: ''"
| "zip_step_message Finish_archive = ''Failed to finalize ZIP archive: ''"

definition archive_base :: "string \<Rightarrow> string \<Rightarrow> i32 \<Rightarrow> string" where
  "archive_base nit prefix n = ''z'' @ nit @ prefix @ padded_10 n"

definition ubl_compress :: "'d ubl_libs \<Rightarrow> string \<Rightarrow> string \<Rightarrow> string \<Rightarrow> i32 \<Rightarrow> (string \<times> string) ubl" where
  "ubl_compress U xml nit prefix n =
     bind_ok (map_err (\<lambda>(step, m). Failed (Formatting (zip_step_message step @ m)))
       (u_zip U (archive_base nit prefix n @ ''.xml'') xml)) (\<lambda>bytes.
     Inr (bytes, archive_base nit prefix n @ ''.zip''))"

section \<open>What is generated\<close>

text \<open>An amount the validation accepts is written in its decimal form, whatever its field is called.\<close>

lemma to_amount_field: "to_amount L field v = Inr d \<Longrightarrow> to_amount L other v = Inr d"
  by (auto simp: to_amount_def Let_def split: if_splits option.splits)

lemma format_accepted: "to_amount (u_decimals U) field v = Inr d \<Longrightarrow> ubl_format_amount U v = format_amount (u_decimals U) d"
  by (drule to_amount_field[of _ _ _ _ "''amount''"]) (simp add: ubl_format_amount_def)

lemma render_Inl: "render U name ctx = Inl e \<Longrightarrow> \<exists>m. e = Failed (Template m)"
  by (auto simp: render_def map_err_def split: sum.splits)

lemma or_panic_Inl: "or_panic x = Inl e \<longleftrightarrow> x = None \<and> e = Panicked"
  by (cases x) (auto simp: or_panic_def)

text \<open>Grouping can only fail by an overflow.\<close>

lemma add_group_Inl: "add_group L l gs = Inl e \<Longrightarrow> e = Panicked"
  by (induction L l gs rule: add_group.induct)
    (auto simp: add_to_group_def bind_ok_Inl_iff or_panic_Inl split: if_splits prod.splits)

lemma group_lines_Inl: "group_lines L gs ls = Inl e \<Longrightarrow> e = Panicked"
  by (induction L gs ls rule: group_lines.induct) (auto simp: bind_ok_Inl_iff dest: add_group_Inl)

lemma compute_lines_iff: "compute_lines L lines net tax = Inr data \<longleftrightarrow>
    (\<exists>cs. compute L lines net tax = Inr cs \<and> data = map cl_data cs)"
  by (auto simp: compute_lines_def bind_ok_Inr_iff)

lemma tax_subtotals_Inl:
  "compute_lines L lines net tax = Inr data \<Longrightarrow> tax_subtotals L lines net tax = Inl e \<Longrightarrow> e = Panicked"
  by (auto simp: compute_lines_iff tax_subtotals_def bind_ok_Inl_iff dest: group_lines_Inl)

lemma commercial_Inl:
  assumes "commercial_document_of L i = Inl e"
    and "to_amount L ''net_amount'' (ci_net_amount i) = Inr net"
    and "to_amount L ''tax_amount'' (ci_tax_amount i) = Inr tax"
    and "to_amount L ''total_amount'' (ci_total_amount i) = Inr gross"
    and "compute_lines L (ci_lines i) net tax = Inr data"
  shows "e = Panicked"
  using assms by (auto simp: commercial_document_of_def ubl_amount_def bind_ok_Inl_iff dest: tax_subtotals_Inl)

end
