(* ===== verification/Issue_Properties.thy ===== *)
theory Issue_Properties
  imports Issue_Service Store_Properties Ubl_Properties
begin

text \<open>
  What issuing promises to the client of the API, from the body of the request to the rows of the
  database: the use case of \<open>issue.rs\<close> over the PostgreSQL store.
\<close>

section \<open>From the request to the rows\<close>

lemma pg_issue_created:
  assumes "alone w" "pg_issue_outbound dn d job w = (Inr (Created iss), w')"
  shows "issue_tx dn d job (clock w) (db w) = Inr (Issued iss, db w')"
proof -
  define look where "look = (case no_idempotency d of
      None \<Rightarrow> io_return None | Some key \<Rightarrow> find_idempotency (no_tenant_id d) key)"
  have look_same: "v = w \<and> (\<forall>x. q = Inr (Some x) \<longrightarrow> (\<exists>i. x = Replayed (issued_of i)))" if "look w = (q, v)" for q v
    using that assms(1)
    by (auto simp: look_def find_idempotency_def query_alone io_bind_def replay_def
        split: option.splits if_splits)
  obtain q v where 1: "look w = (q, v)" by force
  with look_same assms(2) have q: "q = Inr None" "v = w"
    unfolding pg_issue_outbound_def look_def[symmetric] by (auto simp: io_bind_def split: sum.splits option.splits)
  have step: "tx (issue_tx dn d job) w = (case issue_tx dn d job (clock w) (db w) of
      Inl e \<Rightarrow> (Inl e, w) | Inr (a, s) \<Rightarrow> (Inr a, w\<lparr>db := s\<rparr>))"
    using assms(1) by (rule tx_alone)
  show ?thesis
  proof (cases "issue_tx dn d job (clock w) (db w)")
    case (Inl e)
    with assms(2) 1 q step show ?thesis
      unfolding pg_issue_outbound_def look_def[symmetric] by (simp add: io_bind_def)
  next
    case (Inr p)
    obtain a s where p: "p = (a, s)" by force
    show ?thesis
    proof (cases a)
      case (Issued i)
      with assms(2) 1 q step Inr p show ?thesis
        unfolding pg_issue_outbound_def look_def[symmetric] by (auto simp: io_bind_def)
    next
      case Key_taken
      with Inr p have "s = db w" by (auto dest: issue_tx_Key_taken)
      then have "look (w\<lparr>db := s\<rparr>) = (q, w)" using 1 q by simp
      with assms(2) 1 q step Inr p Key_taken \<open>s = db w\<close> show ?thesis
        unfolding pg_issue_outbound_def look_def[symmetric] by (auto simp: io_bind_def ok_or_def)
    qed
  qed
qed

text \<open>
  C15. An accepted invoice. When the client is told that an invoice or note was created, the body passed
  the validation, its issuer is the authenticated tenant, its number is the next one of the resolution
  in force, and the database has, besides what it had, the pending document with this number and the
  body without the technical key, and a queued job that transmits it at once.
\<close>

theorem issued_invoice_is_stored:
  assumes "peers w = []"
    and "issue_invoice I (pg_documents dn) m tenant p key w = (Inr (Created iss), w')"
  shows "validate_invoice (i_decimals I) p = Inr () \<and> iv_company_nit p = t_tax_id tenant \<and>
    is_document_number iss = iv_number p \<and>
    (\<exists>d r. documents (db w') = documents (db w) @ [d] \<and> jobs (db w') = jobs (db w) @ [r] \<and>
      d_id d = is_document_id iss \<and> d_tenant_id d = t_id tenant \<and> d_direction d = Outbound \<and>
      d_document_type d = invoice_type p \<and> d_prefix d = iv_prefix p \<and> d_document_number d = iv_number p \<and>
      d_status d = Pending \<and> d_payload d = invoice_json p \<and> obj_get ''technical_key'' (d_payload d) = None \<and>
      (\<exists>rng \<in> set (ranges (db w)). d_numbering_range_id d = Some (r_id rng) \<and>
         r_tenant_id rng = t_id tenant \<and> next_consecutive rng = iv_number p \<and> iv_number p \<le> r_to_number rng) \<and>
      jr_document_id r = d_id d \<and> jr_kind r = Transmit \<and> jr_status r = Queued \<and> jr_run_at r = clock w)"
  using assms(2) unfolding issue_invoice_def
proof (cases rule: guarded_cases)
  case checked
  from checked(3) obtain idem q where q:
    "issue_outbound (pg_documents dn)
      \<lparr>no_id = next_uuid w, no_tenant_id = t_id tenant, no_document_type = invoice_type p,
       no_prefix = iv_prefix p, no_requested_number = Some (iv_number p), no_payload = invoice_json p,
       no_idempotency = idem\<rparr>
      (transmit_job (Suc (next_uuid w)) (clock w) (next_uuid w) m) (w\<lparr>next_uuid := next_uuid w + 2\<rparr>) = (q, w')"
    and "map_err Failed q = (Inr (Created iss) :: domain_error failure + issue_outcome)"
    by (cases rule: issue_cases) auto
  then have "q = Inr (Created iss)" by (cases q) auto
  with pg_issue_effect[OF _ q[unfolded pg_documents_def document_repository.simps]] assms(1)
  obtain rng n where r: "select_range \<lparr>no_id = next_uuid w, no_tenant_id = t_id tenant,
        no_document_type = invoice_type p, no_prefix = iv_prefix p, no_requested_number = Some (iv_number p),
        no_payload = invoice_json p, no_idempotency = idem\<rparr> (clock w) (db w) = Some rng"
      "next_number dn rng (Some (iv_number p)) (clock w) = Inr n" and
    e: "documents (db w') = documents (db w) @ [outbound_row \<lparr>no_id = next_uuid w, no_tenant_id = t_id tenant,
        no_document_type = invoice_type p, no_prefix = iv_prefix p, no_requested_number = Some (iv_number p),
        no_payload = invoice_json p, no_idempotency = idem\<rparr> n (r_id rng) (clock w)]"
      "jobs (db w') = jobs (db w) @ [new_job_row (clock w) (transmit_job (Suc (next_uuid w)) (clock w) (next_uuid w) m)]"
      "iss = \<lparr>is_document_id = next_uuid w, is_document_number = n\<rparr>"
    by (auto simp: db_unavailable_def)
  from r have "rng \<in> set (ranges (db w))" "r_tenant_id rng = t_id tenant" "n = iv_number p"
    "next_consecutive rng = n" "n \<le> r_to_number rng"
    using select_range_member[OF r(1)] by (auto simp: next_number_Inr)
  with checked e show ?thesis
    by (auto simp: outbound_row_def new_job_row_def transmit_job_def invoice_json_secret)
qed auto

text \<open>The use case keeps the invariants of the store, among peers that do.\<close>

lemma issue_invoice_guarantee:
  assumes "peers_in (obeys pg_guarantee) w" "issue_invoice I (pg_documents dn) m tenant p key w = (r, w')"
  shows "pg_guarantee (db w) (db w')"
  using assms(2) unfolding issue_invoice_def
proof (cases rule: guarded_cases)
  case checked
  from checked(3) show ?thesis
  proof (cases rule: issue_cases)
    case (asked idem q)
    from withinD(1)[OF pg_issue_within _ asked(2)[unfolded pg_documents_def document_repository.simps]] assms(1)
    show ?thesis by (simp add: peers_in_def)
  qed (simp add: store.refl)
qed (simp_all add: store.refl)

definition ex_issue_libs :: "exact issue_libs" where
  "ex_issue_libs = \<lparr>i_decimals = exact_decimals, i_sha256 = (\<lambda>s. map (\<lambda>c. of_nat (byte c)) s),
     i_json_text = (\<lambda>m. map (hd \<circ> fst) m)\<rparr>"

definition ex_request :: invoice_payload where
  "ex_request = ex_body\<lparr>iv_number := 1, iv_company_nit := ''900''\<rparr>"

lemma ex_request_valid: "validate_invoice exact_decimals ex_request = Inr ()"
proof -
  obtain cs where "compute exact_decimals (Some ex_lines) (14, 0) (4, 0) = Inr cs" using ex_computed by blast
  moreover have "digits_only ''900''" by code_simp
  ultimately show ?thesis
    by (simp add: validate_invoice_def ex_request_def ex_body_def ex_texts ex_amounts ex_sums ubl_amount_def
        ubl_equal_def require_equal_def compute_lines_def or_panic_def cong: bind_ok_weak_cong)
qed

text \<open>With any API keys in the database.\<close>

definition ex_keyed :: "api_key_record list \<Rightarrow> pg world" where
  "ex_keyed ks = ex_issuing\<lparr>db := (db ex_issuing)\<lparr>api_keys := ks\<rparr>\<rparr>"

lemma ex_issue_created:
  "fst (pg_issue_outbound (\<lambda>_. []) \<lparr>no_id = 22, no_tenant_id = 1, no_document_type = Invoice, no_prefix = ''FE'',
      no_requested_number = Some 1, no_payload = payload,
      no_idempotency = Some \<lparr>ik_key = ''k'', ik_request_hash = h\<rparr>\<rparr>
     (transmit_job 23 ex_now 22 5) (ex_keyed ks\<lparr>next_uuid := 24\<rparr>)) =
   Inr (Created \<lparr>is_document_id = 22, is_document_number = 1\<rparr>)"
  by code_simp

lemma ex_issued_keyed:
  "\<exists>w. issue_invoice ex_issue_libs (pg_documents (\<lambda>_. [])) 5 ex_tenant_row ex_request (Some ''k'') (ex_keyed ks) =
     (Inr (Created \<lparr>is_document_id = 22, is_document_number = 1\<rparr>), w)"
proof -
  have "trim ''k'' = ''k''" "is_ascii ''k''" by code_simp+
  then have key: "idempotency_of ex_issue_libs (Some ''k'') ty payload =
      Inr (Some \<lparr>ik_key = ''k'', ik_request_hash = request_hash ex_issue_libs ty payload\<rparr>)" for ty payload
    by (simp add: idempotency_of_def Let_def max_idempotency_key_len_def)
  have w: "next_uuid (ex_keyed ks) = 22" "clock (ex_keyed ks) = ex_now"
    by (simp_all add: ex_keyed_def ex_issuing_def ex_world_def ex_start_def)
  have r: "iv_company_nit ex_request = t_tax_id ex_tenant_row" "t_id ex_tenant_row = 1"
    "invoice_type ex_request = Invoice" "iv_prefix ex_request = ''FE''" "iv_number ex_request = 1"
    by (simp_all add: ex_request_def ex_body_def ex_tenant_row_def tenant_row_def ex_tenant_def invoice_type_def)
  obtain u where "pg_issue_outbound (\<lambda>_. [])
      \<lparr>no_id = 22, no_tenant_id = 1, no_document_type = Invoice, no_prefix = ''FE'', no_requested_number = Some 1,
       no_payload = invoice_json ex_request, no_idempotency = Some \<lparr>ik_key = ''k'',
         ik_request_hash = request_hash ex_issue_libs Invoice (invoice_json ex_request)\<rparr>\<rparr>
      (transmit_job 23 ex_now 22 5) (ex_keyed ks\<lparr>next_uuid := 24\<rparr>) =
      (Inr (Created \<lparr>is_document_id = 22, is_document_number = 1\<rparr>), u)"
    using ex_issue_created by (metis prod.collapse)
  moreover have "i_decimals ex_issue_libs = exact_decimals" by (simp add: ex_issue_libs_def)
  ultimately show ?thesis
    using ex_request_valid
    by (simp add: issue_invoice_def issue_def key io_bind_def require_issuer_def r new_uuid_def w io_map_err_def
        pg_documents_def)
qed

lemma ex_issued:
  "\<exists>w. issue_invoice ex_issue_libs (pg_documents (\<lambda>_. [])) 5 ex_tenant_row ex_request (Some ''k'') ex_issuing =
     (Inr (Created \<lparr>is_document_id = 22, is_document_number = 1\<rparr>), w)"
proof -
  have "ex_keyed [] = ex_issuing" by (simp add: ex_keyed_def ex_issuing_def ex_world_def ex_db_def pg_empty_def)
  with ex_issued_keyed[of "[]"] show ?thesis by simp
qed

theorem issued_invoice_is_stored_witness:
  "\<exists>w d. issue_invoice ex_issue_libs (pg_documents (\<lambda>_. [])) 5 ex_tenant_row ex_request (Some ''k'') ex_issuing =
     (Inr (Created \<lparr>is_document_id = 22, is_document_number = 1\<rparr>), w) \<and>
     documents (db w) = [d] \<and> d_status d = Pending \<and> d_document_number d = 1 \<and> d_payload d = invoice_json ex_request"
proof -
  obtain w where run: "issue_invoice ex_issue_libs (pg_documents (\<lambda>_. [])) 5 ex_tenant_row ex_request (Some ''k'')
      ex_issuing = (Inr (Created \<lparr>is_document_id = 22, is_document_number = 1\<rparr>), w)"
    using ex_issued by blast
  have "peers ex_issuing = []" "documents (db ex_issuing) = []" "iv_number ex_request = 1"
    by (simp_all add: ex_issuing_def ex_world_def ex_start_def ex_db_def ex_request_def)
  with issued_invoice_is_stored[OF this(1) run] run show ?thesis by auto
qed

section \<open>Refused requests\<close>

text \<open>
  C16. A refused request changes nothing. Whatever error the issuing of an invoice or note ends with,
  the database is as it was, except when only the acknowledgement of the commit was lost. A body that
  fails the validation is answered with its validation error, and a valid body of another issuer with
  \<open>Forbidden\<close>, before the store is called.
\<close>

theorem refused_invoice_changes_nothing:
  assumes "peers w = []" "issue_invoice I (pg_documents dn) m tenant p key w = (Inl e, w')"
    and "e \<noteq> Failed db_unavailable"
  shows "db w' = db w \<and>
    (case validate_invoice (i_decimals I) p of
       Inl Panicked \<Rightarrow> e = Panicked \<and> w' = w
     | Inl (Failed x) \<Rightarrow> e = Failed (Validation (ubl_error_display x)) \<and> w' = w
     | Inr _ \<Rightarrow> iv_company_nit p \<noteq> t_tax_id tenant \<longrightarrow>
         e = Failed (Forbidden (foreign_issuer ''emisor'')) \<and> w' = w)"
  using assms(2) unfolding issue_invoice_def
proof (cases rule: guarded_cases)
  case checked
  from checked(3) have "db w' = db w"
  proof (cases rule: issue_cases)
    case (asked idem q)
    then obtain x where "q = Inl x" "e = Failed x" by (cases q) auto
    with pg_issue_effect[OF _ asked(2)[unfolded pg_documents_def document_repository.simps]] assms(1,3)
    show ?thesis by auto
  qed simp
  with checked show ?thesis by simp
qed (auto simp: validation_def)

theorem refused_invoice_changes_nothing_witness:
  "issue_invoice ex_issue_libs (pg_documents (\<lambda>_. [])) 5 (ex_tenant_row\<lparr>t_tax_id := ''901''\<rparr>) ex_request None ex_issuing
     = (Inl (Failed (Forbidden (foreign_issuer ''emisor''))), ex_issuing)"
proof -
  let ?t = "ex_tenant_row\<lparr>t_tax_id := ''901''\<rparr>"
  have nit: "iv_company_nit ex_request = ''900''" by (simp add: ex_request_def)
  have libs: "i_decimals ex_issue_libs = exact_decimals" by (simp add: ex_issue_libs_def)
  have "\<exists>w. issue_invoice ex_issue_libs (pg_documents (\<lambda>_. [])) 5 ?t ex_request None ex_issuing =
      (Inl (Failed (Forbidden (foreign_issuer ''emisor''))), w)"
    using ex_request_valid by (simp add: issue_invoice_def libs io_bind_def require_issuer_def nit)
  then obtain w where run: "issue_invoice ex_issue_libs (pg_documents (\<lambda>_. [])) 5 ?t ex_request None ex_issuing =
      (Inl (Failed (Forbidden (foreign_issuer ''emisor''))), w)" by blast
  have "peers ex_issuing = []" by (simp add: ex_issuing_def ex_world_def ex_start_def)
  from refused_invoice_changes_nothing[OF this run] run show ?thesis
    using ex_request_valid by (simp add: libs nit db_unavailable_def)
qed

section \<open>Repeated requests\<close>

lemma hex_char_plain: "d < 16 \<Longrightarrow> byte (hex_char d) < 128 \<and> 32 < byte (hex_char d)"
  by (auto simp: byte_def hex_char_def)

lemma hex_bytes_plain: "c \<in> set (hex_bytes bs) \<Longrightarrow> byte c < 128 \<and> 32 < byte c"
proof -
  have "c \<in> set (hex_digits k n) \<Longrightarrow> byte c < 128 \<and> 32 < byte c" for k n
    by (induction k arbitrary: n) (auto simp: hex_char_plain)
  then show "c \<in> set (hex_bytes bs) \<Longrightarrow> byte c < 128 \<and> 32 < byte c"
    by (induction bs) auto
qed

lemma trim_request_hash: "trim (request_hash I ty payload) = request_hash I ty payload"
  unfolding request_hash_def by (rule trim_plain) (rule hex_bytes_plain)

text \<open>
  One document per idempotency key. Once an invoice was created under a key, a later valid request
  of the tenant under that key creates nothing: with the same type and body (the same fingerprint) it
  is answered with the document already created, with another body it is refused.
\<close>

theorem one_invoice_per_key:
  assumes "alone w" "issue_invoice I (pg_documents dn) m tenant p (Some k) w = (Inr (Created iss), w1)"
    and "alone v" "pg_constraints (db v)" "set (idempotency (db w1)) \<subseteq> set (idempotency (db v))"
    and "validate_invoice (i_decimals I) q = Inr ()" "iv_company_nit q = t_tax_id tenant" "trim k' = trim k"
  shows "issue_invoice I (pg_documents dn') m' tenant q (Some k') v =
    (if request_hash I (invoice_type q) (invoice_json q) = request_hash I (invoice_type p) (invoice_json p)
     then Inr (Replayed iss) else Inl (Failed key_reused_error), v\<lparr>next_uuid := next_uuid v + 2\<rparr>)"
  using assms(2) unfolding issue_invoice_def[of I "pg_documents dn" m tenant p]
proof (cases rule: guarded_cases)
  case checked
  from checked(3) show ?thesis
  proof (cases rule: issue_cases)
    case (asked idem r)
    then have r: "r = Inr (Created iss)" by (cases r) auto
    have k: "trim k \<noteq> []" "length (trim k) \<le> max_idempotency_key_len" "is_ascii (trim k)"
      "idem = Some \<lparr>ik_key = trim k, ik_request_hash = request_hash I (invoice_type p) (invoice_json p)\<rparr>"
      using asked(1) by (auto simp: idempotency_of_def Let_def split: if_splits)
    let ?d = "\<lparr>no_id = next_uuid w, no_tenant_id = t_id tenant, no_document_type = invoice_type p,
      no_prefix = iv_prefix p, no_requested_number = Some (iv_number p), no_payload = invoice_json p,
      no_idempotency = idem\<rparr>"
    let ?w = "w\<lparr>next_uuid := next_uuid w + 2\<rparr>"
    have tx: "issue_tx dn ?d (transmit_job (Suc (next_uuid w)) (clock w) (next_uuid w) m) (clock ?w) (db ?w) =
        Inr (Issued iss, db w1)"
      by (rule pg_issue_created) (use assms(1) asked(2) r in \<open>simp_all add: alone_def pg_documents_def\<close>)
    let ?v = "v\<lparr>next_uuid := next_uuid v + 2\<rparr>"
    let ?k = "\<lparr>ik_key = trim k, ik_request_hash = request_hash I (invoice_type p) (invoice_json p)\<rparr>"
    let ?k' = "\<lparr>ik_key = trim k, ik_request_hash = request_hash I (invoice_type q) (invoice_json q)\<rparr>"
    have "pg_issue_outbound dn' d' job' ?v = (if trim (ik_request_hash ?k) = ik_request_hash ?k'
        then Inr (Replayed iss) else Inl key_reused_error, ?v)"
      if "no_tenant_id d' = no_tenant_id ?d" "no_idempotency d' = Some ?k'" for d' job'
      by (rule pg_replay[OF tx]) (use that k(4) assms(3-5) in \<open>simp_all add: alone_def\<close>)
    note replay = this[simplified trim_request_hash]
    have idem': "idempotency_of I (Some k') (invoice_type q) (invoice_json q) = Inr (Some ?k')"
      using k assms(8) by (simp add: idempotency_of_def Let_def)
    show ?thesis
      using assms(6,7) replay
      by (auto simp: issue_invoice_def issue_def io_bind_def require_issuer_def idem' new_uuid_def io_map_err_def
          pg_documents_def trim_request_hash)
  qed simp
qed simp_all

theorem one_invoice_per_key_witness:
  "\<exists>v. fst (issue_invoice ex_issue_libs (pg_documents (\<lambda>_. [])) 5 ex_tenant_row ex_request (Some ''k'') v) =
     Inr (Replayed \<lparr>is_document_id = 22, is_document_number = 1\<rparr>)"
proof -
  obtain w where run: "issue_invoice ex_issue_libs (pg_documents (\<lambda>_. [])) 5 ex_tenant_row ex_request (Some ''k'')
      ex_issuing = (Inr (Created \<lparr>is_document_id = 22, is_document_number = 1\<rparr>), w)"
    using ex_issued by blast
  have "alone ex_issuing" by (simp add: alone_def ex_issuing_def ex_world_def ex_start_def)
  have "pg_constraints (db ex_issuing)" by code_simp
  moreover have "numbering_inv (db ex_issuing)"
    by (simp add: numbering_inv_def gapless_def ex_issuing_def ex_world_def ex_db_def range_ok_def ex_range_def
        i32_max_def)
  ultimately have "pg_inv (db w)"
    using issue_invoice_guarantee[OF _ run] \<open>alone ex_issuing\<close>
    by (simp add: pg_guarantee_def pg_inv_def peers_in_def alone_def)
  then have "pg_constraints (db w)" by (simp add: pg_inv_def)
  have r: "validate_invoice (i_decimals ex_issue_libs) ex_request = Inr ()"
    "iv_company_nit ex_request = t_tax_id ex_tenant_row"
    using ex_request_valid
    by (simp_all add: ex_issue_libs_def ex_request_def ex_tenant_row_def tenant_row_def ex_tenant_def)
  let ?v = "ex_issuing\<lparr>db := db w\<rparr>"
  have "alone ?v" "pg_constraints (db ?v)" "set (idempotency (db w)) \<subseteq> set (idempotency (db ?v))"
    using \<open>alone ex_issuing\<close> \<open>pg_constraints (db w)\<close> by (simp_all add: alone_def)
  from one_invoice_per_key[OF \<open>alone ex_issuing\<close> run this r refl] show ?thesis by (intro exI[of _ ?v]) simp
qed

end
