(* ===== verification/Admin_Service.thy ===== *)
theory Admin_Service
  imports Api_Keys Pg_Admin
begin

text \<open>
  \<open>application/src/admin.rs\<close>: the administration of tenants, API keys, certificates and numbering
  ranges, and the retry of dead jobs and deliveries. Every change is passed to the repository with its
  entry for the audit log. SHA-256 and the RFC 3339 text of an instant (\<open>chrono\<close>) are parameters.
\<close>

definition max_list_limit :: int where "max_list_limit = 200"

definition invalid :: "string \<Rightarrow> domain_error" where
  "invalid m = Validation m"

definition reject_unless :: "bool \<Rightarrow> string \<Rightarrow> unit result" where
  "reject_unless ok m = (if ok then Inr () else Inl (invalid m))"

text \<open>\<open>fn text\<close>: a trimmed text of one to \<open>most\<close> characters.\<close>

definition checked_text :: "string \<Rightarrow> string \<Rightarrow> nat \<Rightarrow> string result" where
  "checked_text field v most =
     (let t = trim v
      in if t = [] \<or> length (utf8_chars t) > most
         then Inl (invalid (field @ '' debe tener entre 1 y '' @ nat_dec most @ '' caracteres''))
         else Inr t)"

definition audit :: "string \<Rightarrow> uuid option \<Rightarrow> uuid option \<Rightarrow> json_object \<Rightarrow> audit_entry" where
  "audit action tenant subject details =
     \<lparr>a_action = action, a_tenant_id = tenant, a_subject_id = subject, a_details = details\<rparr>"

section \<open>Requests and answers\<close>

record create_tenant_request =
  ct_tax_id :: string
  ct_registration_name :: string
  ct_tax_regime :: string
  ct_reception_email :: string

record issued_api_key =
  ik_id :: uuid
  ik_name :: string
  ik_prefix :: string
  ik_secret :: string

record register_certificate_request =
  cr_vault_reference_path :: string
  cr_thumbprint :: string
  cr_expiration_date :: instant

record register_range_request =
  rr_document_type :: string
  rr_prefix :: string
  rr_from_number :: i32
  rr_to_number :: i32
  rr_technical_key :: string
  rr_valid_date_from :: instant
  rr_valid_date_to :: instant
  rr_last_issued_number :: "i32 option"

section \<open>Tenants\<close>

definition admin_tenant :: "'w admin_repository \<Rightarrow> uuid \<Rightarrow> ('w, tenant) io" where
  "admin_tenant R i =
     io_bind (find_tenant R i) (\<lambda>found.
     io_lift (ok_or (NotFound (''Tenant '' @ uuid_string i @ '' no encontrado'')) found))"

definition valid_tax_id :: "string \<Rightarrow> bool" where
  "valid_tax_id s \<longleftrightarrow> 5 \<le> length s \<and> length s \<le> 15 \<and> all_digits s"

definition admin_create_tenant ::
  "'db world admin_repository \<Rightarrow> create_tenant_request \<Rightarrow> ('db world, tenant) io" where
  "admin_create_tenant R req =
     (let tax_id = trim (ct_tax_id req)
      in io_bind (io_lift (reject_unless (valid_tax_id tax_id)
           ''tax_id debe ser el NIT numerico sin digito de verificacion'')) (\<lambda>_.
         io_bind (io_lift (checked_text ''reception_email'' (ct_reception_email req) 255)) (\<lambda>reception_email.
         io_bind (io_lift (reject_unless (CHR ''@'' \<in> set reception_email)
           ''reception_email no es un correo valido'')) (\<lambda>_ w.
         case new_uuid w of (i, w1) \<Rightarrow>
         io_bind (io_lift (checked_text ''registration_name'' (ct_registration_name req) 255)) (\<lambda>name.
         io_bind (io_lift (checked_text ''tax_regime'' (ct_tax_regime req) 100)) (\<lambda>regime.
         create_tenant R
           \<lparr>nt_id = i, nt_tax_id = tax_id, nt_registration_name = name, nt_tax_regime = regime,
            nt_reception_email = reception_email\<rparr>
           (audit ''tenant.created'' (Some i) (Some i) [(''tax_id'', J_str tax_id)]))) w1))))"

definition admin_get_tenant :: "'w admin_repository \<Rightarrow> uuid \<Rightarrow> ('w, tenant) io" where
  "admin_get_tenant R i = admin_tenant R i"

section \<open>API keys\<close>

text \<open>Thirty-two bytes from the random source, in hexadecimal.\<close>

definition random_hex :: "'db world \<Rightarrow> string \<times> 'db world" where
  "random_hex w = (case draws 32 w of (es, v) \<Rightarrow> (hex_bytes (map of_nat es), v))"

text \<open>The part of \<open>create_api_key\<close> after its checks: a fresh key, stored by its hash.\<close>

definition store_fresh_key ::
  "digest \<Rightarrow> 'db world admin_repository \<Rightarrow> uuid \<Rightarrow> string \<Rightarrow> ('db world, issued_api_key) io" where
  "store_fresh_key sha256 R tenant n w =
     (case random_hex w of (secret, w1) \<Rightarrow> case new_uuid w1 of (i, w2) \<Rightarrow>
        (let key = key_prefix @ secret; prefix = take visible_prefix_len key
         in io_bind (create_api_key R
              \<lparr>k_id = i, k_tenant_id = tenant, k_name = n, k_prefix = prefix, k_key_hash = key_hash sha256 key,
               k_created_at = clock w2, k_revoked_at = None\<rparr>
              (audit ''api_key.created'' (Some tenant) (Some i) [(''name'', J_str n), (''prefix'', J_str prefix)]))
            (\<lambda>_. io_return \<lparr>ik_id = i, ik_name = n, ik_prefix = prefix, ik_secret = key\<rparr>) w2))"

definition admin_create_api_key ::
  "digest \<Rightarrow> 'db world admin_repository \<Rightarrow> uuid \<Rightarrow> string \<Rightarrow> ('db world, issued_api_key) io" where
  "admin_create_api_key sha256 R tenant name =
     io_bind (admin_tenant R tenant) (\<lambda>_.
     io_bind (io_lift (checked_text ''name'' name 100)) (\<lambda>n. store_fresh_key sha256 R tenant n))"

definition admin_list_api_keys :: "'w admin_repository \<Rightarrow> uuid \<Rightarrow> ('w, api_key_record list) io" where
  "admin_list_api_keys R tenant = io_bind (admin_tenant R tenant) (\<lambda>_. list_api_keys R tenant)"

text \<open>\<open>Ok(())\<close> when the repository found the row, \<open>NotFound\<close> otherwise.\<close>

definition found_or :: "string \<Rightarrow> ('w, bool) io \<Rightarrow> ('w, unit) io" where
  "found_or msg m =
     io_bind m (\<lambda>found. if found then io_return () else io_fail (NotFound msg))"

definition admin_revoke_api_key :: "'w admin_repository \<Rightarrow> uuid \<Rightarrow> uuid \<Rightarrow> ('w, unit) io" where
  "admin_revoke_api_key R tenant key =
     found_or (''API key '' @ uuid_string key @ '' activa no encontrada'')
       (revoke_api_key R tenant key (audit ''api_key.revoked'' (Some tenant) (Some key) []))"

section \<open>Certificates\<close>

definition path_char :: "char \<Rightarrow> bool" where
  "path_char c \<longleftrightarrow> is_ascii_alphanumeric c \<or> c = CHR ''-'' \<or> c = CHR ''_'' \<or> c = CHR ''.''"

definition valid_segment :: "string \<Rightarrow> bool" where
  "valid_segment s \<longleftrightarrow> s \<noteq> [] \<and> s \<noteq> ''.'' \<and> s \<noteq> ''..'' \<and> list_all path_char s"

definition valid_vault_path :: "string \<Rightarrow> bool" where
  "valid_vault_path p \<longleftrightarrow> p \<noteq> [] \<and> length p \<le> 500 \<and> list_all valid_segment (split_char CHR ''/'' p)"

definition admin_register_certificate ::
  "(instant \<Rightarrow> string) \<Rightarrow> 'db world admin_repository \<Rightarrow> uuid \<Rightarrow> register_certificate_request \<Rightarrow>
   ('db world, certificate) io" where
  "admin_register_certificate rfc3339 R tenant req =
     (let path = trim (cr_vault_reference_path req)
      in io_bind (admin_tenant R tenant) (\<lambda>_.
         io_bind (io_lift (reject_unless (valid_vault_path path)
           ''vault_reference_path no es una ruta de Vault valida'')) (\<lambda>_ w.
         io_bind (io_lift (reject_unless (\<not> cr_expiration_date req \<le> clock w) ''El certificado ya esta vencido'')) (\<lambda>_ v.
           case new_uuid v of (i, v1) \<Rightarrow>
           io_bind (io_lift (checked_text ''thumbprint'' (cr_thumbprint req) 255)) (\<lambda>thumbprint.
           let c = \<lparr>c_id = i, c_tenant_id = tenant, c_vault_reference_path = path, c_thumbprint = thumbprint,
                    c_expiration_date = cr_expiration_date req, c_status = C_Active\<rparr>
           in io_bind (activate_certificate R c
                (audit ''certificate.activated'' (Some tenant) (Some i)
                   [(''expiration_date'', J_str (rfc3339 (c_expiration_date c))), (''thumbprint'', J_str thumbprint)]))
              (\<lambda>_. io_return c)) v1) w)))"

section \<open>Numbering ranges\<close>

definition valid_range_prefix :: "string \<Rightarrow> bool" where
  "valid_range_prefix p \<longleftrightarrow> length p \<le> 4 \<and> list_all is_ascii_alphanumeric p"

definition initial_counter :: "register_range_request \<Rightarrow> i32 result" where
  "initial_counter req =
     (case rr_last_issued_number req of
        None \<Rightarrow> Inr 0
      | Some n \<Rightarrow>
          if n \<ge> i32_wrap (rr_from_number req - 1) \<and> n \<le> rr_to_number req then Inr n
          else Inl (invalid ''last_issued_number debe estar dentro del rango''))"

definition admin_register_range ::
  "'db world admin_repository \<Rightarrow> uuid \<Rightarrow> register_range_request \<Rightarrow> ('db world, numbering_range) io" where
  "admin_register_range R tenant req =
     (let prefix = trim (rr_prefix req); technical_key = trim (rr_technical_key req)
      in io_bind (admin_tenant R tenant) (\<lambda>_.
         io_bind (io_lift (map_err (\<lambda>_. invalid (''document_type '' @ [CHR 0x27] @ rr_document_type req @ [CHR 0x27] @
           '' no es valido'')) (document_type_from_str (rr_document_type req)))) (\<lambda>ty.
         io_bind (io_lift (reject_unless (valid_range_prefix prefix)
           ''prefix admite hasta 4 caracteres alfanumericos'')) (\<lambda>_.
         io_bind (io_lift (reject_unless (\<not> (rr_from_number req < 1 \<or> rr_to_number req < rr_from_number req))
           ''El rango debe cumplir 1 <= from_number <= to_number'')) (\<lambda>_.
         io_bind (io_lift (reject_unless (\<not> rr_valid_date_from req \<ge> rr_valid_date_to req)
           ''valid_date_from debe ser anterior a valid_date_to'')) (\<lambda>_.
         io_bind (io_lift (reject_unless (\<not> (ty = Invoice \<and> technical_key = []))
           ''Las facturas requieren la technical_key de la resolucion'')) (\<lambda>_.
         io_bind (io_lift (reject_unless (\<not> length technical_key > 255) ''technical_key es demasiado larga'')) (\<lambda>_.
         io_bind (io_lift (initial_counter req)) (\<lambda>counter w.
           case new_uuid w of (i, w1) \<Rightarrow>
           let r = \<lparr>r_id = i, r_tenant_id = tenant, r_document_type = ty, r_prefix = prefix,
                    r_from_number = rr_from_number req, r_to_number = rr_to_number req,
                    r_technical_key = technical_key, r_valid_date_from = rr_valid_date_from req,
                    r_valid_date_to = rr_valid_date_to req, r_current_counter = counter\<rparr>
           in io_bind (add_numbering_range R r
                (audit ''numbering_range.created'' (Some tenant) (Some i)
                   [(''document_type'', J_str (document_type_as_str ty)), (''from_number'', J_int (r_from_number r)),
                    (''prefix'', J_str prefix), (''to_number'', J_int (r_to_number r))]))
              (\<lambda>_. io_return r) w1)))))))))"

section \<open>The error queue\<close>

text \<open>\<open>i64::clamp\<close>.\<close>

definition clamp_limit :: "int \<Rightarrow> int" where
  "clamp_limit limit = max 1 (min max_list_limit limit)"

definition admin_dead_jobs :: "'w admin_repository \<Rightarrow> int \<Rightarrow> ('w, dead_job list) io" where
  "admin_dead_jobs R limit = list_dead_jobs R (clamp_limit limit)"

definition admin_retry_dead_job :: "'w admin_repository \<Rightarrow> uuid \<Rightarrow> ('w, unit) io" where
  "admin_retry_dead_job R job =
     found_or (''Trabajo muerto '' @ uuid_string job @ '' no encontrado'')
       (retry_dead_job R job (audit ''job.retried'' None (Some job) []))"

definition admin_dead_deliveries :: "'w admin_repository \<Rightarrow> int \<Rightarrow> ('w, dead_delivery list) io" where
  "admin_dead_deliveries R limit = list_dead_deliveries R (clamp_limit limit)"

definition admin_retry_dead_delivery :: "'w admin_repository \<Rightarrow> uuid \<Rightarrow> ('w, unit) io" where
  "admin_retry_dead_delivery R delivery =
     found_or (''Entrega muerta '' @ uuid_string delivery @ '' no encontrada'')
       (retry_dead_delivery R delivery (audit ''webhook_delivery.retried'' None (Some delivery) []))"

section \<open>Facts\<close>

lemma reject_unless_Inr [simp]: "reject_unless ok m = Inr u \<longleftrightarrow> ok"
  by (simp add: reject_unless_def)

lemma io_lift_bind: "io_bind (io_lift r) k w = (case r of Inl e \<Rightarrow> (Inl e, w) | Inr a \<Rightarrow> k a w)"
  by (simp add: io_bind_def)

lemma io_lift_bind_cases:
  assumes "io_bind (io_lift q) k w = (r, v)"
  obtains (err) e where "q = Inl e" and "r = Inl e" and "v = w"
    | (ok) a where "q = Inr a" and "k a w = (r, v)"
  using assms by (auto simp: io_lift_bind split: sum.splits)

lemma checked_text_Inr:
  "checked_text field v most = Inr t \<longleftrightarrow> t = trim v \<and> t \<noteq> [] \<and> length (utf8_chars t) \<le> most"
  by (auto simp: checked_text_def Let_def)

lemma clamp_limit_bounds: "1 \<le> clamp_limit n \<and> clamp_limit n \<le> 200"
  by (simp add: clamp_limit_def max_list_limit_def)

text \<open>A path of the vault: no segment climbs up, none is empty.\<close>

lemma slash_no_path_char: "\<not> path_char CHR ''/''"
  by code_simp

lemma vault_path_segments:
  assumes "valid_vault_path p" "s \<in> set (split_char CHR ''/'' p)"
  shows "s \<noteq> [] \<and> s \<noteq> ''..'' \<and> CHR ''/'' \<notin> set s"
proof -
  from assms have "valid_segment s" by (simp add: valid_vault_path_def list_all_iff)
  then show ?thesis using slash_no_path_char by (auto simp: valid_segment_def list_all_iff)
qed

text \<open>A range that passes the validation satisfies what the numbering relies on.\<close>

lemma initial_counter_ok:
  assumes "initial_counter req = Inr n" "1 \<le> rr_from_number req" "rr_from_number req \<le> rr_to_number req"
    and "rr_to_number req \<le> i32_max"
  shows "0 \<le> n \<and> n \<le> rr_to_number req \<and>
    (case rr_last_issued_number req of None \<Rightarrow> n = 0 | Some m \<Rightarrow> n = m \<and> rr_from_number req - 1 \<le> m)"
proof -
  have "i32_wrap (rr_from_number req - 1) = rr_from_number req - 1"
    using assms(2-4) by (intro i32_wrap_id) (auto simp: is_i32_def i32_min_def i32_max_def)
  with assms show ?thesis by (auto simp: initial_counter_def split: option.splits if_splits)
qed

lemma io_bind_Inr_iff:
  "io_bind m k w = (Inr b, v) \<longleftrightarrow> (\<exists>a u. m w = (Inr a, u) \<and> k a u = (Inr b, v))"
  by (auto simp: io_bind_def split: prod.splits sum.splits)

lemma io_lift_Inr_iff: "io_lift q w = (Inr b, v) \<longleftrightarrow> q = Inr b \<and> v = w"
  by auto

lemma io_return_Inr_iff: "io_return a w = (Inr b, v) \<longleftrightarrow> b = a \<and> v = w"
  by auto

lemma admin_tenant_Inr_iff: "admin_tenant R i w = (Inr t, v) \<longleftrightarrow> find_tenant R i w = (Inr (Some t), v)"
  by (auto simp: admin_tenant_def io_bind_Inr_iff ok_or_Inr_iff)

lemmas admin_steps = io_lift_Inr_iff io_return_Inr_iff io_bind_Inr_iff admin_tenant_Inr_iff reject_unless_Inr

lemma register_range_cases:
  assumes "admin_register_range R tenant req w = (Inr r, w')"
  obtains t w1 e where "find_tenant R tenant w = (Inr (Some t), w1)"
    and "add_numbering_range R r e (w1\<lparr>next_uuid := next_uuid w1 + 1\<rparr>) = (Inr (), w')"
    and "r_id r = next_uuid w1" "r_tenant_id r = tenant"
    and "document_type_as_str (r_document_type r) = rr_document_type req" "r_prefix r = trim (rr_prefix req)"
    and "valid_range_prefix (r_prefix r)" "r_from_number r = rr_from_number req" "r_to_number r = rr_to_number req"
    and "1 \<le> r_from_number r" "r_from_number r \<le> r_to_number r" "r_valid_date_from r < r_valid_date_to r"
    and "r_document_type r = Invoice \<longrightarrow> r_technical_key r \<noteq> []"
    and "initial_counter req = Inr (r_current_counter r)"
proof -
  from assms have "\<exists>t w1 ty counter e. find_tenant R tenant w = (Inr (Some t), w1) \<and>
      document_type_from_str (rr_document_type req) = Inr ty \<and> valid_range_prefix (trim (rr_prefix req)) \<and>
      \<not> (rr_from_number req < 1 \<or> rr_to_number req < rr_from_number req) \<and>
      \<not> rr_valid_date_to req \<le> rr_valid_date_from req \<and> \<not> (ty = Invoice \<and> trim (rr_technical_key req) = []) \<and>
      initial_counter req = Inr counter \<and>
      r = \<lparr>r_id = next_uuid w1, r_tenant_id = tenant, r_document_type = ty, r_prefix = trim (rr_prefix req),
       r_from_number = rr_from_number req, r_to_number = rr_to_number req,
       r_technical_key = trim (rr_technical_key req), r_valid_date_from = rr_valid_date_from req,
       r_valid_date_to = rr_valid_date_to req, r_current_counter = counter\<rparr> \<and>
      add_numbering_range R r e (w1\<lparr>next_uuid := next_uuid w1 + 1\<rparr>) = (Inr (), w')"
    unfolding admin_register_range_def Let_def new_uuid_def
    by (simp only: admin_steps map_err_Inr_iff prod.case) (elim exE conjE, simp, blast)
  then show ?thesis by (elim exE conjE) (rule that, auto simp: document_types.from_str_iff)
qed

lemma create_api_key_cases:
  assumes "admin_create_api_key sha256 R tenant name w = (Inr k, w')"
  obtains t w1 e w2 secret where "find_tenant R tenant w = (Inr (Some t), w1)"
    and "random_hex w1 = (secret, w2)" "ik_secret k = key_prefix @ secret"
    and "create_api_key R
      \<lparr>k_id = ik_id k, k_tenant_id = tenant, k_name = ik_name k, k_prefix = take visible_prefix_len (ik_secret k),
       k_key_hash = key_hash sha256 (ik_secret k), k_created_at = clock w2, k_revoked_at = None\<rparr> e
      (w2\<lparr>next_uuid := next_uuid w2 + 1\<rparr>) = (Inr (), w')"
    and "ik_id k = next_uuid w2" "ik_prefix k = take visible_prefix_len (ik_secret k)"
proof -
  obtain t w1 n where 1: "find_tenant R tenant w = (Inr (Some t), w1)"
    and fresh: "store_fresh_key sha256 R tenant n w1 = (Inr k, w')"
    using assms unfolding admin_create_api_key_def by (auto simp: admin_steps)
  obtain secret w2 where 2: "random_hex w1 = (secret, w2)" by force
  have "create_api_key R
        \<lparr>k_id = next_uuid w2, k_tenant_id = tenant, k_name = n, k_prefix = take visible_prefix_len (key_prefix @ secret),
         k_key_hash = key_hash sha256 (key_prefix @ secret), k_created_at = clock w2, k_revoked_at = None\<rparr>
        (audit ''api_key.created'' (Some tenant) (Some (next_uuid w2))
          [(''name'', J_str n), (''prefix'', J_str (take visible_prefix_len (key_prefix @ secret)))])
      (w2\<lparr>next_uuid := next_uuid w2 + 1\<rparr>) = (Inr (), w') \<and>
    k = \<lparr>ik_id = next_uuid w2, ik_name = n, ik_prefix = take visible_prefix_len (key_prefix @ secret),
         ik_secret = key_prefix @ secret\<rparr>"
    using fresh unfolding store_fresh_key_def new_uuid_def Let_def 2 prod.case by (auto simp: admin_steps)
  then show ?thesis by (intro that[OF 1 2]) auto
qed

lemma register_certificate_cases:
  assumes "admin_register_certificate f R tenant req w = (Inr c, w')"
  obtains t w1 e where "find_tenant R tenant w = (Inr (Some t), w1)"
    and "activate_certificate R c e (w1\<lparr>next_uuid := next_uuid w1 + 1\<rparr>) = (Inr (), w')"
    and "c_id c = next_uuid w1" "c_tenant_id c = tenant" "c_status c = C_Active"
    and "valid_vault_path (c_vault_reference_path c)" "clock w1 < c_expiration_date c"
proof -
  from assms have "\<exists>t w1 t2 e. find_tenant R tenant w = (Inr (Some t), w1) \<and>
      valid_vault_path (trim (cr_vault_reference_path req)) \<and> \<not> cr_expiration_date req \<le> clock w1 \<and>
      c = \<lparr>c_id = next_uuid w1, c_tenant_id = tenant, c_vault_reference_path = trim (cr_vault_reference_path req),
       c_thumbprint = t2, c_expiration_date = cr_expiration_date req, c_status = C_Active\<rparr> \<and>
      activate_certificate R c e (w1\<lparr>next_uuid := next_uuid w1 + 1\<rparr>) = (Inr (), w')"
    unfolding admin_register_certificate_def Let_def new_uuid_def
    by (simp only: admin_steps prod.case) (elim exE conjE, simp, blast)
  then show ?thesis by (elim exE conjE) (rule that, auto)
qed

end
