(* ===== verification/Admin_Properties.thy ===== *)
theory Admin_Properties
  imports Admin_Service Examples
begin

text \<open>
  What the administration promises, from the request to the rows of the database: the use cases of
  \<open>admin.rs\<close> over the PostgreSQL store.
\<close>

section \<open>The transactions of the administration\<close>

lemma find_tenant_solo:
  assumes "peers w = []" "find_tenant pg_admin i w = (r, v)"
  shows "db v = db w" "peers v = []" "clock v = clock w"
    "\<forall>t. r = Inr (Some t) \<longrightarrow> find_row (\<lambda>t. t_id t = i) (tenants (db w)) = Some t"
  using query_solo[of w "\<lambda>now s. find_row (\<lambda>t. t_id t = i) (tenants s)" r v] assms
  by (auto simp: pg_admin_def pg_find_tenant_def)

lemma random_hex_frame:
  "random_hex w = (s, v) \<Longrightarrow> db v = db w \<and> peers v = peers w \<and> clock v = clock w \<and> faults v = faults w"
proof -
  have "db v = db w \<and> peers v = peers w \<and> clock v = clock w \<and> faults v = faults w" if "draws n w = (es, v)" for n es v w
    using that
  proof (induction n arbitrary: w es v)
    case (Suc n)
    then show ?case
      by (fastforce simp: draw_def Let_def split: prod.splits list.splits)
  qed simp
  then show "random_hex w = (s, v) \<Longrightarrow> db v = db w \<and> peers v = peers w \<and> clock v = clock w \<and> faults v = faults w"
    by (auto simp: random_hex_def split: prod.splits)
qed

lemma add_range_tx_effect:
  "add_range_tx r e now i s = Inr (u, n, t) \<Longrightarrow>
     ranges t = ranges s @ [r] \<and> \<not> list_ex (overlaps r) (ranges s) \<and> r_id r \<notin> r_id ` set (ranges s) \<and>
     audit_log t = audit_log s @ [\<lparr>ar_id = i, ar_entry = e, ar_created_at = now\<rparr>]"
  by (auto simp: add_range_tx_def insert_audit_def bind_simps put_Inr split: if_splits)

lemma create_api_key_tx_effect:
  "create_api_key_tx k e now i s = Inr (u, n, t) \<Longrightarrow>
     api_keys t = api_keys s @ [k\<lparr>k_revoked_at := None\<rparr>] \<and> tenants t = tenants s \<and>
     unique_on k_key_hash (api_keys t) \<and> k_tenant_id k \<in> t_id ` set (tenants s) \<and>
     audit_log t = audit_log s @ [\<lparr>ar_id = i, ar_entry = e, ar_created_at = now\<rparr>]"
  by (auto simp: create_api_key_tx_def insert_audit_def bind_simps put_Inr references_def)

lemma revoke_api_key_tx_effect:
  "revoke_api_key_tx tenant key e now i s = Inr (True, n, t) \<Longrightarrow>
     api_keys t = update_rows (\<lambda>x. k_id x = key \<and> k_tenant_id x = tenant \<and> k_revoked_at x = None)
       (\<lambda>x. x\<lparr>k_revoked_at := Some now\<rparr>) (api_keys s) \<and>
     audit_log t = audit_log s @ [\<lparr>ar_id = i, ar_entry = e, ar_created_at = now\<rparr>]"
  by (auto simp: revoke_api_key_tx_def insert_audit_def bind_simps put_Inr Let_def split: if_splits)

lemma activate_certificate_tx_effect:
  "activate_certificate_tx c e now i s = Inr (u, n, t) \<Longrightarrow>
     certificates t = update_rows (\<lambda>x. c_tenant_id x = c_tenant_id c \<and> c_status x = C_Active)
       (\<lambda>x. x\<lparr>c_status := C_Revoked\<rparr>) (certificates s) @ [c] \<and>
     audit_log t = audit_log s @ [\<lparr>ar_id = i, ar_entry = e, ar_created_at = now\<rparr>]"
  by (auto simp: activate_certificate_tx_def insert_audit_def bind_simps put_Inr)

section \<open>Numbering ranges\<close>

text \<open>
  C26. A registered range can be used. When the administrator is told that a range was registered, the
  database has it, it overlaps in time with no range of the same tenant, type and prefix, it satisfies
  what the numbering relies on (\<open>range_ok\<close>), and its first number is the first of the range, or the one
  after the last number that was issued elsewhere.
\<close>

theorem registered_range_is_usable:
  assumes "peers w = []" "admin_register_range pg_admin tenant req w = (Inr r, w')"
    and "is_i32 (rr_to_number req)"
  shows "ranges (db w') = ranges (db w) @ [r] \<and> range_ok r \<and> r_tenant_id r = tenant \<and>
    (\<forall>q \<in> set (ranges (db w)). \<not> overlaps r q) \<and> r_valid_date_from r < r_valid_date_to r \<and>
    (case rr_last_issued_number req of
       None \<Rightarrow> next_consecutive r = rr_from_number req
     | Some m \<Rightarrow> m < i32_max \<longrightarrow> next_consecutive r = m + 1)"
  using assms(2)
proof (rule register_range_cases)
  fix t e and w1 :: "pg world"
  assume t: "find_tenant pg_admin tenant w = (Inr (Some t), w1)"
    and add: "add_numbering_range pg_admin r e (w1\<lparr>next_uuid := next_uuid w1 + 1\<rparr>) = (Inr (), w')"
    and r: "r_id r = next_uuid w1" "r_tenant_id r = tenant" "r_from_number r = rr_from_number req"
      "r_to_number r = rr_to_number req" "1 \<le> r_from_number r" "r_from_number r \<le> r_to_number r"
      "r_valid_date_from r < r_valid_date_to r" "initial_counter req = Inr (r_current_counter r)"
  note t = find_tenant_solo[OF assms(1) t]
  from add have "tx_ids (add_range_tx r e) (w1\<lparr>next_uuid := next_uuid w1 + 1\<rparr>) = (Inr (), w')"
    by (simp add: pg_admin_def pg_add_numbering_range_def)
  from tx_ids_solo(3)[OF _ this] t obtain a n where
    "add_range_tx r e (clock w1) (next_uuid w1 + 1) (db w) = Inr (a, n, db w')"
    by (auto simp: db_unavailable_def)
  note eff = add_range_tx_effect[OF this]
  have top: "r_to_number r \<le> i32_max" using assms(3) r(4) by (simp add: is_i32_def)
  have c: "0 \<le> r_current_counter r \<and> r_current_counter r \<le> r_to_number r \<and>
      (case rr_last_issued_number req of None \<Rightarrow> r_current_counter r = 0
        | Some m \<Rightarrow> r_current_counter r = m \<and> r_from_number r - 1 \<le> m)"
    using initial_counter_ok[OF r(8)] r top by (simp split: option.splits)
  then have "range_ok r" using r top by (simp add: range_ok_def)
  moreover have "case rr_last_issued_number req of None \<Rightarrow> next_consecutive r = rr_from_number req
     | Some m \<Rightarrow> m < i32_max \<longrightarrow> next_consecutive r = m + 1"
  proof (cases "rr_last_issued_number req")
    case None
    with c r top show ?thesis by (simp add: next_consecutive_exact i32_max_def)
  next
    case (Some m)
    with c r top show ?thesis by (auto simp: next_consecutive_exact)
  qed
  ultimately show ?thesis using eff r by (auto simp: list_ex_iff)
qed

definition ex_range_request :: register_range_request where
  "ex_range_request = \<lparr>rr_document_type = ''invoice'', rr_prefix = ''FE'', rr_from_number = 100,
     rr_to_number = 200, rr_technical_key = ''tk'', rr_valid_date_from = 3000, rr_valid_date_to = 4000,
     rr_last_issued_number = Some 120\<rparr>"

theorem registered_range_is_usable_witness:
  "\<exists>r w. admin_register_range pg_admin 1 ex_range_request (sys_world ex_pending) = (Inr r, w) \<and>
     range_ok r \<and> next_consecutive r = 121"
proof -
  let ?w = "sys_world ex_pending"
  have alone: "alone ?w" by (simp add: alone_def ex_pending_def ex_world_def ex_start_def)
  have trims: "trim ''FE'' = ''FE''" "trim ''tk'' = ''tk''"
    by (rule trim_plain; auto simp: byte_def)+
  have prefix: "valid_range_prefix ''FE''"
    by (simp add: valid_range_prefix_def is_ascii_alphanumeric_def is_ascii_alphabetic_def byte_def)
  have ty: "document_type_from_str ''invoice'' = Inr Invoice"
    using document_types.from_as[of Invoice] by simp
  note texts = trims prefix ty
  have counter: "initial_counter ex_range_request = Inr 120"
    by (simp add: initial_counter_def ex_range_request_def i32_wrap_def)
  have "admin_tenant pg_admin 1 ?w = (Inr ex_tenant_row, ?w)"
    using alone by (simp add: admin_tenant_def pg_admin_def pg_find_tenant_def query_alone io_bind_def)
      (simp add: ex_pending_def ex_world_def ex_db_def ex_tenant_row_def tenant_row_def ex_tenant_def)
  then have "\<exists>r w. admin_register_range pg_admin 1 ex_range_request ?w = (Inr r, w)"
    using alone
    by (simp add: admin_register_range_def Let_def io_bind_def ex_range_request_def texts counter[unfolded ex_range_request_def]
        reject_unless_def new_uuid_def pg_admin_def pg_add_numbering_range_def tx_ids_alone alone_def add_range_tx_def
        insert_audit_def)
      (simp add: ex_pending_def ex_world_def ex_start_def ex_db_def ex_tenant_row_def tenant_row_def ex_tenant_def
        ex_range_row_def ex_range_def overlaps_def put_defs constrained_def range_check_def references_def unique_on_def)
  then obtain r w where run: "admin_register_range pg_admin 1 ex_range_request ?w = (Inr r, w)" by blast
  have "peers ?w = []" "is_i32 (rr_to_number ex_range_request)"
    by (simp_all add: ex_pending_def ex_world_def ex_start_def ex_range_request_def is_i32_def i32_min_def i32_max_def)
  from registered_range_is_usable[OF this(1) run this(2)] run show ?thesis
    by (auto simp: ex_range_request_def i32_max_def)
qed

section \<open>API keys\<close>

text \<open>The lookup of a key on a store without peers and faults.\<close>

lemma find_key_alone:
  "alone w \<Longrightarrow> pg_find_by_api_key_hash h w =
     (Inr (Option.bind (find_row (\<lambda>k. k_key_hash k = h \<and> k_revoked_at k = None) (api_keys (db w)))
        (\<lambda>k. find_row (\<lambda>t. t_id t = k_tenant_id k) (tenants (db w)))), w)"
  by (simp add: pg_find_by_api_key_hash_def query_alone)


text \<open>On the example: the lookup of the tenant, and a key of zeros.\<close>

lemma ex_alone: "alone (sys_world ex_pending)"
  by (simp add: alone_def ex_pending_def ex_world_def ex_start_def)

lemma ex_find_tenant: "admin_tenant pg_admin 1 (sys_world ex_pending) = (Inr ex_tenant_row, sys_world ex_pending)"
  using ex_alone by (simp add: admin_tenant_def pg_admin_def pg_find_tenant_def query_alone io_bind_def)
    (simp add: ex_pending_def ex_world_def ex_db_def ex_tenant_row_def tenant_row_def ex_tenant_def)

definition ex_digest :: digest where "ex_digest s = map (\<lambda>c. of_nat (byte c)) (take 32 s)"

definition ex_key_row :: api_key_record where
  "ex_key_row = \<lparr>k_id = 22, k_tenant_id = 1, k_name = ''ERP'',
     k_prefix = take visible_prefix_len (key_prefix @ fst (random_hex (sys_world ex_pending))),
     k_key_hash = key_hash ex_digest (key_prefix @ fst (random_hex (sys_world ex_pending))),
     k_created_at = ex_now, k_revoked_at = None\<rparr>"

lemma ex_random: "random_hex (sys_world ex_pending) = (fst (random_hex (sys_world ex_pending)), sys_world ex_pending)"
proof -
  have "draws n (sys_world ex_pending) = (replicate n 0, sys_world ex_pending)" for n
    by (induction n) (simp_all add: draw_def ex_pending_def ex_world_def ex_start_def)
  then show ?thesis by (simp add: random_hex_def)
qed

definition ex_secret :: string where "ex_secret = fst (random_hex (sys_world ex_pending))"

lemma ex_random': "random_hex (sys_world ex_pending) = (ex_secret, sys_world ex_pending)"
  unfolding ex_secret_def by (rule ex_random)

lemma ex_store_key:
  "\<exists>k w. store_fresh_key ex_digest pg_admin 1 ''ERP'' (sys_world ex_pending) = (Inr k, w) \<and>
     ik_id k = 22 \<and> alone w \<and> api_keys (db w) = [ex_key_row] \<and> tenants (db w) = [ex_tenant_row] \<and>
     map ar_id (audit_log (db w)) = [20, 21, 23]"
proof -
  have w: "next_uuid (sys_world ex_pending) = 22" "clock (sys_world ex_pending) = ex_now"
    "api_keys (db (sys_world ex_pending)) = []" "t_id ex_tenant_row = 1"
    "tenants (db (sys_world ex_pending)) = [ex_tenant_row]"
    "map ar_id (audit_log (db (sys_world ex_pending))) = [20, 21]" 
    by (simp_all add: ex_pending_def ex_world_def ex_start_def ex_db_def pg_empty_def ex_tenant_row_def
        tenant_row_def ex_tenant_def)
  then have ids: "ar_id ` set (audit_log (db (sys_world ex_pending))) = {20, 21}"
    by (metis list.set_map list.simps(15) empty_set)
  show ?thesis
    using ex_alone w ids
    unfolding store_fresh_key_def ex_random' prod.case new_uuid_def Let_def io_bind_def pg_admin_def
    by (simp add: pg_create_api_key_def tx_ids_alone alone_def create_api_key_tx_def ex_key_row_def ex_random'
        put_defs constrained_def references_def unique_on_def insert_audit_def)
qed

lemma ex_key_created:
  "\<exists>k w. admin_create_api_key ex_digest pg_admin 1 ''ERP'' (sys_world ex_pending) = (Inr k, w) \<and>
     ik_id k = 22 \<and> alone w \<and> api_keys (db w) = [ex_key_row] \<and> tenants (db w) = [ex_tenant_row] \<and>
     map ar_id (audit_log (db w)) = [20, 21, 23]"
proof -
  have "trim ''ERP'' = ''ERP''" by (rule trim_plain) (auto simp: byte_def)
  moreover have "utf8_chars ''ERP'' = [''E'', ''R'', ''P'']" by (simp add: is_continuation_def byte_def)
  ultimately have name: "checked_text ''name'' ''ERP'' 100 = Inr ''ERP''" by (simp add: checked_text_def)
  have "admin_create_api_key ex_digest pg_admin 1 ''ERP'' (sys_world ex_pending) =
      store_fresh_key ex_digest pg_admin 1 ''ERP'' (sys_world ex_pending)"
    unfolding admin_create_api_key_def by (subst io_bind_def) (simp only: ex_find_tenant prod.case sum.case io_lift_bind name)
  then show ?thesis using ex_store_key by simp
qed

lemma ex_key_revoked:
  assumes "alone w" "api_keys (db w) = [ex_key_row]" "tenants (db w) = [ex_tenant_row]"
    "map ar_id (audit_log (db w)) = [20, 21, 23]"
  shows "\<exists>v. admin_revoke_api_key pg_admin 1 22 (w\<lparr>next_uuid := 100\<rparr>) = (Inr (), v) \<and> alone v"
proof -
  have "t_id ex_tenant_row = 1" by (simp add: ex_tenant_row_def tenant_row_def ex_tenant_def)
  moreover have "ar_id ` set (audit_log (db w)) = {20, 21, 23}" "distinct (map ar_id (audit_log (db w)))"
    unfolding set_map[symmetric] assms(4) by simp_all
  ultimately show ?thesis using assms
    unfolding admin_revoke_api_key_def found_or_def io_bind_def pg_admin_def
    by (simp add: pg_revoke_api_key_def tx_ids_alone alone_def revoke_api_key_tx_def ex_key_row_def put_defs
        constrained_def references_def unique_on_def insert_audit_def update_rows_def)
qed


section \<open>Certificates\<close>

text \<open>
  A tenant signs with the certificate registered last. When the administrator is told that a
  certificate was registered, it was not expired, its path of the vault cannot leave the mount, every
  certificate the tenant had is revoked or replaced, the certificates of the other tenants are as
  before, and the lookup of the active certificate answers the new one.
\<close>

theorem registered_certificate_signs:
  assumes "alone w" "admin_register_certificate rfc3339 pg_admin tenant req w = (Inr c, w')"
    and "alone v" "db v = db w'"
  shows "clock w < c_expiration_date c \<and>
    (\<forall>s \<in> set (split_char CHR ''/'' (c_vault_reference_path c)). s \<noteq> [] \<and> s \<noteq> ''..'') \<and>
    filter (\<lambda>x. c_tenant_id x = tenant \<and> c_status x = C_Active) (certificates (db w')) = [c] \<and>
    filter (\<lambda>x. c_tenant_id x \<noteq> tenant) (certificates (db w')) =
      filter (\<lambda>x. c_tenant_id x \<noteq> tenant) (certificates (db w)) \<and>
    pg_find_active_certificate tenant v = (Inr (Some c), v)"
  using assms(2)
proof (rule register_certificate_cases)
  fix t e and w1 :: "pg world"
  assume t: "find_tenant pg_admin tenant w = (Inr (Some t), w1)"
    and act: "activate_certificate pg_admin c e (w1\<lparr>next_uuid := next_uuid w1 + 1\<rparr>) = (Inr (), w')"
    and c: "c_tenant_id c = tenant" "c_status c = C_Active" "valid_vault_path (c_vault_reference_path c)"
      "clock w1 < c_expiration_date c"
  have p: "peers w = []" using assms(1) by (simp add: alone_def)
  note t = find_tenant_solo[OF p t]
  from act have tx: "tx_ids (activate_certificate_tx c e) (w1\<lparr>next_uuid := next_uuid w1 + 1\<rparr>) = (Inr (), w')"
    by (simp add: pg_admin_def pg_activate_certificate_def)
  obtain a n where "activate_certificate_tx c e (clock w1) (next_uuid w1 + 1) (db w) = Inr (a, n, db w')"
    using tx_ids_solo(3)[OF _ tx] t by (auto simp: db_unavailable_def)
  note eff = activate_certificate_tx_effect[OF this, THEN conjunct1]
  let ?mine = "\<lambda>x. c_tenant_id x = tenant \<and> c_status x = C_Active"
  have mine: "filter ?mine (certificates (db w')) = [c]"
    unfolding eff using c by (auto simp: update_rows_def filter_empty_conv)
  have "filter (\<lambda>x. c_tenant_id x \<noteq> tenant) (update_rows ?mine (\<lambda>x. x\<lparr>c_status := C_Revoked\<rparr>) cs) =
      filter (\<lambda>x. c_tenant_id x \<noteq> tenant) cs" for cs
    by (induction cs) (auto simp: update_rows_def)
  then have others: "filter (\<lambda>x. c_tenant_id x \<noteq> tenant) (certificates (db w')) =
      filter (\<lambda>x. c_tenant_id x \<noteq> tenant) (certificates (db w))"
    unfolding eff using c by simp
  have "pg_find_active_certificate tenant v = (Inr (Some c), v)"
    using assms(3,4) mine by (simp add: pg_find_active_certificate_def query_alone order_by_def)
  with mine others c t vault_path_segments[OF c(3)] show ?thesis by simp
qed

definition ex_certificate_request :: register_certificate_request where
  "ex_certificate_request = \<lparr>cr_vault_reference_path = ''dian/cert'', cr_thumbprint = ''AB'', cr_expiration_date = 90000\<rparr>"

lemma ex_vault_path: "valid_vault_path ''dian/cert''"
proof -
  have "split_char CHR ''/'' ''dian/cert'' = [''dian'', ''cert'']" by simp
  moreover have "list_all path_char ''diancert''" by code_simp
  ultimately show ?thesis by (simp add: valid_vault_path_def valid_segment_def)
qed

theorem registered_certificate_signs_witness:
  "\<exists>c w. admin_register_certificate (\<lambda>_. ''2026'') pg_admin 1 ex_certificate_request (sys_world ex_pending) = (Inr c, w) \<and>
     pg_find_active_certificate 1 w = (Inr (Some c), w)"
proof -
  let ?w = "sys_world ex_pending"
  have trims: "trim ''dian/cert'' = ''dian/cert''" "trim ''AB'' = ''AB''"
    by (rule trim_plain; auto simp: byte_def)+
  have "utf8_chars ''AB'' = [''A'', ''B'']" by (simp add: is_continuation_def byte_def)
  with trims have name: "checked_text ''thumbprint'' ''AB'' 255 = Inr ''AB''" by (simp add: checked_text_def)
  have w: "next_uuid ?w = 22" "\<not> 90000 \<le> clock ?w" "t_id ex_tenant_row = 1" "tenants (db ?w) = [ex_tenant_row]"
    "map ar_id (audit_log (db ?w)) = [20, 21]" "certificates (db ?w) = []"
    by (simp_all add: ex_pending_def ex_world_def ex_start_def ex_db_def pg_empty_def ex_tenant_row_def
        tenant_row_def ex_tenant_def ex_now_def)
  moreover have "ar_id ` set (audit_log (db ?w)) = {20, 21}" "distinct (map ar_id (audit_log (db ?w)))"
    unfolding set_map[symmetric] w(5) by simp_all
  ultimately have "\<exists>c w. admin_register_certificate (\<lambda>_. ''2026'') pg_admin 1 ex_certificate_request ?w = (Inr c, w) \<and> alone w"
    using ex_alone
    unfolding admin_register_certificate_def Let_def ex_certificate_request_def register_certificate_request.simps trims
    by (subst io_bind_def, simp only: ex_find_tenant prod.case sum.case io_lift_bind name ex_vault_path
        reject_unless_def if_True new_uuid_def not_False_eq_True)
      (simp add: io_bind_def pg_admin_def pg_activate_certificate_def tx_ids_alone alone_def activate_certificate_tx_def
        put_defs constrained_def certificates_ok_def active_certificates_def references_def unique_on_def insert_audit_def
        update_rows_def)
  then obtain c w where run: "admin_register_certificate (\<lambda>_. ''2026'') pg_admin 1 ex_certificate_request ?w = (Inr c, w)"
    and "alone w" by (elim exE conjE)
  from registered_certificate_signs[OF ex_alone run this(2) refl] run show ?thesis by blast
qed

end
