(* ===== verification/Admin_Audit.thy ===== *)
theory Admin_Audit
  imports Admin_Properties
begin

text \<open>
  The audit log of the administration: every change that is confirmed has left exactly its entry, and
  a request that fails has changed nothing. The proof follows the code: \<open>audits\<close> says it of a
  computation, with one rule for each way the use cases are composed.
\<close>

section \<open>Computations that only read\<close>

definition reads :: "('db world, 'a) io \<Rightarrow> bool" where
  "reads m \<longleftrightarrow> (\<forall>w r v. peers w = [] \<longrightarrow> m w = (r, v) \<longrightarrow> peers v = [] \<and> db v = db w)"

lemma reads_lift [intro, simp]: "reads (io_lift r)"
  by (simp add: reads_def)

lemma reads_tenant [intro, simp]: "reads (admin_tenant pg_admin i)"
  unfolding reads_def
proof (intro allI impI)
  fix w r and v :: "pg world" assume w: "peers w = []" "admin_tenant pg_admin i w = (r, v)"
  obtain q v1 where q: "find_tenant pg_admin i w = (q, v1)" by force
  with w(2) have "v = v1" by (auto simp: admin_tenant_def io_bind_def split: sum.splits)
  with find_tenant_solo[OF w(1) q] show "peers v = [] \<and> db v = db w" by simp
qed

section \<open>Computations that leave one entry\<close>

definition audited :: "audit_entry \<Rightarrow> pg \<Rightarrow> pg \<Rightarrow> bool" where
  "audited e s t \<longleftrightarrow> (\<exists>i now. audit_log t = audit_log s @ [\<lparr>ar_id = i, ar_entry = e, ar_created_at = now\<rparr>])"

text \<open>
  The answer tells the truth: a confirmed change has its entry, a refusal changed nothing. When the
  connection is lost during the commit the answer is \<open>db_unavailable\<close> and either may be the case.
\<close>

definition truthful :: "('a \<Rightarrow> audit_entry \<Rightarrow> bool) \<Rightarrow> 'a result \<Rightarrow> pg \<Rightarrow> pg \<Rightarrow> bool" where
  "truthful P r s t \<longleftrightarrow>
     (case r of Inr a \<Rightarrow> \<exists>e. P a e \<and> audited e s t
      | Inl err \<Rightarrow> t = s \<or> err = db_unavailable \<and> (\<exists>a e. P a e \<and> audited e s t))"

definition audits :: "('a \<Rightarrow> audit_entry \<Rightarrow> bool) \<Rightarrow> (pg world, 'a) io \<Rightarrow> bool" where
  "audits P m \<longleftrightarrow>
     (\<forall>w r v. peers w = [] \<longrightarrow> pg_constraints (db w) \<longrightarrow> m w = (r, v) \<longrightarrow> truthful P r (db w) (db v))"

lemma auditsI:
  "(\<And>w r v. peers w = [] \<Longrightarrow> pg_constraints (db w) \<Longrightarrow> m w = (r, v) \<Longrightarrow> truthful P r (db w) (db v)) \<Longrightarrow> audits P m"
  by (simp add: audits_def)

lemma auditsD:
  "audits P m \<Longrightarrow> peers w = [] \<Longrightarrow> pg_constraints (db w) \<Longrightarrow> m w = (r, v) \<Longrightarrow> truthful P r (db w) (db v)"
  by (simp add: audits_def)

lemma audits_reader: "(\<And>x. audits P (m x)) \<Longrightarrow> audits P (\<lambda>w. m w w)"
  by (simp add: audits_def)

lemma audits_bind:
  assumes "reads m" "\<And>a. audits P (k a)"
  shows "audits P (io_bind m k)"
proof (rule auditsI)
  fix w r v assume w: "peers w = []" "pg_constraints (db w)" "io_bind m k w = (r, v)"
  obtain q u where q: "m w = (q, u)" by force
  have u: "peers u = []" "db u = db w" using assms(1)[unfolded reads_def, rule_format, OF w(1) q] by simp_all
  show "truthful P r (db w) (db v)"
  proof (cases q)
    case (Inl e)
    with w(3) q have "r = Inl e" "v = u" by (simp_all add: io_bind_def)
    with u show ?thesis by (simp add: truthful_def)
  next
    case (Inr a)
    with w(3) q have "k a u = (r, v)" by (simp add: io_bind_def)
    from auditsD[OF assms(2) u(1) _ this] u w(2) show ?thesis by simp
  qed
qed

lemma audits_uuid:
  "(\<And>i. audits P (k i)) \<Longrightarrow> audits P (\<lambda>w. case new_uuid w of (i, v) \<Rightarrow> k i v)"
proof (rule auditsI)
  fix w r v assume k: "\<And>i. audits P (k i)" and w: "peers w = []" "pg_constraints (db w)"
    "(case new_uuid w of (i, v) \<Rightarrow> k i v) = (r, v)"
  then have "k (next_uuid w) (w\<lparr>next_uuid := next_uuid w + 1\<rparr>) = (r, v)" by (simp add: new_uuid_def)
  from auditsD[OF k _ _ this] w show "truthful P r (db w) (db v)" by simp
qed

lemma audits_answer:
  assumes "audits P m" "\<And>a e. P a e \<Longrightarrow> Q (f a) e"
  shows "audits Q (io_bind m (\<lambda>a. io_return (f a)))"
proof (rule auditsI)
  fix w r v assume w: "peers w = []" "pg_constraints (db w)" "io_bind m (\<lambda>a. io_return (f a)) w = (r, v)"
  obtain q u where q: "m w = (q, u)" by force
  then have "truthful P q (db w) (db u)" using assms(1) w by (auto simp: audits_def)
  with w(3) q assms(2) show "truthful Q r (db w) (db v)"
    by (cases q) (auto simp: io_bind_def truthful_def, blast+)
qed

lemma audits_tx:
  assumes "\<And>now i s a n t. pg_constraints s \<Longrightarrow> body now i s = Inr (a, n, t) \<Longrightarrow> \<exists>e. P a e \<and> audited e s t"
  shows "audits P (tx_ids body)"
proof (rule auditsI)
  fix w r v assume w: "peers w = []" "pg_constraints (db w)" "tx_ids body w = (r, v)"
  from tx_ids_solo(3)[OF w(1,3)] show "truthful P r (db w) (db v)"
    using assms[OF w(2)] by (elim disjE exE conjE) (fastforce simp: truthful_def)+
qed

lemma audits_entry:
  assumes "\<And>now i s a n t. body now i s = Inr (a, n, t) \<Longrightarrow> P a e \<and> audited e s t"
  shows "audits P (tx_ids body)"
  using assms by (intro audits_tx) blast

lemma audits_random:
  "(\<And>s. audits P (k s)) \<Longrightarrow> audits P (\<lambda>w. case random_hex w of (s, v) \<Rightarrow> k s v)"
proof (rule auditsI)
  fix w r v assume k: "\<And>s. audits P (k s)" and w: "peers w = []" "pg_constraints (db w)"
    "(case random_hex w of (s, v) \<Rightarrow> k s v) = (r, v)"
  obtain s u where s: "random_hex w = (s, u)" by force
  with w(3) have "k s u = (r, v)" by simp
  from auditsD[OF k _ _ this] w random_hex_frame[OF s] show "truthful P r (db w) (db v)" by simp
qed

text \<open>A change by identifier: \<open>Ok(true)\<close> has its entry, \<open>Ok(false)\<close> changed nothing and becomes \<open>NotFound\<close>.\<close>

lemma audits_found:
  assumes "P () e" "\<And>now i s n t. body now i s = Inr (True, n, t) \<Longrightarrow> audited e s t"
    and "\<And>now i s n t. pg_constraints s \<Longrightarrow> body now i s = Inr (False, n, t) \<Longrightarrow> t = s"
  shows "audits P (found_or msg (tx_ids body))"
proof (rule auditsI)
  fix w r v assume w: "peers w = []" "pg_constraints (db w)" "found_or msg (tx_ids body) w = (r, v)"
  obtain q u where q: "tx_ids body w = (q, u)" by force
  have v: "v = u \<and> r = (case q of Inl e \<Rightarrow> Inl e | Inr found \<Rightarrow> if found then Inr () else Inl (NotFound msg))"
    using w(3) q by (cases q) (auto simp: found_or_def io_bind_def)
  from tx_ids_solo(3)[OF w(1) q] show "truthful P r (db w) (db v)"
  proof (elim disjE exE conjE)
    fix a n assume "body (clock w) (next_uuid w) (db w) = Inr (a, n, db u)" "q = Inr a"
    with assms(1,2) assms(3)[OF w(2)] v show ?thesis by (cases a) (auto simp: truthful_def)
  next
    fix a n assume "body (clock w) (next_uuid w) (db w) = Inr (a, n, db u)" "q = Inl db_unavailable"
    with assms(1,2) assms(3)[OF w(2)] v show ?thesis by (cases a) (auto simp: truthful_def)
  qed (use v in \<open>auto simp: truthful_def\<close>)
qed

section \<open>The transactions and their entries\<close>

definition entry_for :: "string \<Rightarrow> uuid option \<Rightarrow> uuid \<Rightarrow> audit_entry \<Rightarrow> bool" where
  "entry_for action tenant subject e \<longleftrightarrow>
     a_action e = action \<and> a_tenant_id e = tenant \<and> a_subject_id e = Some subject"

lemma entry_for_audit [simp]: "entry_for a t i (audit a t (Some i) d)"
  by (simp add: entry_for_def audit_def)

lemma insert_audit_audited:
  "insert_audit now i e s = Inr t \<Longrightarrow> audited e s t"
  by (auto simp: insert_audit_def map_err_Inr_iff put_Inr audited_def)

lemma create_tenant_tx_audited:
  "create_tenant_tx nt e now i s = Inr (x, n, t) \<Longrightarrow> t_id x = nt_id nt \<and> audited e s t"
  by (auto simp: create_tenant_tx_def bind_simps put_Inr insert_audit_def audited_def tenant_row_def)

lemma create_api_key_tx_audited: "create_api_key_tx k e now i s = Inr (u, n, t) \<Longrightarrow> audited e s t"
  by (auto dest!: create_api_key_tx_effect simp: audited_def)

lemma activate_certificate_tx_audited: "activate_certificate_tx c e now i s = Inr (u, n, t) \<Longrightarrow> audited e s t"
  by (auto dest!: activate_certificate_tx_effect simp: audited_def)

lemma add_range_tx_audited: "add_range_tx r e now i s = Inr (u, n, t) \<Longrightarrow> audited e s t"
  by (auto dest!: add_range_tx_effect simp: audited_def)

lemma unique_filter_length:
  assumes "unique_on f rs" "\<And>x. P x \<Longrightarrow> f x = k"
  shows "length (filter P rs) \<le> 1"
  using assms(1)
proof (induction rs)
  case (Cons r rs)
  then have "filter P rs = []" if "P r"
    using that assms(2) by (auto simp: unique_on_def filter_empty_conv)
  with Cons show ?case by (auto simp: unique_on_def)
qed simp

lemma revoke_api_key_tx_audited:
  "revoke_api_key_tx tenant key e now i s = Inr (True, n, t) \<Longrightarrow> audited e s t"
  by (auto dest!: revoke_api_key_tx_effect simp: audited_def)

lemma revoke_api_key_tx_missed:
  assumes "pg_constraints s" "revoke_api_key_tx tenant key e now i s = Inr (False, n, t)"
  shows "t = s"
proof -
  let ?hit = "\<lambda>k. k_id k = key \<and> k_tenant_id k = tenant \<and> k_revoked_at k = None"
  have "length (filter ?hit (api_keys s)) \<le> 1"
    using assms(1) by (intro unique_filter_length[of k_id]) (auto simp: pg_constraints_def)
  moreover have "length (filter ?hit (api_keys s)) \<noteq> 1"
    using assms(2) by (auto simp: revoke_api_key_tx_def Let_def bind_simps split: if_splits)
  ultimately have "filter ?hit (api_keys s) = []" by (cases "filter ?hit (api_keys s)") auto
  then show ?thesis
    using assms(2) by (auto simp: revoke_api_key_tx_def Let_def bind_simps put_Inr update_rows_none filter_empty_conv split: if_splits)
qed

lemma retry_dead_job_tx_audited:
  "retry_dead_job_tx job e now i s = Inr (True, n, t) \<Longrightarrow> audited e s t"
  by (auto simp: retry_dead_job_tx_def bind_simps put_Inr insert_audit_def audited_def update_jobs_def
      split: option.splits if_splits)

lemma retry_dead_job_tx_missed:
  "retry_dead_job_tx job e now i s = Inr (False, n, t) \<Longrightarrow> t = s"
  by (auto simp: retry_dead_job_tx_def bind_simps split: option.splits if_splits)

lemma retry_dead_delivery_tx_audited:
  "retry_dead_delivery_tx dl e now i s = Inr (True, n, t) \<Longrightarrow> audited e s t"
  by (auto simp: retry_dead_delivery_tx_def bind_simps put_Inr insert_audit_def audited_def update_deliveries_def
      Let_def split: if_splits)

lemma retry_dead_delivery_tx_missed:
  assumes "pg_constraints s" "retry_dead_delivery_tx dl e now i s = Inr (False, n, t)"
  shows "t = s"
proof -
  let ?hit = "\<lambda>d. dl_id d = dl \<and> dl_status d = Del_Dead"
  have "length (filter ?hit (deliveries s)) \<le> 1"
    using assms(1) by (intro unique_filter_length[of dl_id]) (auto simp: pg_constraints_def)
  moreover have "length (filter ?hit (deliveries s)) \<noteq> 1"
    using assms(2) by (auto simp: retry_dead_delivery_tx_def Let_def bind_simps split: if_splits)
  ultimately have "filter ?hit (deliveries s) = []" by (cases "filter ?hit (deliveries s)") auto
  then show ?thesis
    using assms(2) by (auto simp: retry_dead_delivery_tx_def Let_def bind_simps put_Inr update_deliveries_def
        update_rows_none filter_empty_conv split: if_splits)
qed

text \<open>
  C25. Every change of the administration is audited. Whenever a tenant, an API key, a certificate or a
  numbering range is created, a key is revoked, or a dead job or delivery is queued again, and the caller
  is told so, the audit log has grown by exactly one entry, with the name of that action and the
  identifiers of the tenant and of the object; and a request that is refused has changed nothing at all
  (only when the connection is lost during a commit the change, with its entry, may have been made).
\<close>

theorem admin_changes_are_audited:
  "audits (\<lambda>t. entry_for ''tenant.created'' (Some (t_id t)) (t_id t)) (admin_create_tenant pg_admin ct) \<and>
   audits (\<lambda>k. entry_for ''api_key.created'' (Some tenant) (ik_id k)) (admin_create_api_key sha256 pg_admin tenant name) \<and>
   audits (\<lambda>_. entry_for ''api_key.revoked'' (Some tenant) key) (admin_revoke_api_key pg_admin tenant key) \<and>
   audits (\<lambda>c. entry_for ''certificate.activated'' (Some tenant) (c_id c))
     (admin_register_certificate rfc3339 pg_admin tenant rc) \<and>
   audits (\<lambda>r. entry_for ''numbering_range.created'' (Some tenant) (r_id r)) (admin_register_range pg_admin tenant rr) \<and>
   audits (\<lambda>_. entry_for ''job.retried'' None job) (admin_retry_dead_job pg_admin job) \<and>
   audits (\<lambda>_. entry_for ''webhook_delivery.retried'' None dl) (admin_retry_dead_delivery pg_admin dl)"
  (is "?tenant \<and> ?key \<and> ?revoke \<and> ?certificate \<and> ?range \<and> ?job \<and> ?delivery")
proof (intro conjI)
  note ops = pg_admin_def pg_create_tenant_def pg_create_api_key_def pg_revoke_api_key_def pg_activate_certificate_def
    pg_add_numbering_range_def pg_retry_dead_job_def pg_retry_dead_delivery_def
  show ?tenant
    unfolding admin_create_tenant_def Let_def
    by (intro audits_bind audits_uuid reads_lift) 
      (simp add: ops, rule audits_entry, drule create_tenant_tx_audited, auto)
  show ?revoke
    unfolding admin_revoke_api_key_def ops
    by simp (rule audits_found, rule entry_for_audit, auto dest: revoke_api_key_tx_audited revoke_api_key_tx_missed)
  show ?job
    unfolding admin_retry_dead_job_def ops
    by simp (rule audits_found, rule entry_for_audit, auto dest: retry_dead_job_tx_audited retry_dead_job_tx_missed)
  show ?delivery
    unfolding admin_retry_dead_delivery_def ops
    by simp (rule audits_found, rule entry_for_audit, auto dest: retry_dead_delivery_tx_audited retry_dead_delivery_tx_missed)
  show ?key
    unfolding admin_create_api_key_def
  proof (intro audits_bind reads_lift reads_tenant)
    fix n :: string
    have "audits (\<lambda>k. entry_for ''api_key.created'' (Some tenant) (ik_id k)) (\<lambda>w.
      io_bind (create_api_key pg_admin (row (clock w)) (audit ''api_key.created'' (Some tenant) (Some i) d))
        (\<lambda>_. io_return \<lparr>ik_id = i, ik_name = n, ik_prefix = p, ik_secret = key\<rparr>) w)" for row i d p key
      by (rule audits_reader[of _ "\<lambda>x. io_bind (create_api_key pg_admin (row (clock x)) _) _"], rule audits_answer,
          simp add: ops, rule audits_entry, drule create_api_key_tx_audited, rule conjI, rule entry_for_audit, auto)
    then show "audits (\<lambda>k. entry_for ''api_key.created'' (Some tenant) (ik_id k)) (store_fresh_key sha256 pg_admin tenant n)"
      unfolding store_fresh_key_def Let_def by (intro audits_random audits_uuid)
  qed
  show ?certificate
    unfolding admin_register_certificate_def Let_def
    by (intro audits_bind reads_lift reads_tenant,
        rule audits_reader[where m = "\<lambda>x. io_bind (io_lift (reject_unless (\<not> cr_expiration_date rc \<le> clock x) _)) _"],
        rule audits_bind, rule reads_lift, rule audits_uuid, rule audits_bind, rule reads_lift, rule audits_answer)
      (simp add: ops, rule audits_entry, drule activate_certificate_tx_audited, rule conjI, rule entry_for_audit, auto)
  show ?range
    unfolding admin_register_range_def Let_def
    by (intro audits_bind audits_uuid audits_answer reads_lift reads_tenant)
      (simp add: ops, rule audits_entry, drule add_range_tx_audited, rule conjI, rule entry_for_audit, auto)
qed

end
