(* ===== verification/Core_Properties.thy ===== *)
theory Core_Properties
  imports Numbering Resilience Lifecycle
begin

text \<open>
  Properties of the small pure modules: the text forms of the enums, the next number of a resolution,
  the circuit breaker and the backoff.
\<close>

section \<open>Text forms\<close>

text \<open>
  The database and the interface exchange statuses as texts without loss. Every variant of every
  enum is read back from its text, and a text is read as a variant only when it is the text of it:
  nothing else is accepted.
\<close>

theorem text_forms_round_trip:
  "(\<forall>s v. document_type_from_str s = Inr v \<longleftrightarrow> s = document_type_as_str v) \<and>
   (\<forall>s v. document_status_from_str s = Inr v \<longleftrightarrow> s = document_status_as_str v) \<and>
   (\<forall>s v. direction_from_str s = Inr v \<longleftrightarrow> s = direction_as_str v) \<and>
   (\<forall>s v. certificate_status_from_str s = Inr v \<longleftrightarrow> s = certificate_status_as_str v) \<and>
   (\<forall>s v. event_status_from_str s = Inr v \<longleftrightarrow> s = event_status_as_str v) \<and>
   (\<forall>s v. subscription_status_from_str s = Inr v \<longleftrightarrow> s = subscription_status_as_str v) \<and>
   (\<forall>s v. job_kind_from_str s = Inr v \<longleftrightarrow> s = job_kind_as_str v) \<and>
   (\<forall>s v. job_status_from_str s = Inr v \<longleftrightarrow> s = job_status_as_str v)"
  by (intro conjI allI document_types.from_str_iff document_statuses.from_str_iff directions.from_str_iff
      certificate_statuses.from_str_iff event_statuses.from_str_iff subscription_statuses.from_str_iff
      job_kinds.from_str_iff job_statuses.from_str_iff)

section \<open>Numbers\<close>

lemma next_consecutive_cases:
  assumes "range_ok r"
  shows "next_consecutive r =
    (if r_current_counter r = i32_max then i32_min else max (r_current_counter r) (r_from_number r - 1) + 1)"
  using assms next_consecutive_exact[of r] next_consecutive_wraps[of r] by (auto simp: range_ok_def)

text \<open>
  What the next number of a resolution is, in full. It is refused outside the validity of the
  resolution; otherwise it is the one after the counter, but not before the first of the range, and is
  refused beyond the last or when the client asked for another one. The exception is a resolution that
  ends at 2147483647 and is used up: there the addition wraps and the next number is -2147483648, which
  is not beyond the last.
\<close>

theorem next_number_exactly:
  assumes "range_ok r"
  shows "next_number date_naive r requested now = Inr n \<longleftrightarrow>
    r_valid_date_from r \<le> now \<and> now \<le> r_valid_date_to r \<and> (requested = None \<or> requested = Some n) \<and>
    (if r_current_counter r = i32_max then n = i32_min
     else n = max (r_current_counter r) (r_from_number r - 1) + 1 \<and> n \<le> r_to_number r)"
proof -
  have "0 \<le> r_to_number r" using assms by (simp add: range_ok_def)
  then have "i32_min \<le> r_to_number r" by (simp add: i32_min_def)
  then show ?thesis
    using next_consecutive_cases[OF assms]
    by (cases requested) (auto simp: next_number_Inr)
qed

definition ex_full_range :: numbering_range where
  "ex_full_range = \<lparr>r_id = 1, r_tenant_id = 1, r_document_type = SupportDocument, r_prefix = ''DS'',
     r_from_number = 1, r_to_number = i32_max, r_technical_key = [], r_valid_date_from = 0, r_valid_date_to = 10,
     r_current_counter = i32_max\<rparr>"

theorem next_number_exactly_witness:
  "next_number (\<lambda>_. []) ex_full_range None 5 = Inr i32_min \<and>
   next_number (\<lambda>_. []) (ex_full_range\<lparr>r_current_counter := 41\<rparr>) (Some 42) 5 = Inr 42"
proof -
  have "range_ok ex_full_range" "range_ok (ex_full_range\<lparr>r_current_counter := 41\<rparr>)"
    by (simp_all add: range_ok_def ex_full_range_def i32_max_def)
  from this[THEN next_number_exactly] show ?thesis by (simp add: ex_full_range_def i32_max_def)
qed

section \<open>The circuit breaker\<close>

lemma breaker_new_fields [simp]:
  "cb_failure_threshold (breaker_new t c) = t" "cb_cooldown (breaker_new t c) = c"
  by (simp_all add: breaker_new_def)

text \<open>While fewer than \<open>2 ^ 32\<close> events have happened the count of failures does not wrap.\<close>

definition breaker_bound :: "nat \<Rightarrow> circuit_breaker \<Rightarrow> bool" where
  "breaker_bound k b \<longleftrightarrow> cb_failures b \<le> k \<and>
     (cb_state b = Closed \<longrightarrow> cb_failures b < cb_failure_threshold b) \<and>
     (cb_state b \<noteq> Closed \<longrightarrow> cb_failure_threshold b \<le> cb_failures b)"

lemma breaker_step_bound:
  assumes "breaker_bound k b" "k + 1 < 2 ^ 32" "0 < cb_failure_threshold b"
  shows "breaker_bound (k + 1) (breaker_step e b)"
  using assms
  by (induction e b rule: breaker_step.induct)
    (auto simp: breaker_bound_def can_execute_def record_success_def record_failure_def Let_def
      split: breaker_state.splits)

lemma breaker_run_bound:
  assumes "breaker_bound k b" "k + length es < 2 ^ 32" "0 < cb_failure_threshold b"
  shows "breaker_bound (k + length es) (breaker_run es b)"
  using assms
proof (induction es arbitrary: k b)
  case (Cons e es)
  from Cons.prems have "breaker_bound (k + 1) (breaker_step e b)" by (intro breaker_step_bound) auto
  from Cons.IH[OF this] Cons.prems show ?case by simp
qed simp

lemma breaker_run_append: "breaker_run (es @ fs) b = breaker_run fs (breaker_run es b)"
  by (induction es arbitrary: b) auto

text \<open>The failures of a run with no success in between are counted, and open the breaker.\<close>

lemma failures_counted:
  assumes "breaker_bound k b" "k + length ts < 2 ^ 32" "ts \<noteq> []"
    and "cb_failure_threshold b \<le> cb_failures b + length ts"
  shows "cb_state (breaker_run (map (\<lambda>t. (t, Failure)) ts) b) = Open (last ts)"
  using assms
proof (induction ts arbitrary: k b)
  case (Cons t ts)
  have n: "(cb_failures b + 1) mod 2 ^ 32 = cb_failures b + 1"
    using Cons.prems(1,2) by (simp add: breaker_bound_def)
  show ?case
  proof (cases "ts = []")
    case True
    with Cons.prems n show ?thesis by (auto simp: record_failure_def Let_def)
  next
    case False
    have "breaker_bound (k + 1) (record_failure t b)" "cb_failures (record_failure t b) = cb_failures b + 1"
      "cb_failure_threshold (record_failure t b) = cb_failure_threshold b"
      using Cons.prems(1) n by (auto simp: breaker_bound_def record_failure_def Let_def split: breaker_state.splits)
    with Cons.IH[of "k + 1" "record_failure t b"] Cons.prems False show ?thesis by simp
  qed
qed simp

text \<open>
  The circuit breaker protects the DIAN and recovers. After as many failures in a row as the
  threshold, whatever happened before, it refuses every call until the cooldown has passed; then it lets
  one call through, refuses the others for another cooldown, opens again when the call fails, and is
  closed by its success.
\<close>

theorem breaker_opens_and_recovers:
  assumes "0 < threshold" "threshold \<le> length ts" "length es + length ts < 2 ^ 32"
    and "b = breaker_run (es @ map (\<lambda>t. (t, Failure)) ts) (breaker_new threshold cooldown)"
  shows "(last ts \<le> now \<longrightarrow> now < last ts + int cooldown \<longrightarrow> can_execute now b = (False, b)) \<and>
    (last ts + int cooldown \<le> now \<longrightarrow>
      (\<exists>probe. can_execute now b = (True, probe) \<and>
        (\<forall>t. now \<le> t \<longrightarrow> t < now + int cooldown \<longrightarrow> can_execute t probe = (False, probe)) \<and>
        (\<forall>t. cb_state (record_failure t probe) = Open t) \<and>
        (\<forall>t. fst (can_execute t (record_success probe)))))"
proof -
  let ?b = "breaker_run es (breaker_new threshold cooldown)"
  have "breaker_bound 0 (breaker_new threshold cooldown)"
    using assms(1) by (simp add: breaker_bound_def breaker_new_def)
  from breaker_run_bound[OF this, of es] assms have bound: "breaker_bound (length es) ?b" by simp
  have "ts \<noteq> []" using assms(1,2) by auto
  then have open': "cb_state b = Open (last ts)"
    unfolding assms(4) breaker_run_append
    using assms(2,3) by (intro failures_counted[OF bound]) auto
  have cool: "cb_cooldown b = cooldown" by (simp add: assms(4))
  show ?thesis
    using not_admitted_before_cooldown[of b "last ts" now] probe_after_cooldown[of b "last ts" now] open' cool
    by (auto simp: record_failure_def record_success_def Let_def can_execute_def elapsed_def)
qed

theorem breaker_opens_and_recovers_witness:
  "fst (can_execute 25 (breaker_run [(1, Ask), (5, Failure), (10, Failure)] (breaker_new 2 30))) = False \<and>
   fst (can_execute 40 (breaker_run [(1, Ask), (5, Failure), (10, Failure)] (breaker_new 2 30)))"
  using breaker_opens_and_recovers[of 2 "[5, 10]" "[(1, Ask)]" _ 30 25] 
    breaker_opens_and_recovers[of 2 "[5, 10]" "[(1, Ask)]" _ 30 40] by auto

section \<open>Backoff\<close>

text \<open>
  The delay before a repetition is never shorter than half a second and never longer than the
  larger of that and the configured maximum; the range it is drawn from does not shrink with the number
  of attempts.
\<close>

theorem backoff_within_bounds:
  assumes "mx div millisecond < 2 ^ 64"
  shows "half_second \<le> backoff_with_jitter e attempt base mx \<and>
    backoff_with_jitter e attempt base mx \<le> max mx half_second \<and>
    backoff_with_jitter e attempt base mx \<le> backoff_ceiling attempt base mx \<and>
    (\<forall>later \<ge> attempt. backoff_ceiling attempt base mx \<le> backoff_ceiling later base mx)"
proof -
  have "max mx half_second div millisecond < 2 ^ 64"
    using assms by (auto simp: max_def half_second_def millisecond_def)
  note b = backoff_bounds[OF this, of e attempt base]
  have "backoff_with_jitter e attempt base mx \<le> max mx half_second"
    using b(2) backoff_ceiling_bounds(2)[of attempt base mx] by (rule order_trans)
  with b backoff_ceiling_mono show ?thesis by blast
qed

theorem backoff_within_bounds_witness:
  "half_second \<le> backoff_with_jitter 7 3 2000000000 60000000000 \<and>
   backoff_with_jitter 7 3 2000000000 60000000000 \<le> 60000000000"
  using backoff_within_bounds[of 60000000000 7 3 2000000000] by (simp add: millisecond_def half_second_def)

end
