(* ===== verification/Webhook_Service.thy ===== *)
theory Webhook_Service
  imports Admin_Service Webhook_Rules Processing
begin

text \<open>
  \<open>application/src/webhooks.rs\<close>: the subscriptions of a tenant and the dispatcher that delivers the
  queued notifications; and \<open>worker/src/webhook_http.rs\<close>, the sender, with its protection against
  requests to internal addresses. Parameters: HMAC-SHA256, the text of a JSON value, the RFC 3339 text
  of an instant, the parser of the \<open>url\<close> package, the DNS resolver and the HTTP client.
\<close>

section \<open>The signature of a delivery\<close>

record webhook_libs =
  wl_hmac_sha256 :: "string \<Rightarrow> string \<Rightarrow> 8 word list"
  wl_json_text :: "json_object \<Rightarrow> string"
  wl_rfc3339 :: "instant \<Rightarrow> string"

definition signature :: "webhook_libs \<Rightarrow> string \<Rightarrow> int \<Rightarrow> string \<Rightarrow> string" where
  "signature L secret timestamp body =
     ''v1='' @ hex_bytes (wl_hmac_sha256 L secret (int_dec timestamp @ ''.'' @ body))"

section \<open>Destinations\<close>

text \<open>A parsed URL, by the accessors of \<open>url::Url\<close> that the code reads.\<close>

datatype url_host = Host_domain string | Host_v4 ipv4 | Host_v6 ipv6

record url =
  u_text :: string
  u_scheme :: string
  u_username :: string
  u_password :: "string option"
  u_host :: "url_host option"
  u_port_or_default :: "nat option"

type_synonym url_parser = "string \<Rightarrow> string + url"

record destination_policy =
  dp_allow_http :: bool
  dp_allow_private_networks :: bool

definition max_target_url_len :: nat where "max_target_url_len = 1024"

definition invalid_target :: "string \<Rightarrow> domain_error" where
  "invalid_target m = Validation (''target_url invalida: '' @ m)"

definition reject_target :: "bool \<Rightarrow> string \<Rightarrow> unit result" where
  "reject_target ok m = (if ok then Inr () else Inl (invalid_target m))"

definition allowed_scheme :: "bool \<Rightarrow> url \<Rightarrow> bool" where
  "allowed_scheme allow_http u \<longleftrightarrow> u_scheme u = ''https'' \<or> (u_scheme u = ''http'' \<and> allow_http)"

definition no_credentials :: "url \<Rightarrow> bool" where
  "no_credentials u \<longleftrightarrow> u_username u = [] \<and> u_password u = None"

definition trim_end_dots :: "string \<Rightarrow> string" where
  "trim_end_dots s = rev (dropWhile (\<lambda>c. c = CHR ''.'') (rev s))"

definition public_domain :: "string \<Rightarrow> bool" where
  "public_domain name \<longleftrightarrow>
     (let d = to_ascii_lowercase (trim_end_dots name)
      in \<not> (d = ''localhost'' \<or> ends_with ''.localhost'' d \<or> CHR ''.'' \<notin> set d))"

fun check_host :: "url_host option \<Rightarrow> unit result" where
  "check_host None = Inl (invalid_target ''sin host'')"
| "check_host (Some (Host_domain d)) = reject_target (public_domain d) ''el host debe ser un dominio publico''"
| "check_host (Some (Host_v4 ip)) = reject_target (is_public_ip (Ip_v4 ip)) ''la direccion IP no es publica''"
| "check_host (Some (Host_v6 ip)) = reject_target (is_public_ip (Ip_v6 ip)) ''la direccion IP no es publica''"

definition check_destination :: "url_parser \<Rightarrow> destination_policy \<Rightarrow> string \<Rightarrow> unit result" where
  "check_destination parse P target_url =
     bind_ok (reject_target (length target_url \<le> max_target_url_len) ''demasiado larga'') (\<lambda>_.
     bind_ok (map_err invalid_target (parse target_url)) (\<lambda>u.
     bind_ok (reject_target (allowed_scheme (dp_allow_http P) u) ''debe usar https'') (\<lambda>_.
     bind_ok (reject_target (no_credentials u) ''no puede incluir credenciales'') (\<lambda>_.
     if dp_allow_private_networks P then Inr () else check_host (u_host u)))))"

section \<open>Subscriptions\<close>

definition max_webhooks_per_tenant :: nat where "max_webhooks_per_tenant = 10"

record registered_webhook =
  rw_id :: uuid
  rw_target_url :: string
  rw_event_type :: string
  rw_secret :: string

record webhook_view =
  wv_id :: uuid
  wv_target_url :: string
  wv_event_type :: string
  wv_status :: string

fun join_comma :: "string list \<Rightarrow> string" where
  "join_comma [] = []"
| "join_comma [s] = s"
| "join_comma (s # ss) = s @ '', '' @ join_comma ss"

definition event_type_message :: string where
  "event_type_message =
     ''event_type debe ser '' @ [CHR 0x27] @ event_all @ [CHR 0x27] @ '' o uno de: '' @ join_comma event_types"

definition too_many_webhooks :: string where
  "too_many_webhooks =
     ''Se admiten como maximo '' @ nat_dec max_webhooks_per_tenant @ '' webhooks por tenant''"

text \<open>The part of \<open>register\<close> after its checks.\<close>

definition store_webhook ::
  "'db world webhook_repository \<Rightarrow> tenant \<Rightarrow> string \<Rightarrow> string \<Rightarrow> ('db world, registered_webhook) io" where
  "store_webhook R t target_url event_type w =
     (case random_hex w of (hex, w1) \<Rightarrow> case new_uuid w1 of (i, w2) \<Rightarrow>
        (let secret = ''whsec_'' @ hex
         in io_bind (create_webhook R
              \<lparr>w_id = i, w_tenant_id = t_id t, w_target_url = target_url, w_webhook_secret = secret,
               w_event_type = event_type, w_subscription_status = Sub_Active\<rparr>)
            (\<lambda>_. io_return \<lparr>rw_id = i, rw_target_url = target_url, rw_event_type = event_type, rw_secret = secret\<rparr>) w2))"

definition register_webhook ::
  "url_parser \<Rightarrow> destination_policy \<Rightarrow> 'db world webhook_repository \<Rightarrow> tenant \<Rightarrow> string \<Rightarrow> string \<Rightarrow>
   ('db world, registered_webhook) io" where
  "register_webhook parse P R t target_url event_type =
     io_bind (io_lift (reject_unless (is_valid_subscription event_type) event_type_message)) (\<lambda>_.
     io_bind (io_lift (check_destination parse P target_url)) (\<lambda>_.
     io_bind (list_webhooks R (t_id t)) (\<lambda>ws.
     io_bind (io_lift (reject_unless (\<not> length ws \<ge> max_webhooks_per_tenant) too_many_webhooks)) (\<lambda>_.
     store_webhook R t target_url event_type))))"

definition view_of :: "webhook \<Rightarrow> webhook_view" where
  "view_of w = \<lparr>wv_id = w_id w, wv_target_url = w_target_url w, wv_event_type = w_event_type w,
     wv_status = subscription_status_as_str (w_subscription_status w)\<rparr>"

definition webhook_views :: "'w webhook_repository \<Rightarrow> tenant \<Rightarrow> ('w, webhook_view list) io" where
  "webhook_views R t = io_bind (list_webhooks R (t_id t)) (\<lambda>ws. io_return (map view_of ws))"

definition remove_webhook :: "'w webhook_repository \<Rightarrow> tenant \<Rightarrow> uuid \<Rightarrow> ('w, unit) io" where
  "remove_webhook R t i =
     found_or (''Webhook '' @ uuid_string i @ '' no encontrado'') (delete_webhook R (t_id t) i)"

section \<open>The dispatcher\<close>

record dispatch_config =
  dc_lease :: int
  dc_backoff_base :: nat
  dc_backoff_max :: nat

definition default_dispatch :: dispatch_config where
  "default_dispatch = \<lparr>dc_lease = 60000000000, dc_backoff_base = 30000000000, dc_backoff_max = 3600000000000\<rparr>"

record dispatch_stats =
  ds_claimed :: nat
  ds_delivered :: nat
  ds_retried :: nat
  ds_dead :: nat

datatype delivery_outcome = Delivered | Retried | Died

text \<open>The port \<open>WebhookSender\<close>: URL, headers and body to the HTTP status.\<close>

record 'w webhook_sender =
  send_post :: "string \<Rightarrow> (string \<times> string) list \<Rightarrow> string \<Rightarrow> ('w, int) io"

record 'w dispatcher =
  di_repository :: "'w webhook_repository"
  di_sender :: "'w webhook_sender"
  di_config :: dispatch_config

definition delivery_body :: "webhook_libs \<Rightarrow> webhook_delivery \<Rightarrow> string" where
  "delivery_body L d =
     wl_json_text L [(''created_at'', J_str (wl_rfc3339 L (wd_created_at d))), (''data'', J_obj (wd_data d)),
       (''event'', J_str (wd_event_type d)), (''id'', J_str (uuid_string (wd_id d)))]"

text \<open>\<open>DateTime::timestamp\<close>: whole seconds, rounded down.\<close>

definition unix_seconds :: "instant \<Rightarrow> int" where
  "unix_seconds now = now div 1000000000"

definition delivery_headers :: "webhook_libs \<Rightarrow> webhook_delivery \<Rightarrow> instant \<Rightarrow> (string \<times> string) list" where
  "delivery_headers L d now =
     [(''X-Dian-Webhook-Id'', uuid_string (wd_id d)), (''X-Dian-Webhook-Event'', wd_event_type d),
      (''X-Dian-Webhook-Timestamp'', int_dec (unix_seconds now)),
      (''X-Dian-Webhook-Signature'', signature L (wd_secret d) (unix_seconds now) (delivery_body L d))]"

text \<open>The part of \<open>deliver\<close> after an answer that is not a success.\<close>

definition delivery_failed ::
  "'db world dispatcher \<Rightarrow> webhook_delivery \<Rightarrow> instant \<Rightarrow> string \<Rightarrow> int option \<Rightarrow> ('db world, delivery_outcome) io" where
  "delivery_failed D d now error code =
     (if wd_attempts d \<ge> wd_max_attempts d
      then io_bind (bury_delivery (di_repository D) (wd_id d) error code) (\<lambda>_. io_return Died)
      else (\<lambda>w. case draw w of (e, v) \<Rightarrow>
        (let delay = from_std_or 3600000000000
               (backoff_with_jitter e (wd_attempts d) (dc_backoff_base (di_config D)) (dc_backoff_max (di_config D)))
         in io_bind (retry_delivery (di_repository D) (wd_id d) (now + delay) error code) (\<lambda>_. io_return Retried) v)))"

definition deliver ::
  "webhook_libs \<Rightarrow> 'db world dispatcher \<Rightarrow> webhook_delivery \<Rightarrow> instant \<Rightarrow> ('db world, delivery_outcome) io" where
  "deliver L D d now =
     (if \<not> wd_active d
      then io_bind (bury_delivery (di_repository D) (wd_id d) ''subscription inactive'' None) (\<lambda>_. io_return Died)
      else (\<lambda>w. case send_post (di_sender D) (wd_target_url d) (delivery_headers L d now) (delivery_body L d) w of
          (Inr code, v) \<Rightarrow>
            if 200 \<le> code \<and> code < 300
            then io_bind (complete_delivery (di_repository D) (wd_id d) code) (\<lambda>_. io_return Delivered) v
            else delivery_failed D d now (''HTTP '' @ int_dec code) (Some code) v
        | (Inl e, v) \<Rightarrow> delivery_failed D d now (domain_error_display e) None v))"

fun count_outcome :: "domain_error + delivery_outcome \<Rightarrow> dispatch_stats \<Rightarrow> dispatch_stats" where
  "count_outcome (Inr Delivered) s = s\<lparr>ds_delivered := ds_delivered s + 1\<rparr>"
| "count_outcome (Inr Retried) s = s\<lparr>ds_retried := ds_retried s + 1\<rparr>"
| "count_outcome (Inr Died) s = s\<lparr>ds_dead := ds_dead s + 1\<rparr>"
| "count_outcome (Inl e) s = s"

text \<open>
  The deliveries run as concurrent tasks. Each of them commits at most one transaction, after its
  request, so the store sees them one after the other, in an order that is the parameter \<open>order\<close> of a
  run (a permutation of the claimed deliveries).
\<close>

fun deliver_each ::
  "webhook_libs \<Rightarrow> 'db world dispatcher \<Rightarrow> webhook_delivery list \<Rightarrow> dispatch_stats \<Rightarrow> ('db world, dispatch_stats) io" where
  "deliver_each L D [] stats w = (Inr stats, w)"
| "deliver_each L D (d # ds) stats w =
     (case deliver L D d (clock w) w of (r, v) \<Rightarrow> deliver_each L D ds (count_outcome r stats) v)"

definition run_once ::
  "webhook_libs \<Rightarrow> 'db world dispatcher \<Rightarrow> (webhook_delivery list \<Rightarrow> webhook_delivery list) \<Rightarrow> int \<Rightarrow>
   ('db world, dispatch_stats) io" where
  "run_once L D order limit =
     io_bind (claim_deliveries (di_repository D) limit (dc_lease (di_config D))) (\<lambda>ds.
     deliver_each L D (order ds) \<lparr>ds_claimed = length ds, ds_delivered = 0, ds_retried = 0, ds_dead = 0\<rparr>)"

section \<open>The HTTP sender\<close>

type_synonym socket_addr = "ip_addr \<times> nat"

text \<open>A resolver answers a name and a port, or fails with a text.\<close>

type_synonym 'w resolver = "string \<Rightarrow> nat \<Rightarrow> 'w \<Rightarrow> (string + socket_addr list) \<times> 'w"

record http_webhook_sender =
  hs_allow_http :: bool
  hs_allow_private_networks :: bool

text \<open>
  A request of the \<open>reqwest\<close> client: no proxy, no redirects, the time limits of the code; for a domain
  the only addresses it may connect to. The client answers with a status, or fails with a text (when
  it is built, or during the request).
\<close>

record http_request =
  rq_url :: url
  rq_resolve :: "(string \<times> socket_addr list) option"
  rq_headers :: "(string \<times> string) list"
  rq_body :: string
  rq_follow_redirects :: bool
  rq_use_proxy :: bool

datatype http_failure = Client_build string | Request_failed string

type_synonym 'w http_client = "http_request \<Rightarrow> 'w \<Rightarrow> (http_failure + int) \<times> 'w"

definition rejected :: "string \<Rightarrow> domain_error" where
  "rejected m = Validation (''Webhook destination rejected: '' @ m)"

definition resolve_host ::
  "'w resolver \<Rightarrow> nat \<Rightarrow> url_host option \<Rightarrow> ('w, string option \<times> socket_addr list) io" where
  "resolve_host dns port host =
     (case host of
        Some (Host_domain d) \<Rightarrow> (\<lambda>w. case dns d port w of
            (Inl e, v) \<Rightarrow> (Inl (Internal (''DNS resolution of '' @ d @ '' failed: '' @ e)), v)
          | (Inr as, v) \<Rightarrow> (Inr (Some d, as), v))
      | Some (Host_v4 ip) \<Rightarrow> io_return (None, [(Ip_v4 ip, port)])
      | Some (Host_v6 ip) \<Rightarrow> io_return (None, [(Ip_v6 ip, port)])
      | None \<Rightarrow> io_fail (rejected ''no host''))"

definition vetted_addresses ::
  "(ip_addr \<Rightarrow> string) \<Rightarrow> 'w resolver \<Rightarrow> http_webhook_sender \<Rightarrow> url \<Rightarrow> ('w, string option \<times> socket_addr list) io" where
  "vetted_addresses show_ip dns S u =
     io_bind (io_lift (if allowed_scheme (hs_allow_http S) u then Inr ()
       else Inl (rejected (''scheme '' @ [CHR 0x27] @ u_scheme u @ [CHR 0x27] @ '' is not allowed'')))) (\<lambda>_.
     io_bind (io_lift (ok_or (rejected ''no port'') (u_port_or_default u))) (\<lambda>port.
     io_bind (resolve_host dns port (u_host u)) (\<lambda>(domain, addresses).
     if addresses = [] then io_fail (Internal (u_text u @ '' did not resolve''))
     else if hs_allow_private_networks S then io_return (domain, addresses)
     else case find (\<lambda>a. \<not> is_public_ip (fst a)) addresses of
       Some inner \<Rightarrow> io_fail (rejected (u_text u @ '' resolves to a non-public address ('' @ show_ip (fst inner) @ '')''))
     | None \<Rightarrow> io_return (domain, addresses))))"

fun http_error :: "http_failure \<Rightarrow> domain_error" where
  "http_error (Client_build e) = Internal (''HTTP client: '' @ e)"
| "http_error (Request_failed e) = Internal (''webhook request failed: '' @ e)"

definition webhook_request :: "url \<Rightarrow> string option \<Rightarrow> socket_addr list \<Rightarrow> (string \<times> string) list \<Rightarrow> string \<Rightarrow> http_request" where
  "webhook_request u domain addresses headers body =
     \<lparr>rq_url = u, rq_resolve = map_option (\<lambda>d. (d, addresses)) domain,
      rq_headers = (''Content-Type'', ''application/json'') # headers, rq_body = body,
      rq_follow_redirects = False, rq_use_proxy = False\<rparr>"

definition send_request ::
  "'w http_client \<Rightarrow> url \<Rightarrow> string option \<Rightarrow> socket_addr list \<Rightarrow> (string \<times> string) list \<Rightarrow> string \<Rightarrow> ('w, int) io" where
  "send_request client u domain addresses headers body w =
     (case client (webhook_request u domain addresses headers body) w of (r, v) \<Rightarrow> (map_err http_error r, v))"

definition http_post ::
  "(ip_addr \<Rightarrow> string) \<Rightarrow> url_parser \<Rightarrow> 'w resolver \<Rightarrow> 'w http_client \<Rightarrow> http_webhook_sender \<Rightarrow>
   string \<Rightarrow> (string \<times> string) list \<Rightarrow> string \<Rightarrow> ('w, int) io" where
  "http_post show_ip parse dns client S target_url headers body =
     io_bind (io_lift (map_err rejected (parse target_url))) (\<lambda>u.
     io_bind (vetted_addresses show_ip dns S u) (\<lambda>(domain, addresses).
     send_request client u domain addresses headers body))"

definition http_sender ::
  "(ip_addr \<Rightarrow> string) \<Rightarrow> url_parser \<Rightarrow> 'w resolver \<Rightarrow> 'w http_client \<Rightarrow> http_webhook_sender \<Rightarrow> 'w webhook_sender" where
  "http_sender show_ip parse dns client S = \<lparr>send_post = http_post show_ip parse dns client S\<rparr>"

end
