(* ===== verification/Webhook_Properties.thy ===== *)
theory Webhook_Properties
  imports Webhook_Service Pg_Invariants Admin_Properties
begin

text \<open>
  What the webhooks promise: no request to an internal address, subscriptions only to public
  destinations and at most ten of them, and an outcome for every answer of a receiver.
\<close>

section \<open>The HTTP sender\<close>

text \<open>
  The addresses a request may connect to: those of the client's own table for a domain, otherwise the
  address in the URL.
\<close>

definition connects_to :: "http_request \<Rightarrow> ip_addr \<Rightarrow> bool" where
  "connects_to rq ip \<longleftrightarrow>
     (case rq_resolve rq of
        Some (_, as) \<Rightarrow> ip \<in> fst ` set as
      | None \<Rightarrow> (case u_host (rq_url rq) of
            Some (Host_v4 v4) \<Rightarrow> ip = Ip_v4 v4 | Some (Host_v6 v6) \<Rightarrow> ip = Ip_v6 v6 | _ \<Rightarrow> True))"

lemma vetted_addresses_cases:
  assumes "vetted_addresses show_ip dns S u w = (Inr (domain, addresses), v)"
  shows "allowed_scheme (hs_allow_http S) u"
    and "hs_allow_private_networks S \<or> (\<forall>a \<in> set addresses. is_public_ip (fst a))"
    and "case domain of Some d \<Rightarrow> u_host u = Some (Host_domain d)
      | None \<Rightarrow> (\<exists>ip port. addresses = [(ip, port)] \<and>
          (u_host u = Some (case ip of Ip_v4 v4 \<Rightarrow> Host_v4 v4 | Ip_v6 v6 \<Rightarrow> Host_v6 v6)))"
proof -
  from assms obtain port as d w1 where h: "resolve_host dns port (u_host u) w1 = (Inr (d, as), v)"
    and *: "allowed_scheme (hs_allow_http S) u" "domain = d" "addresses = as"
      "hs_allow_private_networks S \<or> find (\<lambda>a. \<not> is_public_ip (fst a)) as = None"
    unfolding vetted_addresses_def
    by (auto simp: admin_steps split: if_splits option.splits)
  show "allowed_scheme (hs_allow_http S) u" by (rule *)
  show "hs_allow_private_networks S \<or> (\<forall>a \<in> set addresses. is_public_ip (fst a))"
    using * by (auto simp: find_None_iff)
  show "case domain of Some d \<Rightarrow> u_host u = Some (Host_domain d)
      | None \<Rightarrow> (\<exists>ip port. addresses = [(ip, port)] \<and>
          (u_host u = Some (case ip of Ip_v4 v4 \<Rightarrow> Host_v4 v4 | Ip_v6 v6 \<Rightarrow> Host_v6 v6)))"
    using h * by (auto simp: resolve_host_def split: option.splits url_host.splits prod.splits sum.splits)
qed

text \<open>
  C39. No request to an internal address. With private networks not allowed, whatever the DNS answers, a
  delivery either fails before any request is made (its failure does not depend on the HTTP client), or
  makes one request, over an allowed scheme, without proxy and without following redirects, every
  address of which the client may connect to is public.
\<close>

theorem webhook_reaches_public_addresses_only:
  assumes "\<not> hs_allow_private_networks S"
  shows "(\<exists>e v. \<forall>client. http_post show_ip parse dns client S target headers body w = (Inl e, v)) \<or>
    (\<exists>u rq v. parse target = Inr u \<and> rq_url rq = u \<and> rq_body rq = body \<and>
       allowed_scheme (hs_allow_http S) u \<and> \<not> rq_use_proxy rq \<and> \<not> rq_follow_redirects rq \<and>
       (\<forall>ip. connects_to rq ip \<longrightarrow> is_public_ip ip) \<and>
       (\<forall>client. http_post show_ip parse dns client S target headers body w = map_prod (map_err http_error) id (client rq v)))"
proof (cases "parse target")
  case (Inl e)
  then show ?thesis by (auto simp: http_post_def io_bind_def)
next
  case (Inr u)
  obtain q v where q: "vetted_addresses show_ip dns S u w = (q, v)" by force
  show ?thesis
  proof (cases q)
    case (Inl e)
    with q \<open>parse target = Inr u\<close> show ?thesis by (auto simp: http_post_def io_bind_def)
  next
    case (Inr p)
    obtain domain addresses where p: "p = (domain, addresses)" by force
    with q Inr have vet: "vetted_addresses show_ip dns S u w = (Inr (domain, addresses), v)" by simp
    note v = vetted_addresses_cases[OF vet]
    let ?rq = "webhook_request u domain addresses headers body"
    have "is_public_ip ip" if "connects_to ?rq ip" for ip
      using that v(2,3) assms
      by (auto simp: connects_to_def webhook_request_def split: option.splits ip_addr.splits)
    moreover have "http_post show_ip parse dns client S target headers body w = map_prod (map_err http_error) id (client ?rq v)"
      for client
      using vet \<open>parse target = Inr u\<close> by (simp add: http_post_def io_bind_def send_request_def split: prod.splits)
    ultimately show ?thesis
      using \<open>parse target = Inr u\<close> v(1) by (intro disjI2 exI[of _ u] exI[of _ ?rq] exI[of _ v]) (simp add: webhook_request_def)
  qed
qed

definition ex_url :: url where
  "ex_url = \<lparr>u_text = ''https://intranet.example.co/'', u_scheme = ''https'', u_username = [], u_password = None,
     u_host = Some (Host_domain ''intranet.example.co''), u_port_or_default = Some 443\<rparr>"

text \<open>On a name that resolves to \<open>93.184.216.34\<close>, the only address a client may connect to is that one.\<close>

theorem webhook_reaches_public_addresses_only_witness:
  "\<forall>w. \<exists>rq v. (\<forall>ip. connects_to rq ip \<longrightarrow> is_public_ip ip) \<and> \<not> rq_follow_redirects rq \<and>
     http_post (\<lambda>_. []) (\<lambda>_. Inr ex_url) (\<lambda>d p w. (Inr [(Ip_v4 0x5DB8D822, p)], w)) (\<lambda>_ w. (Inr 200, w))
     \<lparr>hs_allow_http = False, hs_allow_private_networks = False\<rparr> ''https://intranet.example.co/'' [] ''{}'' w = (Inr 200, v)"
proof
  fix w
  let ?S = "\<lparr>hs_allow_http = False, hs_allow_private_networks = False\<rparr>"
  let ?dns = "\<lambda>d p w. (Inr [(Ip_v4 0x5DB8D822, p)], w)"
  let ?post = "\<lambda>client. http_post (\<lambda>_. []) (\<lambda>_. Inr ex_url) ?dns client ?S ''https://intranet.example.co/'' [] ''{}'' w"
  have "is_public_ip (Ip_v4 0x5DB8D822)"
    by (simp add: is_public_v4_def is_unspecified_v4_def is_loopback_v4_def is_private_v4_def is_link_local_v4_def
        is_broadcast_v4_def is_multicast_v4_def is_documentation_v4_def octet_div)
  then have run: "?post (\<lambda>_ w. (Inr 200, w)) = (Inr 200, w)"
    by (simp add: http_post_def io_bind_def vetted_addresses_def resolve_host_def ex_url_def allowed_scheme_def
        send_request_def)
  have "\<not> hs_allow_private_networks ?S" by simp
  from webhook_reaches_public_addresses_only[OF this, of "\<lambda>_. []" "\<lambda>_. Inr ex_url" ?dns
      "''https://intranet.example.co/''" "[]" "''{}''" w]
  have "\<exists>rq. (\<forall>ip. connects_to rq ip \<longrightarrow> is_public_ip ip) \<and> \<not> rq_follow_redirects rq"
  proof (elim disjE exE conjE)
    fix e v assume "\<forall>client. ?post client = (Inl e, v)"
    from this[THEN spec, of "\<lambda>_ w. (Inr 200, w)"] run show ?thesis by simp
  next
    fix rq assume "\<forall>ip. connects_to rq ip \<longrightarrow> is_public_ip ip" "\<not> rq_follow_redirects rq"
    then show ?thesis by blast
  qed
  with run show "\<exists>rq v. (\<forall>ip. connects_to rq ip \<longrightarrow> is_public_ip ip) \<and> \<not> rq_follow_redirects rq \<and>
      ?post (\<lambda>_ w. (Inr 200, w)) = (Inr 200, v)" by blast
qed

section \<open>Deliveries\<close>

text \<open>An update of a delivery that keeps its identity and its counters always succeeds.\<close>

lemma update_delivery_alone:
  assumes "alone w" "pg_constraints (db w)"
    and "\<And>d. dl_id (f d) = dl_id d \<and> dl_webhook_id (f d) = dl_webhook_id d \<and> dl_document_id (f d) = dl_document_id d \<and>
      dl_attempts (f d) = dl_attempts d \<and> dl_max_attempts (f d) = dl_max_attempts d"
  shows "tx (update_delivery_tx i f) w = (Inr (), w\<lparr>db := (db w)\<lparr>deliveries :=
    update_rows (\<lambda>d. dl_id d = i) (\<lambda>d. (f d)\<lparr>dl_updated_at := clock w\<rparr>) (deliveries (db w))\<rparr>\<rparr>)"
proof -
  let ?ds = "update_rows (\<lambda>d. dl_id d = i) (\<lambda>d. (f d)\<lparr>dl_updated_at := clock w\<rparr>) (deliveries (db w))"
  have "map dl_id ?ds = map dl_id (deliveries (db w))"
    using assms(3) by (simp add: update_rows_def)
  then have "unique_on dl_id ?ds"
    using assms(2) by (simp add: pg_constraints_def unique_on_def)
  moreover have "list_all delivery_check ?ds"
    using assms(2,3) by (auto simp: pg_constraints_def list_all_iff in_update_rows delivery_check_def)
  moreover have "list_all (\<lambda>d. references (dl_webhook_id d) w_id (webhooks (db w)) \<and>
      references (dl_document_id d) d_id (documents (db w))) ?ds"
    using assms(2,3) by (auto simp: pg_constraints_def list_all_iff in_update_rows)
  ultimately have "update_deliveries (clock w) (\<lambda>d. dl_id d = i) f (db w) = Inr ((db w)\<lparr>deliveries := ?ds\<rparr>)"
    by (simp add: update_deliveries_def put_Inr)
  with assms(1) show ?thesis by (simp add: tx_alone update_delivery_tx_def)
qed

definition delivery_of :: "pg \<Rightarrow> uuid \<Rightarrow> delivery_row option" where
  "delivery_of s i = find_row (\<lambda>d. dl_id d = i) (deliveries s)"

text \<open>The delivery was closed: its row is the old one with the new status, every other row is as before.\<close>

definition closed_as :: "uuid \<Rightarrow> (delivery_row \<Rightarrow> delivery_row) \<Rightarrow> pg \<Rightarrow> pg \<Rightarrow> bool" where
  "closed_as i f s t \<longleftrightarrow>
     (\<exists>now. delivery_of t i = map_option (\<lambda>d. (f d)\<lparr>dl_updated_at := now\<rparr>) (delivery_of s i)) \<and>
     filter (\<lambda>d. dl_id d \<noteq> i) (deliveries t) = filter (\<lambda>d. dl_id d \<noteq> i) (deliveries s)"

lemma closed_as_update:
  assumes "\<And>d. dl_id (f d) = dl_id d"
    and "deliveries t = update_rows (\<lambda>d. dl_id d = i) (\<lambda>d. (f d)\<lparr>dl_updated_at := now\<rparr>) (deliveries s)"
  shows "closed_as i f s t"
proof -
  have "filter (\<lambda>d. dl_id d \<noteq> i) (update_rows (\<lambda>d. dl_id d = i) (\<lambda>d. (f d)\<lparr>dl_updated_at := now\<rparr>) ds) =
      filter (\<lambda>d. dl_id d \<noteq> i) ds" for ds
    by (induction ds) (auto simp: assms(1))
  moreover have "find_row (\<lambda>d. dl_id d = i) (update_rows (\<lambda>d. dl_id d = i) (\<lambda>d. (f d)\<lparr>dl_updated_at := now\<rparr>) ds) =
      map_option (\<lambda>d. (f d)\<lparr>dl_updated_at := now\<rparr>) (find_row (\<lambda>d. dl_id d = i) ds)" for ds
    by (induction ds) (auto simp: assms(1))
  ultimately show ?thesis using assms(2) by (auto simp: closed_as_def delivery_of_def)
qed

lemma close_delivery_alone:
  assumes "alone w" "pg_constraints (db w)"
  shows "\<exists>v. bury_delivery (pg_webhooks lk) i m c w = (Inr (), v) \<and> closed_as i
      (\<lambda>d. d\<lparr>dl_status := Del_Dead, dl_locked_until := None, dl_last_error := Some m, dl_last_status_code := c\<rparr>) (db w) (db v)"
    and "\<exists>v. complete_delivery (pg_webhooks lk) i code w = (Inr (), v) \<and> closed_as i
      (\<lambda>d. d\<lparr>dl_status := Del_Delivered, dl_locked_until := None, dl_last_status_code := Some code\<rparr>) (db w) (db v)"
    and "\<exists>v. retry_delivery (pg_webhooks lk) i t m c w = (Inr (), v) \<and> closed_as i
      (\<lambda>d. d\<lparr>dl_status := Del_Queued, dl_run_at := t, dl_locked_until := None, dl_last_error := Some m,
             dl_last_status_code := c\<rparr>) (db w) (db v)"
  by (simp_all add: pg_webhooks_def pg_bury_delivery_def pg_complete_delivery_def pg_retry_delivery_def
      update_delivery_alone[OF assms] closed_as_update)

lemma backoff_at_least: "half_second \<le> backoff_with_jitter e a b mx"
  by (simp add: backoff_with_jitter_def gen_range_def half_second_def millisecond_def)

lemma draw_alone: "draw w = (e, v) \<Longrightarrow> alone w \<Longrightarrow> alone v \<and> db v = db w"
  by (auto simp: draw_def alone_def split: list.splits)

lemma delivery_failed_outcome:
  assumes "alone w" "pg_constraints (db w)" "delivery_failed D d now error code w = (r, v)"
    and "di_repository D = pg_webhooks lk"
  shows "(if wd_attempts d \<ge> wd_max_attempts d
    then r = Inr Died \<and> closed_as (wd_id d) (\<lambda>x. x\<lparr>dl_status := Del_Dead, dl_locked_until := None,
        dl_last_error := Some error, dl_last_status_code := code\<rparr>) (db w) (db v)
    else r = Inr Retried \<and> (\<exists>t \<ge> now + 500000000. closed_as (wd_id d) (\<lambda>x. x\<lparr>dl_status := Del_Queued, dl_run_at := t,
        dl_locked_until := None, dl_last_error := Some error, dl_last_status_code := code\<rparr>) (db w) (db v)))"
proof (cases "wd_attempts d \<ge> wd_max_attempts d")
  case True
  with assms(3,4) close_delivery_alone(1)[OF assms(1,2), of lk "wd_id d" error code] show ?thesis
    by (auto simp: delivery_failed_def io_bind_def)
next
  case False
  obtain e u where u: "draw w = (e, u)" by force
  note du = draw_alone[OF u assms(1)]
  define t where "t = now + from_std_or 3600000000000
    (backoff_with_jitter e (wd_attempts d) (dc_backoff_base (di_config D)) (dc_backoff_max (di_config D)))"
  have "now + 500000000 \<le> t"
    using backoff_at_least[of e "wd_attempts d" "dc_backoff_base (di_config D)" "dc_backoff_max (di_config D)"]
    by (simp add: t_def from_std_or_def from_std_def half_second_def)
  moreover have "io_bind (retry_delivery (pg_webhooks lk) (wd_id d) t error code) (\<lambda>_. io_return Retried) u = (r, v)"
    using False assms(3,4) u by (simp add: delivery_failed_def t_def)
  ultimately show ?thesis
    using False du close_delivery_alone(3)[of u lk "wd_id d" t error code] assms(2)
    by (auto simp: io_bind_def)
qed

text \<open>What an answer of the receiver makes of a delivery: its outcome and its row.\<close>

definition delivery_settled ::
  "domain_error + int \<Rightarrow> webhook_delivery \<Rightarrow> instant \<Rightarrow> delivery_outcome result \<Rightarrow> pg \<Rightarrow> pg \<Rightarrow> bool" where
  "delivery_settled reply d now r s t \<longleftrightarrow>
     (let success = (case reply of Inr c \<Rightarrow> 200 \<le> c \<and> c < 300 | Inl _ \<Rightarrow> False);
          error = (case reply of Inr c \<Rightarrow> ''HTTP '' @ int_dec c | Inl e \<Rightarrow> domain_error_display e);
          code = (case reply of Inr c \<Rightarrow> Some c | Inl _ \<Rightarrow> None)
      in if \<not> wd_active d
         then r = Inr Died \<and> closed_as (wd_id d) (\<lambda>x. x\<lparr>dl_status := Del_Dead, dl_locked_until := None,
           dl_last_error := Some ''subscription inactive'', dl_last_status_code := None\<rparr>) s t
         else if success
         then r = Inr Delivered \<and> closed_as (wd_id d) (\<lambda>x. x\<lparr>dl_status := Del_Delivered, dl_locked_until := None,
           dl_last_status_code := code\<rparr>) s t
         else if wd_attempts d \<ge> wd_max_attempts d
         then r = Inr Died \<and> closed_as (wd_id d) (\<lambda>x. x\<lparr>dl_status := Del_Dead, dl_locked_until := None,
           dl_last_error := Some error, dl_last_status_code := code\<rparr>) s t
         else r = Inr Retried \<and> (\<exists>later \<ge> now + 500000000. closed_as (wd_id d) (\<lambda>x. x\<lparr>dl_status := Del_Queued,
           dl_run_at := later, dl_locked_until := None, dl_last_error := Some error, dl_last_status_code := code\<rparr>) s t))"

text \<open>
  C40. The outcome of a delivery. When the database does not fail and the sender answers without
  touching it, the queue tells what happened: a subscription that is no longer active ends dead without a
  request; an answer between 200 and 299 ends as delivered, with that status; any other answer, or an
  error of the sender, ends dead at the last attempt, and before it returns to the queue for at least half
  a second, with the error. Every other delivery is left alone. The request carries the signature of its
  own body and timestamp header under the secret of the subscription.
\<close>

theorem settled_delivery:
  assumes w: "alone w" "pg_constraints (db w)" and repository: "di_repository D = pg_webhooks lk"
    and sender: "\<And>url headers body u. send_post (di_sender D) url headers body u = (answer url headers body, u)"
    and run: "deliver L D d now w = (r, v)"
  shows "\<exists>headers stamp.
    (''X-Dian-Webhook-Timestamp'', int_dec stamp) \<in> set headers \<and>
    (''X-Dian-Webhook-Signature'', signature L (wd_secret d) stamp (delivery_body L d)) \<in> set headers \<and>
    delivery_settled (answer (wd_target_url d) headers (delivery_body L d)) d now r (db w) (db v)"
proof (intro exI[of _ "delivery_headers L d now"] exI[of _ "unix_seconds now"] conjI)
  let ?reply = "answer (wd_target_url d) (delivery_headers L d now) (delivery_body L d)"
  note run = run[unfolded deliver_def repository sender]
  show "delivery_settled ?reply d now r (db w) (db v)"
  proof (cases "wd_active d")
    case False
    with run close_delivery_alone(1)[OF w, of lk "wd_id d" "''subscription inactive''" None]
    show ?thesis by (auto simp: delivery_settled_def io_bind_def)
  next
    case True
    note failed = delivery_failed_outcome[OF w _ repository, of d now _ _ r v]
    show ?thesis
    proof (cases ?reply)
      case (Inl e)
      with run True have "delivery_failed D d now (domain_error_display e) None w = (r, v)" by simp
      from failed[OF this] Inl True show ?thesis by (simp add: delivery_settled_def)
    next
      case (Inr c)
      show ?thesis
      proof (cases "200 \<le> c \<and> c < 300")
        case True
        with Inr run \<open>wd_active d\<close> close_delivery_alone(2)[OF w, of lk "wd_id d" c]
        show ?thesis by (auto simp: io_bind_def delivery_settled_def)
      next
        case False
        with Inr run True have "delivery_failed D d now (''HTTP '' @ int_dec c) (Some c) w = (r, v)" by auto
        from failed[OF this] Inr True False show ?thesis by (auto simp: delivery_settled_def Let_def)
      qed
    qed
  qed
qed (simp_all add: delivery_headers_def)

definition ex_subscription :: webhook where
  "ex_subscription = \<lparr>w_id = 30, w_tenant_id = 1, w_target_url = ''https://a.co'', w_webhook_secret = ''s'',
     w_event_type = ''*'', w_subscription_status = Sub_Active\<rparr>"

definition ex_delivery_row :: delivery_row where
  "ex_delivery_row = (delivery_row_of 40 30 10 ''document.accepted'' [] ex_now)
     \<lparr>dl_status := Del_Running, dl_attempts := 1, dl_locked_until := Some 5000\<rparr>"

definition ex_delivering :: "pg world" where
  "ex_delivering = ex_world ((ex_db [ex_document_row] [ex_job_row])
     \<lparr>webhooks := [ex_subscription], deliveries := [ex_delivery_row]\<rparr>)"

definition ex_webhook_libs :: webhook_libs where
  "ex_webhook_libs = \<lparr>wl_hmac_sha256 = (\<lambda>k m. map (\<lambda>c. of_nat (byte c)) (take 32 (k @ m))), wl_json_text = (\<lambda>_. ''{}''),
     wl_rfc3339 = (\<lambda>_. ''2026'')\<rparr>"

definition ex_dispatcher :: "(string \<Rightarrow> (string \<times> string) list \<Rightarrow> string \<Rightarrow> domain_error + int) \<Rightarrow> pg world dispatcher" where
  "ex_dispatcher answer = \<lparr>di_repository = pg_webhooks (\<lambda>_ _ _. False),
     di_sender = \<lparr>send_post = (\<lambda>u h b w. (answer u h b, w))\<rparr>, di_config = default_dispatch\<rparr>"

theorem settled_delivery_witness:
  "\<exists>v. deliver ex_webhook_libs (ex_dispatcher (\<lambda>_ _ _. Inr 200)) (webhook_delivery_of ex_subscription ex_delivery_row) ex_now
       ex_delivering = (Inr Delivered, v) \<and> map_option dl_status (delivery_of (db v) 40) = Some Del_Delivered"
proof -
  let ?d = "webhook_delivery_of ex_subscription ex_delivery_row"
  let ?D = "ex_dispatcher (\<lambda>_ _ _. Inr 200)"
  have w: "alone ex_delivering" by (simp add: alone_def ex_delivering_def ex_world_def ex_start_def)
  have c: "pg_constraints (db ex_delivering)" by code_simp
  obtain r v where run: "deliver ex_webhook_libs ?D ?d ex_now ex_delivering = (r, v)" by force
  have D: "di_repository ?D = pg_webhooks (\<lambda>_ _ _. False)"
    "\<And>u h b x. send_post (di_sender ?D) u h b x = ((\<lambda>_ _ _. Inr 200) u h b, x)"
    by (simp_all add: ex_dispatcher_def)
  have d: "wd_active ?d" "wd_id ?d = 40" "delivery_of (db ex_delivering) 40 = Some ex_delivery_row"
    by (simp_all add: webhook_delivery_of_def ex_subscription_def ex_delivery_row_def delivery_row_of_def
        delivery_of_def ex_delivering_def ex_world_def)
  from settled_delivery[OF w c D run] have "delivery_settled (Inr 200) ?d ex_now r (db ex_delivering) (db v)"
    by (elim exE conjE)
  with d show ?thesis using run by (auto simp: delivery_settled_def closed_as_def)
qed

section \<open>Subscriptions\<close>

lemma length_draws: "draws n w = (es, v) \<Longrightarrow> length es = n"
  by (induction n arbitrary: w es v) (fastforce simp: Let_def split: prod.splits)+

text \<open>
  Subscriptions lead outside. When a tenant is told that a webhook was registered and nobody else
  writes meanwhile, the target is a URL over HTTPS (or HTTP, when that is allowed) without credentials,
  whose host, with private networks not allowed, is a public address or a name that is not local; the tenant has at
  most ten subscriptions; the stored secret is the one handed out, which the list of subscriptions does
  not show.
\<close>

theorem registered_webhook_leads_outside:
  assumes "alone w" "register_webhook parse P (pg_webhooks lk) t target event_type w = (Inr k, v)"
  shows "(\<exists>u. parse target = Inr u \<and> allowed_scheme (dp_allow_http P) u \<and> no_credentials u \<and>
      (\<not> dp_allow_private_networks P \<longrightarrow>
        (case u_host u of None \<Rightarrow> False | Some (Host_domain n) \<Rightarrow> public_domain n
         | Some (Host_v4 ip) \<Rightarrow> is_public_ip (Ip_v4 ip) | Some (Host_v6 ip) \<Rightarrow> is_public_ip (Ip_v6 ip)))) \<and>
    webhooks (db v) = webhooks (db w) @ [\<lparr>w_id = rw_id k, w_tenant_id = t_id t, w_target_url = target,
      w_webhook_secret = rw_secret k, w_event_type = event_type, w_subscription_status = Sub_Active\<rparr>] \<and>
    is_valid_subscription event_type \<and>
    length (filter (\<lambda>x. w_tenant_id x = t_id t) (webhooks (db v))) \<le> 10 \<and>
    length (rw_secret k) = 70 \<and>
    (\<exists>views. fst (webhook_views (pg_webhooks lk) t v) = Inr views \<and>
      \<lparr>wv_id = rw_id k, wv_target_url = target, wv_event_type = event_type, wv_status = ''active''\<rparr> \<in> set views)"
proof -
  have list: "list_webhooks (pg_webhooks lk) i x = (Inr (order_by (\<lambda>y. int (w_id y))
      (filter (\<lambda>y. w_tenant_id y = i) (webhooks (db x)))), x)" if "alone x" for i x
    using that by (simp add: pg_webhooks_def pg_list_webhooks_def query_alone)
  from assms(2) have valid: "is_valid_subscription event_type" and "check_destination parse P target = Inr ()"
    and count: "length (filter (\<lambda>y. w_tenant_id y = t_id t) (webhooks (db w))) < 10"
    and store: "store_webhook (pg_webhooks lk) t target event_type w = (Inr k, v)"
    unfolding register_webhook_def
    by (auto simp: admin_steps list[OF assms(1)] max_webhooks_per_tenant_def)
  then obtain u where u: "parse target = Inr u" "allowed_scheme (dp_allow_http P) u" "no_credentials u"
      "dp_allow_private_networks P \<or> check_host (u_host u) = Inr ()"
    by (auto simp: check_destination_def reject_target_def map_err_Inr_iff bind_ok_Inr_iff split: if_splits)
  have host: "check_host h = Inr () \<longleftrightarrow> (case h of None \<Rightarrow> False | Some (Host_domain n) \<Rightarrow> public_domain n
      | Some (Host_v4 ip) \<Rightarrow> is_public_ip (Ip_v4 ip) | Some (Host_v6 ip) \<Rightarrow> is_public_ip (Ip_v6 ip))" for h
    by (auto simp: reject_target_def split: option.splits url_host.splits)
  obtain hex w1 where hex: "random_hex w = (hex, w1)" by force
  have w1: "alone w1" "db w1 = db w" using random_hex_frame[OF hex] assms(1) by (simp_all add: alone_def)
  have len: "length hex = 64" using hex by (auto simp: random_hex_def dest!: length_draws split: prod.splits)
  let ?row = "\<lparr>w_id = next_uuid w1, w_tenant_id = t_id t, w_target_url = target, w_webhook_secret = ''whsec_'' @ hex,
      w_event_type = event_type, w_subscription_status = Sub_Active\<rparr>"
  from store have new: "webhooks (db v) = webhooks (db w) @ [?row] \<and> alone v \<and>
      k = \<lparr>rw_id = next_uuid w1, rw_target_url = target, rw_event_type = event_type, rw_secret = ''whsec_'' @ hex\<rparr>"
    using w1 by (auto simp: store_webhook_def Let_def hex new_uuid_def admin_steps pg_webhooks_def pg_create_webhook_def tx_alone
        alone_def create_webhook_tx_def put_Inr bind_simps split: sum.splits prod.splits)
  then show ?thesis
    using valid u host count len
    by (auto simp: webhook_views_def io_bind_def list view_of_def)
qed

definition ex_public_url :: url where
  "ex_public_url = ex_url\<lparr>u_host := Some (Host_domain ''erp.example.co'')\<rparr>"

theorem registered_webhook_leads_outside_witness:
  "\<exists>k v. register_webhook (\<lambda>_. Inr ex_public_url) \<lparr>dp_allow_http = False, dp_allow_private_networks = False\<rparr>
       (pg_webhooks (\<lambda>_ _ _. False)) ex_tenant_row ''https://erp.example.co/'' ''*'' ex_delivering = (Inr k, v) \<and>
     length (webhooks (db v)) = 2"
proof -
  let ?P = "\<lparr>dp_allow_http = False, dp_allow_private_networks = False\<rparr>"
  let ?run = "register_webhook (\<lambda>_. Inr ex_public_url) ?P (pg_webhooks (\<lambda>_ _ _. False)) ex_tenant_row
    ''https://erp.example.co/'' ''*'' ex_delivering"
  have w: "alone ex_delivering" by (simp add: alone_def ex_delivering_def ex_world_def ex_start_def)
  have hooks: "webhooks (db ex_delivering) = [ex_subscription]" "t_id ex_tenant_row = 1" "w_id ex_subscription = 30"
    "tenants (db ex_delivering) = [ex_tenant_row]" "w_tenant_id ex_subscription = 1" "w_event_type ex_subscription = ''*''"
    "next_uuid ex_delivering = 22"
    by (simp_all add: ex_delivering_def ex_world_def ex_start_def ex_db_def pg_empty_def ex_tenant_row_def tenant_row_def
        ex_tenant_def ex_subscription_def)
  have draws: "draws n ex_delivering = (replicate n 0, ex_delivering)" for n
    by (induction n) (simp_all add: draw_def ex_delivering_def ex_world_def ex_start_def)
  have dom: "public_domain ''erp.example.co''" by code_simp
  have check: "check_destination (\<lambda>_. Inr ex_public_url) ?P ''https://erp.example.co/'' = Inr ()"
    using dom by (simp add: check_destination_def reject_target_def max_target_url_len_def ex_public_url_def ex_url_def
        allowed_scheme_def no_credentials_def)
  have "\<exists>k v. ?run = (Inr k, v)"
    using w hooks
    by (simp add: register_webhook_def io_bind_def reject_unless_def is_valid_subscription_def event_all_def check
        pg_webhooks_def pg_list_webhooks_def query_alone max_webhooks_per_tenant_def store_webhook_def random_hex_def draws
        new_uuid_def Let_def pg_create_webhook_def tx_alone alone_def create_webhook_tx_def put_defs constrained_def
        references_def unique_on_def)
  then obtain k v where run: "?run = (Inr k, v)" by blast
  from registered_webhook_leads_outside[OF w run] run hooks show ?thesis by auto
qed

end
