(* ===== verification/Mem_Store.thy ===== *)
theory Mem_Store
  imports Pg_Admin Processing
begin

text \<open>
  The in-memory store of \<open>core-domain/src/testing.rs\<close>, on which the use cases are tested. The state is
  the record \<open>mem\<close>; a hash map is the list of its values in an unspecified order, a new key at the end.
  An operation locks the state once, so it is one step; nothing is undone when it fails. Definitions
  that the PostgreSQL store has word for word (the row of a new document, the subscriptions an event
  goes to) are those of its theories.
\<close>

section \<open>The state\<close>

record stored_job =
  mj_id :: uuid
  mj_kind :: job_kind
  mj_document_id :: uuid
  mj_payload :: json_object
  mj_status :: job_status
  mj_attempts :: i32
  mj_max_attempts :: i32
  mj_run_at :: instant
  mj_locked_until :: "instant option"
  mj_last_error :: "string option"

record stored_delivery =
  md_id :: uuid
  md_webhook_id :: uuid
  md_document_id :: uuid
  md_event_type :: string
  md_data :: json_object
  md_status :: string
  md_attempts :: i32
  md_max_attempts :: i32
  md_run_at :: instant
  md_locked_until :: "instant option"
  md_last_error :: "string option"
  md_last_status_code :: "int option"
  md_created_at :: instant

record stored_key =
  mi_tenant_id :: uuid
  mi_key :: string
  mi_request_hash :: string
  mi_issued :: issued_document

record mem =
  m_tenants :: "tenant list"
  m_certificates :: "certificate list"
  m_ranges :: "numbering_range list"
  m_documents :: "document list"
  m_events :: "dian_event list"
  m_jobs :: "stored_job list"
  m_idempotency :: "stored_key list"
  m_webhooks :: "webhook list"
  m_deliveries :: "stored_delivery list"
  m_api_keys :: "api_key_record list"
  m_audit :: "audit_entry list"

definition mem_empty :: mem where
  "mem_empty = \<lparr>m_tenants = [], m_certificates = [], m_ranges = [], m_documents = [], m_events = [],
     m_jobs = [], m_idempotency = [], m_webhooks = [], m_deliveries = [], m_api_keys = [], m_audit = []\<rparr>"

text \<open>\<open>HashMap::insert\<close> replaces the value of a key, or adds the key.\<close>

definition put_row :: "('r \<Rightarrow> 'k) \<Rightarrow> 'r \<Rightarrow> 'r list \<Rightarrow> 'r list" where
  "put_row key r rs = (if key r \<in> key ` set rs then update_rows (\<lambda>x. key x = key r) (\<lambda>_. r) rs else rs @ [r])"

text \<open>A step under the lock: the answer and the state it leaves, also when the answer is an error.\<close>

type_synonym 'a step = "mem \<Rightarrow> 'a result \<times> mem"

definition locked_step :: "(instant \<Rightarrow> 'a step) \<Rightarrow> (mem world, 'a) io" where
  "locked_step f w = (case f (clock w) (db w) of (r, s) \<Rightarrow> (r, w\<lparr>db := s\<rparr>))"

definition locked_step_ids :: "(instant \<Rightarrow> uuid \<Rightarrow> mem \<Rightarrow> 'a result \<times> nat \<times> mem) \<Rightarrow> (mem world, 'a) io" where
  "locked_step_ids f w =
     (case f (clock w) (next_uuid w) (db w) of (r, n, s) \<Rightarrow> (r, w\<lparr>db := s, next_uuid := next_uuid w + n\<rparr>))"

definition step_bind :: "'a result \<times> mem \<Rightarrow> ('a \<Rightarrow> 'b step) \<Rightarrow> 'b result \<times> mem" where
  "step_bind m k = (case m of (Inl e, s) \<Rightarrow> (Inl e, s) | (Inr a, s) \<Rightarrow> k a s)"

section \<open>Jobs of the state\<close>

definition mem_has_active_job :: "uuid \<Rightarrow> job_kind \<Rightarrow> mem \<Rightarrow> bool" where
  "mem_has_active_job document kind s \<longleftrightarrow>
     list_ex (\<lambda>j. mj_document_id j = document \<and> mj_kind j = kind \<and>
                  (mj_status j = Queued \<or> mj_status j = Running)) (m_jobs s)"

definition stored_job_of :: "new_job \<Rightarrow> stored_job" where
  "stored_job_of j =
     \<lparr>mj_id = n_id j, mj_kind = n_kind j, mj_document_id = n_document_id j, mj_payload = n_payload j,
      mj_status = Queued, mj_attempts = 0, mj_max_attempts = n_max_attempts j, mj_run_at = n_run_at j,
      mj_locked_until = None, mj_last_error = None\<rparr>"

definition mem_insert_job :: "new_job \<Rightarrow> unit step" where
  "mem_insert_job j s =
     (if mem_has_active_job (n_document_id j) (n_kind j) s then (Inl (Conflict (active_job_conflict j)), s)
      else (Inr (), s\<lparr>m_jobs := put_row mj_id (stored_job_of j) (m_jobs s)\<rparr>))"

text \<open>\<open>job_mut\<close> and an assignment to fields of the job.\<close>

definition mem_change_job :: "uuid \<Rightarrow> (stored_job \<Rightarrow> stored_job) \<Rightarrow> unit step" where
  "mem_change_job i f s =
     (if find_row (\<lambda>j. mj_id j = i) (m_jobs s) = None then (Inl (NotFound (''job '' @ uuid_string i)), s)
      else (Inr (), s\<lparr>m_jobs := update_rows (\<lambda>j. mj_id j = i) f (m_jobs s)\<rparr>))"

section \<open>Setting up and reading tests\<close>

definition legacy_key :: "uuid \<Rightarrow> string \<Rightarrow> string \<Rightarrow> uuid \<Rightarrow> instant \<Rightarrow> api_key_record" where
  "legacy_key tenant name hash i now =
     \<lparr>k_id = i, k_tenant_id = tenant, k_name = name, k_prefix = ''legacy'', k_key_hash = hash, k_created_at = now,
      k_revoked_at = None\<rparr>"

definition mem_add_tenant :: "(string \<Rightarrow> string) \<Rightarrow> tenant \<Rightarrow> (mem world, unit) io" where
  "mem_add_tenant hash t = locked_step_ids (\<lambda>now i s.
     (case obj_str ''secret'' (t_api_keys t) of
        Some secret \<Rightarrow> (Inr (), 1, s\<lparr>m_api_keys := m_api_keys s @ [legacy_key (t_id t) ''test'' (hash secret) i now],
                                 m_tenants := m_tenants s @ [t]\<rparr>)
      | None \<Rightarrow> (Inr (), 0, s\<lparr>m_tenants := m_tenants s @ [t]\<rparr>)))"

definition mem_audit_log :: "mem \<Rightarrow> audit_entry list" where "mem_audit_log s = m_audit s"

definition mem_certificates_of :: "uuid \<Rightarrow> mem \<Rightarrow> certificate list" where
  "mem_certificates_of tenant s = filter (\<lambda>c. c_tenant_id c = tenant) (m_certificates s)"

definition mem_add_certificate :: "certificate \<Rightarrow> mem \<Rightarrow> mem" where
  "mem_add_certificate c s = s\<lparr>m_certificates := m_certificates s @ [c]\<rparr>"

definition mem_add_range :: "numbering_range \<Rightarrow> mem \<Rightarrow> mem" where
  "mem_add_range r s = s\<lparr>m_ranges := put_row r_id r (m_ranges s)\<rparr>"

definition mem_insert_document :: "document \<Rightarrow> mem \<Rightarrow> mem" where
  "mem_insert_document d s = s\<lparr>m_documents := put_row d_id d (m_documents s)\<rparr>"

text \<open>\<open>enqueue\<close> unwraps: \<open>None\<close> is its panic.\<close>

definition mem_enqueue :: "new_job \<Rightarrow> mem \<Rightarrow> mem option" where
  "mem_enqueue j s = (case mem_insert_job j s of (Inr _, s1) \<Rightarrow> Some s1 | (Inl _, _) \<Rightarrow> None)"

definition mem_document :: "uuid \<Rightarrow> mem \<Rightarrow> document option" where
  "mem_document i s = find_row (\<lambda>d. d_id d = i) (m_documents s)"

definition mem_range :: "uuid \<Rightarrow> mem \<Rightarrow> numbering_range option" where
  "mem_range i s = find_row (\<lambda>r. r_id r = i) (m_ranges s)"

definition mem_events_for :: "uuid \<Rightarrow> mem \<Rightarrow> dian_event list" where
  "mem_events_for document s = filter (\<lambda>e. e_document_id e = document) (m_events s)"

definition mem_jobs_for :: "uuid \<Rightarrow> mem \<Rightarrow> stored_job list" where
  "mem_jobs_for document s = sort_key mj_run_at (filter (\<lambda>j. mj_document_id j = document) (m_jobs s))"

definition mem_deliveries :: "mem \<Rightarrow> stored_delivery list" where
  "mem_deliveries s = sort_key md_created_at (m_deliveries s)"

definition make_deliveries_due :: "instant \<Rightarrow> mem \<Rightarrow> mem" where
  "make_deliveries_due now s =
     s\<lparr>m_deliveries := update_rows (\<lambda>d. md_status d = ''queued'') (\<lambda>d. d\<lparr>md_run_at := now\<rparr>) (m_deliveries s)\<rparr>"

definition make_jobs_due :: "instant \<Rightarrow> mem \<Rightarrow> mem" where
  "make_jobs_due now s =
     s\<lparr>m_jobs := update_rows (\<lambda>j. mj_status j = Queued) (\<lambda>j. j\<lparr>mj_run_at := now\<rparr>) (m_jobs s)\<rparr>"

section \<open>Tenants, certificates, documents\<close>

definition mem_find_by_api_key_hash :: "string \<Rightarrow> (mem world, tenant option) io" where
  "mem_find_by_api_key_hash hash = locked_step (\<lambda>now s.
     (case find_row (\<lambda>k. k_key_hash k = hash \<and> k_revoked_at k = None) (m_api_keys s) of
        None \<Rightarrow> (Inr None, s)
      | Some k \<Rightarrow> (Inr (find_row (\<lambda>t. t_id t = k_tenant_id k) (m_tenants s)), s)))"

definition mem_find_active_certificate :: "uuid \<Rightarrow> (mem world, certificate option) io" where
  "mem_find_active_certificate tenant = locked_step (\<lambda>now s.
     (Inr (find_row (\<lambda>c. c_tenant_id c = tenant \<and> c_status c = C_Active) (m_certificates s)), s))"

text \<open>\<open>max_by_key\<close>: the last of the greatest elements.\<close>

fun last_max :: "('r \<Rightarrow> int) \<Rightarrow> 'r list \<Rightarrow> 'r option" where
  "last_max k [] = None"
| "last_max k (r # rs) = (case last_max k rs of None \<Rightarrow> Some r | Some q \<Rightarrow> if k r \<le> k q then Some q else Some r)"

definition mem_select_range :: "new_outbound_document \<Rightarrow> instant \<Rightarrow> mem \<Rightarrow> numbering_range option" where
  "mem_select_range d now s = last_max r_valid_date_from
     (filter (\<lambda>r. r_tenant_id r = no_tenant_id d \<and> r_document_type r = no_document_type d \<and>
                  r_prefix r = no_prefix d \<and> r_valid_date_from r \<le> now \<and> now \<le> r_valid_date_to r) (m_ranges s))"

definition mem_outbound_exists :: "new_outbound_document \<Rightarrow> i32 \<Rightarrow> mem \<Rightarrow> bool" where
  "mem_outbound_exists d number s \<longleftrightarrow>
     list_ex (\<lambda>x. d_tenant_id x = no_tenant_id d \<and> d_direction x = Outbound \<and>
                  d_document_type x = no_document_type d \<and> d_prefix x = no_prefix d \<and>
                  d_document_number x = number) (m_documents s)"

definition mem_find_key :: "uuid \<Rightarrow> idempotency_key \<Rightarrow> mem \<Rightarrow> stored_key option" where
  "mem_find_key tenant key s = find_row (\<lambda>i. mi_tenant_id i = tenant \<and> mi_key i = ik_key key) (m_idempotency s)"

definition mem_store_key :: "uuid \<Rightarrow> idempotency_key option \<Rightarrow> issued_document \<Rightarrow> mem \<Rightarrow> mem" where
  "mem_store_key tenant key issued s =
     (case key of None \<Rightarrow> s
      | Some k \<Rightarrow> s\<lparr>m_idempotency := put_row (\<lambda>i. (mi_tenant_id i, mi_key i))
          \<lparr>mi_tenant_id = tenant, mi_key = ik_key k, mi_request_hash = ik_request_hash k, mi_issued = issued\<rparr>
          (m_idempotency s)\<rparr>)"

text \<open>The part of \<open>issue_outbound\<close> after the idempotency key was looked up.\<close>

definition mem_issue_new ::
  "(instant \<Rightarrow> string) \<Rightarrow> new_outbound_document \<Rightarrow> new_job \<Rightarrow> instant \<Rightarrow> issue_outcome step" where
  "mem_issue_new date_naive d job now s =
     (case mem_select_range d now s of
        None \<Rightarrow> (Inl (no_range_error d), s)
      | Some numbering \<Rightarrow>
          (case next_number date_naive numbering (no_requested_number d) now of
             Inl e \<Rightarrow> (Inl e, s)
           | Inr number \<Rightarrow>
               if mem_outbound_exists d number s then (Inl (Conflict (exists_conflict d number)), s)
               else
                 let s1 = s\<lparr>m_ranges := update_rows (\<lambda>r. r_id r = r_id numbering) (\<lambda>r. r\<lparr>r_current_counter := number\<rparr>) (m_ranges s)\<rparr>;
                     s2 = s1\<lparr>m_documents := put_row d_id (outbound_row d number (r_id numbering) now) (m_documents s1)\<rparr>;
                     issued = \<lparr>is_document_id = no_id d, is_document_number = number\<rparr>
                 in step_bind (mem_insert_job job s2) (\<lambda>_ s3.
                      (Inr (Created issued), mem_store_key (no_tenant_id d) (no_idempotency d) issued s3))))"

definition mem_issue_step ::
  "(instant \<Rightarrow> string) \<Rightarrow> new_outbound_document \<Rightarrow> new_job \<Rightarrow> instant \<Rightarrow> issue_outcome step" where
  "mem_issue_step date_naive d job now s =
     (case Option.bind (no_idempotency d) (\<lambda>key. map_option (Pair key) (mem_find_key (no_tenant_id d) key s)) of
        Some (key, i) \<Rightarrow>
          if mi_request_hash i \<noteq> ik_request_hash key then (Inl key_reused_error, s)
          else (Inr (Replayed (mi_issued i)), s)
      | None \<Rightarrow> mem_issue_new date_naive d job now s)"

definition mem_issue_outbound ::
  "(instant \<Rightarrow> string) \<Rightarrow> new_outbound_document \<Rightarrow> new_job \<Rightarrow> (mem world, issue_outcome) io" where
  "mem_issue_outbound date_naive d job = locked_step (mem_issue_step date_naive d job)"

definition mem_insert_inbound :: "new_inbound_document \<Rightarrow> (mem world, bool) io" where
  "mem_insert_inbound d = locked_step (\<lambda>now s.
     (if list_ex (\<lambda>x. d_tenant_id x = ni_tenant_id d \<and> d_direction x = Inbound \<and> d_issuer_nit x = ni_issuer_nit d \<and>
                      d_document_type x = ni_document_type d \<and> d_prefix x = ni_prefix d \<and>
                      d_document_number x = ni_document_number d) (m_documents s)
      then (Inr False, s)
      else (Inr True, s\<lparr>m_documents := put_row d_id (inbound_row d now) (m_documents s)\<rparr>)))"

definition mem_find_document :: "uuid \<Rightarrow> (mem world, document option) io" where
  "mem_find_document i = locked_step (\<lambda>now s. (Inr (mem_document i s), s))"

definition mem_find_tenant_document :: "uuid \<Rightarrow> uuid \<Rightarrow> (mem world, document option) io" where
  "mem_find_tenant_document tenant i = locked_step (\<lambda>now s.
     (Inr (case mem_document i s of None \<Rightarrow> None | Some d \<Rightarrow> if d_tenant_id d = tenant then Some d else None), s))"

definition mem_find_numbering_range :: "uuid \<Rightarrow> (mem world, numbering_range option) io" where
  "mem_find_numbering_range i = locked_step (\<lambda>now s. (Inr (mem_range i s), s))"

definition mem_store_artifacts :: "uuid \<Rightarrow> string \<Rightarrow> string \<Rightarrow> string \<Rightarrow> (mem world, unit) io" where
  "mem_store_artifacts i cufe original_xml signed_xml = locked_step (\<lambda>now s.
     (if mem_document i s = None then (Inl (no_document_error i), s)
      else (Inr (), s\<lparr>m_documents := update_rows (\<lambda>d. d_id d = i)
         (\<lambda>d. d\<lparr>d_cufe_cude := cufe, d_original_xml := Some original_xml, d_signed_xml := Some signed_xml\<rparr>)
         (m_documents s)\<rparr>)))"

definition mem_record_event :: "dian_event \<Rightarrow> (mem world, unit) io" where
  "mem_record_event e = locked_step (\<lambda>now s. (Inr (), s\<lparr>m_events := m_events s @ [e]\<rparr>))"

definition mem_find_events :: "uuid \<Rightarrow> (mem world, dian_event list) io" where
  "mem_find_events document = locked_step (\<lambda>now s. (Inr (mem_events_for document s), s))"

section \<open>Status changes\<close>

definition stored_delivery_of ::
  "uuid \<Rightarrow> uuid \<Rightarrow> uuid \<Rightarrow> string \<Rightarrow> json_object \<Rightarrow> instant \<Rightarrow> stored_delivery" where
  "stored_delivery_of i webhook document event_type data now =
     \<lparr>md_id = i, md_webhook_id = webhook, md_document_id = document, md_event_type = event_type, md_data = data,
      md_status = ''queued'', md_attempts = 0, md_max_attempts = max_delivery_attempts, md_run_at = now,
      md_locked_until = None, md_last_error = None, md_last_status_code = None, md_created_at = now\<rparr>"

definition mem_outbox :: "uuid \<Rightarrow> instant \<Rightarrow> document \<Rightarrow> document_status \<Rightarrow> mem \<Rightarrow> stored_delivery list" where
  "mem_outbox i now d to s =
     (case event_for to of
        None \<Rightarrow> []
      | Some event_type \<Rightarrow>
          let ws = subscribed (d_tenant_id d) event_type (m_webhooks s)
          in map2 (\<lambda>k w. stored_delivery_of k (w_id w) (d_id d) event_type (document_data d to) now)
               [i..<i + length ws] ws)"

definition mem_close_job :: "job_outcome option \<Rightarrow> unit step" where
  "mem_close_job outcome s =
     (case outcome of
        None \<Rightarrow> (Inr (), s)
      | Some (Complete i) \<Rightarrow> mem_change_job i (\<lambda>j. j\<lparr>mj_status := Done\<rparr>) s
      | Some (Bury i error) \<Rightarrow> mem_change_job i (\<lambda>j. j\<lparr>mj_status := Dead, mj_last_error := Some error\<rparr>) s)"

definition mem_transition_step :: "transition \<Rightarrow> instant \<Rightarrow> uuid \<Rightarrow> mem \<Rightarrow> bool result \<times> nat \<times> mem" where
  "mem_transition_step t now i s =
     (case mem_document (tr_document_id t) s of
        None \<Rightarrow> (Inl (no_document_error (tr_document_id t)), 0, s)
      | Some d \<Rightarrow>
          if \<not> can_transition_to (d_status d) (tr_to t) then (Inr False, 0, s)
          else
            let s1 = s\<lparr>m_documents := update_rows (\<lambda>x. d_id x = tr_document_id t) (\<lambda>x. x\<lparr>d_status := tr_to t\<rparr>) (m_documents s)\<rparr>;
                rows = mem_outbox i now d (tr_to t) s1;
                s2 = s1\<lparr>m_deliveries := fold (put_row md_id) rows (m_deliveries s1)\<rparr>;
                s3 = (case tr_event t of None \<Rightarrow> s2 | Some e \<Rightarrow> s2\<lparr>m_events := m_events s2 @ [e]\<rparr>);
                (r, s4) = step_bind (mem_close_job (tr_job t) s3) (\<lambda>_ v.
                  step_bind (case tr_follow_up t of None \<Rightarrow> (Inr (), v) | Some j \<Rightarrow> mem_insert_job j v) (\<lambda>_ u. (Inr True, u)))
            in (r, length rows, s4))"

definition mem_apply_transition :: "transition \<Rightarrow> (mem world, bool) io" where
  "mem_apply_transition t = locked_step_ids (mem_transition_step t)"

definition mem_documents_port :: "(instant \<Rightarrow> string) \<Rightarrow> mem world document_repository" where
  "mem_documents_port date_naive =
     \<lparr>issue_outbound = mem_issue_outbound date_naive, insert_inbound = mem_insert_inbound,
      find_document = mem_find_document, find_tenant_document = mem_find_tenant_document,
      find_numbering_range = mem_find_numbering_range, store_artifacts = mem_store_artifacts,
      record_event = mem_record_event, find_events = mem_find_events,
      apply_transition = mem_apply_transition\<rparr>"

end
