(* ===== verification/Mem_Queue.thy ===== *)
theory Mem_Queue
  imports Mem_Store Pg_Webhooks
begin

text \<open>
  The rest of \<open>core-domain/src/testing.rs\<close>: the job queue, the webhooks and the administration of the
  in-memory store. \<open>nil\<close> is the identifier that \<open>unwrap_or_default\<close> yields.
\<close>

definition nil_uuid :: uuid where "nil_uuid = 0"

text \<open>\<open>take(limit.max(0))\<close>.\<close>

definition take_limit :: "int \<Rightarrow> 'a list \<Rightarrow> 'a list" where
  "take_limit limit xs = take (nat (max limit 0)) xs"

section \<open>The job queue\<close>

definition mem_claimable :: "instant \<Rightarrow> stored_job \<Rightarrow> bool" where
  "mem_claimable now j \<longleftrightarrow>
     ((mj_status j = Queued \<and> mj_run_at j \<le> now) \<or>
      (mj_status j = Running \<and> (case mj_locked_until j of None \<Rightarrow> False | Some t \<Rightarrow> t < now))) \<and>
     mj_attempts j < mj_max_attempts j"

definition job_of_stored :: "stored_job \<Rightarrow> job" where
  "job_of_stored j =
     \<lparr>job_id = mj_id j, job_kind_of = mj_kind j, job_document_id = mj_document_id j,
      job_payload = mj_payload j, job_attempts = mj_attempts j, job_max_attempts = mj_max_attempts j\<rparr>"

definition mem_leased :: "instant \<Rightarrow> stored_job \<Rightarrow> stored_job" where
  "mem_leased until j =
     j\<lparr>mj_status := Running, mj_attempts := mj_attempts j + 1, mj_locked_until := Some until\<rparr>"

text \<open>The \<open>map\<close> over the chosen jobs, which changes each and returns it.\<close>

fun mem_take_jobs :: "instant \<Rightarrow> stored_job list \<Rightarrow> mem \<Rightarrow> job list \<times> mem" where
  "mem_take_jobs until [] s = ([], s)"
| "mem_take_jobs until (j # js) s =
     (case mem_take_jobs until js (s\<lparr>m_jobs := update_rows (\<lambda>x. mj_id x = mj_id j) (mem_leased until) (m_jobs s)\<rparr>) of
        (taken, t) \<Rightarrow> (job_of_stored (mem_leased until j) # taken, t))"

definition ten_minutes :: int where "ten_minutes = 600000000000"

definition mem_claim :: "string \<Rightarrow> int \<Rightarrow> int \<Rightarrow> (mem world, job list) io" where
  "mem_claim worker limit lease = locked_step (\<lambda>now s.
     (let ready = take_limit limit (sort_key mj_run_at (filter (mem_claimable now) (m_jobs s)))
      in case mem_take_jobs (now + from_std_or ten_minutes (nat lease)) ready s of (taken, t) \<Rightarrow> (Inr taken, t)))"

definition mem_complete :: "uuid \<Rightarrow> (mem world, unit) io" where
  "mem_complete i = locked_step (\<lambda>now. mem_change_job i (\<lambda>j. j\<lparr>mj_status := Done\<rparr>))"

definition mem_retry :: "uuid \<Rightarrow> instant \<Rightarrow> string \<Rightarrow> (mem world, unit) io" where
  "mem_retry i run_at error = locked_step (\<lambda>now. mem_change_job i
     (\<lambda>j. j\<lparr>mj_status := Queued, mj_run_at := run_at, mj_locked_until := None, mj_last_error := Some error\<rparr>))"

definition mem_release :: "uuid \<Rightarrow> instant \<Rightarrow> (mem world, unit) io" where
  "mem_release i run_at = locked_step (\<lambda>now. mem_change_job i
     (\<lambda>j. j\<lparr>mj_status := Queued, mj_run_at := run_at, mj_locked_until := None, mj_attempts := max (mj_attempts j - 1) 0\<rparr>))"

definition mem_bury :: "uuid \<Rightarrow> string \<Rightarrow> (mem world, unit) io" where
  "mem_bury i error = locked_step (\<lambda>now. mem_change_job i (\<lambda>j. j\<lparr>mj_status := Dead, mj_last_error := Some error\<rparr>))"

text \<open>The loop of \<open>requeue_contingency\<close>, with the identifiers of the new jobs from \<open>i\<close> on.\<close>

fun mem_requeue_each :: "instant \<Rightarrow> i32 \<Rightarrow> uuid \<Rightarrow> uuid list \<Rightarrow> unit step" where
  "mem_requeue_each now max_attempts i [] s = (Inr (), s)"
| "mem_requeue_each now max_attempts i (d # ds) s =
     (let s1 = s\<lparr>m_documents := update_rows (\<lambda>x. d_id x = d) (\<lambda>x. x\<lparr>d_status := Pending\<rparr>) (m_documents s)\<rparr>
      in step_bind (mem_insert_job (transmit_job i now d max_attempts) s1) (\<lambda>_ s2.
         mem_requeue_each now max_attempts (i + 1) ds s2))"

definition mem_requeue_step :: "int \<Rightarrow> i32 \<Rightarrow> instant \<Rightarrow> uuid \<Rightarrow> mem \<Rightarrow> nat result \<times> nat \<times> mem" where
  "mem_requeue_step limit max_attempts now i s =
     (let candidates = take_limit limit (filter (\<lambda>d. \<not> mem_has_active_job d Transmit s)
            (map d_id (filter (\<lambda>d. d_status d = ContingencyPending) (m_documents s))));
          (r, t) = step_bind (mem_requeue_each now max_attempts i candidates s) (\<lambda>_ u. (Inr (length candidates), u))
      in (r, length candidates, t))"

definition mem_requeue_contingency :: "int \<Rightarrow> i32 \<Rightarrow> (mem world, nat) io" where
  "mem_requeue_contingency limit max_attempts = locked_step_ids (mem_requeue_step limit max_attempts)"

definition depth_zero :: queue_depth where
  "depth_zero = \<lparr>q_ready = 0, q_scheduled = 0, q_running = 0, q_dead = 0\<rparr>"

definition count_job :: "instant \<Rightarrow> stored_job \<Rightarrow> queue_depth \<Rightarrow> queue_depth" where
  "count_job now j q =
     (case mj_status j of
        Queued \<Rightarrow> if mj_run_at j \<le> now then q\<lparr>q_ready := q_ready q + 1\<rparr> else q\<lparr>q_scheduled := q_scheduled q + 1\<rparr>
      | Running \<Rightarrow> q\<lparr>q_running := q_running q + 1\<rparr>
      | Dead \<Rightarrow> q\<lparr>q_dead := q_dead q + 1\<rparr>
      | Done \<Rightarrow> q)"

definition mem_queue_depth :: "(mem world, queue_depth) io" where
  "mem_queue_depth = locked_step (\<lambda>now s. (Inr (fold (count_job now) (m_jobs s) depth_zero), s))"

definition mem_jobs_port :: "mem world job_repository" where
  "mem_jobs_port =
     \<lparr>claim = mem_claim, complete = mem_complete, retry = mem_retry, release = mem_release, bury = mem_bury,
      requeue_contingency = mem_requeue_contingency, queue_depth_of = mem_queue_depth\<rparr>"

section \<open>Webhooks\<close>

definition mem_create_webhook :: "webhook \<Rightarrow> (mem world, unit) io" where
  "mem_create_webhook w = locked_step (\<lambda>now s. (Inr (), s\<lparr>m_webhooks := m_webhooks s @ [w]\<rparr>))"

definition mem_list_webhooks :: "uuid \<Rightarrow> (mem world, webhook list) io" where
  "mem_list_webhooks tenant = locked_step (\<lambda>now s. (Inr (filter (\<lambda>w. w_tenant_id w = tenant) (m_webhooks s)), s))"

definition mem_delete_webhook :: "uuid \<Rightarrow> uuid \<Rightarrow> (mem world, bool) io" where
  "mem_delete_webhook tenant i = locked_step (\<lambda>now s.
     (let kept = delete_rows (\<lambda>w. w_id w = i \<and> w_tenant_id w = tenant) (m_webhooks s);
          deleted = length kept < length (m_webhooks s)
      in (Inr deleted, s\<lparr>m_webhooks := kept, m_deliveries :=
            if deleted then delete_rows (\<lambda>d. md_webhook_id d = i) (m_deliveries s) else m_deliveries s\<rparr>)))"

definition mem_delivery_claimable :: "instant \<Rightarrow> stored_delivery \<Rightarrow> bool" where
  "mem_delivery_claimable now d \<longleftrightarrow>
     (md_status d = ''queued'' \<and> md_run_at d \<le> now) \<or>
     (md_status d = ''running'' \<and> (case md_locked_until d of None \<Rightarrow> False | Some t \<Rightarrow> t < now))"

definition mem_delivery_leased :: "instant \<Rightarrow> stored_delivery \<Rightarrow> stored_delivery" where
  "mem_delivery_leased until d =
     d\<lparr>md_status := ''running'', md_attempts := md_attempts d + 1, md_locked_until := Some until\<rparr>"

definition webhook_delivery_of_stored :: "webhook \<Rightarrow> stored_delivery \<Rightarrow> webhook_delivery" where
  "webhook_delivery_of_stored w d =
     \<lparr>wd_id = md_id d, wd_tenant_id = w_tenant_id w, wd_event_type = md_event_type d, wd_data = md_data d,
      wd_attempts = md_attempts d, wd_max_attempts = md_max_attempts d, wd_created_at = md_created_at d,
      wd_target_url = w_target_url w, wd_secret = w_webhook_secret w,
      wd_active = (w_subscription_status w = Sub_Active)\<rparr>"

fun mem_take_deliveries :: "instant \<Rightarrow> stored_delivery list \<Rightarrow> webhook_delivery list step" where
  "mem_take_deliveries until [] s = (Inr [], s)"
| "mem_take_deliveries until (d # ds) s =
     (let s1 = s\<lparr>m_deliveries := update_rows (\<lambda>x. md_id x = md_id d) (mem_delivery_leased until) (m_deliveries s)\<rparr>
      in case find_row (\<lambda>w. w_id w = md_webhook_id d) (m_webhooks s1) of
           None \<Rightarrow> (Inl (Internal ''delivery without webhook''), s1)
         | Some w \<Rightarrow> step_bind (mem_take_deliveries until ds s1) (\<lambda>taken t.
             (Inr (webhook_delivery_of_stored w (mem_delivery_leased until d) # taken), t)))"

definition lease_out_of_range :: domain_error where
  "lease_out_of_range = Internal ''Source duration value is out of range for the target type''"

definition mem_claim_deliveries :: "int \<Rightarrow> int \<Rightarrow> (mem world, webhook_delivery list) io" where
  "mem_claim_deliveries limit lease = locked_step (\<lambda>now s.
     (let ready = take_limit limit (sort_key md_run_at (filter (mem_delivery_claimable now) (m_deliveries s)))
      in case from_std (nat lease) of
           None \<Rightarrow> (Inl lease_out_of_range, s)
         | Some l \<Rightarrow> mem_take_deliveries (now + l) ready s))"

definition mem_change_delivery :: "uuid \<Rightarrow> (stored_delivery \<Rightarrow> stored_delivery) \<Rightarrow> unit step" where
  "mem_change_delivery i f s =
     (if find_row (\<lambda>d. md_id d = i) (m_deliveries s) = None
      then (Inl (NotFound (''delivery '' @ uuid_string i)), s)
      else (Inr (), s\<lparr>m_deliveries := update_rows (\<lambda>d. md_id d = i) f (m_deliveries s)\<rparr>))"

definition mem_complete_delivery :: "uuid \<Rightarrow> int \<Rightarrow> (mem world, unit) io" where
  "mem_complete_delivery i code = locked_step (\<lambda>now. mem_change_delivery i
     (\<lambda>d. d\<lparr>md_status := ''delivered'', md_locked_until := None, md_last_status_code := Some code\<rparr>))"

definition mem_retry_delivery :: "uuid \<Rightarrow> instant \<Rightarrow> string \<Rightarrow> int option \<Rightarrow> (mem world, unit) io" where
  "mem_retry_delivery i run_at error code = locked_step (\<lambda>now. mem_change_delivery i
     (\<lambda>d. d\<lparr>md_status := ''queued'', md_run_at := run_at, md_locked_until := None, md_last_error := Some error,
            md_last_status_code := code\<rparr>))"

definition mem_bury_delivery :: "uuid \<Rightarrow> string \<Rightarrow> int option \<Rightarrow> (mem world, unit) io" where
  "mem_bury_delivery i error code = locked_step (\<lambda>now. mem_change_delivery i
     (\<lambda>d. d\<lparr>md_status := ''dead'', md_locked_until := None, md_last_error := Some error, md_last_status_code := code\<rparr>))"

definition mem_webhooks_port :: "mem world webhook_repository" where
  "mem_webhooks_port =
     \<lparr>create_webhook = mem_create_webhook, list_webhooks = mem_list_webhooks, delete_webhook = mem_delete_webhook,
      claim_deliveries = mem_claim_deliveries, complete_delivery = mem_complete_delivery,
      retry_delivery = mem_retry_delivery, bury_delivery = mem_bury_delivery\<rparr>"

section \<open>Administration\<close>

definition mem_create_tenant :: "new_tenant \<Rightarrow> audit_entry \<Rightarrow> (mem world, tenant) io" where
  "mem_create_tenant t entry = locked_step (\<lambda>now s.
     (if list_ex (\<lambda>x. t_tax_id x = nt_tax_id t) (m_tenants s) then (Inl (Conflict (tenant_conflict t)), s)
      else (Inr (tenant_row t now), s\<lparr>m_tenants := m_tenants s @ [tenant_row t now], m_audit := m_audit s @ [entry]\<rparr>)))"

definition mem_find_tenant :: "uuid \<Rightarrow> (mem world, tenant option) io" where
  "mem_find_tenant i = locked_step (\<lambda>now s. (Inr (find_row (\<lambda>t. t_id t = i) (m_tenants s)), s))"

definition mem_create_api_key :: "api_key_record \<Rightarrow> audit_entry \<Rightarrow> (mem world, unit) io" where
  "mem_create_api_key k entry = locked_step (\<lambda>now s.
     (Inr (), s\<lparr>m_api_keys := m_api_keys s @ [k], m_audit := m_audit s @ [entry]\<rparr>))"

definition mem_list_api_keys :: "uuid \<Rightarrow> (mem world, api_key_record list) io" where
  "mem_list_api_keys tenant = locked_step (\<lambda>now s. (Inr (filter (\<lambda>k. k_tenant_id k = tenant) (m_api_keys s)), s))"

text \<open>\<open>iter_mut().find\<close> and an assignment: the first row that satisfies the test.\<close>

fun update_first :: "('r \<Rightarrow> bool) \<Rightarrow> ('r \<Rightarrow> 'r) \<Rightarrow> 'r list \<Rightarrow> 'r list" where
  "update_first P f [] = []"
| "update_first P f (r # rs) = (if P r then f r # rs else r # update_first P f rs)"

definition mem_revoke_api_key :: "uuid \<Rightarrow> uuid \<Rightarrow> audit_entry \<Rightarrow> (mem world, bool) io" where
  "mem_revoke_api_key tenant key entry = locked_step (\<lambda>now s.
     (let hit = (\<lambda>k. k_id k = key \<and> k_tenant_id k = tenant \<and> k_revoked_at k = None)
      in if find_row hit (m_api_keys s) = None then (Inr False, s)
         else (Inr True, s\<lparr>m_api_keys := update_first hit (\<lambda>k. k\<lparr>k_revoked_at := Some now\<rparr>) (m_api_keys s),
                          m_audit := m_audit s @ [entry]\<rparr>)))"

definition mem_activate_certificate :: "certificate \<Rightarrow> audit_entry \<Rightarrow> (mem world, unit) io" where
  "mem_activate_certificate c entry = locked_step (\<lambda>now s.
     (Inr (), s\<lparr>m_certificates := update_rows (\<lambda>x. c_tenant_id x = c_tenant_id c \<and> c_status x = C_Active)
                  (\<lambda>x. x\<lparr>c_status := C_Revoked\<rparr>) (m_certificates s) @ [c],
               m_audit := m_audit s @ [entry]\<rparr>))"

definition mem_add_numbering_range :: "numbering_range \<Rightarrow> audit_entry \<Rightarrow> (mem world, unit) io" where
  "mem_add_numbering_range r entry = locked_step (\<lambda>now s.
     (if list_ex (overlaps r) (m_ranges s) then (Inl overlap_error, s)
      else (Inr (), s\<lparr>m_ranges := put_row r_id r (m_ranges s), m_audit := m_audit s @ [entry]\<rparr>)))"

definition dead_job_of_stored :: "mem \<Rightarrow> stored_job \<Rightarrow> dead_job" where
  "dead_job_of_stored s j =
     \<lparr>dj_id = mj_id j, dj_kind = mj_kind j, dj_document_id = mj_document_id j,
      dj_tenant_id = (case mem_document (mj_document_id j) s of None \<Rightarrow> nil_uuid | Some d \<Rightarrow> d_tenant_id d),
      dj_attempts = mj_attempts j, dj_last_error = mj_last_error j, dj_failed_at = mj_run_at j\<rparr>"

definition mem_list_dead_jobs :: "int \<Rightarrow> (mem world, dead_job list) io" where
  "mem_list_dead_jobs limit = locked_step (\<lambda>now s.
     (Inr (map (dead_job_of_stored s) (take_limit limit (filter (\<lambda>j. mj_status j = Dead) (m_jobs s)))), s))"

definition mem_retry_dead_job_step :: "uuid \<Rightarrow> audit_entry \<Rightarrow> instant \<Rightarrow> bool step" where
  "mem_retry_dead_job_step job entry now s =
     (case find_row (\<lambda>j. mj_id j = job) (m_jobs s) of
        None \<Rightarrow> (Inr False, s)
      | Some j \<Rightarrow>
          if mj_status j \<noteq> Dead then (Inr False, s)
          else case mem_document (mj_document_id j) s of
                 None \<Rightarrow> (Inl (no_document_error (mj_document_id j)), s)
               | Some d \<Rightarrow>
                   if \<not> retry_allowed (mj_kind j) (d_status d)
                   then (Inl (not_applicable_error (d_status d) (mj_kind j)), s)
                   else if mem_has_active_job (mj_document_id j) (mj_kind j) s
                   then (Inl (Conflict active_job_message), s)
                   else (Inr True, s\<lparr>m_documents := update_rows (\<lambda>x. d_id x = mj_document_id j)
                            (\<lambda>x. x\<lparr>d_status := if mj_kind j = Transmit then Pending else d_status d\<rparr>) (m_documents s),
                          m_jobs := update_rows (\<lambda>x. mj_id x = job)
                            (\<lambda>x. x\<lparr>mj_status := Queued, mj_attempts := 0, mj_run_at := now, mj_locked_until := None\<rparr>) (m_jobs s),
                          m_audit := m_audit s @ [entry]\<rparr>))"

definition mem_retry_dead_job :: "uuid \<Rightarrow> audit_entry \<Rightarrow> (mem world, bool) io" where
  "mem_retry_dead_job job entry = locked_step (mem_retry_dead_job_step job entry)"

definition dead_delivery_of_stored :: "mem \<Rightarrow> stored_delivery \<Rightarrow> dead_delivery" where
  "dead_delivery_of_stored s d =
     \<lparr>dd_id = md_id d,
      dd_tenant_id = (case find_row (\<lambda>w. w_id w = md_webhook_id d) (m_webhooks s) of
                        None \<Rightarrow> nil_uuid | Some w \<Rightarrow> w_tenant_id w),
      dd_webhook_id = md_webhook_id d, dd_event_type = md_event_type d, dd_attempts = md_attempts d,
      dd_last_error = md_last_error d, dd_last_status_code = md_last_status_code d, dd_failed_at = md_run_at d\<rparr>"

definition mem_list_dead_deliveries :: "int \<Rightarrow> (mem world, dead_delivery list) io" where
  "mem_list_dead_deliveries limit = locked_step (\<lambda>now s.
     (Inr (map (dead_delivery_of_stored s) (take_limit limit (filter (\<lambda>d. md_status d = ''dead'') (m_deliveries s)))), s))"

definition mem_retry_dead_delivery :: "uuid \<Rightarrow> audit_entry \<Rightarrow> (mem world, bool) io" where
  "mem_retry_dead_delivery delivery entry = locked_step (\<lambda>now s.
     (case find_row (\<lambda>d. md_id d = delivery) (m_deliveries s) of
        None \<Rightarrow> (Inr False, s)
      | Some d \<Rightarrow>
          if md_status d \<noteq> ''dead'' then (Inr False, s)
          else (Inr True, s\<lparr>m_deliveries := update_rows (\<lambda>x. md_id x = delivery)
                   (\<lambda>x. x\<lparr>md_status := ''queued'', md_attempts := 0, md_run_at := now\<rparr>) (m_deliveries s),
                 m_audit := m_audit s @ [entry]\<rparr>)))"

definition mem_admin_port :: "mem world admin_repository" where
  "mem_admin_port =
     \<lparr>create_tenant = mem_create_tenant, find_tenant = mem_find_tenant, create_api_key = mem_create_api_key,
      list_api_keys = mem_list_api_keys, revoke_api_key = mem_revoke_api_key,
      activate_certificate = mem_activate_certificate, add_numbering_range = mem_add_numbering_range,
      list_dead_jobs = mem_list_dead_jobs, retry_dead_job = mem_retry_dead_job,
      list_dead_deliveries = mem_list_dead_deliveries, retry_dead_delivery = mem_retry_dead_delivery\<rparr>"

end
