(* ===== verification/Mem_Refinement.thy ===== *)
theory Mem_Refinement
  imports Mem_Queue Store_Properties
begin

text \<open>
  The in-memory store of the tests against the PostgreSQL store. \<open>mirrors\<close> relates their states; a call
  that PostgreSQL answers is answered alike in memory, and the states still correspond (\<open>sim_step\<close>). The
  locale carries one such step to sequences of calls. The states differ in what no port shows: the time
  of a lease that ended, the padding of a stored hash, the bookkeeping columns.
\<close>

section \<open>Sequences of calls\<close>

fun run_calls :: "('c \<Rightarrow> ('w, 'a) io) \<Rightarrow> 'c list \<Rightarrow> ('w, 'a list) io" where
  "run_calls act [] w = (Inr [], w)"
| "run_calls act (c # cs) w =
     (case act c w of
        (Inl e, v) \<Rightarrow> (Inl e, v)
      | (Inr a, v) \<Rightarrow> (case run_calls act cs v of (Inl e, u) \<Rightarrow> (Inl e, u) | (Inr as, u) \<Rightarrow> (Inr (a # as), u)))"

text \<open>A condition on each call, in the state in which the call is made.\<close>

fun suited_calls :: "('c \<Rightarrow> 'w \<Rightarrow> bool) \<Rightarrow> ('c \<Rightarrow> ('w, 'a) io) \<Rightarrow> 'c list \<Rightarrow> 'w \<Rightarrow> bool" where
  "suited_calls ok act [] w \<longleftrightarrow> True"
| "suited_calls ok act (c # cs) w \<longleftrightarrow> ok c w \<and> suited_calls ok act cs (snd (act c w))"

locale forward_simulation =
  fixes conc :: "'c \<Rightarrow> ('v, 'a) io"
    and abst :: "'c \<Rightarrow> ('w, 'a) io"
    and rel :: "'v \<Rightarrow> 'w \<Rightarrow> bool"
    and ok :: "'c \<Rightarrow> 'v \<Rightarrow> bool"
  assumes step: "rel v w \<Longrightarrow> ok c v \<Longrightarrow> conc c v = (Inr a, v') \<Longrightarrow> \<exists>w'. abst c w = (Inr a, w') \<and> rel v' w'"
begin

lemma runs:
  "rel v w \<Longrightarrow> suited_calls ok conc cs v \<Longrightarrow> run_calls conc cs v = (Inr as, v') \<Longrightarrow>
   \<exists>w'. run_calls abst cs w = (Inr as, w') \<and> rel v' w'"
proof (induction cs arbitrary: v w as)
  case (Cons c cs)
  from Cons.prems(3) obtain a u bs where
    call: "conc c v = (Inr a, u)" and rest: "run_calls conc cs u = (Inr bs, v')" and as: "as = a # bs"
    by (auto split: prod.splits sum.splits)
  from Cons.prems(2) call have ok: "ok c v" "suited_calls ok conc cs u" by simp_all
  from step[OF Cons.prems(1) ok(1) call] obtain x where x: "abst c w = (Inr a, x)" "rel u x" by blast
  from Cons.IH[OF x(2) ok(2) rest] obtain w' where "run_calls abst cs x = (Inr bs, w')" "rel v' w'" by blast
  with x as show ?case by auto
qed simp

end

section \<open>The calls of the document and job ports\<close>

datatype store_call =
    Call_issue new_outbound_document new_job
  | Call_insert_inbound new_inbound_document
  | Call_find_document uuid
  | Call_find_tenant_document uuid uuid
  | Call_find_range uuid
  | Call_store_artifacts uuid string string string
  | Call_record_event dian_event
  | Call_transition transition
  | Call_complete uuid
  | Call_retry uuid instant string
  | Call_release uuid instant
  | Call_bury uuid string
  | Call_queue_depth

datatype store_answer =
    Answer_unit
  | Answer_bool bool
  | Answer_issue issue_outcome
  | Answer_document "document option"
  | Answer_range "numbering_range option"
  | Answer_depth queue_depth

definition answering :: "('a \<Rightarrow> store_answer) \<Rightarrow> ('w, 'a) io \<Rightarrow> ('w, store_answer) io" where
  "answering f m = io_bind m (\<lambda>a. io_return (f a))"

fun call_store :: "'w document_repository \<Rightarrow> 'w job_repository \<Rightarrow> store_call \<Rightarrow> ('w, store_answer) io" where
  "call_store D J (Call_issue d j) = answering Answer_issue (issue_outbound D d j)"
| "call_store D J (Call_insert_inbound d) = answering Answer_bool (insert_inbound D d)"
| "call_store D J (Call_find_document i) = answering Answer_document (find_document D i)"
| "call_store D J (Call_find_tenant_document t i) = answering Answer_document (find_tenant_document D t i)"
| "call_store D J (Call_find_range i) = answering Answer_range (find_numbering_range D i)"
| "call_store D J (Call_store_artifacts i c x y) = answering (\<lambda>_. Answer_unit) (store_artifacts D i c x y)"
| "call_store D J (Call_record_event e) = answering (\<lambda>_. Answer_unit) (record_event D e)"
| "call_store D J (Call_transition t) = answering Answer_bool (apply_transition D t)"
| "call_store D J (Call_complete i) = answering (\<lambda>_. Answer_unit) (complete J i)"
| "call_store D J (Call_retry i t e) = answering (\<lambda>_. Answer_unit) (retry J i t e)"
| "call_store D J (Call_release i t) = answering (\<lambda>_. Answer_unit) (release J i t)"
| "call_store D J (Call_bury i e) = answering (\<lambda>_. Answer_unit) (bury J i e)"
| "call_store D J Call_queue_depth = answering Answer_depth (queue_depth_of J)"

section \<open>Corresponding states\<close>

definition lease_shown :: "job_status \<Rightarrow> instant option \<Rightarrow> instant option" where
  "lease_shown st t = (if st = Running then t else None)"

definition job_shown :: "stored_job \<Rightarrow> stored_job" where
  "job_shown j = j\<lparr>mj_locked_until := lease_shown (mj_status j) (mj_locked_until j)\<rparr>"

definition job_of_table :: "job_row \<Rightarrow> stored_job" where
  "job_of_table j =
     \<lparr>mj_id = jr_id j, mj_kind = jr_kind j, mj_document_id = jr_document_id j, mj_payload = jr_payload j,
      mj_status = jr_status j, mj_attempts = jr_attempts j, mj_max_attempts = jr_max_attempts j,
      mj_run_at = jr_run_at j, mj_locked_until = lease_shown (jr_status j) (jr_locked_until j),
      mj_last_error = jr_last_error j\<rparr>"

definition key_of_table :: "idempotency_row \<Rightarrow> stored_key" where
  "key_of_table i =
     \<lparr>mi_tenant_id = ir_tenant_id i, mi_key = ir_key i, mi_request_hash = trim (ir_request_hash i),
      mi_issued = issued_of i\<rparr>"

fun delivery_status_text :: "delivery_status \<Rightarrow> string" where
  "delivery_status_text Del_Queued = ''queued''"
| "delivery_status_text Del_Running = ''running''"
| "delivery_status_text Del_Delivered = ''delivered''"
| "delivery_status_text Del_Dead = ''dead''"

definition delivery_of_table :: "delivery_row \<Rightarrow> stored_delivery" where
  "delivery_of_table d =
     \<lparr>md_id = dl_id d, md_webhook_id = dl_webhook_id d, md_document_id = dl_document_id d,
      md_event_type = dl_event_type d, md_data = dl_data d, md_status = delivery_status_text (dl_status d),
      md_attempts = dl_attempts d, md_max_attempts = dl_max_attempts d, md_run_at = dl_run_at d,
      md_locked_until = dl_locked_until d, md_last_error = dl_last_error d,
      md_last_status_code = dl_last_status_code d, md_created_at = dl_created_at d\<rparr>"

definition mirrors :: "pg \<Rightarrow> mem \<Rightarrow> bool" where
  "mirrors s m \<longleftrightarrow>
     m_tenants m = tenants s \<and> m_certificates m = certificates s \<and> m_ranges m = ranges s \<and>
     m_documents m = documents s \<and> m_events m = events s \<and>
     map job_shown (m_jobs m) = map job_of_table (jobs s) \<and>
     m_idempotency m = map key_of_table (idempotency s) \<and> m_webhooks m = webhooks s \<and>
     m_deliveries m = map delivery_of_table (deliveries s) \<and> m_api_keys m = api_keys s \<and>
     m_audit m = map ar_entry (audit_log s)"

text \<open>
  The conditions under which the two pick the same rows: document identifiers are distinct, issued
  documents carry no issuer, and two resolutions for the same numbers do not overlap.
\<close>

definition comparable :: "pg \<Rightarrow> bool" where
  "comparable s \<longleftrightarrow> unique_on d_id (documents s) \<and>
     (\<forall>d \<in> set (documents s). d_direction d = Outbound \<longrightarrow> d_issuer_nit d = []) \<and>
     (\<forall>r \<in> set (ranges s). r_valid_date_from r < r_valid_date_to r) \<and>
     (\<forall>r \<in> set (ranges s). \<forall>q \<in> set (ranges s). r_id r \<noteq> r_id q \<longrightarrow> \<not> overlaps r q)"

definition agree :: "pg world \<Rightarrow> mem world \<Rightarrow> bool" where
  "agree v w \<longleftrightarrow> alone v \<and> clock w = clock v \<and> next_uuid w = next_uuid v \<and> comparable (db v) \<and>
     mirrors (db v) (db w)"

text \<open>Calls that the in-memory store would refuse and PostgreSQL takes: they name a missing row.\<close>

definition closes_known_job :: "pg \<Rightarrow> job_outcome option \<Rightarrow> bool" where
  "closes_known_job s outcome =
     (case outcome of None \<Rightarrow> True | Some (Complete i) \<Rightarrow> i \<in> jr_id ` set (jobs s)
      | Some (Bury i e) \<Rightarrow> i \<in> jr_id ` set (jobs s))"

fun call_ok :: "store_call \<Rightarrow> pg world \<Rightarrow> bool" where
  "call_ok (Call_issue d j) v =
     (case no_idempotency d of None \<Rightarrow> True | Some k \<Rightarrow> trim (ik_request_hash k) = ik_request_hash k)"
| "call_ok (Call_transition t) v =
     (tr_document_id t \<in> d_id ` set (documents (db v)) \<and> closes_known_job (db v) (tr_job t))"
| "call_ok (Call_complete i) v = (i \<in> jr_id ` set (jobs (db v)))"
| "call_ok (Call_retry i t e) v = (i \<in> jr_id ` set (jobs (db v)))"
| "call_ok (Call_release i t) v = (i \<in> jr_id ` set (jobs (db v)))"
| "call_ok (Call_bury i e) v = (i \<in> jr_id ` set (jobs (db v)))"
| "call_ok _ v = True"

section \<open>Rows that correspond\<close>

lemma job_shown_fields [simp]:
  "mj_id (job_shown j) = mj_id j" "mj_kind (job_shown j) = mj_kind j"
  "mj_document_id (job_shown j) = mj_document_id j" "mj_status (job_shown j) = mj_status j"
  "mj_run_at (job_shown j) = mj_run_at j"
  by (simp_all add: job_shown_def)

lemma job_of_table_fields [simp]:
  "mj_id (job_of_table j) = jr_id j" "mj_kind (job_of_table j) = jr_kind j"
  "mj_document_id (job_of_table j) = jr_document_id j" "mj_status (job_of_table j) = jr_status j"
  "mj_run_at (job_of_table j) = jr_run_at j"
  by (simp_all add: job_of_table_def)

lemma mirrors_fields:
  assumes "mirrors s m"
  shows "m_ranges m = ranges s" "m_documents m = documents s" "m_events m = events s"
    "map job_shown (m_jobs m) = map job_of_table (jobs s)"
    "m_idempotency m = map key_of_table (idempotency s)" "m_webhooks m = webhooks s"
    "m_deliveries m = map delivery_of_table (deliveries s)"
  using assms by (simp_all add: mirrors_def)

text \<open>Two lists of jobs that look alike answer a test on the shown fields alike.\<close>

lemma shown_jobs_exist:
  assumes "map job_shown js = map job_of_table rs" and "\<And>j. P (job_shown j) = P j"
  shows "list_ex P js = list_ex (\<lambda>r. P (job_of_table r)) rs"
proof -
  have "list_ex P js = list_ex P (map job_shown js)"
    using assms(2) by (simp add: list_ex_iff)
  then show ?thesis using assms(1) by (simp add: list_ex_iff)
qed

lemma shown_jobs_known:
  assumes "map job_shown js = map job_of_table rs"
  shows "(find_row (\<lambda>j. mj_id j = i) js = None) = (i \<notin> jr_id ` set rs)"
proof -
  have "map mj_id js = map mj_id (map job_shown js)" by simp
  also have "\<dots> = map jr_id rs" unfolding assms by simp
  finally have "mj_id ` set js = jr_id ` set rs" by (metis set_map)
  then have "(i \<in> mj_id ` set js) = (i \<in> jr_id ` set rs)" by simp
  then show ?thesis by (auto simp: find_row_None_iff image_iff)
qed

lemma shown_jobs_update:
  assumes "map job_shown js = map job_of_table rs"
    and "\<And>j r. job_shown j = job_of_table r \<Longrightarrow> job_shown (f j) = job_of_table (g r)"
  shows "map job_shown (update_rows (\<lambda>j. mj_id j = i) f js) =
    map job_of_table (update_rows (\<lambda>r. jr_id r = i) g rs)"
  using assms(1)
proof (induction js arbitrary: rs)
  case (Cons j js)
  then obtain r rs' where rs: "rs = r # rs'" "job_shown j = job_of_table r"
    "map job_shown js = map job_of_table rs'" by (auto simp: Cons_eq_map_conv)
  from rs(2) have "mj_id j = jr_id r" by (metis job_shown_fields(1) job_of_table_fields(1))
  with rs Cons.IH[OF rs(3)] assms(2)[OF rs(2)] show ?case by simp
qed simp


section \<open>Steps\<close>

lemma answering_Inr:
  "answering f m w = (Inr b, w') \<longleftrightarrow> (\<exists>a. m w = (Inr a, w') \<and> b = f a)"
  by (auto simp: answering_def io_bind_def split: prod.splits sum.splits)

lemma agree_fields:
  assumes "agree v w"
  shows "alone v" "clock w = clock v" "next_uuid w = next_uuid v" "comparable (db v)" "mirrors (db v) (db w)"
  using assms by (simp_all add: agree_def)

text \<open>A read of both stores, and a transaction against a locked step.\<close>

lemma sim_query:
  assumes "agree v w" "query f v = (Inr a, v')"
    and "\<And>now s m. comparable s \<Longrightarrow> mirrors s m \<Longrightarrow> g now m = (Inr (f now s), m)"
  shows "\<exists>w'. locked_step g w = (Inr a, w') \<and> agree v' w'"
proof -
  note ag = agree_fields[OF assms(1)]
  have "v' = v" "a = f (clock v) (db v)" using assms(2) query_alone[OF ag(1), of f] by auto
  with assms(3)[OF ag(4,5), of "clock w"] ag assms(1) show ?thesis
    by (simp add: locked_step_def agree_def)
qed

lemma sim_tx:
  assumes "agree v w" "tx body v = (Inr a, v')"
    and "\<And>now s'. body now (db v) = Inr (a, s') \<Longrightarrow>
           \<exists>m'. f now (db w) = (Inr a, m') \<and> comparable s' \<and> mirrors s' m'"
  shows "\<exists>w'. locked_step f w = (Inr a, w') \<and> agree v' w'"
proof -
  note ag = agree_fields[OF assms(1)]
  from assms(2) obtain s' where s': "body (clock v) (db v) = Inr (a, s')" "v' = v\<lparr>db := s'\<rparr>"
    by (auto simp: tx_alone[OF ag(1)] split: sum.splits prod.splits)
  from assms(3)[OF s'(1)] obtain m' where "f (clock v) (db w) = (Inr a, m')" "comparable s'" "mirrors s' m'" by blast
  with ag s'(2) show ?thesis by (simp add: locked_step_def agree_def alone_def)
qed

lemma sim_tx_ids:
  assumes "agree v w" "tx_ids body v = (Inr a, v')"
    and "\<And>now i n s'. body now i (db v) = Inr (a, n, s') \<Longrightarrow>
           \<exists>m'. f now i (db w) = (Inr a, n, m') \<and> comparable s' \<and> mirrors s' m'"
  shows "\<exists>w'. locked_step_ids f w = (Inr a, w') \<and> agree v' w'"
proof -
  note ag = agree_fields[OF assms(1)]
  from assms(2) obtain n s' where s': "body (clock v) (next_uuid v) (db v) = Inr (a, n, s')"
    "v' = v\<lparr>next_uuid := next_uuid v + n, db := s'\<rparr>"
    by (auto simp: tx_ids_alone[OF ag(1)] split: sum.splits prod.splits)
  from assms(3)[OF s'(1)] obtain m' where
    "f (clock v) (next_uuid v) (db w) = (Inr a, n, m')" "comparable s'" "mirrors s' m'" by blast
  with ag s'(2) show ?thesis by (simp add: locked_step_ids_def agree_def alone_def)
qed

text \<open>Statements that leave documents and ranges alone.\<close>

lemma comparable_cong:
  "documents t = documents s \<Longrightarrow> ranges t = ranges s \<Longrightarrow> comparable t = comparable s"
  by (simp add: comparable_def)

lemma sim_insert_event:
  assumes "insert_event e s = Inr s'" "comparable s" "mirrors s m"
  shows "comparable s'" "mirrors s' (m\<lparr>m_events := m_events m @ [e]\<rparr>)"
  using assms by (auto simp: insert_event_def map_err_Inr_iff put_Inr mirrors_def comparable_def)

lemma sim_insert_job:
  assumes "insert_job now j s = Inr s'" "comparable s" "mirrors s m"
  shows "\<exists>m'. mem_insert_job j m = (Inr (), m') \<and> comparable s' \<and> mirrors s' m'"
proof -
  from assms(1) have s': "s' = s\<lparr>jobs := jobs s @ [new_job_row now j]\<rparr>"
    and ok: "jobs_ok (jobs s @ [new_job_row now j])"
    by (auto simp: insert_job_def map_err_Inr_iff put_Inr)
  note jobs_alike = mirrors_fields(4)[OF assms(3)]
  have "\<not> list_ex (\<lambda>r. jr_document_id r = n_document_id j \<and> jr_kind r = n_kind j \<and>
      (jr_status r = Queued \<or> jr_status r = Running)) (jobs s)"
    using ok by (force simp: jobs_ok_def one_active_job_def active_jobs_def new_job_row_def list_ex_iff)
  then have free: "\<not> mem_has_active_job (n_document_id j) (n_kind j) m"
    unfolding mem_has_active_job_def by (subst shown_jobs_exist[OF jobs_alike]) simp_all
  have "n_id j \<notin> jr_id ` set (jobs s)" using ok by (simp add: jobs_ok_def new_job_row_def)
  then have "find_row (\<lambda>x. mj_id x = n_id j) (m_jobs m) = None"
    by (simp add: shown_jobs_known[OF jobs_alike])
  then have "n_id j \<notin> mj_id ` set (m_jobs m)" by (auto simp: find_row_None_iff)
  with free have "mem_insert_job j m = (Inr (), m\<lparr>m_jobs := m_jobs m @ [stored_job_of j]\<rparr>)"
    by (simp add: mem_insert_job_def put_row_def stored_job_of_def)
  moreover have "comparable s'" using assms(2) s' by (simp add: comparable_def)
  moreover have "mirrors s' (m\<lparr>m_jobs := m_jobs m @ [stored_job_of j]\<rparr>)"
    using assms(3) s'
    by (simp add: mirrors_def stored_job_of_def new_job_row_def job_shown_def job_of_table_def lease_shown_def)
  ultimately show ?thesis by blast
qed

lemma sim_change_job:
  assumes "update_jobs now (\<lambda>j. jr_id j = i) g s = Inr s'" "comparable s" "mirrors s m"
    and "i \<in> jr_id ` set (jobs s)"
    and "\<And>j r. job_shown j = job_of_table r \<Longrightarrow> job_shown (f j) = job_of_table (g r)"
  shows "\<exists>m'. mem_change_job i f m = (Inr (), m') \<and> comparable s' \<and> mirrors s' m'"
proof -
  let ?g = "\<lambda>j. (g j)\<lparr>jr_updated_at := now\<rparr>"
  note jobs_alike = mirrors_fields(4)[OF assms(3)]
  from assms(1) have s': "s' = s\<lparr>jobs := update_rows (\<lambda>j. jr_id j = i) ?g (jobs s)\<rparr>"
    by (auto simp: update_jobs_def put_Inr)
  have "mem_change_job i f m = (Inr (), m\<lparr>m_jobs := update_rows (\<lambda>j. mj_id j = i) f (m_jobs m)\<rparr>)"
    using assms(4) by (auto simp: mem_change_job_def shown_jobs_known[OF jobs_alike])
  moreover have "job_shown (f j) = job_of_table (?g r)" if "job_shown j = job_of_table r" for j r
    using assms(5)[OF that] by (simp add: job_of_table_def)
  then have "map job_shown (update_rows (\<lambda>j. mj_id j = i) f (m_jobs m)) =
      map job_of_table (update_rows (\<lambda>r. jr_id r = i) ?g (jobs s))"
    by (rule shown_jobs_update[OF jobs_alike])
  ultimately show ?thesis using assms(2,3) s' by (auto simp: mirrors_def comparable_def)
qed

lemma sim_update_job:
  assumes "agree v w" "tx (update_job_tx i g) v = (Inr a, v')" "i \<in> jr_id ` set (jobs (db v))"
    and "\<And>j r. job_shown j = job_of_table r \<Longrightarrow> job_shown (f j) = job_of_table (g r)"
  shows "\<exists>w'. locked_step (\<lambda>now. mem_change_job i f) w = (Inr a, w') \<and> agree v' w'"
proof (rule sim_tx[OF assms(1,2)])
  fix now s' assume "update_job_tx i g now (db v) = Inr (a, s')"
  then have u: "update_jobs now (\<lambda>j. jr_id j = i) g (db v) = Inr s'"
    by (auto simp: update_job_tx_def bind_ok_Inr_iff map_err_Inr_iff)
  from sim_change_job[OF u agree_fields(4,5)[OF assms(1)] assms(3,4)]
  show "\<exists>m'. mem_change_job i f (db w) = (Inr a, m') \<and> comparable s' \<and> mirrors s' m'" by simp
qed

text \<open>The four ways a job is closed or put back.\<close>

lemma job_changes_shown:
  assumes "job_shown j = job_of_table r"
  shows "job_shown (j\<lparr>mj_status := Done\<rparr>) = job_of_table (job_done r)"
    "job_shown (j\<lparr>mj_status := Dead, mj_last_error := Some e\<rparr>) = job_of_table (job_buried e r)"
    "job_shown (j\<lparr>mj_status := Queued, mj_run_at := t, mj_locked_until := None, mj_last_error := Some e\<rparr>) =
       job_of_table ((job_requeued t r)\<lparr>jr_last_error := Some e\<rparr>)"
    "job_shown (j\<lparr>mj_status := Queued, mj_run_at := t, mj_locked_until := None,
         mj_attempts := max (mj_attempts j - 1) 0\<rparr>) =
       job_of_table ((job_requeued t r)\<lparr>jr_attempts := max (jr_attempts r - 1) 0\<rparr>)"
  using assms
  by (cases j; cases r; simp add: job_shown_def job_of_table_def job_done_def job_buried_def job_requeued_def
        lease_shown_def)+


lemma sim_close_job:
  assumes "close_job now outcome s = Inr s'" "comparable s" "mirrors s m" "closes_known_job s outcome"
  shows "\<exists>m'. mem_close_job outcome m = (Inr (), m') \<and> comparable s' \<and> mirrors s' m'"
proof (cases outcome)
  case None
  with assms show ?thesis by (simp add: close_job_def mem_close_job_def)
next
  case (Some oc)
  show ?thesis
  proof (cases oc)
    case (Complete i)
    with assms Some have "update_jobs now (\<lambda>j. jr_id j = i) job_done s = Inr s'" "i \<in> jr_id ` set (jobs s)"
      by (simp_all add: close_job_def closes_known_job_def map_err_Inr_iff)
    from sim_change_job[OF this(1) assms(2,3) this(2) job_changes_shown(1)] Complete Some show ?thesis
      by (simp add: mem_close_job_def)
  next
    case (Bury i e)
    with assms Some have "update_jobs now (\<lambda>j. jr_id j = i) (job_buried e) s = Inr s'" "i \<in> jr_id ` set (jobs s)"
      by (simp_all add: close_job_def closes_known_job_def map_err_Inr_iff)
    from sim_change_job[OF this(1) assms(2,3) this(2) job_changes_shown(2)] Bury Some show ?thesis
      by (simp add: mem_close_job_def)
  qed
qed

section \<open>Rows found and added\<close>

lemma put_row_new: "key r \<notin> key ` set rs \<Longrightarrow> put_row key r rs = rs @ [r]"
  by (simp add: put_row_def)

lemma fold_put_row_new: "unique_on key (rs @ new) \<Longrightarrow> fold (put_row key) new rs = rs @ new"
proof (induction new arbitrary: rs)
  case (Cons r new)
  then have "put_row key r rs = rs @ [r]" by (intro put_row_new) (auto simp: unique_on_def)
  with Cons.IH[of "rs @ [r]"] Cons.prems show ?case by simp
qed simp

lemma outbox_alike:
  "m_webhooks m = webhooks s \<Longrightarrow> mem_outbox i now d to m = map delivery_of_table (outbox_rows i now d to s)"
  by (simp add: mem_outbox_def outbox_rows_def Let_def delivery_of_table_def delivery_row_of_def
      stored_delivery_of_def case_prod_unfold split: option.splits)

lemma delivery_of_table_id [simp]: "md_id (delivery_of_table d) = dl_id d"
  by (simp add: delivery_of_table_def)

lemma sim_put_deliveries:
  assumes "put_deliveries (deliveries s @ rows) s = Inr s'" "comparable s" "mirrors s m"
  shows "comparable s'"
    "mirrors s' (m\<lparr>m_deliveries := fold (put_row md_id) (map delivery_of_table rows) (m_deliveries m)\<rparr>)"
proof -
  from assms(1) have s': "s' = s\<lparr>deliveries := deliveries s @ rows\<rparr>" and "unique_on dl_id (deliveries s @ rows)"
    by (auto simp: put_Inr)
  then have "unique_on md_id (m_deliveries m @ map delivery_of_table rows)"
    using mirrors_fields(7)[OF assms(3)] by (simp add: unique_on_def comp_def)
  then have "fold (put_row md_id) (map delivery_of_table rows) (m_deliveries m) = m_deliveries m @ map delivery_of_table rows"
    by (rule fold_put_row_new)
  with s' assms(2,3) show "comparable s'"
    "mirrors s' (m\<lparr>m_deliveries := fold (put_row md_id) (map delivery_of_table rows) (m_deliveries m)\<rparr>)"
    by (simp_all add: mirrors_def comparable_def)
qed

section \<open>A status change\<close>

lemma comparable_update_documents:
  assumes "comparable s" "\<And>d. P d \<Longrightarrow> d_id (f d) = d_id d"
    "\<And>d. P d \<Longrightarrow> d_direction (f d) = d_direction d \<and> d_issuer_nit (f d) = d_issuer_nit d"
  shows "comparable (s\<lparr>documents := update_rows P f (documents s)\<rparr>)"
  using assms by (auto simp: comparable_def unique_on_update_rows in_update_rows split: if_splits)

lemma sim_transition:
  assumes "transition_tx t now i s = Inr (a, n, s')" "comparable s" "mirrors s m"
    "tr_document_id t \<in> d_id ` set (documents s)" "closes_known_job s (tr_job t)"
  shows "\<exists>m'. mem_transition_step t now i m = (Inr a, n, m') \<and> comparable s' \<and> mirrors s' m'"
proof -
  note un = assms(2)[unfolded comparable_def, THEN conjunct1]
  obtain d where d: "find_row (\<lambda>d. d_id d = tr_document_id t) (documents s) = Some d"
    using assms(4) by (metis (mono_tags, lifting) find_row_None_iff image_iff not_Some_eq)
  note md = d[folded mirrors_fields(2)[OF assms(3)], folded mem_document_def]
  note pick = find_row_unique_and[OF un, of "tr_document_id t" "\<lambda>d. d_status d \<in> set (allowed_predecessors (tr_to t))",
      unfolded d option.case]
  show ?thesis
  proof (cases "can_transition_to (d_status d) (tr_to t)")
    case False
    with assms pick md show ?thesis
      by (auto simp: transition_tx_def mem_transition_step_def can_transition_to_def)
  next
    case True
    let ?f = "\<lambda>d. d\<lparr>d_status := tr_to t\<rparr>"
    note same = update_rows_unique_and[OF un d, of "\<lambda>d. d_status d \<in> set (allowed_predecessors (tr_to t))" ?f]
    define s1 where "s1 = s\<lparr>documents := update_rows (\<lambda>d. d_id d = tr_document_id t) ?f (documents s)\<rparr>"
    define m1 where "m1 = m\<lparr>m_documents := update_rows (\<lambda>d. d_id d = tr_document_id t) ?f (m_documents m)\<rparr>"
    define rows where "rows = outbox_rows i now d (tr_to t) s1"
    from assms(1) True pick same obtain s1' s2 s3 s4 s5 where
      1: "put_documents (documents s1) s = Inr s1'" and
      2: "put_deliveries (deliveries s1' @ outbox_rows i now d (tr_to t) s1') s1' = Inr s2" and
      3: "(case tr_event t of None \<Rightarrow> Inr s2 | Some e \<Rightarrow> insert_event e s2) = Inr s3" and
      4: "close_job now (tr_job t) s3 = Inr s4" and
      5: "(case tr_follow_up t of None \<Rightarrow> Inr s4 | Some j \<Rightarrow> insert_job now j s4) = Inr s5" and
      out: "a = True" "n = length (outbox_rows i now d (tr_to t) s1')" "s' = s5"
      by (auto simp: transition_tx_def can_transition_to_def bind_ok_Inr_iff map_err_Inr_iff Let_def s1_def)
    have "s1' = s1" using 1 by (simp add: put_Inr s1_def)
    note 2 = 2[unfolded this, folded rows_def] and out = out[unfolded this, folded rows_def]
    have r1: "comparable s1" "mirrors s1 m1"
      using assms(2,3) by (simp_all add: s1_def m1_def comparable_update_documents) (simp add: mirrors_def)
    have rows: "mem_outbox i now d (tr_to t) m1 = map delivery_of_table rows"
      unfolding rows_def by (rule outbox_alike) (rule mirrors_fields(6)[OF r1(2)])
    define m2 where "m2 = m1\<lparr>m_deliveries := fold (put_row md_id) (map delivery_of_table rows) (m_deliveries m1)\<rparr>"
    note r2 = sim_put_deliveries[OF 2 r1, folded m2_def]
    define m3 where "m3 = (case tr_event t of None \<Rightarrow> m2 | Some e \<Rightarrow> m2\<lparr>m_events := m_events m2 @ [e]\<rparr>)"
    have r3: "comparable s3" "mirrors s3 m3"
      using 3 r2 sim_insert_event[of _ s2 s3 m2] by (auto simp: m3_def split: option.splits)
    have "jobs s3 = jobs s"
      using 2 3 by (auto simp: s1_def put_Inr insert_event_def map_err_Inr_iff split: option.splits)
    with assms(5) have "closes_known_job s3 (tr_job t)"
      by (simp add: closes_known_job_def split: option.splits job_outcome.splits)
    from sim_close_job[OF 4 r3 this] obtain m4 where
      m4: "mem_close_job (tr_job t) m3 = (Inr (), m4)" "comparable s4" "mirrors s4 m4" by blast
    have "\<exists>m5. (case tr_follow_up t of None \<Rightarrow> (Inr (), m4) | Some j \<Rightarrow> mem_insert_job j m4) = (Inr (), m5) \<and>
        comparable s5 \<and> mirrors s5 m5"
      using 5 m4(2,3) sim_insert_job[of now _ s4 s5 m4] by (cases "tr_follow_up t") auto
    then obtain m5 where
      m5: "(case tr_follow_up t of None \<Rightarrow> (Inr (), m4) | Some j \<Rightarrow> mem_insert_job j m4) = (Inr (), m5)"
        "comparable s5" "mirrors s5 m5" by blast
    have "mem_transition_step t now i m = (Inr True, length rows, m5)"
      using True md m4(1) m5(1)
      by (cases "tr_event t")
        (simp_all add: mem_transition_step_def Let_def step_bind_def m3_def m2_def m1_def rows[unfolded m1_def])
    with m5 out show ?thesis by simp
  qed
qed


section \<open>Issuing\<close>

lemma last_max_None: "last_max k rs = None \<longleftrightarrow> rs = []"
  by (cases rs) (auto split: option.splits)

lemma last_max_greatest: "last_max k rs = Some r \<Longrightarrow> r \<in> set rs \<and> (\<forall>q \<in> set rs. k q \<le> k r)"
  by (induction rs arbitrary: r) (force split: option.splits if_splits simp: last_max_None)+

text \<open>When no two rows tie, the greatest is also the first of the rows in descending order.\<close>

lemma first_of_descending:
  assumes "inj_on k (set rs)"
  shows "(case order_by (\<lambda>r. - k r) rs of [] \<Rightarrow> None | r # _ \<Rightarrow> Some r) = last_max (k :: 'r \<Rightarrow> int) rs"
proof (cases "order_by (\<lambda>r. - k r) rs")
  case Nil
  then have "rs = []" by (metis set_empty set_order_by)
  then show ?thesis by (simp add: order_by_def)
next
  case (Cons r qs)
  then have "sorted (map (\<lambda>r. - k r) (r # qs))" by (metis order_by_def sorted_sort_key)
  moreover have set_eq: "set rs = set (r # qs)" using Cons by (metis set_order_by)
  ultimately have great: "\<forall>q \<in> set rs. k q \<le> k r" by auto
  obtain x where x: "last_max k rs = Some x" using set_eq last_max_None[of k rs] by (cases "last_max k rs") auto
  from last_max_greatest[OF x] great set_eq have "k x = k r" by (intro order_antisym) auto
  with assms last_max_greatest[OF x] set_eq have "x = r" by (metis inj_onD list.set_intros(1))
  with x Cons show ?thesis by simp
qed

lemma select_range_alike:
  assumes "comparable s" "unique_on r_id (ranges s)" "mirrors s m"
  shows "mem_select_range d now m = select_range d now s"
proof -
  let ?P = "\<lambda>r. r_tenant_id r = no_tenant_id d \<and> r_document_type r = no_document_type d \<and>
    r_prefix r = no_prefix d \<and> r_valid_date_from r \<le> now \<and> now \<le> r_valid_date_to r"
  have "inj_on r_valid_date_from (set (filter ?P (ranges s)))"
  proof (rule inj_onI)
    fix r q assume rq: "r \<in> set (filter ?P (ranges s))" "q \<in> set (filter ?P (ranges s))"
      "r_valid_date_from r = r_valid_date_from q"
    then have "overlaps r q" using assms(1) by (auto simp: comparable_def overlaps_def)
    with rq assms(1) have "r_id r = r_id q" by (auto simp: comparable_def)
    with rq assms(2) show "r = q" by (auto dest: unique_onD)
  qed
  from first_of_descending[OF this] mirrors_fields(1)[OF assms(3)] show ?thesis
    by (simp add: mem_select_range_def select_range_def)
qed

lemma outbound_free:
  assumes "comparable s" "mirrors s m"
    "document_key (outbound_row d number r now) \<notin> document_key ` set (documents s)"
  shows "\<not> mem_outbound_exists d number m"
  using assms by (fastforce simp: mem_outbound_exists_def list_ex_iff mirrors_def comparable_def document_key_def
      outbound_row_def image_iff)

lemma comparable_new_document:
  assumes "comparable s" "d_id d \<notin> d_id ` set (documents s)" "d_direction d = Outbound \<longrightarrow> d_issuer_nit d = []"
  shows "comparable (s\<lparr>documents := documents s @ [d]\<rparr>)"
  using assms by (auto simp: comparable_def)

lemma comparable_update_ranges:
  assumes "comparable s"
    "\<And>r. (r_id (f r), r_tenant_id (f r), r_document_type (f r), r_prefix (f r), r_valid_date_from (f r), r_valid_date_to (f r)) =
       (r_id r, r_tenant_id r, r_document_type r, r_prefix r, r_valid_date_from r, r_valid_date_to r)"
  shows "comparable (s\<lparr>ranges := update_rows P f (ranges s)\<rparr>)"
  using assms by (auto simp: comparable_def in_update_rows overlaps_def split: if_splits)

lemma mirrors_put_documents:
  "mirrors s m \<Longrightarrow> d_id d \<notin> d_id ` set (documents s) \<Longrightarrow>
   mirrors (s\<lparr>documents := documents s @ [d]\<rparr>) (m\<lparr>m_documents := put_row d_id d (m_documents m)\<rparr>)"
  by (simp add: mirrors_def put_row_new)

lemma key_lookup_alike:
  assumes "mirrors s m"
  shows "mem_find_key tenant key m = map_option key_of_table (idempotency_lookup tenant key s)"
proof -
  have "find_row (\<lambda>i. mi_tenant_id i = tenant \<and> mi_key i = ik_key key) (map key_of_table rs) =
      map_option key_of_table (find_row (\<lambda>i. ir_tenant_id i = tenant \<and> ir_key i = ik_key key) rs)" for rs
    by (induction rs) (simp_all add: key_of_table_def)
  with mirrors_fields(5)[OF assms] show ?thesis by (simp add: mem_find_key_def idempotency_lookup_def)
qed

lemma sim_store_key:
  assumes "mirrors s m" "idempotency_lookup (no_tenant_id d) key s = None" "trim (ik_request_hash key) = ik_request_hash key"
  shows "mirrors (s\<lparr>idempotency := idempotency s @ [idempotency_row_of d key n]\<rparr>)
    (mem_store_key (no_tenant_id d) (Some key) \<lparr>is_document_id = no_id d, is_document_number = n\<rparr> m)"
proof -
  have "(no_tenant_id d, ik_key key) \<notin> (\<lambda>i. (mi_tenant_id i, mi_key i)) ` set (m_idempotency m)"
    using key_lookup_alike[OF assms(1), of "no_tenant_id d" key] assms(2)
    by (auto simp: mem_find_key_def find_row_None_iff)
  with assms(1,3) show ?thesis
    by (simp add: mirrors_def mem_store_key_def put_row_new idempotency_row_of_def key_of_table_def issued_of_def)
qed


text \<open>The statements of a transaction that issues.\<close>

lemma issue_tx_statements:
  assumes "issue_tx date_naive d j now s = Inr (Issued out, s')"
  obtains rng n s1 s2 s3 where "select_range d now s = Some rng"
    "next_number date_naive rng (no_requested_number d) now = Inr n"
    "put_ranges (update_rows (\<lambda>r. r_id r = r_id rng) (\<lambda>r. r\<lparr>r_current_counter := n\<rparr>) (ranges s)) s = Inr s1"
    "put_documents (documents s1 @ [outbound_row d n (r_id rng) now]) s1 = Inr s2"
    "insert_job now j s2 = Inr s3"
    "no_idempotency d = None \<longrightarrow> s' = s3"
    "\<forall>key. no_idempotency d = Some key \<longrightarrow> idempotency_lookup (no_tenant_id d) key s3 = None \<and>
        s' = s3\<lparr>idempotency := idempotency s3 @ [idempotency_row_of d key n]\<rparr>"
    "out = \<lparr>is_document_id = no_id d, is_document_number = n\<rparr>"
proof (cases "no_idempotency d")
  case None
  with assms that show thesis
    by (auto simp: issue_tx_def bind_ok_Inr_iff map_err_Inr_iff ok_or_Inr_iff Let_def)
next
  case (Some key)
  with assms that show thesis
    by (auto simp: issue_tx_def bind_ok_Inr_iff map_err_Inr_iff ok_or_Inr_iff Let_def put_Inr(7)
        split: option.splits)
qed

lemma sim_issue_new:
  assumes "issue_tx date_naive d j now s = Inr (Issued out, s')" "comparable s" "mirrors s m"
    "\<And>key. no_idempotency d = Some key \<Longrightarrow> trim (ik_request_hash key) = ik_request_hash key"
  shows "\<exists>m'. mem_issue_new date_naive d j now m = (Inr (Created out), m') \<and> comparable s' \<and> mirrors s' m'"
proof -
  let ?bump = "\<lambda>rng n. update_rows (\<lambda>r. r_id r = r_id rng) (\<lambda>r. r\<lparr>r_current_counter := n\<rparr>)"
  from assms(1) obtain rng n s1 s2 s3 where
    rng: "select_range d now s = Some rng" and n: "next_number date_naive rng (no_requested_number d) now = Inr n" and
    1: "put_ranges (?bump rng n (ranges s)) s = Inr s1" and
    2: "put_documents (documents s1 @ [outbound_row d n (r_id rng) now]) s1 = Inr s2" and
    3: "insert_job now j s2 = Inr s3" and
    4: "no_idempotency d = None \<longrightarrow> s' = s3"
      "\<forall>key. no_idempotency d = Some key \<longrightarrow> idempotency_lookup (no_tenant_id d) key s3 = None \<and>
         s' = s3\<lparr>idempotency := idempotency s3 @ [idempotency_row_of d key n]\<rparr>" and
    out: "out = \<lparr>is_document_id = no_id d, is_document_number = n\<rparr>"
    by (rule issue_tx_statements) (rule that)
  from 1 have s1: "s1 = s\<lparr>ranges := ?bump rng n (ranges s)\<rparr>" and uniq: "unique_on r_id (?bump rng n (ranges s))"
    by (simp_all add: put_Inr)
  from uniq have "unique_on r_id (ranges s)" by (subst (asm) unique_on_update_rows) simp_all
  from select_range_alike[OF assms(2) this assms(3)] rng have mrng: "mem_select_range d now m = Some rng" by simp
  define m1 where "m1 = m\<lparr>m_ranges := ?bump rng n (m_ranges m)\<rparr>"
  have r1: "comparable s1" "mirrors s1 m1"
    using assms(2,3) s1 by (simp_all add: comparable_update_ranges m1_def) (simp add: mirrors_def)
  let ?row = "outbound_row d n (r_id rng) now"
  from 2 have s2: "s2 = s1\<lparr>documents := documents s1 @ [?row]\<rparr>" and fresh: "d_id ?row \<notin> d_id ` set (documents s1)"
    "document_key ?row \<notin> document_key ` set (documents s1)"
    by (simp_all add: put_Inr documents_ok_def)
  from fresh(2) s1 have free: "\<not> mem_outbound_exists d n m"
    by (intro outbound_free[OF assms(2,3)]) simp
  define m2 where "m2 = m1\<lparr>m_documents := put_row d_id ?row (m_documents m1)\<rparr>"
  have r2: "comparable s2" "mirrors s2 m2"
    unfolding s2 m2_def using r1 fresh(1)
    by (auto intro!: comparable_new_document mirrors_put_documents simp: outbound_row_def)
  from sim_insert_job[OF 3 r2] obtain m3 where
    m3: "mem_insert_job j m2 = (Inr (), m3)" "comparable s3" "mirrors s3 m3" by blast
  define m4 where "m4 = mem_store_key (no_tenant_id d) (no_idempotency d) out m3"
  have run: "mem_issue_new date_naive d j now m = (Inr (Created out), m4)"
    using mrng n free m3(1)
    by (simp add: mem_issue_new_def Let_def step_bind_def m4_def m2_def m1_def out)
  have "comparable s' \<and> mirrors s' m4"
  proof (cases "no_idempotency d")
    case None
    with 4 m3 show ?thesis by (simp add: m4_def mem_store_key_def)
  next
    case (Some key)
    with 4 m3 sim_store_key[OF m3(3), of d key n] assms(4)[OF Some] show ?thesis
      by (simp add: m4_def out comparable_def)
  qed
  with run show ?thesis by blast
qed

text \<open>The whole operation, alone: one lookup of the key, then at most one transaction.\<close>

lemma pg_issue_alone:
  assumes "alone v" "pg_issue_outbound date_naive d j v = (Inr a, v')"
  obtains (replayed) key i where "no_idempotency d = Some key" "v' = v"
      "idempotency_lookup (no_tenant_id d) key (db v) = Some i" "trim (ir_request_hash i) = ik_request_hash key"
      "a = Replayed (issued_of i)"
  | (created) out s' where "a = Created out" "v' = v\<lparr>db := s'\<rparr>"
      "issue_tx date_naive d j (clock v) (db v) = Inr (Issued out, s')"
      "\<forall>key. no_idempotency d = Some key \<longrightarrow> idempotency_lookup (no_tenant_id d) key (db v) = None"
proof (cases "\<exists>key i. no_idempotency d = Some key \<and> idempotency_lookup (no_tenant_id d) key (db v) = Some i")
  case True
  then obtain key i where key: "no_idempotency d = Some key" "idempotency_lookup (no_tenant_id d) key (db v) = Some i"
    by blast
  with assms replayed[OF key(1) _ key(2)] show thesis
    by (auto simp: pg_issue_outbound_def find_idempotency_def io_bind_def query_alone replay_def split: if_splits)
next
  case False
  then have none: "\<forall>key. no_idempotency d = Some key \<longrightarrow> idempotency_lookup (no_tenant_id d) key (db v) = None"
    by (metis not_Some_eq)
  let ?look = "case no_idempotency d of None \<Rightarrow> io_return None | Some key \<Rightarrow> find_idempotency (no_tenant_id d) key"
  have look: "?look v = (Inr None, v)"
    using none assms(1) by (auto simp: find_idempotency_def io_bind_def query_alone split: option.splits)
  show thesis
  proof (cases "issue_tx date_naive d j (clock v) (db v)")
    case (Inl e)
    with assms look show thesis by (simp add: pg_issue_outbound_def io_bind_def tx_alone)
  next
    case (Inr p)
    then obtain st s' where st: "issue_tx date_naive d j (clock v) (db v) = Inr (st, s')" by (cases p) auto
    show thesis
    proof (cases st)
      case (Issued out)
      with assms look st none show thesis
        by (intro created[of out s']) (auto simp: pg_issue_outbound_def io_bind_def tx_alone)
    next
      case Key_taken
      with st have "s' = db v" by (simp add: issue_tx_Key_taken)
      with assms look st Key_taken show thesis by (simp add: pg_issue_outbound_def io_bind_def tx_alone)
    qed
  qed
qed

lemma sim_issue:
  assumes "agree v w" "pg_issue_outbound date_naive d j v = (Inr a, v')" "call_ok (Call_issue d j) v"
  shows "\<exists>w'. mem_issue_outbound date_naive d j w = (Inr a, w') \<and> agree v' w'"
proof -
  note ag = agree_fields[OF assms(1)]
  have lookup: "mem_find_key (no_tenant_id d) key (db w) = map_option key_of_table (idempotency_lookup (no_tenant_id d) key (db v))"
    for key by (rule key_lookup_alike[OF ag(5)])
  from ag(1) assms(2) show ?thesis
  proof (cases rule: pg_issue_alone)
    case (replayed key i)
    with lookup assms(1) show ?thesis
      by (simp add: mem_issue_outbound_def locked_step_def mem_issue_step_def key_of_table_def)
  next
    case (created out s')
    have "\<And>key. no_idempotency d = Some key \<Longrightarrow> trim (ik_request_hash key) = ik_request_hash key"
      using assms(3) by simp
    from sim_issue_new[OF created(3) ag(4,5) this] obtain m' where
      m': "mem_issue_new date_naive d j (clock v) (db w) = (Inr (Created out), m')" "comparable s'" "mirrors s' m'"
      by blast
    have "mem_issue_step date_naive d j (clock v) (db w) = mem_issue_new date_naive d j (clock v) (db w)"
      using created(4) lookup by (cases "no_idempotency d") (simp_all add: mem_issue_step_def)
    with m' ag created(1,2) show ?thesis
      by (simp add: mem_issue_outbound_def locked_step_def agree_def alone_def)
  qed
qed


section \<open>The other calls\<close>

lemma sim_inbound:
  assumes "inbound_tx d now s = Inr (a, s')" "comparable s" "mirrors s m"
  shows "\<exists>m'. (if list_ex (\<lambda>x. d_tenant_id x = ni_tenant_id d \<and> d_direction x = Inbound \<and> d_issuer_nit x = ni_issuer_nit d \<and>
              d_document_type x = ni_document_type d \<and> d_prefix x = ni_prefix d \<and>
              d_document_number x = ni_document_number d) (m_documents m)
          then (Inr False, m) else (Inr True, m\<lparr>m_documents := put_row d_id (inbound_row d now) (m_documents m)\<rparr>)) = (Inr a, m') \<and>
      comparable s' \<and> mirrors s' m'"
proof -
  let ?row = "inbound_row d now"
  have known: "list_ex (\<lambda>x. d_tenant_id x = ni_tenant_id d \<and> d_direction x = Inbound \<and> d_issuer_nit x = ni_issuer_nit d \<and>
      d_document_type x = ni_document_type d \<and> d_prefix x = ni_prefix d \<and> d_document_number x = ni_document_number d)
      (m_documents m) = (document_key ?row \<in> document_key ` set (documents s))"
    unfolding list_ex_iff mirrors_fields(2)[OF assms(3)] image_iff
    by (rule bex_cong[OF refl]) (auto simp: document_key_def inbound_row_def)
  show ?thesis
  proof (cases "document_key ?row \<in> document_key ` set (documents s)")
    case True
    with assms known show ?thesis by (simp add: inbound_tx_def)
  next
    case False
    with assms(1) have "a = True" "s' = s\<lparr>documents := documents s @ [?row]\<rparr>"
      and fresh: "d_id ?row \<notin> d_id ` set (documents s)"
      by (auto simp: inbound_tx_def map_err_Inr_iff bind_ok_Inr_iff put_Inr documents_ok_def)
    with False known assms(2,3) mirrors_put_documents[OF assms(3) fresh] show ?thesis
      by (simp add: comparable_new_document inbound_row_def)
  qed
qed

lemma sim_artifacts:
  assumes "artifacts_tx i cufe x y now s = Inr (a, s')" "comparable s" "mirrors s m"
  shows "\<exists>m'. (if mem_document i m = None then (Inl (no_document_error i), m)
      else (Inr (), m\<lparr>m_documents := update_rows (\<lambda>d. d_id d = i)
         (\<lambda>d. d\<lparr>d_cufe_cude := cufe, d_original_xml := Some x, d_signed_xml := Some y\<rparr>) (m_documents m)\<rparr>)) = (Inr a, m') \<and>
      comparable s' \<and> mirrors s' m'"
proof -
  let ?f = "\<lambda>d. d\<lparr>d_cufe_cude := cufe, d_original_xml := Some x, d_signed_xml := Some y\<rparr>"
  from assms(1) have "find_row (\<lambda>d. d_id d = i) (documents s) \<noteq> None"
    and "s' = s\<lparr>documents := update_rows (\<lambda>d. d_id d = i) ?f (documents s)\<rparr>"
    by (auto simp: artifacts_tx_def bind_ok_Inr_iff map_err_Inr_iff put_Inr split: if_splits)
  with assms(2,3) mirrors_fields(2)[OF assms(3)] show ?thesis
    by (auto simp: mem_document_def mirrors_def intro!: comparable_update_documents)
qed

lemma count_job_shown: "count_job now (job_shown j) = count_job now j"
  by (simp add: count_job_def fun_eq_iff)

lemma fold_count_jobs:
  "fold (count_job now) (map job_of_table rs) q =
     q\<lparr>q_ready := q_ready q + int (length (filter (\<lambda>j. jr_status j = Queued \<and> jr_run_at j \<le> now) rs)),
       q_scheduled := q_scheduled q + int (length (filter (\<lambda>j. jr_status j = Queued \<and> jr_run_at j > now) rs)),
       q_running := q_running q + int (length (filter (\<lambda>j. jr_status j = Running) rs)),
       q_dead := q_dead q + int (length (filter (\<lambda>j. jr_status j = Dead) rs))\<rparr>"
  by (induction rs arbitrary: q) (auto simp: count_job_def split: job_status.split)

lemma depth_alike:
  assumes "mirrors s m"
  shows "fold (count_job now) (m_jobs m) depth_zero =
    \<lparr>q_ready = count_jobs (\<lambda>j. jr_status j = Queued \<and> jr_run_at j \<le> now) s,
     q_scheduled = count_jobs (\<lambda>j. jr_status j = Queued \<and> jr_run_at j > now) s,
     q_running = count_jobs (\<lambda>j. jr_status j = Running) s, q_dead = count_jobs (\<lambda>j. jr_status j = Dead) s\<rparr>"
proof -
  have "fold (count_job now) (m_jobs m) depth_zero = fold (count_job now) (map job_shown (m_jobs m)) depth_zero"
    by (simp add: fold_map comp_def count_job_shown)
  also have "\<dots> = fold (count_job now) (map job_of_table (jobs s)) depth_zero"
    unfolding mirrors_fields(4)[OF assms] ..
  finally show ?thesis by (simp add: fold_count_jobs depth_zero_def count_jobs_def)
qed

section \<open>One call, and sequences of calls\<close>

lemmas sim_ports = call_store.simps pg_documents_def pg_jobs_def mem_documents_port_def mem_jobs_port_def
  document_repository.simps job_repository.simps

lemma sim_answering:
  assumes "answering f m v = (Inr b, v')" and "\<And>a. m v = (Inr a, v') \<Longrightarrow> \<exists>w'. n w = (Inr a, w') \<and> R w'"
  shows "\<exists>w'. answering f n w = (Inr b, w') \<and> R w'"
  using assms by (auto simp: answering_Inr)

lemma sim_step:
  assumes ag: "agree v w" and ok: "call_ok c v"
    and run: "call_store (pg_documents date_naive) (pg_jobs locked) c v = (Inr a, v')"
  shows "\<exists>w'. call_store (mem_documents_port date_naive) mem_jobs_port c w = (Inr a, w') \<and> agree v' w'"
proof (cases c)
  case (Call_issue d j)
  show ?thesis using run ok unfolding Call_issue sim_ports
    by (rule_tac sim_answering) (auto intro: sim_issue[OF ag])
next
  case (Call_insert_inbound d)
  show ?thesis using run unfolding Call_insert_inbound sim_ports pg_insert_inbound_def mem_insert_inbound_def
    by (rule sim_answering) (erule sim_tx[OF ag], rule sim_inbound[OF _ agree_fields(4,5)[OF ag]])
next
  case (Call_find_document i)
  show ?thesis using run unfolding Call_find_document sim_ports pg_find_document_def mem_find_document_def
    by (rule sim_answering) (erule sim_query[OF ag], simp add: mem_document_def mirrors_fields(2))
next
  case (Call_find_tenant_document t i)
  show ?thesis using run
    unfolding Call_find_tenant_document sim_ports pg_find_tenant_document_def mem_find_tenant_document_def
    by (rule sim_answering)
      (erule sim_query[OF ag], simp add: mem_document_def mirrors_fields(2) comparable_def find_row_unique_and)
next
  case (Call_find_range i)
  show ?thesis using run unfolding Call_find_range sim_ports pg_find_numbering_range_def mem_find_numbering_range_def
    by (rule sim_answering) (erule sim_query[OF ag], simp add: mem_range_def mirrors_fields(1))
next
  case (Call_store_artifacts i x y z)
  show ?thesis using run unfolding Call_store_artifacts sim_ports pg_store_artifacts_def mem_store_artifacts_def
    by (rule sim_answering) (erule sim_tx[OF ag], rule sim_artifacts[OF _ agree_fields(4,5)[OF ag]])
next
  case (Call_record_event e)
  show ?thesis using run unfolding Call_record_event sim_ports pg_record_event_def mem_record_event_def
    by (rule sim_answering)
      (erule sim_tx[OF ag], auto simp: bind_ok_Inr_iff dest: sim_insert_event[OF _ agree_fields(4,5)[OF ag]])
next
  case (Call_transition t)
  with ok have t: "tr_document_id t \<in> d_id ` set (documents (db v))" "closes_known_job (db v) (tr_job t)" by simp_all
  show ?thesis using run unfolding Call_transition sim_ports pg_apply_transition_def mem_apply_transition_def
    by (rule sim_answering) (erule sim_tx_ids[OF ag], rule sim_transition[OF _ agree_fields(4,5)[OF ag] t])
next
  case (Call_complete i)
  with ok have i: "i \<in> jr_id ` set (jobs (db v))" by simp
  show ?thesis using run unfolding Call_complete sim_ports pg_complete_def mem_complete_def
    by (rule sim_answering) (erule sim_update_job[OF ag _ i job_changes_shown(1)])
next
  case (Call_retry i t e)
  with ok have i: "i \<in> jr_id ` set (jobs (db v))" by simp
  show ?thesis using run unfolding Call_retry sim_ports pg_retry_def mem_retry_def
    by (rule sim_answering) (erule sim_update_job[OF ag _ i job_changes_shown(3)])
next
  case (Call_release i t)
  with ok have i: "i \<in> jr_id ` set (jobs (db v))" by simp
  show ?thesis using run unfolding Call_release sim_ports pg_release_def mem_release_def
    by (rule sim_answering) (erule sim_update_job[OF ag _ i job_changes_shown(4)])
next
  case (Call_bury i e)
  with ok have i: "i \<in> jr_id ` set (jobs (db v))" by simp
  show ?thesis using run unfolding Call_bury sim_ports pg_bury_def mem_bury_def
    by (rule sim_answering) (erule sim_update_job[OF ag _ i job_changes_shown(2)])
next
  case Call_queue_depth
  show ?thesis using run unfolding Call_queue_depth sim_ports pg_queue_depth_def mem_queue_depth_def
    by (rule sim_answering) (erule sim_query[OF ag], simp add: depth_alike)
qed

interpretation memory: forward_simulation
  "call_store (pg_documents date_naive) (pg_jobs locked)" "call_store (mem_documents_port date_naive) mem_jobs_port"
  agree call_ok for date_naive locked
  by unfold_locales (rule sim_step)



definition ex_calls :: "store_call list" where
  "ex_calls =
     [Call_issue (ex_document 10 None) (ex_job 11 10),
      Call_transition \<lparr>tr_document_id = 10, tr_to = SentDian, tr_event = None, tr_job = Some (Complete 11),
        tr_follow_up = None\<rparr>,
      Call_queue_depth]"

definition ex_memory :: "mem world" where
  "ex_memory = \<lparr>clock = ex_now, next_uuid = 22, entropy = [], faults = [], peers = [],
     circuit = breakers_new 5 60, dian_log = [],
     db = mem_empty\<lparr>m_tenants := [ex_tenant_row], m_ranges := [ex_range], m_audit := [ex_audit, ex_audit]\<rparr>\<rparr>"



text \<open>
  Where the two part: nothing is undone in memory. When the job of an issue is refused, the number is spent
  and the document stays, while the transaction leaves the database as it was.
\<close>

lemma refused_issue_stays_in_memory:
  "let s = (db ex_memory)\<lparr>m_jobs := [stored_job_of (ex_job 9 10)]\<rparr>;
       t = snd (mem_issue_step (\<lambda>_. []) (ex_document 10 None) (ex_job 11 10) ex_now s)
   in fst (mem_issue_step (\<lambda>_. []) (ex_document 10 None) (ex_job 11 10) ex_now s) =
        Inl (Conflict (active_job_conflict (ex_job 11 10))) \<and>
      map r_current_counter (m_ranges t) = [1] \<and> map d_id (m_documents t) = [10]"
  by code_simp

end
