(* ===== verification/Xml_Reading.thy ===== *)
theory Xml_Reading
  imports Rust_Text "HOL-Library.Word"
begin

text \<open>
  \<open>application/src/xml.rs\<close>: reading values of UBL documents. The tokenizer of \<open>quick-xml\<close> is a parameter:
  \<open>xml_reader\<close> gives the events of a document and, when the reading stops at an error, its text. The
  document is then walked as the code does it. \<open>tag_content\<close> is the textual search for documents that
  are not verified; it walks over the bytes of the text and terminates because every turn leaves a \<open><\<close>
  behind.
\<close>

section \<open>Events\<close>

datatype xml_event =
    Ev_start string
  | Ev_empty string
  | Ev_end
  | Ev_text string
  | Ev_cdata string
  | Ev_doctype
  | Ev_general_ref string
  | Ev_other

type_synonym xml_reader = "string \<Rightarrow> xml_event list \<times> string option"

definition local_name :: "string \<Rightarrow> string" where
  "local_name qname = last (split_char CHR '':'' qname)"

text \<open>\<open>u32::from_str_radix\<close> (with its optional plus sign), and \<open>char::from_u32\<close> with its UTF-8 bytes.\<close>

definition radix_digit :: "nat \<Rightarrow> char \<Rightarrow> nat option" where
  "radix_digit radix c =
     (let b = byte c;
          v = (if is_ascii_digit c then Some (b - 48)
               else if 97 \<le> b \<and> b \<le> 122 then Some (b - 87)
               else if 65 \<le> b \<and> b \<le> 90 then Some (b - 55) else None)
      in case v of None \<Rightarrow> None | Some d \<Rightarrow> if d < radix then Some d else None)"

fun radix_value :: "nat \<Rightarrow> nat \<Rightarrow> string \<Rightarrow> nat option" where
  "radix_value radix n [] = Some n"
| "radix_value radix n (c # cs) =
     (case radix_digit radix c of
        None \<Rightarrow> None
      | Some d \<Rightarrow> if radix * n + d < 2 ^ 32 then radix_value radix (radix * n + d) cs else None)"

definition u32_from_str_radix :: "nat \<Rightarrow> string \<Rightarrow> nat option" where
  "u32_from_str_radix radix s =
     (let digits = (case s of [] \<Rightarrow> [] | c # cs \<Rightarrow> if c = CHR ''+'' then cs else s)
      in if digits = [] then None else radix_value radix 0 digits)"

definition utf8_bytes :: "nat \<Rightarrow> string" where
  "utf8_bytes n = map char_of
     (if n < 128 then [n]
      else if n < 2048 then [192 + n div 64, 128 + n mod 64]
      else if n < 65536 then [224 + n div 4096, 128 + n div 64 mod 64, 128 + n mod 64]
      else [240 + n div 262144, 128 + n div 4096 mod 64, 128 + n div 64 mod 64, 128 + n mod 64])"

definition char_from_u32 :: "nat \<Rightarrow> string option" where
  "char_from_u32 n = (if n < 55296 \<or> (57343 < n \<and> n < 1114112) then Some (utf8_bytes n) else None)"

definition resolve_reference :: "string \<Rightarrow> string option" where
  "resolve_reference name =
     (if name = ''amp'' then Some ''&''
      else if name = ''lt'' then Some ''<''
      else if name = ''gt'' then Some ''>''
      else if name = ''quot'' then Some [CHR 0x22]
      else if name = ''apos'' then Some [CHR 0x27]
      else case strip_prefix ''#x'' name of
             Some hex \<Rightarrow> Option.bind (u32_from_str_radix 16 hex) char_from_u32
           | None \<Rightarrow> Option.bind (Option.bind (strip_prefix ''#'' name) (u32_from_str_radix 10)) char_from_u32)"

section \<open>XmlDoc::parse\<close>

record xml_doc =
  x_xml :: string
  x_root :: string

definition several_roots :: string where "several_roots = ''XML invalido: mas de un elemento raiz''"

text \<open>The loop: the root found so far and the depth, a \<open>usize\<close>.\<close>

fun parse_events :: "string option \<Rightarrow> 64 word \<Rightarrow> xml_event list \<Rightarrow> string option \<Rightarrow> string + string option \<times> 64 word" where
  "parse_events root depth [] stop =
     (case stop of Some e \<Rightarrow> Inl (''XML invalido: '' @ e) | None \<Rightarrow> Inr (root, depth))"
| "parse_events root depth (Ev_start qname # es) stop =
     (if depth = 0 then
        if root \<noteq> None then Inl several_roots else parse_events (Some (local_name qname)) (depth + 1) es stop
      else parse_events root (depth + 1) es stop)"
| "parse_events root depth (Ev_empty qname # es) stop =
     (if depth = 0 then
        if root \<noteq> None then Inl several_roots else parse_events (Some (local_name qname)) depth es stop
      else parse_events root depth es stop)"
| "parse_events root depth (Ev_end # es) stop = parse_events root (depth - 1) es stop"
| "parse_events root depth (Ev_doctype # es) stop = Inl ''XML invalido: no se admiten DTD''"
| "parse_events root depth (Ev_general_ref name # es) stop =
     (if resolve_reference name = None then Inl (''XML invalido: entidad no admitida &'' @ name @ '';'')
      else parse_events root depth es stop)"
| "parse_events root depth (e # es) stop = parse_events root depth es stop"

definition parse_xml :: "xml_reader \<Rightarrow> string \<Rightarrow> string + xml_doc" where
  "parse_xml reader xml =
     (case reader xml of (es, stop) \<Rightarrow>
        bind_ok (parse_events None 0 es stop) (\<lambda>(root, depth).
          case root of
            Some r \<Rightarrow> if depth = 0 then Inr \<lparr>x_xml = xml, x_root = r\<rparr> else Inl ''XML invalido: documento incompleto''
          | None \<Rightarrow> Inl ''XML invalido: documento incompleto''))"

section \<open>XmlDoc::text\<close>

text \<open>The stack has the innermost name last; \<open>capture\<close> is the depth of the element and its text.\<close>

fun text_events :: "string list \<Rightarrow> string list \<Rightarrow> (nat \<times> string) option \<Rightarrow> xml_event list \<Rightarrow> string option" where
  "text_events path stack capture [] = None"
| "text_events path stack capture (Ev_start qname # es) =
     text_events path (stack @ [local_name qname])
       (if capture = None \<and> stack @ [local_name qname] = path then Some (length stack + 1, []) else capture) es"
| "text_events path stack capture (Ev_empty qname # es) =
     (if capture = None \<and> stack @ [local_name qname] = path then Some [] else text_events path stack capture es)"
| "text_events path stack capture (Ev_end # es) =
     (case capture of
        Some (depth, t) \<Rightarrow> if depth = length stack then Some (trim t) else text_events path (butlast stack) capture es
      | None \<Rightarrow> text_events path (butlast stack) capture es)"
| "text_events path stack capture (Ev_text raw # es) =
     text_events path stack (map_option (map_prod id (\<lambda>t. t @ raw)) capture) es"
| "text_events path stack capture (Ev_cdata raw # es) =
     text_events path stack (map_option (map_prod id (\<lambda>t. t @ raw)) capture) es"
| "text_events path stack capture (Ev_general_ref name # es) =
     (case capture of
        None \<Rightarrow> text_events path stack None es
      | Some (depth, t) \<Rightarrow>
          (case resolve_reference name of
             None \<Rightarrow> None
           | Some c \<Rightarrow> text_events path stack (Some (depth, t @ c)) es))"
| "text_events path stack capture (e # es) = text_events path stack capture es"

definition xml_text :: "xml_reader \<Rightarrow> xml_doc \<Rightarrow> string list \<Rightarrow> string option" where
  "xml_text reader doc path = text_events path [] None (fst (reader (x_xml doc)))"

section \<open>Textual search\<close>

text \<open>\<open>str::find\<close> with a predicate on characters: the position in bytes.\<close>

fun find_in_chars :: "(string \<Rightarrow> bool) \<Rightarrow> string list \<Rightarrow> nat option" where
  "find_in_chars P [] = None"
| "find_in_chars P (ch # chs) = (if P ch then Some 0 else map_option (\<lambda>i. length ch + i) (find_in_chars P chs))"

definition ends_name :: "string \<Rightarrow> bool" where
  "ends_name ch \<longleftrightarrow> ch = '' '' \<or> ch = ''>'' \<or> ch = ''/'' \<or> is_whitespace ch"

text \<open>The loop of \<open>tag_content\<close> on the text from the cursor on.\<close>

function tag_content :: "string \<Rightarrow> string \<Rightarrow> string option" where
  "tag_content tag text =
     (case find_char (\<lambda>c. c = CHR ''<'') text of
        None \<Rightarrow> None
      | Some pos \<Rightarrow>
          let tag_rest = drop (pos + 1) text
          in case find_in_chars ends_name (utf8_chars tag_rest) of
               None \<Rightarrow> None
             | Some name_end \<Rightarrow>
                 if local_name (take name_end tag_rest) = tag then
                   Option.bind (find_char (\<lambda>c. c = CHR ''>'') tag_rest) (\<lambda>gt.
                   let content = drop (gt + 1) tag_rest
                   in map_option (\<lambda>end. trim (take end content)) (find_str ''</'' content))
                 else tag_content tag tag_rest)"
  by pat_completeness auto
termination
  by (relation "measure (\<lambda>(tag, text). length text)") (auto dest: find_char_SomeD)

declare tag_content.simps [simp del]

definition tag_in_section :: "string \<Rightarrow> string \<Rightarrow> string \<Rightarrow> string \<Rightarrow> string option" where
  "tag_in_section xml section_start section_end tag =
     Option.bind (find_str section_start xml) (\<lambda>start.
     Option.bind (find_str section_end (drop start xml)) (\<lambda>len.
     tag_content tag (take len (drop start xml))))"

definition split_document_id :: "string \<Rightarrow> (string \<times> i32) option" where
  "split_document_id document_id =
     Option.bind
       (case rfind_char (\<lambda>c. c = CHR ''-'') document_id of
          Some pos \<Rightarrow> Some (take pos document_id, drop (pos + 1) document_id)
        | None \<Rightarrow> map_option (\<lambda>i. (take i document_id, drop i document_id)) (find_char is_ascii_digit document_id))
       (\<lambda>(prefix, digits). map_option (Pair prefix) (parse_i32_digits digits))"

section \<open>Lemmas\<close>

text \<open>A number of the register: its prefix and its consecutive, with or without a dash.\<close>

lemma split_document_id_dash:
  assumes "int n \<le> i32_max"
  shows "split_document_id (prefix @ ''-'' @ nat_dec n) = Some (prefix, int n)"
proof -
  have "\<forall>c \<in> set (nat_dec n). \<not> c = CHR ''-''"
    using all_digits_nat_dec[of n] by (auto simp: all_digits_def list_all_iff is_ascii_digit_def byte_def)
  then have none: "find_char (\<lambda>c. c = CHR ''-'') (rev (nat_dec n)) = None"
    by (simp add: find_char_None_iff)
  have "find_char (\<lambda>c. c = CHR ''-'') (rev (prefix @ ''-'' @ nat_dec n)) = Some (length (nat_dec n))"
    using none by (simp add: find_char_append)
  then have "rfind_char (\<lambda>c. c = CHR ''-'') (prefix @ ''-'' @ nat_dec n) = Some (length prefix)"
    by (simp add: rfind_char_def)
  with assms show ?thesis by (simp add: split_document_id_def)
qed

lemma split_document_id_plain:
  assumes "int n \<le> i32_max" "\<forall>c \<in> set prefix. \<not> is_ascii_digit c \<and> c \<noteq> CHR ''-''"
  shows "split_document_id (prefix @ nat_dec n) = Some (prefix, int n)"
proof -
  have digits: "\<forall>c \<in> set (nat_dec n). is_ascii_digit c"
    using all_digits_nat_dec[of n] by (simp add: all_digits_def list_all_iff)
  have "\<not> is_ascii_digit CHR ''-''" by (simp add: is_ascii_digit_def byte_def)
  with digits assms(2) have "\<forall>c \<in> set (rev (prefix @ nat_dec n)). c \<noteq> CHR ''-''" by auto
  then have none: "rfind_char (\<lambda>c. c = CHR ''-'') (prefix @ nat_dec n) = None"
    by (simp add: rfind_char_def find_char_None_iff)
  obtain c cs where "nat_dec n = c # cs" by (cases "nat_dec n") auto
  then have "find_char is_ascii_digit (nat_dec n) = Some 0" using digits by simp
  moreover have "find_char is_ascii_digit prefix = None" using assms(2) by (simp add: find_char_None_iff)
  ultimately have "find_char is_ascii_digit (prefix @ nat_dec n) = Some (length prefix)"
    by (simp add: find_char_append)
  with none assms(1) show ?thesis by (simp add: split_document_id_def)
qed

lemma parse_i32_digits_bounds: "parse_i32_digits ds = Some n \<Longrightarrow> 0 \<le> n \<and> n \<le> i32_max"
  by (auto simp: parse_i32_digits_def split: if_splits)

lemma split_document_id_bounds:
  assumes "split_document_id s = Some (p, n)"
  shows "0 \<le> n" "n \<le> i32_max"
proof -
  from assms obtain ds where "parse_i32_digits ds = Some n"
    unfolding split_document_id_def by (auto simp: Option.bind_eq_Some_conv)
  from parse_i32_digits_bounds[OF this] show "0 \<le> n" "n \<le> i32_max" by simp_all
qed

end
