(* ===== verification/Inbound_Service.thy ===== *)
theory Inbound_Service
  imports Xml_Reading Admin_Service
begin

text \<open>
  \<open>application/src/inbound.rs\<close>: the reception of invoices of suppliers. The verification of signatures is
  the port \<open>SignatureVerifier\<close>, the XML tokenizer the parameter of \<open>Xml_Reading\<close>.
\<close>

record inbound_registered =
  ib_document_id :: uuid
  ib_parent_document_id :: string

record 'w inbound_verification =
  iv_verify :: "string \<Rightarrow> ('w, verified_signature) io"
  iv_dian_signer_subject :: string

record 'w inbound_service =
  is_documents :: "'w document_repository"
  is_verification :: "'w inbound_verification option"

section \<open>Reading the container\<close>

definition attached_invoice :: "string list" where
  "attached_invoice = [''AttachedDocument'', ''Attachment'', ''ExternalReference'', ''Description'']"

definition attached_response :: "string list" where
  "attached_response = [''AttachedDocument'', ''ParentDocumentLineReference'', ''DocumentReference'', ''Attachment'',
     ''ExternalReference'', ''Description'']"

definition supplier_path :: "string list" where
  "supplier_path = [''Invoice'', ''AccountingSupplierParty'', ''Party'', ''PartyTaxScheme'']"

definition customer_path :: "string list" where
  "customer_path = [''Invoice'', ''AccountingCustomerParty'', ''Party'', ''PartyTaxScheme'']"

definition required :: "xml_reader \<Rightarrow> xml_doc \<Rightarrow> string list \<Rightarrow> string \<Rightarrow> string result" where
  "required reader doc path what =
     ok_or (invalid (''No se encontro '' @ what))
       (case xml_text reader doc path of None \<Rightarrow> None | Some v \<Rightarrow> if v \<noteq> [] then Some v else None)"

definition can_verify :: "'w inbound_service \<Rightarrow> bool" where
  "can_verify S \<longleftrightarrow> is_verification S \<noteq> None"

section \<open>Verified registration\<close>

definition signature_error :: "string \<Rightarrow> domain_error \<Rightarrow> domain_error" where
  "signature_error what e =
     (case e of Validation reason \<Rightarrow> invalid (''Firma invalida en '' @ what @ '': '' @ reason) | _ \<Rightarrow> e)"

definition verify_part :: "'w inbound_verification \<Rightarrow> string \<Rightarrow> string \<Rightarrow> ('w, verified_signature) io" where
  "verify_part V what xml = io_map_err (signature_error what) (iv_verify V xml)"

definition not_configured :: domain_error where
  "not_configured = Internal ''Inbound signature verification is not configured''"

text \<open>What is read of the two embedded documents.\<close>

record invoice_facts =
  if_invoice_id :: string
  if_cufe :: string
  if_sender_nit :: string
  if_sender_name :: string
  if_receiver_nit :: string
  if_receiver_name :: string

definition invoice_facts_of :: "xml_reader \<Rightarrow> xml_doc \<Rightarrow> invoice_facts result" where
  "invoice_facts_of reader doc =
     bind_ok (required reader doc [''Invoice'', ''ID''] ''el numero de la factura'') (\<lambda>invoice_id.
     bind_ok (required reader doc [''Invoice'', ''UUID''] ''el CUFE de la factura'') (\<lambda>cufe.
     bind_ok (required reader doc (supplier_path @ [''CompanyID'']) ''el NIT del emisor en la factura'') (\<lambda>sender_nit.
     bind_ok (required reader doc (supplier_path @ [''RegistrationName'']) ''el nombre del emisor en la factura'') (\<lambda>sender_name.
     bind_ok (required reader doc (customer_path @ [''CompanyID'']) ''el NIT del adquirente en la factura'') (\<lambda>receiver_nit.
     Inr \<lparr>if_invoice_id = invoice_id, if_cufe = cufe, if_sender_nit = sender_nit, if_sender_name = sender_name,
          if_receiver_nit = receiver_nit,
          if_receiver_name = (case xml_text reader doc (customer_path @ [''RegistrationName'']) of
                                None \<Rightarrow> [] | Some name \<Rightarrow> name)\<rparr>)))))"

definition response_code_path :: "string list" where
  "response_code_path = [''ApplicationResponse'', ''DocumentResponse'', ''Response'', ''ResponseCode'']"

definition validated_cufe_path :: "string list" where
  "validated_cufe_path = [''ApplicationResponse'', ''DocumentResponse'', ''DocumentReference'', ''UUID'']"

text \<open>The checks between the documents, from the response code to the number of the invoice.\<close>

definition check_response ::
  "xml_reader \<Rightarrow> xml_doc \<Rightarrow> xml_doc \<Rightarrow> tenant \<Rightarrow> invoice_facts \<Rightarrow> (string \<times> i32) result" where
  "check_response reader container response tenant f =
     bind_ok (required reader response response_code_path ''el codigo de respuesta de la DIAN'') (\<lambda>response_code.
     bind_ok (required reader response validated_cufe_path ''el CUFE validado por la DIAN'') (\<lambda>validated_cufe.
     bind_ok (reject_unless (response_code = ''02'')
       (''La DIAN no valido la factura (ResponseCode '' @ response_code @ ''; se esperaba 02)'')) (\<lambda>_.
     bind_ok (reject_unless (eq_ignore_ascii_case validated_cufe (if_cufe f))
       ''El ApplicationResponse de la DIAN corresponde a otra factura (CUFE distinto)'') (\<lambda>_.
     bind_ok (reject_unless (xml_text reader container [''AttachedDocument'', ''ParentDocumentID''] = Some (if_invoice_id f))
       ''El ParentDocumentID del contenedor no coincide con el numero de la factura'') (\<lambda>_.
     bind_ok (if if_receiver_nit f \<noteq> t_tax_id tenant
              then Inl (Forbidden (''El adquirente de la factura ('' @ if_receiver_nit f @ '') no es el tenant autenticado''))
              else Inr ()) (\<lambda>_.
     ok_or (invalid (''El numero de factura '' @ [CHR 0x27] @ if_invoice_id f @ [CHR 0x27] @
              '' no tiene un consecutivo numerico valido'')) (split_document_id (if_invoice_id f))))))))"

definition verified_payload ::
  "xml_reader \<Rightarrow> xml_doc \<Rightarrow> invoice_facts \<Rightarrow> verified_signature \<Rightarrow> verified_signature \<Rightarrow> json_object" where
  "verified_payload reader invoice f invoice_signature response_signature =
     [(''cufe'', J_str (if_cufe f)),
      (''dian_signer'', J_str (signer_subject response_signature)),
      (''inbound'', J_bool True),
      (''invoice_signer'', J_str (signer_subject invoice_signature)),
      (''issue_date'', opt_json_str (xml_text reader invoice [''Invoice'', ''IssueDate''])),
      (''parent_document_id'', J_str (if_invoice_id f)),
      (''payable_amount'', opt_json_str (xml_text reader invoice [''Invoice'', ''LegalMonetaryTotal'', ''PayableAmount''])),
      (''receiver_name'', J_str (if_receiver_name f)),
      (''receiver_nit'', J_str (if_receiver_nit f)),
      (''sender_name'', J_str (if_sender_name f)),
      (''sender_nit'', J_str (if_sender_nit f)),
      (''signature_verified'', J_bool True)]"

definition already_registered :: "string \<Rightarrow> string \<Rightarrow> domain_error" where
  "already_registered document issuer =
     Conflict (''La factura '' @ document @ '' del emisor '' @ issuer @ '' ya estaba registrada'')"

text \<open>The insertion both registrations end with; the identifier is drawn here.\<close>

definition register_document ::
  "'db world document_repository \<Rightarrow> tenant \<Rightarrow> string \<Rightarrow> string \<Rightarrow> string \<Rightarrow> string \<times> i32 \<Rightarrow> json_object \<Rightarrow> string \<Rightarrow>
   ('db world, inbound_registered) io" where
  "register_document D tenant issuer parent cufe numbered payload xml w =
     (case new_uuid w of (i, v) \<Rightarrow>
        io_bind (insert_inbound D
          \<lparr>ni_id = i, ni_tenant_id = t_id tenant, ni_issuer_nit = issuer, ni_document_type = Invoice,
           ni_prefix = fst numbered, ni_document_number = snd numbered, ni_cufe = cufe, ni_payload = payload,
           ni_signed_xml = xml, ni_status = DianAccepted\<rparr>) (\<lambda>inserted.
        if \<not> inserted then io_fail (already_registered parent issuer)
        else io_return \<lparr>ib_document_id = i, ib_parent_document_id = parent\<rparr>) v)"

definition register_verified ::
  "xml_reader \<Rightarrow> 'db world inbound_service \<Rightarrow> tenant \<Rightarrow> string \<Rightarrow> ('db world, inbound_registered) io" where
  "register_verified reader S tenant attached_xml =
     (case is_verification S of
        None \<Rightarrow> io_fail not_configured
      | Some V \<Rightarrow>
          io_bind (io_lift (map_err invalid (parse_xml reader attached_xml))) (\<lambda>container.
          io_bind (io_lift (reject_unless (x_root container = ''AttachedDocument'')
            ''El documento recibido no es un AttachedDocument'')) (\<lambda>_.
          io_bind (io_lift (required reader container attached_invoice ''la factura embebida en el AttachedDocument'')) (\<lambda>invoice_xml.
          io_bind (io_lift (required reader container attached_response
            ''el ApplicationResponse de la DIAN en el AttachedDocument'')) (\<lambda>response_xml.
          io_bind (verify_part V ''el AttachedDocument'' attached_xml) (\<lambda>_.
          io_bind (verify_part V ''la factura'' invoice_xml) (\<lambda>invoice_signature.
          io_bind (verify_part V ''el ApplicationResponse'' response_xml) (\<lambda>response_signature.
          io_bind (io_lift (reject_unless
            (contains_str (iv_dian_signer_subject V) (signer_subject response_signature))
            (''El ApplicationResponse no esta firmado por la DIAN (firmante: '' @
               signer_subject response_signature @ '')''))) (\<lambda>_.
          io_bind (io_lift (map_err (\<lambda>e. invalid (''Factura embebida: '' @ e)) (parse_xml reader invoice_xml))) (\<lambda>invoice.
          io_bind (io_lift (reject_unless (x_root invoice = ''Invoice'')
            ''El documento embebido no es una factura (Invoice)'')) (\<lambda>_.
          io_bind (io_lift (map_err (\<lambda>e. invalid (''ApplicationResponse: '' @ e)) (parse_xml reader response_xml))) (\<lambda>response.
          io_bind (io_lift (reject_unless (x_root response = ''ApplicationResponse'')
            ''La respuesta embebida no es un ApplicationResponse'')) (\<lambda>_.
          io_bind (io_lift (invoice_facts_of reader invoice)) (\<lambda>f.
          io_bind (io_lift (check_response reader container response tenant f)) (\<lambda>numbered.
          register_document (is_documents S) tenant (if_sender_nit f) (if_invoice_id f) (if_cufe f) numbered
            (verified_payload reader invoice f invoice_signature response_signature) attached_xml)))))))))))))))"

section \<open>Registration without verification\<close>

definition party_tag :: "string \<Rightarrow> string \<Rightarrow> string \<Rightarrow> string option" where
  "party_tag xml section_name tag =
     tag_in_section xml (''<cac:'' @ section_name @ ''>'') (''</cac:'' @ section_name @ ''>'') tag"

text \<open>\<open>party(.., "RegistrationName").or_else(|| party(.., "Name")).unwrap_or_else(..)\<close>.\<close>

definition party_name :: "string \<Rightarrow> string \<Rightarrow> string \<Rightarrow> string" where
  "party_name xml section_name fallback =
     (case party_tag xml section_name ''RegistrationName'' of
        Some name \<Rightarrow> name
      | None \<Rightarrow> (case party_tag xml section_name ''Name'' of Some name \<Rightarrow> name | None \<Rightarrow> fallback))"

definition unverified_payload :: "invoice_facts \<Rightarrow> json_object" where
  "unverified_payload f =
     [(''cufe'', J_str (if_cufe f)),
      (''inbound'', J_bool True),
      (''parent_document_id'', J_str (if_invoice_id f)),
      (''receiver_name'', J_str (if_receiver_name f)),
      (''receiver_nit'', J_str (if_receiver_nit f)),
      (''sender_name'', J_str (if_sender_name f)),
      (''sender_nit'', J_str (if_sender_nit f)),
      (''signature_verified'', J_bool False)]"

definition unverified_facts :: "string \<Rightarrow> invoice_facts result" where
  "unverified_facts xml =
     bind_ok (ok_or (invalid ''No se encontro el NIT del emisor en el AttachedDocument'')
       (party_tag xml ''SenderParty'' ''CompanyID'')) (\<lambda>sender_nit.
     bind_ok (ok_or (invalid ''No se encontro el NIT del receptor en el AttachedDocument'')
       (party_tag xml ''ReceiverParty'' ''CompanyID'')) (\<lambda>receiver_nit.
     bind_ok (ok_or (invalid ''No se encontro el ParentDocumentID (Numero de factura)'')
       (tag_content ''ParentDocumentID'' xml)) (\<lambda>parent.
     bind_ok (ok_or (invalid ''No se encontro el CUFE/UUID de la factura original'')
       (tag_content ''UUID'' xml)) (\<lambda>cufe.
     Inr \<lparr>if_invoice_id = parent, if_cufe = cufe, if_sender_nit = sender_nit,
          if_sender_name = party_name xml ''SenderParty'' ''Proveedor Inbound'', if_receiver_nit = receiver_nit,
          if_receiver_name = party_name xml ''ReceiverParty'' ''Tenant Receptor''\<rparr>))))"

definition register_unverified ::
  "'db world inbound_service \<Rightarrow> tenant \<Rightarrow> string \<Rightarrow> ('db world, inbound_registered) io" where
  "register_unverified S tenant xml =
     io_bind (io_lift (reject_unless (contains_str ''<ds:Signature'' xml \<or> contains_str ''<Signature'' xml)
       ''El AttachedDocument XML no esta firmado digitalmente'')) (\<lambda>_.
     io_bind (io_lift (reject_unless (tag_content ''ResponseCode'' xml = Some ''02'')
       (''El AttachedDocument no contiene el codigo de aceptacion reglamentario de la DIAN ('' @ [CHR 0x27] @ ''02'' @
          [CHR 0x27] @ '')''))) (\<lambda>_.
     io_bind (io_lift (unverified_facts xml)) (\<lambda>f.
     io_bind (io_lift (if if_receiver_nit f \<noteq> t_tax_id tenant
       then Inl (Forbidden (''El NIT receptor del documento ('' @ if_receiver_nit f @
              '') no coincide con el del tenant autenticado''))
       else Inr ())) (\<lambda>_.
     io_bind (io_lift (ok_or (invalid (''El ParentDocumentID '' @ [CHR 0x27] @ if_invoice_id f @ [CHR 0x27] @
       '' no tiene un consecutivo numerico valido'')) (split_document_id (if_invoice_id f)))) (\<lambda>numbered.
     register_document (is_documents S) tenant (if_sender_nit f) (if_invoice_id f) (if_cufe f) numbered
       (unverified_payload f) xml)))))"

end
