(* ===== verification/Radian_Service.thy ===== *)
theory Radian_Service
  imports Inbound_Service Issue_Service Ubl_Xml
begin

text \<open>
  \<open>application/src/radian.rs\<close>: RADIAN events on received invoices. The XML of the event is that of
  \<open>Ubl_Xml\<close>; the local date and time is a parameter. A panic of the libraries is \<open>Panicked\<close>.
\<close>

record radian_event_request =
  rq_event_code :: string
  rq_software_pin :: string
  rq_environment :: string

record radian_event_outcome =
  ro_event_id :: uuid
  ro_event_code :: string
  ro_cude :: string
  ro_dian_status :: string
  ro_dian_message :: string
  ro_soap_trace_id :: "string option"

record 'w radian_service =
  rs_documents :: "'w document_repository"
  rs_signer :: "'w crypto_signer"
  rs_soap :: "'w dian_soap_client"

definition event_description :: "string \<Rightarrow> string option" where
  "event_description code =
     (if code = ''030'' then Some ''Acuse de recibo de Factura Electronica de Venta''
      else if code = ''032'' then Some ''Recibo de las mercancias o servicios''
      else if code = ''033'' then Some ''Aceptacion expresa''
      else if code = ''034'' then Some ''Aceptacion tacita''
      else None)"

definition internal_ubl :: "'a ubl \<Rightarrow> domain_error failure + 'a" where
  "internal_ubl r = map_err (map_failure (\<lambda>e. Internal (ubl_error_display e))) r"

text \<open>The checks before the event is written: what it takes from the document.\<close>

record event_facts =
  ef_sender_nit :: string
  ef_sender_name :: string
  ef_parent_document_id :: string
  ef_description :: string

definition payload_field :: "json_object \<Rightarrow> string \<Rightarrow> string result" where
  "payload_field payload name =
     ok_or (Internal (''Missing '' @ name @ '' in document payload'')) (obj_str name payload)"

definition event_facts_of :: "json_object \<Rightarrow> string \<Rightarrow> event_facts result" where
  "event_facts_of payload event_code =
     bind_ok (reject_unless (obj_bool ''inbound'' payload = Some True)
       ''Solo se pueden emitir eventos del RADIAN sobre facturas inbound de proveedores'') (\<lambda>_.
     bind_ok (reject_unless (obj_bool ''signature_verified'' payload = Some True)
       ''No se pueden emitir eventos RADIAN sobre una factura cuya firma no fue verificada'') (\<lambda>_.
     bind_ok (payload_field payload ''sender_nit'') (\<lambda>sender_nit.
     bind_ok (payload_field payload ''sender_name'') (\<lambda>sender_name.
     bind_ok (payload_field payload ''parent_document_id'') (\<lambda>parent.
     bind_ok (ok_or (invalid (''Codigo de evento '' @ [CHR 0x27] @ event_code @ [CHR 0x27] @
       '' invalido. Debe ser 030, 032, 033 o 034'')) (event_description event_code)) (\<lambda>description.
     Inr \<lparr>ef_sender_nit = sender_nit, ef_sender_name = sender_name, ef_parent_document_id = parent,
          ef_description = description\<rparr>))))))"

definition radian_input ::
  "(instant \<Rightarrow> string \<times> string) \<Rightarrow> tenant \<Rightarrow> document \<Rightarrow> radian_event_request \<Rightarrow> event_facts \<Rightarrow> uuid \<Rightarrow> instant \<Rightarrow> response_input" where
  "radian_input local_time tenant d q f i now =
     \<lparr>ri_id = ''EV-'' @ uuid_string i, ri_issue_date = fst (local_time now), ri_issue_time = snd (local_time now),
      ri_sender_nit = t_tax_id tenant, ri_sender_name = t_registration_name tenant, ri_sender_id_type = ''31'',
      ri_receiver_nit = ef_sender_nit f, ri_receiver_name = ef_sender_name f, ri_receiver_id_type = ''31'',
      ri_event_code = rq_event_code q, ri_event_description = ef_description f,
      ri_parent_document_id = ef_parent_document_id f, ri_parent_document_uuid = d_cufe_cude d,
      ri_software_pin = rq_software_pin q, ri_environment = rq_environment q\<rparr>"

definition not_found_document :: "uuid \<Rightarrow> domain_error" where
  "not_found_document i = NotFound (''Documento '' @ uuid_string i @ '' no encontrado'')"

text \<open>From the response of the DIAN on: the event that is recorded and the answer.\<close>

definition record_response ::
  "'db world radian_service \<Rightarrow> document \<Rightarrow> string \<Rightarrow> string \<Rightarrow> dian_response \<Rightarrow> ('db world, radian_event_outcome) io" where
  "record_response R d event_code cude response w =
     (case new_uuid w of (k, v) \<Rightarrow>
        let event = (dian_event_new k (clock v) (d_id d)
              (if status_code response = ''00'' then E_Accepted else E_Rejected) (status_code response) (message response))
              \<lparr>e_soap_trace_id := soap_trace_id response, e_xml_response := xml_response response\<rparr>
        in io_bind (record_event (rs_documents R) event) (\<lambda>_. io_return
             \<lparr>ro_event_id = e_id event, ro_event_code = event_code, ro_cude = cude,
              ro_dian_status = status_code response, ro_dian_message = message response,
              ro_soap_trace_id = soap_trace_id response\<rparr>) v)"

definition register_event ::
  "'d ubl_libs \<Rightarrow> (instant \<Rightarrow> string \<times> string) \<Rightarrow> 'db world radian_service \<Rightarrow> tenant \<Rightarrow> uuid \<Rightarrow> radian_event_request \<Rightarrow>
   ('db world, radian_event_outcome) service" where
  "register_event U local_time R tenant document_id q =
     io_bind (io_map_err Failed (find_tenant_document (rs_documents R) (t_id tenant) document_id)) (\<lambda>found.
     io_bind (io_lift (map_err Failed (ok_or (not_found_document document_id) found))) (\<lambda>d.
     io_bind (io_lift (map_err Failed (event_facts_of (d_payload d) (rq_event_code q)))) (\<lambda>f w.
     (case new_uuid w of (i, v) \<Rightarrow>
        io_bind (io_lift (internal_ubl (ubl_response_xml U (radian_input local_time tenant d q f i (clock v))))) (\<lambda>(unsigned_xml, cude).
        io_bind (io_map_err Failed (sign_for_tenant (rs_signer R) (t_id tenant) unsigned_xml)) (\<lambda>signed_xml.
        io_bind (io_lift (internal_ubl (ubl_compress U signed_xml (t_tax_id tenant) ''EV'' 1))) (\<lambda>(zip, _).
        io_bind (io_map_err Failed (send_event_update_status (rs_soap R) (t_id tenant) zip (rq_environment q = ''2''))) (\<lambda>response.
        io_map_err Failed (record_response R d (rq_event_code q) cude response))))) v))))"

end
