(* ===== verification/Inbound_Properties.thy ===== *)
theory Inbound_Properties
  imports Radian_Service Processing_Properties
begin

text \<open>
  What the reception of invoices and the RADIAN events guarantee, over the PostgreSQL store and the DIAN of
  \<open>Port_Laws\<close>.
\<close>

section \<open>Registering the row\<close>

lemma inbound_tx_cases:
  assumes "alone w" "pg_insert_inbound d w = (r, w')"
  obtains (failed) e where "r = Inl e" "w' = w"
    | (known) "r = Inr False" "w' = w" "document_key (inbound_row d (clock w)) \<in> document_key ` set (documents (db w))"
    | (added) "r = Inr True" "w' = w\<lparr>db := (db w)\<lparr>documents := documents (db w) @ [inbound_row d (clock w)]\<rparr>\<rparr>"
        "document_key (inbound_row d (clock w)) \<notin> document_key ` set (documents (db w))"
proof (cases "inbound_tx d (clock w) (db w)")
  case (Inl e)
  with assms failed show thesis by (auto simp: pg_insert_inbound_def tx_alone)
next
  case (Inr p)
  obtain b s where p: "p = (b, s)" by force
  with Inr assms have rw: "r = Inr b" "w' = w\<lparr>db := s\<rparr>" by (simp_all add: pg_insert_inbound_def tx_alone)
  show thesis
  proof (cases "document_key (inbound_row d (clock w)) \<in> document_key ` set (documents (db w))")
    case True
    with Inr p have "b = False" "s = db w" by (simp_all add: inbound_tx_def)
    with rw True known show thesis by simp
  next
    case False
    with Inr p have "b = True" "s = (db w)\<lparr>documents := documents (db w) @ [inbound_row d (clock w)]\<rparr>"
      by (auto simp: inbound_tx_def map_err_Inr_iff bind_ok_Inr_iff put_Inr)
    with rw False added show thesis by simp
  qed
qed

text \<open>The row a registration adds.\<close>

definition received ::
  "tenant \<Rightarrow> string \<Rightarrow> string \<Rightarrow> string \<times> i32 \<Rightarrow> json_object \<Rightarrow> string \<Rightarrow> uuid \<Rightarrow> new_inbound_document" where
  "received tenant issuer cufe numbered payload xml i =
     \<lparr>ni_id = i, ni_tenant_id = t_id tenant, ni_issuer_nit = issuer, ni_document_type = Invoice,
      ni_prefix = fst numbered, ni_document_number = snd numbered, ni_cufe = cufe, ni_payload = payload,
      ni_signed_xml = xml, ni_status = DianAccepted\<rparr>"

lemma register_document_cases:
  assumes "alone w" "register_document (pg_documents dn) tenant issuer parent cufe numbered payload xml w = (r, w')"
  obtains (refused) e where "r = Inl e" "db w' = db w" "dian_log w' = dian_log w"
    | (registered) "r = Inr \<lparr>ib_document_id = next_uuid w, ib_parent_document_id = parent\<rparr>"
        "w' = w\<lparr>next_uuid := next_uuid w + 1, db := (db w)\<lparr>documents := documents (db w) @
           [inbound_row (received tenant issuer cufe numbered payload xml (next_uuid w)) (clock w)]\<rparr>\<rparr>"
proof -
  let ?v = "w\<lparr>next_uuid := next_uuid w + 1\<rparr>"
  let ?d = "received tenant issuer cufe numbered payload xml (next_uuid w)"
  obtain q u where q: "pg_insert_inbound ?d ?v = (q, u)" by force
  have run: "(case q of Inl e \<Rightarrow> (Inl e, u)
      | Inr inserted \<Rightarrow> if \<not> inserted then (Inl (already_registered parent issuer), u)
          else (Inr \<lparr>ib_document_id = next_uuid w, ib_parent_document_id = parent\<rparr>, u)) = (r, w')"
    using assms(2) q
    by (auto simp: register_document_def new_uuid_def io_bind_def pg_documents_def received_def split: sum.splits)
  have "alone ?v" using assms(1) by (simp add: alone_def)
  from this q show thesis
  proof (cases rule: inbound_tx_cases)
    case (failed e)
    with run show thesis by (intro refused[of e]) auto
  next
    case known
    with run show thesis by (intro refused[of "already_registered parent issuer"]) auto
  next
    case added
    with run registered show thesis by simp
  qed
qed

text \<open>The number of an invoice is cut at its first digit, also when the prefix has digits (F2 and 7).\<close>

lemma prefix_with_digits_is_split: "split_document_id (''F2'' @ ''7'') = Some (''F'', 27)"
  by (simp add: split_document_id_def rfind_char_def parse_i32_digits_def all_digits_def is_ascii_digit_def byte_def
      digits_value_def digit_value_def i32_max_def)

section \<open>Verified reception\<close>

lemma required_Inr:
  "required reader doc path what = Inr v \<longleftrightarrow> xml_text reader doc path = Some v \<and> v \<noteq> []"
  by (auto simp: required_def ok_or_Inr_iff split: option.splits if_splits)

lemma check_response_Inr:
  "check_response reader container response tenant f = Inr numbered \<longleftrightarrow>
     xml_text reader response response_code_path = Some ''02'' \<and>
     (\<exists>c. xml_text reader response validated_cufe_path = Some c \<and> c \<noteq> [] \<and> eq_ignore_ascii_case c (if_cufe f)) \<and>
     xml_text reader container [''AttachedDocument'', ''ParentDocumentID''] = Some (if_invoice_id f) \<and>
     if_receiver_nit f = t_tax_id tenant \<and> split_document_id (if_invoice_id f) = Some numbered"
  by (auto simp: check_response_def bind_ok_Inr_iff required_Inr reject_unless_Inr ok_or_Inr_iff split: if_splits)


text \<open>
  A verifier that only computes: \<open>check\<close> is its verdict on a text. The registration is then a chain of tests
  followed by the insertion.
\<close>

definition verifier_of :: "(string \<Rightarrow> verified_signature result) \<Rightarrow> string \<Rightarrow> 'w inbound_verification" where
  "verifier_of check dian = \<lparr>iv_verify = (\<lambda>x. io_lift (check x)), iv_dian_signer_subject = dian\<rparr>"

lemma verify_part_of: "verify_part (verifier_of check dian) what x = io_lift (map_err (signature_error what) (check x))"
  by (simp add: verify_part_def verifier_of_def io_map_err_def fun_eq_iff)

text \<open>The outcome of the tests: the embedded texts, the facts of the invoice, its number, the payload.\<close>

definition reception ::
  "xml_reader \<Rightarrow> (string \<Rightarrow> verified_signature result) \<Rightarrow> string \<Rightarrow> tenant \<Rightarrow> string \<Rightarrow>
   (invoice_facts \<times> (string \<times> i32) \<times> json_object) result" where
  "reception reader check dian tenant xml =
     bind_ok (map_err invalid (parse_xml reader xml)) (\<lambda>container.
     bind_ok (reject_unless (x_root container = ''AttachedDocument'')
       ''El documento recibido no es un AttachedDocument'') (\<lambda>_.
     bind_ok (required reader container attached_invoice ''la factura embebida en el AttachedDocument'') (\<lambda>invoice_xml.
     bind_ok (required reader container attached_response ''el ApplicationResponse de la DIAN en el AttachedDocument'') (\<lambda>response_xml.
     bind_ok (map_err (signature_error ''el AttachedDocument'') (check xml)) (\<lambda>_.
     bind_ok (map_err (signature_error ''la factura'') (check invoice_xml)) (\<lambda>s1.
     bind_ok (map_err (signature_error ''el ApplicationResponse'') (check response_xml)) (\<lambda>s2.
     bind_ok (reject_unless (contains_str dian (signer_subject s2))
       (''El ApplicationResponse no esta firmado por la DIAN (firmante: '' @ signer_subject s2 @ '')'')) (\<lambda>_.
     bind_ok (map_err (\<lambda>e. invalid (''Factura embebida: '' @ e)) (parse_xml reader invoice_xml)) (\<lambda>invoice.
     bind_ok (reject_unless (x_root invoice = ''Invoice'') ''El documento embebido no es una factura (Invoice)'') (\<lambda>_.
     bind_ok (map_err (\<lambda>e. invalid (''ApplicationResponse: '' @ e)) (parse_xml reader response_xml)) (\<lambda>response.
     bind_ok (reject_unless (x_root response = ''ApplicationResponse'')
       ''La respuesta embebida no es un ApplicationResponse'') (\<lambda>_.
     bind_ok (invoice_facts_of reader invoice) (\<lambda>f.
     bind_ok (check_response reader container response tenant f) (\<lambda>numbered.
     Inr (f, numbered, verified_payload reader invoice f s1 s2)))))))))))))))"

lemma case_bind_ok:
  "(case bind_ok x k of Inl e \<Rightarrow> f e | Inr p \<Rightarrow> h p) =
   (case x of Inl e \<Rightarrow> f e | Inr a \<Rightarrow> (case k a of Inl e \<Rightarrow> f e | Inr p \<Rightarrow> h p))"
  by (cases x) simp_all

lemma register_verified_chain:
  assumes "is_verification S = Some (verifier_of check dian)"
  shows "register_verified reader S tenant xml w =
    (case reception reader check dian tenant xml of
       Inl e \<Rightarrow> (Inl e, w)
     | Inr (f, numbered, payload) \<Rightarrow>
         register_document (is_documents S) tenant (if_sender_nit f) (if_invoice_id f) (if_cufe f) numbered payload xml w)"
proof -
  have dian: "iv_dian_signer_subject (verifier_of check dian) = dian" by (simp add: verifier_of_def)
  show ?thesis
    unfolding register_verified_def reception_def assms option.case verify_part_of dian io_lift_bind case_bind_ok
      sum.case prod.case ..
qed



text \<open>A container \<open>C\<close> with the invoice \<open>I\<close> and the response \<open>R\<close>; the tokenizer knows these three.\<close>

definition ex_leaf :: "string \<Rightarrow> string \<Rightarrow> xml_event list" where
  "ex_leaf name t = [Ev_start name, Ev_text t, Ev_end]"

definition ex_party :: "string \<Rightarrow> string \<Rightarrow> xml_event list" where
  "ex_party role nit = [Ev_start role, Ev_start ''Party'', Ev_start ''PartyTaxScheme''] @
     ex_leaf ''CompanyID'' nit @ ex_leaf ''RegistrationName'' ''N'' @ [Ev_end, Ev_end, Ev_end]"

definition ex_reader :: xml_reader where
  "ex_reader x =
     (if x = ''C'' then
        [Ev_start ''AttachedDocument''] @ ex_leaf ''ParentDocumentID'' ''F7'' @
        [Ev_start ''Attachment'', Ev_start ''ExternalReference''] @ ex_leaf ''Description'' ''I'' @ [Ev_end, Ev_end] @
        [Ev_start ''ParentDocumentLineReference'', Ev_start ''DocumentReference'', Ev_start ''Attachment'',
         Ev_start ''ExternalReference''] @ ex_leaf ''Description'' ''R'' @ [Ev_end, Ev_end, Ev_end, Ev_end, Ev_end]
      else if x = ''I'' then
        [Ev_start ''Invoice''] @ ex_leaf ''ID'' ''F7'' @ ex_leaf ''UUID'' ''ab'' @
        ex_party ''AccountingSupplierParty'' ''8'' @ ex_party ''AccountingCustomerParty'' ''900'' @ [Ev_end]
      else
        [Ev_start ''ApplicationResponse'', Ev_start ''DocumentResponse'', Ev_start ''Response''] @
        ex_leaf ''ResponseCode'' ''02'' @ [Ev_end, Ev_start ''DocumentReference''] @ ex_leaf ''UUID'' ''AB'' @
        [Ev_end, Ev_end, Ev_end], None)"

lemma ex_trim:
  "trim ''F7'' = ''F7''" "trim ''I'' = ''I''" "trim ''R'' = ''R''" "trim ''ab'' = ''ab''" "trim ''8'' = ''8''"
  "trim ''900'' = ''900''" "trim ''N'' = ''N''" "trim ''02'' = ''02''" "trim ''AB'' = ''AB''"
  by (rule trim_plain; auto simp: byte_def)+

lemma ex_parsed:
  "parse_xml ex_reader ''C'' = Inr \<lparr>x_xml = ''C'', x_root = ''AttachedDocument''\<rparr>"
  "parse_xml ex_reader ''I'' = Inr \<lparr>x_xml = ''I'', x_root = ''Invoice''\<rparr>"
  "parse_xml ex_reader ''R'' = Inr \<lparr>x_xml = ''R'', x_root = ''ApplicationResponse''\<rparr>"
  by (simp_all add: parse_xml_def ex_reader_def ex_leaf_def ex_party_def local_name_def)

lemma ex_texts_read:
  "xml_text ex_reader \<lparr>x_xml = ''C'', x_root = ''AttachedDocument''\<rparr> attached_invoice = Some ''I''"
  "xml_text ex_reader \<lparr>x_xml = ''C'', x_root = ''AttachedDocument''\<rparr> attached_response = Some ''R''"
  "xml_text ex_reader \<lparr>x_xml = ''C'', x_root = ''AttachedDocument''\<rparr> [''AttachedDocument'', ''ParentDocumentID''] = Some ''F7''"
  "xml_text ex_reader \<lparr>x_xml = ''R'', x_root = ''ApplicationResponse''\<rparr> response_code_path = Some ''02''"
  "xml_text ex_reader \<lparr>x_xml = ''R'', x_root = ''ApplicationResponse''\<rparr> validated_cufe_path = Some ''AB''"
  by (simp_all add: xml_text_def ex_reader_def ex_leaf_def ex_party_def local_name_def ex_trim attached_invoice_def
      attached_response_def response_code_path_def validated_cufe_path_def)

lemma ex_invoice_read:
  "xml_text ex_reader \<lparr>x_xml = ''I'', x_root = ''Invoice''\<rparr> [''Invoice'', ''ID''] = Some ''F7''"
  "xml_text ex_reader \<lparr>x_xml = ''I'', x_root = ''Invoice''\<rparr> [''Invoice'', ''UUID''] = Some ''ab''"
  "xml_text ex_reader \<lparr>x_xml = ''I'', x_root = ''Invoice''\<rparr> (supplier_path @ [''CompanyID'']) = Some ''8''"
  "xml_text ex_reader \<lparr>x_xml = ''I'', x_root = ''Invoice''\<rparr> (supplier_path @ [''RegistrationName'']) = Some ''N''"
  "xml_text ex_reader \<lparr>x_xml = ''I'', x_root = ''Invoice''\<rparr> (customer_path @ [''CompanyID'']) = Some ''900''"
  "xml_text ex_reader \<lparr>x_xml = ''I'', x_root = ''Invoice''\<rparr> (customer_path @ [''RegistrationName'']) = Some ''N''"
  by (simp_all add: xml_text_def ex_reader_def ex_leaf_def ex_party_def local_name_def ex_trim supplier_path_def
      customer_path_def)

lemma ex_facts_read:
  "invoice_facts_of ex_reader \<lparr>x_xml = ''I'', x_root = ''Invoice''\<rparr> =
     Inr \<lparr>if_invoice_id = ''F7'', if_cufe = ''ab'', if_sender_nit = ''8'', if_sender_name = ''N'',
          if_receiver_nit = ''900'', if_receiver_name = ''N''\<rparr>"
  by (simp add: invoice_facts_of_def required_def ex_invoice_read)

definition ex_inbound :: "pg world inbound_service" where
  "ex_inbound = \<lparr>is_documents = pg_documents (\<lambda>_. []),
     is_verification = Some (verifier_of (\<lambda>x. Inr \<lparr>signer_subject = ''CN=DIAN''\<rparr>) ''DIAN'')\<rparr>"

definition ex_receiving :: "pg world" where
  "ex_receiving = ex_world (ex_db [] [])"



section \<open>RADIAN events\<close>

text \<open>What the checks before an event establish.\<close>

lemma event_facts_Inr:
  assumes "event_facts_of payload code = Inr f"
  shows "obj_bool ''inbound'' payload = Some True" "obj_bool ''signature_verified'' payload = Some True"
    "code \<in> {''030'', ''032'', ''033'', ''034''}"
  using assms
  by (auto simp: event_facts_of_def bind_ok_Inr_iff reject_unless_Inr ok_or_Inr_iff event_description_def split: if_splits)

definition pg_radian ::
  "(instant \<Rightarrow> string) \<Rightarrow> (instant \<Rightarrow> uuid \<Rightarrow> string \<Rightarrow> string result) \<Rightarrow> dian \<Rightarrow> pg world radian_service" where
  "pg_radian dn f dian = \<lparr>rs_documents = pg_documents dn, rs_signer = signer f, rs_soap = dian_client dian\<rparr>"

lemma pg_radian_simps [simp]:
  "find_tenant_document (rs_documents (pg_radian dn f dian)) = pg_find_tenant_document"
  "record_event (rs_documents (pg_radian dn f dian)) = pg_record_event"
  "sign_for_tenant (rs_signer (pg_radian dn f dian)) t x w = (f (clock w) t x, w)"
  "send_event_update_status (rs_soap (pg_radian dn f dian)) t z h =
     soap_exchange (answers dian) (Send_event_update_status t z h)"
  by (simp_all add: pg_radian_def pg_documents_def signer_def dian_client_def)

definition response_event_of :: "uuid \<Rightarrow> instant \<Rightarrow> document \<Rightarrow> dian_response \<Rightarrow> dian_event" where
  "response_event_of k now d response =
     (dian_event_new k now (d_id d) (if status_code response = ''00'' then E_Accepted else E_Rejected)
        (status_code response) (message response))
     \<lparr>e_soap_trace_id := soap_trace_id response, e_xml_response := xml_response response\<rparr>"

lemma record_response_alone:
  assumes "alone w" "record_response (pg_radian dn f dian) d code cude response w = (r, w')"
  shows "dian_log w' = dian_log w"
    "(\<exists>e. r = Inl e \<and> db w' = db w) \<or>
     (r = Inr \<lparr>ro_event_id = next_uuid w, ro_event_code = code, ro_cude = cude, ro_dian_status = status_code response,
        ro_dian_message = message response, ro_soap_trace_id = soap_trace_id response\<rparr> \<and>
      events (db w') = events (db w) @ [response_event_of (next_uuid w) (clock w) d response])"
proof -
  let ?v = "w\<lparr>next_uuid := next_uuid w + 1\<rparr>"
  have v: "alone ?v" using assms(1) by (simp add: alone_def)
  have id: "e_id (response_event_of k now d response) = k" for k now
    by (simp add: response_event_of_def dian_event_new_def)
  have run: "(case insert_event (response_event_of (next_uuid w) (clock w) d response) (db w) of
      Inl e \<Rightarrow> (Inl e, ?v)
    | Inr s \<Rightarrow> (Inr \<lparr>ro_event_id = next_uuid w, ro_event_code = code, ro_cude = cude,
        ro_dian_status = status_code response, ro_dian_message = message response,
        ro_soap_trace_id = soap_trace_id response\<rparr>, ?v\<lparr>db := s\<rparr>)) = (r, w')"
    using assms(2) id[of "next_uuid w" "clock w"]
    by (auto simp: record_response_def new_uuid_def io_bind_def pg_record_event_def tx_alone[OF v[simplified]] Let_def
        bind_ok_def response_event_of_def[symmetric] split: sum.splits prod.splits)
  then show "dian_log w' = dian_log w" by (auto split: sum.splits)
  from run show "(\<exists>e. r = Inl e \<and> db w' = db w) \<or>
     (r = Inr \<lparr>ro_event_id = next_uuid w, ro_event_code = code, ro_cude = cude, ro_dian_status = status_code response,
        ro_dian_message = message response, ro_soap_trace_id = soap_trace_id response\<rparr> \<and>
      events (db w') = events (db w) @ [response_event_of (next_uuid w) (clock w) d response])"
    by (auto simp: insert_event_def map_err_Inr_iff put_Inr split: sum.splits)
qed


text \<open>The tests and the signature before the exchange: the document, its facts, the archive and the CUDE.\<close>

definition radian_ready ::
  "'d ubl_libs \<Rightarrow> (instant \<Rightarrow> string \<times> string) \<Rightarrow> (instant \<Rightarrow> uuid \<Rightarrow> string \<Rightarrow> string result) \<Rightarrow> tenant \<Rightarrow> document \<Rightarrow>
   radian_event_request \<Rightarrow> uuid \<Rightarrow> instant \<Rightarrow> event_facts \<Rightarrow> domain_error failure + string \<times> string" where
  "radian_ready U local_time f tenant d q i now facts =
     bind_ok (internal_ubl (ubl_response_xml U (radian_input local_time tenant d q facts i now))) (\<lambda>(unsigned_xml, cude).
     bind_ok (map_err Failed (f now (t_id tenant) unsigned_xml)) (\<lambda>signed_xml.
     bind_ok (internal_ubl (ubl_compress U signed_xml (t_tax_id tenant) ''EV'' 1)) (\<lambda>(archive, _). Inr (archive, cude))))"

lemma register_event_cases:
  assumes "alone w" "register_event U local_time (pg_radian dn f dian) tenant i q w = (r, w')"
  obtains (refused) e where "r = Inl e" "db w' = db w" "dian_log w' = dian_log w"
    | (sent) d facts archive cude v where "find_row (\<lambda>d. d_id d = i \<and> d_tenant_id d = t_id tenant) (documents (db w)) = Some d"
        "event_facts_of (d_payload d) (rq_event_code q) = Inr facts"
        "radian_ready U local_time f tenant d q (next_uuid w) (clock w) facts = Inr (archive, cude)"
        "v = w\<lparr>next_uuid := next_uuid w + 1\<rparr>"
        "io_bind (io_map_err Failed (soap_exchange (answers dian)
           (Send_event_update_status (t_id tenant) archive (rq_environment q = ''2'')))) (\<lambda>response.
           io_map_err Failed (record_response (pg_radian dn f dian) d (rq_event_code q) cude response)) v = (r, w')"
proof (cases "find_row (\<lambda>d. d_id d = i \<and> d_tenant_id d = t_id tenant) (documents (db w))")
  case None
  with assms have "r = Inl (Failed (not_found_document i)) \<and> w' = w"
    by (auto simp: register_event_def pg_find_tenant_document_def query_alone io_bind_def io_map_err_def)
  with refused show thesis by blast
next
  case (Some d)
  show thesis
  proof (cases "event_facts_of (d_payload d) (rq_event_code q)")
    case (Inl e)
    with assms Some have "r = Inl (Failed e) \<and> w' = w"
      by (auto simp: register_event_def pg_find_tenant_document_def query_alone io_bind_def io_map_err_def)
    with refused show thesis by blast
  next
    case (Inr facts)
    let ?v = "w\<lparr>next_uuid := next_uuid w + 1\<rparr>"
    let ?rest = "\<lambda>archive cude. io_bind (io_map_err Failed (soap_exchange (answers dian)
           (Send_event_update_status (t_id tenant) archive (rq_environment q = ''2'')))) (\<lambda>response.
           io_map_err Failed (record_response (pg_radian dn f dian) d (rq_event_code q) cude response))"
    have run: "(case radian_ready U local_time f tenant d q (next_uuid w) (clock w) facts of
        Inl e \<Rightarrow> (Inl e, ?v) | Inr (archive, cude) \<Rightarrow> ?rest archive cude ?v) = (r, w')"
      using assms Some Inr
      by (auto simp: register_event_def pg_find_tenant_document_def query_alone io_bind_def io_map_err_def new_uuid_def
          radian_ready_def bind_ok_def map_err_def split: sum.splits prod.splits)
    show thesis
    proof (cases "radian_ready U local_time f tenant d q (next_uuid w) (clock w) facts")
      case (Inl e)
      with run refused[of e] show thesis by auto
    next
      case (Inr p)
      obtain archive cude where p: "p = (archive, cude)" by force
      with Inr run have "?rest archive cude ?v = (r, w')" by simp
      from sent[OF Some \<open>event_facts_of (d_payload d) (rq_event_code q) = Inr facts\<close> Inr[unfolded p] refl this] show thesis .
    qed
  qed
qed

text \<open>
  C29. A RADIAN event (it has the effects of a negotiable instrument) goes to the DIAN only for a received
  invoice of the tenant whose signatures were verified, with one of the four event codes. Otherwise, and when
  the XML cannot be written, signed or packed, nothing is sent and nothing is stored. When it is sent it is
  sent once, in the name of the tenant and to the environment of the request; the answer is recorded as an
  event of that document, accepted exactly when its code is 00. In particular an invoice registered without
  verification, whose row says so, never gets an event.
\<close>

theorem radian_events_need_verified_invoices:
  assumes "alone w" "register_event U local_time (pg_radian dn f dian) tenant i q w = (r, w')"
  shows "((\<exists>e. r = Inl e) \<and> db w' = db w \<and> dian_log w' = dian_log w) \<or>
    (\<exists>d archive call. d \<in> set (documents (db w)) \<and> d_id d = i \<and> d_tenant_id d = t_id tenant \<and>
       obj_bool ''inbound'' (d_payload d) = Some True \<and> obj_bool ''signature_verified'' (d_payload d) = Some True \<and>
       rq_event_code q \<in> {''030'', ''032'', ''033'', ''034''} \<and>
       call = Send_event_update_status (t_id tenant) archive (rq_environment q = ''2'') \<and>
       dian_log w' = dian_log w @ [call] \<and>
       (case answers dian (clock w) (dian_log w) call of
          Inl e \<Rightarrow> r = Inl (Failed e) \<and> db w' = db w
        | Inr response \<Rightarrow>
            (\<exists>e. r = Inl (Failed e) \<and> db w' = db w) \<or>
            (\<exists>out k. r = Inr out \<and> ro_dian_status out = status_code response \<and>
               events (db w') = events (db w) @ [response_event_of k (clock w) d response])))"
  using assms
proof (cases rule: register_event_cases)
  case (refused e)
  then show ?thesis by simp
next
  case (sent d facts archive cude v)
  note d = find_row_SomeD[OF sent(1)] and facts = event_facts_Inr[OF sent(2)]
  let ?call = "Send_event_update_status (t_id tenant) archive (rq_environment q = ''2'')"
  define u where "u = v\<lparr>dian_log := dian_log w @ [?call]\<rparr>"
  have u: "alone u" "db u = db w" "dian_log u = dian_log w @ [?call]" "clock u = clock w"
    using assms(1) by (simp_all add: u_def sent(4) alone_def)
  have "dian_log w' = dian_log w @ [?call] \<and>
     (case answers dian (clock w) (dian_log w) ?call of
        Inl e \<Rightarrow> r = Inl (Failed e) \<and> db w' = db w
      | Inr response \<Rightarrow>
          (\<exists>e. r = Inl (Failed e) \<and> db w' = db w) \<or>
          (\<exists>out k. r = Inr out \<and> ro_dian_status out = status_code response \<and>
             events (db w') = events (db w) @ [response_event_of k (clock w) d response]))"
  proof (cases "answers dian (clock w) (dian_log w) ?call")
    case (Inl e)
    with sent(4,5) u show ?thesis by (auto simp: soap_exchange_def io_bind_def io_map_err_def u_def)
  next
    case (Inr response)
    obtain r0 x where rec: "record_response (pg_radian dn f dian) d (rq_event_code q) cude response u = (r0, x)" by force
    with sent(4,5) Inr have "r = map_err Failed r0" "w' = x"
      by (auto simp: soap_exchange_def io_bind_def io_map_err_def u_def)
    with record_response_alone[OF u(1) rec] u Inr show ?thesis by auto
  qed
  with d facts show ?thesis by blast
qed


definition ex_ubl :: "exact ubl_libs" where
  "ex_ubl = \<lparr>u_decimals = exact_decimals, u_sha384 = (\<lambda>_. []), u_fixed2 = (\<lambda>_. []), u_render = (\<lambda>_ _. Inr ''<r/>''),
     u_zip = (\<lambda>_ xml. Inr xml)\<rparr>"

definition ex_received :: "bool \<Rightarrow> document" where
  "ex_received verified = inbound_row (received ex_tenant_row ''8'' ''ab'' (''F'', 7)
     [(''inbound'', J_bool True), (''parent_document_id'', J_str ''F7''), (''sender_name'', J_str ''N''),
      (''sender_nit'', J_str ''8''), (''signature_verified'', J_bool verified)] ''C'' 10) ex_now"

definition ex_acceptance :: radian_event_request where
  "ex_acceptance = \<lparr>rq_event_code = ''033'', rq_software_pin = ''p'', rq_environment = ''2''\<rparr>"

theorem radian_events_need_verified_invoices_witness:
  "\<exists>e. events (db (snd (register_event ex_ubl (\<lambda>_. ([], [])) (pg_radian (\<lambda>_. []) (\<lambda>_ _ _. Inr ''<s/>'')
       (ex_dian (Inr (ex_response ''00'')))) ex_tenant_row 10 ex_acceptance (ex_world (ex_db [ex_received True] []))))) = [e] \<and>
     e_document_id e = 10 \<and> e_event_status e = E_Accepted"
proof -
  let ?w = "ex_world (ex_db [ex_received True] [])"
  let ?R = "pg_radian (\<lambda>_. []) (\<lambda>_ _ _. Inr ''<s/>'') (ex_dian (Inr (ex_response ''00'')))"
  let ?run = "register_event ex_ubl (\<lambda>_. ([], [])) ?R ex_tenant_row 10 ex_acceptance ?w"
  have w: "alone ?w" by (simp add: alone_def ex_world_def ex_start_def)
  have empty: "events (db ?w) = []" by (simp add: ex_world_def ex_db_def pg_empty_def)
  have run: "?run = (fst ?run, snd ?run)" by simp
  have "\<nexists>e. fst ?run = Inl e"
    using w by (simp add: register_event_def pg_find_tenant_document_def query_alone io_bind_def io_map_err_def new_uuid_def
        event_facts_of_def payload_field_def obj_str_def obj_bool_def obj_get_def reject_unless_def event_description_def
        ex_received_def inbound_row_def received_def ex_world_def ex_db_def ex_start_def pg_empty_def ex_tenant_row_def
        tenant_row_def ex_tenant_def ex_acceptance_def internal_ubl_def ubl_response_xml_def render_def ubl_compress_def
        ex_ubl_def soap_exchange_def ex_dian_def ex_response_def record_response_def pg_record_event_def tx_alone alone_def
        insert_event_def dian_event_new_def put_events_def constrained_def unique_on_def references_def)
  with radian_events_need_verified_invoices[OF w run] empty show ?thesis
    by (auto simp: ex_dian_def ex_response_def response_event_of_def dian_event_new_def)
qed

end
