(* ===== verification/Queue_Termination.thy ===== *)
theory Queue_Termination
  imports Examples
begin

text \<open>
  The queue runs out. Every job that is handed to a worker costs one of its attempts; only a release, which
  the processor makes while a breaker is open, gives one back. So the number of jobs handed out in any run of
  workers is bounded by what the queue holds at the start, whatever fails on the way. \<open>remaining\<close> is the
  measure.
\<close>

section \<open>What workers do\<close>

datatype queue_call =
    Q_claim string int int
  | Q_complete uuid
  | Q_retry uuid instant string
  | Q_release uuid instant
  | Q_bury uuid string
  | Q_wait instant

text \<open>A call, with the number of jobs it hands out.\<close>

definition done_with :: "'a result \<times> 'w \<Rightarrow> nat \<times> 'w" where
  "done_with m = (0, snd m)"

fun queue_step :: "row_locks \<Rightarrow> queue_call \<Rightarrow> pg world \<Rightarrow> nat \<times> pg world" where
  "queue_step locked (Q_claim worker limit lease) w =
     (case pg_claim locked worker limit lease w of (Inr js, v) \<Rightarrow> (length js, v) | (Inl _, v) \<Rightarrow> (0, v))"
| "queue_step locked (Q_complete i) w = done_with (pg_complete i w)"
| "queue_step locked (Q_retry i at e) w = done_with (pg_retry i at e w)"
| "queue_step locked (Q_release i at) w = done_with (pg_release i at w)"
| "queue_step locked (Q_bury i e) w = done_with (pg_bury i e w)"
| "queue_step locked (Q_wait now) w = (0, w\<lparr>clock := now\<rparr>)"

fun queue_run :: "row_locks \<Rightarrow> queue_call list \<Rightarrow> pg world \<Rightarrow> nat \<times> pg world" where
  "queue_run locked [] w = (0, w)"
| "queue_run locked (c # cs) w =
     (case queue_step locked c w of (n, v) \<Rightarrow> (case queue_run locked cs v of (m, u) \<Rightarrow> (n + m, u)))"

fun is_release :: "queue_call \<Rightarrow> bool" where
  "is_release (Q_release i at) = True"
| "is_release _ = False"

section \<open>The measure\<close>

definition job_remaining :: "job_row \<Rightarrow> nat" where
  "job_remaining j = nat (jr_max_attempts j - jr_attempts j)"

definition remaining :: "pg \<Rightarrow> nat" where
  "remaining s = sum_list (map job_remaining (jobs s))"

lemma remaining_update_same:
  assumes "\<And>j. jr_attempts (f j) = jr_attempts j \<and> jr_max_attempts (f j) = jr_max_attempts j"
  shows "sum_list (map job_remaining (update_rows P f js)) = sum_list (map job_remaining js)"
  using assms by (induction js) (simp_all add: job_remaining_def)

lemma remaining_claimed:
  assumes "\<And>j. j \<in> set js \<Longrightarrow> P j \<Longrightarrow> jr_attempts j < jr_max_attempts j"
    and "\<And>j. jr_attempts (f j) = jr_attempts j + 1 \<and> jr_max_attempts (f j) = jr_max_attempts j"
  shows "sum_list (map job_remaining (update_rows P f js)) + length (filter P js) = sum_list (map job_remaining js)"
  using assms(1)
proof (induction js)
  case (Cons j js)
  have "job_remaining (f j) + 1 = job_remaining j" if "P j"
    using Cons.prems[of j] that assms(2)[of j] by (simp add: job_remaining_def)
  with Cons show ?case by auto
qed simp

lemma remaining_released:
  assumes "unique_on jr_id js"
    and "\<And>j. jr_attempts j - 1 \<le> jr_attempts (f j) \<and> jr_max_attempts (f j) = jr_max_attempts j"
  shows "sum_list (map job_remaining (update_rows (\<lambda>j. jr_id j = i) f js)) \<le> sum_list (map job_remaining js) + 1"
  using assms(1)
proof (induction js)
  case (Cons j js)
  have le: "job_remaining (f j) \<le> job_remaining j + 1" using assms(2)[of j] by (auto simp: job_remaining_def)
  show ?case
  proof (cases "jr_id j = i")
    case True
    with Cons.prems have "\<forall>x \<in> set js. jr_id x \<noteq> i" by (auto simp: unique_on_def image_iff)
    then have "update_rows (\<lambda>j. jr_id j = i) f js = js" by (rule update_rows_none)
    with True le show ?thesis by simp
  next
    case False
    with Cons show ?thesis by (simp add: unique_on_def)
  qed
qed simp

section \<open>One call\<close>

lemma update_jobs_Inr:
  "update_jobs now P f s = Inr s' \<Longrightarrow>
   s' = s\<lparr>jobs := update_rows P (\<lambda>j. (f j)\<lparr>jr_updated_at := now\<rparr>) (jobs s)\<rparr> \<and>
   jobs_ok (update_rows P (\<lambda>j. (f j)\<lparr>jr_updated_at := now\<rparr>) (jobs s))"
  by (simp add: update_jobs_def put_Inr)

lemma tx_remaining:
  assumes "tx body w = (r, w')" "peers w = []"
    and "\<And>now a s'. body now (db w) = Inr (a, s') \<Longrightarrow> remaining s' \<le> remaining (db w) + k"
  shows "remaining (db w') \<le> remaining (db w) + k \<and> peers w' = []"
proof -
  have "seen w = db w" using assms(2) by (simp add: seen_def)
  from assms(1) have "remaining (db w') \<le> remaining (db w) + k"
    by (cases rule: tx_cases) (use assms(3) \<open>seen w = db w\<close> in auto)
  moreover have "peers w' = []" using tx_peers[of body w] assms(1,2) by simp
  ultimately show ?thesis ..
qed

lemma update_job_remaining:
  assumes "tx (update_job_tx i f) w = (r, w')" "peers w = []"
    and "\<And>j. jr_attempts (f j) = jr_attempts j \<and> jr_max_attempts (f j) = jr_max_attempts j"
  shows "remaining (db w') \<le> remaining (db w) \<and> peers w' = []"
proof -
  have "remaining s' \<le> remaining (db w) + 0" if "update_job_tx i f now (db w) = Inr (a, s')" for now a s'
  proof -
    from that have "update_jobs now (\<lambda>j. jr_id j = i) f (db w) = Inr s'"
      by (auto simp: update_job_tx_def bind_ok_Inr_iff map_err_Inr_iff)
    from update_jobs_Inr[OF this] assms(3) show ?thesis by (simp add: remaining_def remaining_update_same)
  qed
  from tx_remaining[OF assms(1,2) this] show ?thesis by simp
qed

lemma release_remaining:
  assumes "pg_release i at w = (r, w')" "peers w = []"
  shows "remaining (db w') \<le> remaining (db w) + 1 \<and> peers w' = []"
proof -
  let ?f = "\<lambda>j. (job_requeued at j)\<lparr>jr_attempts := max (jr_attempts j - 1) 0\<rparr>"
  have "remaining s' \<le> remaining (db w) + 1" if "update_job_tx i ?f now (db w) = Inr (a, s')" for now a s'
  proof -
    let ?g = "\<lambda>j. (?f j)\<lparr>jr_updated_at := now\<rparr>"
    from that have "update_jobs now (\<lambda>j. jr_id j = i) ?f (db w) = Inr s'"
      by (auto simp: update_job_tx_def bind_ok_Inr_iff map_err_Inr_iff)
    note u = update_jobs_Inr[OF this]
    have "unique_on jr_id (jobs (db w))"
      using u by (simp add: jobs_ok_def unique_on_update_rows job_requeued_def)
    then have "sum_list (map job_remaining (update_rows (\<lambda>j. jr_id j = i) ?g (jobs (db w)))) \<le>
        sum_list (map job_remaining (jobs (db w))) + 1"
      by (rule remaining_released) (simp add: job_requeued_def)
    then show ?thesis unfolding remaining_def using u by simp
  qed
  with tx_remaining[OF assms(1)[unfolded pg_release_def] assms(2)] show ?thesis by blast
qed

lemma claim_tx_remaining:
  assumes "claim_tx locked worker limit lease now s = Inr (js, s')"
  shows "length js + remaining s' = remaining s"
proof -
  let ?ready = "filter (\<lambda>j. claimable now j \<and> \<not> locked now s (jr_id j)) (jobs s)"
  from assms obtain ready where
    ready: "limit_rows limit (order_by jr_run_at ?ready) = Inr ready" and
    u: "update_jobs now (\<lambda>j. jr_id j \<in> jr_id ` set ready) (leased worker (now + lease)) s = Inr s'" and
    js: "js = map job_of_row (filter (\<lambda>j. jr_id j \<in> jr_id ` set ready) (jobs s'))"
    by (auto simp: claim_tx_def bind_ok_Inr_iff map_err_Inr_iff Let_def)
  let ?P = "\<lambda>j. jr_id j \<in> jr_id ` set ready"
  let ?f = "\<lambda>j. (leased worker (now + lease) j)\<lparr>jr_updated_at := now\<rparr>"
  note s' = update_jobs_Inr[OF u]
  have uniq: "unique_on jr_id (jobs s)"
    using s' by (simp add: jobs_ok_def unique_on_update_rows leased_def)
  have sub: "set ready \<subseteq> set ?ready"
    using ready set_take_subset[of "nat limit" "order_by jr_run_at ?ready"]
    by (auto simp: limit_rows_def split: if_splits)
  have "jr_attempts j < jr_max_attempts j" if "j \<in> set (jobs s)" "?P j" for j
  proof -
    from that(2) obtain x where "x \<in> set ready" "jr_id x = jr_id j" by auto
    with sub have "x \<in> set (jobs s)" "claimable now x" by auto
    with uniq that(1) \<open>jr_id x = jr_id j\<close> have "x = j" by (auto dest: unique_onD)
    with \<open>claimable now x\<close> show ?thesis by (simp add: claimable_def)
  qed
  then have "sum_list (map job_remaining (update_rows ?P ?f (jobs s))) + length (filter ?P (jobs s)) =
      sum_list (map job_remaining (jobs s))"
    by (rule remaining_claimed) (auto simp: leased_def)
  moreover have "length (filter ?P (update_rows ?P ?f (jobs s))) = length (filter ?P (jobs s))"
    by (subst filter_update_rows_same) (auto simp: leased_def)
  ultimately show ?thesis using s' js by (simp add: remaining_def)
qed

lemma claim_remaining:
  assumes "pg_claim locked worker limit lease w = (r, w')" "peers w = []"
  shows "(case r of Inr js \<Rightarrow> length js | Inl _ \<Rightarrow> 0) + remaining (db w') \<le> remaining (db w) \<and> peers w' = []"
proof -
  obtain q v where 1: "tx bury_expired_tx w = (q, v)" by force
  have "remaining s' \<le> remaining (db w) + 0" if "bury_expired_tx now (db w) = Inr (a, s')" for now a s'
    using that by (auto simp: bury_expired_tx_def bind_ok_Inr_iff map_err_Inr_iff remaining_def remaining_update_same
        dest!: update_jobs_Inr)
  note v = tx_remaining[OF 1 assms(2) this, simplified]
  show ?thesis
  proof (cases q)
    case (Inl e)
    with 1 assms(1) v show ?thesis by (auto simp: pg_claim_def io_bind_def)
  next
    case (Inr x)
    with 1 assms(1) have 2: "tx (claim_tx locked worker limit lease) v = (r, w')"
      by (simp add: pg_claim_def io_bind_def)
    have "peers w' = []" using tx_peers[of "claim_tx locked worker limit lease" v] 2 v by simp
    moreover have "seen v = db v" using v by (simp add: seen_def)
    with 2 v have "(case r of Inr js \<Rightarrow> length js | Inl _ \<Rightarrow> 0) + remaining (db w') \<le> remaining (db w)"
      by (cases rule: tx_cases) (use claim_tx_remaining in \<open>fastforce+\<close>)
    ultimately show ?thesis by blast
  qed
qed

lemma step_remaining:
  assumes "queue_step locked c w = (n, v)" "peers w = []"
  shows "n + remaining (db v) \<le> remaining (db w) + (if is_release c then 1 else 0) \<and> peers v = []"
proof (cases c)
  case (Q_claim worker limit lease)
  obtain r u where r: "pg_claim locked worker limit lease w = (r, u)" by force
  with claim_remaining[OF r assms(2)] assms(1) Q_claim show ?thesis by (auto split: sum.splits)
next
  case (Q_complete i)
  obtain r u where r: "pg_complete i w = (r, u)" by force
  with update_job_remaining[OF r[unfolded pg_complete_def] assms(2)] assms(1) Q_complete show ?thesis
    by (simp add: done_with_def job_done_def)
next
  case (Q_retry i at e)
  obtain r u where r: "pg_retry i at e w = (r, u)" by force
  with update_job_remaining[OF r[unfolded pg_retry_def] assms(2)] assms(1) Q_retry show ?thesis
    by (simp add: done_with_def job_requeued_def)
next
  case (Q_release i at)
  obtain r u where r: "pg_release i at w = (r, u)" by force
  with release_remaining[OF r assms(2)] assms(1) Q_release show ?thesis by (simp add: done_with_def)
next
  case (Q_bury i e)
  obtain r u where r: "pg_bury i e w = (r, u)" by force
  with update_job_remaining[OF r[unfolded pg_bury_def] assms(2)] assms(1) Q_bury show ?thesis
    by (simp add: done_with_def job_buried_def)
next
  case (Q_wait now)
  with assms show ?thesis by auto
qed


text \<open>One job with five attempts: claimed again and again after its lease, it is handed out five times.\<close>

definition ex_claims :: "queue_call list" where
  "ex_claims = concat (map (\<lambda>k. [Q_wait (ex_now + k * 100), Q_claim ''w'' 10 50]) [0..7])"


text \<open>Deliveries have no such bound: an expired lease is claimed again whatever the attempts.\<close>

lemma deliveries_outlive_their_attempts:
  "dl_status d = Del_Running \<Longrightarrow> dl_locked_until d = Some t \<Longrightarrow> t < now \<Longrightarrow> dl_max_attempts d \<le> dl_attempts d \<Longrightarrow>
   delivery_claimable now d"
  by (simp add: delivery_claimable_def)

end
