(* ===== verification/Api_Http.thy ===== *)
theory Api_Http
  imports Radian_Service Webhook_Service
begin

text \<open>
  \<open>api-server/src\<close>: the answers of the HTTP API (\<open>error.rs\<close>), the authentication of tenants and of the
  administrator (\<open>middleware.rs\<close>, \<open>admin.rs\<close>), the JSON of what is returned (\<open>handlers.rs\<close>, \<open>admin.rs\<close>, the
  \<open>Serialize\<close> attributes of the records) and the extraction of the XML of a received archive (\<open>events.rs\<close>).
  Parameters: the ZIP reader, Base64, and the text \<open>serde\<close> gives an instant.
\<close>

section \<open>Answers\<close>

record http_response =
  hr_status :: nat
  hr_headers :: "(string \<times> string) list"
  hr_body :: "json_object option"

definition json_response :: "nat \<Rightarrow> json_object \<Rightarrow> http_response" where
  "json_response status body = \<lparr>hr_status = status, hr_headers = [], hr_body = Some body\<rparr>"

definition status_only :: "nat \<Rightarrow> http_response" where
  "status_only status = \<lparr>hr_status = status, hr_headers = [], hr_body = None\<rparr>"

definition insert_header :: "string \<Rightarrow> string \<Rightarrow> http_response \<Rightarrow> http_response" where
  "insert_header name v r = r\<lparr>hr_headers := (name, v) # filter (\<lambda>h. fst h \<noteq> name) (hr_headers r)\<rparr>"

datatype api_error =
    Unauthorized string
  | NotImplemented string
  | Domain domain_error

definition unavailable_text :: string where
  "unavailable_text = ''Servicio temporalmente no disponible; reintente mas tarde''"

definition upstream_text :: string where
  "upstream_text = ''Error comunicandose con la DIAN; reintente mas tarde''"

definition internal_text :: string where
  "internal_text = ''Error interno del servidor''"

text \<open>Status, code and message of an error: the details of an infrastructure error go to the log only.\<close>

fun error_parts :: "api_error \<Rightarrow> nat \<times> string \<times> string" where
  "error_parts (Unauthorized m) = (401, ''UNAUTHORIZED'', m)"
| "error_parts (NotImplemented m) = (501, ''NOT_IMPLEMENTED'', m)"
| "error_parts (Domain (Validation m)) = (422, ''VALIDATION_ERROR'', m)"
| "error_parts (Domain (Forbidden m)) = (403, ''FORBIDDEN'', m)"
| "error_parts (Domain (NotFound m)) = (404, ''NOT_FOUND'', m)"
| "error_parts (Domain (Conflict m)) = (409, ''CONFLICT'', m)"
| "error_parts (Domain (Database _)) = (503, ''SERVICE_UNAVAILABLE'', unavailable_text)"
| "error_parts (Domain (Queue _)) = (503, ''SERVICE_UNAVAILABLE'', unavailable_text)"
| "error_parts (Domain (Soap _)) = (502, ''UPSTREAM_ERROR'', upstream_text)"
| "error_parts (Domain (Crypto _)) = (500, ''INTERNAL_ERROR'', internal_text)"
| "error_parts (Domain (Internal _)) = (500, ''INTERNAL_ERROR'', internal_text)"

definition into_response :: "api_error \<Rightarrow> http_response" where
  "into_response e =
     (case error_parts e of (status, code, explanation) \<Rightarrow>
        json_response status [(''error'', J_obj [(''code'', J_str code), (''message'', J_str explanation)])])"

definition no_store :: "http_response \<Rightarrow> http_response" where
  "no_store r = insert_header ''cache-control'' ''no-store'' r"

section \<open>Authentication\<close>

text \<open>
  The headers of a request as the code reads them: \<open>get\<close> by name, then \<open>to_str\<close> (\<open>Some None\<close>: a value that
  is not visible ASCII).
\<close>

type_synonym http_headers = "string \<Rightarrow> string option option"

definition header_str :: "http_headers \<Rightarrow> string \<Rightarrow> string option" where
  "header_str hs name = Option.bind (hs name) (\<lambda>v. v)"

text \<open>The tenant the request is authenticated as, which the middleware puts into its extensions.\<close>

definition auth_middleware ::
  "digest \<Rightarrow> 'w tenant_repository \<Rightarrow> http_headers \<Rightarrow> 'w \<Rightarrow> (api_error + tenant) \<times> 'w" where
  "auth_middleware sha256 T hs =
     io_bind (io_lift (ok_or (Unauthorized ''Missing Authorization header'') (header_str hs ''Authorization''))) (\<lambda>v.
     io_bind (io_lift (ok_or (Unauthorized ''Invalid Authorization scheme. Use Bearer'') (strip_prefix ''Bearer '' v))) (\<lambda>token.
     io_bind (io_map_err Domain (find_by_api_key_hash T (key_hash sha256 (trim token)))) (\<lambda>found.
     io_lift (ok_or (Unauthorized ''Unauthorized: Invalid API Key'') found))))"

text \<open>\<open>str::as_bytes\<close>.\<close>

definition bytes_of :: "string \<Rightarrow> 8 word list" where
  "bytes_of s = map (\<lambda>c. word_of_nat (byte c)) s"

definition admin_auth :: "digest \<Rightarrow> string option \<Rightarrow> http_headers \<Rightarrow> api_error + unit" where
  "admin_auth sha256 admin_token_sha256 hs =
     bind_ok (ok_or (Unauthorized ''Administration is disabled'') admin_token_sha256) (\<lambda>expected.
     bind_ok (ok_or (Unauthorized ''Missing admin token'')
       (map_option trim (Option.bind (header_str hs ''Authorization'') (strip_prefix ''Bearer '')))) (\<lambda>token.
     if \<not> constant_time_eq (bytes_of (key_hash sha256 token)) (bytes_of expected)
     then Inl (Unauthorized ''Invalid admin token'') else Inr ()))"

definition idempotency_header :: "http_headers \<Rightarrow> api_error + string option" where
  "idempotency_header hs =
     (case hs ''Idempotency-Key'' of
        None \<Rightarrow> Inr None
      | Some None \<Rightarrow> Inl (Domain (Validation ''Idempotency-Key debe ser ASCII''))
      | Some (Some k) \<Rightarrow> Inr (Some k))"

section \<open>What is returned\<close>

type_synonym instant_text = "instant \<Rightarrow> string"

definition j_uuid :: "uuid \<Rightarrow> json" where "j_uuid i = J_str (uuid_string i)"

definition j_option :: "('a \<Rightarrow> json) \<Rightarrow> 'a option \<Rightarrow> json" where
  "j_option f v = (case v of None \<Rightarrow> J_null | Some a \<Rightarrow> f a)"

definition accepted :: "issue_outcome \<Rightarrow> string \<Rightarrow> http_response" where
  "accepted outcome msg =
     (let (issued, replayed) = (case outcome of Created i \<Rightarrow> (i, False) | Replayed i \<Rightarrow> (i, True));
          r = json_response 202
            [(''document_id'', j_uuid (is_document_id issued)),
             (''document_number'', J_int (is_document_number issued)),
             (''message'', J_str msg), (''status'', J_str ''QUEUED'')]
      in if replayed then insert_header ''idempotent-replayed'' ''true'' r else r)"

definition secret_payload_fields :: "string list" where
  "secret_payload_fields = [''software_pin'', ''technical_key'']"

definition without_secrets :: "json_object \<Rightarrow> json_object" where
  "without_secrets m = foldl (\<lambda>obj f. filter (\<lambda>(k, _). k \<noteq> f) obj) m secret_payload_fields"

record document_view =
  v_id :: uuid
  v_tenant_id :: uuid
  v_direction :: string
  v_document_type :: string
  v_prefix :: string
  v_document_number :: i32
  v_cufe_cude :: string
  v_payload :: json_object
  v_original_xml :: "string option"
  v_signed_xml :: "string option"
  v_pdf_url :: "string option"
  v_status :: string
  v_created_at :: instant

definition document_view_of :: "document \<Rightarrow> document_view" where
  "document_view_of d =
     \<lparr>v_id = d_id d, v_tenant_id = d_tenant_id d, v_direction = direction_as_str (d_direction d),
      v_document_type = document_type_as_str (d_document_type d), v_prefix = d_prefix d,
      v_document_number = d_document_number d, v_cufe_cude = d_cufe_cude d,
      v_payload = without_secrets (d_payload d), v_original_xml = d_original_xml d,
      v_signed_xml = d_signed_xml d, v_pdf_url = d_pdf_url d, v_status = document_status_as_str (d_status d),
      v_created_at = d_created_at d\<rparr>"

text \<open>The derived \<open>Serialize\<close>: one member per field, in the order of the fields.\<close>

definition document_view_json :: "instant_text \<Rightarrow> document_view \<Rightarrow> json_object" where
  "document_view_json T v =
     [(''id'', j_uuid (v_id v)), (''tenant_id'', j_uuid (v_tenant_id v)), (''direction'', J_str (v_direction v)),
      (''document_type'', J_str (v_document_type v)), (''prefix'', J_str (v_prefix v)),
      (''document_number'', J_int (v_document_number v)), (''cufe_cude'', J_str (v_cufe_cude v)),
      (''payload'', J_obj (v_payload v)), (''original_xml'', opt_json_str (v_original_xml v)),
      (''signed_xml'', opt_json_str (v_signed_xml v)), (''pdf_url'', opt_json_str (v_pdf_url v)),
      (''status'', J_str (v_status v)), (''created_at'', J_str (T (v_created_at v)))]"

text \<open>The values of \<open>serde_json::to_value\<close> and \<open>json!\<close> have their members in key order.\<close>

definition tenant_view :: "instant_text \<Rightarrow> tenant \<Rightarrow> json_object" where
  "tenant_view T t =
     [(''created_at'', J_str (T (t_created_at t))), (''id'', j_uuid (t_id t)),
      (''reception_email'', J_str (t_reception_email t)), (''registration_name'', J_str (t_registration_name t)),
      (''tax_id'', J_str (t_tax_id t)), (''tax_regime'', J_str (t_tax_regime t))]"

text \<open>\<open>key_hash\<close> is \<open>#[serde(skip)]\<close>.\<close>

definition api_key_json :: "instant_text \<Rightarrow> api_key_record \<Rightarrow> json_object" where
  "api_key_json T k =
     [(''created_at'', J_str (T (k_created_at k))), (''id'', j_uuid (k_id k)), (''name'', J_str (k_name k)),
      (''prefix'', J_str (k_prefix k)), (''revoked_at'', j_option (\<lambda>t. J_str (T t)) (k_revoked_at k)),
      (''tenant_id'', j_uuid (k_tenant_id k))]"

definition certificate_json :: "instant_text \<Rightarrow> certificate \<Rightarrow> json_object" where
  "certificate_json T c =
     [(''expiration_date'', J_str (T (c_expiration_date c))), (''id'', j_uuid (c_id c)),
      (''status'', J_str (certificate_status_as_str (c_status c))), (''tenant_id'', j_uuid (c_tenant_id c)),
      (''thumbprint'', J_str (c_thumbprint c)), (''vault_reference_path'', J_str (c_vault_reference_path c))]"

text \<open>The technical key is not returned.\<close>

definition range_json :: "instant_text \<Rightarrow> numbering_range \<Rightarrow> json_object" where
  "range_json T r =
     [(''current_counter'', J_int (r_current_counter r)),
      (''document_type'', J_str (document_type_as_str (r_document_type r))),
      (''from_number'', J_int (r_from_number r)), (''id'', j_uuid (r_id r)), (''prefix'', J_str (r_prefix r)),
      (''to_number'', J_int (r_to_number r)), (''valid_date_from'', J_str (T (r_valid_date_from r))),
      (''valid_date_to'', J_str (T (r_valid_date_to r)))]"

definition dead_job_json :: "instant_text \<Rightarrow> dead_job \<Rightarrow> json_object" where
  "dead_job_json T j =
     [(''attempts'', J_int (dj_attempts j)), (''document_id'', j_uuid (dj_document_id j)),
      (''failed_at'', J_str (T (dj_failed_at j))), (''id'', j_uuid (dj_id j)),
      (''kind'', J_str (job_kind_as_str (dj_kind j))), (''last_error'', opt_json_str (dj_last_error j)),
      (''tenant_id'', j_uuid (dj_tenant_id j))]"

definition dead_delivery_json :: "instant_text \<Rightarrow> dead_delivery \<Rightarrow> json_object" where
  "dead_delivery_json T d =
     [(''attempts'', J_int (dd_attempts d)), (''event_type'', J_str (dd_event_type d)),
      (''failed_at'', J_str (T (dd_failed_at d))), (''id'', j_uuid (dd_id d)),
      (''last_error'', opt_json_str (dd_last_error d)),
      (''last_status_code'', j_option J_int (dd_last_status_code d)),
      (''tenant_id'', j_uuid (dd_tenant_id d)), (''webhook_id'', j_uuid (dd_webhook_id d))]"

definition webhook_view_json :: "webhook_view \<Rightarrow> json_object" where
  "webhook_view_json v =
     [(''event_type'', J_str (wv_event_type v)), (''id'', j_uuid (wv_id v)), (''status'', J_str (wv_status v)),
      (''target_url'', J_str (wv_target_url v))]"

definition event_outcome_json :: "radian_event_outcome \<Rightarrow> json_object" where
  "event_outcome_json r =
     [(''cude'', J_str (ro_cude r)), (''dian_message'', J_str (ro_dian_message r)),
      (''dian_status'', J_str (ro_dian_status r)), (''event_code'', J_str (ro_event_code r)),
      (''event_id'', j_uuid (ro_event_id r)), (''soap_trace_id'', opt_json_str (ro_soap_trace_id r))]"

section \<open>The XML of a received archive\<close>

text \<open>
  An entry of a ZIP archive: its name where it can be decoded, the uncompressed size it declares, and what
  reading it delivers, possibly cut short by an error. The archive has per index the entry or the error of
  \<open>by_index\<close>.
\<close>

record zip_entry =
  z_name :: "string option"
  z_size :: nat
  z_content :: string
  z_error :: "string option"

type_synonym zip_archive = "(string + zip_entry) list"
type_synonym zip_reader = "string \<Rightarrow> string + zip_archive"

definition max_inbound_xml_bytes :: nat where "max_inbound_xml_bytes = 10 * 1024 * 1024"
definition max_inbound_zip_entries :: nat where "max_inbound_zip_entries = 20"

text \<open>\<open>Read::take(n)\<close> and \<open>read_to_end\<close>: after \<open>n\<close> bytes nothing more is read, not even an error.\<close>

definition read_at_most :: "nat \<Rightarrow> zip_entry \<Rightarrow> string + string" where
  "read_at_most n e =
     (if n \<le> length (z_content e) then Inr (take n (z_content e))
      else case z_error e of Some err \<Rightarrow> Inl err | None \<Rightarrow> Inr (z_content e))"

text \<open>\<open>String::from_utf8\<close>: the well-formed byte sequences.\<close>

definition continuation :: "nat \<Rightarrow> bool" where "continuation b \<longleftrightarrow> 128 \<le> b \<and> b \<le> 191"

fun valid_utf8 :: "nat list \<Rightarrow> bool" where
  "valid_utf8 [] \<longleftrightarrow> True"
| "valid_utf8 (a # s) \<longleftrightarrow>
     (if a < 128 then valid_utf8 s
      else if 194 \<le> a \<and> a \<le> 223 then
        (case s of b # r \<Rightarrow> continuation b \<and> valid_utf8 r | _ \<Rightarrow> False)
      else if 224 \<le> a \<and> a \<le> 239 then
        (case s of b # c # r \<Rightarrow> continuation b \<and> continuation c \<and> (a = 224 \<longrightarrow> 160 \<le> b) \<and>
             (a = 237 \<longrightarrow> b \<le> 159) \<and> valid_utf8 r
         | _ \<Rightarrow> False)
      else if 240 \<le> a \<and> a \<le> 244 then
        (case s of b # c # d # r \<Rightarrow> continuation b \<and> continuation c \<and> continuation d \<and>
             (a = 240 \<longrightarrow> 144 \<le> b) \<and> (a = 244 \<longrightarrow> b \<le> 143) \<and> valid_utf8 r
         | _ \<Rightarrow> False)
      else False)"

definition api_validation :: "string \<Rightarrow> api_error" where
  "api_validation m = Domain (Validation m)"

definition xml_too_large :: api_error where
  "xml_too_large = api_validation (''El XML del ZIP excede el tamano maximo permitido ('' @
     nat_dec max_inbound_xml_bytes @ '' bytes)'')"

definition no_xml_entry :: api_error where
  "no_xml_entry = api_validation ''No se encontro ningun archivo XML en el ZIP''"

definition is_xml_entry :: "zip_entry \<Rightarrow> bool" where
  "is_xml_entry e \<longleftrightarrow> (case z_name e of None \<Rightarrow> False | Some n \<Rightarrow> ends_with ''.xml'' n)"

text \<open>The body of the loop for an XML entry.\<close>

definition entry_xml :: "zip_entry \<Rightarrow> api_error + string" where
  "entry_xml e =
     (if z_size e > max_inbound_xml_bytes then Inl xml_too_large
      else bind_ok (map_err (\<lambda>m. api_validation (''Error leyendo XML del ZIP: '' @ m))
             (read_at_most (max_inbound_xml_bytes + 1) e)) (\<lambda>raw.
           if length raw > max_inbound_xml_bytes then Inl xml_too_large
           else if \<not> valid_utf8 (map byte raw) then Inl (api_validation ''El XML del ZIP no es UTF-8 valido'')
           else if trim raw = [] then Inl no_xml_entry
           else Inr raw))"

fun first_xml :: "zip_archive \<Rightarrow> api_error + string" where
  "first_xml [] = Inl no_xml_entry"
| "first_xml (Inl m # es) = Inl (api_validation (''Error leyendo elemento en ZIP: '' @ m))"
| "first_xml (Inr e # es) = (if is_xml_entry e then entry_xml e else first_xml es)"

definition extract_first_xml :: "zip_reader \<Rightarrow> string \<Rightarrow> api_error + string" where
  "extract_first_xml zip_open bytes =
     bind_ok (map_err (\<lambda>m. api_validation (''No se pudo leer el archivo ZIP: '' @ m)) (zip_open bytes)) (\<lambda>archive.
     if archive = [] then Inl (api_validation ''El archivo ZIP esta vacio'')
     else if length archive > max_inbound_zip_entries
     then Inl (api_validation (''El ZIP contiene demasiados archivos (maximo '' @ nat_dec max_inbound_zip_entries @ '')''))
     else first_xml archive)"

end
