(* ===== verification/Api_Server.thy ===== *)
theory Api_Server
  imports Api_Http
begin

text \<open>
  \<open>api-server/src\<close>: the configuration (\<open>config.rs\<close>), the shared state (\<open>state.rs\<close>), the handlers
  (\<open>handlers.rs\<close>, \<open>events.rs\<close>, \<open>webhooks.rs\<close>, \<open>admin.rs\<close>) and the router with its middleware (\<open>lib.rs\<close>),
  over the use cases of \<open>application\<close>; and the probes of \<open>observability\<close>. A request comes matched to its route, with
  the arguments of the handler or the rejection of an extractor (\<open>axum\<close>). A handler that panics gives no
  answer: the connection is closed.
\<close>

section \<open>Configuration\<close>

type_synonym environment = "string \<Rightarrow> string option"

record api_config =
  ac_dian_hab_url :: "string option"
  ac_dian_prod_url :: "string option"
  ac_inbound_allow_unverified_signatures :: bool
  ac_transmit_max_attempts :: i32
  ac_inbound_trusted_ca_pem :: "string option"
  ac_inbound_intermediates_pem :: "string option"
  ac_inbound_dian_signer_subject :: string
  ac_webhook_policy :: destination_policy
  ac_admin_token_sha256 :: "string option"

definition optional_env :: "environment \<Rightarrow> string \<Rightarrow> string option" where
  "optional_env env name = (case env name of None \<Rightarrow> None | Some v \<Rightarrow> if trim v \<noteq> [] then Some v else None)"

definition required_env :: "environment \<Rightarrow> string \<Rightarrow> string + string" where
  "required_env env name = ok_or (''Missing required environment variable '' @ name) (optional_env env name)"

definition flag_env :: "environment \<Rightarrow> string \<Rightarrow> bool" where
  "flag_env env name =
     (case optional_env env name of None \<Rightarrow> False | Some v \<Rightarrow> eq_ignore_ascii_case v ''true'')"

text \<open>\<open>str::parse::<i32>\<close>: an optional sign and digits.\<close>

definition parse_i32 :: "string \<Rightarrow> i32 option" where
  "parse_i32 s =
     (let negative = starts_with ''-'' s; ds = (if negative \<or> starts_with ''+'' s then tl s else s);
          v = int (digits_value ds)
      in if ds = [] \<or> \<not> all_digits ds then None
         else if negative then (if is_i32 (- v) then Some (- v) else None)
         else if is_i32 v then Some v else None)"

definition parsed_env :: "(string \<Rightarrow> 'a option) \<Rightarrow> environment \<Rightarrow> string \<Rightarrow> 'a \<Rightarrow> string + 'a" where
  "parsed_env parse env name fallback =
     (case optional_env env name of
        None \<Rightarrow> Inr fallback
      | Some v \<Rightarrow> ok_or (''Invalid value for '' @ name @ '': '' @ [CHR 0x27] @ v @ [CHR 0x27]) (parse v))"

definition admin_token_env :: "environment \<Rightarrow> string + string option" where
  "admin_token_env env =
     (case optional_env env ''ADMIN_TOKEN_SHA256'' of
        None \<Rightarrow> Inr None
      | Some raw \<Rightarrow>
          (let v = to_ascii_lowercase (trim raw)
           in if length v \<noteq> 64 \<or> \<not> list_all is_ascii_hexdigit v
              then Inl ''ADMIN_TOKEN_SHA256 must be the hex SHA-256 of the admin token''
              else Inr (Some v)))"

definition config_from_env :: "environment \<Rightarrow> string + api_config" where
  "config_from_env env =
     bind_ok (parsed_env parse_i32 env ''TRANSMIT_MAX_ATTEMPTS'' 5) (\<lambda>max_attempts.
     bind_ok (admin_token_env env) (\<lambda>admin_token. Inr
       \<lparr>ac_dian_hab_url = optional_env env ''DIAN_HAB_URL'',
        ac_dian_prod_url = optional_env env ''DIAN_PROD_URL'',
        ac_inbound_allow_unverified_signatures =
          (case env ''INBOUND_ALLOW_UNVERIFIED_SIGNATURES'' of None \<Rightarrow> False | Some v \<Rightarrow> eq_ignore_ascii_case v ''true''),
        ac_transmit_max_attempts = max_attempts,
        ac_inbound_trusted_ca_pem = optional_env env ''INBOUND_TRUSTED_CA_PEM'',
        ac_inbound_intermediates_pem = optional_env env ''INBOUND_INTERMEDIATES_PEM'',
        ac_inbound_dian_signer_subject =
          (case optional_env env ''INBOUND_DIAN_SIGNER_SUBJECT'' of None \<Rightarrow> ''800197268'' | Some s \<Rightarrow> s),
        ac_webhook_policy =
          \<lparr>dp_allow_http = flag_env env ''WEBHOOK_ALLOW_HTTP'',
           dp_allow_private_networks = flag_env env ''WEBHOOK_ALLOW_PRIVATE_NETWORKS''\<rparr>,
        ac_admin_token_sha256 = admin_token\<rparr>))"

section \<open>The shared state\<close>

record 'd api_libs =
  al_issue :: "'d issue_libs"
  al_ubl :: "'d ubl_libs"
  al_local_time :: "instant \<Rightarrow> string \<times> string"
  al_xml :: xml_reader
  al_zip :: zip_reader
  al_base64 :: "string \<Rightarrow> string + string"
  al_url :: url_parser
  al_rfc3339 :: instant_text
  al_serde_time :: instant_text
  al_unmatched :: http_response

record 'db app_state =
  st_tenants :: "'db world tenant_repository"
  st_documents :: "'db world document_repository"
  st_health :: "('db world, unit) io"
  st_issue :: "'db world document_repository \<times> i32"
  st_inbound :: "'db world inbound_service"
  st_radian :: "'db world radian_service"
  st_webhooks :: "'db world webhook_repository \<times> destination_policy"
  st_admin :: "'db world admin_repository"
  st_config :: api_config

section \<open>Handlers of tenants\<close>

record event_request =
  er_event_code :: string
  er_software_pin :: string
  er_environment :: string

datatype api_call =
    Create_invoice invoice_payload
  | Create_payroll payroll_payload
  | Create_support_document support_document_payload
  | Get_document uuid
  | Receive_inbound_invoice string
  | Register_document_event uuid event_request
  | Create_webhook string string
  | List_webhooks
  | Delete_webhook uuid

type_synonym ('db, 'a) handler = "'db world \<Rightarrow> (api_error failure + 'a) \<times> 'db world"

definition in_domain :: "('db world, 'a) io \<Rightarrow> ('db, 'a) handler" where
  "in_domain m = io_map_err (\<lambda>e. Failed (Domain e)) m"

definition in_service :: "('db world, 'a) service \<Rightarrow> ('db, 'a) handler" where
  "in_service m = io_map_err (map_failure Domain) m"

definition checked :: "api_error + 'a \<Rightarrow> ('db, 'a) handler" where
  "checked r = io_lift (map_err Failed r)"

text \<open>The three handlers that issue a document: the key of the request, the use case, the answer.\<close>

definition issued ::
  "http_headers \<Rightarrow> (string option \<Rightarrow> ('db world, issue_outcome) service) \<Rightarrow> string \<Rightarrow> ('db, http_response) handler" where
  "issued hs use_case msg =
     io_bind (checked (idempotency_header hs)) (\<lambda>key.
     io_bind (in_service (use_case key)) (\<lambda>outcome. io_return (accepted outcome msg)))"

definition create_invoice ::
  "'d api_libs \<Rightarrow> 'db app_state \<Rightarrow> tenant \<Rightarrow> http_headers \<Rightarrow> invoice_payload \<Rightarrow> ('db, http_response) handler" where
  "create_invoice L S t hs p =
     issued hs (issue_invoice (al_issue L) (fst (st_issue S)) (snd (st_issue S)) t p)
       ''Factura encolada correctamente para su firmado y transmision''"

definition create_payroll ::
  "'d api_libs \<Rightarrow> 'db app_state \<Rightarrow> tenant \<Rightarrow> http_headers \<Rightarrow> payroll_payload \<Rightarrow> ('db, http_response) handler" where
  "create_payroll L S t hs p =
     issued hs (issue_payroll (al_issue L) (fst (st_issue S)) (snd (st_issue S)) t p)
       ''Reporte de nomina encolado correctamente''"

definition create_support_document ::
  "'d api_libs \<Rightarrow> 'db app_state \<Rightarrow> tenant \<Rightarrow> http_headers \<Rightarrow> support_document_payload \<Rightarrow> ('db, http_response) handler" where
  "create_support_document L S t hs p =
     issued hs (issue_support_document (al_issue L) (fst (st_issue S)) (snd (st_issue S)) t p)
       ''Documento soporte reservado y encolado correctamente''"

definition get_document :: "'d api_libs \<Rightarrow> 'db app_state \<Rightarrow> tenant \<Rightarrow> uuid \<Rightarrow> ('db, http_response) handler" where
  "get_document L S t i =
     io_bind (in_domain (find_tenant_document (st_documents S) (t_id t) i)) (\<lambda>found.
     io_bind (checked (ok_or (Domain (not_found_document i)) found)) (\<lambda>d.
     io_return (json_response 200 (document_view_json (al_serde_time L) (document_view_of d)))))"

definition inbound_answer :: "bool \<Rightarrow> string \<Rightarrow> inbound_registered \<Rightarrow> http_response" where
  "inbound_answer verified msg r =
     json_response 200
       [(''document_id'', j_uuid (ib_document_id r)), (''message'', J_str msg),
        (''parent_document_id'', J_str (ib_parent_document_id r)),
        (''signature_verified'', J_bool verified), (''status'', J_str ''ACCEPTED_AND_STORED'')]"

definition verification_required :: api_error where
  "verification_required = NotImplemented
     (''El registro de facturas recibidas requiere configurar INBOUND_TRUSTED_CA_PEM '' @
      ''(verificaci'' @ [CHR 0xC3, CHR 0xB3] @ ''n criptogr'' @ [CHR 0xC3, CHR 0xA1] @ ''fica de las firmas)'')"

definition receive_inbound_invoice ::
  "'d api_libs \<Rightarrow> 'db app_state \<Rightarrow> tenant \<Rightarrow> string \<Rightarrow> ('db, http_response) handler" where
  "receive_inbound_invoice L S t zip_content =
     io_bind (checked (map_err (\<lambda>e. api_validation (''Contenido ZIP Base64 invalido: '' @ e)) (al_base64 L zip_content)))
       (\<lambda>zip_bytes.
     if can_verify (st_inbound S) then
       io_bind (checked (extract_first_xml (al_zip L) zip_bytes)) (\<lambda>xml.
       io_bind (in_domain (register_verified (al_xml L) (st_inbound S) t xml)) (\<lambda>r.
       io_return (inbound_answer True
         ''Factura de proveedor verificada (firmas del emisor y de la DIAN) y registrada'' r)))
     else if \<not> ac_inbound_allow_unverified_signatures (st_config S) then io_fail (Failed verification_required)
     else
       io_bind (checked (extract_first_xml (al_zip L) zip_bytes)) (\<lambda>xml.
       io_bind (in_domain (register_unverified (st_inbound S) t xml)) (\<lambda>r.
       io_return (inbound_answer False
         ''Factura de proveedor (AttachedDocument) registrada sin verificacion criptografica de firma'' r))))"

definition register_document_event ::
  "'d api_libs \<Rightarrow> 'db app_state \<Rightarrow> tenant \<Rightarrow> uuid \<Rightarrow> event_request \<Rightarrow> ('db, http_response) handler" where
  "register_document_event L S t i q =
     io_bind (in_service (register_event (al_ubl L) (al_local_time L) (st_radian S) t i
       \<lparr>rq_event_code = er_event_code q, rq_software_pin = er_software_pin q, rq_environment = er_environment q\<rparr>))
       (\<lambda>r. io_return (json_response 200 (event_outcome_json r)))"

definition post_webhook ::
  "'d api_libs \<Rightarrow> 'db app_state \<Rightarrow> tenant \<Rightarrow> string \<Rightarrow> string \<Rightarrow> ('db, http_response) handler" where
  "post_webhook L S t target_url event_type =
     io_bind (in_domain (register_webhook (al_url L) (snd (st_webhooks S)) (fst (st_webhooks S)) t target_url event_type))
       (\<lambda>c. io_return (json_response 201
         [(''event_type'', J_str (rw_event_type c)), (''id'', j_uuid (rw_id c)),
          (''message'', J_str ''Guarda el secreto: no se volvera a mostrar''), (''secret'', J_str (rw_secret c)),
          (''target_url'', J_str (rw_target_url c))]))"

definition get_webhooks :: "'db app_state \<Rightarrow> tenant \<Rightarrow> ('db, http_response) handler" where
  "get_webhooks S t =
     io_bind (in_domain (webhook_views (fst (st_webhooks S)) t)) (\<lambda>vs.
     io_return (json_response 200 [(''webhooks'', J_arr (map (\<lambda>v. J_obj (webhook_view_json v)) vs))]))"

definition delete_webhook_of :: "'db app_state \<Rightarrow> tenant \<Rightarrow> uuid \<Rightarrow> ('db, http_response) handler" where
  "delete_webhook_of S t i =
     io_bind (in_domain (remove_webhook (fst (st_webhooks S)) t i)) (\<lambda>_. io_return (status_only 204))"

fun api_handler ::
  "'d api_libs \<Rightarrow> 'db app_state \<Rightarrow> tenant \<Rightarrow> http_headers \<Rightarrow> api_call \<Rightarrow> ('db, http_response) handler" where
  "api_handler L S t hs (Create_invoice p) = create_invoice L S t hs p"
| "api_handler L S t hs (Create_payroll p) = create_payroll L S t hs p"
| "api_handler L S t hs (Create_support_document p) = create_support_document L S t hs p"
| "api_handler L S t hs (Get_document i) = get_document L S t i"
| "api_handler L S t hs (Receive_inbound_invoice z) = receive_inbound_invoice L S t z"
| "api_handler L S t hs (Register_document_event i q) = register_document_event L S t i q"
| "api_handler L S t hs (Create_webhook u e) = post_webhook L S t u e"
| "api_handler L S t hs List_webhooks = get_webhooks S t"
| "api_handler L S t hs (Delete_webhook i) = delete_webhook_of S t i"

section \<open>Handlers of the administrator\<close>

datatype admin_call =
    Create_tenant create_tenant_request
  | Get_tenant uuid
  | Create_api_key uuid string
  | List_api_keys uuid
  | Revoke_api_key uuid uuid
  | Register_certificate uuid register_certificate_request
  | Register_range uuid register_range_request
  | Dead_jobs "int option"
  | Retry_job uuid
  | Dead_deliveries "int option"
  | Retry_delivery uuid

definition limit_or_50 :: "int option \<Rightarrow> int" where
  "limit_or_50 q = (case q of None \<Rightarrow> 50 | Some n \<Rightarrow> n)"

definition issued_key_answer :: "issued_api_key \<Rightarrow> http_response" where
  "issued_key_answer k =
     json_response 201
       [(''id'', j_uuid (ik_id k)), (''key'', J_str (ik_secret k)),
        (''message'', J_str ''Guarda la clave: no se volvera a mostrar''), (''name'', J_str (ik_name k)),
        (''prefix'', J_str (ik_prefix k))]"

fun admin_handler :: "'d api_libs \<Rightarrow> 'db app_state \<Rightarrow> admin_call \<Rightarrow> ('db, http_response) handler" where
  "admin_handler L S (Create_tenant body) =
     io_bind (in_domain (admin_create_tenant (st_admin S) body)) (\<lambda>t.
     io_return (json_response 201 (tenant_view (al_serde_time L) t)))"
| "admin_handler L S (Get_tenant i) =
     io_bind (in_domain (admin_get_tenant (st_admin S) i)) (\<lambda>t.
     io_return (json_response 200 (tenant_view (al_serde_time L) t)))"
| "admin_handler L S (Create_api_key i name) =
     io_bind (in_domain (admin_create_api_key (i_sha256 (al_issue L)) (st_admin S) i name)) (\<lambda>k.
     io_return (issued_key_answer k))"
| "admin_handler L S (List_api_keys i) =
     io_bind (in_domain (admin_list_api_keys (st_admin S) i)) (\<lambda>ks.
     io_return (json_response 200 [(''api_keys'', J_arr (map (\<lambda>k. J_obj (api_key_json (al_serde_time L) k)) ks))]))"
| "admin_handler L S (Revoke_api_key i k) =
     io_bind (in_domain (admin_revoke_api_key (st_admin S) i k)) (\<lambda>_. io_return (status_only 204))"
| "admin_handler L S (Register_certificate i body) =
     io_bind (in_domain (admin_register_certificate (al_rfc3339 L) (st_admin S) i body)) (\<lambda>c.
     io_return (json_response 201 (certificate_json (al_serde_time L) c)))"
| "admin_handler L S (Register_range i body) =
     io_bind (in_domain (admin_register_range (st_admin S) i body)) (\<lambda>r.
     io_return (json_response 201 (range_json (al_serde_time L) r)))"
| "admin_handler L S (Dead_jobs q) =
     io_bind (in_domain (admin_dead_jobs (st_admin S) (limit_or_50 q))) (\<lambda>js.
     io_return (json_response 200 [(''jobs'', J_arr (map (\<lambda>j. J_obj (dead_job_json (al_serde_time L) j)) js))]))"
| "admin_handler L S (Retry_job i) =
     io_bind (in_domain (admin_retry_dead_job (st_admin S) i)) (\<lambda>_. io_return (status_only 202))"
| "admin_handler L S (Dead_deliveries q) =
     io_bind (in_domain (admin_dead_deliveries (st_admin S) (limit_or_50 q))) (\<lambda>ds.
     io_return (json_response 200
       [(''deliveries'', J_arr (map (\<lambda>d. J_obj (dead_delivery_json (al_serde_time L) d)) ds))]))"
| "admin_handler L S (Retry_delivery i) =
     io_bind (in_domain (admin_retry_dead_delivery (st_admin S) i)) (\<lambda>_. io_return (status_only 202))"

section \<open>The router\<close>

datatype http_route =
    Api "http_response + api_call"
  | Admin "http_response + admin_call"
  | Health
  | Livez
  | Readyz
  | Unmatched

record api_request =
  hq_headers :: http_headers
  hq_route :: http_route

text \<open>\<open>match health.ping()\<close>: \<open>health_check\<close> and \<open>readyz\<close>.\<close>

definition probe :: "('db world, unit) io \<Rightarrow> http_response \<Rightarrow> http_response \<Rightarrow> ('db, http_response) handler" where
  "probe ping up down = io_match ping (\<lambda>_ w. (Inr down, w)) (\<lambda>_ w. (Inr up, w))"

definition status_body :: "string \<Rightarrow> json_object" where
  "status_body s = [(''status'', J_str s)]"

definition health_check :: "'db app_state \<Rightarrow> ('db, http_response) handler" where
  "health_check S =
     probe (st_health S) (json_response 200 [(''database'', J_str ''CONNECTED''), (''status'', J_str ''UP'')])
       (json_response 503 [(''database'', J_str ''DISCONNECTED''), (''status'', J_str ''DOWN'')])"

definition readyz :: "'db app_state \<Rightarrow> ('db, http_response) handler" where
  "readyz S = probe (st_health S) (json_response 200 (status_body ''READY'')) (json_response 503 (status_body ''NOT_READY''))"

text \<open>The extractors of a handler run after the middleware in front of it.\<close>

definition extracted ::
  "http_response + 'c \<Rightarrow> ('c \<Rightarrow> ('db, http_response) handler) \<Rightarrow> ('db, http_response) handler" where
  "extracted q h = (case q of Inl rejection \<Rightarrow> io_return rejection | Inr c \<Rightarrow> h c)"

fun routed :: "'d api_libs \<Rightarrow> 'db app_state \<Rightarrow> http_headers \<Rightarrow> http_route \<Rightarrow> ('db, http_response) handler" where
  "routed L S hs (Api q) =
     io_bind (io_map_err Failed (auth_middleware (i_sha256 (al_issue L)) (st_tenants S) hs)) (\<lambda>t.
     extracted q (api_handler L S t hs))"
| "routed L S hs (Admin q) =
     (if ac_admin_token_sha256 (st_config S) = None then io_return (al_unmatched L)
      else io_bind (checked (admin_auth (i_sha256 (al_issue L)) (ac_admin_token_sha256 (st_config S)) hs)) (\<lambda>_.
           extracted q (admin_handler L S)))"
| "routed L S hs Health = health_check S"
| "routed L S hs Livez = io_return (json_response 200 (status_body ''UP''))"
| "routed L S hs Readyz = readyz S"
| "routed L S hs Unmatched = io_return (al_unmatched L)"

fun answer_of :: "api_error failure + http_response \<Rightarrow> http_response option" where
  "answer_of (Inr r) = Some r"
| "answer_of (Inl (Failed e)) = Some (into_response e)"
| "answer_of (Inl Panicked) = None"

definition serve :: "'d api_libs \<Rightarrow> 'db app_state \<Rightarrow> api_request \<Rightarrow> 'db world \<Rightarrow> http_response option \<times> 'db world" where
  "serve L S q w =
     (case routed L S (hq_headers q) (hq_route q) w of (r, v) \<Rightarrow> (map_option no_store (answer_of r), v))"

section \<open>The server of \<open>main.rs\<close>\<close>

definition pg_ping :: "(pg world, unit) io" where
  "pg_ping = query (\<lambda>now s. ())"

definition main_state ::
  "row_locks \<Rightarrow> (instant \<Rightarrow> string) \<Rightarrow> pg world crypto_signer \<Rightarrow> pg world dian_soap_client \<Rightarrow> pg world inbound_verification option \<Rightarrow>
   api_config \<Rightarrow> pg app_state" where
  "main_state locked dn X soap verification C =
     \<lparr>st_tenants = pg_tenants, st_documents = pg_documents dn, st_health = pg_ping,
      st_issue = (pg_documents dn, ac_transmit_max_attempts C),
      st_inbound = \<lparr>is_documents = pg_documents dn, is_verification = verification\<rparr>,
      st_radian = \<lparr>rs_documents = pg_documents dn, rs_signer = X, rs_soap = soap\<rparr>,
      st_webhooks = (pg_webhooks locked, ac_webhook_policy C), st_admin = pg_admin, st_config = C\<rparr>"

end
