(* ===== verification/Api_Isolation.thy ===== *)
theory Api_Isolation
  imports Api_Server Inbound_Properties Admin_Properties
begin

text \<open>
  Tenant isolation of the HTTP API over PostgreSQL: what a request can change, and whose key it needs.
  \<open>others u s\<close> is the part of the database that does not belong to tenant \<open>u\<close>.
\<close>

section \<open>What belongs to other tenants\<close>

definition their_documents :: "uuid \<Rightarrow> pg \<Rightarrow> uuid set" where
  "their_documents u s = d_id ` set (filter (\<lambda>d. d_tenant_id d \<noteq> u) (documents s))"

definition their_webhooks :: "uuid \<Rightarrow> pg \<Rightarrow> uuid set" where
  "their_webhooks u s = w_id ` set (filter (\<lambda>w. w_tenant_id w \<noteq> u) (webhooks s))"

definition others :: "uuid \<Rightarrow> pg \<Rightarrow> pg" where
  "others u s = s
     \<lparr>ranges := filter (\<lambda>r. r_tenant_id r \<noteq> u) (ranges s),
      documents := filter (\<lambda>d. d_tenant_id d \<noteq> u) (documents s),
      events := filter (\<lambda>e. e_document_id e \<in> their_documents u s) (events s),
      jobs := filter (\<lambda>j. jr_document_id j \<in> their_documents u s) (jobs s),
      idempotency := filter (\<lambda>i. ir_tenant_id i \<noteq> u) (idempotency s),
      webhooks := filter (\<lambda>w. w_tenant_id w \<noteq> u) (webhooks s),
      deliveries := filter (\<lambda>d. dl_webhook_id d \<in> their_webhooks u s) (deliveries s)\<rparr>"

text \<open>Identifiers are unique and \<open>i\<close> is not a document of another tenant: then a step leaves the others alone.\<close>

definition separate :: "uuid \<Rightarrow> uuid \<Rightarrow> pg \<Rightarrow> bool" where
  "separate u i s \<longleftrightarrow> unique_on d_id (documents s) \<and> unique_on w_id (webhooks s) \<and> i \<notin> their_documents u s"

definition isolated :: "uuid \<Rightarrow> uuid \<Rightarrow> pg \<Rightarrow> pg \<Rightarrow> bool" where
  "isolated u i s t \<longleftrightarrow> (separate u i s \<longrightarrow> separate u i t \<and> others u t = others u s)"

interpretation isolating: guarantee nobody "isolated u i" for u i
  by unfold_locales (auto simp: isolated_def nobody_def)

lemma filter_update_own:
  assumes "\<And>r. r \<in> set rs \<Longrightarrow> P r \<Longrightarrow> \<not> Q r \<and> \<not> Q (f r)"
  shows "filter Q (update_rows P f rs) = filter Q rs"
  using assms by (induction rs) auto

lemma same_row: "unique_on k rs \<Longrightarrow> r \<in> set rs \<Longrightarrow> k r \<in> k ` set (filter P rs) \<Longrightarrow> P r"
  by (auto dest: unique_onD)

section \<open>The transactions\<close>

lemma issue_tx_rows:
  assumes "issue_tx dn d job now s = Inr (Issued iss, t)"
  shows "\<exists>r number js. select_range d now s = Some r \<and>
    documents_ok (documents s @ [outbound_row d number (r_id r) now]) \<and>
    unique_on r_id (update_rows (\<lambda>q. r_id q = r_id r) (\<lambda>q. q\<lparr>r_current_counter := number\<rparr>) (ranges s)) \<and>
    t = s\<lparr>ranges := update_rows (\<lambda>q. r_id q = r_id r) (\<lambda>q. q\<lparr>r_current_counter := number\<rparr>) (ranges s),
      documents := documents s @ [outbound_row d number (r_id r) now], jobs := jobs s @ [new_job_row now job],
      idempotency := idempotency s @ js\<rparr> \<and>
    (\<forall>j \<in> set js. ir_tenant_id j = no_tenant_id d)"
  using assms
  apply (clarsimp simp: issue_tx_def insert_job_def bind_simps put_Inr Let_def)
  subgoal for r number
    apply (rule exI[of _ number])
    apply (rule conjI, assumption)+
    apply (rule exI[of _ "case no_idempotency d of None \<Rightarrow> [] | Some key \<Rightarrow> [idempotency_row_of d key number]"])
    by (cases "no_idempotency d") (auto simp: bind_simps put_Inr idempotency_row_of_def split: option.splits)
  done

lemma issue_tx_isolated:
  assumes tx: "issue_tx dn d job now s = Inr (step, t)" and job: "n_document_id job = no_id d"
  shows "isolated (no_tenant_id d) i s t"
  unfolding isolated_def
proof (intro impI)
  let ?u = "no_tenant_id d"
  assume sep: "separate ?u i s"
  show "separate ?u i t \<and> others ?u t = others ?u s"
  proof (cases step)
    case Key_taken
    with tx have "t = s"
      by (auto simp: issue_tx_def bind_simps Let_def split: option.splits)
    with sep show ?thesis by simp
  next
    case (Issued iss)
    with tx obtain r number js where r: "select_range d now s = Some r"
      and ok: "documents_ok (documents s @ [outbound_row d number (r_id r) now])"
      and rs: "unique_on r_id (update_rows (\<lambda>q. r_id q = r_id r) (\<lambda>q. q\<lparr>r_current_counter := number\<rparr>) (ranges s))"
      and t: "t = s\<lparr>ranges := update_rows (\<lambda>q. r_id q = r_id r) (\<lambda>q. q\<lparr>r_current_counter := number\<rparr>) (ranges s),
        documents := documents s @ [outbound_row d number (r_id r) now], jobs := jobs s @ [new_job_row now job],
        idempotency := idempotency s @ js\<rparr>"
      and js: "\<forall>j \<in> set js. ir_tenant_id j = ?u"
      using issue_tx_rows[of dn d job now s iss t] by blast
    note range = select_range_member[OF r]
    from rs have uniq: "unique_on r_id (ranges s)" by (simp add: rows)
    have "filter (\<lambda>q. r_tenant_id q \<noteq> ?u)
        (update_rows (\<lambda>q. r_id q = r_id r) (\<lambda>q. q\<lparr>r_current_counter := number\<rparr>) (ranges s)) =
        filter (\<lambda>q. r_tenant_id q \<noteq> ?u) (ranges s)"
      using range(2) unique_onD[OF uniq _ range(1)] by (intro filter_update_own) auto
    then have "filter (\<lambda>q. r_tenant_id q \<noteq> ?u) (ranges t) = filter (\<lambda>q. r_tenant_id q \<noteq> ?u) (ranges s)"
      by (simp add: t)
    moreover have docs: "filter (\<lambda>d. d_tenant_id d \<noteq> ?u) (documents t) = filter (\<lambda>d. d_tenant_id d \<noteq> ?u) (documents s)"
      by (simp add: t outbound_row_def)
    then have ids: "their_documents ?u t = their_documents ?u s" by (simp add: their_documents_def)
    moreover have "no_id d \<notin> their_documents ?u s"
      using ok by (auto simp: documents_ok_def outbound_row_def their_documents_def)
    then have "filter (\<lambda>j. jr_document_id j \<in> their_documents ?u s) (jobs t) =
        filter (\<lambda>j. jr_document_id j \<in> their_documents ?u s) (jobs s)"
      by (simp add: t new_job_row_def job)
    moreover have "filter (\<lambda>i. ir_tenant_id i \<noteq> ?u) (idempotency t) = filter (\<lambda>i. ir_tenant_id i \<noteq> ?u) (idempotency s)"
      using js by (simp add: t)
    moreover have "unique_on d_id (documents t)" using ok by (simp add: t documents_ok_def)
    ultimately show ?thesis using sep docs
      by (simp add: others_def separate_def t their_webhooks_def)
  qed
qed

lemma inbound_tx_isolated:
  assumes "inbound_tx d now s = Inr (b, t)"
  shows "isolated (ni_tenant_id d) i s t"
  using assms
  by (auto simp: inbound_tx_def bind_simps put_Inr isolated_def separate_def others_def their_documents_def
      their_webhooks_def inbound_row_def documents_ok_def simp del: set_filter split: if_splits)

lemma event_tx_isolated:
  assumes "insert_event e s = Inr t" "e_document_id e = i"
  shows "isolated u i s t"
  using assms
  by (auto simp: insert_event_def bind_simps put_Inr isolated_def separate_def others_def their_documents_def
      their_webhooks_def simp del: set_filter)

lemma create_webhook_tx_isolated:
  assumes "create_webhook_tx w now s = Inr (x, t)"
  shows "isolated (w_tenant_id w) i s t"
  using assms
  by (auto simp: create_webhook_tx_def bind_simps put_Inr isolated_def separate_def others_def their_documents_def
      their_webhooks_def simp del: set_filter)

lemma delete_webhook_tx_isolated:
  assumes "delete_webhook_tx u k now s = Inr (x, t)"
  shows "isolated u i s t"
  unfolding isolated_def
proof (intro impI)
  assume sep: "separate u i s"
  let ?gone = "\<lambda>w. w_id w = k \<and> w_tenant_id w = u"
  have t: "t = s\<lparr>webhooks := delete_rows ?gone (webhooks s),
      deliveries := delete_rows (\<lambda>d. dl_webhook_id d \<in> w_id ` set (filter ?gone (webhooks s))) (deliveries s)\<rparr>"
    using assms by (auto simp: delete_webhook_tx_def Let_def)
  have hooks: "filter (\<lambda>w. w_tenant_id w \<noteq> u) (webhooks t) = filter (\<lambda>w. w_tenant_id w \<noteq> u) (webhooks s)"
    by (auto simp: t delete_rows_def intro: filter_cong)
  then have "their_webhooks u t = their_webhooks u s" by (simp add: their_webhooks_def)
  moreover have "dl_webhook_id d \<notin> w_id ` set (filter ?gone (webhooks s))" if "dl_webhook_id d \<in> their_webhooks u s" for d
    using that sep by (auto simp: their_webhooks_def separate_def dest: unique_onD)
  then have "filter (\<lambda>d. dl_webhook_id d \<in> their_webhooks u s) (deliveries t) =
      filter (\<lambda>d. dl_webhook_id d \<in> their_webhooks u s) (deliveries s)"
    unfolding t delete_rows_def by (auto intro!: filter_cong)
  moreover have "unique_on w_id (webhooks t)" using sep by (simp add: t separate_def unique_on_delete_rows)
  ultimately show "separate u i t \<and> others u t = others u s"
    using sep hooks by (simp add: others_def separate_def t their_documents_def)
qed

section \<open>The use cases\<close>

lemma issue_isolated: "World.within nobody (isolated (t_id tenant) i) (issue I (pg_documents dn) m tenant ty prefix req payload key)"
proof -
  have find: "World.within nobody (isolated (t_id tenant) i) (find_idempotency u k)" for u k
    unfolding find_idempotency_def
    by (intro isolating.bind isolating.read)
      (auto intro: isolating.return isolating.bind isolating.lift split: option.split)
  have "World.within nobody (isolated (t_id tenant) i) (pg_issue_outbound dn d j)"
    if "n_document_id j = no_id d" "no_tenant_id d = t_id tenant" for d j
    unfolding pg_issue_outbound_def
    using issue_tx_isolated[of dn d j, OF _ that(1)] that(2)
    by (intro isolating.bind)
      (auto intro!: isolating.bind isolating.return isolating.lift find isolating.transaction
        split: option.split issue_step.split)
  note store = this
  have "World.within nobody (isolated (t_id tenant) i) (\<lambda>w. case new_uuid w of (i, w1) \<Rightarrow> case new_uuid w1 of (j, w2) \<Rightarrow>
         io_map_err Failed (issue_outbound (pg_documents dn)
           \<lparr>no_id = i, no_tenant_id = t_id tenant, no_document_type = ty, no_prefix = prefix,
            no_requested_number = req, no_payload = payload, no_idempotency = idem\<rparr>
           (transmit_job j (clock w2) i m)) w2)" for idem
    by (intro isolating.then_with isolating.map_err
        isolating.reading[where m = "\<lambda>now. io_map_err Failed (issue_outbound (pg_documents dn) _ (transmit_job _ now _ m))"])
      (simp_all add: pg_documents_def store transmit_job_def)
  then show ?thesis unfolding issue_def by (intro isolating.bind isolating.lift)
qed

lemmas isolated_steps = isolating.bind isolating.map_err isolating.lift isolating.return isolating.fail isolating.read

lemma issuing_isolated:
  "World.within nobody (isolated (t_id tenant) i) (issue_invoice I (pg_documents dn) m tenant p1 key)"
  "World.within nobody (isolated (t_id tenant) i) (issue_payroll I (pg_documents dn) m tenant p2 key)"
  "World.within nobody (isolated (t_id tenant) i) (issue_support_document I (pg_documents dn) m tenant p3 key)"
  unfolding issue_invoice_def issue_payroll_def issue_support_document_def
  by (intro isolated_steps issue_isolated)+

lemma register_document_isolated:
  "World.within nobody (isolated (t_id tenant) i)
     (register_document (pg_documents dn) tenant issuer parent cufe numbered payload xml)"
proof -
  have "World.within nobody (isolated (t_id tenant) i) (pg_insert_inbound d)" if "ni_tenant_id d = t_id tenant" for d
    unfolding pg_insert_inbound_def that[symmetric] by (rule isolating.transaction) (rule inbound_tx_isolated)
  then show ?thesis
    unfolding register_document_def
    by (intro isolating.then_with isolating.bind) (auto simp: pg_documents_def intro: isolated_steps)
qed

lemma reception_isolated:
  "is_documents S = pg_documents dn \<Longrightarrow>
   World.within nobody (isolated (t_id tenant) i) (register_unverified S tenant xml)"
  "is_documents S = pg_documents dn \<Longrightarrow> is_verification S = map_option (case_prod verifier_of) V \<Longrightarrow>
   World.within nobody (isolated (t_id tenant) i) (register_verified reader S tenant xml)"
proof -
  assume S: "is_documents S = pg_documents dn"
  show "World.within nobody (isolated (t_id tenant) i) (register_unverified S tenant xml)"
    unfolding register_unverified_def S by (intro isolated_steps register_document_isolated)
  assume V: "is_verification S = map_option (case_prod verifier_of) V"
  show "World.within nobody (isolated (t_id tenant) i) (register_verified reader S tenant xml)"
    unfolding register_verified_def S V
    by (cases V) (auto simp: verifier_of_def verify_part_def intro!: isolated_steps register_document_isolated)
qed

lemma webhooks_isolated:
  "World.within nobody (isolated (t_id tenant) i) (register_webhook parse P (pg_webhooks lk) tenant url ty)"
  "World.within nobody (isolated (t_id tenant) i) (webhook_views (pg_webhooks lk) tenant)"
  "World.within nobody (isolated (t_id tenant) i) (remove_webhook (pg_webhooks lk) tenant k)"
proof -
  have create: "World.within nobody (isolated (t_id tenant) i) (pg_create_webhook h)" if "w_tenant_id h = t_id tenant" for h
    unfolding pg_create_webhook_def that[symmetric] by (rule isolating.transaction) (rule create_webhook_tx_isolated)
  have secret: "db (snd (random_hex w)) = db w \<and> peers (snd (random_hex w)) = peers w" for w :: "pg world"
  proof -
    obtain s v where "random_hex w = (s, v)" by force
    with random_hex_frame[OF this] show ?thesis by simp
  qed
  have "World.within nobody (isolated (t_id tenant) i) (store_webhook (pg_webhooks lk) tenant url ty)"
    unfolding store_webhook_def Let_def
    by (intro isolating.then_with isolating.bind)
      (auto simp: secret pg_webhooks_def intro: isolated_steps create)
  then show "World.within nobody (isolated (t_id tenant) i) (register_webhook parse P (pg_webhooks lk) tenant url ty)"
    unfolding register_webhook_def pg_webhooks_def pg_list_webhooks_def webhook_repository.simps
    by (intro isolated_steps) (simp add: pg_webhooks_def pg_list_webhooks_def)
  show "World.within nobody (isolated (t_id tenant) i) (webhook_views (pg_webhooks lk) tenant)"
    unfolding webhook_views_def pg_webhooks_def pg_list_webhooks_def webhook_repository.simps by (intro isolated_steps)
  show "World.within nobody (isolated (t_id tenant) i) (remove_webhook (pg_webhooks lk) tenant k)"
    unfolding remove_webhook_def found_or_def pg_webhooks_def pg_delete_webhook_def webhook_repository.simps
    by (intro isolated_steps isolating.transaction) (auto intro: isolated_steps delete_webhook_tx_isolated)
qed

lemma record_response_isolated:
  "World.within nobody (isolated u (d_id d)) (record_response (pg_radian dn f dian) d code cude response)"
proof -
  have "World.within nobody (isolated u (d_id d)) (pg_record_event e)" if "e_document_id e = d_id d" for e
    unfolding pg_record_event_def
    by (rule isolating.transaction) (auto simp: bind_simps intro: event_tx_isolated that)
  note step = this
  define M where "M k now = io_bind (record_event (rs_documents (pg_radian dn f dian)) (response_event_of k now d response))
      (\<lambda>_. io_return \<lparr>ro_event_id = k, ro_event_code = code, ro_cude = cude, ro_dian_status = status_code response,
         ro_dian_message = message response, ro_soap_trace_id = soap_trace_id response\<rparr>)" for k now
  have "World.within nobody (isolated u (d_id d)) (M k now)" for k now
    unfolding M_def by (intro isolated_steps) (simp add: step response_event_of_def dian_event_new_def)
  then have "World.within nobody (isolated u (d_id d)) (\<lambda>v. M k (clock v) v)" for k
    by (rule isolating.reading[where m = "M k" and f = clock])
  then have "World.within nobody (isolated u (d_id d)) (\<lambda>w. case new_uuid w of (k, v) \<Rightarrow> M k (clock v) v)"
    by (intro isolating.then_with) simp_all
  then show ?thesis
    by (simp add: record_response_def[abs_def] M_def Let_def response_event_of_def dian_event_new_def cong: prod.case_cong)
qed

lemma transmission_isolated:
  "World.within nobody (isolated u i) (soap_exchange g c)"
  "World.within nobody (isolated u i) (sign_for_tenant (signer f) t x)"
  by (auto simp: signer_def soap_exchange_def intro!: isolating.local)

lemma register_event_isolated:
  assumes "peers w = []" "unique_on d_id (documents (db w))" "unique_on w_id (webhooks (db w))"
    and "register_event U local_time (pg_radian dn f dian) tenant i q w = (r, v)"
  shows "others (t_id tenant) (db v) = others (t_id tenant) (db w)"
proof -
  define M where "M d g k now = io_bind (io_lift (internal_ubl (ubl_response_xml U (radian_input local_time tenant d q g k now))))
      (\<lambda>(unsigned_xml, cude).
      io_bind (io_map_err Failed (sign_for_tenant (signer f) (t_id tenant) unsigned_xml)) (\<lambda>signed_xml.
      io_bind (io_lift (internal_ubl (ubl_compress U signed_xml (t_tax_id tenant) ''EV'' 1))) (\<lambda>(zip, _).
      io_bind (io_map_err Failed (soap_exchange (answers dian) (Send_event_update_status (t_id tenant) zip (rq_environment q = ''2''))))
      (\<lambda>response. io_map_err Failed (record_response (pg_radian dn f dian) d (rq_event_code q) cude response)))))"
    for d g k now
  have "World.within nobody (isolated (t_id tenant) (d_id d)) (M d g k now)" for d g k now
    unfolding M_def
    by (auto split: prod.split intro!: isolated_steps transmission_isolated record_response_isolated)
  then have M: "World.within nobody (isolated (t_id tenant) (d_id d)) (\<lambda>v. M d g k (clock v) v)" for d g k
    by (rule isolating.reading[where m = "M d g k" and f = clock for d g k])
  have M: "World.within nobody (isolated (t_id tenant) (d_id d)) (\<lambda>w. case new_uuid w of (k, v) \<Rightarrow> M d g k (clock v) v)" for d g
    by (intro isolating.then_with M) simp_all
  have run: "register_event U local_time (pg_radian dn f dian) tenant i q =
      io_bind (io_map_err Failed (pg_find_tenant_document (t_id tenant) i)) (\<lambda>found.
      io_bind (io_lift (map_err Failed (ok_or (not_found_document i) found))) (\<lambda>d.
      io_bind (io_lift (map_err Failed (event_facts_of (d_payload d) (rq_event_code q)))) (\<lambda>g w.
      case new_uuid w of (k, v) \<Rightarrow> M d g k (clock v) v)))"
    by (simp add: register_event_def M_def pg_radian_def pg_documents_def dian_client_def)
  obtain x w1 where find: "pg_find_tenant_document (t_id tenant) i w = (x, w1)" by force
  note w1 = query_solo[OF assms(1) find[unfolded pg_find_tenant_document_def]]
  show ?thesis
  proof (cases "\<exists>d. x = Inr (Some d)")
    case False
    with find assms(4) have "v = w1"
      by (auto simp: run io_bind_def io_map_err_def map_err_Inr_iff ok_or_Inr_iff split: sum.splits)
    with w1(1) show ?thesis by simp
  next
    case True
    then obtain d where x: "x = Inr (Some d)" by blast
    with w1(4) have d: "d \<in> set (documents (db w))" "d_id d = i" "d_tenant_id d = t_id tenant"
      by (auto dest!: find_row_SomeD sym[of "Some _"])
    have "separate (t_id tenant) i (db w1)"
      using d assms(2,3) w1(1) by (auto simp: separate_def their_documents_def dest: unique_onD)
    moreover have "World.within nobody (isolated (t_id tenant) i)
        (io_bind (io_lift (map_err Failed (event_facts_of (d_payload d) (rq_event_code q)))) (\<lambda>g w.
         case new_uuid w of (k, v) \<Rightarrow> M d g k (clock v) v))" (is "World.within _ _ ?m")
      by (intro isolating.bind isolating.lift M[of d, unfolded d(2)])
    moreover have "?m w1 = (r, v)"
      using assms(4) find x by (simp add: run io_bind_def io_map_err_def)
    ultimately show ?thesis
      using withinD(1)[of nobody "isolated (t_id tenant) i" ?m w1 r v] w1(1,2) by (simp add: isolated_def)
  qed
qed

section \<open>The server\<close>

text \<open>The request presents the unrevoked key of tenant \<open>t\<close>.\<close>

definition presents_key_of :: "digest \<Rightarrow> http_headers \<Rightarrow> pg \<Rightarrow> tenant \<Rightarrow> bool" where
  "presents_key_of sha256 hs s t \<longleftrightarrow> (\<exists>token row. header_str hs ''Authorization'' = Some (''Bearer '' @ token) \<and>
     row \<in> set (api_keys s) \<and> k_key_hash row = key_hash sha256 (trim token) \<and> k_revoked_at row = None \<and>
     t \<in> set (tenants s) \<and> t_id t = k_tenant_id row)"

lemma query_failed: "query f w = (Inl e, v) \<Longrightarrow> e = db_unavailable"
  by (auto simp: query_def tx_def transact_def split: prod.splits sum.splits if_splits)

lemma strip_prefix_Some: "strip_prefix p s = Some t \<Longrightarrow> s = p @ t"
  by (auto simp: strip_prefix_def starts_with_def split: if_splits) (metis append_take_drop_id)

lemma auth_middleware_cases:
  assumes "peers w = []" "auth_middleware sha256 pg_tenants hs w = (x, v)"
  obtains (refused) e where "x = Inl (Unauthorized e)" "db v = db w"
    | (failed) e where "x = Inl (Domain (Database e))" "db v = db w"
    | (tenant) t where "x = Inr t" "presents_key_of sha256 hs (db w) t" "db v = db w" "peers v = []"
proof (cases "Option.bind (header_str hs ''Authorization'') (strip_prefix ''Bearer '')")
  case None
  with assms(2) refused show thesis
    by (auto simp: auth_middleware_def io_bind_def bind_eq_None_conv ok_or_def split: option.splits)
next
  case (Some token)
  then have header: "header_str hs ''Authorization'' = Some (''Bearer '' @ token)"
    by (auto simp: bind_eq_Some_conv dest: strip_prefix_Some)
  let ?h = "key_hash sha256 (trim token)"
  obtain y u where find: "pg_find_by_api_key_hash ?h w = (y, u)" by force
  have run: "(case y of Inl e \<Rightarrow> (Inl (Domain e), u)
      | Inr found \<Rightarrow> (ok_or (Unauthorized ''Unauthorized: Invalid API Key'') found, u)) = (x, v)"
    using assms(2) Some find
    by (auto simp: auth_middleware_def io_bind_def io_map_err_def pg_tenants_def bind_eq_Some_conv map_err_def split: sum.splits)
  note u = query_solo[OF assms(1) find[unfolded pg_find_by_api_key_hash_def]]
  show thesis
  proof (cases y)
    case (Inl e)
    with find have "e = Database ''connection lost''"
      unfolding pg_find_by_api_key_hash_def by (auto simp: db_unavailable_def dest: query_failed)
    with run Inl u failed show thesis by auto
  next
    case (Inr found)
    show thesis
    proof (cases found)
      case None
      with run Inr u refused show thesis by auto
    next
      case (Some t)
      with u(4) Inr obtain row where row: "find_row (\<lambda>k. k_key_hash k = ?h \<and> k_revoked_at k = None) (api_keys (db w)) = Some row"
        and t: "find_row (\<lambda>t. t_id t = k_tenant_id row) (tenants (db w)) = Some t"
        by (auto dest!: sym[of "Some _"] simp: bind_eq_Some_conv)
      have "presents_key_of sha256 hs (db w) t"
        unfolding presents_key_of_def using header find_row_SomeD[OF row] find_row_SomeD[OF t] by blast
      with run Inr Some u tenant show thesis by auto
    qed
  qed
qed

text \<open>The server of \<open>main.rs\<close> with its outside world: the signer, the DIAN and the verifier of signatures.\<close>

definition pg_server ::
  "row_locks \<Rightarrow> (instant \<Rightarrow> string) \<Rightarrow> (instant \<Rightarrow> uuid \<Rightarrow> string \<Rightarrow> string result) \<Rightarrow> dian \<Rightarrow>
   ((string \<Rightarrow> verified_signature result) \<times> string) option \<Rightarrow> api_config \<Rightarrow> pg app_state" where
  "pg_server locked dn f dian V C =
     main_state locked dn (signer f) (dian_client dian) (map_option (case_prod verifier_of) V) C"

lemma pg_server_fields [simp]:
  "st_tenants (pg_server lk dn f dian V C) = pg_tenants" "st_documents (pg_server lk dn f dian V C) = pg_documents dn"
  "st_issue (pg_server lk dn f dian V C) = (pg_documents dn, ac_transmit_max_attempts C)"
  "is_documents (st_inbound (pg_server lk dn f dian V C)) = pg_documents dn"
  "is_verification (st_inbound (pg_server lk dn f dian V C)) = map_option (case_prod verifier_of) V"
  "st_radian (pg_server lk dn f dian V C) = pg_radian dn f dian"
  "st_webhooks (pg_server lk dn f dian V C) = (pg_webhooks lk, ac_webhook_policy C)"
  "st_admin (pg_server lk dn f dian V C) = pg_admin" "st_config (pg_server lk dn f dian V C) = C"
  "st_health (pg_server lk dn f dian V C) = pg_ping"
  by (simp_all add: pg_server_def main_state_def pg_radian_def)

lemma handler_isolated:
  assumes "\<And>k q. c \<noteq> Register_document_event k q"
  shows "World.within nobody (isolated (t_id t) i) (api_handler L (pg_server lk dn f dian V C) t hs c)"
proof -
  note handlers = in_domain_def in_service_def checked_def issued_def
  show ?thesis
  proof (cases c)
    case (Register_document_event k q)
    with assms show ?thesis by blast
  next
    case (Get_document k)
    then show ?thesis
      by (simp add: get_document_def handlers pg_documents_def pg_find_tenant_document_def)
        (intro isolated_steps)
  next
    case (Receive_inbound_invoice z)
    then show ?thesis
      by (auto simp: receive_inbound_invoice_def handlers intro!: isolated_steps reception_isolated)
  qed (auto simp: create_invoice_def create_payroll_def create_support_document_def post_webhook_def get_webhooks_def
      delete_webhook_of_def handlers intro!: isolated_steps issuing_isolated webhooks_isolated)
qed

lemma handler_leaves_others:
  assumes "peers w = []" "unique_on d_id (documents (db w))" "unique_on w_id (webhooks (db w))"
    and "api_handler L (pg_server lk dn f dian V C) t hs c w = (r, v)"
  shows "others (t_id t) (db v) = others (t_id t) (db w)"
proof (cases "\<exists>k q. c = Register_document_event k q")
  case True
  then obtain k q where c: "c = Register_document_event k q" by blast
  let ?q = "\<lparr>rq_event_code = er_event_code q, rq_software_pin = er_software_pin q, rq_environment = er_environment q\<rparr>"
  obtain x u where run: "register_event (al_ubl L) (al_local_time L) (pg_radian dn f dian) t k ?q w = (x, u)" by force
  then have "v = u"
    using assms(4) by (auto simp: c register_document_event_def in_service_def io_bind_def io_map_err_def split: sum.splits)
  with register_event_isolated[OF assms(1-3) run] show ?thesis by simp
next
  case False
  have "finite (their_documents (t_id t) (db w))" by (simp add: their_documents_def)
  then obtain i where "i \<notin> their_documents (t_id t) (db w)" using ex_new_if_finite infinite_UNIV_nat by blast
  then have "separate (t_id t) i (db w)" using assms(2,3) by (simp add: separate_def)
  with withinD(1)[OF handler_isolated[of c t i L lk dn f dian V C hs] _ assms(4)] False assms(1) show ?thesis
    by (auto simp: isolated_def)
qed

text \<open>
  C20. Tenant isolation of the HTTP API. A request to a route of \<open>/api/v1\<close>, whatever it asks and whichever of its
  database calls fail, either is refused (401) or finds the database unavailable (503) before its handler runs,
  and nothing changed; or it presents the key of a tenant in force, and then everything that belongs to other
  tenants is as before: their documents, events, jobs, resolutions, idempotency keys, webhooks and deliveries,
  and every tenant, key, certificate and audit entry.
\<close>

theorem tenant_isolation:
  assumes "peers w = []" "pg_constraints (db w)" "hq_route q = Api c"
    and "serve L (pg_server lk dn f dian V C) q w = (r, v)"
  shows "((\<exists>x. r = Some x \<and> hr_status x \<in> {401, 503}) \<and> db v = db w) \<or>
    (\<exists>t. presents_key_of (i_sha256 (al_issue L)) (hq_headers q) (db w) t \<and> others (t_id t) (db v) = others (t_id t) (db w))"
proof -
  let ?S = "pg_server lk dn f dian V C"
  obtain x u where auth: "auth_middleware (i_sha256 (al_issue L)) pg_tenants (hq_headers q) w = (x, u)" by force
  have run: "(case x of Inl e \<Rightarrow> (Some (no_store (into_response e)), u)
      | Inr t \<Rightarrow> (case extracted c (api_handler L ?S t (hq_headers q)) u of (a, u') \<Rightarrow> (map_option no_store (answer_of a), u'))) = (r, v)"
    using assms(3,4) auth by (auto simp: serve_def io_bind_def io_map_err_def split: sum.splits prod.splits)
  show ?thesis
    using assms(1) auth
  proof (cases rule: auth_middleware_cases)
    case (tenant t)
    obtain a v' where a: "extracted c (api_handler L ?S t (hq_headers q)) u = (a, v')" by force
    with run tenant(1) have "v = v'" by simp
    have ids: "unique_on d_id (documents (db u))" "unique_on w_id (webhooks (db u))"
      using assms(2) tenant(3) by (simp_all add: pg_constraints_def documents_ok_def)
    have "others (t_id t) (db v) = others (t_id t) (db u)"
      using a handler_leaves_others[OF tenant(4) ids] \<open>v = v'\<close> by (auto simp: extracted_def split: sum.splits)
    with tenant show ?thesis by auto
  qed (use run in \<open>auto simp: into_response_def no_store_def insert_header_def json_response_def\<close>)
qed

end
