(* ===== verification/Api_Properties.thy ===== *)
theory Api_Properties
  imports Api_Isolation Issue_Properties Queue_Properties
begin

text \<open>
  What the HTTP API answers: the administration behind its token, the documents of a tenant, the repeated
  request, and the bounds on a received archive.
\<close>

section \<open>Administration\<close>

lemma bytes_of_inject: "bytes_of s = bytes_of t \<longleftrightarrow> s = t"
proof -
  have "unat (word_of_nat (byte c) :: 8 word) = byte c" for c by (simp add: unat_of_nat byte_def)
  then have "inj (\<lambda>c. word_of_nat (byte c) :: 8 word)"
    by (intro injI) (metis byte_def of_char_eq_iff)
  then show ?thesis by (simp add: bytes_of_def inj_map_eq_map)
qed

lemma admin_auth_Inr:
  assumes "admin_auth sha256 configured hs = Inr ()"
  obtains token where "header_str hs ''Authorization'' = Some (''Bearer '' @ token)"
    and "configured = Some (key_hash sha256 (trim token))"
  using assms
  by (auto simp: admin_auth_def bind_ok_Inr_iff ok_or_Inr_iff constant_time_eq_is_equality bytes_of_inject
      bind_eq_Some_conv split: if_splits dest!: strip_prefix_Some)

lemma admin_auth_Inl: "admin_auth sha256 configured hs = Inl e \<Longrightarrow> \<exists>m. e = Unauthorized m"
  by (auto simp: admin_auth_def bind_ok_def ok_or_def split: option.splits sum.splits if_splits)

text \<open>
  C23. The administration API is behind its token. Whatever stores and services the server has, a request to
  \<open>/admin/v1\<close> is answered 401, or as an unknown route when no token is configured, and changes nothing; or it
  carries the token whose SHA-256, in lower-case hexadecimal, is the configured one.
\<close>

theorem admin_needs_the_token:
  assumes "hq_route q = Admin c" "serve L S q w = (r, v)"
  shows "(v = w \<and> (r = Some (no_store (al_unmatched L)) \<and> ac_admin_token_sha256 (st_config S) = None \<or>
            (\<exists>x. r = Some x \<and> hr_status x = 401))) \<or>
    (\<exists>token. header_str (hq_headers q) ''Authorization'' = Some (''Bearer '' @ token) \<and>
       ac_admin_token_sha256 (st_config S) = Some (key_hash (i_sha256 (al_issue L)) (trim token)))"
proof (cases "ac_admin_token_sha256 (st_config S) = None")
  case True
  with assms show ?thesis by (auto simp: serve_def)
next
  case False
  show ?thesis
  proof (cases "admin_auth (i_sha256 (al_issue L)) (ac_admin_token_sha256 (st_config S)) (hq_headers q)")
    case (Inl e)
    with admin_auth_Inl[OF Inl] assms False show ?thesis
      by (auto simp: serve_def checked_def io_bind_def map_err_def into_response_def no_store_def insert_header_def
          json_response_def)
  next
    case (Inr u)
    then show ?thesis by (auto elim: admin_auth_Inr)
  qed
qed

section \<open>Received archives\<close>

lemma entry_xml_Inr:
  "entry_xml e = Inr xml \<longleftrightarrow> z_size e \<le> max_inbound_xml_bytes \<and> z_content e = xml \<and> z_error e = None \<and>
     length xml \<le> max_inbound_xml_bytes \<and> valid_utf8 (map byte xml) \<and> trim xml \<noteq> []"
proof (cases "max_inbound_xml_bytes + 1 \<le> length (z_content e)")
  case True
  then have "read_at_most (max_inbound_xml_bytes + 1) e = Inr (take (max_inbound_xml_bytes + 1) (z_content e))"
    "length (take (max_inbound_xml_bytes + 1) (z_content e)) > max_inbound_xml_bytes"
    by (simp_all add: read_at_most_def)
  with True show ?thesis by (auto simp: entry_xml_def)
next
  case False
  then have "read_at_most (max_inbound_xml_bytes + 1) e =
      (case z_error e of Some err \<Rightarrow> Inl err | None \<Rightarrow> Inr (z_content e))"
    by (simp only: read_at_most_def if_False)
  with False show ?thesis by (cases "z_error e") (auto simp: entry_xml_def)
qed

lemma first_xml_Inr:
  "first_xml archive = Inr xml \<longleftrightarrow>
     (\<exists>es e rest. archive = map Inr es @ Inr e # rest \<and> \<not> list_ex is_xml_entry es \<and> is_xml_entry e \<and> entry_xml e = Inr xml)"
proof (induction archive rule: first_xml.induct)
  case (3 f archive)
  show ?case
  proof (cases "is_xml_entry f")
    case True
    have "(\<exists>es e rest. Inr f # archive = map Inr es @ Inr e # rest \<and> \<not> list_ex is_xml_entry es \<and> is_xml_entry e \<and>
        entry_xml e = Inr xml) \<longleftrightarrow> entry_xml f = Inr xml"
    proof
      assume "entry_xml f = Inr xml"
      with True show "\<exists>es e rest. Inr f # archive = map Inr es @ Inr e # rest \<and> \<not> list_ex is_xml_entry es \<and>
          is_xml_entry e \<and> entry_xml e = Inr xml" by (intro exI[of _ "[]"]) simp
    qed (use True in \<open>auto simp: Cons_eq_append_conv Cons_eq_map_conv\<close>)
    with True show ?thesis by simp
  next
    case False
    have "(\<exists>es e rest. Inr f # archive = map Inr es @ Inr e # rest \<and> \<not> list_ex is_xml_entry es \<and> is_xml_entry e \<and>
          entry_xml e = Inr xml) \<longleftrightarrow>
        (\<exists>es e rest. archive = map Inr es @ Inr e # rest \<and> \<not> list_ex is_xml_entry es \<and> is_xml_entry e \<and>
          entry_xml e = Inr xml)" (is "(\<exists>es. ?P es) \<longleftrightarrow> (\<exists>es. ?Q es)")
    proof
      assume "\<exists>es. ?P es"
      then obtain es e rest where es: "Inr f # archive = map Inr es @ Inr e # rest" "\<not> list_ex is_xml_entry es"
        "is_xml_entry e" "entry_xml e = Inr xml" by blast
      with False obtain ds where "es = f # ds" by (cases es) auto
      with es show "\<exists>es. ?Q es" by (intro exI[of _ ds] exI[of _ e] exI[of _ rest]) simp
    next
      assume "\<exists>es. ?Q es"
      then obtain es where "?Q es" ..
      with False have "?P (f # es)" by auto
      then show "\<exists>es. ?P es" ..
    qed
    with False 3 show ?thesis by simp
  qed
qed (auto simp: Cons_eq_append_conv)

text \<open>
  C24. Protection against archive bombs. An XML is taken from a received archive exactly when the archive has
  between one and twenty entries, all before the first one named \<open>.xml\<close> can be opened, and that entry declares
  and really has at most 10 MiB, is read without an error, is UTF-8 and not blank. The XML is its whole content.
\<close>

theorem received_xml_is_bounded:
  "extract_first_xml zip_open bytes = Inr xml \<longleftrightarrow>
     (\<exists>es e rest. zip_open bytes = Inr (map Inr es @ Inr e # rest) \<and> length es + length rest < 20 \<and>
        \<not> list_ex is_xml_entry es \<and> is_xml_entry e \<and> z_size e \<le> 10485760 \<and> z_error e = None \<and> z_content e = xml \<and>
        length xml \<le> 10485760 \<and> valid_utf8 (map byte xml) \<and> trim xml \<noteq> [])"
proof -
  have "extract_first_xml zip_open bytes = Inr xml \<longleftrightarrow>
      (\<exists>archive. zip_open bytes = Inr archive \<and> archive \<noteq> [] \<and> length archive \<le> 20 \<and> first_xml archive = Inr xml)"
    by (cases "zip_open bytes") (auto simp: extract_first_xml_def max_inbound_zip_entries_def not_less)
  also have "\<dots> \<longleftrightarrow> (\<exists>es e rest. zip_open bytes = Inr (map Inr es @ Inr e # rest) \<and>
      length (map Inr es @ Inr e # rest :: zip_archive) \<le> 20 \<and>
      \<not> list_ex is_xml_entry es \<and> is_xml_entry e \<and> entry_xml e = Inr xml)"
    by (auto simp: first_xml_Inr) blast+
  finally show ?thesis by (auto simp: entry_xml_Inr max_inbound_xml_bytes_def less_eq_Suc_le)
qed

section \<open>Documents\<close>

text \<open>The key in force authenticates its tenant.\<close>

lemma key_authenticates:
  assumes "alone w" "pg_constraints (db w)" "presents_key_of sha256 hs (db w) t"
  shows "auth_middleware sha256 pg_tenants hs w = (Inr t, w)"
proof -
  from assms(3) obtain token row where header: "header_str hs ''Authorization'' = Some (''Bearer '' @ token)"
    and row: "row \<in> set (api_keys (db w))" "k_key_hash row = key_hash sha256 (trim token)" "k_revoked_at row = None"
    and t: "t \<in> set (tenants (db w))" "t_id t = k_tenant_id row"
    by (auto simp: presents_key_of_def)
  have "find_row (\<lambda>k. k_key_hash k = key_hash sha256 (trim token) \<and> k_revoked_at k = None) (api_keys (db w)) = Some row"
    using find_row_unique_on[of k_key_hash "api_keys (db w)" row "\<lambda>k. k_revoked_at k = None"] assms(2) row
    by (simp add: pg_constraints_def)
  moreover have "find_row (\<lambda>t. t_id t = k_tenant_id row) (tenants (db w)) = Some t"
    using find_row_unique_on[of t_id "tenants (db w)" t "\<lambda>_. True"] assms(2) t
    by (simp add: pg_constraints_def tenants_ok_def)
  ultimately have "pg_find_by_api_key_hash (key_hash sha256 (trim token)) w = (Inr (Some t), w)"
    by (simp add: find_key_alone[OF assms(1)])
  moreover have "strip_prefix ''Bearer '' (''Bearer '' @ token) = Some token"
    by (simp add: strip_prefix_def starts_with_def)
  ultimately show ?thesis
    using header by (simp add: auth_middleware_def io_bind_def io_map_err_def pg_tenants_def)
qed

lemma authenticated:
  assumes "alone w" "pg_constraints (db w)" "presents_key_of (i_sha256 (al_issue L)) (hq_headers q) (db w) t"
    and "hq_route q = Api (Inr c)"
  shows "serve L (pg_server lk dn f dian V C) q w =
    (case api_handler L (pg_server lk dn f dian V C) t (hq_headers q) c w of (r, v) \<Rightarrow> (map_option no_store (answer_of r), v))"
  using key_authenticates[OF assms(1-3)] assms(4)
  by (simp add: serve_def io_bind_def io_map_err_def extracted_def map_err_def)

text \<open>
  C21. The documents of a tenant. With a key in force, \<open>GET /documents/:id\<close> changes nothing and answers a document
  of its tenant with all its fields but the secrets of the payload; a document of another tenant is answered
  like one that does not exist. No answer may be stored by a cache.
\<close>

theorem only_own_documents_are_shown:
  assumes "alone w" "pg_constraints (db w)" "presents_key_of (i_sha256 (al_issue L)) hs (db w) t"
  shows "serve L (pg_server lk dn f dian V C) \<lparr>hq_headers = hs, hq_route = Api (Inr (Get_document i))\<rparr> w =
      (Some (insert_header ''cache-control'' ''no-store''
         (case find_row (\<lambda>d. d_id d = i) (documents (db w)) of
            Some d \<Rightarrow>
              if d_tenant_id d = t_id t then json_response 200 (document_view_json (al_serde_time L) (document_view_of d))
              else into_response (Domain (not_found_document i))
          | None \<Rightarrow> into_response (Domain (not_found_document i)))), w) \<and>
    obj_get ''software_pin'' (v_payload (document_view_of d)) = None \<and>
    obj_get ''technical_key'' (v_payload (document_view_of d)) = None \<and>
    (k \<notin> {''software_pin'', ''technical_key''} \<longrightarrow> obj_get k (v_payload (document_view_of d)) = obj_get k (d_payload d))"
proof (intro conjI)
  let ?i = "\<lambda>d. d_id d = i" and ?own = "\<lambda>d. d_id d = i \<and> d_tenant_id d = t_id t"
  have "find_row ?own (documents (db w)) =
      (case find_row ?i (documents (db w)) of Some d \<Rightarrow> if d_tenant_id d = t_id t then Some d else None | None \<Rightarrow> None)"
    by (rule find_row_unique_and) (use assms(2) in \<open>simp add: pg_constraints_def documents_ok_def\<close>)
  then have "pg_find_tenant_document (t_id t) i w =
      (Inr (case find_row ?i (documents (db w)) of Some d \<Rightarrow> if d_tenant_id d = t_id t then Some d else None | None \<Rightarrow> None), w)"
    using assms(1) by (simp add: pg_find_tenant_document_def query_alone)
  then show "serve L (pg_server lk dn f dian V C) \<lparr>hq_headers = hs, hq_route = Api (Inr (Get_document i))\<rparr> w =
      (Some (insert_header ''cache-control'' ''no-store''
         (case find_row (\<lambda>d. d_id d = i) (documents (db w)) of
            Some d \<Rightarrow>
              if d_tenant_id d = t_id t then json_response 200 (document_view_json (al_serde_time L) (document_view_of d))
              else into_response (Domain (not_found_document i))
          | None \<Rightarrow> into_response (Domain (not_found_document i)))), w)"
    using authenticated[of w L "\<lparr>hq_headers = hs, hq_route = Api (Inr (Get_document i))\<rparr>" t "Get_document i" lk dn f dian V C]
      assms
    by (auto simp: get_document_def in_domain_def checked_def pg_documents_def io_bind_def io_map_err_def no_store_def
        map_err_def ok_or_def split: option.split)
  have del: "obj_get k (filter (\<lambda>(l, _). l \<noteq> f) m) = (if k = f then None else obj_get k m)" for k f m
    by (induction m) (auto simp: obj_get_def)
  show "obj_get ''software_pin'' (v_payload (document_view_of d)) = None"
    "obj_get ''technical_key'' (v_payload (document_view_of d)) = None"
    "k \<notin> {''software_pin'', ''technical_key''} \<longrightarrow> obj_get k (v_payload (document_view_of d)) = obj_get k (d_payload d)"
    by (simp_all add: document_view_of_def without_secrets_def secret_payload_fields_def del del: filter_filter)
qed

section \<open>Repeated requests\<close>

lemma error_status: "fst (error_parts e) \<noteq> 202"
  by (cases e rule: error_parts.cases) simp_all

lemma posted_invoice:
  assumes "hq_route q = Api (Inr (Create_invoice p))" "hq_headers q ''Idempotency-Key'' = Some (Some k)"
    and "alone w" "pg_constraints (db w)" "presents_key_of (i_sha256 (al_issue L)) (hq_headers q) (db w) t"
  shows "serve L (pg_server lk dn f dian V C) q w =
    (case issue_invoice (al_issue L) (pg_documents dn) (ac_transmit_max_attempts C) t p (Some k) w of
       (Inr outcome, v) \<Rightarrow>
         (Some (no_store (accepted outcome ''Factura encolada correctamente para su firmado y transmision'')), v)
     | (Inl (Failed e), v) \<Rightarrow> (Some (no_store (into_response (Domain e))), v)
     | (Inl Panicked, v) \<Rightarrow> (None, v))"
  using authenticated[OF assms(3-5,1), of lk dn f dian V C] assms(2)
  by (auto simp: create_invoice_def issued_def idempotency_header_def checked_def in_service_def io_bind_def
      io_map_err_def map_err_def split: prod.split sum.split failure.split)

text \<open>
  C22. A request that is repeated. Once an invoice posted under an idempotency key was accepted (202), the same
  request, in any later state in which the key of the tenant is still in force, is accepted with the same
  document and number and the header \<open>Idempotent-Replayed: true\<close>, and the database stays as it was.
\<close>

theorem repeated_post_replays:
  assumes q: "hq_route q = Api (Inr (Create_invoice p))" "hq_headers q ''Idempotency-Key'' = Some (Some k)"
    and w: "alone w" "pg_constraints (db w)" "presents_key_of (i_sha256 (al_issue L)) (hq_headers q) (db w) t"
    and post: "serve L (pg_server lk dn f dian V C) q w = (Some r, w1)" "hr_status r = 202"
      "(''idempotent-replayed'', ''true'') \<notin> set (hr_headers r)"
    and v: "alone v" "pg_constraints (db v)" "presents_key_of (i_sha256 (al_issue L)) (hq_headers q) (db v) t"
      "set (idempotency (db w1)) \<subseteq> set (idempotency (db v))"
  shows "serve L (pg_server lk' dn' f' dian' V' C') q v =
    (Some (r\<lparr>hr_headers := hr_headers r @ [(''idempotent-replayed'', ''true'')]\<rparr>), v\<lparr>next_uuid := next_uuid v + 2\<rparr>)"
proof -
  let ?issue = "issue_invoice (al_issue L) (pg_documents dn) (ac_transmit_max_attempts C) t p (Some k)"
  obtain x u where run: "?issue w = (x, u)" by force
  note answers = no_store_def insert_header_def into_response_def json_response_def accepted_def Let_def
  have "\<exists>iss. x = Inr (Created iss)"
    using post run error_status unfolding posted_invoice[OF q w]
    by (auto simp: answers fst_def split: sum.splits failure.splits prod.splits issue_outcome.splits)
      (metis error_status fst_conv)+
  then obtain iss where x: "x = Inr (Created iss)" by blast
  with post(1) run have r: "r = no_store (accepted (Created iss) ''Factura encolada correctamente para su firmado y transmision'')"
    and u: "u = w1" unfolding posted_invoice[OF q w] by auto
  from run have ok: "validate_invoice (i_decimals (al_issue L)) p = Inr () \<and> iv_company_nit p = t_tax_id t"
    unfolding issue_invoice_def by (cases rule: guarded_cases) (auto simp: x)
  have "issue_invoice (al_issue L) (pg_documents dn') (ac_transmit_max_attempts C') t p (Some k) v =
      (Inr (Replayed iss), v\<lparr>next_uuid := next_uuid v + 2\<rparr>)"
    using one_invoice_per_key[OF w(1) run[unfolded x u] v(1,2,4) conjunct1[OF ok] conjunct2[OF ok] refl] by simp
  then show ?thesis
    unfolding posted_invoice[OF q v(1-3)] by (simp add: r answers)
qed

section \<open>Examples\<close>

definition ex_api_libs :: "exact api_libs" where
  "ex_api_libs = \<lparr>al_issue = ex_issue_libs, al_ubl = ex_ubl, al_local_time = (\<lambda>_. ([], [])), al_xml = ex_reader,
     al_zip = (\<lambda>_. Inl []), al_base64 = Inr, al_url = (\<lambda>_. Inl []), al_rfc3339 = (\<lambda>_. []), al_serde_time = (\<lambda>_. []),
     al_unmatched = status_only 404\<rparr>"

definition ex_api_config :: api_config where
  "ex_api_config = \<lparr>ac_dian_hab_url = None, ac_dian_prod_url = None, ac_inbound_allow_unverified_signatures = False,
     ac_transmit_max_attempts = 5, ac_inbound_trusted_ca_pem = None, ac_inbound_intermediates_pem = None,
     ac_inbound_dian_signer_subject = [], ac_webhook_policy = \<lparr>dp_allow_http = False, dp_allow_private_networks = False\<rparr>,
     ac_admin_token_sha256 = Some ''6b''\<rparr>"

definition ex_server :: "pg app_state" where
  "ex_server = pg_server (\<lambda>_ _ _. False) (\<lambda>_. []) (\<lambda>_ _ x. Inr x) (ex_dian (Inl db_unavailable)) None ex_api_config"

definition ex_headers :: http_headers where
  "ex_headers = [''Authorization'' \<mapsto> Some ''Bearer k'', ''Idempotency-Key'' \<mapsto> Some ''k'']"

definition ex_keys :: "api_key_record list" where
  "ex_keys = [\<lparr>k_id = 90, k_tenant_id = 1, k_name = ''n'', k_prefix = ''k'', k_key_hash = ''6b'', k_created_at = 0,
     k_revoked_at = None\<rparr>]"

text \<open>Two tenants, each with a webhook.\<close>

definition ex_shared :: "pg world" where
  "ex_shared = ex_world (ex_db [ex_document_row] [])
     \<lparr>db := (ex_db [ex_document_row] [])
        \<lparr>tenants := [ex_tenant_row, ex_tenant_row\<lparr>t_id := 2, t_tax_id := ''901''\<rparr>], api_keys := ex_keys,
         webhooks := [ex_hook 30 ''*'', (ex_hook 31 ''*'')\<lparr>w_tenant_id := 2\<rparr>]\<rparr>\<rparr>"

lemma ex_key_hash: "key_hash (i_sha256 (al_issue ex_api_libs)) (trim ''k'') = ''6b''"
proof -
  have "trim ''k'' = ''k''" by code_simp
  moreover have "hex_digits 2 n = [hex_char (n div 16 mod 16), hex_char (n mod 16)]" for n
    by (simp add: numeral_2_eq_2)
  moreover have "hex_char 6 = CHR ''6''" "hex_char 11 = CHR ''b''"
    by (simp_all add: hex_char_def char_of_def bit_iff_odd)
  ultimately show ?thesis
    by (simp add: key_hash_def ex_api_libs_def ex_issue_libs_def byte_def)
qed

lemma ex_presents:
  assumes "api_keys s = ex_keys" "ex_tenant_row \<in> set (tenants s)"
  shows "presents_key_of (i_sha256 (al_issue ex_api_libs)) ex_headers s ex_tenant_row"
proof -
  have "t_id ex_tenant_row = 1" by (simp add: ex_tenant_row_def tenant_row_def ex_tenant_def)
  with assms ex_key_hash show ?thesis
    by (auto simp: presents_key_of_def header_str_def ex_headers_def ex_keys_def)
qed

lemma ex_shared_simps:
  "alone ex_shared" "peers ex_shared = []" "pg_constraints (db ex_shared)"
  "presents_key_of (i_sha256 (al_issue ex_api_libs)) ex_headers (db ex_shared) ex_tenant_row"
proof -
  show "pg_constraints (db ex_shared)" by code_simp
  show "alone ex_shared" "peers ex_shared = []"
    by (simp_all add: alone_def ex_shared_def ex_world_def ex_start_def)
  show "presents_key_of (i_sha256 (al_issue ex_api_libs)) ex_headers (db ex_shared) ex_tenant_row"
    by (rule ex_presents) (simp_all add: ex_shared_def ex_db_def)
qed

theorem tenant_isolation_witness:
  "\<exists>r v. serve ex_api_libs ex_server \<lparr>hq_headers = ex_headers, hq_route = Api (Inr (Delete_webhook 30))\<rparr> ex_shared = (Some r, v) \<and>
     hr_status r = 204 \<and> map w_id (webhooks (db v)) = [31] \<and> others 1 (db v) = others 1 (db ex_shared)"
proof -
  let ?q = "\<lparr>hq_headers = ex_headers, hq_route = Api (Inr (Delete_webhook 30))\<rparr>"
  have t: "t_id ex_tenant_row = 1" by (simp add: ex_tenant_row_def tenant_row_def ex_tenant_def)
  have hooks: "webhooks (db ex_shared) = [ex_hook 30 ''*'', (ex_hook 31 ''*'')\<lparr>w_tenant_id := 2\<rparr>]"
    by (simp add: ex_shared_def)
  obtain s where s: "delete_webhook_tx 1 30 (clock ex_shared) (db ex_shared) = Inr (True, s)" "map w_id (webhooks s) = [31]"
    by (simp add: delete_webhook_tx_def Let_def hooks ex_hook_def delete_rows_def)
  define v where "v = ex_shared\<lparr>db := s\<rparr>"
  have "api_handler ex_api_libs ex_server ex_tenant_row ex_headers (Delete_webhook 30) ex_shared = (Inr (status_only 204), v)"
    by (simp add: ex_server_def delete_webhook_of_def remove_webhook_def found_or_def pg_webhooks_def pg_delete_webhook_def
        tx_alone[OF ex_shared_simps(1)] s t io_bind_def in_domain_def io_map_err_def v_def map_err_def del: One_nat_def)
  then have run: "serve ex_api_libs ex_server ?q ex_shared = (Some (no_store (status_only 204)), v)"
    using authenticated[of ex_shared ex_api_libs ?q ex_tenant_row "Delete_webhook 30"] ex_shared_simps
    by (simp add: ex_server_def)
  have v: "map w_id (webhooks (db v)) = [31]" by (simp add: v_def s)
  have "t_id t = 1" if "presents_key_of (i_sha256 (al_issue ex_api_libs)) ex_headers (db ex_shared) t" for t
    using that by (auto simp: presents_key_of_def ex_shared_def ex_keys_def)
  with tenant_isolation[OF ex_shared_simps(2,3) _ run[unfolded ex_server_def], of "Inr (Delete_webhook 30)"]
  have "others 1 (db v) = others 1 (db ex_shared)"
    by (auto simp: no_store_def insert_header_def status_only_def)
  with run v show ?thesis by (auto simp: no_store_def insert_header_def status_only_def)
qed

theorem admin_needs_the_token_witness:
  "\<exists>v token. serve ex_api_libs ex_server \<lparr>hq_headers = ex_headers, hq_route = Admin (Inr (Get_tenant 2))\<rparr> ex_shared =
       (Some (no_store (json_response 200 (tenant_view (\<lambda>_. []) (ex_tenant_row\<lparr>t_id := 2, t_tax_id := ''901''\<rparr>)))), v) \<and>
     key_hash (i_sha256 (al_issue ex_api_libs)) (trim token) = ''6b''"
proof -
  let ?q = "\<lparr>hq_headers = ex_headers, hq_route = Admin (Inr (Get_tenant 2))\<rparr>"
  have "admin_auth (i_sha256 (al_issue ex_api_libs)) (Some ''6b'') ex_headers = Inr ()"
    using ex_key_hash
    by (simp add: admin_auth_def header_str_def ex_headers_def strip_prefix_def starts_with_def constant_time_eq_is_equality)
  moreover have "t_id ex_tenant_row = 1" by (simp add: ex_tenant_row_def tenant_row_def ex_tenant_def)
  ultimately have run: "\<exists>v. serve ex_api_libs ex_server ?q ex_shared =
      (Some (no_store (json_response 200 (tenant_view (\<lambda>_. []) (ex_tenant_row\<lparr>t_id := 2, t_tax_id := ''901''\<rparr>)))), v)"
    using ex_shared_simps(1)
    by (simp add: serve_def ex_server_def ex_api_config_def checked_def io_bind_def extracted_def in_domain_def io_map_err_def
        admin_get_tenant_def admin_tenant_def pg_admin_def pg_find_tenant_def query_alone map_err_def)
      (simp add: ex_shared_def ex_api_libs_def)
  then obtain v where run: "serve ex_api_libs ex_server ?q ex_shared =
      (Some (no_store (json_response 200 (tenant_view (\<lambda>_. []) (ex_tenant_row\<lparr>t_id := 2, t_tax_id := ''901''\<rparr>)))), v)" by blast
  from admin_needs_the_token[OF _ run, of "Inr (Get_tenant 2)"] have
    "\<exists>token. key_hash (i_sha256 (al_issue ex_api_libs)) (trim token) = ''6b''"
    by (auto simp: no_store_def insert_header_def json_response_def ex_server_def ex_api_config_def)
  with run show ?thesis by blast
qed

theorem only_own_documents_are_shown_witness:
  "serve ex_api_libs ex_server \<lparr>hq_headers = ex_headers, hq_route = Api (Inr (Get_document 10))\<rparr> ex_shared =
     (Some (no_store (json_response 200 (document_view_json (\<lambda>_. []) (document_view_of ex_document_row)))), ex_shared)"
proof -
  have d: "d_id ex_document_row = 10" "d_tenant_id ex_document_row = 1" "t_id ex_tenant_row = 1"
    "documents (db ex_shared) = [ex_document_row]"
    by (simp_all add: ex_document_row_def outbound_row_def ex_document_def ex_tenant_row_def tenant_row_def ex_tenant_def
        ex_shared_def ex_db_def)
  from only_own_documents_are_shown[OF ex_shared_simps(1,3,4)] show ?thesis
    by (simp add: ex_server_def no_store_def d) (simp add: ex_api_libs_def)
qed

theorem repeated_post_replays_witness:
  "\<exists>w r. fst (serve ex_api_libs ex_server \<lparr>hq_headers = ex_headers, hq_route = Api (Inr (Create_invoice ex_request))\<rparr> w) = Some r \<and>
     hr_status r = 202 \<and> (''idempotent-replayed'', ''true'') \<in> set (hr_headers r)"
proof -
  let ?q = "\<lparr>hq_headers = ex_headers, hq_route = Api (Inr (Create_invoice ex_request))\<rparr>"
  have q: "hq_route ?q = Api (Inr (Create_invoice ex_request))" "hq_headers ?q ''Idempotency-Key'' = Some (Some ''k'')"
    by (simp_all add: ex_headers_def)
  have w: "alone (ex_keyed ex_keys)" "pg_constraints (db (ex_keyed ex_keys))"
    "presents_key_of (i_sha256 (al_issue ex_api_libs)) (hq_headers ?q) (db (ex_keyed ex_keys)) ex_tenant_row"
  proof -
    show "pg_constraints (db (ex_keyed ex_keys))" by code_simp
    show "alone (ex_keyed ex_keys)"
      by (simp add: alone_def ex_keyed_def ex_issuing_def ex_world_def ex_start_def)
    show "presents_key_of (i_sha256 (al_issue ex_api_libs)) (hq_headers ?q) (db (ex_keyed ex_keys)) ex_tenant_row"
      using ex_presents[of "db (ex_keyed ex_keys)"] by (simp add: ex_keyed_def ex_issuing_def ex_world_def ex_db_def)
  qed
  have I: "al_issue ex_api_libs = ex_issue_libs" "ac_transmit_max_attempts ex_api_config = 5"
    by (simp_all add: ex_api_libs_def ex_api_config_def)
  obtain v where run: "issue_invoice ex_issue_libs (pg_documents (\<lambda>_. [])) 5 ex_tenant_row ex_request (Some ''k'')
      (ex_keyed ex_keys) = (Inr (Created \<lparr>is_document_id = 22, is_document_number = 1\<rparr>), v)"
    using ex_issued_keyed by blast
  have post: "serve ex_api_libs ex_server ?q (ex_keyed ex_keys) = (Some (no_store (accepted
      (Created \<lparr>is_document_id = 22, is_document_number = 1\<rparr>)
      ''Factura encolada correctamente para su firmado y transmision'')), v)"
    unfolding ex_server_def posted_invoice[OF q w] by (simp add: I run)
  have "numbering_inv (db (ex_keyed ex_keys))"
    by (simp add: numbering_inv_def gapless_def ex_keyed_def ex_issuing_def ex_world_def ex_db_def range_ok_def ex_range_def
        i32_max_def)
  then have "pg_inv (db v)"
    using issue_invoice_guarantee[OF _ run] w(1,2)
    by (simp add: pg_guarantee_def pg_inv_def peers_in_def alone_def)
  then have ok: "pg_constraints (db v)" by (simp add: pg_inv_def)
  have "separate (t_id ex_tenant_row) 0 (db (ex_keyed ex_keys))"
    by (simp add: separate_def their_documents_def ex_keyed_def ex_issuing_def ex_world_def ex_db_def pg_empty_def)
  then have "others (t_id ex_tenant_row) (db v) = others (t_id ex_tenant_row) (db (ex_keyed ex_keys))"
    using withinD(1)[OF issuing_isolated(1) _ run, of 0] w(1) by (simp add: isolated_def alone_def)
  then have "tenants (db v) = tenants (db (ex_keyed ex_keys))" "api_keys (db v) = ex_keys"
    by (auto simp: others_def ex_keyed_def dest: arg_cong[where f = tenants] arg_cong[where f = api_keys])
  then have key: "presents_key_of (i_sha256 (al_issue ex_api_libs)) (hq_headers ?q) (db (ex_keyed ex_keys\<lparr>db := db v\<rparr>)) ex_tenant_row"
    using ex_presents[of "db v"] by (simp add: ex_keyed_def ex_issuing_def ex_world_def ex_db_def)
  from repeated_post_replays[OF q w post[unfolded ex_server_def], of "ex_keyed ex_keys\<lparr>db := db v\<rparr>"] w(1) ok key
  show ?thesis
    by (intro exI[of _ "ex_keyed ex_keys\<lparr>db := db v\<rparr>"])
      (simp add: ex_server_def alone_def accepted_def no_store_def insert_header_def json_response_def)
qed

end
