(* ===== verification/Xml_Tokens.thy ===== *)
theory Xml_Tokens
  imports Xml_Reading Ports
begin

text \<open>
  What the modules of \<open>crypto-signer\<close> share: the errors of \<open>error.rs\<close>, the string operations of the
  standard library they use, \<open>BTreeMap\<close> as a list ordered by key, and the tokens of an XML text.

  The tokenizer (\<open>quick_xml::Reader\<close>) is a parameter. It gives the tokens of a text, each with the
  position of the byte after it (\<open>buffer_position\<close>), and the error at which the reading stops, if it
  does. A start tag carries its attributes as the iterator \<open>attributes()\<close> yields them: an error, or a key
  with its normalized value, which may itself be an error.
\<close>

section \<open>error.rs\<close>

datatype crypto_error =
    C14n_error string
  | Vault_error string
  | Provider_error string
  | Signing_error string
  | Xml_error string
  | Serde_error string

fun crypto_error_display :: "crypto_error \<Rightarrow> string" where
  "crypto_error_display (C14n_error m) = ''Canonicalization failed: '' @ m"
| "crypto_error_display (Vault_error m) = ''Vault error: '' @ m"
| "crypto_error_display (Provider_error m) = ''Provider error: '' @ m"
| "crypto_error_display (Signing_error m) = ''Signing failed: '' @ m"
| "crypto_error_display (Xml_error m) = ''XML parsing/formatting error: '' @ m"
| "crypto_error_display (Serde_error m) = ''Serialization/Deserialization failed: '' @ m"

fun domain_of_crypto :: "crypto_error \<Rightarrow> domain_error" where
  "domain_of_crypto (C14n_error m) = Crypto (''C14n: '' @ m)"
| "domain_of_crypto (Vault_error m) = Crypto (''Vault: '' @ m)"
| "domain_of_crypto (Provider_error m) = Crypto (''Provider: '' @ m)"
| "domain_of_crypto (Signing_error m) = Crypto (''Signing: '' @ m)"
| "domain_of_crypto (Xml_error m) = Crypto (''Xml: '' @ m)"
| "domain_of_crypto (Serde_error m) = Internal (''Serde: '' @ m)"

section \<open>Strings\<close>

text \<open>\<open>str::replace\<close> (the patterns of the program are not empty), \<open>str::split_once\<close>, \<open>trim_start\<close>.\<close>

function replace_str :: "string \<Rightarrow> string \<Rightarrow> string \<Rightarrow> string" where
  "replace_str p r [] = []"
| "replace_str p r (c # cs) =
     (if p \<noteq> [] \<and> starts_with p (c # cs) then r @ replace_str p r (drop (length p) (c # cs))
      else c # replace_str p r cs)"
  by pat_completeness auto
termination
  by (relation "measure (\<lambda>(p, r, s). length s)") auto

fun split_once :: "char \<Rightarrow> string \<Rightarrow> (string \<times> string) option" where
  "split_once x [] = None"
| "split_once x (c # cs) = (if c = x then Some ([], cs) else map_option (map_prod ((#) c) id) (split_once x cs))"

definition trim_start :: "string \<Rightarrow> string" where
  "trim_start s = concat (dropWhile is_whitespace (utf8_chars s))"

text \<open>\<open>str::matches(p).count()\<close>, which counts without overlaps.\<close>

function count_matches :: "string \<Rightarrow> string \<Rightarrow> nat" where
  "count_matches p [] = 0"
| "count_matches p (c # cs) =
     (if p \<noteq> [] \<and> starts_with p (c # cs) then Suc (count_matches p (drop (length p) (c # cs)))
      else count_matches p cs)"
  by pat_completeness auto
termination
  by (relation "measure (\<lambda>(p, s). length s)") auto

lemma split_once_None_iff: "split_once x s = None \<longleftrightarrow> x \<notin> set s"
  by (induction s) auto

lemma split_once_SomeD: "split_once x s = Some (a, b) \<Longrightarrow> s = a @ x # b \<and> x \<notin> set a"
  by (induction s arbitrary: a) (auto split: if_splits)

lemma starts_with_append: "starts_with p (p @ s)"
  by (simp add: starts_with_def)

lemma starts_with_iff: "starts_with p s \<longleftrightarrow> (\<exists>t. s = p @ t)"
  by (metis append_eq_conv_conj append_take_drop_id starts_with_def)

lemma strip_prefix_append [simp]: "strip_prefix p (p @ s) = Some s"
  by (simp add: strip_prefix_def starts_with_def)

section \<open>BTreeMap\<close>

text \<open>
  Entries in the order of their keys. Insertion keeps the order, so equal maps are equal lists, and
  iteration is the list.
\<close>

fun btree_insert :: "'k::linorder \<Rightarrow> 'v \<Rightarrow> ('k \<times> 'v) list \<Rightarrow> ('k \<times> 'v) list" where
  "btree_insert k v [] = [(k, v)]"
| "btree_insert k v ((l, u) # m) =
     (if k < l then (k, v) # (l, u) # m
      else if k = l then (k, v) # m
      else (l, u) # btree_insert k v m)"

abbreviation btree_wf :: "('k::linorder \<times> 'v) list \<Rightarrow> bool" where
  "btree_wf m \<equiv> sorted_wrt (<) (map fst m)"

lemma map_of_btree_insert [simp]: "map_of (btree_insert k v m) = (map_of m)(k \<mapsto> v)"
  by (induction k v m rule: btree_insert.induct) (auto simp: fun_eq_iff)

lemma keys_btree_insert [simp]: "fst ` set (btree_insert k v m) = insert k (fst ` set m)"
  by (induction k v m rule: btree_insert.induct) auto

lemma btree_wf_insert: "btree_wf m \<Longrightarrow> btree_wf (btree_insert k v m)"
proof (induction k v m rule: btree_insert.induct)
  case (2 k v l u m)
  then have "y \<in> fst ` set (btree_insert k v m) \<Longrightarrow> l < y" if "\<not> k < l" "k \<noteq> l" for y
    using that by (auto simp del: keys_btree_insert simp: keys_btree_insert[of k v m])
  with 2 show ?case by auto
qed simp

lemma btree_insert_commute:
  "k \<noteq> l \<Longrightarrow> btree_insert k v (btree_insert l u m) = btree_insert l u (btree_insert k v m)"
  by (induction m) auto

section \<open>Tokens\<close>

type_synonym attribute = "string + string \<times> (string + string)"

record start_tag =
  tag_name :: string
  tag_attributes :: "attribute list"

datatype token =
    Tk_start start_tag
  | Tk_empty start_tag
  | Tk_end string
  | Tk_text string
  | Tk_cdata string
  | Tk_ref string
  | Tk_pi string
  | Tk_doctype
  | Tk_other

type_synonym tokenizer = "string \<Rightarrow> (token \<times> nat) list \<times> string option"

end
