(* ===== verification/C14n.thy ===== *)
theory C14n
  imports Xml_Tokens "HOL-Library.Product_Lexorder"
begin

text \<open>
  \<open>crypto-signer/src/c14n.rs\<close>: Canonical XML 1.0 without comments, inclusive and exclusive. The
  canonicalizer is the record of the struct; \<open>Vec\<close>s have their last element last, as \<open>push\<close> and \<open>pop\<close>
  need it. Text is bytes of UTF-8; the characters the code escapes are ASCII.
\<close>

section \<open>Text\<close>

definition xml_namespace :: string where
  "xml_namespace = ''http://www.w3.org/XML/1998/namespace''"

definition normalize_eol :: "string \<Rightarrow> string" where
  "normalize_eol t = replace_str [CHR 0x0D] [CHR 0x0A] (replace_str [CHR 0x0D, CHR 0x0A] [CHR 0x0A] t)"

definition text_char :: "char \<Rightarrow> string" where
  "text_char c =
     (if c = CHR ''&'' then ''&amp;''
      else if c = CHR ''<'' then ''&lt;''
      else if c = CHR ''>'' then ''&gt;''
      else if c = CHR 0x0D then ''&#xD;''
      else [c])"

definition escape_text :: "string \<Rightarrow> string" where
  "escape_text s = concat (map text_char s)"

definition attribute_char :: "char \<Rightarrow> string" where
  "attribute_char c =
     (if c = CHR ''&'' then ''&amp;''
      else if c = CHR ''<'' then ''&lt;''
      else if c = CHR 0x22 then ''&quot;''
      else if c = CHR 0x09 then ''&#x9;''
      else if c = CHR 0x0A then ''&#xA;''
      else if c = CHR 0x0D then ''&#xD;''
      else [c])"

definition escape_attribute :: "string \<Rightarrow> string" where
  "escape_attribute s = concat (map attribute_char s)"

definition resolve_entity :: "string \<Rightarrow> crypto_error + string" where
  "resolve_entity name = ok_or (C14n_error (''Unsupported entity reference &'' @ name @ '';''))
     (if name = ''amp'' then Some ''&''
      else if name = ''lt'' then Some ''<''
      else if name = ''gt'' then Some ''>''
      else if name = ''quot'' then Some [CHR 0x22]
      else if name = ''apos'' then Some [CHR 0x27]
      else case strip_prefix ''#x'' name of
             Some hex \<Rightarrow> Option.bind (u32_from_str_radix 16 hex) char_from_u32
           | None \<Rightarrow>
               (case strip_prefix ''#'' name of
                  Some dec \<Rightarrow> Option.bind (u32_from_str_radix 10 dec) char_from_u32
                | None \<Rightarrow> None))"

section \<open>The canonicalizer\<close>

type_synonym scope = "(string \<times> string) list"

record canonicalizer =
  c_out :: string
  c_scopes :: "scope list"
  c_rendered :: "scope list"
  c_exclusive :: "string list option"
  c_depth :: "64 word"
  c_seen_root :: bool

definition top_scope :: "scope list \<Rightarrow> scope" where
  "top_scope ss = (if ss = [] then [] else last ss)"

text \<open>The URI a scope gives to a prefix; a missing default is the empty URI.\<close>

definition uri_in :: "scope \<Rightarrow> string \<Rightarrow> string" where
  "uri_in scope p = (case map_of scope p of None \<Rightarrow> [] | Some uri \<Rightarrow> uri)"

definition undeclared :: "string \<Rightarrow> crypto_error" where
  "undeclared p = C14n_error (''Undeclared prefix '' @ [CHR 0x27] @ p @ [CHR 0x27])"

text \<open>First loop: declarations go to the scope, the other attributes are kept with their values.\<close>

fun read_attributes ::
  "scope \<Rightarrow> (string \<times> string) list \<Rightarrow> attribute list \<Rightarrow> crypto_error + scope \<times> (string \<times> string) list" where
  "read_attributes scope raw [] = Inr (scope, raw)"
| "read_attributes scope raw (Inl e # as) = Inl (C14n_error e)"
| "read_attributes scope raw (Inr (key, Inl e) # as) = Inl (C14n_error e)"
| "read_attributes scope raw (Inr (key, Inr v) # as) =
     (if key = ''xmlns'' then read_attributes (btree_insert [] v scope) raw as
      else case strip_prefix ''xmlns:'' key of
        Some p \<Rightarrow>
          if v = [] then Inl (C14n_error ''Namespace undeclaration (XML 1.1) is not supported'')
          else read_attributes (btree_insert p v scope) raw as
      | None \<Rightarrow> read_attributes scope (raw @ [(key, v)]) as)"

text \<open>Second loop: every attribute with its namespace and its local name.\<close>

type_synonym q_attribute = "string \<times> string \<times> string \<times> string"

definition qualify :: "scope \<Rightarrow> string \<times> string \<Rightarrow> crypto_error + q_attribute" where
  "qualify scope = (\<lambda>(qname, v).
     case split_once CHR '':'' qname of
       Some (p, l) \<Rightarrow>
         if p = ''xml'' then Inr (xml_namespace, l, qname, v)
         else bind_ok (ok_or (undeclared p) (map_of scope p)) (\<lambda>ns. Inr (ns, l, qname, v))
     | None \<Rightarrow> Inr ([], qname, qname, v))"

fun qualify_all :: "scope \<Rightarrow> (string \<times> string) list \<Rightarrow> crypto_error + q_attribute list" where
  "qualify_all scope [] = Inr []"
| "qualify_all scope (a # as) =
     bind_ok (qualify scope a) (\<lambda>q. bind_ok (qualify_all scope as) (\<lambda>qs. Inr (q # qs)))"

definition expanded_name :: "q_attribute \<Rightarrow> string \<times> string" where
  "expanded_name = (\<lambda>(ns, l, qname, v). (ns, l))"

text \<open>The prefixes an element and its attributes use visibly, and the candidates for declaration.\<close>

definition attribute_prefixes :: "q_attribute list \<Rightarrow> string list" where
  "attribute_prefixes as =
     concat (map (\<lambda>(ns, l, qname, v).
       case split_once CHR '':'' qname of
         Some (p, _) \<Rightarrow> if p \<noteq> ''xml'' then [p] else []
       | None \<Rightarrow> []) as)"

definition element_prefix :: "string \<Rightarrow> string" where
  "element_prefix name = (case split_once CHR '':'' name of Some (p, _) \<Rightarrow> p | None \<Rightarrow> [])"

definition candidates :: "string list option \<Rightarrow> string \<Rightarrow> scope \<Rightarrow> q_attribute list \<Rightarrow> string list" where
  "candidates exclusive name scope as =
     (case exclusive of
        None \<Rightarrow> map fst scope
      | Some prefixes \<Rightarrow>
          sort (remdups (element_prefix name # attribute_prefixes as @
            filter (\<lambda>p. map_of scope p \<noteq> None) prefixes)))"

definition namespace_decl :: "string \<Rightarrow> string \<Rightarrow> string" where
  "namespace_decl p uri =
     (if p = [] then '' xmlns='' @ [CHR 0x22] else '' xmlns:'' @ p @ ''='' @ [CHR 0x22]) @
     escape_attribute uri @ [CHR 0x22]"

text \<open>Third loop: what differs from the declarations of the ancestors is rendered.\<close>

fun render_declarations :: "scope \<Rightarrow> scope \<Rightarrow> string list \<Rightarrow> scope \<Rightarrow> string \<times> scope" where
  "render_declarations scope outer [] now = ([], now)"
| "render_declarations scope outer (p # ps) now =
     (if uri_in scope p = uri_in outer p then render_declarations scope outer ps now
      else case render_declarations scope outer ps (btree_insert p (uri_in scope p) now) of
        (text, now') \<Rightarrow> (namespace_decl p (uri_in scope p) @ text, now'))"

definition render_attribute :: "q_attribute \<Rightarrow> string" where
  "render_attribute = (\<lambda>(ns, l, qname, v).
     '' '' @ qname @ ''='' @ [CHR 0x22] @ escape_attribute v @ [CHR 0x22])"

definition write_start :: "string \<Rightarrow> scope \<Rightarrow> q_attribute list \<Rightarrow> canonicalizer \<Rightarrow> crypto_error + string \<times> canonicalizer" where
  "write_start name scope as c =
     (let ps = candidates (c_exclusive c) name scope as
      in case find (\<lambda>p. p \<noteq> [] \<and> map_of scope p = None) ps of
           Some p \<Rightarrow> Inl (undeclared p)
         | None \<Rightarrow>
             (case render_declarations scope (top_scope (c_rendered c)) ps (top_scope (c_rendered c)) of
                (text, now) \<Rightarrow>
                  Inr (name,
                       c\<lparr>c_out := c_out c @ ''<'' @ name @ text @ concat (map render_attribute as) @ ''>'',
                         c_scopes := c_scopes c @ [scope], c_rendered := c_rendered c @ [now],
                         c_depth := c_depth c + 1, c_seen_root := True\<rparr>)))"

definition start_element :: "start_tag \<Rightarrow> canonicalizer \<Rightarrow> crypto_error + string \<times> canonicalizer" where
  "start_element t c =
     bind_ok (read_attributes (top_scope (c_scopes c)) [] (tag_attributes t)) (\<lambda>(scope, raw).
     bind_ok (qualify_all scope raw) (\<lambda>qs.
     write_start (tag_name t) scope (sort_key expanded_name qs) c))"

definition end_element :: "string \<Rightarrow> canonicalizer \<Rightarrow> canonicalizer" where
  "end_element name c =
     c\<lparr>c_out := c_out c @ ''</'' @ name @ ''>'', c_scopes := butlast (c_scopes c),
       c_rendered := butlast (c_rendered c), c_depth := c_depth c - 1\<rparr>"

definition push_out :: "string \<Rightarrow> canonicalizer \<Rightarrow> canonicalizer" where
  "push_out s c = c\<lparr>c_out := c_out c @ s\<rparr>"

text \<open>A processing instruction: a line of its own outside the root element.\<close>

definition split_pi :: "string \<Rightarrow> string \<times> string" where
  "split_pi raw =
     (case find_in_chars is_whitespace (utf8_chars raw) of
        Some i \<Rightarrow> (take i raw, trim_start (drop i raw))
      | None \<Rightarrow> (raw, []))"

definition pi_text :: "string \<Rightarrow> canonicalizer \<Rightarrow> string" where
  "pi_text raw c =
     (case split_pi raw of (target, data) \<Rightarrow>
        (if c_depth c = 0 \<and> c_seen_root c then [CHR 0x0A] else []) @ ''<?'' @ target @
        (if data = [] then [] else '' '' @ normalize_eol data) @ ''?>'' @
        (if c_depth c = 0 \<and> \<not> c_seen_root c then [CHR 0x0A] else []))"

section \<open>The loop\<close>

fun canonical_step :: "token \<Rightarrow> canonicalizer \<Rightarrow> crypto_error + canonicalizer" where
  "canonical_step (Tk_start t) c = bind_ok (start_element t c) (\<lambda>(name, c'). Inr c')"
| "canonical_step (Tk_empty t) c = bind_ok (start_element t c) (\<lambda>(name, c'). Inr (end_element name c'))"
| "canonical_step (Tk_end name) c = Inr (end_element name c)"
| "canonical_step (Tk_text raw) c =
     Inr (if c_depth c > 0 then push_out (escape_text (normalize_eol raw)) c else c)"
| "canonical_step (Tk_cdata raw) c =
     Inr (if c_depth c > 0 then push_out (escape_text (normalize_eol raw)) c else c)"
| "canonical_step (Tk_ref name) c =
     (if c_depth c > 0 then bind_ok (resolve_entity name) (\<lambda>ch. Inr (push_out (escape_text ch) c)) else Inr c)"
| "canonical_step (Tk_pi raw) c = Inr (push_out (pi_text raw c) c)"
| "canonical_step Tk_doctype c = Inl (C14n_error ''DTDs are not allowed'')"
| "canonical_step Tk_other c = Inr c"

fun canonical_run :: "token list \<Rightarrow> canonicalizer \<Rightarrow> crypto_error + canonicalizer" where
  "canonical_run [] c = Inr c"
| "canonical_run (t # ts) c = bind_ok (canonical_step t c) (canonical_run ts)"

definition canonicalizer_new :: "string list option \<Rightarrow> canonicalizer" where
  "canonicalizer_new exclusive =
     \<lparr>c_out = [], c_scopes = [], c_rendered = [], c_exclusive = exclusive, c_depth = 0, c_seen_root = False\<rparr>"

definition canonicalize :: "tokenizer \<Rightarrow> string \<Rightarrow> string list option \<Rightarrow> crypto_error + string" where
  "canonicalize tokens xml exclusive =
     (case tokens xml of (ts, stop) \<Rightarrow>
        bind_ok (canonical_run (map fst ts) (canonicalizer_new exclusive)) (\<lambda>c.
          case stop of
            Some e \<Rightarrow> Inl (C14n_error (''Invalid XML: '' @ e))
          | None \<Rightarrow> if c_depth c \<noteq> 0 then Inl (C14n_error ''Unclosed elements'') else Inr (c_out c)))"

definition canonicalize_xml :: "tokenizer \<Rightarrow> string \<Rightarrow> crypto_error + string" where
  "canonicalize_xml tokens xml = canonicalize tokens xml None"

definition canonicalize_xml_exclusive :: "tokenizer \<Rightarrow> string \<Rightarrow> string list \<Rightarrow> crypto_error + string" where
  "canonicalize_xml_exclusive tokens xml prefixes = canonicalize tokens xml (Some prefixes)"

end
