(* ===== verification/C14n_Properties.thy ===== *)
theory C14n_Properties
  imports C14n "HOL-Library.Multiset"
begin

text \<open>
  What the canonicalizer promises. The canonical form does not depend on how a document is written: the
  order of attributes and declarations, empty tags, comments, CDATA sections, character references and the
  cutting of text into tokens do not matter. What it writes can be read back: a start tag gives its name,
  declarations and attributes again. And the names keep their namespaces: the prefixes an element uses are
  bound, by the declarations written so far, to the URIs they have in the document.
\<close>

section \<open>Reading attributes\<close>

definition plain :: "(string \<times> string) list \<Rightarrow> attribute list" where
  "plain kvs = map (\<lambda>(k, v). Inr (k, Inr v)) kvs"

lemma plain_inject [simp]: "plain as = plain bs \<longleftrightarrow> as = bs"
  by (auto simp: plain_def inj_map_eq_map inj_on_def)

definition declared_prefix :: "string \<Rightarrow> string option" where
  "declared_prefix key = (if key = ''xmlns'' then Some [] else strip_prefix ''xmlns:'' key)"

definition declare_in :: "string \<times> string \<Rightarrow> scope \<Rightarrow> scope" where
  "declare_in = (\<lambda>(k, v) s. case declared_prefix k of None \<Rightarrow> s | Some p \<Rightarrow> btree_insert p v s)"

definition undeclares :: "string \<times> string \<Rightarrow> bool" where
  "undeclares = (\<lambda>(k, v). k \<noteq> ''xmlns'' \<and> declared_prefix k \<noteq> None \<and> v = [])"

lemma read_attributes_Inr:
  "read_attributes scope raw as = Inr (scope', raw') \<longleftrightarrow>
     (\<exists>kvs. as = plain kvs \<and> (\<forall>a \<in> set kvs. \<not> undeclares a) \<and>
        scope' = fold declare_in kvs scope \<and>
        raw' = raw @ filter (\<lambda>a. declared_prefix (fst a) = None) kvs)"
proof (induction scope raw as rule: read_attributes.induct)
  case (4 scope raw key v as)
  have split: "(\<exists>kvs. Inr (key, Inr v) # as = plain kvs \<and> P kvs) \<longleftrightarrow>
      (\<exists>kvs. as = plain kvs \<and> P ((key, v) # kvs))" for P
    by (auto simp: plain_def Cons_eq_map_conv)
  show ?case
    unfolding split using 4
    by (auto simp: declared_prefix_def declare_in_def undeclares_def split: option.split)
qed (auto simp: plain_def Cons_eq_map_conv)

lemma qualify_all_Inr:
  "qualify_all scope as = Inr qs \<longleftrightarrow>
     (\<forall>a \<in> set as. \<exists>q. qualify scope a = Inr q) \<and> qs = map (projr \<circ> qualify scope) as"
  by (induction as arbitrary: qs) (auto simp: bind_ok_Inr_iff)

section \<open>The order of attributes\<close>

definition reordered :: "start_tag \<Rightarrow> start_tag \<Rightarrow> bool" where
  "reordered t t' \<longleftrightarrow> tag_name t = tag_name t' \<and>
     (\<exists>kvs kvs'. tag_attributes t = plain kvs \<and> tag_attributes t' = plain kvs' \<and> mset kvs = mset kvs' \<and>
        distinct (map fst kvs) \<and> ''xmlns:'' \<notin> fst ` set kvs)"

definition qualified_of :: "start_tag \<Rightarrow> canonicalizer \<Rightarrow> crypto_error + scope \<times> q_attribute list" where
  "qualified_of t c =
     bind_ok (read_attributes (top_scope (c_scopes c)) [] (tag_attributes t)) (\<lambda>(scope, raw).
     bind_ok (qualify_all scope raw) (\<lambda>qs. Inr (scope, qs)))"

lemma start_element_eq:
  "start_element t c = bind_ok (qualified_of t c)
     (\<lambda>(scope, qs). write_start (tag_name t) scope (sort_key expanded_name qs) c)"
  by (auto simp: start_element_def qualified_of_def bind_ok_def split: sum.split)

text \<open>No two attributes of the tag have the same expanded name, as namespaces in XML require.\<close>

definition names_distinct :: "start_tag \<Rightarrow> canonicalizer \<Rightarrow> bool" where
  "names_distinct t c \<longleftrightarrow>
     (case qualified_of t c of Inl e \<Rightarrow> True | Inr (scope, qs) \<Rightarrow> distinct (map expanded_name qs))"

lemma same_distinct_keys: "mset xs = mset ys \<Longrightarrow> distinct (map f xs) \<Longrightarrow> distinct (map f ys)"
  using mset_eq_imp_distinct_iff[of "map f xs" "map f ys"] by simp

lemma reordered_sym:
  assumes "reordered t t'"
  shows "reordered t' t"
proof -
  obtain kvs kvs' where kvs: "tag_attributes t = plain kvs" "tag_attributes t' = plain kvs'"
    and same: "mset kvs = mset kvs'" and "distinct (map fst kvs)" "''xmlns:'' \<notin> fst ` set kvs"
    and name: "tag_name t = tag_name t'"
    using assms unfolding reordered_def by blast
  then have "distinct (map fst kvs')" "''xmlns:'' \<notin> fst ` set kvs'"
    using same_distinct_keys[OF same] mset_eq_setD[OF same] by simp_all
  with kvs same[symmetric] name[symmetric] show ?thesis unfolding reordered_def by blast
qed

lemma declared_prefix_inject:
  assumes "declared_prefix k = Some p" "declared_prefix l = Some p" "k \<noteq> ''xmlns:''" "l \<noteq> ''xmlns:''"
  shows "k = l"
  using assms
  by (auto simp: declared_prefix_def strip_prefix_def starts_with_iff split: if_splits)

lemma declarations_commute:
  assumes "mset kvs = mset kvs'" "distinct (map fst kvs)" "''xmlns:'' \<notin> fst ` set kvs"
  shows "fold declare_in kvs scope = fold declare_in kvs' scope"
proof -
  have "declare_in x \<circ> declare_in y = declare_in y \<circ> declare_in x" if xy: "x \<in> set kvs" "y \<in> set kvs" for x y
  proof (cases "x = y")
    case False
    with xy assms(2) have "fst x \<noteq> fst y" by (auto simp: distinct_map dest: inj_onD)
    moreover have "fst x \<noteq> ''xmlns:''" "fst y \<noteq> ''xmlns:''" using xy assms(3) by force+
    ultimately have other: "p \<noteq> q" if "declared_prefix (fst x) = Some p" "declared_prefix (fst y) = Some q" for p q
      using that declared_prefix_inject by blast
    show ?thesis
    proof (cases "declared_prefix (fst x) = None \<or> declared_prefix (fst y) = None")
      case True
      then show ?thesis by (cases x; cases y) (auto simp: declare_in_def fun_eq_iff split: option.split)
    next
      case False
      then obtain p q where pq: "declared_prefix (fst x) = Some p" "declared_prefix (fst y) = Some q" by auto
      then have "p \<noteq> q" by (rule other)
      with pq show ?thesis
        by (cases x; cases y) (auto simp: declare_in_def fun_eq_iff intro!: btree_insert_commute)
    qed
  qed simp
  then have "fold declare_in kvs = fold declare_in kvs'" by (rule fold_multiset_equiv) (use assms(1) in simp_all)
  then show ?thesis by simp
qed

lemma qualified_reordered:
  assumes t: "reordered t t'" and run: "qualified_of t c = Inr (scope, qs)"
  shows "\<exists>qs'. qualified_of t' c = Inr (scope, qs') \<and> mset qs' = mset qs"
proof -
  obtain kvs kvs' where kvs: "tag_attributes t = plain kvs" "tag_attributes t' = plain kvs'"
    "mset kvs = mset kvs'" "distinct (map fst kvs)" "''xmlns:'' \<notin> fst ` set kvs"
    using t unfolding reordered_def by auto
  let ?raw = "filter (\<lambda>a. declared_prefix (fst a) = None)"
  have read: "read_attributes (top_scope (c_scopes c)) [] (tag_attributes t) = Inr (scope, ?raw kvs)"
    and qs: "qualify_all scope (?raw kvs) = Inr qs"
    using run kvs(1) by (auto simp: qualified_of_def bind_ok_Inr_iff read_attributes_Inr)
  have read': "read_attributes (top_scope (c_scopes c)) [] (tag_attributes t') = Inr (scope, ?raw kvs')"
    using read kvs declarations_commute[OF kvs(3-5)] mset_eq_setD[OF kvs(3)]
    by (auto simp: read_attributes_Inr)
  define qs' where "qs' = map (projr \<circ> qualify scope) (?raw kvs')"
  have "qualify_all scope (?raw kvs') = Inr qs'" "mset qs' = mset qs"
    using qs mset_eq_setD[OF kvs(3)] kvs(3) unfolding qs'_def qualify_all_Inr by auto
  with read' show ?thesis by (simp add: qualified_of_def)
qed

lemma names_distinct_reordered:
  assumes "reordered t t'"
  shows "names_distinct t c = names_distinct t' c"
proof -
  have "names_distinct u' c" if "reordered u u'" "names_distinct u c" for u u'
    unfolding names_distinct_def
  proof (cases "qualified_of u' c")
    case (Inr r)
    then obtain scope qs where "qualified_of u' c = Inr (scope, qs)" by (cases r) auto
    moreover with qualified_reordered[OF reordered_sym[OF that(1)]] obtain qs'
      where "qualified_of u c = Inr (scope, qs')" "mset qs' = mset qs" by blast
    ultimately show "case qualified_of u' c of Inl e \<Rightarrow> True | Inr (scope, qs) \<Rightarrow> distinct (map expanded_name qs)"
      using that(2) by (auto simp: names_distinct_def intro: same_distinct_keys)
  qed simp
  then show ?thesis using assms reordered_sym by blast
qed

lemma start_element_reordered:
  assumes t: "reordered t t'" and names: "names_distinct t c" and run: "start_element t c = Inr r"
  shows "start_element t' c = Inr r"
proof -
  obtain scope qs where qs: "qualified_of t c = Inr (scope, qs)"
    using run by (auto simp: start_element_eq bind_ok_Inr_iff)
  then obtain qs' where qs': "qualified_of t' c = Inr (scope, qs')" "mset qs' = mset qs"
    using qualified_reordered[OF t] by blast
  have "distinct (map expanded_name qs)" using names by (simp add: names_distinct_def qs)
  then have "inj_on expanded_name (set qs')"
    using mset_eq_setD[OF qs'(2)] by (simp add: distinct_map)
  then have "sort_key expanded_name qs' = sort_key expanded_name qs"
    by (intro sort_key_inj_key_eq) (simp_all add: qs')
  moreover have "tag_name t = tag_name t'" using t by (simp add: reordered_def)
  ultimately show ?thesis using run qs qs' by (simp add: start_element_eq)
qed

section \<open>The cutting of text into tokens\<close>

text \<open>
  A line end is normalized on each token by itself, so a text may be cut anywhere but between the two
  characters of a line end.
\<close>

definition cuttable :: "string \<Rightarrow> string \<Rightarrow> bool" where
  "cuttable a b \<longleftrightarrow> a = [] \<or> b = [] \<or> last a \<noteq> CHR 0x0D \<or> hd b \<noteq> CHR 0x0A"

fun eol :: "string \<Rightarrow> string" where
  "eol [] = []"
| "eol [c] = [if c = CHR 0x0D then CHR 0x0A else c]"
| "eol (c # d # cs) =
     (if c = CHR 0x0D then CHR 0x0A # (if d = CHR 0x0A then eol cs else eol (d # cs)) else c # eol (d # cs))"

lemma replace_cr: "replace_str [CHR 0x0D] [CHR 0x0A] s = map (\<lambda>c. if c = CHR 0x0D then CHR 0x0A else c) s"
  by (induction s) (auto simp: starts_with_def)

lemma normalize_eol_eq: "normalize_eol s = eol s"
  unfolding normalize_eol_def replace_cr
  by (induction s rule: eol.induct) (simp_all add: starts_with_def)

lemma eol_append: "cuttable a b \<Longrightarrow> eol (a @ b) = eol a @ eol b"
proof (induction a rule: eol.induct)
  case (2 c)
  then show ?case by (cases b) (simp_all add: cuttable_def)
next
  case (3 c d cs)
  have "cuttable (d # cs) b" "cuttable cs b" using 3(4) by (auto simp: cuttable_def split: if_splits)
  with 3(1-3) show ?case by (cases "c = CHR 0x0D"; cases "d = CHR 0x0A") simp_all
qed simp

lemma eol_plain: "CHR 0x0D \<notin> set s \<Longrightarrow> eol s = s"
  by (induction s rule: eol.induct) auto

section \<open>Documents with the same content\<close>

fun names_distinct_run :: "token list \<Rightarrow> canonicalizer \<Rightarrow> bool" where
  "names_distinct_run [] c \<longleftrightarrow> True"
| "names_distinct_run (t # ts) c \<longleftrightarrow>
     (case t of Tk_start s \<Rightarrow> names_distinct s c | Tk_empty s \<Rightarrow> names_distinct s c | _ \<Rightarrow> True) \<and>
     (case canonical_step t c of Inl e \<Rightarrow> True | Inr c' \<Rightarrow> names_distinct_run ts c')"

inductive same_piece :: "token list \<Rightarrow> token list \<Rightarrow> bool" where
  attributes: "reordered t t' \<Longrightarrow> same_piece [Tk_start t] [Tk_start t']"
| empty_tag: "same_piece [Tk_empty t] [Tk_start t, Tk_end (tag_name t)]"
| cdata: "same_piece [Tk_cdata s] [Tk_text s]"
| reference: "resolve_entity name = Inr ch \<Longrightarrow> CHR 0x0D \<notin> set ch \<Longrightarrow> same_piece [Tk_ref name] [Tk_text ch]"
| cut: "cuttable a b \<Longrightarrow> same_piece [Tk_text (a @ b)] [Tk_text a, Tk_text b]"
| comment: "same_piece [Tk_other] []"

inductive same_content :: "token list \<Rightarrow> token list \<Rightarrow> bool" where
  same_in: "same_piece xs ys \<Longrightarrow> same_content (pre @ xs @ post) (pre @ ys @ post)"
| same_refl: "same_content ts ts"
| same_sym: "same_content ts us \<Longrightarrow> same_content us ts"
| same_trans: "same_content ts us \<Longrightarrow> same_content us vs \<Longrightarrow> same_content ts vs"

definition agree :: "token list \<Rightarrow> token list \<Rightarrow> bool" where
  "agree xs ys \<longleftrightarrow> (\<forall>c. names_distinct_run xs c = names_distinct_run ys c \<and>
     (names_distinct_run xs c \<longrightarrow> (\<forall>r. canonical_run xs c = Inr r \<longleftrightarrow> canonical_run ys c = Inr r)))"

lemma canonical_run_append: "canonical_run (xs @ ys) c = bind_ok (canonical_run xs c) (canonical_run ys)"
proof (induction xs arbitrary: c)
  case (Cons x xs)
  then show ?case by (cases "canonical_step x c") simp_all
qed simp

lemma names_distinct_run_append:
  "names_distinct_run (xs @ ys) c \<longleftrightarrow>
     names_distinct_run xs c \<and> (\<forall>c'. canonical_run xs c = Inr c' \<longrightarrow> names_distinct_run ys c')"
proof (induction xs arbitrary: c)
  case (Cons x xs)
  then show ?case by (cases "canonical_step x c") auto
qed simp

lemma agree_context:
  assumes "agree xs ys"
  shows "agree (pre @ xs @ post) (pre @ ys @ post)"
  using assms unfolding agree_def
  by (auto simp: canonical_run_append names_distinct_run_append bind_ok_Inr_iff)

lemma agree_attributes:
  assumes t: "reordered t t'"
  shows "agree [Tk_start t] [Tk_start t']"
proof -
  have "start_element t c = Inr r \<longleftrightarrow> start_element t' c = Inr r" if "names_distinct t c" for c r
    using that start_element_reordered[OF t] start_element_reordered[OF reordered_sym[OF t]]
      names_distinct_reordered[OF t] by blast
  then show ?thesis
    by (simp add: agree_def bind_ok_Inr_iff names_distinct_reordered[OF t] split: sum.split)
qed

lemma write_start_fields:
  "write_start name scope as c = Inr (n, c') \<Longrightarrow> n = name \<and> c_depth c' = c_depth c + 1 \<and>
     c_seen_root c' \<and> c_exclusive c' = c_exclusive c \<and>
     c_scopes c' = c_scopes c @ [scope] \<and> (\<exists>now. c_rendered c' = c_rendered c @ [now])"
  by (auto simp: write_start_def Let_def split: option.splits prod.splits)

lemma start_element_name: "start_element t c = Inr (n, c') \<Longrightarrow> n = tag_name t"
  by (auto simp: start_element_eq bind_ok_Inr_iff dest: write_start_fields)

lemma agree_piece:
  assumes "same_piece xs ys"
  shows "agree xs ys"
  using assms
proof cases
  case (attributes t t')
  then show ?thesis using agree_attributes by simp
next
  case (empty_tag t)
  then show ?thesis
    by (auto simp: agree_def bind_ok_Inr_iff dest: start_element_name split: sum.split)
next
  case (cut a b)
  then show ?thesis
    by (auto simp: agree_def normalize_eol_eq eol_append push_out_def escape_text_def)
qed (auto simp: agree_def normalize_eol_eq eol_plain bind_ok_Inr_iff)

lemma agree_content: "same_content ts us \<Longrightarrow> agree ts us"
proof (induction rule: same_content.induct)
  case (same_in xs ys pre post)
  then show ?case using agree_piece agree_context by blast
qed (auto simp: agree_def)

section \<open>Reading the canonical form\<close>

text \<open>
  A reader of the output, written independently of the canonicalizer: references are resolved as the
  code itself resolves them, an attribute ends at the next quote.
\<close>

definition until :: "char \<Rightarrow> string \<Rightarrow> string \<times> string" where
  "until x s = (takeWhile (\<lambda>c. c \<noteq> x) s, drop 1 (dropWhile (\<lambda>c. c \<noteq> x) s))"

lemma until_length: "until x s = (a, b) \<Longrightarrow> length b \<le> length s"
  using length_dropWhile_le[of "\<lambda>c. c \<noteq> x" s] by (auto simp: until_def)

lemma until_append: "x \<notin> set a \<Longrightarrow> until x (a @ x # b) = (a, b)"
  by (induction a) (auto simp: until_def)

function read_text :: "string \<Rightarrow> string" where
  "read_text [] = []"
| "read_text (c # cs) =
     (if c = CHR ''&'' then
        (case until CHR '';'' cs of (name, rest) \<Rightarrow>
           (case resolve_entity name of Inr ch \<Rightarrow> ch | Inl e \<Rightarrow> []) @ read_text rest)
      else c # read_text cs)"
  by pat_completeness auto
termination
  by (relation "measure length") (auto dest: until_length[OF sym])

function read_attrs :: "string \<Rightarrow> (string \<times> string) list \<times> string" where
  "read_attrs [] = ([], [])"
| "read_attrs (c # cs) =
     (if c = CHR '' '' then
        (case until CHR ''='' cs of (key, rest) \<Rightarrow>
         case until CHR 0x22 (drop 1 rest) of (v, rest') \<Rightarrow>
         case read_attrs rest' of (as, r) \<Rightarrow> ((key, read_text v) # as, r))
      else ([], c # cs))"
  by pat_completeness auto
termination
  by (relation "measure length") (fastforce dest!: until_length[OF sym])+

definition read_start :: "string \<Rightarrow> (string \<times> (string \<times> string) list) \<times> string" where
  "read_start s =
     (let name = takeWhile (\<lambda>c. c \<noteq> CHR '' '' \<and> c \<noteq> CHR ''>'') (drop 1 s)
      in case read_attrs (drop (1 + length name) s) of (as, r) \<Rightarrow> ((name, as), drop 1 r))"

definition plain_name :: "string \<Rightarrow> bool" where
  "plain_name s \<longleftrightarrow> set s \<inter> set '' =>'' = {}"

lemma known_entities:
  "resolve_entity ''amp'' = Inr ''&''" "resolve_entity ''lt'' = Inr ''<''" "resolve_entity ''gt'' = Inr ''>''"
  "resolve_entity ''quot'' = Inr [CHR 0x22]" "resolve_entity ''#x9'' = Inr [CHR 0x09]"
  "resolve_entity ''#xA'' = Inr [CHR 0x0A]" "resolve_entity ''#xD'' = Inr [CHR 0x0D]"
  by (simp_all add: resolve_entity_def strip_prefix_def starts_with_def u32_from_str_radix_def radix_digit_def
      byte_def is_ascii_digit_def char_from_u32_def utf8_bytes_def char_of_def bit_Suc_0_iff)

lemma read_entity:
  "CHR '';'' \<notin> set name \<Longrightarrow> resolve_entity name = Inr ch \<Longrightarrow>
     read_text (CHR ''&'' # name @ CHR '';'' # s) = ch @ read_text s"
  by (simp add: until_append)

lemma read_char: "read_text (text_char c @ s) = c # read_text s" "read_text (attribute_char c @ s) = c # read_text s"
  using read_entity[of "''amp''"] read_entity[of "''lt''"] read_entity[of "''gt''"] read_entity[of "''quot''"]
    read_entity[of "''#x9''"] read_entity[of "''#xA''"] read_entity[of "''#xD''"]
  by (simp_all del: read_text.simps add: known_entities text_char_def attribute_char_def read_text.simps(2)[of c])

lemma read_escaped [simp]: "read_text (escape_text s) = s" "read_text (escape_attribute s) = s"
  by (induction s) (simp_all del: read_text.simps add: read_char escape_text_def escape_attribute_def, simp_all)

lemma no_markup: "CHR ''<'' \<notin> set (escape_text s)" "CHR ''<'' \<notin> set (escape_attribute s)"
  "CHR 0x22 \<notin> set (escape_attribute s)"
  by (auto simp: escape_text_def escape_attribute_def text_char_def attribute_char_def split: if_splits)

text \<open>What a canonical start tag says.\<close>

definition decl_key :: "string \<Rightarrow> string" where
  "decl_key p = (if p = [] then ''xmlns'' else ''xmlns:'' @ p)"

definition written :: "string \<times> string \<Rightarrow> string" where
  "written = (\<lambda>(k, v). '' '' @ k @ ''='' @ [CHR 0x22] @ escape_attribute v @ [CHR 0x22])"

definition new_prefixes :: "scope \<Rightarrow> scope \<Rightarrow> string list \<Rightarrow> string list" where
  "new_prefixes scope outer ps = filter (\<lambda>p. uri_in scope p \<noteq> uri_in outer p) ps"

lemma render_declarations_eq:
  "render_declarations scope outer ps now =
     (concat (map (\<lambda>p. written (decl_key p, uri_in scope p)) (new_prefixes scope outer ps)),
      fold (\<lambda>p. btree_insert p (uri_in scope p)) (new_prefixes scope outer ps) now)"
  by (induction scope outer ps now rule: render_declarations.induct)
    (simp_all add: new_prefixes_def written_def decl_key_def namespace_decl_def)

lemma render_attribute_eq: "render_attribute q = written (snd (snd q))"
  by (cases q) (simp add: render_attribute_def written_def)

lemma read_attrs_written:
  assumes "\<forall>a \<in> set as. plain_name (fst a)"
  shows "read_attrs (concat (map written as) @ CHR ''>'' # rest) = (as, CHR ''>'' # rest)"
  using assms
proof (induction as)
  case (Cons a as)
  obtain k v where a: "a = (k, v)" by force
  have "CHR ''='' \<notin> set k" using Cons.prems a by (auto simp: plain_name_def)
  then have "until CHR ''='' (k @ CHR ''='' # s) = (k, s)" for s by (rule until_append)
  moreover have "until CHR 0x22 (escape_attribute v @ CHR 0x22 # s) = (escape_attribute v, s)" for s
    by (rule until_append) (rule no_markup)
  ultimately show ?case using Cons by (simp add: a written_def)
qed simp

lemma read_start_written:
  assumes "plain_name name" "\<forall>a \<in> set as. plain_name (fst a)"
  shows "read_start (''<'' @ name @ concat (map written as) @ ''>'' @ rest) = ((name, as), rest)"
proof -
  let ?tail = "concat (map written as) @ CHR ''>'' # rest"
  have "?tail \<noteq> []" "hd ?tail = CHR '' '' \<or> hd ?tail = CHR ''>''" by (cases as; force simp: written_def)+
  then have "takeWhile (\<lambda>c. c \<noteq> CHR '' '' \<and> c \<noteq> CHR ''>'') (name @ ?tail) = name"
    using assms(1) by (cases ?tail) (auto simp: plain_name_def takeWhile_append)
  then show ?thesis
    using read_attrs_written[OF assms(2), of rest] by (simp add: read_start_def)
qed

lemma qualify_keeps: "qualify scope a = Inr q \<Longrightarrow> snd (snd q) = a"
  by (auto simp: qualify_def bind_ok_Inr_iff split: prod.splits option.splits if_splits)

lemma qualify_all_keeps: "qualify_all scope as = Inr qs \<Longrightarrow> map (snd \<circ> snd) qs = as"
  by (induction as arbitrary: qs) (auto simp: bind_ok_Inr_iff dest!: qualify_keeps)

lemma plain_key: "plain_name p \<Longrightarrow> plain_name (decl_key p)"
  by (auto simp: plain_name_def decl_key_def)

section \<open>The scopes of a run\<close>

text \<open>
  In inclusive mode the declarations written so far bind, at every level, every prefix as the document
  does. In exclusive mode they do so for the prefixes an element uses.
\<close>

fun plain_attribute :: "attribute \<Rightarrow> bool" where
  "plain_attribute (Inl e) \<longleftrightarrow> True"
| "plain_attribute (Inr (k, v)) \<longleftrightarrow> plain_name k"

definition plain_tag :: "start_tag \<Rightarrow> bool" where
  "plain_tag t \<longleftrightarrow> plain_name (tag_name t) \<and> list_all plain_attribute (tag_attributes t)"

fun plain_token :: "token \<Rightarrow> bool" where
  "plain_token (Tk_start t) \<longleftrightarrow> plain_tag t"
| "plain_token (Tk_empty t) \<longleftrightarrow> plain_tag t"
| "plain_token t \<longleftrightarrow> True"

definition plain_scope :: "scope \<Rightarrow> bool" where
  "plain_scope s \<longleftrightarrow> (\<forall>p \<in> fst ` set s. plain_name p)"

definition scopes_ok :: "canonicalizer \<Rightarrow> bool" where
  "scopes_ok c \<longleftrightarrow> list_all plain_scope (c_scopes c) \<and>
     (c_exclusive c = None \<longrightarrow> list_all2 (\<lambda>r s. uri_in r = uri_in s) (c_rendered c) (c_scopes c))"

lemma top_scope_snoc [simp]: "top_scope (ss @ [s]) = s"
  by (simp add: top_scope_def)

lemma uri_in_rendered:
  "uri_in (snd (render_declarations scope outer ps now)) p =
     (if p \<in> set ps \<and> uri_in scope p \<noteq> uri_in outer p then uri_in scope p else uri_in now p)"
proof -
  have "uri_in (fold (\<lambda>p. btree_insert p (uri_in scope p)) qs now) p =
      (if p \<in> set qs then uri_in scope p else uri_in now p)" for qs
    by (induction qs arbitrary: now) (auto simp: uri_in_def)
  then show ?thesis by (simp add: render_declarations_eq new_prefixes_def)
qed

lemma write_start_scopes:
  assumes "write_start name scope as c = Inr (n, c')"
  shows "top_scope (c_scopes c') = scope"
    and "p \<in> set (candidates (c_exclusive c) name scope as) \<Longrightarrow>
      uri_in (top_scope (c_rendered c')) p = uri_in scope p"
    and "p \<notin> set (candidates (c_exclusive c) name scope as) \<Longrightarrow>
      uri_in (top_scope (c_rendered c')) p = uri_in (top_scope (c_rendered c)) p"
  using assms uri_in_rendered[of scope "top_scope (c_rendered c)" "candidates (c_exclusive c) name scope as"
      "top_scope (c_rendered c)" p]
  by (auto simp: write_start_def Let_def split: option.splits prod.splits if_splits)

lemma declare_keys:
  "fst ` set (fold declare_in kvs s) = fst ` set s \<union> (\<Union>a \<in> set kvs. set_option (declared_prefix (fst a)))"
proof -
  have "fst ` set (declare_in a s) = fst ` set s \<union> set_option (declared_prefix (fst a))" for a s
    by (cases a; cases "declared_prefix (fst a)") (simp_all add: declare_in_def)
  then show ?thesis by (induction kvs arbitrary: s) (simp_all add: Un_assoc)
qed

lemma plain_declared: "declared_prefix k = Some p \<Longrightarrow> plain_name k \<Longrightarrow> plain_name p"
  by (auto simp: declared_prefix_def strip_prefix_def plain_name_def split: if_splits dest: in_set_dropD)

lemma qualified_scope:
  assumes "qualified_of t c = Inr (scope, qs)" "list_all plain_attribute (tag_attributes t)"
    "plain_scope (top_scope (c_scopes c))"
  shows "plain_scope scope" and "fst ` set (top_scope (c_scopes c)) \<subseteq> fst ` set scope"
proof -
  obtain kvs where kvs: "tag_attributes t = plain kvs" "scope = fold declare_in kvs (top_scope (c_scopes c))"
    using assms(1) by (auto simp: qualified_of_def bind_ok_Inr_iff read_attributes_Inr)
  then have "\<forall>a \<in> set kvs. plain_name (fst a)" using assms(2) by (auto simp: plain_def list_all_iff)
  then show "plain_scope scope" "fst ` set (top_scope (c_scopes c)) \<subseteq> fst ` set scope"
    using assms(3) plain_declared unfolding plain_scope_def kvs(2) declare_keys by auto
qed

lemma scopes_ok_top:
  assumes "scopes_ok c"
  shows "plain_scope (top_scope (c_scopes c))"
    and "c_exclusive c = None \<Longrightarrow> uri_in (top_scope (c_rendered c)) = uri_in (top_scope (c_scopes c))"
proof -
  show "plain_scope (top_scope (c_scopes c))"
    using assms by (auto simp: scopes_ok_def top_scope_def list_all_iff plain_scope_def)
  assume "c_exclusive c = None"
  with assms have *: "list_all2 (\<lambda>r s. uri_in r = uri_in s) (c_rendered c) (c_scopes c)"
    by (simp add: scopes_ok_def)
  then show "uri_in (top_scope (c_rendered c)) = uri_in (top_scope (c_scopes c))"
    by (cases "c_scopes c" rule: rev_cases) (auto simp: top_scope_def list_all2_append2 list_all2_Cons2)
qed

lemma uri_in_absent: "p \<notin> fst ` set s \<Longrightarrow> uri_in s p = []"
  by (simp add: uri_in_def map_of_eq_None_iff[THEN iffD2])

lemma start_element_scopes:
  assumes ok: "scopes_ok c" and t: "plain_tag t" and run: "start_element t c = Inr (name, c')"
  shows "scopes_ok c'"
proof -
  obtain scope qs where qs: "qualified_of t c = Inr (scope, qs)"
    and w: "write_start (tag_name t) scope (sort_key expanded_name qs) c = Inr (name, c')"
    using run by (auto simp: start_element_eq bind_ok_Inr_iff)
  note fields = write_start_fields[OF w] and scopes = write_start_scopes[OF w]
  have plain: "plain_scope scope" and keys: "fst ` set (top_scope (c_scopes c)) \<subseteq> fst ` set scope"
    using qualified_scope[OF qs] t scopes_ok_top[OF ok] by (auto simp: plain_tag_def)
  have "uri_in (top_scope (c_rendered c')) p = uri_in scope p" if "c_exclusive c = None" for p
  proof (cases "p \<in> fst ` set scope")
    case True
    then show ?thesis using scopes(2)[of p] that by (simp add: candidates_def)
  next
    case False
    then have "uri_in scope p = []" "uri_in (top_scope (c_scopes c)) p = []"
      using keys by (auto intro: uri_in_absent)
    then show ?thesis using scopes(3)[of p] False that scopes_ok_top(2)[OF ok] by (simp add: candidates_def)
  qed
  then have "c_exclusive c = None \<Longrightarrow> uri_in (top_scope (c_rendered c')) = uri_in scope" by auto
  then show ?thesis using ok fields plain by (auto simp: scopes_ok_def intro!: list_all2_appendI)
qed

lemma end_element_scopes: "scopes_ok c \<Longrightarrow> scopes_ok (end_element name c)"
  by (auto simp: scopes_ok_def end_element_def list_all_iff butlast_conv_take list_all2_lengthD
      dest: in_set_takeD intro: list_all2_takeI)

lemma canonical_step_scopes:
  "scopes_ok c \<Longrightarrow> plain_token t \<Longrightarrow> canonical_step t c = Inr c' \<Longrightarrow> scopes_ok c'"
  by (cases t)
    (auto simp: bind_ok_Inr_iff push_out_def scopes_ok_def[of "c\<lparr>c_out := _\<rparr>"] split: if_splits
      intro: end_element_scopes start_element_scopes, auto simp: scopes_ok_def)

lemma canonical_run_scopes:
  "scopes_ok c \<Longrightarrow> list_all plain_token ts \<Longrightarrow> canonical_run ts c = Inr c' \<Longrightarrow> scopes_ok c'"
  by (induction ts arbitrary: c) (auto simp: bind_ok_Inr_iff intro: canonical_step_scopes)

section \<open>The properties\<close>

text \<open>
  C32. The canonical form depends on the content of a document and not on how it is written: two token
  streams with the same content (the order of attributes and declarations, empty tags, CDATA sections,
  references to characters, comments and the declaration of XML apart) have the same canonical form, or
  none. Both forms, inclusive and exclusive. No tag repeats the expanded name of an attribute.
\<close>

theorem canonical_form_ignores_representation:
  assumes "tokens xml = (ts, None)" and "tokens xml' = (us, None)"
    and "same_content (map fst ts) (map fst us)"
    and "names_distinct_run (map fst ts) (canonicalizer_new exclusive)"
  shows "canonicalize tokens xml exclusive = Inr out \<longleftrightarrow> canonicalize tokens xml' exclusive = Inr out"
  using agree_content[OF assms(3)] assms(4)
  by (simp add: canonicalize_def assms(1,2) bind_ok_Inr_iff agree_def)

definition used_prefixes :: "string \<Rightarrow> (string \<times> string) list \<Rightarrow> string set" where
  "used_prefixes name as =
     insert (element_prefix name) {p. \<exists>a \<in> set as. \<exists>l. split_once CHR '':'' (fst a) = Some (p, l)} - {''xml''}"

lemma set_candidates:
  "set (candidates exclusive name scope qs) = (case exclusive of
     None \<Rightarrow> fst ` set scope
   | Some ps \<Rightarrow> insert (element_prefix name) (set (attribute_prefixes qs) \<union> {p \<in> set ps. map_of scope p \<noteq> None}))"
  by (cases exclusive) (simp_all only: candidates_def option.case set_sort set_remdups, auto)

lemma candidates_used: "used_prefixes name (map (snd \<circ> snd) qs) \<subseteq> set (candidates (Some ps) name scope qs)"
  by (fastforce simp: used_prefixes_def set_candidates attribute_prefixes_def)

lemma prefix_plain: "split_once CHR '':'' k = Some (p, l) \<Longrightarrow> plain_name k \<Longrightarrow> plain_name p"
  by (auto simp: plain_name_def dest!: split_once_SomeD)

lemma candidates_plain:
  assumes "plain_name name" "plain_scope scope" "\<forall>a \<in> set (map (snd \<circ> snd) qs). plain_name (fst a)"
    "p \<in> set (candidates exclusive name scope qs)"
  shows "plain_name p"
proof -
  have "plain_name (element_prefix name)"
  proof (cases "split_once CHR '':'' name")
    case (Some r)
    with prefix_plain[of name "fst r" "snd r"] assms(1) show ?thesis by (cases r) (simp add: element_prefix_def)
  qed (simp add: element_prefix_def plain_name_def)
  moreover have "plain_name p" if "p \<in> set (attribute_prefixes qs)"
  proof -
    obtain ns l qname v m where q: "(ns, l, qname, v) \<in> set qs" and "Some (p, m) = split_once CHR '':'' qname"
      using \<open>p \<in> set (attribute_prefixes qs)\<close> unfolding attribute_prefixes_def by auto
    from prefix_plain[OF this(2)[symmetric]] assms(3) q show ?thesis by force
  qed
  moreover have "p \<in> fst ` set scope" if "map_of scope p \<noteq> None" using that by (simp add: map_of_eq_None_iff)
  ultimately show ?thesis
    using assms(2,4) by (auto simp: set_candidates plain_scope_def split: option.splits)
qed

lemma declared_decl_key [simp]: "declared_prefix (decl_key p) = Some p"
  using strip_prefix_append[of "''xmlns:''" p] by (auto simp: declared_prefix_def decl_key_def)

lemma declare_decls:
  "fold declare_in (map (\<lambda>p. (decl_key p, uri_in scope p)) ps) s = fold (\<lambda>p. btree_insert p (uri_in scope p)) ps s"
  by (induction ps arbitrary: s) (simp_all add: declare_in_def)

lemma write_start_reads_back:
  assumes w: "write_start name scope qs c = Inr (n, c')" and plain: "plain_name name" "plain_scope scope"
    "\<forall>a \<in> set (map (snd \<circ> snd) qs). plain_name (fst a)"
  shows "\<exists>text decls. c_out c' = c_out c @ text \<and>
    (\<forall>rest. read_start (text @ rest) = ((name, decls @ map (snd \<circ> snd) qs), rest)) \<and>
    top_scope (c_rendered c') = fold declare_in decls (top_scope (c_rendered c))"
proof (intro exI conjI allI)
  let ?new = "new_prefixes scope (top_scope (c_rendered c)) (candidates (c_exclusive c) name scope qs)"
  let ?decls = "map (\<lambda>p. (decl_key p, uri_in scope p)) ?new"
  show "c_out c' = c_out c @ (''<'' @ name @ concat (map written (?decls @ map (snd \<circ> snd) qs)) @ ''>'')"
    and "top_scope (c_rendered c') = fold declare_in ?decls (top_scope (c_rendered c))"
    using w by (auto simp: write_start_def Let_def render_declarations_eq comp_def render_attribute_eq[abs_def]
        declare_decls split: option.splits)
  have "\<forall>a \<in> set (?decls @ map (snd \<circ> snd) qs). plain_name (fst a)"
    using candidates_plain[OF plain] plain(3) by (auto simp: new_prefixes_def plain_key)
  from read_start_written[OF plain(1) this] show "read_start ((''<'' @ name @ concat (map written (?decls @ map (snd \<circ> snd) qs)) @ ''>'') @ rest) =
      ((name, ?decls @ map (snd \<circ> snd) qs), rest)" for rest
    by simp
qed

text \<open>
  C33. A canonical start tag loses nothing. Read back by a reader of start tags, it gives the name of the tag, the
  namespace declarations it renders and exactly the attributes of the source, with their values, whatever
  follows. With the declarations rendered before, every prefix the tag uses is bound as in the source.
\<close>

theorem canonical_tag_reads_back:
  assumes "canonical_run ts (canonicalizer_new exclusive) = Inr c" and "list_all plain_token ts"
    and "start_element t c = Inr (name, c')" and "plain_tag t" and "tag_attributes t = plain kvs"
  shows "\<exists>text decls as. c_out c' = c_out c @ text \<and>
    (\<forall>rest. read_start (text @ rest) = ((tag_name t, decls @ as), rest)) \<and>
    mset as = mset (filter (\<lambda>a. declared_prefix (fst a) = None) kvs) \<and>
    top_scope (c_rendered c') = fold declare_in decls (top_scope (c_rendered c)) \<and>
    (\<forall>p \<in> used_prefixes (tag_name t) as.
       uri_in (top_scope (c_rendered c')) p = uri_in (top_scope (c_scopes c')) p)"
proof -
  have ok: "scopes_ok c"
    by (rule canonical_run_scopes[OF _ assms(2,1)]) (simp add: scopes_ok_def canonicalizer_new_def)
  obtain scope qs where qs: "qualified_of t c = Inr (scope, qs)"
    and w: "write_start (tag_name t) scope (sort_key expanded_name qs) c = Inr (name, c')"
    using assms(3) by (auto simp: start_element_eq bind_ok_Inr_iff)
  define as where "as = map (snd \<circ> snd) (sort_key expanded_name qs)"
  have "qualify_all scope (filter (\<lambda>a. declared_prefix (fst a) = None) kvs) = Inr qs"
    using qs assms(5) by (auto simp: qualified_of_def bind_ok_Inr_iff read_attributes_Inr)
  from arg_cong[OF qualify_all_keeps[OF this], of mset]
  have kvs: "mset as = mset (filter (\<lambda>a. declared_prefix (fst a) = None) kvs)" by (simp add: as_def)
  then have "set as \<subseteq> set kvs" by (metis filter_is_subset set_mset_mset)
  then have plain_as: "\<forall>a \<in> set as. plain_name (fst a)"
    using assms(4,5) by (fastforce simp: plain_tag_def plain_def list_all_iff)
  have "plain_scope scope"
    using qualified_scope(1)[OF qs] assms(4) scopes_ok_top(1)[OF ok] by (simp add: plain_tag_def)
  note reads = write_start_reads_back[OF w _ this plain_as[unfolded as_def], folded as_def]
  have "uri_in (top_scope (c_rendered c')) p = uri_in (top_scope (c_scopes c')) p"
    if "p \<in> used_prefixes (tag_name t) as" for p
  proof (cases "c_exclusive c")
    case None
    with start_element_scopes[OF ok assms(4,3)] write_start_fields[OF w] show ?thesis
      by (simp add: scopes_ok_top(2))
  next
    case (Some ps)
    with that have "p \<in> set (candidates (c_exclusive c) (tag_name t) scope (sort_key expanded_name qs))"
      using candidates_used unfolding as_def by fastforce
    then show ?thesis using write_start_scopes(1,2)[OF w] by simp
  qed
  with reads kvs assms(4) show ?thesis unfolding plain_tag_def by blast
qed

section \<open>Witnesses\<close>

definition ex_first :: "token list" where
  "ex_first =
     [Tk_start \<lparr>tag_name = ''a'', tag_attributes = plain [(''x'', ''1''), (''y'', ''2'')]\<rparr>,
      Tk_empty \<lparr>tag_name = ''b'', tag_attributes = []\<rparr>, Tk_ref ''gt'', Tk_end ''a'']"

definition ex_second :: "token list" where
  "ex_second =
     [Tk_start \<lparr>tag_name = ''a'', tag_attributes = plain [(''y'', ''2''), (''x'', ''1'')]\<rparr>,
      Tk_start \<lparr>tag_name = ''b'', tag_attributes = []\<rparr>, Tk_end ''b'', Tk_text ''>'', Tk_end ''a'']"

text \<open>A tokenizer that knows two texts; the positions are not used here.\<close>

definition ex_tokens :: tokenizer where
  "ex_tokens xml = (map (\<lambda>t. (t, 0)) (if xml = ''first'' then ex_first else ex_second), None)"

lemma ex_same_content: "same_content ex_first ex_second"
proof -
  let ?a = "\<lparr>tag_name = ''a'', tag_attributes = plain [(''x'', ''1''), (''y'', ''2'')]\<rparr>"
  let ?a' = "\<lparr>tag_name = ''a'', tag_attributes = plain [(''y'', ''2''), (''x'', ''1'')]\<rparr>"
  let ?b = "\<lparr>tag_name = ''b'', tag_attributes = []\<rparr>"
  have "reordered ?a ?a'"
    unfolding reordered_def by (intro conjI exI[of _ "[(''x'', ''1''), (''y'', ''2'')]"] exI[of _ "[(''y'', ''2''), (''x'', ''1'')]"]) auto
  from same_in[OF same_piece.attributes[OF this], of "[]" "[Tk_empty ?b, Tk_ref ''gt'', Tk_end ''a'']"]
  have "same_content ex_first [Tk_start ?a', Tk_empty ?b, Tk_ref ''gt'', Tk_end ''a'']" by (simp add: ex_first_def)
  moreover from same_in[OF same_piece.empty_tag, of "[Tk_start ?a']" ?b "[Tk_ref ''gt'', Tk_end ''a'']"]
  have "same_content [Tk_start ?a', Tk_empty ?b, Tk_ref ''gt'', Tk_end ''a'']
      [Tk_start ?a', Tk_start ?b, Tk_end ''b'', Tk_ref ''gt'', Tk_end ''a'']" by simp
  moreover from same_in[OF same_piece.reference[of "''gt''" "''>''"],
      of "[Tk_start ?a', Tk_start ?b, Tk_end ''b'']" "[Tk_end ''a'']"]
  have "same_content [Tk_start ?a', Tk_start ?b, Tk_end ''b'', Tk_ref ''gt'', Tk_end ''a''] ex_second"
    by (simp add: ex_second_def known_entities)
  ultimately show ?thesis by (blast intro: same_trans)
qed

lemma ex_names: "names_distinct_run ex_first (canonicalizer_new None)"
  by code_simp

definition ex_canonical :: string where
  "ex_canonical =
     ''<a x='' @ [CHR 0x22] @ ''1'' @ [CHR 0x22] @ '' y='' @ [CHR 0x22] @ ''2'' @ [CHR 0x22] @ ''><b></b>&gt;</a>''"

lemma ex_canonicalized: "canonicalize ex_tokens ''first'' None = Inr ex_canonical"
  by code_simp

theorem canonical_form_ignores_representation_witness:
  "canonicalize ex_tokens ''second'' None = Inr ex_canonical"
proof -
  have "ex_tokens ''first'' = (map (\<lambda>t. (t, 0)) ex_first, None)"
    "ex_tokens ''second'' = (map (\<lambda>t. (t, 0)) ex_second, None)"
    by (simp_all add: ex_tokens_def)
  from canonical_form_ignores_representation[OF this, of None ex_canonical]
  show ?thesis using ex_same_content ex_names ex_canonicalized by (simp add: comp_def)
qed

definition ex_tag :: start_tag where
  "ex_tag = \<lparr>tag_name = ''a:x'', tag_attributes = plain [(''b'', ''<''), (''xmlns:a'', ''u'')]\<rparr>"

lemma ex_started:
  "start_element ex_tag (canonicalizer_new None) = Inr (''a:x'',
     \<lparr>c_out = ''<a:x xmlns:a='' @ [CHR 0x22] @ ''u'' @ [CHR 0x22] @ '' b='' @ [CHR 0x22] @ ''&lt;'' @ [CHR 0x22] @ ''>'',
      c_scopes = [[(''a'', ''u'')]], c_rendered = [[(''a'', ''u'')]], c_exclusive = None, c_depth = 1, c_seen_root = True\<rparr>)"
  by code_simp

theorem canonical_tag_reads_back_witness:
  "\<exists>text decls. text = c_out (snd (projr (start_element ex_tag (canonicalizer_new None)))) \<and>
     read_start text = ((''a:x'', decls @ [(''b'', ''<'')]), []) \<and> uri_in (fold declare_in decls []) ''a'' = ''u''"
proof -
  note run = ex_started
  have "plain_tag ex_tag" "tag_attributes ex_tag = plain [(''b'', ''<''), (''xmlns:a'', ''u'')]"
    by code_simp (simp add: ex_tag_def)
  from canonical_tag_reads_back[OF _ _ run this, of "[]"] obtain out decls attrs where
    out: "c_out (snd (projr (start_element ex_tag (canonicalizer_new None)))) = out"
    "read_start (out @ []) = ((tag_name ex_tag, decls @ attrs), [])" and
    attrs: "mset attrs = mset (filter (\<lambda>a. declared_prefix (fst a) = None) [(''b'', ''<''), (''xmlns:a'', ''u'')])" and
    scope: "[(''a'', ''u'')] = fold declare_in decls []"
    unfolding run by (auto simp: canonicalizer_new_def top_scope_def)
  have "attrs = [(''b'', ''<'')]"
    using attrs by (simp add: declared_prefix_def strip_prefix_def starts_with_def)
  with out show ?thesis
    by (intro exI[of _ out] exI[of _ decls]) (simp add: ex_tag_def uri_in_def flip: scope)
qed

end
