(* ===== verification/Xml_Signing.thy ===== *)
theory Xml_Signing
  imports C14n World
begin

text \<open>
  \<open>crypto-signer/src/xmlutil.rs\<close>, \<open>xades.rs\<close> and \<open>wssec.rs\<close>: the namespaces in scope at a place of a
  document, the XAdES signature of a document and the WS-Security header of a SOAP envelope. Base64,
  SHA-256, the X.509 decoder and the rendering of instants are parameters (\<open>crypto_lib\<close>), as is the
  provider that holds the key. In the templates a backquote stands for the double quote.
\<close>

definition tick :: "string \<Rightarrow> string" where
  "tick s = map (\<lambda>c. if c = CHR ''`'' then CHR 0x22 else c) s"

section \<open>xmlutil.rs\<close>

fun read_declarations :: "attribute list \<Rightarrow> crypto_error + (string \<times> string) list" where
  "read_declarations [] = Inr []"
| "read_declarations (Inl e # as) = Inl (Xml_error e)"
| "read_declarations (Inr (key, v) # as) =
     (case (if key = ''xmlns'' then Some [] else strip_prefix ''xmlns:'' key) of
        None \<Rightarrow> read_declarations as
      | Some p \<Rightarrow>
          bind_ok (map_err Xml_error v) (\<lambda>uri.
          bind_ok (read_declarations as) (\<lambda>ds. Inr ((p, uri) # ds))))"

text \<open>The declarations of the elements that are open at the end; an empty tag opens none.\<close>

fun open_declarations ::
  "(string \<times> string) list list \<Rightarrow> token list \<Rightarrow> crypto_error + (string \<times> string) list list" where
  "open_declarations stack [] = Inr stack"
| "open_declarations stack (Tk_start t # ts) =
     bind_ok (read_declarations (tag_attributes t)) (\<lambda>ds. open_declarations (stack @ [ds]) ts)"
| "open_declarations stack (Tk_end name # ts) = open_declarations (butlast stack) ts"
| "open_declarations stack (t # ts) = open_declarations stack ts"

definition namespaces_in_scope_before :: "tokenizer \<Rightarrow> string \<Rightarrow> nat \<Rightarrow> crypto_error + scope" where
  "namespaces_in_scope_before tokens xml position =
     (case tokens (take position xml) of (ts, stop) \<Rightarrow>
        bind_ok (open_declarations [] (map fst ts)) (\<lambda>stack.
          case stop of
            Some e \<Rightarrow> Inl (Xml_error (''Invalid XML before signature: '' @ e))
          | None \<Rightarrow> Inr (fold (\<lambda>(p, uri). btree_insert p uri) (concat stack) [])))"

definition namespaces_in_scope_at :: "tokenizer \<Rightarrow> string \<Rightarrow> string \<Rightarrow> crypto_error + scope" where
  "namespaces_in_scope_at tokens xml marker =
     bind_ok (ok_or (Xml_error (''marker '' @ [CHR 0x27] @ marker @ [CHR 0x27] @ '' not found'')) (find_str marker xml))
       (namespaces_in_scope_before tokens xml)"

text \<open>The last prefixed \<open>Id\<close> attribute of a tag.\<close>

fun prefixed_id :: "string option \<Rightarrow> attribute list \<Rightarrow> crypto_error + string option" where
  "prefixed_id i [] = Inr i"
| "prefixed_id i (Inl e # as) = Inl (Xml_error e)"
| "prefixed_id i (Inr (key, v) # as) =
     (if (case split_once CHR '':'' key of Some (p, l) \<Rightarrow> l = ''Id'' \<and> p \<noteq> ''xmlns'' | None \<Rightarrow> False)
      then bind_ok (map_err Xml_error v) (\<lambda>value. prefixed_id (Some value) as)
      else prefixed_id i as)"

type_synonym located = "string \<times> nat \<times> nat"

text \<open>Elements found so far, the open ones with their depth (a \<open>usize\<close>), and where the next token starts.\<close>

fun locate_ids ::
  "located list \<Rightarrow> (string \<times> nat \<times> 64 word) list \<Rightarrow> 64 word \<Rightarrow> nat \<Rightarrow> (token \<times> nat) list \<Rightarrow> crypto_error + located list" where
  "locate_ids found opened depth start [] = Inr found"
| "locate_ids found opened depth start ((Tk_start t, next) # ts) =
     bind_ok (prefixed_id None (tag_attributes t)) (\<lambda>i.
       locate_ids found (case i of Some v \<Rightarrow> opened @ [(v, start, depth)] | None \<Rightarrow> opened) (depth + 1) next ts)"
| "locate_ids found opened depth start ((Tk_empty t, next) # ts) =
     bind_ok (prefixed_id None (tag_attributes t)) (\<lambda>i.
       locate_ids (case i of Some v \<Rightarrow> found @ [(v, start, next)] | None \<Rightarrow> found) opened depth next ts)"
| "locate_ids found opened depth start ((Tk_end name, next) # ts) =
     (if opened \<noteq> [] \<and> snd (snd (last opened)) = depth - 1 then
        locate_ids (found @ [(fst (last opened), fst (snd (last opened)), next)]) (butlast opened) (depth - 1) next ts
      else locate_ids found opened (depth - 1) next ts)"
| "locate_ids found opened depth start ((t, next) # ts) = locate_ids found opened depth next ts"

definition elements_with_prefixed_id :: "tokenizer \<Rightarrow> string \<Rightarrow> crypto_error + located list" where
  "elements_with_prefixed_id tokens xml =
     (case tokens xml of (ts, stop) \<Rightarrow>
        bind_ok (locate_ids [] [] 0 0 ts) (\<lambda>found.
          case stop of
            Some e \<Rightarrow> Inl (Xml_error (''Invalid XML: '' @ e))
          | None \<Rightarrow> Inr (sort_key (\<lambda>(i, begins, ends). begins) found)))"

definition escape_content :: "string \<Rightarrow> string" where
  "escape_content v = replace_str ''>'' ''&gt;'' (replace_str ''<'' ''&lt;'' (replace_str ''&'' ''&amp;'' v))"

definition escape_quoted :: "string \<Rightarrow> string" where
  "escape_quoted v = replace_str [CHR 0x22] ''&quot;'' (escape_content v)"

text \<open>
  The declarations a fragment inherits go after the name of its root element. The fragments are never
  empty, where the slice \<open>fragment[1..]\<close> would panic.
\<close>

definition tag_name_end :: "string \<Rightarrow> nat" where
  "tag_name_end fragment =
     (case find_in_chars (\<lambda>ch. is_whitespace ch \<or> ch = ''>'' \<or> ch = ''/'') (utf8_chars (drop 1 fragment)) of
        Some i \<Rightarrow> i + 1 | None \<Rightarrow> length fragment)"

definition start_tag_text :: "string \<Rightarrow> string" where
  "start_tag_text fragment =
     (case find_char (\<lambda>c. c = CHR ''>'') fragment of Some i \<Rightarrow> take i fragment | None \<Rightarrow> fragment)"

definition inherited_declaration :: "string \<Rightarrow> string \<times> string \<Rightarrow> string" where
  "inherited_declaration start = (\<lambda>(p, uri).
     let attribute = (if p = [] then ''xmlns'' else ''xmlns:'' @ p)
     in if contains_str (attribute @ ''='') start then []
        else '' '' @ attribute @ ''='' @ [CHR 0x22] @ escape_quoted uri @ [CHR 0x22])"

definition with_namespaces :: "string \<Rightarrow> scope \<Rightarrow> string" where
  "with_namespaces fragment namespaces =
     take (tag_name_end fragment) fragment @
     concat (map (inherited_declaration (start_tag_text fragment)) namespaces) @
     drop (tag_name_end fragment) fragment"

section \<open>The libraries and the provider\<close>

record x509 =
  cert_subject :: string
  cert_issuer :: string
  cert_serial :: "nat list"

record crypto_lib =
  l_tokens :: tokenizer
  l_b64 :: "string \<Rightarrow> string"
  l_b64_decode :: "string \<Rightarrow> string + string"
  l_sha256 :: "string \<Rightarrow> string"
  l_x509 :: "string \<Rightarrow> string + x509"
  l_colombia_time :: "instant \<Rightarrow> string"
  l_utc_millis :: "instant \<Rightarrow> string"
  l_utc_text :: "instant \<Rightarrow> string"

type_synonym ('w, 'a) crypto_io = "'w \<Rightarrow> (crypto_error + 'a) \<times> 'w"

record 'w certificate_provider =
  get_certificate :: "string \<Rightarrow> ('w, string) crypto_io"
  sign_rsa_sha256 :: "string \<Rightarrow> string \<Rightarrow> ('w, string) crypto_io"

definition sha256_b64 :: "crypto_lib \<Rightarrow> string \<Rightarrow> string" where
  "sha256_b64 L s = l_b64 L (l_sha256 L s)"

section \<open>xades.rs\<close>

definition signature_placeholder :: string where
  "signature_placeholder = ''<!-- PLACEHOLDER_FOR_SIGNATURE -->''"

definition ns_ds :: string where "ns_ds = ''http://www.w3.org/2000/09/xmldsig#''"
definition ns_xades :: string where "ns_xades = ''http://uri.etsi.org/01903/v1.3.2#''"
definition alg_c14n :: string where "alg_c14n = ''http://www.w3.org/TR/2001/REC-xml-c14n-20010315''"
definition alg_enveloped :: string where
  "alg_enveloped = ''http://www.w3.org/2000/09/xmldsig#enveloped-signature''"
definition alg_rsa_sha256 :: string where
  "alg_rsa_sha256 = ''http://www.w3.org/2001/04/xmldsig-more#rsa-sha256''"
definition alg_sha256 :: string where "alg_sha256 = ''http://www.w3.org/2001/04/xmlenc#sha256''"
definition signed_properties_type :: string where
  "signed_properties_type = ''http://uri.etsi.org/01903#SignedProperties''"
definition policy_url :: string where
  "policy_url = ''https://facturaelectronica.dian.gov.co/politicadefirma/v2/politicadefirmav2.pdf''"
definition policy_digest_sha256 :: string where
  "policy_digest_sha256 = ''dMoMvtcG5aIzgYo0tIsSQeVJBDnUnfSOfBpxXrmor0Y=''"
definition policy_description :: string where
  "policy_description = ''Pol'' @ [CHR 0xC3, CHR 0xAD] @ ''tica de firma para facturas electr'' @ [CHR 0xC3, CHR 0xB3] @
     ''nicas de la Rep'' @ [CHR 0xC3, CHR 0xBA] @ ''blica de Colombia''"

text \<open>
  A big-endian number in decimal. The digits are kept from the least significant on; \<open>times_256\<close> is the
  inner loop, which gives the carry, and \<open>push_carry\<close> the loop that appends it. A carry is below 256, so
  the \<open>u32\<close> arithmetic cannot overflow.
\<close>

fun times_256 :: "nat \<Rightarrow> nat list \<Rightarrow> nat list \<times> nat" where
  "times_256 carry [] = ([], carry)"
| "times_256 carry (d # ds) =
     (let v = d * 256 + carry in case times_256 (v div 10) ds of (ds', c) \<Rightarrow> (v mod 10 # ds', c))"

fun push_carry :: "nat \<Rightarrow> nat list" where
  "push_carry carry = (if carry > 0 then carry mod 10 # push_carry (carry div 10) else [])"

declare push_carry.simps [simp del]

definition decimal_step :: "nat \<Rightarrow> nat list \<Rightarrow> nat list" where
  "decimal_step b ds = (case times_256 b ds of (ds', carry) \<Rightarrow> ds' @ push_carry carry)"

definition decimal_from_be_bytes :: "nat list \<Rightarrow> string" where
  "decimal_from_be_bytes bytes = map digit_char (rev (fold decimal_step bytes [0]))"

record certificate_info =
  ci_der_base64 :: string
  ci_digest_sha256 :: string
  ci_issuer_name :: string
  ci_serial_number :: string

definition certificate_info_of :: "crypto_lib \<Rightarrow> string \<Rightarrow> crypto_error + certificate_info" where
  "certificate_info_of L der_base64 =
     bind_ok (map_err (\<lambda>e. Signing_error (''Certificate is not valid Base64: '' @ e)) (l_b64_decode L der_base64)) (\<lambda>der.
     bind_ok (map_err (\<lambda>e. Signing_error (''Certificate is not valid X.509 DER: '' @ e)) (l_x509 L der)) (\<lambda>x.
     Inr \<lparr>ci_der_base64 = der_base64, ci_digest_sha256 = sha256_b64 L der, ci_issuer_name = cert_issuer x,
          ci_serial_number = decimal_from_be_bytes (cert_serial x)\<rparr>))"

definition key_info_xml :: "string \<Rightarrow> string \<Rightarrow> string" where
  "key_info_xml key_info_id cert =
     tick ''<ds:KeyInfo Id=`'' @ key_info_id @ tick ''`><ds:X509Data><ds:X509Certificate>'' @ cert @
     ''</ds:X509Certificate></ds:X509Data></ds:KeyInfo>''"

definition digest_xml :: "string \<Rightarrow> string" where
  "digest_xml digest =
     tick ''<ds:DigestMethod Algorithm=`'' @ alg_sha256 @ tick ''`/><ds:DigestValue>'' @ digest @ ''</ds:DigestValue>''"

definition signed_properties_xml :: "string \<Rightarrow> string \<Rightarrow> certificate_info \<Rightarrow> string" where
  "signed_properties_xml sp time cert =
     tick ''<xades:SignedProperties Id=`'' @ sp @ tick ''`><xades:SignedSignatureProperties>'' @
     ''<xades:SigningTime>'' @ time @ ''</xades:SigningTime>'' @
     ''<xades:SigningCertificate><xades:Cert><xades:CertDigest>'' @ digest_xml (ci_digest_sha256 cert) @
     ''</xades:CertDigest><xades:IssuerSerial><ds:X509IssuerName>'' @ escape_content (ci_issuer_name cert) @
     ''</ds:X509IssuerName><ds:X509SerialNumber>'' @ ci_serial_number cert @
     ''</ds:X509SerialNumber></xades:IssuerSerial></xades:Cert>'' @
     ''</xades:SigningCertificate><xades:SignaturePolicyIdentifier><xades:SignaturePolicyId>'' @
     ''<xades:SigPolicyId><xades:Identifier>'' @ policy_url @ ''</xades:Identifier>'' @
     ''<xades:Description>'' @ policy_description @ ''</xades:Description></xades:SigPolicyId>'' @
     ''<xades:SigPolicyHash>'' @ digest_xml policy_digest_sha256 @ ''</xades:SigPolicyHash>'' @
     ''</xades:SignaturePolicyId></xades:SignaturePolicyIdentifier>'' @
     ''<xades:SignerRole><xades:ClaimedRoles><xades:ClaimedRole>supplier</xades:ClaimedRole>'' @
     ''</xades:ClaimedRoles></xades:SignerRole></xades:SignedSignatureProperties></xades:SignedProperties>''"

text \<open>The three references: the document without the signature, the key and the signed properties.\<close>

definition signed_info_xml ::
  "string \<Rightarrow> string \<Rightarrow> string \<Rightarrow> string \<Rightarrow> string \<Rightarrow> string \<Rightarrow> string" where
  "signed_info_xml i document_digest ki key_info_digest sp properties_digest =
     tick ''<ds:SignedInfo><ds:CanonicalizationMethod Algorithm=`'' @ alg_c14n @ tick ''`/>'' @
     tick ''<ds:SignatureMethod Algorithm=`'' @ alg_rsa_sha256 @ tick ''`/>'' @
     tick ''<ds:Reference Id=`'' @ i @ tick ''-ref0` URI=``><ds:Transforms><ds:Transform Algorithm=`'' @ alg_enveloped @
     tick ''`/></ds:Transforms>'' @ digest_xml document_digest @ ''</ds:Reference>'' @
     tick ''<ds:Reference URI=`#'' @ ki @ tick ''`>'' @ digest_xml key_info_digest @ ''</ds:Reference>'' @
     tick ''<ds:Reference Type=`'' @ signed_properties_type @ tick ''` URI=`#'' @ sp @ tick ''`>'' @
     digest_xml properties_digest @ ''</ds:Reference></ds:SignedInfo>''"

definition signature_xml :: "string \<Rightarrow> string \<Rightarrow> string \<Rightarrow> string \<Rightarrow> string \<Rightarrow> string" where
  "signature_xml i signed_info signature_value key_info signed_properties =
     tick ''<ds:Signature xmlns:ds=`'' @ ns_ds @ tick ''` Id=`'' @ i @ tick ''`>'' @ signed_info @
     tick ''<ds:SignatureValue Id=`'' @ i @ tick ''-sigvalue`>'' @ signature_value @ ''</ds:SignatureValue>'' @ key_info @
     tick ''<ds:Object><xades:QualifyingProperties xmlns:xades=`'' @ ns_xades @ tick ''` Target=`#'' @ i @ tick ''`>'' @
     signed_properties @ ''</xades:QualifyingProperties></ds:Object></ds:Signature>''"

definition c14n_digest :: "crypto_lib \<Rightarrow> string \<Rightarrow> crypto_error + string" where
  "c14n_digest L xml = bind_ok (canonicalize_xml (l_tokens L) xml) (\<lambda>c. Inr (sha256_b64 L c))"

text \<open>\<open>SignedInfo\<close> and what is signed: its canonical form with the namespaces it inherits.\<close>

definition xades_signed_info ::
  "crypto_lib \<Rightarrow> string \<Rightarrow> scope \<Rightarrow> string \<Rightarrow> string \<Rightarrow> string \<Rightarrow> crypto_error + string \<times> string" where
  "xades_signed_info L xml scope i key_info properties =
     (let signature_scope = btree_insert ''ds'' ns_ds scope;
          properties_scope = btree_insert ''xades'' ns_xades signature_scope
      in bind_ok (c14n_digest L (replace_str signature_placeholder [] xml)) (\<lambda>document_digest.
         bind_ok (c14n_digest L (with_namespaces key_info signature_scope)) (\<lambda>key_info_digest.
         bind_ok (c14n_digest L (with_namespaces properties properties_scope)) (\<lambda>properties_digest.
         let signed_info = signed_info_xml i document_digest (i @ ''-keyinfo'') key_info_digest
                             (i @ ''-signedprops'') properties_digest
         in bind_ok (canonicalize_xml (l_tokens L) (with_namespaces signed_info signature_scope)) (\<lambda>c.
            Inr (signed_info, c))))))"

text \<open>The last steps, with the fresh identifier and the time.\<close>

definition xades_finish ::
  "crypto_lib \<Rightarrow> 'db world certificate_provider \<Rightarrow> string \<Rightarrow> string \<Rightarrow> certificate_info \<Rightarrow> scope \<Rightarrow> uuid \<Rightarrow> instant \<Rightarrow>
   ('db world, string) crypto_io" where
  "xades_finish L provider xml key_ref cert scope u now =
     (let i = ''xmldsig-'' @ uuid_string u;
          key_info = key_info_xml (i @ ''-keyinfo'') (ci_der_base64 cert);
          properties = signed_properties_xml (i @ ''-signedprops'') (l_colombia_time L now) cert
      in io_bind (io_lift (xades_signed_info L xml scope i key_info properties)) (\<lambda>(signed_info, c).
         io_bind (sign_rsa_sha256 provider key_ref c) (\<lambda>value.
         io_return (replace_str signature_placeholder
           (signature_xml i signed_info (l_b64 L value) key_info properties) xml))))"

definition xades_sign ::
  "crypto_lib \<Rightarrow> 'db world certificate_provider \<Rightarrow> string \<Rightarrow> string \<Rightarrow> ('db world, string) crypto_io" where
  "xades_sign L provider xml key_ref =
     (if count_matches signature_placeholder xml \<noteq> 1
      then io_fail (Xml_error ''The document must contain exactly one signature placeholder'')
      else
        io_bind (get_certificate provider key_ref) (\<lambda>der.
        io_bind (io_lift (certificate_info_of L der)) (\<lambda>cert.
        io_bind (io_lift (namespaces_in_scope_at (l_tokens L) xml signature_placeholder)) (\<lambda>scope w.
          case new_uuid w of (u, v) \<Rightarrow> xades_finish L provider xml key_ref cert scope u (clock v) v))))"

text \<open>\<open>sign_document\<close> of \<open>lib.rs\<close>.\<close>

definition sign_document ::
  "crypto_lib \<Rightarrow> string \<Rightarrow> 'db world certificate_provider \<Rightarrow> string \<Rightarrow> ('db world, string) crypto_io" where
  "sign_document L xml provider key_ref = xades_sign L provider xml key_ref"

section \<open>wssec.rs\<close>

definition wsse_security_placeholder :: string where
  "wsse_security_placeholder = ''<!-- WSSE_SECURITY -->''"
definition signature_mark :: string where "signature_mark = ''<!-- WSSE_SIGNATURE -->''"
definition alg_exc_c14n :: string where "alg_exc_c14n = ''http://www.w3.org/2001/10/xml-exc-c14n#''"
definition ns_wsse :: string where
  "ns_wsse = ''http://docs.oasis-open.org/wss/2004/01/oasis-200401-wss-wssecurity-secext-1.0.xsd''"
definition ns_wsu :: string where
  "ns_wsu = ''http://docs.oasis-open.org/wss/2004/01/oasis-200401-wss-wssecurity-utility-1.0.xsd''"
definition x509_token_type :: string where
  "x509_token_type = ''http://docs.oasis-open.org/wss/2004/01/oasis-200401-wss-x509-token-profile-1.0#X509v3''"
definition base64_encoding :: string where
  "base64_encoding = ''http://docs.oasis-open.org/wss/2004/01/oasis-200401-wss-soap-message-security-1.0#Base64Binary''"

text \<open>\<open>Duration::minutes(5)\<close>; instants are in nanoseconds.\<close>

definition timestamp_ttl :: int where "timestamp_ttl = 5 * 60 * 1000000000"

definition check_prefixes :: "scope \<Rightarrow> crypto_error + unit" where
  "check_prefixes scope =
     (case find (\<lambda>(p, ns). map_of scope p \<noteq> Some ns) [(''wsse'', ns_wsse), (''wsu'', ns_wsu)] of
        Some (p, ns) \<Rightarrow>
          Inl (Xml_error (''The SOAP envelope must declare xmlns:'' @ p @ tick ''=`'' @ ns @ tick ''`''))
      | None \<Rightarrow> Inr ())"

definition timestamp_xml :: "crypto_lib \<Rightarrow> string \<Rightarrow> instant \<Rightarrow> string" where
  "timestamp_xml L suffix now =
     tick ''<wsu:Timestamp wsu:Id=`TS-'' @ suffix @ tick ''`><wsu:Created>'' @ l_utc_millis L now @
     ''</wsu:Created><wsu:Expires>'' @ l_utc_millis L (now + timestamp_ttl) @ ''</wsu:Expires></wsu:Timestamp>''"

definition token_xml :: "string \<Rightarrow> string \<Rightarrow> string" where
  "token_xml token_id cert =
     tick ''<wsse:BinarySecurityToken EncodingType=`'' @ base64_encoding @ tick ''` ValueType=`'' @ x509_token_type @
     tick ''` wsu:Id=`'' @ token_id @ tick ''`>'' @ cert @ ''</wsse:BinarySecurityToken>''"

definition soap_reference :: "crypto_lib \<Rightarrow> string \<Rightarrow> located \<Rightarrow> crypto_error + string" where
  "soap_reference L envelope = (\<lambda>(i, begins, ends).
     bind_ok (namespaces_in_scope_before (l_tokens L) envelope begins) (\<lambda>scope.
     bind_ok (canonicalize_xml_exclusive (l_tokens L)
       (with_namespaces (take (ends - begins) (drop begins envelope)) scope) []) (\<lambda>c.
     Inr (tick ''<ds:Reference URI=`#'' @ i @ tick ''`><ds:Transforms><ds:Transform Algorithm=`'' @ alg_exc_c14n @
          tick ''`/></ds:Transforms>'' @ digest_xml (sha256_b64 L c) @ ''</ds:Reference>''))))"

fun soap_references :: "crypto_lib \<Rightarrow> string \<Rightarrow> located list \<Rightarrow> crypto_error + string" where
  "soap_references L envelope [] = Inr []"
| "soap_references L envelope (l # ls) =
     bind_ok (soap_reference L envelope l) (\<lambda>r. bind_ok (soap_references L envelope ls) (\<lambda>rs. Inr (r @ rs)))"

definition soap_signed_info_xml :: "string \<Rightarrow> string" where
  "soap_signed_info_xml references =
     tick ''<ds:SignedInfo><ds:CanonicalizationMethod Algorithm=`'' @ alg_exc_c14n @
     tick ''`/><ds:SignatureMethod Algorithm=`'' @ alg_rsa_sha256 @ tick ''`/>'' @ references @ ''</ds:SignedInfo>''"

definition soap_signature_xml :: "string \<Rightarrow> string \<Rightarrow> string \<Rightarrow> string \<Rightarrow> string" where
  "soap_signature_xml suffix signed_info signature_value token_id =
     tick ''<ds:Signature xmlns:ds=`'' @ ns_ds @ tick ''` Id=`SIG-'' @ suffix @ tick ''`>'' @ signed_info @
     ''<ds:SignatureValue>'' @ signature_value @ tick ''</ds:SignatureValue><ds:KeyInfo Id=`KI-'' @ suffix @ tick ''`>'' @
     tick ''<wsse:SecurityTokenReference wsu:Id=`STR-'' @ suffix @ tick ''`><wsse:Reference URI=`#'' @ token_id @
     tick ''` ValueType=`'' @ x509_token_type @ tick ''`/></wsse:SecurityTokenReference></ds:KeyInfo></ds:Signature>''"

definition soap_signed_info ::
  "crypto_lib \<Rightarrow> string \<Rightarrow> string \<Rightarrow> scope \<Rightarrow> crypto_error + string \<times> string" where
  "soap_signed_info L envelope timestamp scope =
     (let with_timestamp = replace_str wsse_security_placeholder timestamp envelope
      in bind_ok (elements_with_prefixed_id (l_tokens L) with_timestamp) (\<lambda>located.
         bind_ok (soap_references L with_timestamp located) (\<lambda>references.
         let signed_info = soap_signed_info_xml references
         in bind_ok (canonicalize_xml_exclusive (l_tokens L)
              (with_namespaces signed_info (btree_insert ''ds'' ns_ds scope)) []) (\<lambda>c.
            Inr (signed_info, c)))))"

definition soap_finish ::
  "crypto_lib \<Rightarrow> 'db world certificate_provider \<Rightarrow> string \<Rightarrow> string \<Rightarrow> string \<Rightarrow> scope \<Rightarrow> uuid \<Rightarrow> instant \<Rightarrow>
   ('db world, string) crypto_io" where
  "soap_finish L provider envelope key_ref cert scope u now =
     (let suffix = hex_digits 32 u;
          token_id = ''X509-'' @ suffix;
          timestamp = timestamp_xml L suffix now;
          token = token_xml token_id cert
      in io_bind (io_lift (soap_signed_info L envelope timestamp scope)) (\<lambda>(signed_info, c).
         io_bind (sign_rsa_sha256 provider key_ref c) (\<lambda>value.
         io_return (replace_str signature_mark
           (soap_signature_xml suffix signed_info (l_b64 L value) token_id)
           (replace_str wsse_security_placeholder (timestamp @ token @ signature_mark) envelope)))))"

definition sign_soap_envelope ::
  "crypto_lib \<Rightarrow> string \<Rightarrow> 'db world certificate_provider \<Rightarrow> string \<Rightarrow> ('db world, string) crypto_io" where
  "sign_soap_envelope L envelope provider key_ref =
     (if count_matches wsse_security_placeholder envelope \<noteq> 1
      then io_fail (Xml_error ''The SOAP envelope must contain exactly one WS-Security placeholder'')
      else
        io_bind (io_lift (namespaces_in_scope_at (l_tokens L) envelope wsse_security_placeholder)) (\<lambda>scope.
        io_bind (io_lift (check_prefixes scope)) (\<lambda>_.
        io_bind (get_certificate provider key_ref) (\<lambda>cert w.
          case new_uuid w of (u, v) \<Rightarrow> soap_finish L provider envelope key_ref cert scope u (clock v) v))))"

end
