(* ===== verification/Tenant_Signing.thy ===== *)
theory Tenant_Signing
  imports Xml_Signing Api_Server Pg_Invariants
begin

text \<open>
  \<open>crypto-signer/src/vault.rs\<close>, \<open>provider.rs\<close> and \<open>signer.rs\<close>: the client of HashiCorp Vault, the three
  providers of certificates, and the signer of the tenants. HTTP, JSON decoding and the RSA operations
  are parameters (\<open>vault_io\<close>, \<open>rsa_lib\<close>); an HTTP exchange is a function of the time.
\<close>

section \<open>vault.rs\<close>

record vault_client =
  vc_address :: string
  vc_kv_mount :: string
  vc_transit_mount :: string

definition vault_segment :: "string \<Rightarrow> bool" where
  "vault_segment s \<longleftrightarrow> s \<noteq> [] \<and> s \<noteq> ''.'' \<and> s \<noteq> ''..'' \<and>
     list_all (\<lambda>c. is_ascii_alphanumeric c \<or> c \<in> {CHR ''-'', CHR ''_'', CHR ''.''}) s"

definition valid_path :: "string \<Rightarrow> bool" where
  "valid_path p \<longleftrightarrow> p \<noteq> [] \<and> list_all vault_segment (split_char CHR ''/'' p)"

text \<open>\<open>trim_end_matches('/')\<close>.\<close>

definition trim_end_slashes :: "string \<Rightarrow> string" where
  "trim_end_slashes s = rev (dropWhile (\<lambda>c. c = CHR ''/'') (rev s))"

record vault_io =
  v_header_ok :: "string \<Rightarrow> bool"
  v_build :: "string + unit"
  v_get :: "instant \<Rightarrow> string \<Rightarrow> string + nat \<times> string"
  v_sign :: "instant \<Rightarrow> string \<Rightarrow> string \<Rightarrow> string + nat \<times> string"
  v_status_text :: "nat \<Rightarrow> string"
  v_kv_data :: "string \<Rightarrow> string + json"
  v_transit_data :: "string \<Rightarrow> string + string"

definition vault_client_new :: "vault_io \<Rightarrow> string \<Rightarrow> string \<Rightarrow> crypto_error + vault_client" where
  "vault_client_new V address token =
     (if \<not> v_header_ok V token then Inl (Vault_error ''Invalid Vault Token characters'')
      else bind_ok (map_err (\<lambda>e. Vault_error (''Failed to build HTTP client: '' @ e)) (v_build V)) (\<lambda>_.
        Inr \<lparr>vc_address = trim_end_slashes address, vc_kv_mount = ''secret'', vc_transit_mount = ''transit''\<rparr>))"

definition with_mounts :: "string \<Rightarrow> string \<Rightarrow> vault_client \<Rightarrow> crypto_error + vault_client" where
  "with_mounts kv transit c =
     (if \<not> valid_path kv \<or> \<not> valid_path transit then Inl (Vault_error ''Invalid Vault mount path'')
      else Inr (c\<lparr>vc_kv_mount := kv, vc_transit_mount := transit\<rparr>))"

definition vault_checked :: "vault_io \<Rightarrow> string + nat \<times> string \<Rightarrow> crypto_error + string" where
  "vault_checked V answer =
     bind_ok (map_err (\<lambda>e. Vault_error (''Network error: '' @ e)) answer) (\<lambda>(status, body).
       if 200 \<le> status \<and> status < 300 then Inr body
       else Inl (Vault_error (''Vault returned status '' @ v_status_text V status @ '': '' @
              concat (take 300 (utf8_chars body)))))"

definition json_failed :: "string \<Rightarrow> crypto_error" where
  "json_failed e = Vault_error (''Failed to parse JSON response: '' @ e)"

definition secret_url :: "vault_client \<Rightarrow> string \<Rightarrow> string" where
  "secret_url c path = vc_address c @ ''/v1/'' @ vc_kv_mount c @ ''/data/'' @ path"

definition read_secret :: "vault_io \<Rightarrow> vault_client \<Rightarrow> string \<Rightarrow> instant \<Rightarrow> crypto_error + json" where
  "read_secret V c path now =
     (if \<not> valid_path path
      then Inl (Vault_error (''Invalid Vault secret path '' @ [CHR 0x27] @ path @ [CHR 0x27]))
      else bind_ok (vault_checked V (v_get V now (secret_url c path))) (\<lambda>body.
           map_err json_failed (v_kv_data V body)))"

text \<open>The signature of Transit: \<open>vault:v\<close>, the version of the key, a colon and the Base64 text.\<close>

definition transit_signature :: "string \<Rightarrow> string option" where
  "transit_signature s =
     Option.bind (strip_prefix ''vault:v'' s) (\<lambda>rest.
     Option.bind (split_once CHR '':'' rest) (\<lambda>(version, signature).
       if version \<noteq> [] \<and> list_all is_ascii_digit version then Some signature else None))"

definition transit_sign ::
  "crypto_lib \<Rightarrow> vault_io \<Rightarrow> vault_client \<Rightarrow> string \<Rightarrow> string \<Rightarrow> instant \<Rightarrow> crypto_error + string" where
  "transit_sign L V c key_name data now =
     (if \<not> valid_path key_name \<or> CHR ''/'' \<in> set key_name
      then Inl (Vault_error (''Invalid Transit key name '' @ [CHR 0x27] @ key_name @ [CHR 0x27]))
      else
        bind_ok (vault_checked V (v_sign V now
          (vc_address c @ ''/v1/'' @ vc_transit_mount c @ ''/sign/'' @ key_name) (l_b64 L data))) (\<lambda>body.
        bind_ok (map_err json_failed (v_transit_data V body)) (\<lambda>signature.
        bind_ok (ok_or (Vault_error ''Unexpected Transit signature format'') (transit_signature signature)) (\<lambda>encoded.
        map_err (\<lambda>e. Vault_error (''Transit signature is not valid Base64: '' @ e)) (l_b64_decode L encoded)))))"

section \<open>provider.rs\<close>

text \<open>
  \<open>str::lines\<close>: a line ends at a line feed, with a carriage return before it or not; what follows the last
  line feed is a line unless it is empty.
\<close>

definition text_lines :: "string \<Rightarrow> string list" where
  "text_lines s =
     (let ls = split_char CHR 0x0A s
      in map (\<lambda>l. if ends_with [CHR 0x0D] l then butlast l else l) (butlast ls) @
         (if last ls = [] then [] else [last ls]))"

definition pem_body :: "string \<Rightarrow> string" where
  "pem_body pem = concat (filter (\<lambda>l. \<not> starts_with ''-----'' l) (map trim (text_lines pem)))"

definition certificate_from_pem :: "crypto_lib \<Rightarrow> string \<Rightarrow> crypto_error + string" where
  "certificate_from_pem L pem =
     bind_ok (map_err (\<lambda>e. Provider_error (''Invalid certificate PEM: '' @ e)) (l_b64_decode L (pem_body pem))) (\<lambda>der.
     bind_ok (map_err (\<lambda>e. Provider_error (''Invalid X.509 certificate: '' @ e)) (l_x509 L der)) (\<lambda>_.
     Inr (pem_body pem)))"

text \<open>\<open>ring\<close>: decoding a private key and signing with it (\<open>None\<close> when that fails).\<close>

record 'k rsa_lib =
  rsa_from_der :: "string \<Rightarrow> string + 'k"
  rsa_from_pkcs8 :: "string \<Rightarrow> string + 'k"
  rsa_sign :: "'k \<Rightarrow> string \<Rightarrow> string option"

definition parse_private_key :: "crypto_lib \<Rightarrow> 'k rsa_lib \<Rightarrow> string \<Rightarrow> crypto_error + 'k" where
  "parse_private_key L R pem =
     bind_ok (map_err (\<lambda>e. Provider_error (''Invalid private key PEM: '' @ e)) (l_b64_decode L (pem_body pem))) (\<lambda>der.
     map_err (\<lambda>e. Provider_error (''Unsupported RSA private key: '' @ e))
       (if contains_str ''BEGIN RSA PRIVATE KEY'' pem then rsa_from_der R der else rsa_from_pkcs8 R der))"

definition sign_in_process :: "'k rsa_lib \<Rightarrow> 'k \<Rightarrow> string \<Rightarrow> crypto_error + string" where
  "sign_in_process R key data = ok_or (Signing_error ''RSA signing failed'') (rsa_sign R key data)"

record 'k local_pair =
  lp_certificate :: string
  lp_key :: 'k

definition local_from_pem :: "crypto_lib \<Rightarrow> 'k rsa_lib \<Rightarrow> string \<Rightarrow> string \<Rightarrow> crypto_error + 'k local_pair" where
  "local_from_pem L R certificate_pem private_key_pem =
     bind_ok (certificate_from_pem L certificate_pem) (\<lambda>c.
     bind_ok (parse_private_key L R private_key_pem) (\<lambda>k. Inr \<lparr>lp_certificate = c, lp_key = k\<rparr>))"

definition local_provider :: "'k rsa_lib \<Rightarrow> 'k local_pair \<Rightarrow> 'w certificate_provider" where
  "local_provider R p =
     \<lparr>get_certificate = (\<lambda>key_ref. io_return (lp_certificate p)),
      sign_rsa_sha256 = (\<lambda>key_ref data. io_lift (sign_in_process R (lp_key p) data))\<rparr>"

definition secret_field :: "json \<Rightarrow> string \<Rightarrow> crypto_error + string" where
  "secret_field secret field =
     ok_or (Provider_error (''Field '' @ [CHR 0x27] @ field @ [CHR 0x27] @ '' not found in Vault secret''))
       (case secret of J_obj m \<Rightarrow> obj_str field m | _ \<Rightarrow> None)"

definition kv_provider ::
  "crypto_lib \<Rightarrow> vault_io \<Rightarrow> 'k rsa_lib \<Rightarrow> ('w \<Rightarrow> instant) \<Rightarrow> vault_client \<Rightarrow> 'w certificate_provider" where
  "kv_provider L V R now c =
     \<lparr>get_certificate = (\<lambda>key_ref w. io_lift
        (bind_ok (read_secret V c key_ref (now w)) (\<lambda>secret.
         bind_ok (secret_field secret ''certificate'') (certificate_from_pem L))) w),
      sign_rsa_sha256 = (\<lambda>key_ref data w. io_lift
        (bind_ok (read_secret V c key_ref (now w)) (\<lambda>secret.
         bind_ok (secret_field secret ''private_key'') (\<lambda>pem.
         bind_ok (parse_private_key L R pem) (\<lambda>key. sign_in_process R key data)))) w)\<rparr>"

record transit_identity =
  ti_certificate :: string
  ti_transit_key :: string

text \<open>\<open>IDENTITY_TTL\<close>, five minutes, in nanoseconds.\<close>

definition identity_ttl :: int where "identity_ttl = 300 * 1000000000"

text \<open>
  The cache of the Transit provider: when an identity was read, and the identity. Where the state \<open>'w\<close> of
  the operations keeps it is a parameter.
\<close>

type_synonym identity_cache = "string \<Rightarrow> (instant \<times> transit_identity) option"

record 'w cache_slot =
  slot_now :: "'w \<Rightarrow> instant"
  slot_get :: "'w \<Rightarrow> identity_cache"
  slot_put :: "identity_cache \<Rightarrow> 'w \<Rightarrow> 'w"

definition fetched_identity :: "crypto_lib \<Rightarrow> vault_io \<Rightarrow> vault_client \<Rightarrow> string \<Rightarrow> instant \<Rightarrow> crypto_error + transit_identity" where
  "fetched_identity L V c key_ref now =
     bind_ok (read_secret V c key_ref now) (\<lambda>secret.
     bind_ok (secret_field secret ''certificate'') (\<lambda>pem.
     bind_ok (certificate_from_pem L pem) (\<lambda>certificate.
     bind_ok (secret_field secret ''transit_key'') (\<lambda>key.
     Inr \<lparr>ti_certificate = certificate, ti_transit_key = key\<rparr>))))"

definition identity ::
  "crypto_lib \<Rightarrow> vault_io \<Rightarrow> 'w cache_slot \<Rightarrow> vault_client \<Rightarrow> string \<Rightarrow> ('w, transit_identity) crypto_io" where
  "identity L V S c key_ref w =
     (case slot_get S w key_ref of
        Some (fetched, i) \<Rightarrow>
          if slot_now S w - fetched < identity_ttl then (Inr i, w)
          else (case fetched_identity L V c key_ref (slot_now S w) of
                  Inl e \<Rightarrow> (Inl e, w)
                | Inr j \<Rightarrow> (Inr j, slot_put S ((slot_get S w)(key_ref \<mapsto> (slot_now S w, j))) w))
      | None \<Rightarrow>
          (case fetched_identity L V c key_ref (slot_now S w) of
             Inl e \<Rightarrow> (Inl e, w)
           | Inr j \<Rightarrow> (Inr j, slot_put S ((slot_get S w)(key_ref \<mapsto> (slot_now S w, j))) w)))"

definition transit_provider ::
  "crypto_lib \<Rightarrow> vault_io \<Rightarrow> 'w cache_slot \<Rightarrow> vault_client \<Rightarrow> 'w certificate_provider" where
  "transit_provider L V S c =
     \<lparr>get_certificate = (\<lambda>key_ref.
        io_bind (identity L V S c key_ref) (\<lambda>i. io_return (ti_certificate i))),
      sign_rsa_sha256 = (\<lambda>key_ref data.
        io_bind (identity L V S c key_ref) (\<lambda>i w. io_lift (transit_sign L V c (ti_transit_key i) data (slot_now S w)) w))\<rparr>"

section \<open>signer.rs\<close>

datatype key_mode = PerTenantVault | SharedLocal

text \<open>The providers \<open>SignerConfig::from_env\<close> chooses from, and the operations of each.\<close>

datatype 'k provider_kind =
    Vault_transit vault_client
  | Vault_kv vault_client
  | Local_key "'k local_pair"

fun provider_of ::
  "crypto_lib \<Rightarrow> vault_io \<Rightarrow> 'k rsa_lib \<Rightarrow> 'w cache_slot \<Rightarrow> 'k provider_kind \<Rightarrow> 'w certificate_provider" where
  "provider_of L V R S (Vault_transit c) = transit_provider L V S c"
| "provider_of L V R S (Vault_kv c) = kv_provider L V R (slot_now S) c"
| "provider_of L V R S (Local_key p) = local_provider R p"

definition no_provider :: crypto_error where
  "no_provider = Provider_error (''No signing provider configured: set VAULT_ADDR and VAULT_TOKEN, '' @
     ''or SIGNER_CERT_PATH and SIGNER_KEY_PATH'')"

definition env_or :: "environment \<Rightarrow> string \<Rightarrow> string \<Rightarrow> string" where
  "env_or env name fallback = (case optional_env env name of None \<Rightarrow> fallback | Some v \<Rightarrow> v)"

definition vault_provider_from_env :: "vault_io \<Rightarrow> environment \<Rightarrow> string \<Rightarrow> string \<Rightarrow> crypto_error + 'k provider_kind" where
  "vault_provider_from_env V env address token =
     bind_ok (vault_client_new V address token) (\<lambda>fresh.
     bind_ok (with_mounts (env_or env ''VAULT_KV_MOUNT'' ''secret'')
                (env_or env ''VAULT_TRANSIT_MOUNT'' ''transit'') fresh) (\<lambda>c.
       case optional_env env ''VAULT_SIGNING_MODE'' of
         None \<Rightarrow> Inr (Vault_transit c)
       | Some mode \<Rightarrow>
           if mode = ''transit'' then Inr (Vault_transit c)
           else if mode = ''kv'' then Inr (Vault_kv c)
           else Inl (Provider_error (''Invalid VAULT_SIGNING_MODE '' @ [CHR 0x27] @ mode @ [CHR 0x27] @ '': use '' @
                  [CHR 0x27] @ ''transit'' @ [CHR 0x27] @ '' or '' @ [CHR 0x27] @ ''kv'' @ [CHR 0x27]))))"

definition read_key_file :: "(string \<Rightarrow> string + string) \<Rightarrow> string \<Rightarrow> crypto_error + string" where
  "read_key_file read path = map_err (\<lambda>e. Provider_error (''Cannot read '' @ path @ '': '' @ e)) (read path)"

definition signer_from_env ::
  "crypto_lib \<Rightarrow> vault_io \<Rightarrow> 'k rsa_lib \<Rightarrow> (string \<Rightarrow> string + string) \<Rightarrow> environment \<Rightarrow>
   crypto_error + 'k provider_kind \<times> key_mode" where
  "signer_from_env L V R read env =
     (case (optional_env env ''VAULT_ADDR'', optional_env env ''VAULT_TOKEN'') of
        (Some address, Some token) \<Rightarrow>
          bind_ok (vault_provider_from_env V env address token) (\<lambda>p. Inr (p, PerTenantVault))
      | _ \<Rightarrow>
          (case (optional_env env ''SIGNER_CERT_PATH'', optional_env env ''SIGNER_KEY_PATH'') of
             (Some cert_path, Some key_path) \<Rightarrow>
               bind_ok (read_key_file read cert_path) (\<lambda>cert.
               bind_ok (read_key_file read key_path) (\<lambda>key.
               bind_ok (local_from_pem L R cert key) (\<lambda>p. Inr (Local_key p, SharedLocal))))
           | _ \<Rightarrow> Inl no_provider))"

record 'w signer_config =
  sc_provider :: "'w certificate_provider"
  sc_mode :: key_mode

text \<open>The key of a tenant: its active certificate, unless that has expired, or the local pair.\<close>

definition key_ref ::
  "crypto_lib \<Rightarrow> 'db world signer_config \<Rightarrow> 'db world certificate_repository \<Rightarrow> uuid \<Rightarrow> ('db world, string) crypto_io" where
  "key_ref L cfg certs tenant =
     (case sc_mode cfg of
        SharedLocal \<Rightarrow> io_return ''local''
      | PerTenantVault \<Rightarrow>
          io_bind (io_map_err (\<lambda>e. Provider_error (''Certificate lookup failed: '' @ domain_error_display e))
            (find_active_certificate certs tenant)) (\<lambda>found.
          io_bind (io_lift (ok_or (Provider_error
            (''Tenant '' @ uuid_string tenant @ '' has no active certificate'')) found)) (\<lambda>c w.
            if c_expiration_date c \<le> clock w then
              (Inl (Provider_error (''Active certificate '' @ uuid_string (c_id c) @ '' of tenant '' @
                uuid_string tenant @ '' expired on '' @ l_utc_text L (c_expiration_date c))), w)
            else (Inr (c_vault_reference_path c), w))))"

definition config_sign_for_tenant ::
  "crypto_lib \<Rightarrow> 'db world signer_config \<Rightarrow> 'db world certificate_repository \<Rightarrow> uuid \<Rightarrow> string \<Rightarrow> ('db world, string) crypto_io" where
  "config_sign_for_tenant L cfg certs tenant xml =
     io_bind (key_ref L cfg certs tenant) (sign_document L xml (sc_provider cfg))"

definition config_sign_soap_for_tenant ::
  "crypto_lib \<Rightarrow> 'db world signer_config \<Rightarrow> 'db world certificate_repository \<Rightarrow> uuid \<Rightarrow> string \<Rightarrow> ('db world, string) crypto_io" where
  "config_sign_soap_for_tenant L cfg certs tenant envelope =
     io_bind (key_ref L cfg certs tenant) (sign_soap_envelope L envelope (sc_provider cfg))"

text \<open>\<open>TenantSigner\<close>, the port \<open>CryptoSigner\<close>.\<close>

definition tenant_signer ::
  "crypto_lib \<Rightarrow> 'db world signer_config \<Rightarrow> 'db world certificate_repository \<Rightarrow> 'db world crypto_signer" where
  "tenant_signer L cfg certs =
     \<lparr>sign_for_tenant = (\<lambda>tenant xml. io_map_err domain_of_crypto (config_sign_for_tenant L cfg certs tenant xml)),
      sign_soap_for_tenant = (\<lambda>tenant envelope.
        io_map_err domain_of_crypto (config_sign_soap_for_tenant L cfg certs tenant envelope))\<rparr>"

section \<open>The laws of the signer\<close>

text \<open>
  A provider works outside the store, and looking up a certificate only reads it. Then signing keeps the
  guarantee of the store, which is what the use cases ask of their signer.
\<close>

locale provider_port = guarantee A G
  for A :: "('db \<Rightarrow> 'db) \<Rightarrow> bool" and G :: "'db \<Rightarrow> 'db \<Rightarrow> bool" +
  fixes provider :: "'db world certificate_provider"
  assumes certificate_within: "World.within A G (get_certificate provider r)"
    and signature_within: "World.within A G (sign_rsa_sha256 provider r data)"

locale certificate_port = guarantee A G
  for A :: "('db \<Rightarrow> 'db) \<Rightarrow> bool" and G :: "'db \<Rightarrow> 'db \<Rightarrow> bool" +
  fixes certs :: "'db world certificate_repository"
  assumes find_certificate_within: "World.within A G (find_active_certificate certs t)"

locale tenant_signing = provider_port A G "sc_provider cfg" + certificate_port A G certs
  for A :: "('db \<Rightarrow> 'db) \<Rightarrow> bool" and G :: "'db \<Rightarrow> 'db \<Rightarrow> bool" and cfg :: "'db world signer_config"
    and certs :: "'db world certificate_repository" +
  fixes L :: crypto_lib
begin

lemma key_ref_within: "World.within A G (key_ref L cfg certs t)"
proof (cases "sc_mode cfg")
  case PerTenantVault
  have "World.within A G (\<lambda>w. if c_expiration_date c \<le> clock w then (Inl (e c), w) else (Inr (p c), w))" for c e p
    by (rule local) simp_all
  with PerTenantVault find_certificate_within show ?thesis
    unfolding key_ref_def by (auto intro!: bind map_err lift)
qed (simp add: key_ref_def return)

lemma with_uuid_within:
  assumes "\<And>u now. World.within A G (k u now)"
  shows "World.within A G (\<lambda>w. case new_uuid w of (u, v) \<Rightarrow> k u (clock v) v)"
proof (rule then_with[where k = "\<lambda>w u v. k u (clock v) v"])
  show "World.within A G (\<lambda>v. k u (clock v) v)" for u by (rule reading[where m = "k u"]) (rule assms)
qed (simp_all add: new_uuid_def)

lemma sign_document_within: "World.within A G (sign_document L xml (sc_provider cfg) r)"
  unfolding sign_document_def xades_sign_def xades_finish_def Let_def
  by (auto intro!: bind lift fail return certificate_within signature_within with_uuid_within)

lemma sign_soap_envelope_within: "World.within A G (sign_soap_envelope L x (sc_provider cfg) r)"
  unfolding sign_soap_envelope_def soap_finish_def Let_def
  by (auto intro!: bind lift fail return certificate_within signature_within with_uuid_within)

end

sublocale tenant_signing \<subseteq> signer_port A G "tenant_signer L cfg certs"
proof
  show "World.within A G (sign_for_tenant (tenant_signer L cfg certs) t x)" for t x
    unfolding tenant_signer_def config_sign_for_tenant_def
    by (auto intro: map_err bind key_ref_within sign_document_within)
  show "World.within A G (sign_soap_for_tenant (tenant_signer L cfg certs) t x)" for t x
    unfolding tenant_signer_def config_sign_soap_for_tenant_def
    by (auto intro: map_err bind key_ref_within sign_soap_envelope_within)
qed

section \<open>The signer over PostgreSQL\<close>

interpretation pg_certificate_port: certificate_port "obeys pg_guarantee" pg_guarantee pg_certificates
  by unfold_locales (simp add: pg_certificates_def pg_find_active_certificate_def store.read)

interpretation local_port: provider_port "obeys pg_guarantee" pg_guarantee "local_provider R p" for R p
  by unfold_locales (simp_all add: local_provider_def store.lift store.return)

interpretation kv_port: provider_port "obeys pg_guarantee" pg_guarantee "kv_provider L V R clock c" for L V R c
  by unfold_locales (auto simp: kv_provider_def intro: store.local)

interpretation pg_local_signing: tenant_signing "obeys pg_guarantee" pg_guarantee
  "\<lparr>sc_provider = local_provider R p, sc_mode = mode\<rparr>" pg_certificates L for R p mode L
  by (simp add: tenant_signing_def local_port.provider_port_axioms pg_certificate_port.certificate_port_axioms)

interpretation pg_kv_signing: tenant_signing "obeys pg_guarantee" pg_guarantee
  "\<lparr>sc_provider = kv_provider L V R clock c, sc_mode = mode\<rparr>" pg_certificates L for L V R c mode
  by (simp add: tenant_signing_def kv_port.provider_port_axioms pg_certificate_port.certificate_port_axioms)

end
