(* ===== verification/Signature_Check.thy ===== *)
theory Signature_Check
  imports Tenant_Signing
begin

text \<open>
  \<open>crypto-signer/src/verify.rs\<close>: the verification of signatures. The cryptography is done by the
  program \<open>xmlsec1\<close> (\<open>xmlsec_io\<close>); the structure of the signature and the subject of the signer are read
  here. The namespace-aware tokenizer (\<open>quick_xml::NsReader\<close>) is a parameter: it gives the tokens with the
  namespace a name is bound to, local names, and the raw values of the attributes that can be read.
\<close>

section \<open>Tokens with namespaces\<close>

record ns_name =
  ns_bound :: "string option"
  ns_local :: string

record ns_tag = ns_name +
  ns_attributes :: "(string \<times> string) list"

datatype ns_token =
    Ns_start ns_tag
  | Ns_empty ns_tag
  | Ns_end ns_name
  | Ns_text string
  | Ns_other

type_synonym ns_reader = "string \<Rightarrow> ns_token list \<times> string option"

definition is_ds :: "('a) ns_name_scheme \<Rightarrow> string \<Rightarrow> bool" where
  "is_ds n local \<longleftrightarrow> ns_bound n = Some ns_ds \<and> ns_local n = local"

definition invalid_xml :: "string \<Rightarrow> crypto_error" where
  "invalid_xml e = Xml_error (''Invalid XML: '' @ e)"

section \<open>The structure of the signature\<close>

record structure_scan =
  sg_signatures :: nat
  sg_path :: "string list"
  sg_whole :: bool
  sg_in_whole :: bool
  sg_enveloped :: bool

definition path_name :: "('a) ns_name_scheme \<Rightarrow> string" where
  "path_name n = (if ns_bound n = Some ns_ds then ''ds:'' @ ns_local n else ns_local n)"

definition innermost :: "string list \<Rightarrow> string option" where
  "innermost path = (if path = [] then None else Some (last path))"

text \<open>A start tag or an empty tag.\<close>

definition scan_tag :: "ns_tag \<Rightarrow> structure_scan \<Rightarrow> structure_scan" where
  "scan_tag t g =
     (let g1 = (if is_ds t ''Signature'' then g\<lparr>sg_signatures := sg_signatures g + 1\<rparr> else g);
          g2 = (if is_ds t ''Reference'' \<and> innermost (sg_path g1) = Some ''ds:SignedInfo''
                then g1\<lparr>sg_in_whole := map_of (ns_attributes t) ''URI'' = Some []\<rparr> else g1)
      in if is_ds t ''Transform'' \<and> sg_in_whole g2 \<and> map_of (ns_attributes t) ''Algorithm'' = Some alg_enveloped
         then g2\<lparr>sg_enveloped := True\<rparr> else g2)"

definition scan_end :: "structure_scan \<Rightarrow> structure_scan" where
  "scan_end g =
     (let h = (if innermost (sg_path g) = Some ''ds:Reference''
               then g\<lparr>sg_whole := sg_whole g \<or> (sg_in_whole g \<and> sg_enveloped g),
                      sg_in_whole := False, sg_enveloped := False\<rparr>
               else g)
      in h\<lparr>sg_path := butlast (sg_path h)\<rparr>)"

fun scan_step :: "ns_token \<Rightarrow> structure_scan \<Rightarrow> structure_scan" where
  "scan_step (Ns_start t) g =
     (let h = scan_tag t g in h\<lparr>sg_path := sg_path h @ [path_name t]\<rparr>)"
| "scan_step (Ns_empty t) g = scan_tag t g"
| "scan_step (Ns_end n) g = scan_end g"
| "scan_step (Ns_text s) g = g"
| "scan_step Ns_other g = g"

definition scan_new :: structure_scan where
  "scan_new = \<lparr>sg_signatures = 0, sg_path = [], sg_whole = False, sg_in_whole = False, sg_enveloped = False\<rparr>"

definition not_covering :: crypto_error where
  "not_covering = Signing_error
     (tick ''The signature does not cover the whole document (URI=`` with enveloped transform)'')"

definition check_signature_structure :: "ns_reader \<Rightarrow> string \<Rightarrow> crypto_error + unit" where
  "check_signature_structure reader xml =
     (case reader xml of (ts, stop) \<Rightarrow>
        case stop of
          Some e \<Rightarrow> Inl (invalid_xml e)
        | None \<Rightarrow>
            (let g = fold scan_step ts scan_new
             in if sg_signatures g = 0 then Inl (Signing_error ''The document is not signed'')
                else if sg_signatures g = 1 then (if sg_whole g then Inr () else Inl not_covering)
                else Inl (Signing_error (''The document contains '' @ nat_dec (sg_signatures g) @
                       '' signatures; exactly one is required''))))"

section \<open>The subject of the signer\<close>

record subject_scan =
  ss_in_key_info :: bool
  ss_in_certificate :: bool
  ss_encoded :: "string list"

fun subject_step :: "ns_token \<Rightarrow> subject_scan \<Rightarrow> subject_scan" where
  "subject_step (Ns_start t) g =
     (if is_ds t ''KeyInfo'' then g\<lparr>ss_in_key_info := True\<rparr>
      else if ss_in_key_info g \<and> is_ds t ''X509Certificate''
      then g\<lparr>ss_in_certificate := True, ss_encoded := ss_encoded g @ [[]]\<rparr> else g)"
| "subject_step (Ns_end n) g =
     (if is_ds n ''KeyInfo'' then g\<lparr>ss_in_key_info := False\<rparr>
      else if is_ds n ''X509Certificate'' then g\<lparr>ss_in_certificate := False\<rparr> else g)"
| "subject_step (Ns_text s) g =
     (if ss_in_certificate g \<and> ss_encoded g \<noteq> []
      then g\<lparr>ss_encoded := butlast (ss_encoded g) @ [last (ss_encoded g) @ s]\<rparr> else g)"
| "subject_step (Ns_empty t) g = g"
| "subject_step Ns_other g = g"

definition read_key_certificate :: "crypto_lib \<Rightarrow> string \<Rightarrow> crypto_error + string \<times> string" where
  "read_key_certificate L encoded =
     (let compact = concat (filter (\<lambda>ch. \<not> is_whitespace ch) (utf8_chars encoded))
      in bind_ok (map_err (\<lambda>e. Signing_error (''KeyInfo certificate is not valid Base64: '' @ e)) (l_b64_decode L compact)) (\<lambda>der.
         bind_ok (map_err (\<lambda>e. Signing_error (''KeyInfo certificate is not valid X.509: '' @ e)) (l_x509 L der)) (\<lambda>x.
         Inr (cert_subject x, cert_issuer x))))"

fun read_key_certificates :: "crypto_lib \<Rightarrow> string list \<Rightarrow> crypto_error + (string \<times> string) list" where
  "read_key_certificates L [] = Inr []"
| "read_key_certificates L (c # cs) =
     bind_ok (read_key_certificate L c) (\<lambda>n. bind_ok (read_key_certificates L cs) (\<lambda>ns. Inr (n # ns)))"

text \<open>The subjects that issued no other certificate of the list.\<close>

definition leaf_subjects :: "(string \<times> string) list \<Rightarrow> string list" where
  "leaf_subjects names =
     map fst (filter (\<lambda>(subject, _). \<not> list_ex (\<lambda>(other, issuer). issuer = subject \<and> other \<noteq> subject) names) names)"

definition signer_subject_of :: "crypto_lib \<Rightarrow> ns_reader \<Rightarrow> string \<Rightarrow> crypto_error + string" where
  "signer_subject_of L reader xml =
     (case reader xml of (ts, stop) \<Rightarrow>
        case stop of
          Some e \<Rightarrow> Inl (invalid_xml e)
        | None \<Rightarrow>
            bind_ok (read_key_certificates L (ss_encoded (fold subject_step ts
              \<lparr>ss_in_key_info = False, ss_in_certificate = False, ss_encoded = []\<rparr>))) (\<lambda>names.
              case leaf_subjects names of
                [leaf] \<Rightarrow> Inr leaf
              | [] \<Rightarrow> Inl (Signing_error ''The signature does not include the signer certificate'')
              | _ \<Rightarrow> Inl (Signing_error ''The signature includes more than one end-entity certificate'')))"

section \<open>xmlsec1\<close>

text \<open>
  What the verifier asks of the system: starting a program with arguments gives an error, or its success
  and what it wrote to the error output; files and directories.
\<close>

record xmlsec_io =
  xs_run :: "string \<Rightarrow> string list \<Rightarrow> string + bool \<times> string"
  xs_is_file :: "string \<Rightarrow> bool"
  xs_temp_dir :: string
  xs_create_dir :: "string \<Rightarrow> string + unit"
  xs_write :: "string \<Rightarrow> string \<Rightarrow> string + unit"

record xml_verifier =
  xv_binary :: string
  xv_trusted_ca_pem :: string
  xv_intermediates_pem :: "string option"

definition verifier_new :: "string \<Rightarrow> xml_verifier" where
  "verifier_new ca = \<lparr>xv_binary = ''xmlsec1'', xv_trusted_ca_pem = ca, xv_intermediates_pem = None\<rparr>"

definition max_document_bytes :: nat where "max_document_bytes = 10 * 1024 * 1024"

definition check_ready :: "xmlsec_io \<Rightarrow> xml_verifier \<Rightarrow> crypto_error + unit" where
  "check_ready X v =
     bind_ok (map_err (\<lambda>e. Provider_error (''xmlsec1 not available: '' @ e)) (xs_run X (xv_binary v) [''--version''])) (\<lambda>_.
       if \<not> xs_is_file X (xv_trusted_ca_pem v)
       then Inl (Provider_error (''Trusted CA bundle not found: '' @ xv_trusted_ca_pem v)) else Inr ())"

definition xmlsec_arguments :: "xml_verifier \<Rightarrow> string \<Rightarrow> string list" where
  "xmlsec_arguments v file =
     [''--verify'', ''--enabled-reference-uris'', ''empty,same-doc'', ''--enabled-key-data'', ''x509'',
      ''--trusted-pem'', xv_trusted_ca_pem v, ''--id-attr:Id'', ns_ds @ '':KeyInfo'',
      ''--id-attr:Id'', ''http://uri.etsi.org/01903/v1.3.2#:SignedProperties'',
      ''--id-attr:Id'', ''http://uri.etsi.org/01903/v1.4.1#:SignedProperties''] @
     (case xv_intermediates_pem v of Some i \<Rightarrow> [''--untrusted-pem'', i] | None \<Rightarrow> []) @ [file]"

fun join_bars :: "string list \<Rightarrow> string" where
  "join_bars [] = []"
| "join_bars [s] = s"
| "join_bars (s # ss) = s @ '' | '' @ join_bars ss"

definition run_xmlsec1 :: "xmlsec_io \<Rightarrow> xml_verifier \<Rightarrow> string \<Rightarrow> crypto_error + unit" where
  "run_xmlsec1 X v file =
     bind_ok (map_err (\<lambda>e. Provider_error (''could not run xmlsec1: '' @ e))
       (xs_run X (xv_binary v) (xmlsec_arguments v file))) (\<lambda>(success, stderr).
       if success then Inr ()
       else (let reason = join_bars (take 3 (filter
                   (\<lambda>l. contains_str ''error'' l \<or> contains_str ''FAIL'' l \<or> contains_str ''failed'' l) (text_lines stderr)))
             in Inl (Signing_error (''Signature verification failed'' @
                  (if reason = [] then [] else '': '' @ reason)))))"

definition verify_document :: "xmlsec_io \<Rightarrow> ns_reader \<Rightarrow> xml_verifier \<Rightarrow> uuid \<Rightarrow> string \<Rightarrow> crypto_error + unit" where
  "verify_document X reader v u xml =
     (if length xml > max_document_bytes then Inl (Signing_error ''Document too large to verify'')
      else bind_ok (check_signature_structure reader xml) (\<lambda>_.
        let dir = xs_temp_dir X @ ''/dian-verify-'' @ uuid_string u; file = dir @ ''/document.xml''
        in bind_ok (map_err (\<lambda>e. Provider_error (''temp dir: '' @ e)) (xs_create_dir X dir)) (\<lambda>_.
           bind_ok (map_err (\<lambda>e. Provider_error (''temp file: '' @ e)) (xs_write X file xml)) (\<lambda>_.
           run_xmlsec1 X v file))))"

text \<open>
  The port \<open>SignatureVerifier\<close>: what is wrong with the document is a validation error. The blocking task
  does not panic, so the error of joining it does not arise.
\<close>

fun verification_error :: "crypto_error \<Rightarrow> domain_error" where
  "verification_error (Signing_error m) = Validation m"
| "verification_error (Xml_error m) = Validation m"
| "verification_error e = Crypto (crypto_error_display e)"

definition verify_signature ::
  "crypto_lib \<Rightarrow> xmlsec_io \<Rightarrow> ns_reader \<Rightarrow> xml_verifier \<Rightarrow> string \<Rightarrow> ('db world, verified_signature) io" where
  "verify_signature L X reader v xml w =
     (case new_uuid w of (u, w') \<Rightarrow>
        (map_err verification_error
           (bind_ok (verify_document X reader v u xml) (\<lambda>_.
            bind_ok (signer_subject_of L reader xml) (\<lambda>s. Inr \<lparr>signer_subject = s\<rparr>))), w'))"

end
