(* ===== verification/Soap_Client.thy ===== *)
theory Soap_Client
  imports Signature_Check
begin

text \<open>
  \<open>dian-soap-client\<close>: the client of the web service of the DIAN. HTTP, ZIP and Base64 are parameters
  (\<open>http_lib\<close>); a POST is an operation of the world that gives a network error, or the status and the text
  of the answer (or the error of reading it). Each envelope is signed for the tenant by the signer.
\<close>

section \<open>error.rs\<close>

datatype soap_error =
    Zip_error string
  | Http_error string
  | Xml_fault string
  | Fault string string
  | Dian_error string

fun domain_of_soap :: "soap_error \<Rightarrow> domain_error" where
  "domain_of_soap (Zip_error m) = Internal (''Zip: '' @ m)"
| "domain_of_soap (Http_error e) = Soap (''Http network failure: '' @ e)"
| "domain_of_soap (Xml_fault m) = Soap (''Xml parsing: '' @ m)"
| "domain_of_soap (Fault code m) = Soap (''Soap fault ['' @ code @ '']: '' @ m)"
| "domain_of_soap (Dian_error m) = Soap (''Dian error: '' @ m)"

section \<open>soap.rs\<close>

definition escaped_char :: "char \<Rightarrow> string" where
  "escaped_char c =
     (if c = CHR ''&'' then ''&amp;''
      else if c = CHR ''<'' then ''&lt;''
      else if c = CHR ''>'' then ''&gt;''
      else if c = CHR 0x22 then ''&quot;''
      else if c = CHR 0x27 then ''&apos;''
      else [c])"

definition xml_escape :: "string \<Rightarrow> string" where
  "xml_escape s = concat (map escaped_char s)"

definition to_id :: string where "to_id = ''id-To''"

definition envelope_head :: string where
  "envelope_head =
     tick ''<soap:Envelope xmlns:soap=`http://www.w3.org/2003/05/soap-envelope` xmlns:wsa=`http://www.w3.org/2005/08/addressing` '' @
     tick ''xmlns:wcf=`http://wcf.dian.colombia` xmlns:wsse=`'' @ ns_wsse @ tick ''` '' @
     tick ''xmlns:wsu=`'' @ ns_wsu @ tick ''`>'' @
     tick ''<soap:Header><wsse:Security soap:mustUnderstand=`true`>''"

definition build_soap_envelope :: "string \<Rightarrow> string \<Rightarrow> string \<Rightarrow> string" where
  "build_soap_envelope action to_url body_content =
     envelope_head @ wsse_security_placeholder @ ''</wsse:Security>'' @
     ''<wsa:Action>'' @ xml_escape action @ tick ''</wsa:Action><wsa:To wsu:Id=`'' @ to_id @ tick ''`>'' @
     xml_escape to_url @ ''</wsa:To></soap:Header>'' @
     ''<soap:Body>'' @ body_content @ ''</soap:Body></soap:Envelope>''"

section \<open>client.rs\<close>

definition action_prefix :: string where
  "action_prefix = ''http://wcf.dian.colombia/IWcfDianCustomerServices/''"

text \<open>The client as built: the request is over after 90 seconds, which shows as a network error.\<close>

record 'w dian_client_impl =
  dc_hab_url :: string
  dc_prod_url :: string
  dc_signer :: "'w crypto_signer"

definition dian_client_new :: "'w crypto_signer \<Rightarrow> string option \<Rightarrow> string option \<Rightarrow> 'w dian_client_impl" where
  "dian_client_new sign hab produccion =
     \<lparr>dc_hab_url = (case hab of None \<Rightarrow> ''https://vpfe-hab.dian.gov.co/WcfDianCustomerServices.svc'' | Some u \<Rightarrow> u),
      dc_prod_url = (case produccion of None \<Rightarrow> ''https://vpfe.dian.gov.co/WcfDianCustomerServices.svc'' | Some u \<Rightarrow> u),
      dc_signer = sign\<rparr>"

definition get_url :: "'w dian_client_impl \<Rightarrow> bool \<Rightarrow> string" where
  "get_url c is_hab = (if is_hab then dc_hab_url c else dc_prod_url c)"

record 'w http_lib =
  h_post :: "string \<Rightarrow> string \<Rightarrow> string \<Rightarrow> 'w \<Rightarrow> (string + nat \<times> (string + string)) \<times> 'w"
  h_status_text :: "nat \<Rightarrow> string"
  h_zip :: zip_reader
  h_name_error :: string
  h_base64 :: "string \<Rightarrow> string"

definition extract_zip_filename :: "'w http_lib \<Rightarrow> string \<Rightarrow> soap_error + string" where
  "extract_zip_filename H archive =
     bind_ok (map_err (\<lambda>e. Zip_error (''Failed to read ZIP in memory: '' @ e)) (h_zip H archive)) (\<lambda>entries.
       case entries of
         [] \<Rightarrow> Inl (Zip_error ''ZIP archive is empty'')
       | first # _ \<Rightarrow>
           bind_ok (map_err (\<lambda>e. Zip_error (''Failed to get ZIP file element: '' @ e)) first) (\<lambda>entry.
           bind_ok (ok_or (Zip_error (''Invalid ZIP entry name: '' @ h_name_error H)) (z_name entry)) (\<lambda>name.
           Inr (replace_str ''.xml'' ''.zip'' name))))"

text \<open>The search for a tag, whatever its prefix; every turn leaves a \<open><\<close> behind.\<close>

definition names_tag :: "string \<Rightarrow> string \<Rightarrow> bool" where
  "names_tag full tag = (if CHR '':'' \<in> set full then last (split_char CHR '':'' full) = tag else full = tag)"

function extract_tag_content :: "string \<Rightarrow> string \<Rightarrow> string option" where
  "extract_tag_content tag xml =
     (case find_char (\<lambda>c. c = CHR ''<'') xml of
        None \<Rightarrow> None
      | Some pos \<Rightarrow>
          let tag_rest = drop (pos + 1) xml
          in case find_char (\<lambda>c. c = CHR '' '' \<or> c = CHR ''>'') tag_rest of
               None \<Rightarrow> None
             | Some name_end \<Rightarrow>
                 if names_tag (take name_end tag_rest) tag then
                   Option.bind (find_char (\<lambda>c. c = CHR ''>'') tag_rest) (\<lambda>gt.
                   let content = drop (gt + 1) tag_rest
                   in map_option (\<lambda>e. trim (take e content)) (find_str ''</'' content))
                 else extract_tag_content tag tag_rest)"
  by pat_completeness auto
termination
  by (relation "measure (\<lambda>(tag, xml). length xml)") (auto dest: find_char_SomeD)

declare extract_tag_content.simps [simp del]

definition content_type :: "string \<Rightarrow> string" where
  "content_type action = tick ''application/soap+xml;charset=utf-8;action=`'' @ action @ tick ''`''"

definition failed_answer :: "'w http_lib \<Rightarrow> nat \<Rightarrow> string \<Rightarrow> domain_error" where
  "failed_answer H status xml = domain_of_soap
     (case extract_tag_content ''Text'' xml of
        Some reason \<Rightarrow>
          Fault (case extract_tag_content ''Value'' xml of None \<Rightarrow> ''SoapFault'' | Some code \<Rightarrow> code) reason
      | None \<Rightarrow> Dian_error (''HTTP error '' @ h_status_text H status))"

definition soap_request ::
  "'w http_lib \<Rightarrow> 'w dian_client_impl \<Rightarrow> uuid \<Rightarrow> string \<Rightarrow> bool \<Rightarrow> string \<Rightarrow> ('w, string) io" where
  "soap_request H c tenant operation is_hab body_content =
     (let to_url = get_url c is_hab; action = action_prefix @ operation
      in io_bind (sign_soap_for_tenant (dc_signer c) tenant (build_soap_envelope action to_url body_content)) (\<lambda>signed.
         io_bind (io_map_err (\<lambda>e. domain_of_soap (Http_error e)) (h_post H to_url (content_type action) signed)) (\<lambda>(status, answer).
         io_bind (io_lift (map_err (\<lambda>e. domain_of_soap (Http_error e)) answer)) (\<lambda>xml.
           if 200 \<le> status \<and> status < 300 then io_return xml else io_fail (failed_answer H status xml)))))"

definition wcf :: "string \<Rightarrow> string \<Rightarrow> string" where
  "wcf name content = ''<wcf:'' @ name @ ''>'' @ content @ ''</wcf:'' @ name @ ''>''"

definition send_zip ::
  "'w http_lib \<Rightarrow> 'w dian_client_impl \<Rightarrow> uuid \<Rightarrow> string \<Rightarrow> string \<Rightarrow> bool \<Rightarrow> string \<Rightarrow> ('w, string) io" where
  "send_zip H c tenant operation archive is_hab extra =
     io_bind (io_lift (map_err domain_of_soap (extract_zip_filename H archive))) (\<lambda>name.
       soap_request H c tenant operation is_hab
         (wcf operation (wcf ''fileName'' (xml_escape name) @ wcf ''contentData'' (h_base64 H archive) @ extra)))"

definition read_response :: "string \<Rightarrow> string option \<Rightarrow> dian_response" where
  "read_response xml trace =
     \<lparr>status_code = (case extract_tag_content ''StatusCode'' xml of None \<Rightarrow> ''unknown'' | Some s \<Rightarrow> s),
      message = (case extract_tag_content ''StatusMessage'' xml of None \<Rightarrow> ''No status message provided'' | Some s \<Rightarrow> s),
      xml_response = Some xml,
      soap_trace_id = (case trace of Some t \<Rightarrow> Some t | None \<Rightarrow> extract_tag_content ''XmlDocumentKey'' xml)\<rparr>"

definition read_zip_key :: "string \<Rightarrow> string result" where
  "read_zip_key xml =
     ok_or (domain_of_soap (Dian_error ''Response did not contain ZipKey/TrackId'')) (extract_tag_content ''ZipKey'' xml)"

definition status_request :: "string \<Rightarrow> string \<Rightarrow> string" where
  "status_request operation track_id = wcf operation (wcf ''trackId'' (xml_escape track_id))"

definition ask_status ::
  "'w http_lib \<Rightarrow> 'w dian_client_impl \<Rightarrow> string \<Rightarrow> uuid \<Rightarrow> string \<Rightarrow> bool \<Rightarrow> ('w, dian_response) io" where
  "ask_status H c operation tenant track_id is_hab =
     io_bind (soap_request H c tenant operation is_hab (status_request operation track_id))
       (\<lambda>xml. io_return (read_response xml (Some track_id)))"

definition soap_port :: "'w http_lib \<Rightarrow> 'w dian_client_impl \<Rightarrow> 'w dian_soap_client" where
  "soap_port H c =
     \<lparr>send_bill_sync = (\<lambda>tenant archive is_hab.
        io_bind (send_zip H c tenant ''SendBillSync'' archive is_hab []) (\<lambda>xml. io_return (read_response xml None))),
      send_bill_async = (\<lambda>tenant archive is_hab.
        io_bind (send_zip H c tenant ''SendBillAsync'' archive is_hab []) (\<lambda>xml. io_lift (read_zip_key xml))),
      send_test_set_async = (\<lambda>tenant archive test_set is_hab.
        io_bind (send_zip H c tenant ''SendTestSetAsync'' archive is_hab (wcf ''testSetId'' (xml_escape test_set)))
          (\<lambda>xml. io_lift (read_zip_key xml))),
      get_status = ask_status H c ''GetStatus'',
      get_status_zip = ask_status H c ''GetStatusZip'',
      send_event_update_status = (\<lambda>tenant archive is_hab.
        io_bind (soap_request H c tenant ''SendEventUpdateStatus'' is_hab
          (wcf ''SendEventUpdateStatus'' (wcf ''contentData'' (h_base64 H archive))))
          (\<lambda>xml. io_return (read_response xml None)))\<rparr>"

section \<open>The laws of the client\<close>

text \<open>Talking to the DIAN leaves the store alone, but the signer may read it.\<close>

locale soap_sending = signer_port A G "dc_signer c"
  for A :: "('db \<Rightarrow> 'db) \<Rightarrow> bool" and G :: "'db \<Rightarrow> 'db \<Rightarrow> bool" and c :: "'db world dian_client_impl" +
  fixes H :: "'db world http_lib"
  assumes post_within: "World.within A G (h_post H url header text)"
begin

lemma request_within: "World.within A G (soap_request H c t operation hab content)"
  unfolding soap_request_def Let_def
  by (auto intro!: bind lift return fail map_err sign_soap_within post_within)

lemma send_zip_within: "World.within A G (send_zip H c t operation archive hab extra)"
  unfolding send_zip_def by (intro bind lift request_within)

lemma ask_status_within: "World.within A G (ask_status H c operation t k hab)"
  unfolding ask_status_def by (intro bind return request_within)

end

sublocale soap_sending \<subseteq> dian_port A G "soap_port H c"
  by unfold_locales
    (auto simp: soap_port_def intro!: bind lift return send_zip_within ask_status_within request_within)

section \<open>The client over PostgreSQL\<close>

text \<open>HTTP as an arbitrary function of the time and the request.\<close>

definition timed_http ::
  "(instant \<Rightarrow> string \<Rightarrow> string \<Rightarrow> string \<Rightarrow> string + nat \<times> (string + string)) \<Rightarrow> 'db world http_lib \<Rightarrow> 'db world http_lib" where
  "timed_http answer H = H\<lparr>h_post := (\<lambda>url header content w. (answer (clock w) url header content, w))\<rparr>"

interpretation pg_soap: soap_sending "obeys pg_guarantee" pg_guarantee
  "\<lparr>dc_hab_url = hab, dc_prod_url = produccion,
    dc_signer = tenant_signer L \<lparr>sc_provider = kv_provider L V R clock vc, sc_mode = mode\<rparr> pg_certificates\<rparr>"
  "timed_http answer H" for hab produccion L V R vc mode answer H
proof (rule soap_sending.intro)
  show "signer_port (obeys pg_guarantee) pg_guarantee (dc_signer \<lparr>dc_hab_url = hab, dc_prod_url = produccion,
    dc_signer = tenant_signer L \<lparr>sc_provider = kv_provider L V R clock vc, sc_mode = mode\<rparr> pg_certificates\<rparr>)"
    by (simp add: pg_kv_signing.signer_port_axioms)
qed (auto simp: soap_sending_axioms_def timed_http_def intro: store.local)

end
