(* ===== verification/Signing_Properties.thy ===== *)
theory Signing_Properties
  imports Soap_Client Examples
begin

text \<open>
  What the signer and the client of the DIAN promise: the decimal serial number of a certificate, the
  document a signature covers, the certificate a tenant signs with, the structure a verified signature has,
  and the requests that go out. The last section has the example libraries of the witnesses.
\<close>

section \<open>Decimal numbers from bytes\<close>

definition digits_nat :: "nat list \<Rightarrow> nat" where
  "digits_nat ds = foldr (\<lambda>d n. d + 10 * n) ds 0"

definition be_value :: "nat list \<Rightarrow> nat" where
  "be_value bs = foldl (\<lambda>n b. 256 * n + b) 0 bs"

text \<open>Decimal digits, the least significant first, without superfluous zeros.\<close>

definition proper_digits :: "nat list \<Rightarrow> bool" where
  "proper_digits ds \<longleftrightarrow> ds \<noteq> [] \<and> (\<forall>d \<in> set ds. d < 10) \<and> (last ds = 0 \<longrightarrow> length ds = 1)"

lemma digits_nat_simps [simp]: "digits_nat [] = 0" "digits_nat (d # ds) = d + 10 * digits_nat ds"
  by (simp_all add: digits_nat_def)

lemma digits_nat_append: "digits_nat (ds @ es) = digits_nat ds + 10 ^ length ds * digits_nat es"
  by (induction ds) (simp_all add: algebra_simps)

lemma digits_nat_bound: "\<forall>d \<in> set ds. d < 10 \<Longrightarrow> digits_nat ds < 10 ^ length ds"
  by (induction ds) fastforce+

lemma digits_nat_last: "ds \<noteq> [] \<Longrightarrow> last ds \<noteq> 0 \<Longrightarrow> digits_nat ds \<noteq> 0"
  by (induction ds) (auto split: if_splits)

lemma times_256_value:
  "times_256 carry ds = (es, c) \<Longrightarrow>
     digits_nat es + 10 ^ length ds * c = 256 * digits_nat ds + carry \<and> length es = length ds \<and> (\<forall>e \<in> set es. e < 10)"
proof (induction ds arbitrary: carry es)
  case (Cons d ds)
  define v where "v = d * 256 + carry"
  obtain fs where fs: "times_256 (v div 10) ds = (fs, c)" "es = v mod 10 # fs"
    using Cons.prems by (auto simp: Let_def v_def split: prod.splits)
  have "10 * digits_nat fs + 10 * (10 ^ length ds * c) = 10 * (256 * digits_nat ds) + 10 * (v div 10)"
    using Cons.IH[OF fs(1)] by (metis distrib_left)
  then have "v mod 10 + 10 * digits_nat fs + 10 * (10 ^ length ds * c) = 10 * (256 * digits_nat ds) + v"
    using mult_div_mod_eq[of 10 v] by linarith
  also have "10 * (256 * digits_nat ds) + v = 256 * digits_nat (d # ds) + carry" by (simp add: v_def)
  finally have "digits_nat es + 10 ^ length (d # ds) * c = 256 * digits_nat (d # ds) + carry"
    by (simp add: fs(2))
  then show ?case using Cons.IH[OF fs(1)] fs(2) by auto
qed auto

lemma push_carry_0 [simp]: "push_carry 0 = []"
  by (simp add: push_carry.simps)

lemma push_carry_value: "digits_nat (push_carry c) = c \<and> (\<forall>d \<in> set (push_carry c). d < 10)"
proof (induction c rule: less_induct)
  case (less c)
  show ?case using less[of "c div 10"] by (cases "c = 0") (simp_all add: push_carry.simps[of c])
qed

lemma push_carry_last: "push_carry c \<noteq> [] \<Longrightarrow> last (push_carry c) \<noteq> 0"
proof (induction c rule: less_induct)
  case (less c)
  then have "c > 0" by (auto simp: push_carry.simps[of c] split: if_splits)
  show ?case
  proof (cases "push_carry (c div 10) = []")
    case True
    then have "c div 10 = 0" using push_carry_value[of "c div 10"] by simp
    with True \<open>c > 0\<close> show ?thesis by (simp add: push_carry.simps[of c])
  next
    case False
    with less.IH[of "c div 10"] \<open>c > 0\<close> show ?thesis by (simp add: push_carry.simps[of c])
  qed
qed

lemma decimal_step_digits:
  assumes "\<forall>d \<in> set ds. d < 10"
  shows "digits_nat (decimal_step b ds) = 256 * digits_nat ds + b" "\<forall>d \<in> set (decimal_step b ds). d < 10"
proof -
  obtain es c where es: "times_256 b ds = (es, c)" by force
  with times_256_value[OF es] push_carry_value[of c]
  show "digits_nat (decimal_step b ds) = 256 * digits_nat ds + b" "\<forall>d \<in> set (decimal_step b ds). d < 10"
    by (auto simp: decimal_step_def digits_nat_append)
qed

text \<open>No step creates a zero in front: without a carry the value would be too small for the length.\<close>

lemma decimal_step_proper:
  assumes "proper_digits ds"
  shows "proper_digits (decimal_step b ds)"
proof -
  obtain es c where es: "times_256 b ds = (es, c)" by force
  note val = times_256_value[OF es]
  have ds: "ds \<noteq> []" "\<forall>d \<in> set ds. d < 10" "last ds = 0 \<Longrightarrow> length ds = 1" using assms by (auto simp: proper_digits_def)
  have last_ok: "length (es @ push_carry c) = 1" if zero: "last (es @ push_carry c) = 0"
  proof (rule ccontr)
    assume long: "length (es @ push_carry c) \<noteq> 1"
    have none: "push_carry c = []" using zero push_carry_last[of c] by (cases "push_carry c = []") auto
    then have "c = 0" using push_carry_value[of c] by simp
    have "es \<noteq> []" using val ds(1) by auto
    then obtain fs where fs: "es = fs @ [0]" using zero none by (metis append_Nil2 append_butlast_last_id)
    have "length ds \<noteq> 1" using long none val by simp
    then have nz: "last ds \<noteq> 0" using ds(3) by blast
    obtain gs where gs: "ds = gs @ [last ds]" using ds(1) by (metis append_butlast_last_id)
    then have len: "length fs = length gs" using val fs by (metis add_right_cancel length_append_singleton Suc_eq_plus1)
    have "digits_nat es < 10 ^ length gs"
      using digits_nat_bound[of fs] val len by (simp add: fs digits_nat_append)
    moreover have "10 ^ length gs \<le> digits_nat ds"
      using nz by (subst gs) (simp add: digits_nat_append trans_le_add2)
    ultimately show False using val \<open>c = 0\<close> by simp
  qed
  show ?thesis
    using decimal_step_digits(2)[OF ds(2), of b] last_ok val ds(1)
    by (auto simp: proper_digits_def decimal_step_def es)
qed

lemma decimal_fold:
  assumes "proper_digits ds"
  shows "proper_digits (fold decimal_step bs ds) \<and>
    digits_nat (fold decimal_step bs ds) = foldl (\<lambda>n b. 256 * n + b) (digits_nat ds) bs"
  using assms
proof (induction bs arbitrary: ds)
  case (Cons b bs)
  then have "\<forall>d \<in> set ds. d < 10" by (simp add: proper_digits_def)
  from decimal_step_digits(1)[OF this] Cons.IH[OF decimal_step_proper[OF Cons.prems]] show ?case by simp
qed simp

lemma proper_digits_text: "proper_digits ds \<Longrightarrow> map digit_char (rev ds) = nat_dec (digits_nat ds)"
proof (induction ds)
  case (Cons d ds)
  show ?case
  proof (cases "ds = []")
    case False
    with Cons.prems have ds: "proper_digits ds" "d < 10" "last ds \<noteq> 0" by (auto simp: proper_digits_def)
    have "digits_nat ds \<noteq> 0" using digits_nat_last False ds(3) by blast
    with Cons.IH[OF ds(1)] ds(2) show ?thesis by (subst nat_dec.simps) simp
  qed (use Cons.prems in \<open>simp add: proper_digits_def nat_dec.simps\<close>)
qed (simp add: proper_digits_def)

lemma decimal_from_be_bytes_value: "decimal_from_be_bytes bytes = nat_dec (be_value bytes)"
  using decimal_fold[of "[0]" bytes] proper_digits_text[of "fold decimal_step bytes [0]"]
  by (simp add: decimal_from_be_bytes_def be_value_def proper_digits_def)

section \<open>Operations that succeed\<close>

lemma io_map_err_Inr_iff: "io_map_err f m w = (Inr a, v) \<longleftrightarrow> m w = (Inr a, v)"
  by (auto simp: io_map_err_def map_err_Inr_iff split: prod.splits)

lemmas io_success = io_bind_Inr_iff io_map_err_Inr_iff bind_ok_Inr_iff map_err_Inr_iff ok_or_Inr_iff

section \<open>A text with one occurrence of a pattern\<close>

lemma no_match: "p \<noteq> [] \<Longrightarrow> count_matches p s = 0 \<Longrightarrow> replace_str p r s = s \<and> find_str p s = None"
  by (induction p s rule: count_matches.induct) (auto split: if_splits)

lemma one_match:
  assumes "p \<noteq> []" "count_matches p s = 1"
  obtains a b where "s = a @ p @ b" "find_str p s = Some (length a)" "\<And>r. replace_str p r s = a @ r @ b"
proof -
  have "\<exists>a b. s = a @ p @ b \<and> find_str p s = Some (length a) \<and> (\<forall>r. replace_str p r s = a @ r @ b)"
    using assms
  proof (induction p s rule: count_matches.induct)
    case (2 p c cs)
    show ?case
    proof (cases "starts_with p (c # cs)")
      case True
      then obtain t where t: "c # cs = p @ t" by (auto simp: starts_with_iff)
      moreover from 2 True have "count_matches p (drop (length p) (c # cs)) = 0" by simp
      ultimately have "replace_str p r (drop (length p) (c # cs)) = t" for r
        using no_match[OF 2(3)] by simp
      with True 2(3) have "replace_str p r (c # cs) = r @ t" for r by simp
      moreover have "find_str p (c # cs) = Some 0" using True by simp
      ultimately show ?thesis using t by (intro exI[of _ "[]"] exI[of _ t]) (simp del: replace_str.simps find_str.simps)
    next
      case False
      then obtain a b where "cs = a @ p @ b" "find_str p cs = Some (length a)" "\<forall>r. replace_str p r cs = a @ r @ b"
        using 2 by auto
      with False show ?thesis by (intro exI[of _ "c # a"] exI[of _ b]) simp
    qed
  qed simp
  then show thesis using that by blast
qed

lemma ascii_not_white: "byte c < 128 \<Longrightarrow> 32 < byte c \<Longrightarrow> \<not> is_whitespace [c]"
  by (auto simp: is_whitespace_def rust_whitespace_def byte_def)

section \<open>The document a tenant signs\<close>

lemma signature_placeholder_nonempty [simp]: "signature_placeholder \<noteq> []"
  by (simp add: signature_placeholder_def)

lemma xades_sign_Inr:
  assumes "xades_sign L provider xml r w = (Inr doc, v)"
  obtains pre post der w1 cert scope where "xml = pre @ signature_placeholder @ post"
    "\<And>x. replace_str signature_placeholder x xml = pre @ x @ post"
    "get_certificate provider r w = (Inr der, w1)" "certificate_info_of L der = Inr cert"
    "namespaces_in_scope_at (l_tokens L) xml signature_placeholder = Inr scope"
    "xades_finish L provider xml r cert scope (next_uuid w1) (clock w1) (w1\<lparr>next_uuid := next_uuid w1 + 1\<rparr>) = (Inr doc, v)"
proof -
  have "count_matches signature_placeholder xml = 1"
    using assms by (auto simp: xades_sign_def io_fail_def split: if_splits)
  from one_match[OF signature_placeholder_nonempty this]
  obtain a b where ab: "xml = a @ signature_placeholder @ b"
    "\<And>x. replace_str signature_placeholder x xml = a @ x @ b" by metis
  from assms show thesis
    by (auto simp: xades_sign_def io_fail_def io_success new_uuid_def split: if_splits intro: that[OF ab])
qed

lemma pg_find_active_certificate_Inr:
  assumes "pg_find_active_certificate t w = (Inr (Some c), v)"
  shows "c \<in> set (certificates (seen w))" "c_tenant_id c = t" "c_status c = C_Active"
    "clock v = clock w" "next_uuid v = next_uuid w"
proof -
  obtain cs where cs: "order_by (\<lambda>c. - c_expiration_date c)
      (filter (\<lambda>c. c_tenant_id c = t \<and> c_status c = C_Active) (certificates (seen w))) = c # cs"
    using assms unfolding pg_find_active_certificate_def by (auto elim!: query_cases split: list.splits)
  from arg_cong[OF this, of set]
  have "c \<in> set (filter (\<lambda>c. c_tenant_id c = t \<and> c_status c = C_Active) (certificates (seen w)))"
    by (auto simp: order_by_def)
  then show "c \<in> set (certificates (seen w))" "c_tenant_id c = t" "c_status c = C_Active"
    by auto
  have v: "v = snd (pg_find_active_certificate t w)" by (simp add: assms)
  show "clock v = clock w" "next_uuid v = next_uuid w" by (simp_all add: v pg_find_active_certificate_def)
qed

lemma one_active_certificate:
  assumes "pg_inv s" "c \<in> set (certificates s)" "c_status c = C_Active"
    and "d \<in> set (certificates s)" "c_status d = C_Active" "c_tenant_id d = c_tenant_id c"
  shows "d = c"
  using assms by (auto simp: pg_inv_def pg_constraints_def certificates_ok_def active_certificates_def unique_on_def
      distinct_map inj_on_def)

lemma key_ref_Inr:
  assumes "key_ref L cfg pg_certificates t w = (Inr r, v)" "sc_mode cfg = PerTenantVault"
  obtains c where "c \<in> set (certificates (seen w))" "c_tenant_id c = t" "c_status c = C_Active"
    "clock w < c_expiration_date c" "r = c_vault_reference_path c" "clock v = clock w" "next_uuid v = next_uuid w"
proof -
  from assms obtain c u where "pg_find_active_certificate t w = (Inr (Some c), u)"
    and rest: "r = c_vault_reference_path c" "v = u" "\<not> c_expiration_date c \<le> clock u"
    by (auto simp: key_ref_def io_success pg_certificates_def split: if_splits)
  note found = pg_find_active_certificate_Inr[OF this(1)]
  show thesis using that[OF found(1-3)] found(4,5) rest by simp
qed

lemma xades_signed_info_Inr:
  assumes "xades_signed_info L xml scope i key_info properties = Inr (si, c)"
  obtains d kc pc where "canonicalize_xml (l_tokens L) (replace_str signature_placeholder [] xml) = Inr d"
    "canonicalize_xml (l_tokens L) (with_namespaces key_info (btree_insert ''ds'' ns_ds scope)) = Inr kc"
    "canonicalize_xml (l_tokens L) (with_namespaces properties
       (btree_insert ''xades'' ns_xades (btree_insert ''ds'' ns_ds scope))) = Inr pc"
    "si = signed_info_xml i (sha256_b64 L d) (i @ ''-keyinfo'') (sha256_b64 L kc) (i @ ''-signedprops'') (sha256_b64 L pc)"
    "canonicalize_xml (l_tokens L) (with_namespaces si (btree_insert ''ds'' ns_ds scope)) = Inr c"
  using assms by (auto simp: xades_signed_info_def c14n_digest_def io_success Let_def)

lemma kv_signature_Inr:
  assumes "sign_rsa_sha256 (kv_provider L V R clock vc) r data w = (Inr s, v)"
  obtains secret pem key where "valid_path r" "read_secret V vc r (clock w) = Inr secret"
    "secret_field secret ''private_key'' = Inr pem" "parse_private_key L R pem = Inr key" "rsa_sign R key data = Some s"
  using assms by (auto simp: kv_provider_def io_success sign_in_process_def read_secret_def split: if_splits)

lemma kv_certificate_Inr:
  assumes "get_certificate (kv_provider L V R clock vc) r w = (Inr der, v)"
  obtains secret pem where "v = w" "read_secret V vc r (clock w) = Inr secret"
    "secret_field secret ''certificate'' = Inr pem" "certificate_from_pem L pem = Inr der"
  using assms by (auto simp: kv_provider_def io_success)

text \<open>
  \<open>doc\<close> is \<open>xml\<close> with a signature in the place of the placeholder, by the key and with the certificate
  that the secret of the certificate \<open>c\<close> holds. The signature is over the canonical \<open>SignedInfo\<close>, whose
  references are the digests of the document without the placeholder, of the key and of the properties.
\<close>

inductive signed_by_tenant ::
  "crypto_lib \<Rightarrow> vault_io \<Rightarrow> 'k rsa_lib \<Rightarrow> vault_client \<Rightarrow> certificate \<Rightarrow> uuid \<Rightarrow> instant \<Rightarrow> string \<Rightarrow> string \<Rightarrow> bool"
  for L V R vc c u now
where
  "i = ''xmldsig-'' @ uuid_string u \<Longrightarrow>
   valid_path (c_vault_reference_path c) \<Longrightarrow>
   read_secret V vc (c_vault_reference_path c) now = Inr secret \<Longrightarrow>
   secret_field secret ''certificate'' = Inr cert_pem \<Longrightarrow> certificate_from_pem L cert_pem = Inr der \<Longrightarrow>
   certificate_info_of L der = Inr cert \<Longrightarrow>
   secret_field secret ''private_key'' = Inr key_pem \<Longrightarrow> parse_private_key L R key_pem = Inr key \<Longrightarrow>
   ki = key_info_xml (i @ ''-keyinfo'') (ci_der_base64 cert) \<Longrightarrow>
   sp = signed_properties_xml (i @ ''-signedprops'') (l_colombia_time L now) cert \<Longrightarrow>
   namespaces_in_scope_at (l_tokens L) (pre @ signature_placeholder @ post) signature_placeholder = Inr scope \<Longrightarrow>
   ds_scope = btree_insert ''ds'' ns_ds scope \<Longrightarrow>
   canonicalize_xml (l_tokens L) (pre @ post) = Inr d \<Longrightarrow>
   canonicalize_xml (l_tokens L) (with_namespaces ki ds_scope) = Inr kc \<Longrightarrow>
   canonicalize_xml (l_tokens L) (with_namespaces sp (btree_insert ''xades'' ns_xades ds_scope)) = Inr pc \<Longrightarrow>
   si = signed_info_xml i (sha256_b64 L d) (i @ ''-keyinfo'') (sha256_b64 L kc) (i @ ''-signedprops'') (sha256_b64 L pc) \<Longrightarrow>
   canonicalize_xml (l_tokens L) (with_namespaces si ds_scope) = Inr sc \<Longrightarrow>
   rsa_sign R key sc = Some val \<Longrightarrow>
   signed_by_tenant L V R vc c u now (pre @ signature_placeholder @ post)
     (pre @ signature_xml i si (l_b64 L val) ki sp @ post)"

lemma xades_finish_signed:
  assumes finish: "xades_finish L (kv_provider L V R clock vc) xml (c_vault_reference_path c) cert scope u (clock w) w = (Inr doc, v)"
    and xml: "xml = pre @ signature_placeholder @ post" "\<And>x. replace_str signature_placeholder x xml = pre @ x @ post"
    and scope: "namespaces_in_scope_at (l_tokens L) xml signature_placeholder = Inr scope"
    and secret: "read_secret V vc (c_vault_reference_path c) (clock w) = Inr secret"
      "secret_field secret ''certificate'' = Inr pem" "certificate_from_pem L pem = Inr der" "certificate_info_of L der = Inr cert"
  shows "signed_by_tenant L V R vc c u (clock w) xml doc"
proof -
  define i where "i = ''xmldsig-'' @ uuid_string u"
  define ki where "ki = key_info_xml (i @ ''-keyinfo'') (ci_der_base64 cert)"
  define sp where "sp = signed_properties_xml (i @ ''-signedprops'') (l_colombia_time L (clock w)) cert"
  from finish obtain si sc val where info: "xades_signed_info L xml scope i ki sp = Inr (si, sc)"
    and val: "sign_rsa_sha256 (kv_provider L V R clock vc) (c_vault_reference_path c) sc w = (Inr val, v)"
    and doc: "doc = pre @ signature_xml i si (l_b64 L val) ki sp @ post"
    by (auto simp: xades_finish_def i_def ki_def sp_def io_success io_return_def xml(2) Let_def)
  from kv_signature_Inr[OF val] obtain secret' key_pem key where path: "valid_path (c_vault_reference_path c)"
    and read: "read_secret V vc (c_vault_reference_path c) (clock w) = Inr secret'"
    and key: "secret_field secret' ''private_key'' = Inr key_pem" "parse_private_key L R key_pem = Inr key" "rsa_sign R key sc = Some val"
    by blast
  from read secret(1) have "secret' = secret" by simp
  note key = key[unfolded this]
  from info show ?thesis
    unfolding xml(1) doc
    by (rule xades_signed_info_Inr)
      (rule signed_by_tenant.intros[OF i_def path secret key(1,2) ki_def sp_def scope[unfolded xml(1)] refl _ _ _ _ _ key(3)],
        simp_all add: xml(2)[unfolded xml(1)])
qed


section \<open>Example libraries\<close>

text \<open>A tokenizer that sees one element, and libraries that leave texts as they are.\<close>

definition ex_tag :: start_tag where
  "ex_tag = \<lparr>tag_name = ''a'', tag_attributes = [Inr (''xmlns:wsse'', Inr ns_wsse), Inr (''xmlns:wsu'', Inr ns_wsu)]\<rparr>"

definition ex_tokens :: tokenizer where
  "ex_tokens s = ([(Tk_start ex_tag, 3), (Tk_end ''a'', 7)], None)"

definition ex_lib :: crypto_lib where
  "ex_lib = \<lparr>l_tokens = ex_tokens, l_b64 = id, l_b64_decode = Inr, l_sha256 = (\<lambda>_. ''digest''),
     l_x509 = (\<lambda>_. Inr \<lparr>cert_subject = ''CN=A'', cert_issuer = ''CN=CA'', cert_serial = [1, 0]\<rparr>),
     l_colombia_time = (\<lambda>_. ''t''), l_utc_millis = (\<lambda>_. ''m''), l_utc_text = (\<lambda>_. ''u'')\<rparr>"

definition ex_vault :: vault_io where
  "ex_vault = \<lparr>v_header_ok = (\<lambda>_. True), v_build = Inr (), v_get = (\<lambda>_ _. Inr (200, [])), v_sign = (\<lambda>_ _ _. Inl ''no''),
     v_status_text = (\<lambda>_. []), v_kv_data = (\<lambda>_. Inr (J_obj [(''certificate'', J_str ''C''), (''private_key'', J_str ''K'')])),
     v_transit_data = (\<lambda>_. Inl ''no'')\<rparr>"

definition ex_rsa :: "string rsa_lib" where
  "ex_rsa = \<lparr>rsa_from_der = Inr, rsa_from_pkcs8 = Inr, rsa_sign = (\<lambda>k d. Some (''by '' @ k))\<rparr>"

definition ex_client :: vault_client where
  "ex_client = \<lparr>vc_address = ''v'', vc_kv_mount = ''secret'', vc_transit_mount = ''transit''\<rparr>"

definition ex_certificate :: certificate where
  "ex_certificate = \<lparr>c_id = 5, c_tenant_id = 1, c_vault_reference_path = ''tenants/1'', c_thumbprint = ''t'',
     c_expiration_date = 2000, c_status = C_Active\<rparr>"

definition ex_signing :: "pg world" where
  "ex_signing = ex_world (pg_empty\<lparr>tenants := [ex_tenant_row], certificates := [ex_certificate]\<rparr>)"

abbreviation ex_provider :: "pg world certificate_provider" where
  "ex_provider \<equiv> kv_provider ex_lib ex_vault ex_rsa clock ex_client"

definition ex_unsigned :: string where "ex_unsigned = ''<a>'' @ signature_placeholder @ ''</a>''"

lemma ex_signing_alone [simp]: "alone ex_signing" "clock ex_signing = 1000"
    "certificates (db ex_signing) = [ex_certificate]"
  by (simp_all add: ex_signing_def ex_world_def ex_start_def alone_def ex_now_def)

lemma ex_signing_inv: "pg_inv (seen ex_signing)"
  by (simp add: ex_signing_def ex_world_def ex_start_def seen_def pg_inv_def pg_constraints_def numbering_inv_def pg_empty_def
    tenants_ok_def certificates_ok_def documents_ok_def jobs_ok_def one_active_job_def active_jobs_def active_certificates_def
    unique_on_def references_def ex_certificate_def ex_tenant_row_def tenant_row_def ex_tenant_def)

lemma ex_key_ref:
  "key_ref L \<lparr>sc_provider = P, sc_mode = PerTenantVault\<rparr> pg_certificates 1 ex_signing = (Inr ''tenants/1'', ex_signing)"
  by (simp add: key_ref_def pg_certificates_def pg_find_active_certificate_def query_alone io_bind_def io_map_err_def
      order_by_def ex_certificate_def)

lemma ex_secret: "read_secret ex_vault ex_client ''tenants/1'' now =
    Inr (J_obj [(''certificate'', J_str ''C''), (''private_key'', J_str ''K'')])"
proof -
  have "valid_path ''tenants/1''" by code_simp
  then show ?thesis by (simp add: read_secret_def vault_checked_def ex_vault_def)
qed

lemma ex_pem: "pem_body ''C'' = ''C''" "pem_body ''K'' = ''K''" "\<not> contains_str ''BEGIN RSA PRIVATE KEY'' ''K''"
proof -
  have "text_lines ''C'' = [''C'']" "text_lines ''K'' = [''K'']"
    "\<not> starts_with ''-----'' ''C''" "\<not> starts_with ''-----'' ''K''" by code_simp+
  moreover have "trim ''C'' = ''C''" "trim ''K'' = ''K''" by (rule trim_plain; simp add: byte_def)+
  ultimately show "pem_body ''C'' = ''C''" "pem_body ''K'' = ''K''" by (simp_all add: pem_body_def)
  show "\<not> contains_str ''BEGIN RSA PRIVATE KEY'' ''K''" by (simp add: contains_str_def starts_with_def)
qed

lemma ex_provider:
  "get_certificate ex_provider ''tenants/1'' w = (Inr ''C'', w)"
  "sign_rsa_sha256 ex_provider ''tenants/1'' d w = (Inr ''by K'', w)"
proof -
  have "secret_field (J_obj [(''certificate'', J_str ''C''), (''private_key'', J_str ''K'')]) ''certificate'' = Inr ''C''"
    "secret_field (J_obj [(''certificate'', J_str ''C''), (''private_key'', J_str ''K'')]) ''private_key'' = Inr ''K''"
    by code_simp+
  then show "get_certificate ex_provider ''tenants/1'' w = (Inr ''C'', w)"
    "sign_rsa_sha256 ex_provider ''tenants/1'' d w = (Inr ''by K'', w)"
    by (simp_all add: kv_provider_def ex_secret certificate_from_pem_def parse_private_key_def ex_pem sign_in_process_def
        ex_lib_def ex_rsa_def)
qed

lemma ex_canonical:
  obtains c where "\<And>s. canonicalize_xml ex_tokens s = Inr c"
proof -
  have "case canonicalize_xml ex_tokens [] of Inl e \<Rightarrow> False | Inr c \<Rightarrow> True" by code_simp
  then obtain c where "canonicalize_xml ex_tokens [] = Inr c" by (auto split: sum.splits)
  moreover have "canonicalize_xml ex_tokens s = canonicalize_xml ex_tokens []" for s
    by (simp add: canonicalize_xml_def canonicalize_def ex_tokens_def)
  ultimately show thesis using that by metis
qed

lemma ex_signs:
  "\<exists>doc v. sign_for_tenant (tenant_signer ex_lib \<lparr>sc_provider = ex_provider, sc_mode = PerTenantVault\<rparr> pg_certificates) 1
     ex_unsigned ex_signing = (Inr doc, v)"
proof -
  obtain c where c: "\<And>s. canonicalize_xml ex_tokens s = Inr c" using ex_canonical by blast
  have one: "count_matches signature_placeholder ex_unsigned = 1" "find_str signature_placeholder ex_unsigned = Some 3"
    by code_simp+
  have scope: "namespaces_in_scope_at ex_tokens ex_unsigned signature_placeholder = Inr []"
    by (simp add: namespaces_in_scope_at_def one namespaces_in_scope_before_def ex_tokens_def ex_tag_def strip_prefix_def starts_with_def)
  have tokens: "l_tokens ex_lib = ex_tokens" by (simp add: ex_lib_def)
  have "\<exists>cert. certificate_info_of ex_lib ''C'' = Inr cert"
    by (simp add: certificate_info_of_def ex_lib_def)
  then obtain cert where cert: "certificate_info_of ex_lib ''C'' = Inr cert" by blast
  show ?thesis
    by (simp add: tenant_signer_def config_sign_for_tenant_def io_map_err_def io_bind_def ex_key_ref sign_document_def xades_sign_def
        one ex_provider cert tokens scope new_uuid_def xades_finish_def xades_signed_info_def c14n_digest_def c Let_def io_return_def
        del: One_nat_def)
qed


end
