(* ===== verification/Verification_Properties.thy ===== *)
theory Verification_Properties
  imports Signing_Properties
begin

text \<open>
  What a document that passes the verification of \<open>verify.rs\<close> is: its only signature, the reference to the
  whole document, the run of \<open>xmlsec1\<close> and the subject of the signer. Two lemmas at the end show what the
  structure check and the choice of the subject do not look at.
\<close>

section \<open>The scan of the tokens\<close>

fun tag_of :: "ns_token \<Rightarrow> ns_tag option" where
  "tag_of (Ns_start t) = Some t"
| "tag_of (Ns_empty t) = Some t"
| "tag_of _ = None"

definition scanned :: "ns_token list \<Rightarrow> structure_scan" where
  "scanned ts = fold scan_step ts scan_new"

definition signature_tag :: "ns_token \<Rightarrow> bool" where
  "signature_tag x \<longleftrightarrow> (case tag_of x of Some t \<Rightarrow> is_ds t ''Signature'' | None \<Rightarrow> False)"

text \<open>A reference to the whole document whose parent is a \<open>SignedInfo\<close>, after the tokens \<open>pre\<close>.\<close>

definition whole_reference :: "ns_token list \<Rightarrow> ns_token \<Rightarrow> bool" where
  "whole_reference pre x \<longleftrightarrow>
     (case tag_of x of
        Some t \<Rightarrow> is_ds t ''Reference'' \<and> map_of (ns_attributes t) ''URI'' = Some [] \<and>
          innermost (sg_path (scanned pre)) = Some ''ds:SignedInfo''
      | None \<Rightarrow> False)"

definition enveloped_transform :: "ns_token \<Rightarrow> bool" where
  "enveloped_transform x \<longleftrightarrow>
     (case tag_of x of
        Some t \<Rightarrow> is_ds t ''Transform'' \<and> map_of (ns_attributes t) ''Algorithm'' = Some alg_enveloped
      | None \<Rightarrow> False)"

text \<open>No reference ends within \<open>mid\<close>, read after \<open>pre\<close>.\<close>

definition reference_open :: "ns_token list \<Rightarrow> ns_token list \<Rightarrow> bool" where
  "reference_open pre mid \<longleftrightarrow>
     (\<forall>a n b. mid = a @ Ns_end n # b \<longrightarrow> innermost (sg_path (scanned (pre @ a))) \<noteq> Some ''ds:Reference'')"

definition inside_whole :: "ns_token list \<Rightarrow> bool" where
  "inside_whole ts \<longleftrightarrow>
     (\<exists>pre r mid. ts = pre @ r # mid \<and> whole_reference pre r \<and> reference_open (pre @ [r]) mid)"

text \<open>An enveloped-signature transform inside a reference to the whole document.\<close>

definition covers_document :: "ns_token list \<Rightarrow> bool" where
  "covers_document ts \<longleftrightarrow> (\<exists>pre t post. ts = pre @ t # post \<and> enveloped_transform t \<and> (inside_whole pre \<or> whole_reference pre t))"

lemma scanned_simps [simp]: "scanned [] = scan_new" "scanned (ts @ [x]) = scan_step x (scanned ts)"
  by (simp_all add: scanned_def)

lemma reference_open_Nil [simp]: "reference_open pre []"
  by (simp add: reference_open_def)

lemma reference_open_snoc:
  assumes "reference_open pre mid"
    and "\<And>n. x = Ns_end n \<Longrightarrow> innermost (sg_path (scanned (pre @ mid))) \<noteq> Some ''ds:Reference''"
  shows "reference_open pre (mid @ [x])"
  unfolding reference_open_def
proof (intro allI impI)
  fix a n b assume e: "mid @ [x] = a @ Ns_end n # b"
  show "innermost (sg_path (scanned (pre @ a))) \<noteq> Some ''ds:Reference''"
  proof (cases b rule: rev_cases)
    case Nil
    with e assms(2) show ?thesis by auto
  next
    case (snoc c y)
    with e have "mid = a @ Ns_end n # c" by (metis append_Cons append_assoc butlast_snoc)
    with assms(1) show ?thesis by (auto simp: reference_open_def)
  qed
qed

lemma inside_whole_snoc:
  assumes "inside_whole ts" "\<And>n. x = Ns_end n \<Longrightarrow> innermost (sg_path (scanned ts)) \<noteq> Some ''ds:Reference''"
  shows "inside_whole (ts @ [x])"
proof -
  from assms(1) obtain pre r mid where "ts = pre @ r # mid" "whole_reference pre r" "reference_open (pre @ [r]) mid"
    by (auto simp: inside_whole_def)
  moreover from this assms(2) have "reference_open (pre @ [r]) (mid @ [x])" by (intro reference_open_snoc) auto
  ultimately show ?thesis
    unfolding inside_whole_def by (intro exI[of _ pre] exI[of _ r] exI[of _ "mid @ [x]"]) simp
qed

lemma inside_whole_new: "whole_reference ts x \<Longrightarrow> inside_whole (ts @ [x])"
  unfolding inside_whole_def by (intro exI[of _ ts] exI[of _ x] exI[of _ "[]"]) simp

lemma covers_document_snoc: "covers_document ts \<Longrightarrow> covers_document (ts @ [x])"
  unfolding covers_document_def by (metis append_Cons append_assoc)

lemma scan_tag_in_whole:
  "sg_in_whole (scan_tag t g) \<longleftrightarrow>
     (if is_ds t ''Reference'' \<and> innermost (sg_path g) = Some ''ds:SignedInfo''
      then map_of (ns_attributes t) ''URI'' = Some [] else sg_in_whole g)"
  "sg_enveloped (scan_tag t g) \<longleftrightarrow> sg_enveloped g \<or>
     is_ds t ''Transform'' \<and> map_of (ns_attributes t) ''Algorithm'' = Some alg_enveloped \<and> sg_in_whole (scan_tag t g)"
  "sg_whole (scan_tag t g) = sg_whole g" "sg_path (scan_tag t g) = sg_path g"
  "sg_signatures (scan_tag t g) = sg_signatures g + (if is_ds t ''Signature'' then 1 else 0)"
  by (auto simp: scan_tag_def Let_def)

lemma scan_step_tag:
  assumes "tag_of x = Some t"
  shows "sg_in_whole (scan_step x g) = sg_in_whole (scan_tag t g)" "sg_enveloped (scan_step x g) = sg_enveloped (scan_tag t g)"
    "sg_whole (scan_step x g) = sg_whole (scan_tag t g)" "sg_signatures (scan_step x g) = sg_signatures (scan_tag t g)"
  using assms by (cases x; simp add: Let_def)+

lemma scanned_signatures: "sg_signatures (scanned ts) = length (filter signature_tag ts)"
proof (induction ts rule: rev_induct)
  case (snoc x ts)
  show ?case
  proof (cases "tag_of x")
    case None
    then show ?thesis using snoc by (cases x) (auto simp: signature_tag_def scan_end_def Let_def)
  next
    case (Some t)
    then show ?thesis using snoc by (simp add: scan_step_tag scan_tag_in_whole signature_tag_def)
  qed
qed (simp add: scan_new_def)

lemma scanned_in_whole: "sg_in_whole (scanned ts) \<Longrightarrow> inside_whole ts"
proof (induction ts rule: rev_induct)
  case (snoc x ts)
  show ?case
  proof (cases "tag_of x")
    case None
    with snoc show ?thesis
      by (cases x) (auto simp: scan_end_def Let_def split: if_splits intro: inside_whole_snoc)
  next
    case (Some t)
    with snoc have "whole_reference ts x \<or> inside_whole ts"
      by (auto simp: scan_step_tag scan_tag_in_whole whole_reference_def split: if_splits)
    with Some show ?thesis by (auto intro: inside_whole_new inside_whole_snoc)
  qed
qed (simp add: scan_new_def)

lemma scanned_covers: "sg_enveloped (scanned ts) \<or> sg_whole (scanned ts) \<Longrightarrow> covers_document ts"
proof (induction ts rule: rev_induct)
  case (snoc x ts)
  show ?case
  proof (cases "tag_of x")
    case None
    with snoc show ?thesis
      by (cases x) (auto simp: scan_end_def Let_def split: if_splits intro: covers_document_snoc)
  next
    case (Some t)
    show ?thesis
    proof (cases "sg_enveloped (scanned ts) \<or> sg_whole (scanned ts)")
      case False
      with snoc.prems Some have new: "enveloped_transform x" "sg_in_whole (scan_tag t (scanned ts))"
        by (auto simp: scan_step_tag scan_tag_in_whole enveloped_transform_def)
      then have "inside_whole ts \<or> whole_reference ts x"
        using Some scanned_in_whole[of ts] by (auto simp: scan_tag_in_whole whole_reference_def split: if_splits)
      with new(1) show ?thesis unfolding covers_document_def by blast
    qed (use snoc.IH in \<open>auto intro: covers_document_snoc\<close>)
  qed
qed (simp add: scan_new_def)

lemma check_signature_structure_Inr:
  assumes "check_signature_structure reader xml = Inr ()"
  obtains ts where "reader xml = (ts, None)" "length (filter signature_tag ts) = 1" "covers_document ts"
  using assms scanned_signatures scanned_covers
  by (auto simp: check_signature_structure_def scanned_def[symmetric] Let_def split: prod.splits option.splits if_splits)

section \<open>The subject of the signer\<close>

lemma signer_subject_of_Inr:
  assumes "signer_subject_of L reader xml = Inr s" "reader xml = (ts, None)"
  obtains names where "read_key_certificates L (ss_encoded (fold subject_step ts
      \<lparr>ss_in_key_info = False, ss_in_certificate = False, ss_encoded = []\<rparr>)) = Inr names" "leaf_subjects names = [s]"
proof -
  from assms obtain names where names: "read_key_certificates L (ss_encoded (fold subject_step ts
      \<lparr>ss_in_key_info = False, ss_in_certificate = False, ss_encoded = []\<rparr>)) = Inr names"
    and leaf: "(case leaf_subjects names of [leaf] \<Rightarrow> Inr leaf
      | [] \<Rightarrow> Inl (Signing_error ''The signature does not include the signer certificate'')
      | _ \<Rightarrow> Inl (Signing_error ''The signature includes more than one end-entity certificate'')) = Inr s"
    by (auto simp: signer_subject_of_def bind_ok_Inr_iff)
  from leaf have "leaf_subjects names = [s]" by (cases "leaf_subjects names" rule: remdups_adj.cases) auto
  with names show thesis by (rule that)
qed

text \<open>The leaf is a certificate of the list, and no other name of the list says it was issued by it.\<close>

lemma leaf_subjectsD:
  assumes "leaf_subjects names = [s]"
  shows "s \<in> fst ` set names" "(other, s) \<in> set names \<Longrightarrow> other = s"
    "(t, i) \<in> set names \<Longrightarrow> t \<noteq> s \<Longrightarrow> \<exists>u. (u, t) \<in> set names \<and> u \<noteq> t"
proof -
  have leaves: "set (leaf_subjects names) = {s}" by (simp add: assms)
  then show "s \<in> fst ` set names" by (auto simp: leaf_subjects_def)
  show "(other, s) \<in> set names \<Longrightarrow> other = s"
    using leaves by (fastforce simp: leaf_subjects_def list_ex_iff)
  show "(t, i) \<in> set names \<Longrightarrow> t \<noteq> s \<Longrightarrow> \<exists>u. (u, t) \<in> set names \<and> u \<noteq> t"
  proof (rule ccontr)
    assume t: "(t, i) \<in> set names" "t \<noteq> s" and "\<nexists>u. (u, t) \<in> set names \<and> u \<noteq> t"
    then have "t \<in> set (leaf_subjects names)"
      by (force simp: leaf_subjects_def list_ex_iff image_iff)
    with leaves t(2) show False by simp
  qed
qed

section \<open>A verified document\<close>

lemma run_xmlsec1_Inr:
  assumes "run_xmlsec1 X v file = Inr ()"
  obtains err where "xs_run X (xv_binary v) (xmlsec_arguments v file) = Inr (True, err)"
  using assms by (auto simp: run_xmlsec1_def bind_ok_Inr_iff map_err_Inr_iff Let_def split: if_splits)

lemma verify_document_Inr:
  assumes "verify_document X reader v u xml = Inr ()"
  obtains err where "length xml \<le> max_document_bytes" "check_signature_structure reader xml = Inr ()"
    "xs_write X (xs_temp_dir X @ ''/dian-verify-'' @ uuid_string u @ ''/document.xml'') xml = Inr ()"
    "xs_run X (xv_binary v) (xmlsec_arguments v (xs_temp_dir X @ ''/dian-verify-'' @ uuid_string u @ ''/document.xml'')) =
      Inr (True, err)"
  using assms
  by (auto simp: verify_document_def bind_ok_Inr_iff map_err_Inr_iff Let_def split: if_splits elim!: run_xmlsec1_Inr)


section \<open>What the verification does not look at\<close>

definition ds_tag :: "string \<Rightarrow> (string \<times> string) list \<Rightarrow> ns_tag" where
  "ds_tag n as = \<lparr>ns_bound = Some ns_ds, ns_local = n, ns_attributes = as\<rparr>"

definition ds_end :: "string \<Rightarrow> ns_token" where
  "ds_end n = Ns_end \<lparr>ns_bound = Some ns_ds, ns_local = n\<rparr>"

definition ds_element :: "string \<Rightarrow> (string \<times> string) list \<Rightarrow> ns_token list \<Rightarrow> ns_token list" where
  "ds_element n as content = Ns_start (ds_tag n as) # content @ [ds_end n]"

text \<open>\<open>SignedInfo\<close> with one reference, and the key of a signature.\<close>

definition signed_info_tokens :: "string \<Rightarrow> ns_token list" where
  "signed_info_tokens uri = ds_element ''SignedInfo'' [] (ds_element ''Reference'' [(''URI'', uri)]
     (ds_element ''Transforms'' [] [Ns_empty (ds_tag ''Transform'' [(''Algorithm'', alg_enveloped)])]))"

definition key_info_tokens :: "string \<Rightarrow> ns_token list" where
  "key_info_tokens cert = ds_element ''KeyInfo'' [] (ds_element ''X509Data'' []
     (ds_element ''X509Certificate'' [] [Ns_text cert]))"

definition signed_tokens :: "string \<Rightarrow> string \<Rightarrow> ns_token list \<Rightarrow> ns_token list" where
  "signed_tokens uri cert extra =
     ds_element ''Doc'' [] (extra @ ds_element ''Signature'' [] (signed_info_tokens uri @ key_info_tokens cert))"

text \<open>
  The check looks at the innermost element only: a \<open>SignedInfo\<close> anywhere in the document makes up for a
  signature that covers a part of it.
\<close>

lemma detached_signed_info_is_accepted:
  "check_signature_structure (\<lambda>_. (signed_tokens ''#part'' ''a'' [], None)) xml = Inl not_covering"
  "check_signature_structure (\<lambda>_. (signed_tokens ''#part'' ''a'' (signed_info_tokens []), None)) xml = Inr ()"
  by code_simp+

text \<open>
  The subject is found by names: a certificate that merely names the certificate of the signature as its
  issuer is taken for the signer's, wherever its \<open>KeyInfo\<close> stands, without a check of its own signature.
\<close>

definition subject_tokens :: "ns_token list \<Rightarrow> string list" where
  "subject_tokens ts = ss_encoded (fold subject_step ts
     \<lparr>ss_in_key_info = False, ss_in_certificate = False, ss_encoded = []\<rparr>)"

lemma not_white: "\<not> is_whitespace ''a''" "\<not> is_whitespace ''f''"
  by (simp_all add: ascii_not_white byte_def)

lemma subjects_of_tokens:
  "subject_tokens (signed_tokens [] ''a'' []) = [''a'']"
  "subject_tokens (signed_tokens [] ''a'' (key_info_tokens ''f'')) = [''f'', ''a'']"
  by code_simp+

lemma subject_of_an_unverified_certificate:
  assumes "l_b64_decode L = Inr" "l_x509 L ''a'' = Inr a" "l_x509 L ''f'' = Inr f"
    and "cert_issuer f = cert_subject a" "cert_issuer a \<noteq> cert_subject f" "cert_subject f \<noteq> cert_subject a"
  shows "signer_subject_of L (\<lambda>_. (signed_tokens [] ''a'' [], None)) xml = Inr (cert_subject a)"
    and "signer_subject_of L (\<lambda>_. (signed_tokens [] ''a'' (key_info_tokens ''f''), None)) xml = Inr (cert_subject f)"
  using assms subjects_of_tokens
  by (auto simp: signer_subject_of_def subject_tokens_def read_key_certificate_def not_white leaf_subjects_def)

section \<open>An example\<close>

definition ex_xmlsec :: xmlsec_io where
  "ex_xmlsec = \<lparr>xs_run = (\<lambda>_ _. Inr (True, [])), xs_is_file = (\<lambda>_. True), xs_temp_dir = ''/tmp'',
     xs_create_dir = (\<lambda>_. Inr ()), xs_write = (\<lambda>_ _. Inr ())\<rparr>"

abbreviation ex_reader :: ns_reader where
  "ex_reader \<equiv> \<lambda>_. (signed_tokens [] ''a'' [], None)"


end
