(* ===== verification/Soap_Properties.thy ===== *)
theory Soap_Properties
  imports Signing_Properties
begin

text \<open>
  The envelopes that go to the DIAN: the body cannot forge the place of the security header, the signature
  of an envelope, and what a status query asks and answers.
\<close>

section \<open>Bodies without markup of their own\<close>

text \<open>No occurrence of a pattern that begins with \<open><!\<close> can begin inside the text.\<close>

fun no_bang :: "string \<Rightarrow> bool" where
  "no_bang [] \<longleftrightarrow> True"
| "no_bang [c] \<longleftrightarrow> c \<noteq> CHR ''<''"
| "no_bang (c # d # s) \<longleftrightarrow> (c = CHR ''<'' \<longrightarrow> d \<noteq> CHR ''!'') \<and> no_bang (d # s)"

lemma count_no_bang:
  "no_bang a \<Longrightarrow> starts_with ''<!'' p \<Longrightarrow> count_matches p (a @ b) = count_matches p b"
proof (induction a rule: no_bang.induct)
  case (2 c)
  then show ?case by (cases p) (auto simp: starts_with_def)
next
  case (3 c d s)
  obtain q where "p = ''<!'' @ q" using 3(3) by (auto simp: starts_with_iff)
  with 3 show ?case by (auto simp: starts_with_def)
qed simp

lemma no_bang_append: "no_bang a \<Longrightarrow> no_bang b \<Longrightarrow> no_bang (a @ b)"
proof (induction a rule: no_bang.induct)
  case (2 c)
  then show ?case by (cases b) auto
qed auto

lemma no_bang_free: "CHR ''<'' \<notin> set a \<Longrightarrow> no_bang a"
  by (induction a rule: no_bang.induct) auto

lemma xml_escape_no_markup: "CHR ''<'' \<notin> set (xml_escape s)" "CHR ''>'' \<notin> set (xml_escape s)" "CHR 0x22 \<notin> set (xml_escape s)"
  by (auto simp: xml_escape_def escaped_char_def)

lemma escaped_no_bang: "no_bang (xml_escape s)"
  by (simp add: no_bang_free xml_escape_no_markup)

lemma envelope_has_one_placeholder:
  assumes "no_bang content"
  shows "count_matches wsse_security_placeholder (build_soap_envelope action url content) = 1"
proof -
  note literals = no_bang_append escaped_no_bang assms
  have parts: "no_bang envelope_head" "no_bang ''</wsse:Security>''" "no_bang ''<wsa:Action>''"
    "no_bang (tick ''</wsa:Action><wsa:To wsu:Id=`'')" "no_bang to_id" "no_bang (tick ''`>'')"
    "no_bang ''</wsa:To></soap:Header>''" "no_bang ''<soap:Body>''" "no_bang ''</soap:Body></soap:Envelope>''"
    by code_simp+
  have p: "starts_with ''<!'' wsse_security_placeholder" "wsse_security_placeholder \<noteq> []" by code_simp+
  define rest where "rest = ''</wsse:Security>'' @ ''<wsa:Action>'' @ xml_escape action @
     tick ''</wsa:Action><wsa:To wsu:Id=`'' @ to_id @ tick ''`>'' @ xml_escape url @ ''</wsa:To></soap:Header>'' @
     ''<soap:Body>'' @ content @ ''</soap:Body></soap:Envelope>''"
  have "no_bang rest" unfolding rest_def by (intro literals parts)
  from count_no_bang[OF this p(1), of "[]"] have none: "count_matches wsse_security_placeholder rest = 0" by simp
  obtain q qs where q: "wsse_security_placeholder = q # qs" using p(2) by (cases wsse_security_placeholder) auto
  have "count_matches wsse_security_placeholder (wsse_security_placeholder @ rest) = 1"
    using none starts_with_append[of wsse_security_placeholder rest] unfolding q by simp
  then show ?thesis
    using count_no_bang[OF parts(1) p(1), of "wsse_security_placeholder @ rest"]
    by (simp add: build_soap_envelope_def rest_def)
qed

lemma status_request_no_bang: "no_bang operation \<Longrightarrow> no_bang (status_request operation track_id)"
proof -
  assume o: "no_bang operation"
  have "no_bang ''<wcf:''" "no_bang ''</wcf:''" "no_bang ''>''" "no_bang ''trackId''" by code_simp+
  with o show ?thesis unfolding status_request_def wcf_def by (intro no_bang_append escaped_no_bang) auto
qed

section \<open>The signature of an envelope\<close>

text \<open>
  \<open>doc\<close> is the envelope with the time stamp, the certificate and the signature in the place of the security
  header. The signature is over the canonical \<open>SignedInfo\<close>, which refers to the elements with an identifier
  in the envelope with its time stamp, each by the digest of its exclusive canonical form.
\<close>

inductive soap_signed ::
  "crypto_lib \<Rightarrow> (string \<Rightarrow> string \<Rightarrow> bool) \<Rightarrow> string \<Rightarrow> uuid \<Rightarrow> instant \<Rightarrow> string \<Rightarrow> string \<Rightarrow> bool"
  for L signs cert u now
where
  "namespaces_in_scope_at (l_tokens L) (pre @ wsse_security_placeholder @ post) wsse_security_placeholder = Inr scope \<Longrightarrow>
   map_of scope ''wsse'' = Some ns_wsse \<Longrightarrow> map_of scope ''wsu'' = Some ns_wsu \<Longrightarrow>
   timestamp = timestamp_xml L (hex_digits 32 u) now \<Longrightarrow>
   elements_with_prefixed_id (l_tokens L) (pre @ timestamp @ post) = Inr located \<Longrightarrow>
   soap_references L (pre @ timestamp @ post) located = Inr refs \<Longrightarrow>
   si = soap_signed_info_xml refs \<Longrightarrow>
   canonicalize_xml_exclusive (l_tokens L) (with_namespaces si (btree_insert ''ds'' ns_ds scope)) [] = Inr sc \<Longrightarrow>
   signs sc val \<Longrightarrow>
   token_id = ''X509-'' @ hex_digits 32 u \<Longrightarrow>
   soap_signed L signs cert u now (pre @ wsse_security_placeholder @ post)
     (replace_str signature_mark (soap_signature_xml (hex_digits 32 u) si (l_b64 L val) token_id)
       (pre @ (timestamp @ token_xml token_id cert @ signature_mark) @ post))"

inductive_cases soap_signedE: "soap_signed L signs cert u now envelope doc"

lemma check_prefixes_Inr:
  "check_prefixes scope = Inr () \<Longrightarrow> map_of scope ''wsse'' = Some ns_wsse \<and> map_of scope ''wsu'' = Some ns_wsu"
  by (auto simp: check_prefixes_def split: option.splits if_splits)

lemma soap_finish_signed:
  assumes finish: "soap_finish L provider envelope r cert scope u now w = (Inr doc, v)"
    and envelope: "envelope = pre @ wsse_security_placeholder @ post"
      "\<And>x. replace_str wsse_security_placeholder x envelope = pre @ x @ post"
    and scope: "namespaces_in_scope_at (l_tokens L) envelope wsse_security_placeholder = Inr scope" "check_prefixes scope = Inr ()"
  shows "soap_signed L (\<lambda>d s. sign_rsa_sha256 provider r d w = (Inr s, v)) cert u now envelope doc"
proof -
  define timestamp where "timestamp = timestamp_xml L (hex_digits 32 u) now"
  define token_id where "token_id = ''X509-'' @ hex_digits 32 u"
  note prefixes = check_prefixes_Inr[OF scope(2)]
  from finish obtain si sc val where info: "soap_signed_info L envelope timestamp scope = Inr (si, sc)"
    and val: "sign_rsa_sha256 provider r sc w = (Inr val, v)"
    and doc: "doc = replace_str signature_mark (soap_signature_xml (hex_digits 32 u) si (l_b64 L val) token_id)
       (pre @ (timestamp @ token_xml token_id cert @ signature_mark) @ post)"
    by (auto simp: soap_finish_def timestamp_def token_id_def io_success io_return_def envelope(2) Let_def)
  from info obtain located refs where
    "elements_with_prefixed_id (l_tokens L) (pre @ timestamp @ post) = Inr located"
    "soap_references L (pre @ timestamp @ post) located = Inr refs" "si = soap_signed_info_xml refs"
    "canonicalize_xml_exclusive (l_tokens L) (with_namespaces si (btree_insert ''ds'' ns_ds scope)) [] = Inr sc"
    by (auto simp: soap_signed_info_def io_success envelope(2) Let_def)
  from soap_signed.intros[OF scope(1)[unfolded envelope(1)] conjunct1[OF prefixes] conjunct2[OF prefixes] timestamp_def
      this[unfolded timestamp_def[symmetric]], of "\<lambda>d s. sign_rsa_sha256 provider r d w = (Inr s, v)", OF val token_id_def]
  show ?thesis unfolding doc envelope(1) .
qed

lemma sign_soap_envelope_Inr:
  assumes "sign_soap_envelope L envelope provider r w = (Inr doc, v)"
  obtains w1 cert where "get_certificate provider r w = (Inr cert, w1)"
    "soap_signed L (\<lambda>d s. sign_rsa_sha256 provider r d (w1\<lparr>next_uuid := next_uuid w1 + 1\<rparr>) = (Inr s, v))
       cert (next_uuid w1) (clock w1) envelope doc"
proof -
  have "count_matches wsse_security_placeholder envelope = 1"
    using assms by (auto simp: sign_soap_envelope_def io_fail_def split: if_splits)
  moreover have "wsse_security_placeholder \<noteq> []" by (simp add: wsse_security_placeholder_def)
  ultimately obtain a b where ab: "envelope = a @ wsse_security_placeholder @ b"
    "\<And>x. replace_str wsse_security_placeholder x envelope = a @ x @ b" using one_match by metis
  from assms obtain scope w1 cert where s: "namespaces_in_scope_at (l_tokens L) envelope wsse_security_placeholder = Inr scope"
      "check_prefixes scope = Inr ()" and c: "get_certificate provider r w = (Inr cert, w1)"
    and f: "soap_finish L provider envelope r cert scope (next_uuid w1) (clock w1) (w1\<lparr>next_uuid := next_uuid w1 + 1\<rparr>) = (Inr doc, v)"
    by (auto simp: sign_soap_envelope_def io_fail_def io_success new_uuid_def split: if_splits)
  from that[OF c soap_finish_signed[OF f ab s]] show thesis .
qed

section \<open>A status query\<close>

lemma soap_request_Inr:
  assumes "soap_request H c t operation is_hab content w = (Inr xml, v)"
  obtains doc u status where
    "sign_soap_for_tenant (dc_signer c) t (build_soap_envelope (action_prefix @ operation) (get_url c is_hab) content) w = (Inr doc, u)"
    "h_post H (get_url c is_hab) (content_type (action_prefix @ operation)) doc u = (Inr (status, Inr xml), v)"
    "200 \<le> status" "status < 300"
  using assms by (auto simp: soap_request_def io_success io_return_def io_fail_def Let_def split: if_splits)

lemma soap_signed_mono:
  assumes "soap_signed L S cert u now envelope doc" "\<And>d s. S d s \<Longrightarrow> T d s"
  shows "soap_signed L T cert u now envelope doc"
  using assms(1)
proof (cases rule: soap_signed.cases)
  case 1
  from assms(2)[OF 1(11)] show ?thesis unfolding 1(1,2) by (rule soap_signed.intros[OF 1(3-10) _ 1(12)])
qed

text \<open>The signature operation of a secret: by the private key it holds.\<close>

definition signs_with_secret :: "crypto_lib \<Rightarrow> 'k rsa_lib \<Rightarrow> json \<Rightarrow> string \<Rightarrow> string \<Rightarrow> bool" where
  "signs_with_secret L R secret d s \<longleftrightarrow>
     (\<exists>pem key. secret_field secret ''private_key'' = Inr pem \<and> parse_private_key L R pem = Inr key \<and> rsa_sign R key d = Some s)"

lemma kv_envelope_signed:
  assumes "sign_soap_envelope L envelope (kv_provider L V R clock vc) r w = (Inr doc, v)"
  obtains secret pem cert where "read_secret V vc r (clock w) = Inr secret"
    "secret_field secret ''certificate'' = Inr pem" "certificate_from_pem L pem = Inr cert"
    "soap_signed L (signs_with_secret L R secret) cert (next_uuid w) (clock w) envelope doc"
proof -
  from sign_soap_envelope_Inr[OF assms] obtain w1 cert where w1: "get_certificate (kv_provider L V R clock vc) r w = (Inr cert, w1)"
    and signature: "soap_signed L (\<lambda>d s. sign_rsa_sha256 (kv_provider L V R clock vc) r d (w1\<lparr>next_uuid := next_uuid w1 + 1\<rparr>) =
       (Inr s, v)) cert (next_uuid w1) (clock w1) envelope doc" by blast
  from kv_certificate_Inr[OF w1] obtain secret pem where secret: "w1 = w" "read_secret V vc r (clock w) = Inr secret"
    "secret_field secret ''certificate'' = Inr pem" "certificate_from_pem L pem = Inr cert" by blast
  have "signs_with_secret L R secret d s"
    if "sign_rsa_sha256 (kv_provider L V R clock vc) r d (w\<lparr>next_uuid := next_uuid w + 1\<rparr>) = (Inr s, v)" for d s
    using kv_signature_Inr[OF that] secret(2) unfolding signs_with_secret_def by fastforce
  from that[OF secret(2-4) soap_signed_mono[OF signature[unfolded secret(1)] this]] show thesis .
qed


section \<open>An example\<close>

text \<open>The element is open in the text before the security header only.\<close>

definition ex_soap_tokens :: tokenizer where
  "ex_soap_tokens s = ((Tk_start ex_tag, 3) # (if s = envelope_head then [] else [(Tk_end ''a'', 7)]), None)"

definition ex_soap_lib :: crypto_lib where
  "ex_soap_lib = ex_lib\<lparr>l_tokens := ex_soap_tokens\<rparr>"

definition ex_http :: "pg world http_lib" where
  "ex_http = \<lparr>h_post = (\<lambda>url header content w. (Inr (200, Inr ''<a/>''), w)), h_status_text = (\<lambda>_. []),
     h_zip = (\<lambda>_. Inl ''no''), h_name_error = [], h_base64 = id\<rparr>"

definition ex_envelope :: string where
  "ex_envelope = build_soap_envelope (action_prefix @ ''GetStatus'') ''u'' (status_request ''GetStatus'' ''k'')"

abbreviation ex_dian_client :: "pg world dian_client_impl" where
  "ex_dian_client \<equiv> \<lparr>dc_hab_url = ''u'', dc_prod_url = ''p'', dc_signer = tenant_signer ex_soap_lib
     \<lparr>sc_provider = kv_provider ex_soap_lib ex_vault ex_rsa clock ex_client, sc_mode = PerTenantVault\<rparr> pg_certificates\<rparr>"

lemma find_no_bang:
  "no_bang a \<Longrightarrow> starts_with ''<!'' p \<Longrightarrow> find_str p (a @ p @ b) = Some (length a)"
proof (induction a rule: no_bang.induct)
  case 1
  then show ?case using starts_with_append[of p b] by (cases p) (auto simp: starts_with_def)
next
  case (2 c)
  obtain q where "p = ''<!'' @ q" using 2(2) by (auto simp: starts_with_iff)
  with 2 show ?case by (auto simp: starts_with_def)
next
  case (3 c d s)
  obtain q where "p = ''<!'' @ q" using 3(3) by (auto simp: starts_with_iff)
  with 3 show ?case by (auto simp: starts_with_def)
qed

lemma ex_envelope_parts:
  obtains post where "ex_envelope = envelope_head @ wsse_security_placeholder @ post"
    "count_matches wsse_security_placeholder ex_envelope = 1"
    "find_str wsse_security_placeholder ex_envelope = Some (length envelope_head)"
    "\<And>x. x \<noteq> [] \<Longrightarrow> replace_str wsse_security_placeholder x ex_envelope \<noteq> envelope_head"
proof -
  have "no_bang ''GetStatus''" by code_simp
  from envelope_has_one_placeholder[OF status_request_no_bang[OF this]]
  have one: "count_matches wsse_security_placeholder ex_envelope = 1" by (simp add: ex_envelope_def)
  define post where "post = drop (length (envelope_head @ wsse_security_placeholder)) ex_envelope"
  have e: "ex_envelope = envelope_head @ wsse_security_placeholder @ post"
    by (simp add: post_def ex_envelope_def build_soap_envelope_def)
  have p: "starts_with ''<!'' wsse_security_placeholder" "no_bang envelope_head" "wsse_security_placeholder \<noteq> []" by code_simp+
  have at: "find_str wsse_security_placeholder ex_envelope = Some (length envelope_head)"
    unfolding e by (rule find_no_bang[OF p(2,1)])
  have "replace_str wsse_security_placeholder x ex_envelope \<noteq> envelope_head" if "x \<noteq> []" for x
  proof -
    from one_match[OF p(3) one] obtain a b where "ex_envelope = a @ wsse_security_placeholder @ b"
      "find_str wsse_security_placeholder ex_envelope = Some (length a)"
      "\<And>r. replace_str wsse_security_placeholder r ex_envelope = a @ r @ b" by metis
    with at that show ?thesis by (auto dest!: arg_cong[where f = length])
  qed
  with that e one at show thesis by blast
qed

lemma signed_info_not_head: "with_namespaces (soap_signed_info_xml refs) scope \<noteq> envelope_head"
proof -
  obtain r where si: "soap_signed_info_xml refs = ''<ds'' @ r"
    by (simp add: soap_signed_info_xml_def tick_def)
  have not_end: "utf8_chars (CHR ''d'' # CHR ''s'' # r) = ''d'' # utf8_chars (CHR ''s'' # r)"
    by (simp add: is_continuation_def byte_def)
  have "2 \<le> tag_name_end (''<ds'' @ r)"
    using ascii_not_white[of "CHR ''d''"] by (auto simp: tag_name_end_def not_end byte_def split: option.splits
          simp del: utf8_chars.simps)
  then have "take 2 (with_namespaces (''<ds'' @ r) scope) = ''<d''"
    by (simp add: with_namespaces_def min_def)
  moreover have "take 2 envelope_head = ''<s''" by code_simp
  ultimately show ?thesis unfolding si by auto
qed

lemma ex_soap_provider: "kv_provider ex_soap_lib ex_vault ex_rsa clock ex_client = ex_provider"
proof -
  have "certificate_from_pem ex_soap_lib = certificate_from_pem ex_lib"
    "(parse_private_key ex_soap_lib :: string rsa_lib \<Rightarrow> _) = parse_private_key ex_lib"
    by (simp_all add: fun_eq_iff certificate_from_pem_def parse_private_key_def ex_soap_lib_def ex_lib_def)
  then show ?thesis by (simp add: kv_provider_def)
qed

lemma ex_soap_canonical:
  obtains c where "\<And>s. s \<noteq> envelope_head \<Longrightarrow> canonicalize_xml_exclusive ex_soap_tokens s [] = Inr c"
proof -
  have closed: "ex_soap_tokens s = ex_tokens s" if "s \<noteq> envelope_head" for s
    using that by (simp add: ex_soap_tokens_def ex_tokens_def)
  have "case canonicalize_xml_exclusive ex_tokens [] [] of Inl e \<Rightarrow> False | Inr c \<Rightarrow> True" by code_simp
  then obtain c where "canonicalize_xml_exclusive ex_tokens [] [] = Inr c" by (auto split: sum.splits)
  moreover have "canonicalize_xml_exclusive ex_soap_tokens s [] = canonicalize_xml_exclusive ex_tokens [] []"
    if "s \<noteq> envelope_head" for s
    using closed[OF that] by (simp add: canonicalize_xml_exclusive_def canonicalize_def ex_tokens_def)
  ultimately show thesis using that by metis
qed

lemma ex_asks: "\<exists>resp v. get_status (soap_port ex_http ex_dian_client) 1 ''k'' True ex_signing = (Inr resp, v)"
proof -
  obtain c where c: "\<And>s. s \<noteq> envelope_head \<Longrightarrow> canonicalize_xml_exclusive ex_soap_tokens s [] = Inr c"
    using ex_soap_canonical by blast
  obtain post where parts: "ex_envelope = envelope_head @ wsse_security_placeholder @ post"
    "count_matches wsse_security_placeholder ex_envelope = 1"
    "find_str wsse_security_placeholder ex_envelope = Some (length envelope_head)"
    "\<And>x. x \<noteq> [] \<Longrightarrow> replace_str wsse_security_placeholder x ex_envelope \<noteq> envelope_head"
    using ex_envelope_parts by blast
  have scope: "namespaces_in_scope_at ex_soap_tokens ex_envelope wsse_security_placeholder =
      Inr [(''wsse'', ns_wsse), (''wsu'', ns_wsu)]"
    by (simp add: namespaces_in_scope_at_def parts(3)) (simp add: parts(1) namespaces_in_scope_before_def ex_soap_tokens_def
        ex_tag_def strip_prefix_def starts_with_def)
  have prefixes: "check_prefixes [(''wsse'', ns_wsse), (''wsu'', ns_wsu)] = Inr ()" by (simp add: check_prefixes_def)
  have "timestamp_xml L suffix now \<noteq> []" for L suffix now by (simp add: timestamp_xml_def tick_def)
  then have located: "elements_with_prefixed_id ex_soap_tokens (replace_str wsse_security_placeholder (timestamp_xml L suffix now)
      ex_envelope) = Inr []" for L suffix now
    using parts(4) by (simp add: elements_with_prefixed_id_def ex_soap_tokens_def ex_tag_def)
  have tokens: "l_tokens ex_soap_lib = ex_soap_tokens" by (simp add: ex_soap_lib_def)
  have "\<exists>doc v. sign_soap_envelope ex_soap_lib ex_envelope ex_provider ''tenants/1'' ex_signing = (Inr doc, v)"
    by (simp add: sign_soap_envelope_def parts(2) tokens scope prefixes io_bind_def ex_provider new_uuid_def soap_finish_def
        soap_signed_info_def located c[OF signed_info_not_head] Let_def io_return_def)
  then obtain doc v where doc: "sign_soap_envelope ex_soap_lib ex_envelope ex_provider ''tenants/1'' ex_signing = (Inr doc, v)" by blast
  show ?thesis
    by (simp add: soap_port_def ask_status_def soap_request_def get_url_def Let_def tenant_signer_def config_sign_soap_for_tenant_def
        io_map_err_def io_bind_def ex_soap_provider ex_key_ref ex_envelope_def[symmetric] doc ex_http_def io_return_def
        del: One_nat_def)
qed


end
