(* ===== verification/Worker_Main.thy ===== *)
theory Worker_Main
  imports Soap_Client Pg_Work Webhook_Service Queue_Properties
begin

text \<open>
  \<open>worker/src/main.rs\<close> and \<open>worker/src/metrics.rs\<close>: the configuration of the worker, what one turn of each
  of its loops does, the wiring of the processor, and the claim loop as a state machine: permits of the
  semaphore, jobs being started, jobs that run, and the signal to stop. Durations are nanoseconds. Logging
  is left out; the exposition of the metrics and the duration histogram belong to \<open>prometheus_client\<close>.
\<close>

section \<open>WorkerConfig\<close>

record 'addr worker_config =
  wc_database_url :: string
  wc_database_max_connections :: nat
  wc_dian_hab_url :: "string option"
  wc_dian_prod_url :: "string option"
  wc_worker_id :: string
  wc_max_concurrent_jobs :: nat
  wc_poll_interval :: nat
  wc_job_lease :: nat
  wc_job_timeout :: nat
  wc_shutdown_grace :: nat
  wc_contingency_interval :: nat
  wc_breaker_threshold :: nat
  wc_breaker_cooldown :: nat
  wc_metrics_addr :: "'addr option"
  wc_webhooks :: http_webhook_sender
  wc_processor :: processor_config

definition second :: nat where "second = 1000000000"

text \<open>\<open>parse\<close> for an unsigned integer of a width: an optional plus sign and digits.\<close>

definition parse_unsigned :: "nat \<Rightarrow> string \<Rightarrow> nat option" where
  "parse_unsigned width s =
     (let ds = (if starts_with ''+'' s then tl s else s)
      in if ds = [] \<or> \<not> all_digits ds \<or> 2 ^ width \<le> digits_value ds then None else Some (digits_value ds))"

definition seconds_env :: "environment \<Rightarrow> string \<Rightarrow> nat \<Rightarrow> string + nat" where
  "seconds_env env name fallback =
     bind_ok (parsed_env (parse_unsigned 64) env name fallback) (\<lambda>s. Inr (s * second))"

definition worker_id_env :: "environment \<Rightarrow> nat \<Rightarrow> string" where
  "worker_id_env env pid =
     (case optional_env env ''WORKER_ID'' of
        Some w \<Rightarrow> w
      | None \<Rightarrow> env_or env ''HOSTNAME'' ''worker'' @ ''-'' @ nat_dec pid)"

definition metrics_addr_env :: "(string \<Rightarrow> 'addr option) \<Rightarrow> environment \<Rightarrow> string + 'addr option" where
  "metrics_addr_env parse_addr env =
     (let v = env_or env ''METRICS_ADDR'' ''0.0.0.0:9091''
      in if v = ''off'' then Inr None
         else bind_ok (ok_or (''Invalid METRICS_ADDR '' @ [CHR 0x27] @ v @ [CHR 0x27]) (parse_addr v)) (\<lambda>a. Inr (Some a)))"

definition worker_config_from_env ::
  "(string \<Rightarrow> 'addr option) \<Rightarrow> nat \<Rightarrow> environment \<Rightarrow> string + 'addr worker_config" where
  "worker_config_from_env parse_addr pid env =
     bind_ok (seconds_env env ''JOB_LEASE_SECS'' 600) (\<lambda>job_lease.
     bind_ok (seconds_env env ''JOB_TIMEOUT_SECS'' 540) (\<lambda>job_timeout.
     if job_timeout \<ge> job_lease then Inl ''JOB_TIMEOUT_SECS must be lower than JOB_LEASE_SECS''
     else
       bind_ok (required_env env ''DATABASE_URL'') (\<lambda>database_url.
       bind_ok (parsed_env (parse_unsigned 32) env ''DATABASE_MAX_CONNECTIONS'' 10) (\<lambda>connections.
       bind_ok (parsed_env (parse_unsigned 64) env ''MAX_CONCURRENT_JOBS'' 5) (\<lambda>concurrent.
       bind_ok (parsed_env (parse_unsigned 64) env ''POLL_INTERVAL_MS'' 1000) (\<lambda>poll_ms.
       bind_ok (seconds_env env ''SHUTDOWN_GRACE_SECS'' 120) (\<lambda>grace.
       bind_ok (seconds_env env ''CONTINGENCY_REQUEUE_INTERVAL_SECS'' 300) (\<lambda>contingency.
       bind_ok (parsed_env (parse_unsigned 32) env ''BREAKER_FAILURE_THRESHOLD'' 3) (\<lambda>threshold.
       bind_ok (seconds_env env ''BREAKER_COOLDOWN_SECS'' 30) (\<lambda>cooldown.
       bind_ok (metrics_addr_env parse_addr env) (\<lambda>metrics_addr.
       bind_ok (parsed_env parse_i32 env ''TRANSMIT_MAX_ATTEMPTS'' 5) (\<lambda>transmit_max.
       bind_ok (parsed_env parse_i32 env ''POLL_MAX_ATTEMPTS'' 30) (\<lambda>poll_max.
       Inr \<lparr>wc_database_url = database_url, wc_database_max_connections = connections,
            wc_dian_hab_url = optional_env env ''DIAN_HAB_URL'', wc_dian_prod_url = optional_env env ''DIAN_PROD_URL'',
            wc_worker_id = worker_id_env env pid, wc_max_concurrent_jobs = max concurrent 1,
            wc_poll_interval = poll_ms * millisecond, wc_job_lease = job_lease, wc_job_timeout = job_timeout,
            wc_shutdown_grace = grace, wc_contingency_interval = contingency, wc_breaker_threshold = threshold,
            wc_breaker_cooldown = cooldown, wc_metrics_addr = metrics_addr,
            wc_webhooks = \<lparr>hs_allow_http = flag_env env ''WEBHOOK_ALLOW_HTTP'',
              hs_allow_private_networks = flag_env env ''WEBHOOK_ALLOW_PRIVATE_NETWORKS''\<rparr>,
            wc_processor = default_config\<lparr>transmit_max_attempts := transmit_max, poll_max_attempts := poll_max\<rparr>
            \<rparr>)))))))))))))"

section \<open>Metrics\<close>

text \<open>Counters and gauges by their labels; a label that was never used counts as zero.\<close>

record worker_metrics =
  wm_webhooks :: "string \<Rightarrow> nat"
  wm_jobs :: "string \<times> string \<Rightarrow> nat"
  wm_in_flight :: int
  wm_queue :: "string \<Rightarrow> int"
  wm_breaker_open :: "string \<Rightarrow> int"

definition job_finished :: "string \<Rightarrow> string \<Rightarrow> worker_metrics \<Rightarrow> worker_metrics" where
  "job_finished kind outcome m = m\<lparr>wm_jobs := (wm_jobs m)((kind, outcome) := wm_jobs m (kind, outcome) + 1)\<rparr>"

definition webhooks_dispatched :: "dispatch_stats \<Rightarrow> worker_metrics \<Rightarrow> worker_metrics" where
  "webhooks_dispatched s m =
     fold (\<lambda>(outcome, n) m. if n > 0 then m\<lparr>wm_webhooks := (wm_webhooks m)(outcome := wm_webhooks m outcome + n)\<rparr> else m)
       [(''delivered'', ds_delivered s), (''retried'', ds_retried s), (''dead'', ds_dead s)] m"

definition set_queue_depth :: "queue_depth \<Rightarrow> worker_metrics \<Rightarrow> worker_metrics" where
  "set_queue_depth d m = m\<lparr>wm_queue := (wm_queue m)(''ready'' := q_ready d, ''scheduled'' := q_scheduled d,
     ''running'' := q_running d, ''dead'' := q_dead d)\<rparr>"

definition breaker_gauge :: "circuit_breaker \<Rightarrow> int" where
  "breaker_gauge b = (if cb_state b = Closed then 0 else 1)"

definition sample_breakers :: "breakers \<Rightarrow> worker_metrics \<Rightarrow> worker_metrics" where
  "sample_breakers bs m = m\<lparr>wm_breaker_open := (wm_breaker_open m)
     (''habilitacion'' := breaker_gauge (br_habilitacion bs), ''produccion'' := breaker_gauge (br_produccion bs))\<rparr>"

section \<open>Turns of the loops\<close>

text \<open>What a loop does after a turn. Waiting ends early when the stop signal arrives.\<close>

datatype turn = Stop | Again | Idle nat | Wait_permit | Run_jobs "job list"

definition claim_turn ::
  "'addr worker_config \<Rightarrow> 'w job_repository \<Rightarrow> bool \<Rightarrow> nat \<Rightarrow> 'w \<Rightarrow> turn \<times> 'w" where
  "claim_turn cfg queue stopping free w =
     (if stopping then (Stop, w)
      else if free = 0 then (Wait_permit, w)
      else (case claim queue (wc_worker_id cfg) (int free) (int (wc_job_lease cfg)) w of
              (Inr js, v) \<Rightarrow> (if js \<noteq> [] then Run_jobs js else Idle (wc_poll_interval cfg), v)
            | (Inl e, v) \<Rightarrow> (Idle (5 * second), v)))"

text \<open>The outcome of a job: its result, or nothing when the time limit cut it off.\<close>

definition job_outcome_label :: "(domain_error + unit) option \<Rightarrow> string" where
  "job_outcome_label r = (case r of Some (Inr u) \<Rightarrow> ''handled'' | Some (Inl e) \<Rightarrow> ''error'' | None \<Rightarrow> ''timeout'')"

definition webhook_batch :: nat where "webhook_batch = 20"

definition webhook_turn ::
  "'addr worker_config \<Rightarrow> (int \<Rightarrow> ('w, dispatch_stats) io) \<Rightarrow> bool \<Rightarrow> worker_metrics \<Rightarrow> 'w \<Rightarrow> turn \<times> worker_metrics \<times> 'w" where
  "webhook_turn cfg dispatch stopping m w =
     (if stopping then (Stop, m, w)
      else (case dispatch (int webhook_batch) w of
              (Inr stats, v) \<Rightarrow>
                (if ds_claimed stats = webhook_batch then Again else Idle (wc_poll_interval cfg),
                 webhooks_dispatched stats m, v)
            | (Inl e, v) \<Rightarrow> (Idle (wc_poll_interval cfg), m, v)))"

text \<open>The reconciler and the sampler wait in every turn; here the turn begins after the wait, or ends with it.\<close>

definition contingency_turn :: "'db world processor \<Rightarrow> bool \<Rightarrow> 'db world \<Rightarrow> turn \<times> 'db world" where
  "contingency_turn p stopping w =
     (if stopping then (Stop, w) else (Again, snd (processor_requeue_contingency p 100 w)))"

definition sampler_turn :: "'db world job_repository \<Rightarrow> worker_metrics \<Rightarrow> 'db world \<Rightarrow> turn \<times> worker_metrics \<times> 'db world" where
  "sampler_turn queue m w =
     (case queue_depth_of queue w of
        (r, v) \<Rightarrow> (Idle (15 * second),
          sample_breakers (circuit v) (case r of Inr d \<Rightarrow> set_queue_depth d m | Inl e \<Rightarrow> m), v))"

section \<open>The wiring\<close>

text \<open>
  The processor of the worker: PostgreSQL, the signer of the tenants, and the client of the DIAN that
  signs its envelopes with the same signer.
\<close>

definition worker_soap ::
  "'addr worker_config \<Rightarrow> 'db world crypto_signer \<Rightarrow> 'db world http_lib \<Rightarrow> 'db world dian_soap_client" where
  "worker_soap cfg sign H = soap_port H (dian_client_new sign (wc_dian_hab_url cfg) (wc_dian_prod_url cfg))"

definition worker_processor ::
  "'addr worker_config \<Rightarrow> (instant \<Rightarrow> string) \<Rightarrow> row_locks \<Rightarrow> crypto_lib \<Rightarrow> pg world signer_config \<Rightarrow> pg world http_lib \<Rightarrow>
   engine \<Rightarrow> pg world processor" where
  "worker_processor cfg date_naive locked L signing H eng =
     (let sign = tenant_signer L signing pg_certificates
      in \<lparr>p_documents = pg_documents date_naive, p_jobs = pg_jobs locked, p_signer = sign,
          p_soap = worker_soap cfg sign H, p_engine = eng, p_config = wc_processor cfg\<rparr>)"

text \<open>At the end all permits are acquired at once, \<open>u32::MAX\<close> of them if there are more.\<close>

definition drain_permits :: "'addr worker_config \<Rightarrow> nat" where
  "drain_permits cfg = (if wc_max_concurrent_jobs cfg < 2 ^ 32 then wc_max_concurrent_jobs cfg else 2 ^ 32 - 1)"

section \<open>The claim loop as a state machine\<close>

text \<open>
  The permits that are free, the claimed jobs that wait for theirs, the jobs that run, whether the signal
  to stop was given, and whether the loop has returned. A job that runs ends with its result, or is cut
  off at its time limit; \<open>cutoff j w v\<close> says what it may have done until then.
\<close>

record worker_state =
  wk_free :: nat
  wk_starting :: "job list"
  wk_running :: "job list"
  wk_stopping :: bool
  wk_returned :: bool

definition worker_start :: "'addr worker_config \<Rightarrow> worker_state" where
  "worker_start cfg = \<lparr>wk_free = wc_max_concurrent_jobs cfg, wk_starting = [], wk_running = [],
     wk_stopping = False, wk_returned = False\<rparr>"

definition next_turn :: "'addr worker_config \<Rightarrow> 'db world processor \<Rightarrow> worker_state \<Rightarrow> 'db world \<Rightarrow> turn \<times> 'db world" where
  "next_turn cfg p s w = claim_turn cfg (p_jobs p) (wk_stopping s) (wk_free s) w"

definition at_head :: "worker_state \<Rightarrow> bool" where
  "at_head s \<longleftrightarrow> \<not> wk_returned s \<and> wk_starting s = []"

definition job_ended :: "job list \<Rightarrow> job list \<Rightarrow> worker_state \<Rightarrow> worker_state" where
  "job_ended before later s = s\<lparr>wk_free := wk_free s + 1, wk_running := before @ later\<rparr>"

inductive worker_step ::
  "'addr worker_config \<Rightarrow> 'db world processor \<Rightarrow> (job \<Rightarrow> 'db world \<Rightarrow> 'db world \<Rightarrow> bool) \<Rightarrow>
   worker_state \<times> 'db world \<Rightarrow> worker_state \<times> 'db world \<Rightarrow> bool"
  for cfg :: "'addr worker_config" and p :: "'db world processor" and cutoff :: "job \<Rightarrow> 'db world \<Rightarrow> 'db world \<Rightarrow> bool"
where
  signal: "worker_step cfg p cutoff (s, w) (s\<lparr>wk_stopping := True\<rparr>, w)"
| returns: "at_head s \<Longrightarrow> next_turn cfg p s w = (Stop, v) \<Longrightarrow> worker_step cfg p cutoff (s, w) (s\<lparr>wk_returned := True\<rparr>, v)"
| waits: "at_head s \<Longrightarrow> next_turn cfg p s w = (Wait_permit, v) \<Longrightarrow> worker_step cfg p cutoff (s, w) (s, v)"
| idles: "at_head s \<Longrightarrow> next_turn cfg p s w = (Idle d, v) \<Longrightarrow> worker_step cfg p cutoff (s, w) (s, v)"
| claims: "at_head s \<Longrightarrow> next_turn cfg p s w = (Run_jobs js, v) \<Longrightarrow>
    worker_step cfg p cutoff (s, w) (s\<lparr>wk_starting := js\<rparr>, v)"
| starts: "wk_starting s = j # js \<Longrightarrow> 0 < wk_free s \<Longrightarrow>
    worker_step cfg p cutoff (s, w)
      (s\<lparr>wk_free := wk_free s - 1, wk_starting := js, wk_running := wk_running s @ [j]\<rparr>, w)"
| finishes: "wk_running s = before @ j # later \<Longrightarrow> process p j w = (r, v) \<Longrightarrow>
    worker_step cfg p cutoff (s, w) (job_ended before later s, v)"
| times_out: "wk_running s = before @ j # later \<Longrightarrow> cutoff j w v \<Longrightarrow>
    worker_step cfg p cutoff (s, w) (job_ended before later s, v)"

inductive_cases worker_stepE: "worker_step cfg p cutoff (s, w) (s', w')"

abbreviation worker_reaches ::
  "'addr worker_config \<Rightarrow> 'db world processor \<Rightarrow> (job \<Rightarrow> 'db world \<Rightarrow> 'db world \<Rightarrow> bool) \<Rightarrow>
   worker_state \<times> 'db world \<Rightarrow> worker_state \<times> 'db world \<Rightarrow> bool" where
  "worker_reaches cfg p cutoff \<equiv> (worker_step cfg p cutoff)\<^sup>*\<^sup>*"

text \<open>
  What the loop asks of the queue and the processor: a claim gives no more jobs than asked for, and nothing
  destroys what the store promises (\<open>ok\<close>).
\<close>

locale worker_queue =
  fixes p :: "'db world processor" and cutoff :: "job \<Rightarrow> 'db world \<Rightarrow> 'db world \<Rightarrow> bool" and ok :: "'db world \<Rightarrow> bool"
  assumes claim_ok: "ok w \<Longrightarrow> claim (p_jobs p) worker limit lease w = (r, v) \<Longrightarrow> ok v"
    and claim_limit: "ok w \<Longrightarrow> claim (p_jobs p) worker limit lease w = (Inr js, v) \<Longrightarrow> int (length js) \<le> limit"
    and process_ok: "ok w \<Longrightarrow> process p j w = (q, v) \<Longrightarrow> ok v"
    and cut_ok: "ok w \<Longrightarrow> cutoff j w v \<Longrightarrow> ok v"
begin

definition balanced :: "'addr worker_config \<Rightarrow> worker_state \<times> 'db world \<Rightarrow> bool" where
  "balanced cfg = (\<lambda>(s, w). wk_free s + length (wk_running s) = wc_max_concurrent_jobs cfg \<and>
     length (wk_starting s) \<le> wk_free s \<and> ok w)"

lemma next_turn_ok:
  assumes "ok w" "next_turn cfg p s w = (t, v)"
  shows "ok v" and "t = Run_jobs js \<Longrightarrow> length js \<le> wk_free s"
  using assms claim_ok claim_limit
  by (fastforce simp: next_turn_def claim_turn_def split: if_splits prod.splits sum.splits)+

lemma step_balanced: "worker_step cfg p cutoff x y \<Longrightarrow> balanced cfg x \<Longrightarrow> balanced cfg y"
  by (induction rule: worker_step.induct)
    (auto simp: balanced_def job_ended_def at_head_def next_turn_ok dest: next_turn_ok process_ok cut_ok)

lemma reaches_balanced: "worker_reaches cfg p cutoff x y \<Longrightarrow> balanced cfg x \<Longrightarrow> balanced cfg y"
  by (induction rule: rtranclp_induct) (blast intro: step_balanced)+

lemma start_balanced: "ok w \<Longrightarrow> balanced cfg (worker_start cfg, w)"
  by (simp add: balanced_def worker_start_def)

end

section \<open>The worker over PostgreSQL\<close>

text \<open>
  Among peers that obey the guarantee of the store: a claim gives no more jobs than its limit, and what a
  job does, to its end or until it is cut off, keeps the invariants.
\<close>

definition pg_ok :: "pg world \<Rightarrow> bool" where
  "pg_ok w \<longleftrightarrow> peers_in (obeys pg_guarantee) w \<and> pg_inv (db w)"

definition pg_cutoff :: "job \<Rightarrow> pg world \<Rightarrow> pg world \<Rightarrow> bool" where
  "pg_cutoff j w v \<longleftrightarrow> pg_guarantee (db w) (db v) \<and> peers_in (obeys pg_guarantee) v"

abbreviation kv_signing ::
  "crypto_lib \<Rightarrow> vault_io \<Rightarrow> 'k rsa_lib \<Rightarrow> vault_client \<Rightarrow> key_mode \<Rightarrow> 'db world signer_config" where
  "kv_signing L V R vc mode \<equiv> \<lparr>sc_provider = kv_provider L V R clock vc, sc_mode = mode\<rparr>"

abbreviation wired_processor where
  "wired_processor cfg dn locked L V R vc mode answer H eng \<equiv>
     worker_processor cfg dn locked L (kv_signing L V R vc mode) (timed_http answer H) eng"

interpretation wired: processor_ports "obeys pg_guarantee" pg_guarantee
  "wired_processor cfg dn locked L V R vc mode answer H eng" for cfg dn locked L V R vc mode answer H eng
  by (simp add: processor_ports_def worker_processor_def worker_soap_def dian_client_new_def Let_def
      pg_document_port.document_port_axioms pg_job_port.job_port_axioms pg_kv_signing.signer_port_axioms
      pg_soap.dian_port_axioms)

lemma within_ok: "World.within (obeys pg_guarantee) pg_guarantee m \<Longrightarrow> pg_ok w \<Longrightarrow> m w = (r, v) \<Longrightarrow> pg_ok v"
  using withinD[of "obeys pg_guarantee" pg_guarantee m w r v] by (simp add: pg_ok_def pg_guarantee_def)

lemma claim_tx_limit:
  assumes "claim_tx locked worker limit lease now s = Inr (js, t)" "pg_inv s"
  shows "int (length js) \<le> limit"
proof -
  obtain cs :: "job_row list" where cs: "int (length cs) \<le> limit"
    and t: "jobs t = update_rows (\<lambda>j. jr_id j \<in> jr_id ` set cs)
      (\<lambda>j. (leased worker (now + lease) j)\<lparr>jr_updated_at := now\<rparr>) (jobs s)"
    and js: "js = map job_of_row (filter (\<lambda>j. jr_id j \<in> jr_id ` set cs) (jobs t))"
    using assms(1) by (rule claim_tx_effect)
  have "unique_on jr_id (jobs s)" using assms(2) by (simp add: pg_inv_def pg_constraints_def jobs_ok_def)
  then have "unique_on jr_id (jobs t)" unfolding t by (subst unique_on_update_rows) (simp_all add: leased_def)
  from filter_ids_length[OF this, of cs] cs show ?thesis by (simp add: js)
qed

lemma pg_claim_limit:
  assumes "pg_ok w" "pg_claim locked worker limit lease w = (Inr js, v)"
  shows "int (length js) \<le> limit"
proof -
  obtain q u where 1: "tx bury_expired_tx w = (q, u)" by force
  have "World.within (obeys pg_guarantee) pg_guarantee (tx bury_expired_tx)"
    by (auto intro: store.transaction quiet_guarantee job_tx_quiet)
  from within_ok[OF this assms(1) 1] have u: "pg_ok u" .
  then have seen: "pg_inv (seen u)" using store.seen_in[of u] by (auto simp: pg_ok_def pg_guarantee_def)
  from assms(2) 1 have 2: "tx (claim_tx locked worker limit lease) u = (Inr js, v)"
    by (auto simp: pg_claim_def io_bind_def split: sum.splits)
  then obtain s where "claim_tx locked worker limit lease (clock u) (seen u) = Inr (js, s)"
    by (cases rule: tx_cases) auto
  from claim_tx_limit[OF this seen] show ?thesis .
qed

interpretation pg_worker: worker_queue "wired_processor cfg dn locked L V R vc mode answer H eng" pg_cutoff pg_ok
  for cfg dn locked L V R vc mode answer H eng
proof
  fix w v :: "pg world"
  assume w: "pg_ok w"
  have queue: "p_jobs (wired_processor cfg dn locked L V R vc mode answer H eng) = pg_jobs locked"
    by (simp add: worker_processor_def Let_def)
  show "pg_ok v" if "claim (p_jobs (wired_processor cfg dn locked L V R vc mode answer H eng)) worker limit lease w = (r, v)"
    for worker limit lease r
    using within_ok[OF pg_job_port.claim_within w] that unfolding queue by blast
  show "int (length js) \<le> limit"
    if "claim (p_jobs (wired_processor cfg dn locked L V R vc mode answer H eng)) worker limit lease w = (Inr js, v)"
    for worker limit lease js
    using pg_claim_limit[OF w] that unfolding queue by (simp add: pg_jobs_def)
  show "pg_ok v" if "process (wired_processor cfg dn locked L V R vc mode answer H eng) j w = (q, v)" for j q
    by (rule within_ok[OF wired.processing.process_within w that])
  show "pg_ok v" if "pg_cutoff j w v" for j
    using w that by (simp add: pg_ok_def pg_cutoff_def pg_guarantee_def)
qed

lemma configured_limits:
  assumes "worker_config_from_env parse_addr pid env = Inr cfg"
  shows "wc_job_timeout cfg < wc_job_lease cfg" "1 \<le> wc_max_concurrent_jobs cfg"
  using assms by (auto simp: worker_config_from_env_def bind_ok_Inr_iff split: if_splits)

end
