(* ===== verification/Worker_Properties.thy ===== *)
theory Worker_Properties
  imports Worker_Main Soap_Properties
begin

text \<open>
  The claim loop of the worker in every run: its permits, the jobs it starts, and the database it leaves,
  with the configuration read from the environment and the wiring of the binary.
\<close>

definition ex_env :: environment where
  "ex_env = [''DATABASE_URL'' \<mapsto> ''db'']"

lemma ex_env_values: "optional_env ex_env name = (if name = ''DATABASE_URL'' then Some ''db'' else None)"
proof -
  have "trim ''db'' = ''db''" by (rule trim_plain) (auto simp: byte_def)
  then show ?thesis by (simp add: optional_env_def ex_env_def)
qed

lemma ex_worker_config:
  "\<exists>cfg. worker_config_from_env (\<lambda>_. Some ()) 7 ex_env = Inr cfg \<and> wc_max_concurrent_jobs cfg = 5 \<and>
     wc_worker_id cfg = ''worker-7'' \<and> wc_job_lease cfg = 600000000000"
proof -
  have seven: "nat_dec 7 = ''7''" by code_simp
  show ?thesis
    by (simp add: worker_config_from_env_def seconds_env_def parsed_env_def required_env_def metrics_addr_env_def worker_id_env_def
      env_or_def ex_env_values second_def seven)
qed


abbreviation ex_worker :: "unit worker_config \<Rightarrow> pg world processor" where
  "ex_worker cfg \<equiv> wired_processor cfg (\<lambda>_. ''date'') (\<lambda>_ _ _. False) ex_lib ex_vault ex_rsa ex_client PerTenantVault
     (\<lambda>_ _ _ _. Inl ''no'') ex_http ex_engine"

lemma ex_worker_jobs: "p_jobs (ex_worker cfg) = pg_jobs (\<lambda>_ _ _. False)"
  by (simp add: worker_processor_def Let_def)

lemma ex_worker_runs:
  assumes cfg: "wc_max_concurrent_jobs cfg = 5" "wc_worker_id cfg = ''worker-7''" "wc_job_lease cfg = 600000000000"
  shows "\<exists>s w. worker_reaches cfg (ex_worker cfg) pg_cutoff (worker_start cfg, sys_world ex_pending) (s, w) \<and>
    wk_running s = [ex_claimed 11 10 1]"
proof -
  let ?w = "sys_world ex_pending" and ?s = "worker_start cfg"
  have "fst (claim (pg_jobs (\<lambda>_ _ _. False)) ''worker-7'' 5 600000000000 ?w) = Inr [ex_claimed 11 10 1]" by code_simp
  then obtain v where v: "claim (pg_jobs (\<lambda>_ _ _. False)) ''worker-7'' 5 600000000000 ?w = (Inr [ex_claimed 11 10 1], v)"
    by (metis prod.collapse)
  have "next_turn cfg (ex_worker cfg) ?s ?w = (Run_jobs [ex_claimed 11 10 1], v)"
    using v by (simp add: next_turn_def claim_turn_def ex_worker_jobs worker_start_def cfg)
  from worker_step.claims[OF _ this, of pg_cutoff]
  have "worker_step cfg (ex_worker cfg) pg_cutoff (?s, ?w) (?s\<lparr>wk_starting := [ex_claimed 11 10 1]\<rparr>, v)"
    by (simp add: at_head_def worker_start_def)
  moreover have "worker_step cfg (ex_worker cfg) pg_cutoff (?s\<lparr>wk_starting := [ex_claimed 11 10 1]\<rparr>, v)
      (?s\<lparr>wk_starting := [ex_claimed 11 10 1], wk_free := 4, wk_starting := [], wk_running := [ex_claimed 11 10 1]\<rparr>, v)"
    using worker_step.starts[of "?s\<lparr>wk_starting := [ex_claimed 11 10 1]\<rparr>" "ex_claimed 11 10 1" "[]" cfg "ex_worker cfg" pg_cutoff v]
    by (simp add: worker_start_def cfg)
  ultimately show ?thesis by (intro exI conjI, rule rtranclp_trans[OF r_into_rtranclp r_into_rtranclp]) auto
qed


end
