(* ===== verification/Spec2Isabelle.thy ===== *)
theory Spec2Isabelle
  imports Store_Properties Queue_Properties Processing_Outcomes Issue_Properties Admin_Audit Core_Properties
    Webhook_Properties Mem_Refinement Inbound_Properties Queue_Termination Api_Properties Nit
    C14n_Properties Verification_Properties Soap_Properties Worker_Properties
begin

text \<open>
  A verification development for Dian-Service: electronic invoicing with the Colombian tax authority (DIAN).
  A multi-tenant API accepts documents, numbers and stores them in PostgreSQL, and queues jobs; workers sign
  the UBL XML, send it to the DIAN and poll for its answer; every change of status is notified to the webhooks
  of the tenant through an outbox. Invoices of suppliers are received and RADIAN events registered on them; an
  administration API sets up tenants, keys, certificates and numbering resolutions.

  \<^bold>\<open>How the program is modelled.\<close> The workspace is hexagonal: \<open>core-domain\<close> has the data and the ports
  (traits), \<open>application\<close> the use cases over the ports, \<open>infra-postgres\<close> and \<open>testing.rs\<close> two stores that
  implement them. The model keeps this shape. A struct is a \<open>record\<close>, an enum a \<open>datatype\<close>, a port a record of
  operations, a use case a function of the ports it is given. An operation has type \<open>('w, 'a) io\<close>: it takes the
  world \<open>'w\<close> and returns the error or the answer together with the new world; \<open>?\<close> is \<open>io_bind\<close>. The world
  (\<open>World\<close>) has the clock, the supply of UUIDs, random draws, the circuit breakers, the log of calls to the
  DIAN, the store, and two lists that stand for the environment: \<open>faults\<close> (which of the coming transactions is
  rolled back, or committed with its acknowledgement lost) and \<open>peers\<close> (what other processes commit just before
  each coming transaction). Errors are values of \<open>domain_error\<close>; a panic is \<open>Panicked\<close> where one can happen.
  Integers that can overflow are kept at their width (\<open>i32_wrap\<close>, \<open>w word\<close>); strings are UTF-8 bytes.

  \<^bold>\<open>Theories and sources.\<close>
  \<^item> \<open>Prelude\<close> (tables as lists of rows, \<open>i32\<close>, rendering of numbers, results), \<open>Rust_Text\<close> (operations on \<open>str\<close>).
  \<^item> \<open>core-domain/src\<close>: \<open>Models\<close> (\<open>models.rs\<close>), \<open>Lifecycle\<close> (\<open>lifecycle.rs\<close>), \<open>Ports\<close> (\<open>ports.rs\<close>, \<open>jobs.rs\<close>,
    \<open>admin.rs\<close>), \<open>Numbering\<close> (\<open>numbering.rs\<close>), \<open>Webhook_Rules\<close> (\<open>webhooks.rs\<close>), \<open>Api_Keys\<close>, \<open>Nit\<close>, \<open>Money\<close> (the
    files of these names), \<open>Mem_Store\<close> and \<open>Mem_Queue\<close> (\<open>testing.rs\<close>).
  \<^item> \<open>infra-postgres/src/lib.rs\<close> and \<open>migrations/\<close>: \<open>Pg_Tables\<close> (tables, constraints, SQL errors), \<open>Pg_Documents\<close>,
    \<open>Pg_Jobs\<close>, \<open>Pg_Webhooks\<close>, \<open>Pg_Admin\<close> (one definition per transaction, \<open>..._tx\<close>, and one per operation, \<open>pg_...\<close>).
  \<^item> \<open>application/src\<close>: \<open>Resilience\<close> (\<open>resilience.rs\<close>), \<open>Processing\<close> (\<open>processing.rs\<close>), \<open>Issue_Service\<close> (\<open>issue.rs\<close>),
    \<open>Admin_Service\<close> (\<open>admin.rs\<close>), \<open>Webhook_Service\<close> (\<open>webhooks.rs\<close>, and \<open>worker/src/webhook_http.rs\<close>), \<open>Xml_Reading\<close>
    (\<open>xml.rs\<close>), \<open>Inbound_Service\<close> (\<open>inbound.rs\<close>), \<open>Radian_Service\<close> (\<open>radian.rs\<close>).
  \<^item> \<open>ubl-engine/src\<close>: \<open>Ubl_Payload\<close> and \<open>Ubl_Validation\<close> (\<open>payload.rs\<close>), \<open>Ubl_Lines\<close> (\<open>model.rs\<close>, \<open>error.rs\<close>), \<open>Ubl_Xml\<close>
    (\<open>lib.rs\<close>, \<open>cufe.rs\<close>, \<open>packaging.rs\<close>, \<open>templates.rs\<close>).
  \<^item> \<open>api-server/src\<close>, \<open>observability/src/lib.rs\<close>: \<open>Api_Http\<close> (answers, errors, authentication, the handlers of
    \<open>handlers.rs\<close>, \<open>events.rs\<close>, \<open>admin.rs\<close>, \<open>webhooks.rs\<close>, probes), \<open>Api_Server\<close> (\<open>config.rs\<close>, the table of routes of
    \<open>lib.rs\<close>, the wiring of \<open>main.rs\<close>), \<open>Api_Isolation\<close> and \<open>Api_Properties\<close> (what they guarantee).
  \<^item> \<open>crypto-signer/src\<close>: \<open>Xml_Tokens\<close> (\<open>error.rs\<close>, the events of the tokenizer, \<open>BTreeMap\<close>), \<open>C14n\<close> (\<open>c14n.rs\<close>),
    \<open>Xml_Signing\<close> (\<open>xmlutil.rs\<close>, \<open>xades.rs\<close>, \<open>wssec.rs\<close>, \<open>lib.rs\<close>), \<open>Tenant_Signing\<close> (\<open>vault.rs\<close>, \<open>provider.rs\<close>,
    \<open>signer.rs\<close>), \<open>Signature_Check\<close> (\<open>verify.rs\<close>).
  \<^item> \<open>dian-soap-client/src\<close>: \<open>Soap_Client\<close>. \<open>worker/src\<close>: \<open>Worker_Main\<close> (\<open>main.rs\<close>, \<open>metrics.rs\<close>): the configuration,
    one turn of every loop, the wiring, and the claim loop with its permits as a step relation.
  \<^item> \<open>System\<close>: the whole service as a state machine (\<open>sys_reachable\<close>): any number of API calls, worker runs,
    administrators and the passing of time over one database, with failing transactions and late or repeated
    processing of claimed jobs.

  \<^bold>\<open>Interfaces.\<close> \<open>Port_Laws\<close> has one locale per port: whatever an operation does to the store is a step of the
  store's guarantee. The processor is proved against the locales (\<open>job_sending\<close>, \<open>job_processing\<close> in
  \<open>Processing\<close>); \<open>Pg_Invariants\<close> interprets them with \<open>pg_guarantee\<close> (constraints, numbering, lifecycle) and
  \<open>Pg_Work\<close> with the guarantee that no document loses its job. \<open>Tenant_Signing\<close> states what the signer asks of its
  provider and of the certificates (\<open>provider_port\<close>, \<open>certificate_port\<close>) and derives the law of the port
  \<open>signer_port\<close>; \<open>Soap_Client\<close> derives that of \<open>dian_port\<close> from it (\<open>soap_sending\<close>); \<open>Worker_Main\<close> interprets the
  ports of the processor with them, as \<open>main.rs\<close> wires them, and states what the claim loop asks of the queue
  (\<open>worker_queue\<close>). \<open>Models\<close> has the contract of the \<open>text_enum!\<close> macro, \<open>Money\<close> that of the decimal library, and
  \<open>Mem_Refinement\<close> forward simulations between two stores.

  \<^bold>\<open>What the properties show.\<close>
  \<^item> The system (this theory): no document is lost, numbers have no gaps, documents follow the lifecycle, one
    active job per document and kind, rows are well formed, and the processor keeps all this among peers.
  \<^item> The store (\<open>Store_Properties\<close>, \<open>Queue_Properties\<close>, \<open>Queue_Termination\<close>, \<open>Mem_Refinement\<close>): issuing is all or
    nothing and idempotent, a status change commits with its outbox, leases are exclusive, the queue runs out,
    and the in-memory store of the tests refines the database.
  \<^item> The processor (\<open>Processing_Properties\<close>, \<open>Processing_Outcomes\<close>): what is sent is what is stored, nothing is
    sent blindly again, and the outcome of every answer of the DIAN.
  \<^item> The use cases (\<open>Issue_Properties\<close>, \<open>Admin_Properties\<close>, \<open>Admin_Audit\<close>, \<open>Webhook_Properties\<close>,
    \<open>Inbound_Properties\<close>) and the pure modules (\<open>Core_Properties\<close>, \<open>Ubl_Properties\<close>, \<open>Nit\<close>, \<open>Api_Keys\<close>,
    \<open>Webhook_Rules\<close>).
  \<^item> The API (\<open>Api_Isolation\<close>, \<open>Api_Properties\<close>): tenants are isolated, documents are shown to their owner
    only, a repeated POST replays, the administration needs its token, received archives are bounded.
  \<^item> Signatures (\<open>C14n_Properties\<close>, \<open>Signing_Properties\<close>, \<open>Verification_Properties\<close>, \<open>Soap_Properties\<close>): the
    canonical form depends on the content only and its tags read back; a document is signed as it is with the
    certificate of its tenant; what a verified document is, and two things the verification overlooks; the
    DIAN is asked with signed envelopes, in which a body cannot forge the place of the signature.
  \<^item> The worker (\<open>Worker_Properties\<close>): it stays within its permits and leaves a consistent database.
  The witnesses run on the small system of \<open>Examples\<close> and on the libraries at the end of \<open>Signing_Properties\<close>.

  \<^bold>\<open>Parameters.\<close> Code outside the repository is an argument: decimals (\<open>rust_decimal\<close>), hashes, HMAC, RSA (\<open>ring\<close>),
  X.509, Base64, the template engine, ZIP, \<open>serde\<close>, the texts of instants (\<open>chrono\<close>), the URL parser, DNS, the HTTP
  client and Vault behind it, the matching of routes and the extraction of requests (\<open>axum\<close>), the tokenizers of
  \<open>quick-xml\<close> (with and without namespaces), the program \<open>xmlsec1\<close>, and the answers of the DIAN: an arbitrary
  function of the time, the calls so far and the call in \<open>System\<close>, of the time and the HTTP request in
  \<open>Soap_Client\<close>. Laws they are assumed to obey appear as hypotheses.

  \<^bold>\<open>Bounds.\<close> No definition uses fuel: loops are structural recursions or have a termination proof (the searches
  for a tag in \<open>Xml_Reading\<close> and \<open>Soap_Client\<close> by the length of the text that is left). An operation reads the
  clock once. Row locks are not modelled beyond \<open>SKIP LOCKED\<close>, whose effect is the parameter \<open>locked\<close>: a transaction
  is one step. Column lengths are not modelled; timestamps keep their nanoseconds. The cache of the Transit provider
  lives where a \<open>cache_slot\<close> says; the laws of the signer are interpreted for the local key and for Vault KV.

  \<^bold>\<open>Not modelled.\<close> \<open>core-domain/src/time.rs\<close> (one call of \<open>chrono\<close>) and \<open>test_support.rs\<close> (fixtures); the HTTP
  metrics of the API, the histogram and the exposition of the metrics (\<open>prometheus_client\<close>), tracing; signals,
  sockets, the connection pool, the health probe of the database and the asynchronous runtime (a turn of a loop
  is a step); the removal of the temporary file after a verification.
\<close>

section \<open>Properties of the running system\<close>



text \<open>
  C2. Numbering without gaps. In every reachable state the outbound documents of a resolution carry,
  in the order in which they were issued, consecutive numbers that start inside the authorised range
  and end at the counter of the resolution, which never passes the limit.
\<close>

theorem numbering_without_gaps:
  assumes "sys_start \<sigma>" "sys_reachable D \<sigma> \<tau>" "r \<in> set (ranges (db (sys_world \<tau>)))"
    and "filter (\<lambda>d. d_numbering_range_id d = Some (r_id r)) (documents (db (sys_world \<tau>))) \<noteq> []"
  shows "\<exists>a \<ge> r_from_number r.
    map d_document_number (filter (\<lambda>d. d_numbering_range_id d = Some (r_id r)) (documents (db (sys_world \<tau>))))
      = [a..r_current_counter r] \<and> r_current_counter r \<le> r_to_number r"
proof -
  have "sys_inv \<tau>" using assms(1,2) by (blast intro: reachable_inv start_inv)
  with assms(3) have "gapless r (documents (db (sys_world \<tau>)))" "range_ok r"
    by (auto simp: sys_inv_def pg_inv_def numbering_inv_def)
  with assms(4) show ?thesis by (auto simp: gapless_def numbers_of_def range_ok_def)
qed

theorem numbering_without_gaps_witness:
  "\<exists>a \<ge> 1. map d_document_number (filter (\<lambda>d. d_numbering_range_id d = Some 2)
      (documents (db (sys_world ex_pending)))) = [a..1] \<and> (1 :: int) \<le> 10"
proof -
  let ?r = "hd (ranges (db (sys_world ex_pending)))"
  have "?r \<in> set (ranges (db (sys_world ex_pending)))" "r_id ?r = 2" "r_from_number ?r = 1"
    "r_current_counter ?r = 1" "r_to_number ?r = 10"
    "filter (\<lambda>d. d_numbering_range_id d = Some (r_id ?r)) (documents (db (sys_world ex_pending))) \<noteq> []"
    by code_simp+
  with numbering_without_gaps[OF ex_start_start ex_pending_reachable this(1) this(6)] show ?thesis by simp
qed

text \<open>
  C3. The lifecycle of a document. Whatever the system does after a state it has reached, a document
  stays in the database with its number, owner, type, payload and resolution, and its status moves
  along the steps of \<open>can_transition_to\<close> only; once accepted, rejected or failed it never changes.
\<close>

theorem document_lifecycle:
  assumes "sys_start \<sigma>" "sys_reachable D \<sigma> \<tau>" "sys_reachable D \<tau> \<upsilon>"
    and "find_row (\<lambda>d. d_id d = i) (documents (db (sys_world \<tau>))) = Some d"
  shows "\<exists>e. find_row (\<lambda>d. d_id d = i) (documents (db (sys_world \<upsilon>))) = Some e \<and>
    document_follows d e \<and> (if is_terminal (d_status d) then d_status e = d_status d
                             else status_path (d_status d) (d_status e))"
proof -
  have t: "sys_inv \<tau>" using assms(1,2) by (blast intro: reachable_inv start_inv)
  then have "sys_inv \<upsilon>" using assms(3) by (blast intro: reachable_inv)
  then have "unique_on d_id (documents (db (sys_world \<upsilon>)))"
    by (simp add: sys_inv_def pg_inv_def pg_constraints_def documents_ok_def)
  from evolves_find[OF reachable_evolves[OF assms(3) t] this assms(4)]
  obtain e where "find_row (\<lambda>d. d_id d = i) (documents (db (sys_world \<upsilon>))) = Some e" "document_follows d e"
    by blast
  moreover from this(2) have "status_path (d_status d) (d_status e)" by (simp add: document_follows_def)
  ultimately show ?thesis by (auto dest: terminal_path)
qed

theorem document_lifecycle_witness:
  "\<exists>e. find_row (\<lambda>d. d_id d = 10) (documents (db (sys_world ex_accepted))) = Some e \<and>
     d_document_number e = 1 \<and> status_path Pending (d_status e) \<and> d_status e = DianAccepted"
proof -
  let ?d = "hd (documents (db (sys_world ex_running)))"
  have d: "find_row (\<lambda>d. d_id d = 10) (documents (db (sys_world ex_running))) = Some ?d"
    "d_status ?d = Pending" "d_document_number ?d = 1"
    by code_simp+
  have start: "sys_reachable accepting ex_start ex_running"
    using ex_pending_reachable ex_running_reachable by (auto simp: sys_reachable_def)
  from document_lifecycle[OF ex_start_start start ex_accepted_reachable d(1)] d(2,3)
  obtain e where e: "find_row (\<lambda>d. d_id d = 10) (documents (db (sys_world ex_accepted))) = Some e"
    "d_document_number e = 1" "status_path Pending (d_status e)"
    by (auto simp: document_follows_def document_key_def)
  moreover have "d_status e \<in> set (map d_status (documents (db (sys_world ex_accepted))))"
    using find_row_SomeD[OF e(1)] by simp
  ultimately show ?thesis using ex_accepted_state by simp
qed

text \<open>
  C4. No duplicate transmission jobs. In every reachable state a document has at most one job of each
  kind that is queued or running.
\<close>

theorem one_active_job_per_document:
  assumes "sys_start \<sigma>" "sys_reachable D \<sigma> \<tau>"
    and "r \<in> set (jobs (db (sys_world \<tau>)))" "is_active_job_status (jr_status r)"
    and "q \<in> set (jobs (db (sys_world \<tau>)))" "is_active_job_status (jr_status q)"
    and "jr_document_id r = jr_document_id q" "jr_kind r = jr_kind q"
  shows "r = q"
proof -
  have "sys_inv \<tau>" using assms(1,2) by (blast intro: reachable_inv start_inv)
  then have u: "unique_on (\<lambda>j. (jr_document_id j, jr_kind j)) (active_jobs (jobs (db (sys_world \<tau>))))"
    by (simp add: sys_inv_def pg_inv_def pg_constraints_def jobs_ok_def one_active_job_def)
  show ?thesis by (rule unique_onD[OF u]) (use assms(3-8) in \<open>auto simp: active_jobs_def\<close>)
qed

theorem one_active_job_per_document_witness:
  "hd (jobs (db (sys_world ex_pending))) = last (jobs (db (sys_world ex_pending)))"
  by (rule one_active_job_per_document[OF ex_start_start ex_pending_reachable]) code_simp+

text \<open>
  C5. Rows are well formed. In every reachable state a job counts its attempts within an \<open>i32\<close> and belongs
  to a stored document; a delivery belongs to a stored webhook and a stored document; a document belongs to
  a stored tenant, and one that was numbered carries a number within the limits of a stored resolution; an
  idempotency key leads to a stored document; a webhook subscribes to an event that exists.
\<close>

theorem rows_are_well_formed:
  assumes "sys_start \<sigma>" "sys_reachable D \<sigma> \<tau>"
  defines "s \<equiv> db (sys_world \<tau>)"
  shows "(\<forall>j \<in> set (jobs s). 0 \<le> jr_attempts j \<and> is_i32 (jr_attempts j) \<and> 0 < jr_max_attempts j \<and>
            (\<exists>d \<in> set (documents s). d_id d = jr_document_id j)) \<and>
    (\<forall>x \<in> set (deliveries s). is_i32 (dl_attempts x) \<and> (\<exists>w \<in> set (webhooks s). w_id w = dl_webhook_id x) \<and>
            (\<exists>d \<in> set (documents s). d_id d = dl_document_id x)) \<and>
    (\<forall>d \<in> set (documents s). (\<exists>t \<in> set (tenants s). t_id t = d_tenant_id d) \<and>
            (\<forall>i. d_numbering_range_id d = Some i \<longrightarrow> (\<exists>r \<in> set (ranges s). r_id r = i \<and>
               r_from_number r \<le> d_document_number d \<and> d_document_number d \<le> r_to_number r))) \<and>
    (\<forall>k \<in> set (idempotency s). \<exists>d \<in> set (documents s). d_id d = ir_document_id k) \<and>
    (\<forall>w \<in> set (webhooks s). is_valid_subscription (w_event_type w))"
proof -
  have "sys_inv \<tau>" using assms(1,2) by (blast intro: reachable_inv start_inv)
  then have inv: "pg_inv s" by (simp add: sys_inv_def s_def)
  then have c: "pg_constraints s" by (simp add: pg_inv_def)
  have number: "\<exists>r \<in> set (ranges s). r_id r = i \<and> r_from_number r \<le> d_document_number d \<and> d_document_number d \<le> r_to_number r"
    if "d \<in> set (documents s)" "d_numbering_range_id d = Some i" for d i
  proof -
    have "document_refs s d" using c that(1) by (simp add: pg_constraints_def list_all_iff)
    with that(2) obtain r where r: "r \<in> set (ranges s)" "r_id r = i"
      by (auto simp: document_refs_def references_def)
    with inv have "range_ok r" "gapless r (documents s)" by (auto simp: pg_inv_def numbering_inv_def)
    moreover have "d_document_number d \<in> set (numbers_of (r_id r) (documents s))"
      using that r by (auto simp: numbers_of_def)
    ultimately have "r_from_number r \<le> d_document_number d" "d_document_number d \<le> r_to_number r"
      by (auto simp: gapless_def range_ok_def)
    with r show ?thesis by blast
  qed
  have owner: "\<exists>t \<in> set (tenants s). t_id t = d_tenant_id d" if "d \<in> set (documents s)" for d
  proof -
    have "document_refs s d" using c that by (simp add: pg_constraints_def list_all_iff)
    then show ?thesis by (auto simp: document_refs_def references_def)
  qed
  have in_key: "\<exists>r \<in> set rs. k r = i" if "references i k rs" for i k and rs :: "'r list"
    using that by (auto simp: references_def)
  have small: "0 \<le> x \<Longrightarrow> x \<le> i32_max \<Longrightarrow> is_i32 x" for x
    by (simp add: is_i32_def i32_min_def)
  from c show ?thesis
    by (simp add: pg_constraints_def list_all_iff job_check_def delivery_check_def number owner in_key small)
qed

theorem rows_are_well_formed_witness:
  "\<exists>d \<in> set (documents (db (sys_world ex_pending))). d_id d = jr_document_id (hd (jobs (db (sys_world ex_pending))))"
proof -
  have "hd (jobs (db (sys_world ex_pending))) \<in> set (jobs (db (sys_world ex_pending)))" by code_simp
  with rows_are_well_formed[OF ex_start_start ex_pending_reachable] show ?thesis by blast
qed

text \<open>
  C6. Processing a job among other processes. If all that other processes commit between the calls of
  the processor keeps the guarantee of the store, then whatever the processing of a job does, with
  calls failing and acknowledgements lost at any point, keeps it too: the constraints of the schema
  hold, the numbering stays without gaps, and every document follows its lifecycle.
\<close>

theorem processing_among_peers:
  assumes "pg_inv (db w)" "peers_in (obeys pg_guarantee) w"
    and "process (pg_processor dn locked sign d eng cfg) j w = (r, w')"
  shows "pg_inv (db w') \<and> evolves (documents (db w)) (documents (db w'))"
  using withinD(1)[OF pg_processing.processing.process_within assms(2,3)] assms(1)
  by (simp add: pg_guarantee_def)

text \<open>A peer that sends the example's document to contingency whenever it can.\<close>

definition ex_rival :: "pg \<Rightarrow> pg" where
  "ex_rival s = (case transition_tx (transition_new 10 ContingencyPending) ex_now 50 s of
     Inr (_, _, t) \<Rightarrow> t | Inl _ \<Rightarrow> s)"

lemma ex_rival_obeys: "obeys pg_guarantee ex_rival"
  by (auto simp: obeys_def ex_rival_def intro: store.refl transition_tx_guarantee
      split: sum.split prod.split)

theorem processing_among_peers_witness:
  "pg_inv (db (snd (process (system_processor accepting) (ex_claimed 11 10 1)
     (sys_world ex_running\<lparr>peers := [id, id, ex_rival, ex_rival], faults := [None, Some Ack_lost]\<rparr>))))"
proof -
  let ?w = "sys_world ex_running\<lparr>peers := [id, id, ex_rival, ex_rival], faults := [None, Some Ack_lost]\<rparr>"
  have "sys_reachable accepting ex_start ex_running"
    using ex_pending_reachable ex_running_reachable by (auto simp: sys_reachable_def)
  then have "sys_inv ex_running" using ex_start_start by (blast intro: reachable_inv start_inv)
  then have "pg_inv (db ?w)" by (simp add: sys_inv_def)
  moreover have "peers_in (obeys pg_guarantee) ?w"
    using ex_rival_obeys by (simp add: peers_in_def) (simp add: obeys_def store.refl)
  ultimately show ?thesis
    unfolding system_processor_def
    using processing_among_peers[of ?w _ _ _ _ _ _ "ex_claimed 11 10 1"] by (metis prod.collapse)
qed

end
